(* ===== verification/Prelude.thy ===== *)
theory Prelude
  imports Complex_Main "HOL-Library.List_Lexorder" "HOL-Library.Char_ord"
begin

section \<open>Shared notions: results, stateful programs, ordered dictionaries\<close>

text \<open>
  What every component of the development uses.
  A Python call either returns or raises: its model is a value of the sum type
  \<open>'e + 'a\<close>, \<open>Inl\<close> for the exception. A method that also changes the state
  of its object is a program of type \<open>('e, 's, 'a) prog\<close>: it takes the state and
  returns the result together with the new state, so that a state change made
  before an exception is raised is still there after it.
  Python dictionaries whose iteration order matters are association lists with the
  update rule of the language (a known key keeps its position).
\<close>

named_theorems prog_defs \<open>unfolding of the program combinators\<close>
named_theorems keeps_intro \<open>invariant rules of the program combinators\<close>

subsection \<open>Results\<close>

definition bindR :: "'e + 'a \<Rightarrow> ('a \<Rightarrow> 'e + 'b) \<Rightarrow> 'e + 'b" where
  "bindR r f = (case r of Inl e \<Rightarrow> Inl e | Inr x \<Rightarrow> f x)"

lemma bindR_simps [simp]: "bindR (Inl e) f = Inl e" "bindR (Inr x) f = f x"
  by (simp_all add: bindR_def)

lemma bindR_Inr_iff: "bindR r f = Inr y \<longleftrightarrow> (\<exists>x. r = Inr x \<and> f x = Inr y)"
  by (cases r) simp_all

fun traverse :: "('a \<Rightarrow> 'e + 'b) \<Rightarrow> 'a list \<Rightarrow> 'e + 'b list" where
  "traverse f [] = Inr []"
| "traverse f (x # xs) =
     (case f x of Inl e \<Rightarrow> Inl e
      | Inr y \<Rightarrow> (case traverse f xs of Inl e \<Rightarrow> Inl e | Inr ys \<Rightarrow> Inr (y # ys)))"

lemma traverse_cong [fundef_cong]:
  "xs = ys \<Longrightarrow> (\<And>x. x \<in> set ys \<Longrightarrow> f x = g x) \<Longrightarrow> traverse f xs = traverse g ys"
  by (induction ys arbitrary: xs) (auto split: sum.splits)

lemma traverse_Inr_iff:
  "traverse f xs = Inr ys \<longleftrightarrow> list_all2 (\<lambda>x y. f x = Inr y) xs ys"
proof (induction xs arbitrary: ys)
  case Nil
  then show ?case by auto
next
  case (Cons x xs)
  show ?case
    by (cases "f x"; cases "traverse f xs"; cases ys) (auto simp: Cons.IH [symmetric])
qed

lemma traverse_origin:
  "traverse f xs = Inr ys \<Longrightarrow> y \<in> set ys \<Longrightarrow> \<exists>x \<in> set xs. f x = Inr y"
  by (induction xs arbitrary: ys) (auto split: sum.splits)

lemma traverse_all_Inr:
  "(\<And>x. x \<in> set xs \<Longrightarrow> f x = Inr (g x)) \<Longrightarrow> traverse f xs = Inr (map g xs)"
  by (induction xs) auto

lemma traverse_Inr_self:
  "(\<And>x. x \<in> set xs \<Longrightarrow> f x = Inr x) \<Longrightarrow> traverse f xs = Inr xs"
  by (induction xs) auto

lemma find_SomeD: "find P xs = Some x \<Longrightarrow> P x \<and> x \<in> set xs"
  by (induction xs) (auto split: if_splits)

subsection \<open>Programs over a state\<close>

type_synonym ('e, 's, 'a) prog = "'s \<Rightarrow> ('e + 'a) \<times> 's"

definition retP :: "'a \<Rightarrow> ('e, 's, 'a) prog" where
  "retP x s = (Inr x, s)"

definition raiseP :: "'e \<Rightarrow> ('e, 's, 'a) prog" where
  "raiseP e s = (Inl e, s)"

definition bindP :: "('e, 's, 'a) prog \<Rightarrow> ('a \<Rightarrow> ('e, 's, 'b) prog) \<Rightarrow> ('e, 's, 'b) prog" where
  "bindP m f s = (case m s of (Inl e, t) \<Rightarrow> (Inl e, t) | (Inr x, t) \<Rightarrow> f x t)"

definition thenP :: "('e, 's, 'a) prog \<Rightarrow> ('e, 's, 'b) prog \<Rightarrow> ('e, 's, 'b) prog" where
  "thenP m k = bindP m (\<lambda>_. k)"

definition getP :: "('s \<Rightarrow> 'a) \<Rightarrow> ('e, 's, 'a) prog" where
  "getP f s = (Inr (f s), s)"

definition modP :: "('s \<Rightarrow> 's) \<Rightarrow> ('e, 's, unit) prog" where
  "modP g s = (Inr (), g s)"

definition liftP :: "'e + 'a \<Rightarrow> ('e, 's, 'a) prog" where
  "liftP r s = (r, s)"

definition failIf :: "bool \<Rightarrow> 'e \<Rightarrow> ('e, 's, unit) prog" where
  "failIf b e = (if b then raiseP e else retP ())"

definition catchP :: "('e, 's, 'a) prog \<Rightarrow> ('e \<Rightarrow> ('e, 's, 'a) prog) \<Rightarrow> ('e, 's, 'a) prog" where
  "catchP m h s = (case m s of (Inl e, t) \<Rightarrow> h e t | (Inr x, t) \<Rightarrow> (Inr x, t))"

text \<open>The \<open>finally\<close> clause: its own result is dropped, its state change is kept.\<close>

definition finallyP :: "('e, 's, 'a) prog \<Rightarrow> ('s \<Rightarrow> 's) \<Rightarrow> ('e, 's, 'a) prog" where
  "finallyP m g s = (case m s of (r, t) \<Rightarrow> (r, g t))"

lemmas [prog_defs] =
  retP_def raiseP_def bindP_def thenP_def getP_def modP_def liftP_def failIf_def
  catchP_def finallyP_def

lemma bindP_Inr_iff:
  "bindP m f s = (Inr y, t) \<longleftrightarrow> (\<exists>x u. m s = (Inr x, u) \<and> f x u = (Inr y, t))"
  by (auto simp: bindP_def split: prod.splits sum.splits)

lemma bindP_Inr_E:
  assumes "bindP m f s = (Inr y, t)"
  obtains x u where "m s = (Inr x, u)" and "f x u = (Inr y, t)"
  using assms by (auto simp: bindP_Inr_iff)

lemma thenP_Inr_E:
  assumes "thenP m k s = (Inr y, t)"
  obtains x u where "m s = (Inr x, u)" and "k u = (Inr y, t)"
  using assms by (auto simp: thenP_def bindP_Inr_iff)

lemma failIf_Inr_iff: "failIf b e s = (Inr x, t) \<longleftrightarrow> \<not> b \<and> s = t"
  by (auto simp: prog_defs)

lemma getP_Inr_iff: "getP f s = (Inr x, t) \<longleftrightarrow> x = f s \<and> s = t"
  by (auto simp: prog_defs)

lemma modP_Inr_iff: "modP g s = (Inr x, t) \<longleftrightarrow> t = g s"
  by (auto simp: prog_defs)

lemma liftP_Inr_iff: "liftP r s = (Inr x, t) \<longleftrightarrow> r = Inr x \<and> s = t"
  by (auto simp: prog_defs)

lemma retP_Inr_iff: "retP y s = (Inr x, t) \<longleftrightarrow> y = x \<and> s = t"
  by (auto simp: prog_defs)

lemma raiseP_Inr_iff: "raiseP e s = (Inr x, t) \<longleftrightarrow> False"
  by (simp add: prog_defs)

lemmas prog_Inr_iff =
  failIf_Inr_iff getP_Inr_iff modP_Inr_iff liftP_Inr_iff retP_Inr_iff raiseP_Inr_iff

subsection \<open>Relational invariants of programs\<close>

text \<open>
  \<open>keeps R m\<close>: whatever the result, the state before and the state after the
  program are related by \<open>R\<close>. With \<open>R s t = (P s \<longrightarrow> P t)\<close> it is an invariant, with
  \<open>R s t = (f s = f t)\<close> a frame condition. The rules need \<open>R\<close> to be reflexive and
  transitive, which \<open>preord\<close> states.
\<close>

definition preord :: "('s \<Rightarrow> 's \<Rightarrow> bool) \<Rightarrow> bool" where
  "preord R \<longleftrightarrow> (\<forall>s. R s s) \<and> (\<forall>s t u. R s t \<longrightarrow> R t u \<longrightarrow> R s u)"

definition keeps :: "('s \<Rightarrow> 's \<Rightarrow> bool) \<Rightarrow> ('e, 's, 'a) prog \<Rightarrow> bool" where
  "keeps R m \<longleftrightarrow> (\<forall>s. R s (snd (m s)))"

lemma preord_refl: "preord R \<Longrightarrow> R s s"
  by (simp add: preord_def)

lemma preord_trans: "preord R \<Longrightarrow> R s t \<Longrightarrow> R t u \<Longrightarrow> R s u"
  unfolding preord_def by blast

lemma preord_frame [simp, intro]: "preord (\<lambda>s t. f t = f s)"
  by (simp add: preord_def)

lemma preord_inv [simp, intro]: "preord (\<lambda>s t. P s \<longrightarrow> P t)"
  by (auto simp: preord_def)

lemma keepsD: "keeps R m \<Longrightarrow> m s = (r, t) \<Longrightarrow> R s t"
  unfolding keeps_def by (metis snd_conv)

lemma keeps_retP [keeps_intro]: "preord R \<Longrightarrow> keeps R (retP x)"
  by (simp add: keeps_def prog_defs preord_refl)

lemma keeps_raiseP [keeps_intro]: "preord R \<Longrightarrow> keeps R (raiseP e)"
  by (simp add: keeps_def prog_defs preord_refl)

lemma keeps_getP [keeps_intro]: "preord R \<Longrightarrow> keeps R (getP f)"
  by (simp add: keeps_def prog_defs preord_refl)

lemma keeps_liftP [keeps_intro]: "preord R \<Longrightarrow> keeps R (liftP r)"
  by (simp add: keeps_def prog_defs preord_refl)

lemma keeps_failIf [keeps_intro]: "preord R \<Longrightarrow> keeps R (failIf b e)"
  by (simp add: keeps_def prog_defs preord_refl)

lemma keeps_modP [keeps_intro]: "(\<And>s. R s (g s)) \<Longrightarrow> keeps R (modP g)"
  by (simp add: keeps_def prog_defs)

lemma keeps_bindP [keeps_intro]:
  assumes "preord R" and "keeps R m" and "\<And>x. keeps R (f x)"
  shows "keeps R (bindP m f)"
  unfolding keeps_def
proof
  fix s
  obtain r t where m: "m s = (r, t)" by (cases "m s")
  from assms(2) m have st: "R s t" by (rule keepsD)
  show "R s (snd (bindP m f s))"
  proof (cases r)
    case (Inl e)
    with m st show ?thesis by (simp add: bindP_def)
  next
    case (Inr x)
    from assms(3) have "R t (snd (f x t))" by (simp add: keeps_def)
    with preord_trans [OF assms(1) st] m Inr show ?thesis by (simp add: bindP_def)
  qed
qed

lemma keeps_thenP [keeps_intro]:
  "preord R \<Longrightarrow> keeps R m \<Longrightarrow> keeps R k \<Longrightarrow> keeps R (thenP m k)"
  unfolding thenP_def by (rule keeps_bindP)

lemma keeps_catchP [keeps_intro]:
  assumes "preord R" and "keeps R m" and "\<And>e. keeps R (h e)"
  shows "keeps R (catchP m h)"
  unfolding keeps_def
proof
  fix s
  obtain r t where m: "m s = (r, t)" by (cases "m s")
  from assms(2) m have st: "R s t" by (rule keepsD)
  show "R s (snd (catchP m h s))"
  proof (cases r)
    case (Inr x)
    with m st show ?thesis by (simp add: catchP_def)
  next
    case (Inl e)
    from assms(3) have "R t (snd (h e t))" by (simp add: keeps_def)
    with preord_trans [OF assms(1) st] m Inl show ?thesis by (simp add: catchP_def)
  qed
qed

lemma keeps_finallyP [keeps_intro]:
  assumes "preord R" and "keeps R m" and "\<And>s. R s (g s)"
  shows "keeps R (finallyP m g)"
  unfolding keeps_def
proof
  fix s
  obtain r t where m: "m s = (r, t)" by (cases "m s")
  from assms(2) m have st: "R s t" by (rule keepsD)
  from preord_trans [OF assms(1) st assms(3)] m show "R s (snd (finallyP m g s))"
    by (simp add: finallyP_def)
qed

lemma keeps_If [keeps_intro]:
  "(b \<Longrightarrow> keeps R m) \<Longrightarrow> (\<not> b \<Longrightarrow> keeps R k) \<Longrightarrow> keeps R (if b then m else k)"
  by simp

lemma keeps_case_option [keeps_intro]:
  "(x = None \<Longrightarrow> keeps R m) \<Longrightarrow> (\<And>y. x = Some y \<Longrightarrow> keeps R (k y)) \<Longrightarrow>
   keeps R (case x of None \<Rightarrow> m | Some y \<Rightarrow> k y)"
  by (cases x) simp_all

subsection \<open>Ordered dictionaries\<close>

text \<open>
  \<open>d[k] = v\<close> on a Python dict: a known key keeps its place in the iteration order,
  a new one goes to the end. \<open>d.pop(k, None)\<close> removes the key.
\<close>

fun dset :: "('k \<times> 'v) list \<Rightarrow> 'k \<Rightarrow> 'v \<Rightarrow> ('k \<times> 'v) list" where
  "dset [] k v = [(k, v)]"
| "dset ((a, b) # d) k v = (if a = k then (k, v) # d else (a, b) # dset d k v)"

definition dpop :: "('k \<times> 'v) list \<Rightarrow> 'k \<Rightarrow> ('k \<times> 'v) list" where
  "dpop d k = filter (\<lambda>(a, _). a \<noteq> k) d"

lemma map_of_dset [simp]: "map_of (dset d k v) = (map_of d)(k \<mapsto> v)"
  by (induction d k v rule: dset.induct) (auto simp: fun_eq_iff)

lemma map_of_dpop [simp]: "map_of (dpop d k) = (map_of d)(k := None)"
  by (induction d) (auto simp: dpop_def fun_eq_iff)

lemma keys_dset: "map fst (dset d k v) =
    (if k \<in> fst ` set d then map fst d else map fst d @ [k])"
  by (induction d k v rule: dset.induct) (auto simp: image_iff)

lemma distinct_dset: "distinct (map fst d) \<Longrightarrow> distinct (map fst (dset d k v))"
  by (simp add: keys_dset)

lemma set_dset:
  "distinct (map fst d) \<Longrightarrow> set (dset d k v) = insert (k, v) {p \<in> set d. fst p \<noteq> k}"
  by (induction d k v rule: dset.induct) (auto simp: image_iff)

lemma distinct_dpop: "distinct (map fst d) \<Longrightarrow> distinct (map fst (dpop d k))"
  by (induction d) (auto simp: dpop_def)

lemma dset_length_known: "k \<in> fst ` set d \<Longrightarrow> length (dset d k v) = length d"
  by (induction d k v rule: dset.induct) auto

subsection \<open>Strings\<close>

text \<open>
  A Python string is the list of the bytes of its UTF-8 encoding; on it the byte-wise
  lexicographic order of \<open>List_Lexorder\<close> is Python's code point order, and equality is
  equality. \<open>lower\<close> is the ASCII part of \<open>str.lower\<close>.
\<close>

definition lower_char :: "char \<Rightarrow> char" where
  "lower_char c = (let n = (of_char c :: nat) in
     if 65 \<le> n \<and> n \<le> 90 then char_of (n + 32) else c)"

definition lower :: "string \<Rightarrow> string" where
  "lower s = map lower_char s"

text \<open>\<open>f"'{s}'"\<close>.\<close>

definition quoted :: "string \<Rightarrow> string" where
  "quoted s = [CHR 0x27] @ s @ [CHR 0x27]"

definition starts_with :: "string \<Rightarrow> string \<Rightarrow> bool" where
  "starts_with s p \<longleftrightarrow> take (length p) s = p"

definition ends_with :: "string \<Rightarrow> string \<Rightarrow> bool" where
  "ends_with s p \<longleftrightarrow> length p \<le> length s \<and> drop (length s - length p) s = p"

text \<open>\<open>s.split(sep, n)\<close> for a separator of one character.\<close>

fun split_at :: "char \<Rightarrow> string \<Rightarrow> (string \<times> string) option" where
  "split_at c [] = None"
| "split_at c (x # xs) =
     (if x = c then Some ([], xs)
      else map_option (\<lambda>(a, b). (x # a, b)) (split_at c xs))"

fun split_max :: "char \<Rightarrow> nat \<Rightarrow> string \<Rightarrow> string list" where
  "split_max c 0 s = [s]"
| "split_max c (Suc n) s =
     (case split_at c s of None \<Rightarrow> [s] | Some (a, b) \<Rightarrow> a # split_max c n b)"

lemma split_at_append: "c \<notin> set a \<Longrightarrow> split_at c (a @ c # b) = Some (a, b)"
  by (induction a) auto

lemma split_at_None_iff: "split_at c s = None \<longleftrightarrow> c \<notin> set s"
  by (induction s) auto

lemma split_at_Some:
  "split_at c s = Some (a, b) \<Longrightarrow> s = a @ c # b \<and> c \<notin> set a"
  by (induction s arbitrary: a) (auto split: if_splits)

text \<open>Decimal numerals; \<open>show_pos\<close> is for numbers that are not negative.\<close>

function show_pos :: "int \<Rightarrow> string" where
  "show_pos n = (if n < 10 then [char_of (48 + n)]
                 else show_pos (n div 10) @ [char_of (48 + n mod 10)])"
  by pat_completeness auto
termination
  by (relation "measure nat") auto

declare show_pos.simps [simp del]

definition show_int :: "int \<Rightarrow> string" where
  "show_int i = (if i < 0 then CHR ''-'' # show_pos (- i) else show_pos i)"

definition show_nat :: "nat \<Rightarrow> string" where
  "show_nat n = show_pos (int n)"

definition dec_value :: "string \<Rightarrow> int" where
  "dec_value s = foldl (\<lambda>n c. 10 * n + (of_char c - 48)) 0 s"

lemma dec_value_show_pos: "0 \<le> n \<Longrightarrow> dec_value (show_pos n) = n"
proof (induction n rule: show_pos.induct)
  case (1 n)
  show ?case
  proof (cases "n < 10")
    case True
    with 1 show ?thesis by (simp add: show_pos.simps [of n] dec_value_def)
  next
    case False
    with 1 have "dec_value (show_pos (n div 10)) = n div 10" by simp
    moreover have "(of_char (char_of (48 + n mod 10) :: char) :: int) = 48 + n mod 10" by simp
    moreover have "show_pos n = show_pos (n div 10) @ [char_of (48 + n mod 10)]"
      using False by (simp only: show_pos.simps [of n] if_False)
    ultimately show ?thesis by (simp add: dec_value_def del: of_char_of)
  qed
qed

lemma show_pos_inj: "0 \<le> n \<Longrightarrow> 0 \<le> m \<Longrightarrow> show_pos n = show_pos m \<Longrightarrow> n = m"
  by (metis dec_value_show_pos)

lemma show_pos_digits: "0 \<le> n \<Longrightarrow> c \<in> set (show_pos n) \<Longrightarrow> 48 \<le> (of_char c :: int) \<and> (of_char c :: int) < 58"
proof (induction n rule: show_pos.induct)
  case (1 n)
  show ?case
  proof (cases "n < 10")
    case True
    with 1 show ?thesis by (simp add: show_pos.simps [of n])
  next
    case False
    with 1 have "c \<in> set (show_pos (n div 10)) \<Longrightarrow> 48 \<le> (of_char c :: int) \<and> (of_char c :: int) < 58" by simp
    with False 1(3) show ?thesis
      by (auto simp: show_pos.simps [of n])
  qed
qed

lemma show_nat_inj: "show_nat n = show_nat m \<longleftrightarrow> n = m"
  using show_pos_inj [of "int n" "int m"] by (auto simp: show_nat_def)

end
