(* ===== verification/PyValue.thy ===== *)
theory PyValue
  imports Prelude
begin

section \<open>JSON-compatible Python values\<close>

text \<open>
  The values that cross the wire contracts (\<open>Any\<close> in \<open>domain/models\<close>): the argument of
  \<open>domain/canonical.py\<close>, the geometry and expectations of operations, audit payloads.
  A finite float is a real number: the rounding of binary64 arithmetic is not modelled;
  infinities and NaN are separate values. A tuple and a list are one constructor, as both
  serialise to an array.
\<close>

datatype pyfloat = Fin real | PosInf | NegInf | NotANumber

datatype pyval =
    PNone
  | PBool bool
  | PInt int
  | PFloat pyfloat
  | PStr string
  | PList "pyval list"
  | PDict "(string \<times> pyval) list"

type_synonym pydict = "(string \<times> pyval) list"

lemma size_pdict_entry: "(k, v) \<in> set d \<Longrightarrow> size v < size (PDict d)"
  by (induction d) auto

lemma size_plist_entry: "v \<in> set xs \<Longrightarrow> size v < size (PList xs)"
  by (induction xs) auto

definition is_finite_float :: "pyfloat \<Rightarrow> bool" where
  "is_finite_float x = (case x of Fin _ \<Rightarrow> True | _ \<Rightarrow> False)"

text \<open>
  \<open>isinstance(v, int | float)\<close>: a bool is an int. \<open>num_of\<close> is the number that
  \<open>float(v)\<close> and \<open>==\<close> see, for the values that have a finite one.
\<close>

fun num_of :: "pyval \<Rightarrow> real option" where
  "num_of (PBool b) = Some (if b then 1 else 0)"
| "num_of (PInt i) = Some (of_int i)"
| "num_of (PFloat (Fin r)) = Some r"
| "num_of _ = None"

fun is_bool :: "pyval \<Rightarrow> bool" where
  "is_bool (PBool _) = True"
| "is_bool _ = False"

fun is_number :: "pyval \<Rightarrow> bool" where
  "is_number (PBool _) = True"
| "is_number (PInt _) = True"
| "is_number (PFloat _) = True"
| "is_number _ = False"

text \<open>
  \<open>==\<close> on Python values: numbers compare by value across bool, int and float, NaN is
  unequal to everything, lists compare element by element, dictionaries as maps.
\<close>

function py_eq :: "pyval \<Rightarrow> pyval \<Rightarrow> bool" where
  "py_eq PNone b = (b = PNone)"
| "py_eq (PBool x) b = (num_of b = Some (if x then 1 else 0))"
| "py_eq (PInt i) b = (num_of b = Some (of_int i))"
| "py_eq (PFloat f) b =
     (case f of Fin r \<Rightarrow> num_of b = Some r
      | NotANumber \<Rightarrow> False
      | _ \<Rightarrow> b = PFloat f)"
| "py_eq (PStr s) b = (b = PStr s)"
| "py_eq (PList xs) b =
     (case b of
        PList ys \<Rightarrow> length xs = length ys \<and> list_all (\<lambda>p. py_eq (fst p) (snd p)) (zip xs ys)
      | _ \<Rightarrow> False)"
| "py_eq (PDict d) b =
     (case b of
        PDict e \<Rightarrow> length d = length e \<and>
          list_all (\<lambda>p. case map_of e (fst p) of None \<Rightarrow> False | Some w \<Rightarrow> py_eq (snd p) w) d
      | _ \<Rightarrow> False)"
  by pat_completeness auto
termination
  by (relation "measure (\<lambda>(a, b). size a)")
    (auto dest!: set_zip_leftD size_plist_entry dest: size_pdict_entry)

lemma py_eq_num: "num_of a = Some x \<Longrightarrow> num_of b = Some y \<Longrightarrow> py_eq a b \<longleftrightarrow> x = y"
  by (cases a rule: num_of.cases) auto

text \<open>Truthiness of a value (\<open>if value:\<close>), as far as strings and None need it.\<close>

fun py_truthy :: "pyval \<Rightarrow> bool" where
  "py_truthy PNone = False"
| "py_truthy (PBool b) = b"
| "py_truthy (PInt i) = (i \<noteq> 0)"
| "py_truthy (PFloat (Fin r)) = (r \<noteq> 0)"
| "py_truthy (PFloat _) = True"
| "py_truthy (PStr s) = (s \<noteq> [])"
| "py_truthy (PList xs) = (xs \<noteq> [])"
| "py_truthy (PDict d) = (d \<noteq> [])"

end
