(* ===== verification/Errors.thy ===== *)
theory Errors
  imports PyValue
begin

section \<open>Error codes and exceptions\<close>

text \<open>
  Models \<open>domain/errors.py\<close>: the stable codes, the exception class hierarchy with its
  class attributes, and the wire payload. The exceptions that the programs of the
  development raise are values of \<open>exc\<close>: a \<open>HarnessError\<close> subclass with its message, or
  one of the built-in exceptions the sources raise. The advice texts
  (\<open>required_action\<close> at a call site, \<open>details\<close>) are carried by \<open>harness_error\<close> only.
\<close>

datatype error_code =
    MISSING_REQUIRED_INPUTS | UNSUPPORTED_SCHEMA_VERSION | UNSUPPORTED_FEATURE
  | INVALID_FEATURE_PARAMETERS | INVALID_GEOMETRY | STANDARD_PROFILE_NOT_FOUND
  | STANDARD_VIOLATION | DOCUMENT_NOT_FOUND | DOCUMENT_NOT_ACTIVE
  | STALE_DOCUMENT_REVISION | PLAN_HASH_MISMATCH | APPROVAL_REQUIRED | APPROVAL_EXPIRED
  | APPROVAL_SCOPE_MISMATCH | WRITER_LEASE_CONFLICT | IDEMPOTENCY_KEY_REUSED
  | AUTOCAD_NOT_RUNNING | AUTOCAD_BUSY | ADAPTER_CAPABILITY_MISSING | IPC_TIMEOUT
  | COM_CALL_FAILED | TRANSACTION_ABORTED | POST_COMMIT_VALIDATION_FAILED
  | UNKNOWN_COMMIT_STATE_code | EXPORT_PATH_NOT_ALLOWED | ROLLBACK_NOT_AVAILABLE
  | ROLLBACK_RECOVERY_REQUIRED | INVALID_JOB_TRANSITION | TOOL_NOT_ALLOWED
  | UNSUPPORTED_INPUT_FORMAT | READ_SCOPE_TOO_LARGE | INTERNAL_ERROR

text \<open>The string value of a code is its name; \<open>StrEnum\<close> members are those strings.\<close>

definition error_code_value :: "error_code \<Rightarrow> string" where
  "error_code_value c = (case c of
     MISSING_REQUIRED_INPUTS \<Rightarrow> ''MISSING_REQUIRED_INPUTS''
   | UNSUPPORTED_SCHEMA_VERSION \<Rightarrow> ''UNSUPPORTED_SCHEMA_VERSION''
   | UNSUPPORTED_FEATURE \<Rightarrow> ''UNSUPPORTED_FEATURE''
   | INVALID_FEATURE_PARAMETERS \<Rightarrow> ''INVALID_FEATURE_PARAMETERS''
   | INVALID_GEOMETRY \<Rightarrow> ''INVALID_GEOMETRY''
   | STANDARD_PROFILE_NOT_FOUND \<Rightarrow> ''STANDARD_PROFILE_NOT_FOUND''
   | STANDARD_VIOLATION \<Rightarrow> ''STANDARD_VIOLATION''
   | DOCUMENT_NOT_FOUND \<Rightarrow> ''DOCUMENT_NOT_FOUND''
   | DOCUMENT_NOT_ACTIVE \<Rightarrow> ''DOCUMENT_NOT_ACTIVE''
   | STALE_DOCUMENT_REVISION \<Rightarrow> ''STALE_DOCUMENT_REVISION''
   | PLAN_HASH_MISMATCH \<Rightarrow> ''PLAN_HASH_MISMATCH''
   | APPROVAL_REQUIRED \<Rightarrow> ''APPROVAL_REQUIRED''
   | APPROVAL_EXPIRED \<Rightarrow> ''APPROVAL_EXPIRED''
   | APPROVAL_SCOPE_MISMATCH \<Rightarrow> ''APPROVAL_SCOPE_MISMATCH''
   | WRITER_LEASE_CONFLICT \<Rightarrow> ''WRITER_LEASE_CONFLICT''
   | IDEMPOTENCY_KEY_REUSED \<Rightarrow> ''IDEMPOTENCY_KEY_REUSED''
   | AUTOCAD_NOT_RUNNING \<Rightarrow> ''AUTOCAD_NOT_RUNNING''
   | AUTOCAD_BUSY \<Rightarrow> ''AUTOCAD_BUSY''
   | ADAPTER_CAPABILITY_MISSING \<Rightarrow> ''ADAPTER_CAPABILITY_MISSING''
   | IPC_TIMEOUT \<Rightarrow> ''IPC_TIMEOUT''
   | COM_CALL_FAILED \<Rightarrow> ''COM_CALL_FAILED''
   | TRANSACTION_ABORTED \<Rightarrow> ''TRANSACTION_ABORTED''
   | POST_COMMIT_VALIDATION_FAILED \<Rightarrow> ''POST_COMMIT_VALIDATION_FAILED''
   | UNKNOWN_COMMIT_STATE_code \<Rightarrow> ''UNKNOWN_COMMIT_STATE''
   | EXPORT_PATH_NOT_ALLOWED \<Rightarrow> ''EXPORT_PATH_NOT_ALLOWED''
   | ROLLBACK_NOT_AVAILABLE \<Rightarrow> ''ROLLBACK_NOT_AVAILABLE''
   | ROLLBACK_RECOVERY_REQUIRED \<Rightarrow> ''ROLLBACK_RECOVERY_REQUIRED''
   | INVALID_JOB_TRANSITION \<Rightarrow> ''INVALID_JOB_TRANSITION''
   | TOOL_NOT_ALLOWED \<Rightarrow> ''TOOL_NOT_ALLOWED''
   | UNSUPPORTED_INPUT_FORMAT \<Rightarrow> ''UNSUPPORTED_INPUT_FORMAT''
   | READ_SCOPE_TOO_LARGE \<Rightarrow> ''READ_SCOPE_TOO_LARGE''
   | INTERNAL_ERROR \<Rightarrow> ''INTERNAL_ERROR'')"

datatype error_class =
    HarnessError
  | MissingRequiredInputsError | UnsupportedSchemaVersionError | UnsupportedFeatureError
  | InvalidFeatureParametersError | InvalidGeometryError | StandardProfileNotFoundError
  | DocumentNotFoundError | StaleDocumentRevisionError | PlanHashMismatchError
  | ApprovalRequiredError | ApprovalExpiredError | ApprovalScopeMismatchError
  | WriterLeaseConflictError | IdempotencyKeyReusedError | AutoCADNotRunningError
  | AutoCADBusyError | AdapterCapabilityMissingError | IpcTimeoutError | ComCallFailedError
  | PostCommitValidationFailedError | UnknownCommitStateError | ExportPathNotAllowedError
  | RollbackNotAvailableError | RollbackRecoveryRequiredError | InvalidJobTransitionError
  | ToolNotAllowedError | UnsupportedInputFormatError | ReadScopeTooLargeError

fun class_code :: "error_class \<Rightarrow> error_code" where
  "class_code HarnessError = INTERNAL_ERROR"
| "class_code MissingRequiredInputsError = MISSING_REQUIRED_INPUTS"
| "class_code UnsupportedSchemaVersionError = UNSUPPORTED_SCHEMA_VERSION"
| "class_code UnsupportedFeatureError = UNSUPPORTED_FEATURE"
| "class_code InvalidFeatureParametersError = INVALID_FEATURE_PARAMETERS"
| "class_code InvalidGeometryError = INVALID_GEOMETRY"
| "class_code StandardProfileNotFoundError = STANDARD_PROFILE_NOT_FOUND"
| "class_code DocumentNotFoundError = DOCUMENT_NOT_FOUND"
| "class_code StaleDocumentRevisionError = STALE_DOCUMENT_REVISION"
| "class_code PlanHashMismatchError = PLAN_HASH_MISMATCH"
| "class_code ApprovalRequiredError = APPROVAL_REQUIRED"
| "class_code ApprovalExpiredError = APPROVAL_EXPIRED"
| "class_code ApprovalScopeMismatchError = APPROVAL_SCOPE_MISMATCH"
| "class_code WriterLeaseConflictError = WRITER_LEASE_CONFLICT"
| "class_code IdempotencyKeyReusedError = IDEMPOTENCY_KEY_REUSED"
| "class_code AutoCADNotRunningError = AUTOCAD_NOT_RUNNING"
| "class_code AutoCADBusyError = AUTOCAD_BUSY"
| "class_code AdapterCapabilityMissingError = ADAPTER_CAPABILITY_MISSING"
| "class_code IpcTimeoutError = IPC_TIMEOUT"
| "class_code ComCallFailedError = COM_CALL_FAILED"
| "class_code PostCommitValidationFailedError = POST_COMMIT_VALIDATION_FAILED"
| "class_code UnknownCommitStateError = UNKNOWN_COMMIT_STATE_code"
| "class_code ExportPathNotAllowedError = EXPORT_PATH_NOT_ALLOWED"
| "class_code RollbackNotAvailableError = ROLLBACK_NOT_AVAILABLE"
| "class_code RollbackRecoveryRequiredError = ROLLBACK_RECOVERY_REQUIRED"
| "class_code InvalidJobTransitionError = INVALID_JOB_TRANSITION"
| "class_code ToolNotAllowedError = TOOL_NOT_ALLOWED"
| "class_code UnsupportedInputFormatError = UNSUPPORTED_INPUT_FORMAT"
| "class_code ReadScopeTooLargeError = READ_SCOPE_TOO_LARGE"

definition class_retryable :: "error_class \<Rightarrow> bool" where
  "class_retryable c = (case c of
     AutoCADBusyError \<Rightarrow> True
   | IpcTimeoutError \<Rightarrow> True
   | RollbackRecoveryRequiredError \<Rightarrow> True
   | _ \<Rightarrow> False)"

definition default_required_action :: "error_class \<Rightarrow> string option" where
  "default_required_action c = (case c of
     IpcTimeoutError \<Rightarrow>
       Some ''Reduce the operation scope or increase its configured timeout, then retry safely''
   | RollbackRecoveryRequiredError \<Rightarrow>
       Some ''Retry the exact rollback with the original approval and unchanged scope; do not issue a replacement token''
   | ToolNotAllowedError \<Rightarrow>
       Some ''Call a tool from the allowed list, or raise the client's permission mode''
   | UnsupportedInputFormatError \<Rightarrow>
       Some ''Supply the drawing in one of the supported formats''
   | ReadScopeTooLargeError \<Rightarrow>
       Some ''Narrow the read scope by layer, space or window and try again''
   | _ \<Rightarrow> None)"

record harness_error =
  he_class :: error_class
  he_message :: string
  he_required_action :: "string option"
  he_details :: pydict

text \<open>
  \<open>HarnessError.__init__\<close>: an absent or empty action falls back to the class default
  (\<open>required_action or self.default_required_action\<close>).
\<close>

definition mk_harness_error ::
  "error_class \<Rightarrow> string \<Rightarrow> string option \<Rightarrow> pydict option \<Rightarrow> harness_error" where
  "mk_harness_error c msg action details =
     \<lparr>he_class = c, he_message = msg,
      he_required_action =
        (case action of None \<Rightarrow> default_required_action c
         | Some a \<Rightarrow> if a = [] then default_required_action c else Some a),
      he_details = (case details of None \<Rightarrow> [] | Some d \<Rightarrow> d)\<rparr>"

definition to_payload :: "harness_error \<Rightarrow> pydict" where
  "to_payload e =
     [(''code'', PStr (error_code_value (class_code (he_class e)))),
      (''message'', PStr (he_message e)),
      (''retryable'', PBool (class_retryable (he_class e))),
      (''required_action'',
        (case he_required_action e of None \<Rightarrow> PNone | Some a \<Rightarrow> PStr a)),
      (''details'', PDict (he_details e))]"

text \<open>What a call of the program may raise.\<close>

datatype exc =
    Err error_class string
  | ValueError string
  | TypeError string
  | KeyError string
  | IndexError string
  | AssertionError
  | InvalidContract string
  | RuntimeError string
  | IntegrityError string
  | OperationalError string

fun exc_class :: "exc \<Rightarrow> error_class option" where
  "exc_class (Err c _) = Some c"
| "exc_class _ = None"

type_synonym 'a res = "exc + 'a"

text \<open>A code names its exception class, and a code's string names the code.\<close>

definition all_classes :: "error_class list" where
  "all_classes =
     [HarnessError, MissingRequiredInputsError, UnsupportedSchemaVersionError,
      UnsupportedFeatureError, InvalidFeatureParametersError, InvalidGeometryError,
      StandardProfileNotFoundError, DocumentNotFoundError, StaleDocumentRevisionError,
      PlanHashMismatchError, ApprovalRequiredError, ApprovalExpiredError,
      ApprovalScopeMismatchError, WriterLeaseConflictError, IdempotencyKeyReusedError,
      AutoCADNotRunningError, AutoCADBusyError, AdapterCapabilityMissingError,
      IpcTimeoutError, ComCallFailedError, PostCommitValidationFailedError,
      UnknownCommitStateError, ExportPathNotAllowedError, RollbackNotAvailableError,
      RollbackRecoveryRequiredError, InvalidJobTransitionError, ToolNotAllowedError,
      UnsupportedInputFormatError, ReadScopeTooLargeError]"

definition class_of_value :: "string \<Rightarrow> error_class option" where
  "class_of_value s = map_of (map (\<lambda>c. (error_code_value (class_code c), c)) all_classes) s"

lemma class_of_value: "class_of_value (error_code_value (class_code c)) = Some c"
  by (induction c; code_simp)

lemma class_code_value_inj:
  "error_code_value (class_code c) = error_code_value (class_code d) \<Longrightarrow> c = d"
  by (metis class_of_value option.inject)

lemma to_payload_code:
  "map_of (to_payload e) ''code'' = Some (PStr (error_code_value (class_code (he_class e))))"
  by (simp add: to_payload_def)

end
