(* ===== verification/JobModel.thy ===== *)
theory JobModel
  imports Errors
begin

section \<open>The job aggregate and its state machine\<close>

text \<open>
  Models \<open>domain/models/job.py\<close>: the states, the transition table, the check
  \<open>assert_transition\<close> and the immutable \<open>CadJob\<close>, whose transitions return a new
  instance. A time is the number of microseconds since the epoch; \<open>datetime.now(UTC)\<close> is
  an argument of the functions that read it.
\<close>

type_synonym time = int

datatype job_state =
    CREATED | SPEC_ACCEPTED | PLANNED | PREVIEWED | VALIDATED | APPROVED | COMMITTING
  | COMMITTED | UNKNOWN_COMMIT_STATE | FAILED | ROLLED_BACK | CANCELLED

definition job_state_value :: "job_state \<Rightarrow> string" where
  "job_state_value s = (case s of
     CREATED \<Rightarrow> ''CREATED'' | SPEC_ACCEPTED \<Rightarrow> ''SPEC_ACCEPTED'' | PLANNED \<Rightarrow> ''PLANNED''
   | PREVIEWED \<Rightarrow> ''PREVIEWED'' | VALIDATED \<Rightarrow> ''VALIDATED'' | APPROVED \<Rightarrow> ''APPROVED''
   | COMMITTING \<Rightarrow> ''COMMITTING'' | COMMITTED \<Rightarrow> ''COMMITTED''
   | UNKNOWN_COMMIT_STATE \<Rightarrow> ''UNKNOWN_COMMIT_STATE'' | FAILED \<Rightarrow> ''FAILED''
   | ROLLED_BACK \<Rightarrow> ''ROLLED_BACK'' | CANCELLED \<Rightarrow> ''CANCELLED'')"

fun ALLOWED_TRANSITIONS :: "job_state \<Rightarrow> job_state list" where
  "ALLOWED_TRANSITIONS CREATED = [SPEC_ACCEPTED, CANCELLED]"
| "ALLOWED_TRANSITIONS SPEC_ACCEPTED = [PLANNED, CANCELLED]"
| "ALLOWED_TRANSITIONS PLANNED = [PREVIEWED, SPEC_ACCEPTED, CANCELLED]"
| "ALLOWED_TRANSITIONS PREVIEWED = [VALIDATED, SPEC_ACCEPTED, CANCELLED]"
| "ALLOWED_TRANSITIONS VALIDATED = [APPROVED, SPEC_ACCEPTED, CANCELLED]"
| "ALLOWED_TRANSITIONS APPROVED = [COMMITTING, SPEC_ACCEPTED]"
| "ALLOWED_TRANSITIONS COMMITTING = [COMMITTED, FAILED, UNKNOWN_COMMIT_STATE]"
| "ALLOWED_TRANSITIONS COMMITTED = [ROLLED_BACK]"
| "ALLOWED_TRANSITIONS UNKNOWN_COMMIT_STATE = []"
| "ALLOWED_TRANSITIONS FAILED = [PLANNED, ROLLED_BACK, CANCELLED]"
| "ALLOWED_TRANSITIONS ROLLED_BACK = []"
| "ALLOWED_TRANSITIONS CANCELLED = []"

definition assert_transition :: "job_state \<Rightarrow> job_state \<Rightarrow> unit res" where
  "assert_transition current target =
     (if target \<notin> set (ALLOWED_TRANSITIONS current)
      then Inl (Err InvalidJobTransitionError
             (''Job cannot move from '' @ job_state_value current @ '' to '' @
              job_state_value target))
      else Inr ())"

record cad_job =
  cj_job_id :: string
  cj_document_id :: string
  cj_expected_revision :: string
  cj_state :: job_state
  cj_spec_id :: "string option"
  cj_spec_version :: nat
  cj_plan_id :: "string option"
  cj_plan_hash :: "string option"
  cj_approval_id :: "string option"
  cj_checkpoint_id :: "string option"
  cj_created_at :: time
  cj_updated_at :: time

text \<open>\<open>CadJob(...)\<close> with the defaults of the class.\<close>

definition new_job :: "string \<Rightarrow> string \<Rightarrow> string \<Rightarrow> time \<Rightarrow> cad_job" where
  "new_job jid doc revn now =
     \<lparr>cj_job_id = jid, cj_document_id = doc, cj_expected_revision = revn, cj_state = CREATED,
      cj_spec_id = None, cj_spec_version = 0, cj_plan_id = None, cj_plan_hash = None,
      cj_approval_id = None, cj_checkpoint_id = None, cj_created_at = now, cj_updated_at = now\<rparr>"

text \<open>
  \<open>model_copy(update={"state": target, "updated_at": now, **updates})\<close>: the keyword updates
  are applied last.
\<close>

definition transition_to ::
  "cad_job \<Rightarrow> job_state \<Rightarrow> (cad_job \<Rightarrow> cad_job) \<Rightarrow> time \<Rightarrow> cad_job res" where
  "transition_to job target updates now =
     bindR (assert_transition (cj_state job) target)
       (\<lambda>_. Inr (updates (job\<lparr>cj_state := target, cj_updated_at := now\<rparr>)))"

definition invalidate_approval :: "cad_job \<Rightarrow> time \<Rightarrow> cad_job" where
  "invalidate_approval job now = job\<lparr>cj_approval_id := None, cj_updated_at := now\<rparr>"

subsection \<open>Facts about one transition\<close>

lemma assert_transition_Inr [simp]:
  "assert_transition s t = Inr () \<longleftrightarrow> t \<in> set (ALLOWED_TRANSITIONS s)"
  by (simp add: assert_transition_def)

lemma transition_to_Inr_iff:
  "transition_to job t upd now = Inr job' \<longleftrightarrow>
     t \<in> set (ALLOWED_TRANSITIONS (cj_state job)) \<and>
     job' = upd (job\<lparr>cj_state := t, cj_updated_at := now\<rparr>)"
  by (auto simp: transition_to_def bindR_Inr_iff)

lemma transition_to_Inl:
  "transition_to job t upd now = Inl e \<Longrightarrow>
     t \<notin> set (ALLOWED_TRANSITIONS (cj_state job)) \<and> exc_class e = Some InvalidJobTransitionError"
  by (auto simp: transition_to_def assert_transition_def bindR_def split: if_splits)

subsection \<open>Histories of a job\<close>

text \<open>
  A step of the machine is one allowed transition; \<open>job_history\<close> lists the states a job
  went through, the latest first.
\<close>

inductive job_step :: "job_state \<Rightarrow> job_state \<Rightarrow> bool" where
  job_stepI: "t \<in> set (ALLOWED_TRANSITIONS s) \<Longrightarrow> job_step s t"

inductive_simps job_step_simps [simp]: "job_step s t"

code_pred job_step .

inductive job_history :: "job_state list \<Rightarrow> bool" where
  born: "job_history [CREATED]"
| moved: "job_history (s # h) \<Longrightarrow> job_step s t \<Longrightarrow> job_history (t # s # h)"

inductive_cases job_history_ConsE: "job_history (t # h)"

text \<open>Which state a transition can have come from.\<close>

lemma pred_COMMITTED: "job_step s COMMITTED \<longleftrightarrow> s = COMMITTING"
  by (cases s) simp_all

lemma pred_COMMITTING: "job_step s COMMITTING \<longleftrightarrow> s = APPROVED"
  by (cases s) simp_all

lemma pred_APPROVED: "job_step s APPROVED \<longleftrightarrow> s = VALIDATED"
  by (cases s) simp_all

lemma pred_VALIDATED: "job_step s VALIDATED \<longleftrightarrow> s = PREVIEWED"
  by (cases s) simp_all

lemma pred_ROLLED_BACK: "job_step s ROLLED_BACK \<longleftrightarrow> s \<in> {COMMITTED, FAILED}"
  by (cases s) simp_all

lemmas job_preds =
  pred_COMMITTED pred_COMMITTING pred_APPROVED pred_VALIDATED pred_ROLLED_BACK

lemma job_history_hd:
  assumes "job_history (t # h)" and "t \<noteq> CREATED"
  obtains s h' where "h = s # h'" and "job_step s t" and "job_history (s # h')"
  using assms by (cases rule: job_history.cases) (simp_all del: job_step_simps)

lemma COMMITTED_suffix:
  assumes "job_history (COMMITTED # h)"
  shows "\<exists>h'. h = COMMITTING # APPROVED # VALIDATED # PREVIEWED # h' \<and> job_history (PREVIEWED # h')"
proof -
  obtain h1 where 1: "h = COMMITTING # h1" "job_history (COMMITTING # h1)"
    by (rule job_history_hd [OF assms]) (simp_all only: pred_COMMITTED, auto)
  obtain h2 where 2: "h1 = APPROVED # h2" "job_history (APPROVED # h2)"
    by (rule job_history_hd [OF 1(2)]) (simp_all only: pred_COMMITTING, auto)
  obtain h3 where 3: "h2 = VALIDATED # h3" "job_history (VALIDATED # h3)"
    by (rule job_history_hd [OF 2(2)]) (simp_all only: pred_APPROVED, auto)
  obtain h4 where 4: "h3 = PREVIEWED # h4" "job_history (PREVIEWED # h4)"
    by (rule job_history_hd [OF 3(2)]) (simp_all only: pred_VALIDATED, auto)
  from 1 2 3 4 show ?thesis by simp
qed

text \<open>No transition leads out of the three terminal states.\<close>

lemma terminal_state: "s \<in> {UNKNOWN_COMMIT_STATE, ROLLED_BACK, CANCELLED} \<Longrightarrow> \<not> job_step s t"
  by auto

lemma job_history_tail: "job_history (a @ s # h) \<Longrightarrow> job_history (s # h)"
proof (induction a)
  case (Cons x a)
  then show ?case by (cases "a @ s # h") (auto elim: job_history.cases)
qed simp

lemma terminal_is_last:
  assumes "job_history (a @ s # h)" and "s \<in> {UNKNOWN_COMMIT_STATE, ROLLED_BACK, CANCELLED}"
  shows "a = []"
proof (rule ccontr)
  assume "a \<noteq> []"
  then obtain b x where a: "a = b @ [x]" by (metis rev_exhaust)
  with assms(1) have "job_history (x # s # h)" using job_history_tail [of b x "s # h"] by simp
  then have "job_step s x" by (auto elim: job_history.cases)
  with assms(2) show False using terminal_state by blast
qed

end
