(* ===== verification/LeaseModel.thy ===== *)
theory LeaseModel
  imports JobModel
begin

section \<open>Writer leases\<close>

text \<open>
  Models \<open>domain/models/lease.py\<close> and \<open>persistence/memory_lease_store.py\<close>. The dictionary of the store, keyed by document,
  is an association list because \<open>renew\<close> and \<open>release\<close> search its values in insertion
  order. \<open>uuid4\<close> is an argument: the identifier the new lease gets.
\<close>

type_synonym timedelta = int

record writer_lease =
  wl_lease_id :: string
  wl_document_id :: string
  wl_owner_id :: string
  wl_acquired_at :: time
  wl_expires_at :: time
  wl_heartbeat_at :: time

text \<open>The model validator \<open>_timestamps_are_ordered\<close>.\<close>

definition timestamps_are_ordered :: "writer_lease \<Rightarrow> writer_lease res" where
  "timestamps_are_ordered l =
     (if wl_expires_at l \<le> wl_acquired_at l
      then Inl (InvalidContract ''expires_at must be later than acquired_at'')
      else if \<not> (wl_acquired_at l \<le> wl_heartbeat_at l \<and> wl_heartbeat_at l < wl_expires_at l)
      then Inl (InvalidContract ''heartbeat_at must fall within the lease interval'')
      else Inr l)"

type_synonym lease_table = "(string \<times> writer_lease) list"

definition active_lease :: "lease_table \<Rightarrow> string \<Rightarrow> time \<Rightarrow> writer_lease option" where
  "active_lease leases doc now =
     (case map_of leases doc of
        Some l \<Rightarrow> if now < wl_expires_at l then Some l else None
      | None \<Rightarrow> None)"

definition try_acquire ::
  "string \<Rightarrow> string \<Rightarrow> timedelta \<Rightarrow> time \<Rightarrow> string \<Rightarrow> (exc, lease_table, writer_lease) prog" where
  "try_acquire doc owner ttl now fresh leases =
     (case active_lease leases doc now of
        Some current \<Rightarrow>
          (Inl (Err WriterLeaseConflictError ''Document already has an active writer lease''),
           leases)
      | None \<Rightarrow>
          (case timestamps_are_ordered
             \<lparr>wl_lease_id = ''lease_'' @ fresh, wl_document_id = doc, wl_owner_id = owner,
              wl_acquired_at = now, wl_expires_at = now + ttl, wl_heartbeat_at = now\<rparr> of
             Inl e \<Rightarrow> (Inl e, leases)
           | Inr lease \<Rightarrow> (Inr lease, dset leases doc lease)))"

definition find_lease :: "lease_table \<Rightarrow> string \<Rightarrow> writer_lease option" where
  "find_lease leases lid = find (\<lambda>l. wl_lease_id l = lid) (map snd leases)"

definition renew ::
  "string \<Rightarrow> timedelta \<Rightarrow> time \<Rightarrow> (exc, lease_table, writer_lease) prog" where
  "renew lid ttl now leases =
     (case find_lease leases lid of
        None \<Rightarrow> (Inl (Err HarnessError ''Writer lease is no longer active''), leases)
      | Some current \<Rightarrow>
          if wl_expires_at current \<le> now
          then (Inl (Err HarnessError ''Writer lease is no longer active''), leases)
          else let renewed = current\<lparr>wl_heartbeat_at := now, wl_expires_at := now + ttl\<rparr>
               in (Inr renewed, dset leases (wl_document_id current) renewed))"

fun release_table :: "lease_table \<Rightarrow> string \<Rightarrow> lease_table" where
  "release_table [] lid = []"
| "release_table ((doc, l) # leases) lid =
     (if wl_lease_id l = lid then leases else (doc, l) # release_table leases lid)"

definition release :: "string \<Rightarrow> time \<Rightarrow> (exc, lease_table, unit) prog" where
  "release lid now leases = (Inr (), release_table leases lid)"

subsection \<open>The invariant of the table\<close>

text \<open>
  A document has one entry, an entry is filed under its own document, and no two entries
  have the same lease identifier.
\<close>

definition lease_inv :: "lease_table \<Rightarrow> bool" where
  "lease_inv t \<longleftrightarrow> distinct (map fst t) \<and>
     (\<forall>p \<in> set t. fst p = wl_document_id (snd p)) \<and>
     (\<forall>p \<in> set t. \<forall>q \<in> set t. wl_lease_id (snd p) = wl_lease_id (snd q) \<longrightarrow> p = q)"

lemma lease_inv_iff:
  "lease_inv t \<longleftrightarrow> distinct (map fst t) \<and>
     (\<forall>d l. (d, l) \<in> set t \<longrightarrow> d = wl_document_id l) \<and>
     (\<forall>d l d' l'. (d, l) \<in> set t \<longrightarrow> (d', l') \<in> set t \<longrightarrow>
        wl_lease_id l = wl_lease_id l' \<longrightarrow> d = d' \<and> l = l')"
  unfolding lease_inv_def by (intro conj_cong refl) fastforce+

definition lease_ids :: "lease_table \<Rightarrow> string set" where
  "lease_ids t = (\<lambda>p. wl_lease_id (snd p)) ` set t"

lemma lease_inv_Nil [simp]: "lease_inv []"
  by (simp add: lease_inv_def)

lemma lease_inv_dset:
  assumes "lease_inv t" and "wl_document_id l = doc"
    and fresh: "\<And>d k. (d, k) \<in> set t \<Longrightarrow> d \<noteq> doc \<Longrightarrow> wl_lease_id k \<noteq> wl_lease_id l"
  shows "lease_inv (dset t doc l)"
proof -
  from assms(1) have set: "set (dset t doc l) = insert (doc, l) {p \<in> set t. fst p \<noteq> doc}"
    by (simp add: lease_inv_def set_dset)
  from assms(1) have "distinct (map fst (dset t doc l))"
    by (simp add: lease_inv_def distinct_dset)
  moreover have "d = wl_document_id k" if "(d, k) \<in> set (dset t doc l)" for d k
    using that assms(1,2) unfolding set lease_inv_iff by auto
  moreover have "d = d' \<and> k = k'"
    if "(d, k) \<in> set (dset t doc l)" "(d', k') \<in> set (dset t doc l)"
      "wl_lease_id k = wl_lease_id k'" for d k d' k'
  proof (cases "d = doc"; cases "d' = doc")
    assume "d \<noteq> doc" "d' \<noteq> doc"
    with that assms(1) show ?thesis unfolding set lease_inv_iff by auto
  qed (use that fresh [of d k] fresh [of d' k'] assms(1) in \<open>auto simp: set\<close>)
  ultimately show ?thesis unfolding lease_inv_iff by blast
qed

lemma release_table_subset: "set (release_table t lid) \<subseteq> set t"
  by (induction t lid rule: release_table.induct) auto

lemma release_table_distinct: "distinct (map fst t) \<Longrightarrow> distinct (map fst (release_table t lid))"
  using release_table_subset by (induction t lid rule: release_table.induct) fastforce+

lemma lease_inv_release: "lease_inv t \<Longrightarrow> lease_inv (release_table t lid)"
  using release_table_subset [of t lid] release_table_distinct [of t lid]
  unfolding lease_inv_def by blast

lemma lease_inv_unique_id:
  "lease_inv t \<Longrightarrow> (d, l) \<in> set t \<Longrightarrow> (d', l') \<in> set t \<Longrightarrow> wl_lease_id l = wl_lease_id l' \<Longrightarrow>
   d = d' \<and> l = l'"
  unfolding lease_inv_iff by blast

lemma release_table_iff:
  "lease_inv t \<Longrightarrow> p \<in> set (release_table t lid) \<longleftrightarrow> p \<in> set t \<and> wl_lease_id (snd p) \<noteq> lid"
proof (induction t lid rule: release_table.induct)
  case (2 doc l leases lid)
  then have inv: "lease_inv leases" by (simp add: lease_inv_def)
  show ?case
  proof (cases "wl_lease_id l = lid")
    case True
    have "wl_lease_id (snd p) \<noteq> lid" if "p \<in> set leases"
    proof
      assume "wl_lease_id (snd p) = lid"
      with True that lease_inv_unique_id [OF "2.prems", of doc l "fst p" "snd p"]
      have "doc = fst p" by simp
      with that "2.prems" show False by (auto simp: lease_inv_def)
    qed
    with True show ?thesis by auto
  next
    case False
    with "2.IH" [OF False inv] show ?thesis by auto
  qed
qed simp

lemma active_lease_Some:
  "active_lease t doc now = Some l \<longleftrightarrow> map_of t doc = Some l \<and> now < wl_expires_at l"
  by (auto simp: active_lease_def split: option.splits if_splits)

lemma lease_inv_map_of:
  "lease_inv t \<Longrightarrow> map_of t doc = Some l \<longleftrightarrow> (doc, l) \<in> set t"
  by (simp add: lease_inv_def)

lemma find_lease_iff:
  assumes "lease_inv t"
  shows "find_lease t lid = Some l \<longleftrightarrow> (wl_document_id l, l) \<in> set t \<and> wl_lease_id l = lid"
proof
  assume "find_lease t lid = Some l"
  then have "wl_lease_id l = lid \<and> l \<in> set (map snd t)"
    unfolding find_lease_def by (rule find_SomeD)
  with assms show "(wl_document_id l, l) \<in> set t \<and> wl_lease_id l = lid"
    by (auto simp: lease_inv_def)
next
  assume r: "(wl_document_id l, l) \<in> set t \<and> wl_lease_id l = lid"
  then have "find_lease t lid \<noteq> None" unfolding find_lease_def find_None_iff by force
  then obtain k where k: "find_lease t lid = Some k" by blast
  then have "wl_lease_id k = lid \<and> k \<in> set (map snd t)"
    unfolding find_lease_def by (rule find_SomeD)
  with r lease_inv_unique_id [OF assms] k show "find_lease t lid = Some l" by auto
qed

end
