(* ===== verification/LeaseService.thy ===== *)
theory LeaseService
  imports LeaseModel
begin

section \<open>The lease service over the lease store port\<close>

text \<open>
  Models \<open>domain/ports/lease_store.py\<close> as the locale \<open>lease_store\<close> and its client,
  \<open>application/services/lease_service.py\<close>: the handle shared by the commit and the
  heartbeat thread, one heartbeat, the heartbeat loop and the constructor's check of the
  timing parameters. The heartbeat thread is the list of the times at which its
  \<open>wait\<close> returned; how the commit uses the handle is modelled with the commit.
\<close>

record lease_handle =
  lh_lease :: writer_lease
  lh_renewal_failed :: bool
  lh_renewal_error :: "exc option"
  lh_released :: bool

definition new_handle :: "writer_lease \<Rightarrow> lease_handle" where
  "new_handle l = \<lparr>lh_lease = l, lh_renewal_failed = False, lh_renewal_error = None,
                   lh_released = False\<rparr>"

definition handle_update :: "writer_lease \<Rightarrow> lease_handle \<Rightarrow> lease_handle" where
  "handle_update l h = h\<lparr>lh_lease := l\<rparr>"

definition handle_fail :: "exc \<Rightarrow> lease_handle \<Rightarrow> lease_handle" where
  "handle_fail e h = h\<lparr>lh_renewal_failed := True, lh_renewal_error := Some e\<rparr>"

definition is_valid_at :: "lease_handle \<Rightarrow> time \<Rightarrow> bool" where
  "is_valid_at h now \<longleftrightarrow> \<not> lh_renewal_failed h \<and> now < wl_expires_at (lh_lease h)"

definition mark_released :: "lease_handle \<Rightarrow> lease_handle" where
  "mark_released h = h\<lparr>lh_released := True\<rparr>"

text \<open>
  \<open>LeaseRenewer.renew_once\<close> over the store's \<open>renew\<close>: a failure is recorded in the handle
  and raised again.
\<close>

definition renew_once ::
  "(string \<Rightarrow> timedelta \<Rightarrow> time \<Rightarrow> (exc, 's, writer_lease) prog) \<Rightarrow> timedelta \<Rightarrow> time \<Rightarrow>
   (exc, 's \<times> lease_handle, writer_lease) prog" where
  "renew_once rn ttl now = (\<lambda>(s, h).
     (case rn (wl_lease_id (lh_lease h)) ttl now s of
        (Inl e, t) \<Rightarrow> (Inl e, (t, handle_fail e h))
      | (Inr l, t) \<Rightarrow> (Inr l, (t, handle_update l h))))"

text \<open>\<open>LeaseRenewer._run\<close>: a heartbeat at each wake-up, until the first failure.\<close>

fun heartbeat_run ::
  "(string \<Rightarrow> timedelta \<Rightarrow> time \<Rightarrow> (exc, 's, writer_lease) prog) \<Rightarrow> timedelta \<Rightarrow> time list \<Rightarrow>
   's \<times> lease_handle \<Rightarrow> 's \<times> lease_handle" where
  "heartbeat_run rn ttl [] sh = sh"
| "heartbeat_run rn ttl (now # ts) sh =
     (case renew_once rn ttl now sh of
        (Inl e, (s, h)) \<Rightarrow> (s, handle_fail e h)
      | (Inr l, sh') \<Rightarrow> heartbeat_run rn ttl ts sh')"

record lease_service =
  ls_ttl :: timedelta
  ls_heartbeat_interval :: timedelta
  ls_minimum_remaining :: timedelta

definition seconds :: "int \<Rightarrow> timedelta" where
  "seconds n = n * 1000000"

definition lease_service_init :: "int \<Rightarrow> int \<Rightarrow> int \<Rightarrow> lease_service res" where
  "lease_service_init ttl_s heartbeat_s minimum_s =
     (if ttl_s - heartbeat_s < minimum_s
      then Inl (ValueError ''TTL minus heartbeat interval must meet the minimum remaining lease'')
      else Inr \<lparr>ls_ttl = seconds ttl_s, ls_heartbeat_interval = seconds heartbeat_s,
                ls_minimum_remaining = seconds minimum_s\<rparr>)"

text \<open>A call of the store, and a run of calls by any number of clients.\<close>

datatype lease_op =
    Acquire string string timedelta time string
  | Renew string timedelta time
  | Release string time

fun op_time :: "lease_op \<Rightarrow> time" where
  "op_time (Acquire _ _ _ now _) = now"
| "op_time (Renew _ _ now) = now"
| "op_time (Release _ now) = now"

text \<open>An operation of somebody else, or a renewal that keeps the lease beyond \<open>x\<close>.\<close>

fun harmless :: "string \<Rightarrow> time \<Rightarrow> lease_op \<Rightarrow> bool" where
  "harmless lid x (Acquire d w ttl now f) = (now \<le> x)"
| "harmless lid x (Renew lid' ttl now) = (lid' = lid \<longrightarrow> now \<le> x \<and> x < now + ttl)"
| "harmless lid x (Release lid' now) = (lid' \<noteq> lid)"

text \<open>Wake-ups that follow each other by at most \<open>interval\<close>.\<close>

fun beats_within :: "timedelta \<Rightarrow> time \<Rightarrow> time list \<Rightarrow> bool" where
  "beats_within interval prev [] = True"
| "beats_within interval prev (b # bs) =
     (prev \<le> b \<and> b \<le> prev + interval \<and> beats_within interval b bs)"

subsection \<open>The port\<close>

locale lease_store =
  fixes inv :: "'s \<Rightarrow> bool"
    and ids :: "'s \<Rightarrow> string set"
    and active :: "'s \<Rightarrow> string \<Rightarrow> time \<Rightarrow> writer_lease option"
    and acq :: "string \<Rightarrow> string \<Rightarrow> timedelta \<Rightarrow> time \<Rightarrow> string \<Rightarrow> (exc, 's, writer_lease) prog"
    and rn :: "string \<Rightarrow> timedelta \<Rightarrow> time \<Rightarrow> (exc, 's, writer_lease) prog"
    and rel :: "string \<Rightarrow> time \<Rightarrow> (exc, 's, unit) prog"
    and renewable :: "writer_lease \<Rightarrow> time \<Rightarrow> bool"
  assumes acquire_busy:
      "inv s \<Longrightarrow> active s d now = Some l \<Longrightarrow> \<exists>e. acq d w ttl now f s = (Inl e, s)"
    and acquire_conflict:
      "inv s \<Longrightarrow> active s d now = Some l \<Longrightarrow> 0 < ttl \<Longrightarrow> timestamps_are_ordered l = Inr l \<Longrightarrow>
       \<exists>m. acq d w ttl now f s = (Inl (Err WriterLeaseConflictError m), s)"
    and acquire_free:
      "inv s \<Longrightarrow> active s d now = None \<Longrightarrow> 0 < ttl \<Longrightarrow> ''lease_'' @ f \<notin> ids s \<Longrightarrow>
       \<exists>t. acq d w ttl now f s =
         (Inr \<lparr>wl_lease_id = ''lease_'' @ f, wl_document_id = d, wl_owner_id = w,
               wl_acquired_at = now, wl_expires_at = now + ttl, wl_heartbeat_at = now\<rparr>, t)"
    and acquire_ok:
      "inv s \<Longrightarrow> acq d w ttl now f s = (Inr l, t) \<Longrightarrow>
       active s d now = None \<and> active t d now = Some l \<and> wl_lease_id l = ''lease_'' @ f \<and>
       wl_expires_at l = now + ttl \<and> wl_document_id l = d"
    and acquire_fail: "acq d w ttl now f s = (Inl e, t) \<Longrightarrow> t = s"
    and acquire_inv:
      "inv s \<Longrightarrow> ''lease_'' @ f \<notin> ids s \<Longrightarrow> acq d w ttl now f s = (r, t) \<Longrightarrow>
       inv t \<and> ids t \<subseteq> insert (''lease_'' @ f) (ids s)"
    and acquire_frame:
      "inv s \<Longrightarrow> acq d w ttl now f s = (r, t) \<Longrightarrow> d' \<noteq> d \<Longrightarrow> active t d' x = active s d' x"
    and active_mono: "inv s \<Longrightarrow> active s d now = Some l \<Longrightarrow> x < wl_expires_at l \<Longrightarrow> active s d x = Some l"
    and active_expires: "active s d now = Some l \<Longrightarrow> now < wl_expires_at l"
    and active_id: "inv s \<Longrightarrow> active s d now = Some l \<Longrightarrow> wl_lease_id l \<in> ids s \<and> wl_document_id l = d"
    and active_unique:
      "inv s \<Longrightarrow> active s d x = Some l \<Longrightarrow> active s d' y = Some k \<Longrightarrow> wl_lease_id l = wl_lease_id k \<Longrightarrow>
       d = d' \<and> l = k"
    and renew_held:
      "inv s \<Longrightarrow> active s d now = Some l \<Longrightarrow>
       active (snd (rn (wl_lease_id l) ttl now s)) d x =
         (if x < now + ttl then Some (l\<lparr>wl_heartbeat_at := now, wl_expires_at := now + ttl\<rparr>) else None)"
    and renew_answers:
      "inv s \<Longrightarrow> active s d now = Some l \<Longrightarrow> renewable l now \<Longrightarrow> 0 < ttl \<Longrightarrow>
       fst (rn (wl_lease_id l) ttl now s) = Inr (l\<lparr>wl_heartbeat_at := now, wl_expires_at := now + ttl\<rparr>)"
    and renewable_later:
      "renewable l now \<Longrightarrow> now \<le> x \<Longrightarrow> renewable (l\<lparr>wl_heartbeat_at := hb, wl_expires_at := ex\<rparr>) x"
    and renew_frame:
      "inv s \<Longrightarrow> rn lid ttl now s = (r, t) \<Longrightarrow>
       (\<forall>l. active s d x = Some l \<longrightarrow> wl_lease_id l \<noteq> lid) \<Longrightarrow> active s d x = Some k \<Longrightarrow>
       active t d x = Some k"
    and renew_inv: "inv s \<Longrightarrow> rn lid ttl now s = (r, t) \<Longrightarrow> inv t \<and> ids t \<subseteq> ids s"
    and renew_lost:
      "inv s \<Longrightarrow> (\<And>d l. active s d now = Some l \<Longrightarrow> wl_lease_id l \<noteq> lid) \<Longrightarrow>
       \<exists>m. rn lid ttl now s = (Inl (Err HarnessError m), s)"
    and release_inv: "inv s \<Longrightarrow> rel lid now s = (q, t) \<Longrightarrow> inv t \<and> ids t \<subseteq> ids s - {lid}"
    and release_frame:
      "inv s \<Longrightarrow> rel lid now s = (q, t) \<Longrightarrow> active s d x = Some l \<Longrightarrow> wl_lease_id l \<noteq> lid \<Longrightarrow>
       active t d x = Some l"
begin

fun exec_op :: "lease_op \<Rightarrow> 's \<Rightarrow> 's" where
  "exec_op (Acquire d w ttl now f) s = snd (acq d w ttl now f s)"
| "exec_op (Renew lid ttl now) s = snd (rn lid ttl now s)"
| "exec_op (Release lid now) s = snd (rel lid now s)"

definition held :: "'s \<Rightarrow> string \<Rightarrow> string \<Rightarrow> time \<Rightarrow> bool" where
  "held s d lid x \<longleftrightarrow> (\<exists>l. active s d x = Some l \<and> wl_lease_id l = lid)"

fun op_fresh :: "'s \<Rightarrow> lease_op \<Rightarrow> bool" where
  "op_fresh s (Acquire d w ttl now f) = (''lease_'' @ f \<notin> ids s)"
| "op_fresh s _ = True"

fun fresh_run :: "'s \<Rightarrow> lease_op list \<Rightarrow> bool" where
  "fresh_run s [] = True"
| "fresh_run s (a # as) = (op_fresh s a \<and> fresh_run (exec_op a s) as)"

lemma held_earlier: "inv s \<Longrightarrow> held s d lid x \<Longrightarrow> y \<le> x \<Longrightarrow> held s d lid y"
  unfolding held_def using active_mono active_expires by (metis le_less_trans)

lemma exec_op_inv: "inv s \<Longrightarrow> op_fresh s a \<Longrightarrow> inv (exec_op a s)"
  by (cases a) (auto dest: acquire_inv renew_inv release_inv split: prod.splits
      intro: acquire_inv [THEN conjunct1, OF _ _ surjective_pairing]
        renew_inv [THEN conjunct1, OF _ surjective_pairing]
        release_inv [THEN conjunct1, OF _ surjective_pairing])

lemma held_exec_op:
  assumes inv: "inv s" and held: "held s d lid x" and ok: "harmless lid x a"
  shows "held (exec_op a s) d lid x"
proof -
  from held obtain l where l: "active s d x = Some l" "wl_lease_id l = lid"
    unfolding held_def by blast
  show ?thesis
  proof (cases a)
    case (Acquire d' w ttl now f)
    show ?thesis
    proof (cases "d' = d")
      case True
      from ok Acquire have "now \<le> x" by simp
      with inv held have "held s d lid now" by (rule held_earlier)
      then obtain k where "active s d now = Some k" unfolding held_def by blast
      from acquire_busy [OF inv this, of w ttl f] have "exec_op a s = s"
        using Acquire True by auto
      with held show ?thesis by simp
    next
      case False
      with acquire_frame [OF inv surjective_pairing] Acquire l show ?thesis
        unfolding held_def by auto
    qed
  next
    case (Renew lid' ttl now)
    show ?thesis
    proof (cases "lid' = lid")
      case True
      with ok Renew have t: "now \<le> x" "x < now + ttl" by auto
      from l(1) t(1) have "active s d now = Some l"
        using active_mono [OF inv] active_expires by (metis le_less_trans)
      from renew_held [OF inv this, of ttl] True Renew l t show ?thesis
        unfolding held_def by auto
    next
      case False
      with renew_frame [OF inv surjective_pairing _ l(1)] Renew l show ?thesis
        unfolding held_def by auto
    qed
  next
    case (Release lid' now)
    with release_frame [OF inv surjective_pairing l(1)] ok l show ?thesis
      unfolding held_def by auto
  qed
qed

lemma held_run:
  "inv s \<Longrightarrow> held s d lid x \<Longrightarrow> list_all (harmless lid x) as \<Longrightarrow> fresh_run s as \<Longrightarrow>
   inv (fold exec_op as s) \<and> held (fold exec_op as s) d lid x"
proof (induction as arbitrary: s)
  case (Cons a as)
  then have "inv (exec_op a s)" "held (exec_op a s) d lid x"
    using exec_op_inv held_exec_op by auto
  with Cons show ?case by simp
qed simp

lemma still_held:
  assumes "inv s" and "acq d w ttl now f s = (Inr l, t)" and "''lease_'' @ f \<notin> ids s"
    and "list_all (harmless (wl_lease_id l) x) as" and "fresh_run t as"
    and "now \<le> x" and "x < now + ttl"
  shows "inv (fold exec_op as t) \<and> held (fold exec_op as t) d (wl_lease_id l) x"
proof -
  from acquire_ok [OF assms(1,2)] have l: "active t d now = Some l" "wl_expires_at l = now + ttl"
    by auto
  have inv: "inv t" using acquire_inv [OF assms(1,3,2)] by blast
  from active_mono [OF inv l(1)] l(2) assms(7) have "active t d x = Some l" by simp
  then have "held t d (wl_lease_id l) x" unfolding held_def by blast
  with inv show ?thesis using held_run assms(4,5) by blast
qed

text \<open>Whoever asks for the document while the lease runs is refused, and nothing changes.\<close>

lemma exclusive_writer:
  assumes "inv s" and "acq d w ttl now f s = (Inr l, t)" and "''lease_'' @ f \<notin> ids s"
    and "list_all (harmless (wl_lease_id l) x) as" and "fresh_run t as"
    and "now \<le> x" and "x < now + ttl"
  shows "\<exists>e. acq d w' ttl' x f' (fold exec_op as t) = (Inl e, fold exec_op as t)"
  using still_held [OF assms] acquire_busy unfolding held_def by blast

text \<open>
  The heartbeat thread: as long as it wakes up at least every \<open>interval\<close> and the time to
  live is longer, no heartbeat fails, and the handle and the store agree on a lease whose
  expiry is one time to live after the last heartbeat.
\<close>

lemma heartbeat_ok:
  assumes "inv s" and "active s d t0 = Some (lh_lease h)" and "\<not> lh_renewal_failed h"
    and "renewable (lh_lease h) t0"
    and "wl_expires_at (lh_lease h) = t0 + ttl" and "interval < ttl" and "beats_within interval t0 bs"
    and "heartbeat_run rn ttl bs (s, h) = (s', h')"
  shows "inv s' \<and> \<not> lh_renewal_failed h' \<and> active s' d (last (t0 # bs)) = Some (lh_lease h') \<and>
    wl_expires_at (lh_lease h') = last (t0 # bs) + ttl \<and>
    wl_lease_id (lh_lease h') = wl_lease_id (lh_lease h) \<and> lh_released h' = lh_released h"
  using assms
proof (induction bs arbitrary: s h t0)
  case Nil
  then show ?case by simp
next
  case (Cons b bs)
  let ?l = "lh_lease h"
  let ?l' = "?l\<lparr>wl_heartbeat_at := b, wl_expires_at := b + ttl\<rparr>"
  from Cons.prems have b: "t0 \<le> b" "b \<le> t0 + interval" "beats_within interval b bs" by auto
  from b Cons.prems(5,6) have "b < wl_expires_at ?l" by linarith
  with Cons.prems(1,2) have "active s d b = Some ?l" by (rule active_mono)
  moreover have "renewable ?l b"
    using renewable_later [OF Cons.prems(4) b(1), where hb = "wl_heartbeat_at ?l" and ex = "wl_expires_at ?l"] by simp
  moreover have "0 < ttl" using b Cons.prems(6) by linarith
  ultimately obtain t
    where t: "rn (wl_lease_id ?l) ttl b s = (Inr ?l', t)" "active t d b = Some ?l'"
    using renew_held [OF Cons.prems(1), of d b ?l ttl b] renew_answers [OF Cons.prems(1), of d b ?l ttl]
    by (cases "rn (wl_lease_id ?l) ttl b s") auto
  have "inv t" using renew_inv [OF Cons.prems(1) t(1)] by blast
  moreover have "renewable ?l' b" using Cons.prems(4) b(1) by (rule renewable_later)
  moreover from t(1) Cons.prems(8)
  have "heartbeat_run rn ttl bs (t, handle_update ?l' h) = (s', h')"
    by (simp add: renew_once_def)
  ultimately have "inv s' \<and> \<not> lh_renewal_failed h' \<and> active s' d (last (b # bs)) = Some (lh_lease h') \<and>
    wl_expires_at (lh_lease h') = last (b # bs) + ttl \<and>
    wl_lease_id (lh_lease h') = wl_lease_id (lh_lease (handle_update ?l' h)) \<and>
    lh_released h' = lh_released (handle_update ?l' h)"
    using t(2) b(3) Cons.prems(3,6)
    by (intro Cons.IH [where s = t and h = "handle_update ?l' h" and ?t0.0 = b]) (simp_all add: handle_update_def)
  then show ?case by (simp add: handle_update_def)
qed

end

subsection \<open>The in-memory store provides the port\<close>

lemma active_lease_None_dset:
  "lease_inv t \<Longrightarrow> d' \<noteq> d \<Longrightarrow> active_lease (dset t d l) d' x = active_lease t d' x"
  by (simp add: active_lease_def)

lemma mem_acquire_Inr:
  "try_acquire d w ttl now f s = (Inr l, t) \<longleftrightarrow>
     active_lease s d now = None \<and> 0 < ttl \<and>
     l = \<lparr>wl_lease_id = ''lease_'' @ f, wl_document_id = d, wl_owner_id = w,
          wl_acquired_at = now, wl_expires_at = now + ttl, wl_heartbeat_at = now\<rparr> \<and>
     t = dset s d l"
  by (auto simp: try_acquire_def timestamps_are_ordered_def split: option.splits)

lemma mem_acquire_Inl: "try_acquire d w ttl now f s = (Inl e, t) \<Longrightarrow> t = s"
  by (auto simp: try_acquire_def split: option.splits sum.splits)

lemma mem_acquire_inv:
  assumes "lease_inv s" and "''lease_'' @ f \<notin> lease_ids s" and "try_acquire d w ttl now f s = (r, t)"
  shows "lease_inv t \<and> lease_ids t \<subseteq> insert (''lease_'' @ f) (lease_ids s)"
proof (cases r)
  case (Inl e)
  with mem_acquire_Inl assms show ?thesis by blast
next
  case (Inr l)
  with assms(3) have l: "wl_lease_id l = ''lease_'' @ f" "wl_document_id l = d" "t = dset s d l"
    by (auto simp: mem_acquire_Inr)
  with assms(2) have "\<And>d' k. (d', k) \<in> set s \<Longrightarrow> wl_lease_id k \<noteq> wl_lease_id l"
    by (force simp: lease_ids_def)
  with l lease_inv_dset [OF assms(1) l(2)] have "lease_inv t" by blast
  moreover have "lease_ids t \<subseteq> insert (''lease_'' @ f) (lease_ids s)"
    using l assms(1) by (auto simp: lease_ids_def lease_inv_def set_dset)
  ultimately show ?thesis by simp
qed

lemma mem_renew_held:
  assumes "lease_inv s" and "active_lease s d now = Some l"
  shows "renew (wl_lease_id l) ttl now s =
    (Inr (l\<lparr>wl_heartbeat_at := now, wl_expires_at := now + ttl\<rparr>),
     dset s d (l\<lparr>wl_heartbeat_at := now, wl_expires_at := now + ttl\<rparr>))"
proof -
  from assms have m: "(d, l) \<in> set s" "now < wl_expires_at l"
    by (auto simp: active_lease_Some lease_inv_map_of)
  with assms(1) have "wl_document_id l = d" by (auto simp: lease_inv_iff)
  with m find_lease_iff [OF assms(1)] have "find_lease s (wl_lease_id l) = Some l" by blast
  with m \<open>wl_document_id l = d\<close> show ?thesis by (simp add: renew_def Let_def)
qed

lemma mem_renew_cases:
  assumes "lease_inv s" and "renew lid ttl now s = (r, t)"
  shows "t = s \<or> (\<exists>l. (wl_document_id l, l) \<in> set s \<and> wl_lease_id l = lid \<and>
     t = dset s (wl_document_id l) (l\<lparr>wl_heartbeat_at := now, wl_expires_at := now + ttl\<rparr>))"
  using assms by (auto simp: renew_def Let_def find_lease_iff split: option.splits if_splits)

lemma mem_renew_inv:
  assumes "lease_inv s" and "renew lid ttl now s = (r, t)"
  shows "lease_inv t \<and> lease_ids t \<subseteq> lease_ids s"
  using mem_renew_cases [OF assms]
proof
  assume "t = s"
  with assms(1) show ?thesis by simp
next
  assume "\<exists>l. (wl_document_id l, l) \<in> set s \<and> wl_lease_id l = lid \<and>
     t = dset s (wl_document_id l) (l\<lparr>wl_heartbeat_at := now, wl_expires_at := now + ttl\<rparr>)"
  then obtain l where l: "(wl_document_id l, l) \<in> set s" "wl_lease_id l = lid"
    "t = dset s (wl_document_id l) (l\<lparr>wl_heartbeat_at := now, wl_expires_at := now + ttl\<rparr>)"
    by blast
  have "lease_inv (dset s (wl_document_id l) (l\<lparr>wl_heartbeat_at := now, wl_expires_at := now + ttl\<rparr>))"
  proof (rule lease_inv_dset [OF assms(1)])
    show "wl_lease_id k \<noteq> wl_lease_id (l\<lparr>wl_heartbeat_at := now, wl_expires_at := now + ttl\<rparr>)"
      if "(d, k) \<in> set s" "d \<noteq> wl_document_id l" for d k
      using lease_inv_unique_id [OF assms(1) that(1) l(1)] that(2) by auto
  qed simp
  then have "lease_inv t" by (simp only: l(3))
  moreover have "lease_ids t \<subseteq> lease_ids s"
  proof
    fix i
    assume "i \<in> lease_ids t"
    then obtain p where p: "p \<in> set t" "i = wl_lease_id (snd p)" by (auto simp: lease_ids_def)
    from assms(1) have "distinct (map fst s)" by (simp add: lease_inv_def)
    with p(1) l(3) have "p \<in> set s \<or> wl_lease_id (snd p) = wl_lease_id l" by (auto simp: set_dset)
    with p(2) l(1) show "i \<in> lease_ids s" unfolding lease_ids_def by (metis imageI snd_conv)
  qed
  ultimately show ?thesis by simp
qed

lemma mem_release_active:
  "lease_inv s \<Longrightarrow> active_lease s d x = Some l \<Longrightarrow> wl_lease_id l \<noteq> lid \<Longrightarrow>
   active_lease (release_table s lid) d x = Some l"
  by (simp add: active_lease_Some lease_inv_map_of lease_inv_release release_table_iff)

interpretation mem_lease: lease_store lease_inv lease_ids active_lease try_acquire renew release "\<lambda>_ _. True"
proof (unfold_locales, goal_cases)
  case (1 s d now l w ttl f)
  then show ?case by (simp add: try_acquire_def)
next
  case (2 s d now l ttl w f)
  then show ?case by (simp add: try_acquire_def)
next
  case (3 s d now ttl w f)
  then show ?case by (simp add: mem_acquire_Inr)
next
  case (4 s d w ttl now f l t)
  then show ?case by (simp add: mem_acquire_Inr active_lease_def)
next
  case (5 d w ttl now f s e t)
  then show ?case by (rule mem_acquire_Inl)
next
  case (6 s f d w ttl now r t)
  then show ?case by (rule mem_acquire_inv)
next
  case (7 s d w ttl now f r t d' x)
  then show ?case
    by (cases r) (auto dest: mem_acquire_Inl simp: mem_acquire_Inr active_lease_None_dset)
next
  case (8 s d now l x)
  then show ?case by (simp add: active_lease_Some)
next
  case (9 s d now l)
  then show ?case by (simp add: active_lease_Some)
next
  case (10 s d now l)
  then show ?case
    by (auto simp: active_lease_Some lease_inv_map_of lease_ids_def lease_inv_iff image_iff)
      (metis snd_conv)
next
  case (11 s d x l d' y k)
  then show ?case
    by (auto simp: active_lease_Some lease_inv_map_of dest: lease_inv_unique_id)
next
  case (12 s d now l ttl x)
  then show ?case by (simp add: mem_renew_held active_lease_def)
next
  case (13 s d now l ttl)
  then show ?case by (simp add: mem_renew_held)
next
  case (14 l now x hb ex)
  then show ?case by simp
next
  case (15 s lid ttl now r t d x k)
  from mem_renew_cases [OF 15(1,2)] show ?case
  proof
    assume "\<exists>l. (wl_document_id l, l) \<in> set s \<and> wl_lease_id l = lid \<and>
     t = dset s (wl_document_id l) (l\<lparr>wl_heartbeat_at := now, wl_expires_at := now + ttl\<rparr>)"
    then obtain l where l: "(wl_document_id l, l) \<in> set s" "wl_lease_id l = lid"
      "t = dset s (wl_document_id l) (l\<lparr>wl_heartbeat_at := now, wl_expires_at := now + ttl\<rparr>)"
      by blast
    have "wl_document_id l \<noteq> d"
    proof
      assume "wl_document_id l = d"
      with 15 l have "k = l" by (auto simp: active_lease_Some lease_inv_map_of lease_inv_def
            dest: eq_key_imp_eq_value)
      with 15(3,4) l(2) show False by blast
    qed
    with l 15(1,4) show ?thesis by (simp add: active_lease_None_dset)
  qed (use 15 in simp)
next
  case (16 s lid ttl now r t)
  then show ?case by (rule mem_renew_inv)
next
  case (17 s now lid)
  show ?case
  proof (cases "find_lease s lid")
    case None
    then show ?thesis by (simp add: renew_def)
  next
    case (Some l)
    with find_lease_iff [OF 17(1)] have l: "(wl_document_id l, l) \<in> set s" "wl_lease_id l = lid"
      by auto
    then have "\<not> now < wl_expires_at l"
      using 17 by (metis active_lease_Some lease_inv_map_of)
    with Some show ?thesis by (simp add: renew_def)
  qed
next
  case (18 s lid now r t)
  then show ?case
    by (auto simp: release_def lease_inv_release release_table_iff lease_ids_def)
next
  case (19 s lid now r t d x l)
  then show ?case by (auto simp: release_def mem_release_active)
qed

subsection \<open>Properties\<close>

fun lease_exec :: "lease_op \<Rightarrow> lease_table \<Rightarrow> lease_table" where
  "lease_exec (Acquire d w ttl now f) s = snd (try_acquire d w ttl now f s)"
| "lease_exec (Renew lid ttl now) s = snd (renew lid ttl now s)"
| "lease_exec (Release lid now) s = snd (release lid now s)"

fun fresh_lease_ids :: "lease_table \<Rightarrow> lease_op list \<Rightarrow> bool" where
  "fresh_lease_ids s [] = True"
| "fresh_lease_ids s (a # as) =
     ((case a of Acquire _ _ _ _ f \<Rightarrow> ''lease_'' @ f \<notin> lease_ids s | _ \<Rightarrow> True) \<and>
      fresh_lease_ids (lease_exec a s) as)"

lemma lease_exec_eq: "lease_exec = mem_lease.exec_op"
proof
  fix a show "lease_exec a = mem_lease.exec_op a" by (cases a) (auto simp: fun_eq_iff)
qed

lemma fresh_lease_ids_eq: "fresh_lease_ids s as = mem_lease.fresh_run s as"
  by (induction as arbitrary: s) (auto simp: lease_exec_eq split: lease_op.splits)

text \<open>
  C6: One writer per document: once a lease was granted, and whatever acquisitions, heartbeats
  and releases of other leases follow (and heartbeats of its own), an attempt to acquire
  the same document before the lease runs out raises \<open>WriterLeaseConflictError\<close> and leaves
  the table unchanged.
\<close>

theorem exclusive_writer_lease:
  assumes "lease_inv s" and "try_acquire d w ttl now f s = (Inr l, t)"
    and "''lease_'' @ f \<notin> lease_ids s"
    and "list_all (harmless (wl_lease_id l) x) as" and "fresh_lease_ids t as"
    and "now \<le> x" and "x < now + ttl"
  shows "\<exists>m. try_acquire d w' ttl' x f' (fold lease_exec as t) =
           (Inl (Err WriterLeaseConflictError m), fold lease_exec as t)"
  using mem_lease.still_held [OF assms(1-4) _ assms(6,7)] assms(5)
  by (auto simp: lease_exec_eq fresh_lease_ids_eq mem_lease.held_def try_acquire_def)

theorem exclusive_writer_lease_witness:
  "\<exists>m t. try_acquire ''doc_2'' ''w2'' 30 10 ''c'' t =
     (Inl (Err WriterLeaseConflictError m), t)"
proof -
  define t where "t = snd (try_acquire ''doc_2'' ''w1'' 30 0 ''a'' [])"
  let ?l = "\<lparr>wl_lease_id = ''lease_a'', wl_document_id = ''doc_2'', wl_owner_id = ''w1'',
      wl_acquired_at = 0, wl_expires_at = 30, wl_heartbeat_at = 0\<rparr>"
  have t: "t = [(''doc_2'', ?l)]"
    by (simp add: t_def try_acquire_def active_lease_def timestamps_are_ordered_def)
  have a: "try_acquire ''doc_2'' ''w1'' 30 0 ''a'' [] = (Inr ?l, t)"
    by (simp add: t try_acquire_def active_lease_def timestamps_are_ordered_def)
  let ?as = "[Acquire ''doc_3'' ''w2'' 30 5 ''b'', Release ''lease_x'' 6]"
  have "\<exists>m. try_acquire ''doc_2'' ''w2'' 30 10 ''c'' (fold lease_exec ?as t) =
     (Inl (Err WriterLeaseConflictError m), fold lease_exec ?as t)"
    by (rule exclusive_writer_lease [OF _ a])
      (simp_all add: lease_inv_def lease_ids_def t try_acquire_def active_lease_def
        timestamps_are_ordered_def)
  then show ?thesis by blast
qed

text \<open>
  C31: The timing parameters that the constructor accepts make the lease survive: if the
  heartbeat thread wakes up within every interval, no heartbeat fails, and when the last of
  them returned, the lease that the handle shows is the one the store holds, with at least
  the configured minimum left at the next wake-up.
\<close>

theorem heartbeats_keep_lease:
  assumes "lease_service_init ttl_s heartbeat_s minimum_s = Inr svc" and "0 < minimum_s"
    and "lease_inv s" and "active_lease s d t0 = Some l" and "wl_expires_at l = t0 + ls_ttl svc"
    and "beats_within (ls_heartbeat_interval svc) t0 bs"
    and "heartbeat_run renew (ls_ttl svc) bs (s, new_handle l) = (s', h)"
  shows "is_valid_at h (last (t0 # bs) + ls_heartbeat_interval svc) \<and>
    active_lease s' d (last (t0 # bs)) = Some (lh_lease h) \<and>
    wl_lease_id (lh_lease h) = wl_lease_id l \<and>
    ls_minimum_remaining svc \<le> wl_expires_at (lh_lease h) - (last (t0 # bs) + ls_heartbeat_interval svc)"
proof -
  have svc: "ls_ttl svc = seconds ttl_s" "ls_heartbeat_interval svc = seconds heartbeat_s"
    "ls_minimum_remaining svc = seconds minimum_s" "minimum_s \<le> ttl_s - heartbeat_s"
    using assms(1) by (auto simp: lease_service_init_def split: if_splits)
  then have less: "ls_heartbeat_interval svc < ls_ttl svc" using assms(2) by (simp add: seconds_def)
  have "lease_inv s' \<and> \<not> lh_renewal_failed h \<and> active_lease s' d (last (t0 # bs)) = Some (lh_lease h) \<and>
    wl_expires_at (lh_lease h) = last (t0 # bs) + ls_ttl svc \<and>
    wl_lease_id (lh_lease h) = wl_lease_id (lh_lease (new_handle l)) \<and>
    lh_released h = lh_released (new_handle l)"
    using mem_lease.heartbeat_ok [OF assms(3) _ _ _ _ less assms(6,7)] assms(4,5)
    by (simp add: new_handle_def)
  with svc assms(2) less show ?thesis
    by (auto simp: is_valid_at_def new_handle_def seconds_def)
qed

theorem heartbeats_keep_lease_witness:
  "\<exists>s' h. is_valid_at h 14000000 \<and>
     active_lease s' ''doc_1'' 9000000 = Some (lh_lease h)"
proof -
  let ?svc = "\<lparr>ls_ttl = 30000000, ls_heartbeat_interval = 5000000, ls_minimum_remaining = 15000000\<rparr>"
  let ?l = "\<lparr>wl_lease_id = ''lease_a'', wl_document_id = ''doc_1'', wl_owner_id = ''job_1'',
      wl_acquired_at = 0, wl_expires_at = 30000000, wl_heartbeat_at = 0\<rparr>"
  obtain s' h where r: "heartbeat_run renew (ls_ttl ?svc) [4000000, 9000000]
      ([(''doc_1'', ?l)], new_handle ?l) = (s', h)"
    by fastforce
  have "is_valid_at h (last (0 # [4000000, 9000000]) + ls_heartbeat_interval ?svc) \<and>
    active_lease s' ''doc_1'' (last (0 # [4000000, 9000000])) = Some (lh_lease h) \<and>
    wl_lease_id (lh_lease h) = wl_lease_id ?l \<and>
    ls_minimum_remaining ?svc \<le> wl_expires_at (lh_lease h) -
      (last (0 # [4000000, 9000000]) + ls_heartbeat_interval ?svc)"
    by (rule heartbeats_keep_lease [where ttl_s = 30 and heartbeat_s = 5 and minimum_s = 15, OF _ _ _ _ _ _ r])
      (simp_all add: lease_service_init_def seconds_def lease_inv_def active_lease_def)
  then show ?thesis by auto
qed

end
