(* ===== verification/Canonical.thy ===== *)
theory Canonical
  imports Errors "HOL-Library.Multiset"
begin

section \<open>Canonical JSON and the plan hash\<close>

text \<open>
  Models \<open>domain/canonical.py\<close>. \<open>normalize\<close> rounds floats to nine decimals (half to
  even, as Python's \<open>round\<close>), collapses the negative zero, sorts keys and refuses
  non-finite floats; \<open>strip_volatile\<close> drops volatile keys at every depth;
  \<open>canonical_json\<close> is \<open>json.dumps\<close> with sorted keys and no white space over the
  normalised value. \<open>hashlib.sha256\<close> followed by \<open>hexdigest\<close> is the parameter \<open>sha\<close>,
  a function from byte strings to strings. No theorem assumes anything of it.
\<close>

definition VOLATILE_FIELDS :: "string list" where
  "VOLATILE_FIELDS =
     [''plan_hash'', ''created_at'', ''updated_at'', ''request_id'', ''trace_id'',
      ''audit_event_id'']"

definition PLAN_IDENTITY_FIELDS :: "string list" where
  "PLAN_IDENTITY_FIELDS = [''plan_id'', ''job_id'']"

definition FLOAT_PRECISION :: nat where
  "FLOAT_PRECISION = 9"

definition round_half_even :: "real \<Rightarrow> int" where
  "round_half_even y =
     (let f = \<lfloor>y\<rfloor>; d = y - of_int f in
      if d < 1 / 2 then f else if 1 / 2 < d then f + 1 else if even f then f else f + 1)"

definition round_dp :: "nat \<Rightarrow> real \<Rightarrow> real" where
  "round_dp n x = of_int (round_half_even (x * 10 ^ n)) / 10 ^ n"

function normalize :: "pyval \<Rightarrow> pyval res" where
  "normalize PNone = Inr PNone"
| "normalize (PBool b) = Inr (PBool b)"
| "normalize (PInt i) = Inr (PInt i)"
| "normalize (PStr s) = Inr (PStr s)"
| "normalize (PFloat x) =
     (case x of
        Fin r \<Rightarrow> Inr (PFloat (Fin (round_dp FLOAT_PRECISION r)))
      | _ \<Rightarrow> Inl (ValueError ''Non-finite float cannot be canonicalized''))"
| "normalize (PDict d) =
     bindR (traverse (\<lambda>p. bindR (normalize (snd p)) (\<lambda>v. Inr (fst p, v))) (sort_key fst d))
       (\<lambda>d'. Inr (PDict d'))"
| "normalize (PList xs) = bindR (traverse (\<lambda>v. normalize v) xs) (\<lambda>ys. Inr (PList ys))"
  by pat_completeness auto
termination
  by (relation "measure size") (auto dest: size_pdict_entry size_plist_entry)

function strip_volatile :: "string list \<Rightarrow> pyval \<Rightarrow> pyval" where
  "strip_volatile fs (PDict d) =
     PDict (map (\<lambda>p. (fst p, strip_volatile fs (snd p)))
              (filter (\<lambda>p. fst p \<notin> set fs) d))"
| "strip_volatile fs (PList xs) = PList (map (\<lambda>v. strip_volatile fs v) xs)"
| "strip_volatile fs PNone = PNone"
| "strip_volatile fs (PBool b) = PBool b"
| "strip_volatile fs (PInt i) = PInt i"
| "strip_volatile fs (PFloat x) = PFloat x"
| "strip_volatile fs (PStr s) = PStr s"
  by pat_completeness auto
termination
  by (relation "measure (size \<circ> snd)") (auto dest: size_pdict_entry size_plist_entry)

subsection \<open>json.dumps\<close>

text \<open>
  The string escapes of \<open>json.dumps\<close> with \<open>ensure_ascii=False\<close>: quote, backslash, the
  five named control characters, and \<open>\u00XX\<close> for the other control characters.
\<close>

definition hex_digit :: "nat \<Rightarrow> char" where
  "hex_digit n = (if n < 10 then char_of (48 + n) else char_of (87 + n))"

definition json_escape_char :: "char \<Rightarrow> string" where
  "json_escape_char c = (let n = (of_char c :: nat) in
     if n = 34 then [CHR 0x5C, CHR 0x22]
     else if n = 92 then [CHR 0x5C, CHR 0x5C]
     else if n = 10 then [CHR 0x5C, CHR ''n'']
     else if n = 13 then [CHR 0x5C, CHR ''r'']
     else if n = 9 then [CHR 0x5C, CHR ''t'']
     else if n = 12 then [CHR 0x5C, CHR ''f'']
     else if n = 8 then [CHR 0x5C, CHR ''b'']
     else if n < 32 then
       [CHR 0x5C, CHR ''u'', CHR ''0'', CHR ''0'', hex_digit (n div 16),
        hex_digit (n mod 16)]
     else [c])"

definition json_string :: "string \<Rightarrow> string" where
  "json_string s = CHR 0x22 # concat (map json_escape_char s) @ [CHR 0x22]"

text \<open>
  \<open>repr\<close> of a float that has at most nine decimals: positional notation for decimal
  exponents from -4 to 16, otherwise the exponent form. (A binary64 value of more
  than fifteen significant digits may print differently.)
\<close>

definition strip_zeros :: "string \<Rightarrow> string" where
  "strip_zeros s = rev (dropWhile (\<lambda>c. c = CHR ''0'') (rev s))"

definition show_exponent :: "int \<Rightarrow> string" where
  "show_exponent e = (if e < 0 then ''e-'' else ''e+'') @
     (if \<bar>e\<bar> < 10 then ''0'' else []) @ show_pos \<bar>e\<bar>"

definition float_repr :: "real \<Rightarrow> string" where
  "float_repr x =
     (let n = \<bar>round_half_even (x * 10 ^ FLOAT_PRECISION)\<bar>;
          ds = show_pos n; m = strip_zeros ds;
          e = int (length ds) - int FLOAT_PRECISION in
      (if x < 0 then ''-'' else []) @
      (if n = 0 then ''0.0''
       else if e \<le> -4 \<or> 16 < e then
         take 1 m @ (if length m \<le> 1 then [] else ''.'' @ drop 1 m) @ show_exponent (e - 1)
       else if e \<le> 0 then ''0.'' @ replicate (nat (- e)) (CHR ''0'') @ m
       else if int (length m) \<le> e then m @ replicate (nat e - length m) (CHR ''0'') @ ''.0''
       else take (nat e) m @ ''.'' @ drop (nat e) m))"

fun join :: "string \<Rightarrow> string list \<Rightarrow> string" where
  "join sep [] = []"
| "join sep [x] = x"
| "join sep (x # y # xs) = x @ sep @ join sep (y # xs)"

function json_dumps :: "pyval \<Rightarrow> string" where
  "json_dumps PNone = ''null''"
| "json_dumps (PBool b) = (if b then ''true'' else ''false'')"
| "json_dumps (PInt i) = show_int i"
| "json_dumps (PFloat x) = (case x of Fin r \<Rightarrow> float_repr r | _ \<Rightarrow> [])"
| "json_dumps (PStr s) = json_string s"
| "json_dumps (PList xs) = ''['' @ join '','' (map (\<lambda>v. json_dumps v) xs) @ '']''"
| "json_dumps (PDict d) =
     ''{'' @ join '',''
       (map (\<lambda>p. json_string (fst p) @ '':'' @ json_dumps (snd p)) (sort_key fst d)) @ ''}''"
  by pat_completeness auto
termination
  by (relation "measure size") (auto dest: size_pdict_entry size_plist_entry)

definition canonical_json :: "pyval \<Rightarrow> string res" where
  "canonical_json v = bindR (normalize v) (\<lambda>w. Inr (json_dumps w))"

definition sha256_of :: "(string \<Rightarrow> string) \<Rightarrow> pyval \<Rightarrow> string res" where
  "sha256_of sha v = bindR (canonical_json v) (\<lambda>s. Inr (''sha256:'' @ sha s))"

definition compute_plan_hash :: "(string \<Rightarrow> string) \<Rightarrow> pydict \<Rightarrow> string res" where
  "compute_plan_hash sha plan =
     sha256_of sha (strip_volatile (VOLATILE_FIELDS @ PLAN_IDENTITY_FIELDS) (PDict plan))"

text \<open>\<open>hash_value.partition(":")[2][:length]\<close>: empty when there is no colon.\<close>

definition hash_prefix :: "string \<Rightarrow> nat \<Rightarrow> string" where
  "hash_prefix h n =
     (case split_at (CHR '':'') h of None \<Rightarrow> [] | Some (_, digest) \<Rightarrow> take n digest)"

subsection \<open>Rounding\<close>

lemma round_half_even_of_int [simp]: "round_half_even (of_int n) = n"
  by (simp add: round_half_even_def)

lemma round_half_even_close: "\<bar>of_int (round_half_even y) - y\<bar> \<le> 1 / 2"
  unfolding round_half_even_def Let_def
  by (simp add: abs_le_iff)

lemma round_dp_idem [simp]: "round_dp n (round_dp n x) = round_dp n x"
  by (simp add: round_dp_def)

lemma round_dp_close: "\<bar>round_dp n x - x\<bar> \<le> 1 / (2 * 10 ^ n)"
proof -
  have "round_dp n x - x = (of_int (round_half_even (x * 10 ^ n)) - x * 10 ^ n) / 10 ^ n"
    by (simp add: round_dp_def field_simps)
  then have "\<bar>round_dp n x - x\<bar> = \<bar>of_int (round_half_even (x * 10 ^ n)) - x * 10 ^ n\<bar> / 10 ^ n"
    by (simp add: abs_divide)
  also have "\<dots> \<le> (1 / 2) / 10 ^ n"
    by (rule divide_right_mono [OF round_half_even_close]) simp
  finally show ?thesis by simp
qed

subsection \<open>Normalisation is idempotent and blind to key order\<close>

lemma sort_key_sorted_map: "sorted (map fst d) \<Longrightarrow> sort_key fst d = d"
  by (rule sort_key_id_if_sorted)

lemma normalize_dict_entries:
  assumes "traverse (\<lambda>p. bindR (normalize (snd p)) (\<lambda>v. Inr (fst p, v))) d = Inr d'"
  shows "map fst d' = map fst d"
    and "p' \<in> set d' \<Longrightarrow> \<exists>p \<in> set d. fst p = fst p' \<and> normalize (snd p) = Inr (snd p')"
proof -
  from assms show "map fst d' = map fst d"
    by (induction d arbitrary: d') (auto simp: bindR_Inr_iff split: sum.splits)
  show "p' \<in> set d' \<Longrightarrow> \<exists>p \<in> set d. fst p = fst p' \<and> normalize (snd p) = Inr (snd p')"
    by (drule traverse_origin [OF assms]) (force simp: bindR_Inr_iff)
qed

theorem normalize_idem: "normalize v = Inr w \<Longrightarrow> normalize w = Inr w"
proof (induction v arbitrary: w rule: normalize.induct)
  case (5 x)
  then show ?case by (auto split: pyfloat.splits)
next
  case (6 d)
  from "6.prems" obtain d' where
    tr: "traverse (\<lambda>p. bindR (normalize (snd p)) (\<lambda>v. Inr (fst p, v))) (sort_key fst d) = Inr d'"
    and w: "w = PDict d'"
    by (auto simp: bindR_Inr_iff)
  note ent = normalize_dict_entries [OF tr]
  have srt: "sort_key fst d' = d'"
    by (rule sort_key_sorted_map) (simp add: ent(1))
  have "normalize (snd p') = Inr (snd p')" if "p' \<in> set d'" for p'
    using ent(2) [OF that] "6.IH" by fastforce
  then have "traverse (\<lambda>p. bindR (normalize (snd p)) (\<lambda>v. Inr (fst p, v))) d' = Inr d'"
    by (intro traverse_Inr_self) simp
  then show ?case by (simp add: w srt)
next
  case (7 xs)
  from "7.prems" obtain ys where tr: "traverse (\<lambda>v. normalize v) xs = Inr ys"
    and w: "w = PList ys"
    by (auto simp: bindR_Inr_iff)
  have "normalize y = Inr y" if "y \<in> set ys" for y
    using traverse_origin [OF tr that] "7.IH" by blast
  then have "traverse (\<lambda>v. normalize v) ys = Inr ys"
    by (intro traverse_Inr_self) simp
  then show ?case by (simp add: w)
qed auto

lemma sort_key_perm:
  assumes "mset d = mset e" and "distinct (map fst d)"
  shows "sort_key fst d = sort_key fst e"
proof (rule properties_for_sort_key)
  show "mset (sort_key fst e) = mset d" using assms(1) by simp
  show "sorted (map fst (sort_key fst e))" by simp
  fix k
  assume "k \<in> set (sort_key fst e)"
  have perm: "mset (sort_key fst e) = mset d" using assms(1) by simp
  have dis: "distinct (map fst (sort_key fst e))"
    using assms(2) perm by (metis mset_eq_imp_distinct_iff mset_map)
  show "[x\<leftarrow>sort_key fst e. fst k = fst x] = [x\<leftarrow>d. fst k = fst x]"
  proof (cases "\<exists>x \<in> set d. fst x = fst k")
    case True
    then obtain x where x: "x \<in> set d" "fst x = fst k" by blast
    have "filter (\<lambda>y. fst k = fst y) l = [x]" if "mset l = mset d" for l
    proof -
      have dl: "distinct (map fst l)" using that assms(2) by (metis mset_eq_imp_distinct_iff mset_map)
      have xl: "x \<in> set l" using x(1) that mset_eq_setD by metis
      show ?thesis using dl xl x(2)
        by (induction l) (auto simp: filter_empty_conv image_iff)
    qed
    with perm show ?thesis by simp
  next
    case False
    then have "filter (\<lambda>y. fst k = fst y) d = []" by (auto simp: filter_empty_conv)
    moreover have "filter (\<lambda>y. fst k = fst y) (sort_key fst e) = []"
      using False perm mset_eq_setD by (fastforce simp: filter_empty_conv)
    ultimately show ?thesis by simp
  qed
qed

theorem canonical_json_key_order:
  assumes "mset d = mset e" and "distinct (map fst d)"
  shows "canonical_json (PDict d) = canonical_json (PDict e)"
  by (simp add: canonical_json_def sort_key_perm [OF assms])

subsection \<open>What the plan hash leaves out\<close>

lemma strip_volatile_idem: "strip_volatile fs (strip_volatile fs v) = strip_volatile fs v"
  by (induction fs v rule: strip_volatile.induct) (auto simp: filter_map comp_def)

lemma strip_volatile_dset:
  "k \<in> set fs \<Longrightarrow> strip_volatile fs (PDict (dset d k v)) = strip_volatile fs (PDict d)"
  by (induction d k v rule: dset.induct) auto

end
