(* ===== verification/TokenCodec.thy ===== *)
theory TokenCodec
  imports Canonical JobModel
begin

section \<open>Token payloads: base64url over canonical JSON claims\<close>

text \<open>
  What \<open>security/approval.py\<close> and \<open>security/rollback_approval.py\<close> use of the standard
  library to carry a dictionary of strings in a token: \<open>base64.urlsafe_b64encode\<close> without
  padding, \<open>base64.b64decode\<close> with the padding put back, \<open>json.loads\<close> of an object whose
  values are strings (any other value makes the claims invalid, so the parser refuses it
  at once; the payload is taken to be UTF-8), and \<open>datetime.isoformat\<close> in UTC.
\<close>

subsection \<open>Base64\<close>

definition base64url_chars :: string where
  "base64url_chars = ''ABCDEFGHIJKLMNOPQRSTUVWXYZabcdefghijklmnopqrstuvwxyz0123456789-_''"

definition b64_char :: "nat \<Rightarrow> char" where
  "b64_char n =
     (if n < 26 then char_of (65 + n) else if n < 52 then char_of (71 + n)
      else if n < 62 then char_of (n - 4) else if n = 62 then CHR ''-'' else CHR ''_'')"

definition b64_value :: "char \<Rightarrow> nat option" where
  "b64_value c = (let n = of_char c in
     if 65 \<le> n \<and> n \<le> 90 then Some (n - 65) else if 97 \<le> n \<and> n \<le> 122 then Some (n - 71)
     else if 48 \<le> n \<and> n \<le> 57 then Some (n + 4) else if n = 45 then Some 62
     else if n = 95 then Some 63 else None)"

fun b64_encode :: "nat list \<Rightarrow> string" where
  "b64_encode [] = []"
| "b64_encode [a] = [b64_char (a div 4), b64_char (a mod 4 * 16), CHR ''='', CHR ''='']"
| "b64_encode [a, b] =
     [b64_char (a div 4), b64_char (a mod 4 * 16 + b div 16), b64_char (b mod 16 * 4), CHR ''='']"
| "b64_encode (a # b # c # bs) =
     b64_char (a div 4) # b64_char (a mod 4 * 16 + b div 16) #
     b64_char (b mod 16 * 4 + c div 64) # b64_char (c mod 64) # b64_encode bs"

definition rstrip_char :: "char \<Rightarrow> string \<Rightarrow> string" where
  "rstrip_char c s = rev (dropWhile (\<lambda>x. x = c) (rev s))"

definition urlsafe_b64 :: "string \<Rightarrow> string" where
  "urlsafe_b64 s = rstrip_char (CHR ''='') (b64_encode (map of_char s))"

text \<open>
  The decoder on sextets; a final group of one sextet (three padding characters) is an
  error, the unused bits of a final group are ignored.
\<close>

fun b64_sextets :: "nat list \<Rightarrow> nat list option" where
  "b64_sextets [] = Some []"
| "b64_sextets [w] = None"
| "b64_sextets [w, x] = Some [w * 4 + x div 16]"
| "b64_sextets [w, x, y] = Some [w * 4 + x div 16, x mod 16 * 16 + y div 4]"
| "b64_sextets (w # x # y # z # zs) =
     map_option (\<lambda>bs. (w * 4 + x div 16) # (x mod 16 * 16 + y div 4) # (y mod 4 * 64 + z) # bs)
       (b64_sextets zs)"

definition urlsafe_b64_decode :: "string \<Rightarrow> string option" where
  "urlsafe_b64_decode s =
     (if s = [] \<or> \<not> list_all (\<lambda>c. b64_value c \<noteq> None) s then None
      else map_option (map char_of) (b64_sextets (map (\<lambda>c. the (b64_value c)) s)))"

lemma b64_value_char: "n < 64 \<Longrightarrow> b64_value (b64_char n) = Some n"
  by (auto simp: b64_value_def b64_char_def Let_def)

lemma b64_char_not_pad: "n < 64 \<Longrightarrow> b64_char n \<noteq> CHR ''=''"
  using b64_value_char [of n] by (auto simp: b64_value_def)

text \<open>The sextets of the encoding, and the encoding as padded sextets.\<close>

fun sextets_of :: "nat list \<Rightarrow> nat list" where
  "sextets_of [] = []"
| "sextets_of [a] = [a div 4, a mod 4 * 16]"
| "sextets_of [a, b] = [a div 4, a mod 4 * 16 + b div 16, b mod 16 * 4]"
| "sextets_of (a # b # c # bs) =
     a div 4 # (a mod 4 * 16 + b div 16) # (b mod 16 * 4 + c div 64) # c mod 64 # sextets_of bs"

lemma sextets_of_less: "list_all (\<lambda>b. b < 256) bs \<Longrightarrow> list_all (\<lambda>s. s < 64) (sextets_of bs)"
  by (induction bs rule: sextets_of.induct) auto

lemma sextets_of_string: "x \<in> set (sextets_of (map of_char s)) \<Longrightarrow> x < 64"
proof -
  have "list_all (\<lambda>b. b < 256) (map of_char s :: nat list)" by (auto simp: list_all_iff)
  then have "list_all (\<lambda>x. x < 64) (sextets_of (map of_char s))" by (rule sextets_of_less)
  then show "x \<in> set (sextets_of (map of_char s)) \<Longrightarrow> x < 64" by (simp add: list_all_iff)
qed

lemma b64_encode_sextets:
  "\<exists>k. b64_encode bs = map b64_char (sextets_of bs) @ replicate k (CHR ''='')"
proof (induction bs rule: b64_encode.induct)
  case (2 a)
  show ?case by (rule exI [of _ 2]) (simp add: numeral_2_eq_2)
next
  case (3 a b)
  show ?case by (rule exI [of _ 1]) simp
qed auto

lemma rstrip_replicate:
  "(\<forall>x \<in> set s. x \<noteq> c) \<Longrightarrow> rstrip_char c (s @ replicate k c) = s"
proof -
  assume s: "\<forall>x \<in> set s. x \<noteq> c"
  have "dropWhile (\<lambda>x. x = c) (replicate k c @ rev s) = rev s"
  proof (induction k)
    case 0
    from s show ?case by (cases "rev s") (auto simp: dropWhile_eq_self_iff hd_rev)
  qed simp
  then show ?thesis by (simp add: rstrip_char_def)
qed

lemma urlsafe_b64_sextets: "urlsafe_b64 s = map b64_char (sextets_of (map of_char s))"
proof -
  have "\<forall>x \<in> set (map b64_char (sextets_of (map of_char s))). x \<noteq> CHR ''=''"
    using b64_char_not_pad sextets_of_string by auto
  moreover obtain k where
    "b64_encode (map of_char s) = map b64_char (sextets_of (map of_char s)) @ replicate k (CHR ''='')"
    using b64_encode_sextets by blast
  ultimately show ?thesis by (simp add: urlsafe_b64_def rstrip_replicate)
qed

lemma nibble_split: "(y::nat) < m \<Longrightarrow> (x * m + y) div m = x" "(y::nat) < m \<Longrightarrow> (x * m + y) mod m = y"
  by simp_all

lemma b64_join1: "b < 256 \<Longrightarrow> a div 4 * 4 + (a mod 4 * 16 + b div 16) div 16 = (a::nat)"
  by (subst nibble_split(1)) simp_all

lemma b64_join2:
  "b < 256 \<Longrightarrow> c < 256 \<Longrightarrow>
   (a mod 4 * 16 + b div 16) mod 16 * 16 + (b mod 16 * 4 + c div 64) div 4 = (b::nat)"
  by (subst nibble_split(2), simp, subst nibble_split(1)) simp_all

lemma b64_join3: "c < 256 \<Longrightarrow> (b mod 16 * 4 + c div 64) mod 4 * 64 + c mod 64 = (c::nat)"
  by (subst nibble_split(2)) simp_all

lemma b64_join4:
  "b < 256 \<Longrightarrow> (a mod 4 * 16 + b div 16) mod 16 * 16 + b mod 16 * 4 div 4 = (b::nat)"
  by (subst nibble_split(2)) simp_all

lemma b64_join5: "a div 4 * 4 + a mod 4 * 16 div 16 = (a::nat)"
  by simp

lemmas b64_join = b64_join1 b64_join2 b64_join3 b64_join4 b64_join5

lemma b64_sextets_of: "list_all (\<lambda>b. b < 256) bs \<Longrightarrow> b64_sextets (sextets_of bs) = Some bs"
  by (induction bs rule: sextets_of.induct)
    (simp_all only: sextets_of.simps b64_sextets.simps list.pred_inject b64_join simp_thms option.map)

lemma urlsafe_b64_roundtrip:
  assumes "s \<noteq> []"
  shows "urlsafe_b64_decode (urlsafe_b64 s) = Some s"
proof -
  let ?bs = "map of_char s :: nat list"
  have b: "list_all (\<lambda>b. b < 256) ?bs" by (auto simp: list_all_iff)
  have lt: "\<forall>x \<in> set (sextets_of ?bs). x < 64"
    using sextets_of_string by blast
  have "sextets_of ?bs \<noteq> []"
    using assms by (cases ?bs rule: sextets_of.cases) auto
  moreover have "map (\<lambda>c. the (b64_value c)) (map b64_char (sextets_of ?bs)) = sextets_of ?bs"
    using lt by (simp add: b64_value_char map_idI)
  moreover have "list_all (\<lambda>c. b64_value c \<noteq> None) (map b64_char (sextets_of ?bs))"
    using lt b64_value_char by (force simp: list_all_iff)
  ultimately show ?thesis
    using b64_sextets_of [OF b]
    by (simp add: urlsafe_b64_decode_def urlsafe_b64_sextets comp_def)
qed

lemma urlsafe_b64_no_dot: "CHR ''.'' \<notin> set (urlsafe_b64 s)"
proof
  assume "CHR ''.'' \<in> set (urlsafe_b64 s)"
  then obtain n where n: "n \<in> set (sextets_of (map of_char s))" "b64_char n = CHR ''.''"
    by (auto simp: urlsafe_b64_sextets)
  from n(1) have "n < 64" by (rule sextets_of_string)
  with n(2) b64_value_char [of n] show False by (simp add: b64_value_def)
qed

subsection \<open>JSON objects of strings\<close>

definition expect :: "char \<Rightarrow> string \<Rightarrow> string option" where
  "expect c s = (case s of [] \<Rightarrow> None | x # xs \<Rightarrow> if x = c then Some xs else None)"

definition skip_ws :: "string \<Rightarrow> string" where
  "skip_ws s = dropWhile (\<lambda>c. of_char c \<in> {32, 9, 10, 13 :: nat}) s"

definition hex_value :: "char \<Rightarrow> nat option" where
  "hex_value c = (let n = of_char c in
     if 48 \<le> n \<and> n \<le> 57 then Some (n - 48) else if 97 \<le> n \<and> n \<le> 102 then Some (n - 87)
     else if 65 \<le> n \<and> n \<le> 70 then Some (n - 55) else None)"

fun hex4 :: "string \<Rightarrow> (nat \<times> string) option" where
  "hex4 (a # b # c # d # s) =
     (case (hex_value a, hex_value b, hex_value c, hex_value d) of
        (Some w, Some x, Some y, Some z) \<Rightarrow> Some (((w * 16 + x) * 16 + y) * 16 + z, s)
      | _ \<Rightarrow> None)"
| "hex4 _ = None"

definition utf8_encode :: "nat \<Rightarrow> string" where
  "utf8_encode n =
     (if n < 128 then [char_of n]
      else if n < 2048 then [char_of (192 + n div 64), char_of (128 + n mod 64)]
      else if n < 65536 then
        [char_of (224 + n div 4096), char_of (128 + n div 64 mod 64), char_of (128 + n mod 64)]
      else [char_of (240 + n div 262144), char_of (128 + n div 4096 mod 64),
            char_of (128 + n div 64 mod 64), char_of (128 + n mod 64)])"

text \<open>The escape after a backslash, with surrogate pairs joined.\<close>

definition simple_escape :: "char \<Rightarrow> char option" where
  "simple_escape c =
     (if c = CHR 0x22 then Some (CHR 0x22)
      else if c = CHR 0x5C then Some (CHR 0x5C)
      else if c = CHR ''/'' then Some (CHR ''/'')
      else if c = CHR ''b'' then Some (CHR 0x08)
      else if c = CHR ''f'' then Some (CHR 0x0C)
      else if c = CHR ''n'' then Some (CHR 0x0A)
      else if c = CHR ''r'' then Some (CHR 0x0D)
      else if c = CHR ''t'' then Some (CHR 0x09) else None)"

definition low_surrogate :: "string \<Rightarrow> (nat \<times> string) option" where
  "low_surrogate s =
     (case expect (CHR 0x5C) s of None \<Rightarrow> None
      | Some s1 \<Rightarrow> (case expect (CHR ''u'') s1 of None \<Rightarrow> None
        | Some s2 \<Rightarrow> (case hex4 s2 of None \<Rightarrow> None
          | Some (m, s3) \<Rightarrow> if 56320 \<le> m \<and> m \<le> 57343 then Some (m, s3) else None)))"

definition parse_escape :: "string \<Rightarrow> (string \<times> string) option" where
  "parse_escape s = (case s of [] \<Rightarrow> None
     | e # s1 \<Rightarrow>
        if e = CHR ''u'' then
          (case hex4 s1 of None \<Rightarrow> None
           | Some (n, s2) \<Rightarrow>
               if 55296 \<le> n \<and> n \<le> 56319 then
                 (case low_surrogate s2 of
                    Some (m, s3) \<Rightarrow>
                      Some (utf8_encode (65536 + (n - 55296) * 1024 + (m - 56320)), s3)
                  | None \<Rightarrow> Some (utf8_encode n, s2))
               else Some (utf8_encode n, s2))
        else map_option (\<lambda>c. ([c], s1)) (simple_escape e))"

lemma expect_shorter: "expect c s = Some t \<Longrightarrow> length t < length s"
  by (auto simp: expect_def split: list.splits if_splits)

lemma hex4_shorter: "hex4 s = Some (n, t) \<Longrightarrow> length t < length s"
  by (cases s rule: hex4.cases) (auto split: option.splits)

lemma low_surrogate_shorter: "low_surrogate s = Some (m, t) \<Longrightarrow> length t < length s"
  by (auto simp: low_surrogate_def split: option.splits if_splits
      dest!: expect_shorter hex4_shorter)

lemma parse_escape_shorter: "parse_escape s = Some (c, t) \<Longrightarrow> length t < length s"
  by (auto simp: parse_escape_def split: list.splits if_splits option.splits
      dest!: hex4_shorter low_surrogate_shorter)

text \<open>The rest of a string literal after its opening quote: the text and what follows it.\<close>

function parse_string :: "string \<Rightarrow> (string \<times> string) option" where
  "parse_string s = (case s of [] \<Rightarrow> None
     | c # t \<Rightarrow>
        if c = CHR 0x22 then Some ([], t)
        else if c = CHR 0x5C then
          (case parse_escape t of None \<Rightarrow> None
           | Some (u, t') \<Rightarrow> map_option (\<lambda>(a, b). (u @ a, b)) (parse_string t'))
        else if of_char c < (32::nat) then None
        else map_option (\<lambda>(a, b). (c # a, b)) (parse_string t))"
  by pat_completeness auto
termination
  by (relation "measure length") (auto dest: parse_escape_shorter)

declare parse_string.simps [simp del]

lemma parse_string_Nil [simp]: "parse_string [] = None"
  by (subst parse_string.simps) simp

lemma parse_string_quote [simp]: "parse_string (CHR 0x22 # t) = Some ([], t)"
  by (subst parse_string.simps) simp

lemma parse_string_shorter: "parse_string s = Some (a, t) \<Longrightarrow> length t < length s"
proof (induction s arbitrary: a rule: length_induct)
  case (1 s)
  then have IH: "length t < length x"
    if "length x < length s" "parse_string x = Some (b, t)" for x b
    using that by blast
  show ?case
  proof (cases s)
    case (Cons c r)
    have IHr: "length t < length r" if "parse_string r = Some (b, t)" for b
      using IH [OF _ that] Cons by simp
    have IHe: "length t < length r"
      if "parse_escape r = Some (u, x)" "parse_string x = Some (b, t)" for u x b
      using IH [OF _ that(2)] parse_escape_shorter [OF that(1)] Cons by simp
    from "1.prems" Cons show ?thesis
      by (subst (asm) parse_string.simps)
        (auto split: if_splits option.splits dest: IHr IHe)
  qed (use "1.prems" in simp)
qed

function parse_pairs :: "string \<Rightarrow> ((string \<times> string) list \<times> string) option" where
  "parse_pairs s =
     Option.bind (expect (CHR 0x22) s) (\<lambda>s1.
     Option.bind (parse_string s1) (\<lambda>(k, s2).
     Option.bind (expect (CHR '':'') (skip_ws s2)) (\<lambda>s3.
     Option.bind (expect (CHR 0x22) (skip_ws s3)) (\<lambda>s4.
     Option.bind (parse_string s4) (\<lambda>(v, s5).
       (case expect (CHR ''}'') (skip_ws s5) of
          Some s6 \<Rightarrow> Some ([(k, v)], s6)
        | None \<Rightarrow>
            Option.bind (expect (CHR '','') (skip_ws s5)) (\<lambda>s6.
              map_option (\<lambda>(kvs, s7). ((k, v) # kvs, s7)) (parse_pairs (skip_ws s6)))))))))"
  by pat_completeness auto
termination
proof (relation "measure length", goal_cases)
  case (2 s s1 p k s2 s3 s4 q v s5 s6)
  have ws: "length (skip_ws x) \<le> length x" for x by (simp add: skip_ws_def length_dropWhile_le)
  from 2 show ?case
    by (auto dest!: expect_shorter parse_string_shorter)
      (meson ws le_less_trans less_trans order_le_less_trans less_le_trans)
qed simp

declare parse_pairs.simps [simp del]

text \<open>
  \<open>json.loads\<close> of an object of strings: a dictionary, in which the last of equal keys wins.
\<close>

definition loads_claims :: "string \<Rightarrow> (string \<times> string) list option" where
  "loads_claims s =
     Option.bind (expect (CHR ''{'') (skip_ws s)) (\<lambda>s1.
       (case expect (CHR ''}'') (skip_ws s1) of
          Some s2 \<Rightarrow> if skip_ws s2 = [] then Some [] else None
        | None \<Rightarrow>
            Option.bind (parse_pairs (skip_ws s1)) (\<lambda>(kvs, s2).
              if skip_ws s2 = []
              then Some (fold (\<lambda>(k, v) d. dset d k v) kvs []) else None)))"

subsection \<open>Parsing what json.dumps writes\<close>

lemma hex_value_digit: "n < 16 \<Longrightarrow> hex_value (hex_digit n) = Some n"
  by (auto simp: hex_value_def hex_digit_def Let_def)

lemma parse_control:
  "n < 32 \<Longrightarrow>
   parse_escape (CHR ''u'' # CHR ''0'' # CHR ''0'' # hex_digit (n div 16) # hex_digit (n mod 16) # t) =
     Some ([char_of n], t)"
  by (simp add: parse_escape_def hex_value_digit utf8_encode_def hex_value_def [of "CHR ''0''"])

lemma parse_string_escape:
  "parse_escape t = Some (u, t') \<Longrightarrow>
   parse_string (CHR 0x5C # t) = map_option (\<lambda>(a, b). (u @ a, b)) (parse_string t')"
  by (subst parse_string.simps) simp

lemma parse_string_plain:
  "c \<noteq> CHR 0x22 \<Longrightarrow> c \<noteq> CHR 0x5C \<Longrightarrow> 32 \<le> (of_char c :: nat) \<Longrightarrow>
   parse_string (c # t) = map_option (\<lambda>(a, b). (c # a, b)) (parse_string t)"
  by (subst parse_string.simps) simp

lemma char_codes:
  "(of_char c :: nat) = 34 \<longleftrightarrow> c = CHR 0x22" "(of_char c :: nat) = 92 \<longleftrightarrow> c = CHR 0x5C"
  "(of_char c :: nat) = 10 \<longleftrightarrow> c = CHR 0x0A" "(of_char c :: nat) = 13 \<longleftrightarrow> c = CHR 0x0D"
  "(of_char c :: nat) = 9 \<longleftrightarrow> c = CHR 0x09" "(of_char c :: nat) = 12 \<longleftrightarrow> c = CHR 0x0C"
  "(of_char c :: nat) = 8 \<longleftrightarrow> c = CHR 0x08"
  using of_char_eq_iff [where ?'a = nat, of c "CHR 0x22"]
    of_char_eq_iff [where ?'a = nat, of c "CHR 0x5C"]
    of_char_eq_iff [where ?'a = nat, of c "CHR 0x0A"]
    of_char_eq_iff [where ?'a = nat, of c "CHR 0x0D"]
    of_char_eq_iff [where ?'a = nat, of c "CHR 0x09"]
    of_char_eq_iff [where ?'a = nat, of c "CHR 0x0C"]
    of_char_eq_iff [where ?'a = nat, of c "CHR 0x08"] by simp_all

lemma parse_string_char:
  "parse_string (json_escape_char c @ t) = map_option (\<lambda>(a, b). (c # a, b)) (parse_string t)"
proof -
  have esc: "parse_string (CHR 0x5C # e # t) = map_option (\<lambda>(a, b). (x # a, b)) (parse_string t)"
    if "simple_escape e = Some x" "e \<noteq> CHR ''u''" for e x
    using that parse_string_escape [of "e # t" "[x]" t] by (simp add: parse_escape_def)
  consider "c \<in> {CHR 0x22, CHR 0x5C, CHR 0x0A, CHR 0x0D, CHR 0x09, CHR 0x0C, CHR 0x08}"
    | "c \<notin> {CHR 0x22, CHR 0x5C, CHR 0x0A, CHR 0x0D, CHR 0x09, CHR 0x0C, CHR 0x08}"
      "(of_char c :: nat) < 32"
    | "c \<notin> {CHR 0x22, CHR 0x5C, CHR 0x0A, CHR 0x0D, CHR 0x09, CHR 0x0C, CHR 0x08}"
      "32 \<le> (of_char c :: nat)" by linarith
  then show ?thesis
  proof cases
    case 1
    then show ?thesis
      by (auto simp: json_escape_char_def Let_def intro!: esc simp: simple_escape_def)
  next
    case 2
    then show ?thesis
      using parse_string_escape [OF parse_control [of "of_char c" t]]
      by (simp add: json_escape_char_def Let_def char_codes)
  next
    case 3
    then show ?thesis
      by (simp add: json_escape_char_def Let_def char_codes parse_string_plain)
  qed
qed

lemma parse_string_dumped:
  "parse_string (concat (map json_escape_char s) @ CHR 0x22 # t) = Some (s, t)"
  by (induction s) (simp_all add: parse_string_char)

lemma expect_Cons [simp]: "expect c (c # s) = Some s"
  by (simp add: expect_def)

lemma skip_ws_solid: "of_char c \<notin> {32, 9, 10, 13 :: nat} \<Longrightarrow> skip_ws (c # s) = c # s"
  by (simp add: skip_ws_def)

definition dumps_pair :: "string \<times> string \<Rightarrow> string" where
  "dumps_pair p = json_string (fst p) @ '':'' @ json_string (snd p)"

lemma json_string_app: "json_string s @ t =
    CHR 0x22 # concat (map json_escape_char s) @ CHR 0x22 # t"
  by (simp add: json_string_def)

lemma parse_pairs_dumped:
  "kvs \<noteq> [] \<Longrightarrow> parse_pairs (join '','' (map dumps_pair kvs) @ ''}'' @ t) = Some (kvs, t)"
proof (induction kvs rule: induct_list012)
  case (2 p)
  obtain k v where p: "p = (k, v)" by (cases p)
  show ?case
    by (subst parse_pairs.simps)
      (simp add: p dumps_pair_def json_string_app parse_string_dumped skip_ws_solid)
next
  case (3 p q kvs)
  obtain k v where p: "p = (k, v)" by (cases p)
  let ?rest = "join '','' (map dumps_pair (q # kvs)) @ CHR ''}'' # t"
  have head: "\<exists>r. ?rest = CHR 0x22 # r"
    by (cases kvs) (auto simp: dumps_pair_def json_string_app)
  then have ws: "skip_ws ?rest = ?rest" by (auto simp: skip_ws_solid)
  have no: "expect (CHR ''}'') (CHR '','' # s) = None" for s by (simp add: expect_def)
  have eq: "join '','' (map dumps_pair (p # q # kvs)) @ ''}'' @ t =
      json_string k @ CHR '':'' # json_string v @ CHR '','' # ?rest"
    by (simp add: p dumps_pair_def)
  have step: "parse_pairs (json_string k @ CHR '':'' # json_string v @ CHR '','' # ?rest) = map_option (\<lambda>(kvs, s7). ((k, v) # kvs, s7)) (parse_pairs ?rest)"
    by (subst parse_pairs.simps)
      (simp add: json_string_app parse_string_dumped skip_ws_solid no ws
        del: list.map join.simps)
  have "parse_pairs ?rest = Some (q # kvs, t)" using "3.IH"(2) by simp
  with step show ?case unfolding eq by (simp add: p)
qed simp

definition claims_value :: "(string \<times> string) list \<Rightarrow> pyval" where
  "claims_value kvs = PDict (map (\<lambda>p. (fst p, PStr (snd p))) kvs)"

lemma sort_key_map_values:
  fixes xs :: "('a::linorder \<times> 'b) list" and g :: "'b \<Rightarrow> 'c"
  shows "sort_key fst (map (\<lambda>p. (fst p, g (snd p))) xs) = map (\<lambda>p. (fst p, g (snd p))) (sort_key fst xs)"
proof -
  have ins: "insort_key fst (fst x, g (snd x)) (map (\<lambda>p. (fst p, g (snd p))) ys) =
      map (\<lambda>p. (fst p, g (snd p))) (insort_key fst x ys)" for x and ys :: "('a \<times> 'b) list"
    by (induction ys) auto
  show ?thesis by (induction xs) (simp_all add: ins)
qed

lemma canonical_json_claims:
  "canonical_json (claims_value kvs) =
     Inr (''{'' @ join '','' (map dumps_pair (sort_key fst kvs)) @ ''}'')"
proof -
  let ?g = "\<lambda>p. (fst p, PStr (snd p))"
  have tr: "traverse (\<lambda>p. bindR (normalize (snd p)) (\<lambda>v. Inr (fst p, v))) (map ?g xs) =
      (Inr (map ?g xs) :: exc + _)" for xs :: "(string \<times> string) list"
    by (induction xs) simp_all
  have "sort_key fst (map ?g (sort_key fst kvs)) = map ?g (sort_key fst kvs)"
    by (rule sort_key_id_if_sorted) (simp add: comp_def)
  then show ?thesis
    by (simp add: canonical_json_def claims_value_def sort_key_map_values tr comp_def dumps_pair_def
        del: map_map cong: map_cong)
      (simp add: comp_def dumps_pair_def)
qed

lemma fold_dset_distinct:
  "distinct (map fst (d @ kvs)) \<Longrightarrow> fold (\<lambda>(k, v) d. dset d k v) kvs d = d @ kvs"
proof (induction kvs arbitrary: d)
  case (Cons p kvs)
  obtain k v where p: "p = (k, v)" by (cases p)
  have app: "k \<notin> fst ` set d \<Longrightarrow> dset d k v = d @ [(k, v)]"
    by (induction d k v rule: dset.induct) auto
  from Cons.prems p have "k \<notin> fst ` set d" by auto
  with Cons.IH [of "d @ [(k, v)]"] Cons.prems p show ?case by (simp add: app)
qed simp

theorem loads_claims_dumps:
  assumes "distinct (map fst kvs)"
  shows "\<exists>s. canonical_json (claims_value kvs) = Inr s \<and>
    loads_claims s = Some (sort_key fst kvs) \<and> s \<noteq> []"
proof -
  let ?ps = "sort_key fst kvs"
  let ?s = "''{'' @ join '','' (map dumps_pair ?ps) @ ''}''"
  have dis: "distinct (map fst ?ps)"
    using assms by (metis mset_eq_imp_distinct_iff mset_map mset_sort)
  have "loads_claims ?s = Some ?ps"
  proof (cases "?ps = []")
    case True
    then show ?thesis by (simp add: loads_claims_def skip_ws_solid skip_ws_def)
  next
    case False
    then obtain k v qs where ps: "?ps = (k, v) # qs" by (cases ?ps) auto
    have head: "\<exists>r. join '','' (map dumps_pair ?ps) @ ''}'' = CHR 0x22 # r"
      by (cases qs) (auto simp: ps dumps_pair_def json_string_app)
    then have ws: "skip_ws (join '','' (map dumps_pair ?ps) @ ''}'') = join '','' (map dumps_pair ?ps) @ ''}''"
      by (auto simp: skip_ws_solid)
    from head have no: "expect (CHR ''}'') (join '','' (map dumps_pair ?ps) @ ''}'') = None"
      by (auto simp: expect_def)
    have "parse_pairs (join '','' (map dumps_pair ?ps) @ ''}'') = Some (?ps, [])"
      using parse_pairs_dumped [OF False, of "[]"] by simp
    then show ?thesis
      using ws no fold_dset_distinct [of "[]" ?ps] dis
      by (simp add: loads_claims_def skip_ws_solid skip_ws_def [of "[]"] del: skip_ws_def)
  qed
  then show ?thesis by (simp add: canonical_json_claims)
qed

subsection \<open>datetime.isoformat in UTC\<close>

definition pad :: "nat \<Rightarrow> int \<Rightarrow> string" where
  "pad n i = (let s = show_int i in replicate (n - length s) (CHR ''0'') @ s)"

text \<open>The civil date of a day number (days since 1970-01-01), proleptic Gregorian.\<close>

definition civil_from_days :: "int \<Rightarrow> int \<times> int \<times> int" where
  "civil_from_days days =
     (let z = days + 719468; era = z div 146097; doe = z mod 146097;
          yoe = (doe - doe div 1460 + doe div 36524 - doe div 146096) div 365;
          doy = doe - (365 * yoe + yoe div 4 - yoe div 100);
          mp = (5 * doy + 2) div 153; d = doy - (153 * mp + 2) div 5 + 1;
          m = (if mp < 10 then mp + 3 else mp - 9);
          y = yoe + era * 400 + (if m \<le> 2 then 1 else 0)
      in (y, m, d))"

definition isoformat :: "time \<Rightarrow> string" where
  "isoformat t =
     (let days = t div 86400000000; us = t mod 86400000000; sec = us div 1000000;
          frac = us mod 1000000
      in (case civil_from_days days of (y, m, d) \<Rightarrow>
        pad 4 y @ ''-'' @ pad 2 m @ ''-'' @ pad 2 d @ ''T'' @
        pad 2 (sec div 3600) @ '':'' @ pad 2 (sec div 60 mod 60) @ '':'' @ pad 2 (sec mod 60) @
        (if frac = 0 then [] else ''.'' @ pad 6 frac) @ ''+00:00''))"

end
