(* ===== verification/AuditTrail.thy ===== *)
theory AuditTrail
  imports Canonical JobModel TokenCodec "HOL-Library.Product_Lexorder"
begin

section \<open>Redaction and the hash-chained audit trail\<close>

text \<open>
  Models \<open>security/redaction.py\<close> and \<open>observability/audit.py\<close>. \<open>pathlib.Path\<close> is modelled in its
  POSIX flavour; \<open>lower\<close> covers the ASCII letters. The time and the identifier of a new event are
  arguments of \<open>audit_append\<close>.
\<close>

subsection \<open>Redaction\<close>

definition SENSITIVE_KEYS :: "string list" where
  "SENSITIVE_KEYS =
     [''approval_token'', ''approval_secret'', ''secret'', ''password'', ''token'', ''prompt'',
      ''raw_prompt'', ''api_key'', ''geometry'', ''geometries'', ''coordinates'', ''vertices'',
      ''points'']"

definition PATH_KEYS :: "string list" where
  "PATH_KEYS =
     [''path'', ''full_path'', ''target_path'', ''file_path'', ''artifact_ref'', ''document_path'',
      ''display_name'', ''filename'']"

definition REDACTED :: string where
  "REDACTED = ''[redacted]''"

text \<open>\<open>s.split("/")\<close>, and \<open>str\<close> and \<open>suffix\<close> of a POSIX path.\<close>

fun split_all :: "char \<Rightarrow> string \<Rightarrow> string list" where
  "split_all c [] = [[]]"
| "split_all c (x # xs) =
     (if x = c then [] # split_all c xs
      else (case split_all c xs of [] \<Rightarrow> [[x]] | p # ps \<Rightarrow> (x # p) # ps))"

definition path_root :: "string \<Rightarrow> string" where
  "path_root s = (if starts_with s ''//'' \<and> \<not> starts_with s ''///'' then ''//''
                  else if starts_with s ''/'' then ''/'' else [])"

definition path_parts :: "string \<Rightarrow> string list" where
  "path_parts s = filter (\<lambda>p. p \<noteq> [] \<and> p \<noteq> ''.'') (split_all (CHR ''/'') s)"

definition path_str :: "string \<Rightarrow> string" where
  "path_str s = (let t = path_root s @ join ''/'' (path_parts s) in if t = [] then ''.'' else t)"

definition path_suffix :: "string \<Rightarrow> string" where
  "path_suffix s =
     (case path_parts s of [] \<Rightarrow> []
      | ps \<Rightarrow>
          let name = last ps; tail = takeWhile (\<lambda>c. c \<noteq> CHR ''.'') (rev name)
          in if length tail + 1 < length name \<and> tail \<noteq> [] then CHR ''.'' # rev tail else [])"

definition is_space :: "char \<Rightarrow> bool" where
  "is_space c \<longleftrightarrow> of_char c \<in> {32, 9, 10, 11, 12, 13, 28, 29, 30, 31 :: nat}"

definition strip :: "string \<Rightarrow> string" where
  "strip s = rev (dropWhile is_space (rev (dropWhile is_space s)))"

definition redact_path :: "(string \<Rightarrow> string) \<Rightarrow> string \<Rightarrow> string" where
  "redact_path sha path =
     ''path:'' @ take 16 (sha (json_string (lower (strip (path_str path))))) @ path_suffix path"

function redact_payload :: "(string \<Rightarrow> string) \<Rightarrow> bool \<Rightarrow> pyval \<Rightarrow> pyval" where
  "redact_payload sha redact_paths (PDict d) =
     PDict (map (\<lambda>p.
       if lower (fst p) \<in> set SENSITIVE_KEYS then (fst p, PStr REDACTED)
       else (fst p,
         case snd p of
           PStr s \<Rightarrow> if redact_paths \<and> lower (fst p) \<in> set PATH_KEYS
                     then PStr (redact_path sha s) else PStr s
         | _ \<Rightarrow> redact_payload sha redact_paths (snd p))) d)"
| "redact_payload sha redact_paths (PList xs) =
     PList (map (\<lambda>v. redact_payload sha redact_paths v) xs)"
| "redact_payload sha redact_paths PNone = PNone"
| "redact_payload sha redact_paths (PBool b) = PBool b"
| "redact_payload sha redact_paths (PInt i) = PInt i"
| "redact_payload sha redact_paths (PFloat x) = PFloat x"
| "redact_payload sha redact_paths (PStr s) = PStr s"
  by pat_completeness auto
termination
  by (relation "measure (\<lambda>(_, _, v). size v)") (auto dest: size_pdict_entry size_plist_entry)

subsection \<open>Events\<close>

datatype audit_event_type =
    DOCUMENT_INSPECTED | JOB_CREATED | SPEC_SUBMITTED | SPEC_CHANGED | PLAN_COMPILED
  | PREVIEW_GENERATED | VALIDATION_COMPLETED | APPROVAL_GRANTED | APPROVAL_REVOKED
  | ROLLBACK_APPROVAL_GRANTED | COMMIT_STARTED | COMMIT_SUCCEEDED | COMMIT_FAILED
  | ROLLBACK_STARTED | ROLLBACK_SUCCEEDED | EXPORT_CREATED | TOOL_CALL_REJECTED
  | DRAWING_READ | TAKEOFF_REPORT_CREATED | DRAWING_AUDITED

definition audit_event_value :: "audit_event_type \<Rightarrow> string" where
  "audit_event_value t = (case t of
     DOCUMENT_INSPECTED \<Rightarrow> ''DOCUMENT_INSPECTED'' | JOB_CREATED \<Rightarrow> ''JOB_CREATED''
   | SPEC_SUBMITTED \<Rightarrow> ''SPEC_SUBMITTED'' | SPEC_CHANGED \<Rightarrow> ''SPEC_CHANGED''
   | PLAN_COMPILED \<Rightarrow> ''PLAN_COMPILED'' | PREVIEW_GENERATED \<Rightarrow> ''PREVIEW_GENERATED''
   | VALIDATION_COMPLETED \<Rightarrow> ''VALIDATION_COMPLETED'' | APPROVAL_GRANTED \<Rightarrow> ''APPROVAL_GRANTED''
   | APPROVAL_REVOKED \<Rightarrow> ''APPROVAL_REVOKED''
   | ROLLBACK_APPROVAL_GRANTED \<Rightarrow> ''ROLLBACK_APPROVAL_GRANTED''
   | COMMIT_STARTED \<Rightarrow> ''COMMIT_STARTED'' | COMMIT_SUCCEEDED \<Rightarrow> ''COMMIT_SUCCEEDED''
   | COMMIT_FAILED \<Rightarrow> ''COMMIT_FAILED'' | ROLLBACK_STARTED \<Rightarrow> ''ROLLBACK_STARTED''
   | ROLLBACK_SUCCEEDED \<Rightarrow> ''ROLLBACK_SUCCEEDED'' | EXPORT_CREATED \<Rightarrow> ''EXPORT_CREATED''
   | TOOL_CALL_REJECTED \<Rightarrow> ''TOOL_CALL_REJECTED'' | DRAWING_READ \<Rightarrow> ''DRAWING_READ''
   | TAKEOFF_REPORT_CREATED \<Rightarrow> ''TAKEOFF_REPORT_CREATED'' | DRAWING_AUDITED \<Rightarrow> ''DRAWING_AUDITED'')"

record audit_event =
  ev_event_id :: string
  ev_event_type :: string
  ev_job_id :: "string option"
  ev_actor_type :: string
  ev_actor_id :: string
  ev_payload :: pyval
  ev_created_at :: time
  ev_previous_event_hash :: "string option"
  ev_event_hash :: string

definition opt_str :: "string option \<Rightarrow> pyval" where
  "opt_str x = (case x of None \<Rightarrow> PNone | Some s \<Rightarrow> PStr s)"

definition event_body ::
  "string \<Rightarrow> string \<Rightarrow> string option \<Rightarrow> string \<Rightarrow> string \<Rightarrow> pyval \<Rightarrow> time \<Rightarrow> string option \<Rightarrow> pyval" where
  "event_body eid etype jid atype aid payload created prev =
     PDict [(''event_id'', PStr eid), (''event_type'', PStr etype), (''job_id'', opt_str jid),
       (''actor_type'', PStr atype), (''actor_id'', PStr aid), (''payload'', payload),
       (''created_at'', PStr (isoformat created)), (''previous_event_hash'', opt_str prev)]"

definition last_hash :: "audit_event list \<Rightarrow> string option" where
  "last_hash events = (if events = [] then None else Some (ev_event_hash (last events)))"

definition audit_append ::
  "(string \<Rightarrow> string) \<Rightarrow> string \<Rightarrow> time \<Rightarrow> string \<Rightarrow> string option \<Rightarrow> string \<Rightarrow> string \<Rightarrow> pydict \<Rightarrow>
   (exc, audit_event list, string) prog" where
  "audit_append sha eid created etype jid atype aid payload events =
     (let prev = last_hash events;
          safe = redact_payload sha True (PDict payload)
      in case sha256_of sha (event_body eid etype jid atype aid safe created prev) of
           Inl e \<Rightarrow> (Inl e, events)
         | Inr h \<Rightarrow>
             (Inr eid, events @
               [\<lparr>ev_event_id = eid, ev_event_type = etype, ev_job_id = jid,
                 ev_actor_type = atype, ev_actor_id = aid, ev_payload = safe,
                 ev_created_at = created, ev_previous_event_hash = prev, ev_event_hash = h\<rparr>]))"

fun verify_from :: "string option \<Rightarrow> audit_event list \<Rightarrow> bool" where
  "verify_from expected [] = True"
| "verify_from expected (e # es) =
     (if ev_previous_event_hash e \<noteq> expected then False
      else verify_from (Some (ev_event_hash e)) es)"

definition verify_chain :: "audit_event list \<Rightarrow> bool" where
  "verify_chain events = verify_from None events"

definition events_for_job :: "audit_event list \<Rightarrow> string \<Rightarrow> audit_event list" where
  "events_for_job events jid =
     sort_key (\<lambda>e. (ev_created_at e, ev_event_id e)) (filter (\<lambda>e. ev_job_id e = Some jid) events)"

subsection \<open>The SQLite sink\<close>

text \<open>
  \<open>persistence/sql_audit_sink.py\<close>: the rows of the table in insertion order. The chain is per
  job; the tail of a job is its latest row by \<open>(created_at, event_id)\<close>, and a new row is dated
  after it. A raised exception rolls the transaction back.
\<close>

definition job_rows :: "audit_event list \<Rightarrow> string option \<Rightarrow> audit_event list" where
  "job_rows rows jid =
     sort_key (\<lambda>e. (ev_created_at e, ev_event_id e)) (filter (\<lambda>e. ev_job_id e = jid) rows)"

definition hash_for :: "(string \<Rightarrow> string) \<Rightarrow> audit_event \<Rightarrow> string res" where
  "hash_for sha r =
     sha256_of sha (event_body (ev_event_id r) (ev_event_type r) (ev_job_id r) (ev_actor_type r)
       (ev_actor_id r) (ev_payload r) (ev_created_at r) (ev_previous_event_hash r))"

definition next_row_time :: "audit_event list \<Rightarrow> time \<Rightarrow> time" where
  "next_row_time tail now =
     (if tail = [] then now
      else let p = ev_created_at (last tail) in if now \<le> p then p + 1 else now)"

definition append_audit_row ::
  "(string \<Rightarrow> string) \<Rightarrow> string \<Rightarrow> time \<Rightarrow> string \<Rightarrow> string option \<Rightarrow> string \<Rightarrow> string \<Rightarrow> pyval \<Rightarrow>
   (exc, audit_event list, string) prog" where
  "append_audit_row sha eid now etype jid atype aid safe rows =
     (let tail = job_rows rows jid;
          row = \<lparr>ev_event_id = eid, ev_event_type = etype, ev_job_id = jid,
                 ev_actor_type = atype, ev_actor_id = aid, ev_payload = safe,
                 ev_created_at = next_row_time tail now, ev_previous_event_hash = last_hash tail,
                 ev_event_hash = []\<rparr>
      in case hash_for sha row of
           Inl e \<Rightarrow> (Inl e, rows)
         | Inr h \<Rightarrow> (Inr eid, rows @ [row\<lparr>ev_event_hash := h\<rparr>]))"

definition sql_audit_append ::
  "(string \<Rightarrow> string) \<Rightarrow> string \<Rightarrow> time \<Rightarrow> string \<Rightarrow> string option \<Rightarrow> string \<Rightarrow> string \<Rightarrow> pydict \<Rightarrow>
   (exc, audit_event list, string) prog" where
  "sql_audit_append sha eid now etype jid atype aid payload rows =
     append_audit_row sha eid now etype jid atype aid (redact_payload sha True (PDict payload)) rows"

fun verify_rows ::
  "(string \<Rightarrow> string) \<Rightarrow> string option \<Rightarrow> audit_event list \<Rightarrow> bool res" where
  "verify_rows sha expected [] = Inr True"
| "verify_rows sha expected (r # rs) =
     (if ev_previous_event_hash r \<noteq> expected
      then Inl (Err HarnessError ''The persisted audit hash chain is broken'')
      else bindR (hash_for sha r) (\<lambda>h.
        if ev_event_hash r \<noteq> h
        then Inl (Err HarnessError ''The persisted audit hash chain is broken'')
        else verify_rows sha (Some (ev_event_hash r)) rs))"

definition sql_verify_chain ::
  "(string \<Rightarrow> string) \<Rightarrow> audit_event list \<Rightarrow> string option \<Rightarrow> bool res" where
  "sql_verify_chain sha rows jid = verify_rows sha None (job_rows rows jid)"

subsection \<open>The in-memory chain\<close>

lemma verify_from_append:
  "verify_from x (es @ [e]) \<longleftrightarrow> verify_from x es \<and>
     ev_previous_event_hash e = (if es = [] then x else Some (ev_event_hash (last es)))"
  by (induction es arbitrary: x) auto

lemma audit_append_cases:
  assumes "audit_append sha eid created etype jid atype aid payload events = (r, events')"
  shows "(\<exists>x. r = Inl x \<and> events' = events) \<or>
     (\<exists>e. events' = events @ [e] \<and> r = Inr eid \<and> ev_previous_event_hash e = last_hash events \<and>
       hash_for sha e = Inr (ev_event_hash e) \<and> ev_event_type e = etype \<and> ev_job_id e = jid \<and>
       ev_payload e = redact_payload sha True (PDict payload))"
proof (cases "sha256_of sha (event_body eid etype jid atype aid
    (redact_payload sha True (PDict payload)) created (last_hash events))")
  case (Inl x)
  with assms have "(Inl x, events) = (r, events')"
    by (simp add: audit_append_def Let_def del: redact_payload.simps)
  then show ?thesis by blast
next
  case (Inr h)
  with assms show ?thesis
    by (auto simp: audit_append_def Let_def hash_for_def simp del: redact_payload.simps)
qed

lemma audit_append_verify:
  assumes "verify_chain events"
  shows "verify_chain (snd (audit_append sha eid created etype jid atype aid payload events))"
proof -
  obtain r events'
    where a: "audit_append sha eid created etype jid atype aid payload events = (r, events')"
    by fastforce
  from audit_append_cases [OF this] assms show ?thesis
    unfolding a by (auto simp: verify_chain_def verify_from_append last_hash_def)
qed

lemma verify_from_ignores_body:
  "map ev_previous_event_hash es = map ev_previous_event_hash es' \<Longrightarrow>
   map ev_event_hash es = map ev_event_hash es' \<Longrightarrow> verify_from x es = verify_from x es'"
proof (induction es arbitrary: es' x)
  case (Cons e es)
  then show ?case by (cases es') auto
qed simp

lemma verify_from_remove:
  assumes "verify_from x (as @ e # f # bs)"
    and "ev_event_hash e \<notin> set (map ev_event_hash as)" and "x \<noteq> Some (ev_event_hash e)"
  shows "\<not> verify_from x (as @ f # bs)"
  using assms
proof (induction as arbitrary: x)
  case (Cons a as)
  from Cons.prems have "\<not> verify_from (Some (ev_event_hash a)) (as @ f # bs)"
    by (intro Cons.IH) (simp_all split: if_splits)
  then show ?case by simp
qed (simp split: if_splits)

subsection \<open>The persisted chain\<close>

lemma sort_key_append_max:
  assumes "\<And>x. x \<in> set xs \<Longrightarrow> f x \<le> f y"
  shows "sort_key f (xs @ [y]) = sort_key f xs @ [y]"
proof (rule properties_for_sort_key)
  show "mset (sort_key f xs @ [y]) = mset (xs @ [y])" by simp
  show "sorted (map f (sort_key f xs @ [y]))" using assms by (auto simp: sorted_append)
  fix k
  assume "k \<in> set (sort_key f xs @ [y])"
  show "[x\<leftarrow>sort_key f xs @ [y]. f k = f x] = [x\<leftarrow>xs @ [y]. f k = f x]"
    by (simp add: sort_key_stable eq_commute [of "f k"])
qed

lemma sorted_le_last:
  assumes "sorted (map f xs)" and "x \<in> set xs"
  shows "f x \<le> f (last xs)"
proof -
  from assms(2) obtain n where n: "n < length xs" "xs ! n = x" by (auto simp: in_set_conv_nth)
  then have "map f xs ! n \<le> map f xs ! (length xs - 1)"
    by (intro sorted_nth_mono [OF assms(1)]) auto
  with n show ?thesis by (cases "xs = []") (simp_all add: last_conv_nth)
qed

lemma job_rows_latest:
  assumes "e \<in> set rows" and "ev_job_id e = jid"
  shows "job_rows rows jid \<noteq> [] \<and> ev_created_at e \<le> ev_created_at (last (job_rows rows jid))"
proof -
  let ?k = "\<lambda>e. (ev_created_at e, ev_event_id e)"
  have e: "e \<in> set (job_rows rows jid)" using assms by (simp add: job_rows_def)
  have "sorted (map ?k (job_rows rows jid))" by (simp add: job_rows_def)
  from sorted_le_last [OF this e] have "?k e \<le> ?k (last (job_rows rows jid))" .
  with e show ?thesis by (auto simp: less_eq_prod_def)
qed

lemma job_rows_append_later:
  assumes "\<And>e. e \<in> set rows \<Longrightarrow> ev_job_id e = ev_job_id row \<Longrightarrow> ev_created_at e < ev_created_at row"
  shows "job_rows (rows @ [row]) jid =
    (if ev_job_id row = jid then job_rows rows jid @ [row] else job_rows rows jid)"
proof (cases "ev_job_id row = jid")
  case True
  have "sort_key (\<lambda>e. (ev_created_at e, ev_event_id e)) (filter (\<lambda>e. ev_job_id e = jid) rows @ [row]) =
      sort_key (\<lambda>e. (ev_created_at e, ev_event_id e)) (filter (\<lambda>e. ev_job_id e = jid) rows) @ [row]"
    by (rule sort_key_append_max) (use assms True in \<open>auto simp: less_eq_prod_def\<close>)
  with True show ?thesis by (simp add: job_rows_def)
qed (simp add: job_rows_def)

lemma verify_rows_append:
  "verify_rows sha x (rs @ [r]) =
     bindR (verify_rows sha x rs)
       (\<lambda>_. verify_rows sha (if rs = [] then x else Some (ev_event_hash (last rs))) [r])"
proof (induction rs arbitrary: x)
  case (Cons a rs)
  then show ?case by (cases "hash_for sha a") auto
qed simp

lemma verify_rows_ok_hd:
  "verify_rows sha x [r] = Inr True \<longleftrightarrow>
     ev_previous_event_hash r = x \<and> hash_for sha r = Inr (ev_event_hash r)"
  by (cases "hash_for sha r") auto

lemma hash_for_set_hash [simp]: "hash_for sha (r\<lparr>ev_event_hash := h\<rparr>) = hash_for sha r"
  by (simp add: hash_for_def)

definition rows_ok :: "(string \<Rightarrow> string) \<Rightarrow> audit_event list \<Rightarrow> bool" where
  "rows_ok sha rows \<longleftrightarrow> (\<forall>jid. sql_verify_chain sha rows jid = Inr True)"

lemma rows_ok_Nil: "rows_ok sha []"
  by (simp add: rows_ok_def sql_verify_chain_def job_rows_def)

lemma append_audit_row_ok:
  assumes ok: "rows_ok sha rows"
    and app: "append_audit_row sha eid now etype jid atype aid safe rows = (q, rows')"
  shows "rows_ok sha rows'"
proof (cases "rows' = rows")
  case False
  let ?tail = "job_rows rows jid"
  let ?row = "\<lparr>ev_event_id = eid, ev_event_type = etype, ev_job_id = jid, ev_actor_type = atype,
      ev_actor_id = aid, ev_payload = safe, ev_created_at = next_row_time ?tail now,
      ev_previous_event_hash = last_hash ?tail, ev_event_hash = []\<rparr>"
  from False app obtain h where h: "hash_for sha ?row = Inr h" "rows' = rows @ [?row\<lparr>ev_event_hash := h\<rparr>]"
    by (cases "hash_for sha ?row") (auto simp: append_audit_row_def Let_def)
  define row where "row = ?row\<lparr>ev_event_hash := h\<rparr>"
  have "hash_for sha row = hash_for sha ?row" unfolding row_def by (rule hash_for_set_hash)
  with h have row: "rows' = rows @ [row]" "ev_job_id row = jid"
    "ev_previous_event_hash row = last_hash ?tail" "hash_for sha row = Inr (ev_event_hash row)"
    "ev_created_at row = next_row_time ?tail now"
    by (simp_all add: row_def)
  have later: "ev_created_at e < ev_created_at row"
    if "e \<in> set rows" "ev_job_id e = ev_job_id row" for e
    using job_rows_latest [OF that] row(2,5) by (auto simp: next_row_time_def Let_def)
  have "sql_verify_chain sha rows' j = Inr True" for j
  proof -
    have prev: "verify_rows sha None (job_rows rows j) = Inr True"
      using ok by (simp add: rows_ok_def sql_verify_chain_def)
    show ?thesis
    proof (cases "j = jid")
      case True
      with row later have "job_rows rows' j = job_rows rows j @ [row]"
        by (simp add: job_rows_append_later)
      with prev row True show ?thesis
        by (simp add: sql_verify_chain_def verify_rows_append last_hash_def)
    next
      case False
      with row later have "job_rows rows' j = job_rows rows j" by (simp add: job_rows_append_later)
      with prev show ?thesis by (simp add: sql_verify_chain_def)
    qed
  qed
  then show ?thesis by (simp add: rows_ok_def)
qed (use ok in simp)

text \<open>Each row of a verified chain carries the hash of its contents.\<close>

lemma verify_rows_all:
  "verify_rows sha x rs = Inr True \<Longrightarrow> r \<in> set rs \<Longrightarrow> hash_for sha r = Inr (ev_event_hash r)"
  by (induction rs arbitrary: x) (auto simp: bindR_Inr_iff split: if_splits)

subsection \<open>What redaction hides\<close>

text \<open>
  Two values with the same public part: they differ at most in the values filed under
  sensitive keys, at any depth.
\<close>

inductive same_public :: "pyval \<Rightarrow> pyval \<Rightarrow> bool" where
  same_value: "same_public v v"
| same_list: "list_all2 same_public xs ys \<Longrightarrow> same_public (PList xs) (PList ys)"
| same_dict:
    "list_all2 (\<lambda>p q. fst p = fst q \<and>
        (lower (fst p) \<in> set SENSITIVE_KEYS \<or> same_public (snd p) (snd q))) d e \<Longrightarrow>
     same_public (PDict d) (PDict e)"

inductive_cases same_public_strE: "same_public (PStr s) w"

lemma same_public_str_iff: "same_public v w \<Longrightarrow> v = PStr s \<longleftrightarrow> w = PStr s"
  by (auto elim: same_public.cases)

lemma list_all2_map_eq: "list_all2 (\<lambda>x y. f x = f y) xs ys \<Longrightarrow> map f xs = map f ys"
  by (induction rule: list_all2_induct) auto

definition redact_entry :: "(string \<Rightarrow> string) \<Rightarrow> bool \<Rightarrow> string \<times> pyval \<Rightarrow> string \<times> pyval" where
  "redact_entry sha rp p =
     (if lower (fst p) \<in> set SENSITIVE_KEYS then (fst p, PStr REDACTED)
      else (fst p,
        case snd p of
          PStr s \<Rightarrow> if rp \<and> lower (fst p) \<in> set PATH_KEYS then PStr (redact_path sha s) else PStr s
        | _ \<Rightarrow> redact_payload sha rp (snd p)))"

lemma redact_payload_dict:
  "redact_payload sha rp (PDict d) = PDict (map (redact_entry sha rp) d)"
  by (simp add: redact_entry_def)

lemma redact_entry_sensitive:
  "lower (fst p) \<in> set SENSITIVE_KEYS \<Longrightarrow> redact_entry sha rp p = (fst p, PStr REDACTED)"
  by (simp add: redact_entry_def)

lemma redact_entry_no_str:
  "\<not> lower (fst p) \<in> set SENSITIVE_KEYS \<Longrightarrow> (\<And>s. snd p \<noteq> PStr s) \<Longrightarrow>
   redact_entry sha rp p = (fst p, redact_payload sha rp (snd p))"
  by (cases "snd p") (auto simp: redact_entry_def simp del: redact_payload.simps)

lemma redact_entry_cong:
  assumes "fst p = fst q" and "same_public (snd p) (snd q)"
    and "redact_payload sha rp (snd p) = redact_payload sha rp (snd q)"
  shows "redact_entry sha rp p = redact_entry sha rp q"
proof (cases "lower (fst p) \<in> set SENSITIVE_KEYS")
  case True
  with assms(1) show ?thesis by (simp add: redact_entry_sensitive)
next
  case False
  show ?thesis
  proof (cases "\<exists>s. snd p = PStr s")
    case True
    then obtain s where "snd p = PStr s" by blast
    with assms(2) have "p = q"
      using assms(1) same_public_str_iff [of "snd p" "snd q" s] by (simp add: prod_eq_iff)
    then show ?thesis by simp
  next
    case no: False
    then have "\<And>s. snd q \<noteq> PStr s" using same_public_str_iff [OF assms(2)] by blast
    with no False assms show ?thesis
      by (simp add: redact_entry_no_str del: redact_payload.simps)
  qed
qed

lemma redact_same_public:
  "same_public v w \<Longrightarrow> redact_payload sha rp v = redact_payload sha rp w"
proof (induction rule: same_public.induct)
  case (same_list xs ys)
  then have "list_all2 (\<lambda>x y. redact_payload sha rp x = redact_payload sha rp y) xs ys"
    by (rule list_all2_mono) blast
  from list_all2_map_eq [OF this] show ?case by simp
next
  case (same_dict d e)
  then have "list_all2 (\<lambda>p q. redact_entry sha rp p = redact_entry sha rp q) d e"
    by (rule list_all2_mono) (metis redact_entry_cong redact_entry_sensitive)
  from list_all2_map_eq [OF this] show ?case
    unfolding redact_payload_dict by simp
qed simp

subsection \<open>Edits of a persisted payload\<close>

lemma event_body_sorted: "sort_key fst [(''event_id'', v1::pyval), (''event_type'', v2), (''job_id'', v3),
       (''actor_type'', v4), (''actor_id'', v5), (''payload'', v6),
       (''created_at'', v7), (''previous_event_hash'', v8)] =
   [(''actor_id'', v5), (''actor_type'', v4), (''created_at'', v7), (''event_id'', v1),
    (''event_type'', v2), (''job_id'', v3), (''payload'', v6), (''previous_event_hash'', v8)]"
  by (simp add: less_eq_list_code less_list_code)

lemma normalize_opt_str [simp]: "normalize (opt_str x) = Inr (opt_str x)"
  by (cases x) (simp_all add: opt_str_def)

lemma normalize_event_body:
  "normalize (event_body eid ty j aty a p t prev) =
   bindR (normalize p) (\<lambda>w. Inr (PDict
     ([(''actor_id'', PStr a), (''actor_type'', PStr aty), (''created_at'', PStr (isoformat t)),
       (''event_id'', PStr eid), (''event_type'', PStr ty), (''job_id'', opt_str j)] @
      (''payload'', w) # [(''previous_event_hash'', opt_str prev)])))"
  unfolding event_body_def normalize.simps event_body_sorted
  by (cases "normalize p") simp_all

lemma join_focus: "\<exists>pre post. \<forall>x. join sep (as @ x # bs) = pre @ x @ post"
proof (induction as)
  case Nil
  show ?case
    by (cases bs) (auto intro: exI [of _ "[]"])
next
  case (Cons a as)
  then obtain pre post where "\<And>x. join sep (as @ x # bs) = pre @ x @ post" by blast
  then have "join sep ((a # as) @ x # bs) = (a @ sep @ pre) @ x @ post" for x
    by (cases as) simp_all
  then show ?case by blast
qed

lemma json_dict_focus:
  assumes "\<And>w. sort_key fst (as @ (k, w) # bs) = as @ (k, w) # bs"
  shows "\<exists>pre post. \<forall>w. json_dumps (PDict (as @ (k, w) # bs)) = pre @ json_dumps w @ post"
proof -
  let ?f = "\<lambda>q. json_string (fst q) @ '':'' @ json_dumps (snd q)"
  obtain pre post where j: "\<And>x. join '','' (map ?f as @ x # map ?f bs) = pre @ x @ post"
    using join_focus [of "'',''" "map ?f as" "map ?f bs"] by blast
  have "json_dumps (PDict (as @ (k, w) # bs)) =
      (''{'' @ pre @ json_string k @ '':'') @ json_dumps w @ (post @ ''}'')" for w
    by (subst json_dumps.simps(7), subst assms) (simp only: map_append list.map j append_assoc fst_conv snd_conv)
  then show ?thesis by blast
qed

lemma canonical_event_body:
  "\<exists>pre post. \<forall>p. canonical_json (event_body eid ty j aty a p t prev) =
     bindR (canonical_json p) (\<lambda>s. Inr (pre @ s @ post))"
proof -
  let ?as = "[(''actor_id'', PStr a), (''actor_type'', PStr aty), (''created_at'', PStr (isoformat t)),
       (''event_id'', PStr eid), (''event_type'', PStr ty), (''job_id'', opt_str j)]"
  let ?bs = "[(''previous_event_hash'', opt_str prev)]"
  have s: "sort_key fst (?as @ (''payload'', w) # ?bs) = ?as @ (''payload'', w) # ?bs" for w
    by (simp add: less_eq_list_code less_list_code)
  obtain pre post
    where d: "\<And>w. json_dumps (PDict (?as @ (''payload'', w) # ?bs)) = pre @ json_dumps w @ post"
    using json_dict_focus [of ?as, OF s] by blast
  have "canonical_json (event_body eid ty j aty a p t prev) =
     bindR (canonical_json p) (\<lambda>s. Inr (pre @ s @ post))" for p
    unfolding canonical_json_def normalize_event_body
    by (cases "normalize p") (simp_all only: bindR_simps d)
  then show ?thesis by blast
qed

lemma hash_for_payload:
  assumes "inj sha" and "canonical_json (ev_payload r) = Inr s" and "canonical_json p = Inr s'"
    and "hash_for sha (r\<lparr>ev_payload := p\<rparr>) = hash_for sha r"
  shows "s' = s"
proof -
  obtain pre post where c: "\<And>p. canonical_json (event_body (ev_event_id r) (ev_event_type r) (ev_job_id r)
      (ev_actor_type r) (ev_actor_id r) p (ev_created_at r) (ev_previous_event_hash r)) =
     bindR (canonical_json p) (\<lambda>s. Inr (pre @ s @ post))"
    using canonical_event_body [of "ev_event_id r" "ev_event_type r" "ev_job_id r" "ev_actor_type r"
        "ev_actor_id r" "ev_created_at r" "ev_previous_event_hash r"] by blast
  from assms(4) have "sha (pre @ s' @ post) = sha (pre @ s @ post)"
    by (simp add: hash_for_def sha256_of_def c assms(2,3))
  with assms(1) show ?thesis by (auto dest: injD)
qed

subsection \<open>Properties\<close>

text \<open>One append to a sink: event identifier, clock, type, job, actor type, actor, payload.\<close>

type_synonym append_call =
  "string \<times> time \<times> string \<times> string option \<times> string \<times> string \<times> pydict"

definition run_memory :: "(string \<Rightarrow> string) \<Rightarrow> append_call list \<Rightarrow> audit_event list \<Rightarrow> audit_event list" where
  "run_memory sha = fold (\<lambda>(eid, t, ty, j, aty, a, p) es. snd (audit_append sha eid t ty j aty a p es))"

definition run_sql :: "(string \<Rightarrow> string) \<Rightarrow> append_call list \<Rightarrow> audit_event list \<Rightarrow> audit_event list" where
  "run_sql sha = fold (\<lambda>(eid, t, ty, j, aty, a, p) rs. snd (sql_audit_append sha eid t ty j aty a p rs))"

lemma run_memory_verify: "verify_chain es \<Longrightarrow> verify_chain (run_memory sha calls es)"
  unfolding run_memory_def
  by (induction calls arbitrary: es) (auto simp: audit_append_verify)

lemma run_memory_prefix: "\<exists>new. run_memory sha calls es = es @ new"
proof (induction calls arbitrary: es)
  case (Cons c calls)
  obtain eid t ty j aty a p where c: "c = (eid, t, ty, j, aty, a, p)" by (cases c)
  obtain r es' where ap: "audit_append sha eid t ty j aty a p es = (r, es')" by fastforce
  from audit_append_cases [OF this] have "\<exists>n. es' = es @ n" by auto
  moreover have "run_memory sha (c # calls) es = run_memory sha calls es'"
    by (simp add: run_memory_def c ap)
  ultimately show ?case using Cons.IH [of es'] by auto
qed (simp add: run_memory_def)

text \<open>
  The in-memory trail is append-only and its chain always verifies: whatever is appended
  and whenever an append raises, the old events stay in place as a prefix and
  \<open>verify_chain\<close> holds.
\<close>

theorem memory_trail_append_only:
  "verify_chain (run_memory sha calls []) \<and>
   (\<exists>new. run_memory sha (calls @ more_calls) [] = run_memory sha calls [] @ new)"
proof
  show "verify_chain (run_memory sha calls [])"
    by (rule run_memory_verify) (simp add: verify_chain_def)
  have "run_memory sha (calls @ more_calls) [] = run_memory sha more_calls (run_memory sha calls [])"
    by (simp add: run_memory_def)
  with run_memory_prefix
  show "\<exists>new. run_memory sha (calls @ more_calls) [] = run_memory sha calls [] @ new"
    by metis
qed

text \<open>
  C29: What the in-memory chain detects and what it does not. Removing an event that has a
  successor is detected when its hash occurs on no earlier event; editing the contents of an
  event, its payload for instance, or dropping the tail of the trail is not.
\<close>

theorem memory_chain_tampering:
  assumes "verify_chain (as @ e # f # bs)" and "ev_event_hash e \<notin> set (map ev_event_hash as)"
  shows "\<not> verify_chain (as @ f # bs) \<and>
         verify_chain (as @ e\<lparr>ev_payload := p\<rparr> # f # bs) \<and> verify_chain (as @ [e])"
proof (intro conjI)
  from verify_from_remove [of None as e f bs] assms show "\<not> verify_chain (as @ f # bs)"
    by (simp add: verify_chain_def)
  have "verify_from None (as @ e\<lparr>ev_payload := p\<rparr> # f # bs) = verify_from None (as @ e # f # bs)"
    by (rule verify_from_ignores_body) simp_all
  with assms(1) show "verify_chain (as @ e\<lparr>ev_payload := p\<rparr> # f # bs)"
    by (simp add: verify_chain_def)
  have "verify_from x (as @ e # f # bs) \<Longrightarrow> verify_from x (as @ [e])" for x
    by (induction as arbitrary: x) (auto split: if_splits)
  with assms(1) show "verify_chain (as @ [e])" by (simp add: verify_chain_def)
qed

definition demo_event :: "string \<Rightarrow> string option \<Rightarrow> string \<Rightarrow> audit_event" where
  "demo_event eid prev h =
     \<lparr>ev_event_id = eid, ev_event_type = ''JOB_CREATED'', ev_job_id = Some ''job_1'',
      ev_actor_type = ''system'', ev_actor_id = ''harness'', ev_payload = PDict [],
      ev_created_at = 0, ev_previous_event_hash = prev, ev_event_hash = h\<rparr>"

theorem memory_chain_tampering_witness:
  "\<not> verify_chain [demo_event ''e1'' None ''h1'', demo_event ''e3'' (Some ''h2'') ''h3''] \<and>
   verify_chain [demo_event ''e1'' None ''h1'', (demo_event ''e2'' (Some ''h1'') ''h2'')\<lparr>ev_payload := PNone\<rparr>,
     demo_event ''e3'' (Some ''h2'') ''h3'']"
proof -
  have v: "verify_chain ([demo_event ''e1'' None ''h1''] @ demo_event ''e2'' (Some ''h1'') ''h2'' #
      demo_event ''e3'' (Some ''h2'') ''h3'' # [])"
    and h: "ev_event_hash (demo_event ''e2'' (Some ''h1'') ''h2'') \<notin>
      set (map ev_event_hash [demo_event ''e1'' None ''h1''])"
    by (simp_all add: verify_chain_def demo_event_def)
  from memory_chain_tampering [OF v h, of PNone] show ?thesis by simp
qed

text \<open>
  C27: The persisted trail keeps one chain per job, and each of them verifies with recomputed
  hashes after any sequence of appends, also when the clock stands still or runs backwards
  and when appends of other jobs come in between.
\<close>

theorem sql_trail_verifies: "sql_verify_chain sha (run_sql sha calls []) jid = Inr True"
proof -
  have "rows_ok sha rows \<Longrightarrow> rows_ok sha (run_sql sha calls rows)" for rows
    unfolding run_sql_def
  proof (induction calls arbitrary: rows)
    case (Cons c calls)
    obtain eid t ty j aty a p where c: "c = (eid, t, ty, j, aty, a, p)" by (cases c)
    have "rows_ok sha (snd (sql_audit_append sha eid t ty j aty a p rows))"
      unfolding sql_audit_append_def
      by (rule append_audit_row_ok [OF Cons.prems surjective_pairing])
    with Cons.IH show ?case by (simp add: c)
  qed simp
  from this [OF rows_ok_Nil] show ?thesis by (simp add: rows_ok_def)
qed

text \<open>
  C28: Editing the payload of a persisted row is detected: if the table verified for the job, the
  row at position \<open>i\<close> belongs to it, and its payload is replaced by one whose canonical JSON
  form differs, then the verification of that job's chain raises, whatever
  collision-free hash function is used.
\<close>

theorem sql_tampering_detected:
  assumes "inj sha" and "sql_verify_chain sha rows jid = Inr True"
    and "i < length rows" and "ev_job_id (rows ! i) = jid"
    and "canonical_json (ev_payload (rows ! i)) = Inr s" and "canonical_json p = Inr s'" and "s' \<noteq> s"
  shows "sql_verify_chain sha (rows[i := (rows ! i)\<lparr>ev_payload := p\<rparr>]) jid \<noteq> Inr True"
proof
  let ?r = "rows ! i" and ?r' = "(rows ! i)\<lparr>ev_payload := p\<rparr>"
  assume v: "sql_verify_chain sha (rows[i := ?r']) jid = Inr True"
  have "?r' \<in> set (job_rows (rows[i := ?r']) jid)"
    using assms(3,4) by (simp add: job_rows_def set_update_memI)
  with v have "hash_for sha ?r' = Inr (ev_event_hash ?r')"
    unfolding sql_verify_chain_def by (rule verify_rows_all)
  moreover have "?r \<in> set (job_rows rows jid)" using assms(3,4) by (simp add: job_rows_def)
  then have "hash_for sha ?r = Inr (ev_event_hash ?r)"
    using assms(2) unfolding sql_verify_chain_def by (intro verify_rows_all)
  ultimately have "hash_for sha ?r' = hash_for sha ?r" by simp
  from hash_for_payload [OF assms(1,5,6) this] assms(7) show False by blast
qed

theorem sql_tampering_detected_witness:
  "sql_verify_chain (\<lambda>s. s)
     ((run_sql (\<lambda>s. s) [(''e1'', 0, ''JOB_CREATED'', Some ''job_1'', ''system'', ''harness'', [])] [])
       [0 := (run_sql (\<lambda>s. s) [(''e1'', 0, ''JOB_CREATED'', Some ''job_1'', ''system'', ''harness'', [])] [] ! 0)
          \<lparr>ev_payload := PNone\<rparr>]) (Some ''job_1'') \<noteq> Inr True"
proof -
  let ?calls = "[(''e1'', 0, ''JOB_CREATED'', Some ''job_1'', ''system'', ''harness'', [])]"
  let ?rows = "run_sql (\<lambda>s. s) ?calls []"
  obtain h where "?rows = [\<lparr>ev_event_id = ''e1'', ev_event_type = ''JOB_CREATED'', ev_job_id = Some ''job_1'',
      ev_actor_type = ''system'', ev_actor_id = ''harness'', ev_payload = PDict [],
      ev_created_at = 0, ev_previous_event_hash = None, ev_event_hash = h\<rparr>]"
    by (simp add: run_sql_def sql_audit_append_def append_audit_row_def hash_for_def sha256_of_def
        canonical_json_def normalize_event_body job_rows_def last_hash_def next_row_time_def)
  then have r: "length ?rows = 1" "ev_job_id (?rows ! 0) = Some ''job_1''" "ev_payload (?rows ! 0) = PDict []"
    by simp_all
  have c: "canonical_json (PDict []) = Inr ''{}''" "canonical_json PNone = Inr ''null''"
    by (simp_all add: canonical_json_def)
  show ?thesis
  proof (rule sql_tampering_detected [where s = "''{}''" and s' = "''null''"])
    show "inj (\<lambda>s. s)" by simp
    show "sql_verify_chain (\<lambda>s. s) ?rows (Some ''job_1'') = Inr True" by (rule sql_trail_verifies)
  qed (simp_all add: r c)
qed

text \<open>
  C30: No secret reaches the trail: two payloads that differ only in the values of sensitive
  keys, at any depth and in any letter case of the key, lead to the same events in both
  sinks.
\<close>

theorem secrets_never_logged:
  assumes "same_public (PDict p) (PDict q)"
  shows "audit_append sha eid t ty j aty a p es = audit_append sha eid t ty j aty a q es \<and>
         sql_audit_append sha eid t ty j aty a p es = sql_audit_append sha eid t ty j aty a q es"
  unfolding audit_append_def sql_audit_append_def redact_same_public [OF assms] by simp

theorem secrets_never_logged_witness:
  "snd (audit_append (\<lambda>s. s) ''e'' 0 ''t'' None ''a'' ''b''
      [(''x'', PList [PDict [(''API_Key'', PStr ''s1'')]])] []) =
   snd (audit_append (\<lambda>s. s) ''e'' 0 ''t'' None ''a'' ''b''
      [(''x'', PList [PDict [(''API_Key'', PInt 7)]])] [])"
proof -
  have k: "lower ''API_Key'' \<in> set SENSITIVE_KEYS"
    by code_simp
  have "same_public (PDict [(''API_Key'', PStr ''s1'')]) (PDict [(''API_Key'', PInt 7)])"
    by (rule same_dict) (simp add: k)
  then have "same_public (PDict [(''x'', PList [PDict [(''API_Key'', PStr ''s1'')]])])
      (PDict [(''x'', PList [PDict [(''API_Key'', PInt 7)]])])"
    by (intro same_dict) (simp add: same_list)
  from secrets_never_logged [OF this, of "\<lambda>s. s" "''e''" 0 "''t''" None "''a''" "''b''" "[]"]
  show ?thesis by simp
qed

end
