(* ===== verification/Approval.thy ===== *)
theory Approval
  imports TokenCodec
begin

section \<open>Approval tokens\<close>

text \<open>
  Models \<open>domain/models/approval.py\<close>, \<open>security/approval.py\<close> and
  \<open>security/rollback_approval.py\<close>. \<open>hmac\<close> is \<open>hmac.new(secret, payload, sha256).hexdigest()\<close>,
  a parameter with two arguments: nothing is assumed of it but, where a theorem needs a
  token to be issued, the shape of a hex digest (64 ASCII characters). \<open>parse_dt\<close> stands for
  the ISO date parser of pydantic, used when a rollback record is rebuilt from its claims.
  \<open>None\<close> for a malformed token reproduces the code's exception handler, which replaces
  payload and digests by empty strings and goes on.
\<close>

subsection \<open>Records\<close>

record approval_record =
  ap_schema_version :: string
  ap_approval_id :: string
  ap_job_id :: string
  ap_document_id :: string
  ap_expected_revision :: string
  ap_plan_hash :: string
  ap_approved_by :: string
  ap_approved_at :: time
  ap_expires_at :: time
  ap_warnings_acknowledged :: "string list"

definition SCHEMA_VERSION :: string where
  "SCHEMA_VERSION = ''1.13''"

definition approval_is_expired :: "approval_record \<Rightarrow> time \<Rightarrow> bool" where
  "approval_is_expired a now \<longleftrightarrow> ap_expires_at a < now"

definition approval_matches :: "approval_record \<Rightarrow> string \<Rightarrow> string \<Rightarrow> string \<Rightarrow> bool" where
  "approval_matches a jid ph revn \<longleftrightarrow>
     ap_job_id a = jid \<and> ap_plan_hash a = ph \<and> ap_expected_revision a = revn"

record rollback_record =
  rb_schema_version :: string
  rb_approval_id :: string
  rb_job_id :: string
  rb_document_id :: string
  rb_checkpoint_id :: string
  rb_current_revision :: string
  rb_approved_by :: string
  rb_approved_at :: time
  rb_expires_at :: time

definition rollback_is_expired :: "rollback_record \<Rightarrow> time \<Rightarrow> bool" where
  "rollback_is_expired a now \<longleftrightarrow> rb_expires_at a < now"

definition rollback_matches ::
  "rollback_record \<Rightarrow> string \<Rightarrow> string \<Rightarrow> string \<Rightarrow> string \<Rightarrow> bool" where
  "rollback_matches a jid doc cp revn \<longleftrightarrow>
     rb_job_id a = jid \<and> rb_document_id a = doc \<and> rb_checkpoint_id a = cp \<and>
     rb_current_revision a = revn"

subsection \<open>Commit approval tokens\<close>

definition scope_claims :: "approval_record \<Rightarrow> (string \<times> string) list" where
  "scope_claims a =
     [(''approval_id'', ap_approval_id a), (''job_id'', ap_job_id a),
      (''document_id'', ap_document_id a), (''expected_revision'', ap_expected_revision a),
      (''plan_hash'', ap_plan_hash a), (''approved_by'', ap_approved_by a),
      (''expires_at'', isoformat (ap_expires_at a))]"

definition CLAIM_FIELDS :: "string list" where
  "CLAIM_FIELDS =
     [''approval_id'', ''job_id'', ''document_id'', ''expected_revision'', ''plan_hash'',
      ''approved_by'', ''expires_at'']"

text \<open>\<open>canonical_json\<close> of a dictionary of strings never raises (\<open>canonical_json_claims\<close>).\<close>

definition claims_json :: "(string \<times> string) list \<Rightarrow> string" where
  "claims_json kvs = (case canonical_json (claims_value kvs) of Inl _ \<Rightarrow> [] | Inr s \<Rightarrow> s)"

definition encode_claims :: "(string \<times> string) list \<Rightarrow> string" where
  "encode_claims kvs = urlsafe_b64 (claims_json kvs)"

definition decode_claims :: "string list \<Rightarrow> string \<Rightarrow> (string \<times> string) list option" where
  "decode_claims flds payload =
     (case urlsafe_b64_decode payload of None \<Rightarrow> None
      | Some bytes \<Rightarrow>
          (case loads_claims bytes of None \<Rightarrow> None
           | Some value \<Rightarrow> if fst ` set value = set flds then Some value else None))"

text \<open>The length of a Python string: the bytes that start a code point.\<close>

definition py_len :: "string \<Rightarrow> nat" where
  "py_len s = length (filter (\<lambda>c. of_char c div 64 \<noteq> (2::nat)) s)"

definition is_ascii :: "string \<Rightarrow> bool" where
  "is_ascii s \<longleftrightarrow> list_all (\<lambda>c. of_char c < (128::nat)) s"

text \<open>
  \<open>hmac.compare_digest\<close> on two strings raises a \<open>TypeError\<close> when one of them is not ASCII.
\<close>

definition compare_digest :: "string \<Rightarrow> string \<Rightarrow> bool res" where
  "compare_digest a b =
     (if is_ascii a \<and> is_ascii b then Inr (a = b)
      else Inl (TypeError ''comparing strings with non-ASCII characters is not supported''))"

definition make_approval_token ::
  "(string \<Rightarrow> string \<Rightarrow> string) \<Rightarrow> approval_record \<Rightarrow> string \<Rightarrow> string res" where
  "make_approval_token hmac a secret =
     (if secret = [] then Inl (Err ApprovalRequiredError ''No approval signing secret is configured'')
      else let payload = encode_claims (scope_claims a)
           in Inr (''v2.'' @ payload @ ''.'' @ hmac secret payload))"

definition issue_approval ::
  "(string \<Rightarrow> string \<Rightarrow> string) \<Rightarrow> string \<Rightarrow> string \<Rightarrow> string \<Rightarrow> string \<Rightarrow> string \<Rightarrow> string \<Rightarrow>
   string \<Rightarrow> int \<Rightarrow> string list \<Rightarrow> time \<Rightarrow> (approval_record \<times> string) res" where
  "issue_approval hmac fresh jid doc ph revn who secret ttl warnings now =
     (let a = \<lparr>ap_schema_version = SCHEMA_VERSION, ap_approval_id = fresh, ap_job_id = jid,
               ap_document_id = doc, ap_expected_revision = revn, ap_plan_hash = ph,
               ap_approved_by = who, ap_approved_at = now, ap_expires_at = now + ttl,
               ap_warnings_acknowledged = warnings\<rparr>
      in bindR (make_approval_token hmac a secret) (\<lambda>token. Inr (a, token)))"

text \<open>
  The first \<open>try\<close> block: payload, received and expected digest, all empty for a token of the
  wrong shape.
\<close>

definition split_token ::
  "(string \<Rightarrow> string \<Rightarrow> string) \<Rightarrow> string \<Rightarrow> string \<Rightarrow> string \<Rightarrow> string \<times> string \<times> string" where
  "split_token hmac version secret token =
     (case split_max (CHR ''.'') 2 token of
        [v, payload, digest] \<Rightarrow>
          if v \<noteq> version \<or> py_len digest \<noteq> 64 \<or> \<not> is_ascii payload then ([], [], [])
          else (payload, digest, hmac secret payload)
      | _ \<Rightarrow> ([], [], []))"

definition verify_approval_token ::
  "(string \<Rightarrow> string \<Rightarrow> string) \<Rightarrow> string \<Rightarrow> approval_record \<Rightarrow> string \<Rightarrow> string \<Rightarrow> string \<Rightarrow> string \<Rightarrow>
   time \<Rightarrow> unit res" where
  "verify_approval_token hmac token approval secret jid ph revn now =
     (case split_token hmac ''v2'' secret token of (payload, received, expected) \<Rightarrow>
       bindR (compare_digest received expected) (\<lambda>same.
       if \<not> same then Inl (Err ApprovalScopeMismatchError ''Approval token signature is invalid'')
       else (case decode_claims CLAIM_FIELDS payload of
          None \<Rightarrow> Inl (Err ApprovalScopeMismatchError ''Approval token claims are invalid'')
        | Some claims \<Rightarrow>
            if claims_json claims \<noteq> claims_json (scope_claims approval)
            then Inl (Err ApprovalScopeMismatchError
                   ''Approval token does not match the stored approval'')
            else if approval_is_expired approval now
            then Inl (Err ApprovalExpiredError ''Approval has expired'')
            else if \<not> approval_matches approval jid ph revn
            then Inl (Err ApprovalScopeMismatchError
                   ''Approval does not cover this job, plan or revision'')
            else Inr ())))"

subsection \<open>Rollback approval tokens\<close>

definition rollback_claims :: "rollback_record \<Rightarrow> (string \<times> string) list" where
  "rollback_claims a =
     [(''schema_version'', rb_schema_version a), (''approval_id'', rb_approval_id a),
      (''job_id'', rb_job_id a), (''document_id'', rb_document_id a),
      (''checkpoint_id'', rb_checkpoint_id a), (''current_revision'', rb_current_revision a),
      (''approved_by'', rb_approved_by a), (''approved_at'', isoformat (rb_approved_at a)),
      (''expires_at'', isoformat (rb_expires_at a))]"

definition ROLLBACK_CLAIM_FIELDS :: "string list" where
  "ROLLBACK_CLAIM_FIELDS =
     [''schema_version'', ''approval_id'', ''job_id'', ''document_id'', ''checkpoint_id'',
      ''current_revision'', ''approved_by'', ''approved_at'', ''expires_at'']"

text \<open>\<open>RollbackApprovalRecord.model_validate\<close> of the decoded claims.\<close>

definition rollback_of_claims ::
  "(string \<Rightarrow> time option) \<Rightarrow> (string \<times> string) list \<Rightarrow> rollback_record option" where
  "rollback_of_claims parse_dt claims =
     (let get = (\<lambda>k. case map_of claims k of None \<Rightarrow> [] | Some v \<Rightarrow> v) in
      (case (parse_dt (get ''approved_at''), parse_dt (get ''expires_at'')) of
         (Some t, Some u) \<Rightarrow>
           Some \<lparr>rb_schema_version = get ''schema_version'', rb_approval_id = get ''approval_id'',
                 rb_job_id = get ''job_id'', rb_document_id = get ''document_id'',
                 rb_checkpoint_id = get ''checkpoint_id'',
                 rb_current_revision = get ''current_revision'',
                 rb_approved_by = get ''approved_by'', rb_approved_at = t, rb_expires_at = u\<rparr>
       | _ \<Rightarrow> None))"

definition make_rollback_approval_token ::
  "(string \<Rightarrow> string \<Rightarrow> string) \<Rightarrow> rollback_record \<Rightarrow> string \<Rightarrow> string res" where
  "make_rollback_approval_token hmac a secret =
     (if secret = [] then Inl (Err ApprovalRequiredError
        ''No rollback approval signing secret is configured'')
      else let payload = encode_claims (rollback_claims a)
           in Inr (''rb1.'' @ payload @ ''.'' @ hmac secret payload))"

definition is_blank :: "string \<Rightarrow> bool" where
  "is_blank s \<longleftrightarrow> list_all (\<lambda>c. of_char c \<in> {32, 9, 10, 11, 12, 13, 28, 29, 30, 31 :: nat}) s"

definition issue_rollback_approval ::
  "(string \<Rightarrow> string \<Rightarrow> string) \<Rightarrow> string \<Rightarrow> string \<Rightarrow> string \<Rightarrow> string \<Rightarrow> string \<Rightarrow> string \<Rightarrow>
   string \<Rightarrow> int \<Rightarrow> time \<Rightarrow> (rollback_record \<times> string) res" where
  "issue_rollback_approval hmac fresh jid doc cp revn who secret ttl now =
     (if is_blank who then Inl (Err ApprovalRequiredError
        ''Rollback approval requires an identified engineer'')
      else let a = \<lparr>rb_schema_version = SCHEMA_VERSION, rb_approval_id = fresh, rb_job_id = jid,
                    rb_document_id = doc, rb_checkpoint_id = cp, rb_current_revision = revn,
                    rb_approved_by = who, rb_approved_at = now, rb_expires_at = now + ttl\<rparr>
           in bindR (make_rollback_approval_token hmac a secret) (\<lambda>token. Inr (a, token)))"

text \<open>
  \<open>sha256(("cad-harness-rb1-token-v1\0" + token).encode("utf-8")).hexdigest()\<close>.
\<close>

definition rollback_approval_token_digest :: "(string \<Rightarrow> string) \<Rightarrow> string \<Rightarrow> string" where
  "rollback_approval_token_digest sha token =
     sha (''cad-harness-rb1-token-v1'' @ CHR 0x00 # token)"

definition verify_rollback_approval_claims ::
  "(string \<Rightarrow> string \<Rightarrow> string) \<Rightarrow> (string \<Rightarrow> time option) \<Rightarrow> string \<Rightarrow> string \<Rightarrow> string \<Rightarrow> string \<Rightarrow>
   string \<Rightarrow> string \<Rightarrow> rollback_record res" where
  "verify_rollback_approval_claims hmac parse_dt token secret jid doc cp revn =
     (if secret = [] then Inl (Err ApprovalRequiredError
        ''No rollback approval signing secret is configured'')
      else (case split_token hmac ''rb1'' secret token of (payload, received, expected) \<Rightarrow>
        bindR (compare_digest received expected) (\<lambda>same.
        if \<not> same then Inl (Err ApprovalScopeMismatchError
          ''Rollback approval token signature is invalid'')
        else (case Option.bind (decode_claims ROLLBACK_CLAIM_FIELDS payload)
                    (rollback_of_claims parse_dt) of
           None \<Rightarrow> Inl (Err ApprovalScopeMismatchError ''Rollback approval token claims are invalid'')
         | Some approval \<Rightarrow>
             if rb_schema_version approval \<noteq> SCHEMA_VERSION
             then Inl (Err ApprovalScopeMismatchError
                    ''Rollback approval contract version is not current'')
             else if \<not> rollback_matches approval jid doc cp revn
             then Inl (Err ApprovalScopeMismatchError
                    ''Rollback approval does not cover this checkpoint and current revision'')
             else Inr approval))))"

definition verify_rollback_approval_token ::
  "(string \<Rightarrow> string \<Rightarrow> string) \<Rightarrow> (string \<Rightarrow> time option) \<Rightarrow> string \<Rightarrow> string \<Rightarrow> string \<Rightarrow> string \<Rightarrow>
   string \<Rightarrow> string \<Rightarrow> time \<Rightarrow> rollback_record res" where
  "verify_rollback_approval_token hmac parse_dt token secret jid doc cp revn now =
     bindR (verify_rollback_approval_claims hmac parse_dt token secret jid doc cp revn) (\<lambda>a.
       if rollback_is_expired a now
       then Inl (Err ApprovalExpiredError ''Rollback approval has expired'') else Inr a)"

definition verify_rollback_recovery_token ::
  "(string \<Rightarrow> string \<Rightarrow> string) \<Rightarrow> (string \<Rightarrow> time option) \<Rightarrow> string \<Rightarrow> string \<Rightarrow> string \<Rightarrow> string \<Rightarrow>
   string \<Rightarrow> string \<Rightarrow> time \<Rightarrow> rollback_record res" where
  "verify_rollback_recovery_token hmac parse_dt token secret jid doc cp revn now =
     bindR (verify_rollback_approval_claims hmac parse_dt token secret jid doc cp revn) (\<lambda>a.
       if \<not> rollback_is_expired a now
       then Inl (Err ApprovalScopeMismatchError
              ''Rollback recovery verification requires the expired original approval'')
       else Inr a)"

subsection \<open>The codec on claims\<close>

lemma claims_json_eq:
  "claims_json kvs = ''{'' @ join '','' (map dumps_pair (sort_key fst kvs)) @ ''}''"
  by (simp add: claims_json_def canonical_json_claims)

lemma claims_json_nonempty: "claims_json kvs \<noteq> []"
  by (simp add: claims_json_eq)

lemma loads_claims_json:
  "distinct (map fst kvs) \<Longrightarrow> loads_claims (claims_json kvs) = Some (sort_key fst kvs)"
  using loads_claims_dumps [of kvs] by (auto simp: claims_json_def)

lemma decode_encode_claims:
  assumes "distinct (map fst kvs)" and "fst ` set kvs = set flds"
  shows "decode_claims flds (encode_claims kvs) = Some (sort_key fst kvs)"
  using assms
  by (simp add: decode_claims_def encode_claims_def urlsafe_b64_roundtrip claims_json_nonempty
      loads_claims_json)

lemma claims_json_sorted: "claims_json (sort_key fst kvs) = claims_json kvs"
  by (simp add: claims_json_eq sort_key_id_if_sorted)

lemma decode_claims_Nil [simp]: "decode_claims flds [] = None"
  by (simp add: decode_claims_def urlsafe_b64_decode_def)

lemma encode_claims_no_dot: "CHR ''.'' \<notin> set (encode_claims kvs)"
  by (simp add: encode_claims_def urlsafe_b64_no_dot)

lemma encode_claims_ascii: "is_ascii (encode_claims kvs)"
proof -
  have "(of_char (b64_char n) :: nat) < 128" if "n < 64" for n
    using that by (auto simp: b64_char_def)
  then show ?thesis
    using sextets_of_string by (auto simp: is_ascii_def list_all_iff encode_claims_def urlsafe_b64_sextets)
qed

lemma claims_json_inj:
  assumes "distinct (map fst a)" and "distinct (map fst b)" and "claims_json a = claims_json b"
  shows "sort_key fst a = sort_key fst b"
  using loads_claims_json [OF assms(1)] loads_claims_json [OF assms(2)] assms(3) by simp

lemma claims_json_map_of:
  assumes "distinct (map fst a)" and "distinct (map fst b)" and "claims_json a = claims_json b"
  shows "map_of a = map_of b"
proof -
  have "mset a = mset b"
    using claims_json_inj [OF assms] by (metis mset_sort)
  then have "set a = set b" by (rule mset_eq_setD)
  with assms(1,2) show ?thesis by (metis map_of_eqI map_of_inject_set)
qed

lemma py_len_ascii: "is_ascii s \<Longrightarrow> py_len s = length s"
proof -
  assume "is_ascii s"
  then have "filter (\<lambda>c. of_char c div 64 \<noteq> (2::nat)) s = s"
    by (auto simp: is_ascii_def list_all_iff filter_id_conv)
  then show ?thesis by (simp add: py_len_def)
qed

lemma split_token_made:
  assumes "CHR ''.'' \<notin> set v" and "CHR ''.'' \<notin> set payload" and "is_ascii payload"
    and "py_len digest = 64"
  shows "split_token hmac v secret (v @ CHR ''.'' # payload @ CHR ''.'' # digest) =
    (payload, digest, hmac secret payload)"
  using assms
  by (simp add: split_token_def numeral_2_eq_2 split_at_append)

lemma split_token_cases:
  assumes "split_token hmac v secret token = (payload, received, expected)"
  obtains (malformed) "payload = []" "received = []" "expected = []"
  | (shaped) "token = v @ CHR ''.'' # payload @ CHR ''.'' # received"
      "py_len received = 64" "is_ascii payload" "expected = hmac secret payload"
      "CHR ''.'' \<notin> set v" "CHR ''.'' \<notin> set payload"
  using assms
  by (auto simp: split_token_def numeral_2_eq_2 split: if_splits option.splits prod.splits list.splits
      dest!: split_at_Some)

text \<open>Any string a digest comparison accepts is the expected one.\<close>

lemma compare_digest_True: "compare_digest a b = Inr True \<longleftrightarrow> is_ascii a \<and> a = b"
  by (auto simp: compare_digest_def)

lemma scope_claims_distinct: "distinct (map fst (scope_claims a))"
  by (simp add: scope_claims_def)

lemma rollback_claims_distinct: "distinct (map fst (rollback_claims a))"
  by (simp add: rollback_claims_def)

lemma loads_claims_distinct: "loads_claims s = Some kvs \<Longrightarrow> distinct (map fst kvs)"
proof -
  have "distinct (map fst d) \<Longrightarrow> distinct (map fst (fold (\<lambda>(k, v) d. dset d k v) xs d))"
    for xs and d :: "(string \<times> string) list"
    by (induction xs arbitrary: d) (auto simp: distinct_dset)
  from this [of "[]"] show "loads_claims s = Some kvs \<Longrightarrow> distinct (map fst kvs)"
    by (auto simp: loads_claims_def bind_eq_Some_conv split: option.splits if_splits prod.splits)
qed

lemma decode_claims_distinct: "decode_claims flds p = Some kvs \<Longrightarrow> distinct (map fst kvs)"
  by (auto simp: decode_claims_def split: option.splits if_splits dest: loads_claims_distinct)

lemma decode_scope_claims:
  "decode_claims CLAIM_FIELDS (encode_claims (scope_claims a)) = Some (sort_key fst (scope_claims a))"
  by (rule decode_encode_claims) (auto simp: scope_claims_def CLAIM_FIELDS_def)

lemma decode_rollback_claims:
  "decode_claims ROLLBACK_CLAIM_FIELDS (encode_claims (rollback_claims a)) =
     Some (sort_key fst (rollback_claims a))"
  by (rule decode_encode_claims) (auto simp: rollback_claims_def ROLLBACK_CLAIM_FIELDS_def)

lemma map_of_sort_key:
  assumes "distinct (map fst kvs)"
  shows "map_of (sort_key fst kvs) = map_of kvs"
proof -
  have "mset (map fst (sort_key fst kvs)) = mset (map fst kvs)"
    by (simp only: mset_map mset_sort)
  then have "distinct (map fst (sort_key fst kvs))"
    using assms mset_eq_imp_distinct_iff by blast
  with assms show ?thesis by (simp add: map_of_inject_set)
qed

lemma rollback_of_own_claims:
  assumes "parse_dt (isoformat (rb_approved_at a)) = Some (rb_approved_at a)"
    and "parse_dt (isoformat (rb_expires_at a)) = Some (rb_expires_at a)"
  shows "rollback_of_claims parse_dt (sort_key fst (rollback_claims a)) = Some a"
proof -
  have m: "map_of (sort_key fst (rollback_claims a)) = map_of (rollback_claims a)"
    by (rule map_of_sort_key [OF rollback_claims_distinct])
  show ?thesis
    unfolding rollback_of_claims_def Let_def m
    by (simp add: rollback_claims_def assms)
qed

lemma issue_approval_Inr:
  "issue_approval hmac fresh jid doc ph revn who secret ttl w t0 = Inr (a, token) \<Longrightarrow>
   secret \<noteq> [] \<and> token = ''v2'' @ CHR ''.'' # encode_claims (scope_claims a) @
     CHR ''.'' # hmac secret (encode_claims (scope_claims a)) \<and>
   ap_job_id a = jid \<and> ap_plan_hash a = ph \<and> ap_expected_revision a = revn \<and>
   ap_document_id a = doc \<and> ap_approval_id a = fresh \<and> ap_expires_at a = t0 + ttl \<and>
   ap_warnings_acknowledged a = w"
  by (auto simp: issue_approval_def make_approval_token_def Let_def bindR_Inr_iff split: if_splits)

lemma verify_approval_Inr:
  "verify_approval_token hmac token a secret jid ph revn now = Inr () \<longleftrightarrow>
   (\<exists>payload claims. split_token hmac ''v2'' secret token = (payload, hmac secret payload, hmac secret payload)
      \<and> is_ascii (hmac secret payload)
      \<and> decode_claims CLAIM_FIELDS payload = Some claims
      \<and> claims_json claims = claims_json (scope_claims a)
      \<and> \<not> approval_is_expired a now \<and> approval_matches a jid ph revn)"
  (is "?l \<longleftrightarrow> ?r")
proof
  assume ?l
  obtain payload received expected
    where sp: "split_token hmac ''v2'' secret token = (payload, received, expected)"
    by (cases "split_token hmac ''v2'' secret token") auto
  with \<open>?l\<close> have cd: "compare_digest received expected = Inr True"
    by (auto simp: verify_approval_token_def bindR_Inr_iff split: if_splits)
  from \<open>?l\<close> sp obtain claims where cl: "decode_claims CLAIM_FIELDS payload = Some claims"
    "claims_json claims = claims_json (scope_claims a)" "\<not> approval_is_expired a now"
    "approval_matches a jid ph revn"
    by (auto simp: verify_approval_token_def bindR_Inr_iff split: if_splits option.splits)
  from sp show ?r
  proof (cases rule: split_token_cases)
    case malformed
    with cl(1) show ?thesis by simp
  next
    case shaped
    with sp cd cl show ?thesis by (auto simp: compare_digest_True)
  qed
next
  assume ?r
  then show ?l by (auto simp: verify_approval_token_def compare_digest_def)
qed

lemma split_issued_token:
  assumes "issue_approval hmac fresh jid doc ph revn who secret ttl w t0 = Inr (a, token)"
    and "\<And>m. length (hmac secret m) = 64 \<and> is_ascii (hmac secret m)"
  shows "split_token hmac ''v2'' secret token =
    (encode_claims (scope_claims a), hmac secret (encode_claims (scope_claims a)),
     hmac secret (encode_claims (scope_claims a)))"
proof -
  let ?p = "encode_claims (scope_claims a)"
  have "py_len (hmac secret ?p) = 64" using assms(2) by (simp add: py_len_ascii)
  then show ?thesis
    using issue_approval_Inr [OF assms(1)] split_token_made [of "''v2''" ?p "hmac secret ?p" hmac secret]
    by (simp add: encode_claims_no_dot encode_claims_ascii)
qed

lemma issued_token_verifies:
  assumes "issue_approval hmac fresh jid doc ph revn who secret ttl w t0 = Inr (a, token)"
    and "\<And>m. length (hmac secret m) = 64 \<and> is_ascii (hmac secret m)" and "now \<le> t0 + ttl"
  shows "verify_approval_token hmac token a secret jid ph revn now = Inr ()"
  using issue_approval_Inr [OF assms(1)] split_issued_token [OF assms(1,2)] assms(2,3)
  unfolding verify_approval_Inr
  by (simp add: decode_scope_claims claims_json_sorted approval_is_expired_def approval_matches_def)

subsection \<open>Properties\<close>

text \<open>
  C13: An approval that was just issued verifies: until its expiry instant included, the token
  returned by \<open>issue_approval\<close> is accepted with the record and the scope it was issued for, and from
  then on it is rejected as expired.
\<close>

theorem approval_roundtrip:
  assumes "issue_approval hmac fresh jid doc ph revn who secret ttl w t0 = Inr (a, token)"
    and "\<And>m. length (hmac secret m) = 64 \<and> is_ascii (hmac secret m)"
  shows "verify_approval_token hmac token a secret jid ph revn now =
    (if now \<le> t0 + ttl then Inr () else Inl (Err ApprovalExpiredError ''Approval has expired''))"
proof (cases "now \<le> t0 + ttl")
  case True
  with issued_token_verifies [OF assms] show ?thesis by simp
next
  case False
  then have "approval_is_expired a now"
    using issue_approval_Inr [OF assms(1)] by (simp add: approval_is_expired_def)
  with False assms(2) show ?thesis
    unfolding verify_approval_token_def split_issued_token [OF assms]
    by (simp add: compare_digest_def decode_scope_claims claims_json_sorted)
qed

definition demo_hmac :: "string \<Rightarrow> string \<Rightarrow> string" where
  "demo_hmac k m = replicate 64 (CHR ''a'')"

lemma demo_hmac_shape: "length (demo_hmac k m) = 64 \<and> is_ascii (demo_hmac k m)"
  by (simp add: demo_hmac_def is_ascii_def list_all_iff)

theorem approval_roundtrip_witness:
  "\<exists>a token. issue_approval demo_hmac ''approval_1'' ''job_1'' ''doc_1'' ''sha256:ab'' ''r1''
       ''eng'' ''key'' 900000000 [] 1000 = Inr (a, token) \<and>
     verify_approval_token demo_hmac token a ''key'' ''job_1'' ''sha256:ab'' ''r1'' 900001000 = Inr ()"
proof -
  obtain a token where i: "issue_approval demo_hmac ''approval_1'' ''job_1'' ''doc_1'' ''sha256:ab''
      ''r1'' ''eng'' ''key'' 900000000 [] 1000 = Inr (a, token)"
    by (simp add: issue_approval_def make_approval_token_def Let_def)
  from approval_roundtrip [OF i demo_hmac_shape, of 900001000] i show ?thesis by auto
qed




lemma issued_rollback_verifies:
  assumes "issue_rollback_approval hmac fresh jid doc cp revn who secret ttl t0 = Inr (a, token)"
    and "\<And>m. length (hmac secret m) = 64 \<and> is_ascii (hmac secret m)"
    and "parse_dt (isoformat t0) = Some t0" and "parse_dt (isoformat (t0 + ttl)) = Some (t0 + ttl)"
  shows "verify_rollback_approval_claims hmac parse_dt token secret jid doc cp revn = Inr a \<and>
    rb_expires_at a = t0 + ttl"
proof -
  let ?p = "encode_claims (rollback_claims a)"
  from assms(1) have a: "secret \<noteq> []" "token = ''rb1'' @ CHR ''.'' # ?p @ CHR ''.'' # hmac secret ?p"
    "rollback_matches a jid doc cp revn" "rb_schema_version a = SCHEMA_VERSION"
    "rb_expires_at a = t0 + ttl" "rb_approved_at a = t0"
    by (auto simp: issue_rollback_approval_def make_rollback_approval_token_def Let_def bindR_Inr_iff
        rollback_matches_def split: if_splits)
  have "py_len (hmac secret ?p) = 64" using assms(2) by (simp add: py_len_ascii)
  then have sp: "split_token hmac ''rb1'' secret token = (?p, hmac secret ?p, hmac secret ?p)"
    using a(2) split_token_made [of "''rb1''" ?p "hmac secret ?p" hmac secret]
    by (simp add: encode_claims_no_dot encode_claims_ascii)
  show ?thesis
    unfolding verify_rollback_approval_claims_def sp
    using a(1,3-6) assms(2-4)
    by (simp add: compare_digest_def decode_rollback_claims rollback_of_own_claims)
qed

text \<open>
  A rollback approval that was issued is accepted by the normal verification up to its
  expiry instant and by the recovery verification only after it: at every moment exactly one
  of the two paths accepts the token, and it returns the record that was signed.
\<close>

theorem rollback_token_paths:
  assumes "issue_rollback_approval hmac fresh jid doc cp revn who secret ttl t0 = Inr (a, token)"
    and "\<And>m. length (hmac secret m) = 64 \<and> is_ascii (hmac secret m)"
    and "parse_dt (isoformat t0) = Some t0" and "parse_dt (isoformat (t0 + ttl)) = Some (t0 + ttl)"
  shows "(verify_rollback_approval_token hmac parse_dt token secret jid doc cp revn now = Inr a
            \<longleftrightarrow> now \<le> t0 + ttl) \<and>
         (verify_rollback_recovery_token hmac parse_dt token secret jid doc cp revn now = Inr a
            \<longleftrightarrow> t0 + ttl < now)"
  using issued_rollback_verifies [OF assms]
  by (auto simp: verify_rollback_approval_token_def verify_rollback_recovery_token_def rollback_is_expired_def)

definition demo_parse :: "string \<Rightarrow> time option" where
  "demo_parse s = (if s = ''1970-01-01T00:00:00+00:00'' then Some 0
     else if s = ''1970-01-01T00:15:00+00:00'' then Some 900000000 else None)"

lemma demo_isoformat:
  "isoformat 0 = ''1970-01-01T00:00:00+00:00''"
  "isoformat 900000000 = ''1970-01-01T00:15:00+00:00''"
  by code_simp+

theorem rollback_token_paths_witness:
  "\<exists>a token. issue_rollback_approval demo_hmac ''approval_2'' ''job_1'' ''doc_1'' ''cp_1'' ''r2''
       ''eng'' ''key'' 900000000 0 = Inr (a, token) \<and>
     verify_rollback_approval_token demo_hmac demo_parse token ''key'' ''job_1'' ''doc_1'' ''cp_1'' ''r2''
       5 = Inr a"
proof -
  obtain a token where i: "issue_rollback_approval demo_hmac ''approval_2'' ''job_1'' ''doc_1'' ''cp_1''
      ''r2'' ''eng'' ''key'' 900000000 0 = Inr (a, token)"
    by (simp add: issue_rollback_approval_def make_rollback_approval_token_def Let_def is_blank_def)
  have "demo_parse (isoformat 0) = Some 0" "demo_parse (isoformat (0 + 900000000)) = Some (0 + 900000000)"
    by (simp_all add: demo_isoformat demo_parse_def)
  from rollback_token_paths [OF i demo_hmac_shape this, of 5] i show ?thesis by auto
qed

text \<open>
  A token of the right shape whose 64-character digest holds a non-ASCII character makes
  \<open>hmac.compare_digest\<close> raise a \<open>TypeError\<close>: the verification then fails with an exception
  outside the \<open>HarnessError\<close> hierarchy instead of an approval scope mismatch.
\<close>

theorem approval_digest_type_error:
  assumes "CHR ''.'' \<notin> set payload" and "is_ascii payload" and "py_len digest = 64"
    and "\<not> is_ascii digest"
  shows "\<exists>m. verify_approval_token hmac (''v2.'' @ payload @ ''.'' @ digest) a secret jid ph revn now =
    Inl (TypeError m)"
proof -
  have "split_token hmac ''v2'' secret (''v2'' @ CHR ''.'' # payload @ CHR ''.'' # digest) =
      (payload, digest, hmac secret payload)"
    by (rule split_token_made) (use assms in auto)
  with assms(4) show ?thesis
    by (auto simp: verify_approval_token_def compare_digest_def)
qed

theorem approval_digest_type_error_witness:
  "\<exists>m. verify_approval_token demo_hmac
      (''v2.'' @ ''e30'' @ ''.'' @ (CHR 0xC3 # CHR 0xA9 # replicate 63 (CHR ''0'')))
      undefined ''key'' ''job_1'' ''sha256:ab'' ''r1'' 0 = Inl (TypeError m)"
proof (rule approval_digest_type_error)
  show "CHR ''.'' \<notin> set ''e30''" "is_ascii ''e30''" by (simp_all add: is_ascii_def)
  show "py_len (CHR 0xC3 # CHR 0xA9 # replicate 63 (CHR ''0'')) = 64"
    by (simp add: py_len_def filter_replicate)
  show "\<not> is_ascii (CHR 0xC3 # CHR 0xA9 # replicate 63 (CHR ''0''))" by (simp add: is_ascii_def)
qed

end
