(* ===== verification/PlanModel.thy ===== *)
theory PlanModel
  imports AuditTrail Approval
begin

section \<open>Operation plans and commit results\<close>

text \<open>
  Models \<open>domain/models/operation_plan.py\<close>, \<open>domain/models/result.py\<close> and the request
  records of \<open>domain/ports/autocad_adapter.py\<close>. \<open>model_dump(mode="json")\<close> is written out as a
  dictionary in field order; \<open>model_validate\<close> of a stored commit result is its partial inverse,
  \<open>InvalidContract\<close> standing for pydantic's \<open>ValidationError\<close>.
\<close>

subsection \<open>Operations and plans\<close>

datatype unit_of_length = MM | CM | M | INCH

definition unit_value :: "unit_of_length \<Rightarrow> string" where
  "unit_value u = (case u of MM \<Rightarrow> ''mm'' | CM \<Rightarrow> ''cm'' | M \<Rightarrow> ''m'' | INCH \<Rightarrow> ''in'')"

datatype operation_type =
    CREATE_LINE | CREATE_POLYLINE | CREATE_CLOSED_POLYLINE | CREATE_CIRCLE | CREATE_CIRCLES
  | CREATE_ARC | CREATE_TEXT | CREATE_CENTERLINE | CREATE_CENTERMARK
  | CREATE_LINEAR_DIMENSION | CREATE_ALIGNED_DIMENSION | CREATE_DIAMETER_DIMENSION
  | CREATE_RADIUS_DIMENSION | CREATE_ANGULAR_DIMENSION | CREATE_HATCH | UPDATE_ENTITY
  | DELETE_ENTITY

definition operation_type_value :: "operation_type \<Rightarrow> string" where
  "operation_type_value t = (case t of
     CREATE_LINE \<Rightarrow> ''create_line'' | CREATE_POLYLINE \<Rightarrow> ''create_polyline''
   | CREATE_CLOSED_POLYLINE \<Rightarrow> ''create_closed_polyline'' | CREATE_CIRCLE \<Rightarrow> ''create_circle''
   | CREATE_CIRCLES \<Rightarrow> ''create_circles'' | CREATE_ARC \<Rightarrow> ''create_arc''
   | CREATE_TEXT \<Rightarrow> ''create_text'' | CREATE_CENTERLINE \<Rightarrow> ''create_centerline''
   | CREATE_CENTERMARK \<Rightarrow> ''create_centermark''
   | CREATE_LINEAR_DIMENSION \<Rightarrow> ''create_linear_dimension''
   | CREATE_ALIGNED_DIMENSION \<Rightarrow> ''create_aligned_dimension''
   | CREATE_DIAMETER_DIMENSION \<Rightarrow> ''create_diameter_dimension''
   | CREATE_RADIUS_DIMENSION \<Rightarrow> ''create_radius_dimension''
   | CREATE_ANGULAR_DIMENSION \<Rightarrow> ''create_angular_dimension''
   | CREATE_HATCH \<Rightarrow> ''create_hatch'' | UPDATE_ENTITY \<Rightarrow> ''update_entity''
   | DELETE_ENTITY \<Rightarrow> ''delete_entity'')"

record operation =
  op_id :: string
  op_feature_id :: string
  op_type :: operation_type
  op_layer :: string
  op_geometry :: pydict
  op_expected :: pydict
  op_target_entity_ref :: "string option"

record validation_expectation =
  ve_rule_id :: string
  ve_feature_id :: "string option"
  ve_operation_id :: "string option"
  ve_expected :: pydict

record operation_plan =
  pl_schema_version :: string
  pl_plan_id :: string
  pl_job_id :: string
  pl_document_id :: string
  pl_expected_revision :: string
  pl_canonical_units :: unit_of_length
  pl_profile_ref :: string
  pl_operations :: "operation list"
  pl_validation_expectations :: "validation_expectation list"
  pl_plan_hash :: "string option"

definition operation_dump :: "operation \<Rightarrow> pyval" where
  "operation_dump o' = PDict
     [(''operation_id'', PStr (op_id o')), (''feature_id'', PStr (op_feature_id o')),
      (''type'', PStr (operation_type_value (op_type o'))), (''layer'', PStr (op_layer o')),
      (''geometry'', PDict (op_geometry o')), (''expected'', PDict (op_expected o')),
      (''target_entity_ref'', opt_str (op_target_entity_ref o'))]"

definition expectation_dump :: "validation_expectation \<Rightarrow> pyval" where
  "expectation_dump e = PDict
     [(''rule_id'', PStr (ve_rule_id e)), (''feature_id'', opt_str (ve_feature_id e)),
      (''operation_id'', opt_str (ve_operation_id e)), (''expected'', PDict (ve_expected e))]"

definition plan_dump :: "operation_plan \<Rightarrow> pydict" where
  "plan_dump p =
     [(''schema_version'', PStr (pl_schema_version p)), (''plan_id'', PStr (pl_plan_id p)),
      (''job_id'', PStr (pl_job_id p)), (''document_id'', PStr (pl_document_id p)),
      (''expected_revision'', PStr (pl_expected_revision p)),
      (''canonical_units'', PStr (unit_value (pl_canonical_units p))),
      (''profile_ref'', PStr (pl_profile_ref p)),
      (''operations'', PList (map operation_dump (pl_operations p))),
      (''validation_expectations'', PList (map expectation_dump (pl_validation_expectations p))),
      (''plan_hash'', opt_str (pl_plan_hash p))]"

definition compute_hash :: "(string \<Rightarrow> string) \<Rightarrow> operation_plan \<Rightarrow> string res" where
  "compute_hash sha p = compute_plan_hash sha (plan_dump p)"

definition with_hash :: "(string \<Rightarrow> string) \<Rightarrow> operation_plan \<Rightarrow> operation_plan res" where
  "with_hash sha p = bindR (compute_hash sha p) (\<lambda>h. Inr (p\<lparr>pl_plan_hash := Some h\<rparr>))"

definition verify_hash :: "(string \<Rightarrow> string) \<Rightarrow> operation_plan \<Rightarrow> string \<Rightarrow> bool res" where
  "verify_hash sha p expected = bindR (compute_hash sha p) (\<lambda>h. Inr (h = expected))"

subsection \<open>Results\<close>

datatype commit_status = STATUS_COMMITTED | STATUS_ABORTED | STATUS_UNKNOWN

definition commit_status_value :: "commit_status \<Rightarrow> string" where
  "commit_status_value s = (case s of STATUS_COMMITTED \<Rightarrow> ''committed''
     | STATUS_ABORTED \<Rightarrow> ''aborted'' | STATUS_UNKNOWN \<Rightarrow> ''unknown'')"

record entity_result =
  er_operation_id :: string
  er_feature_id :: string
  er_entity_ref :: string
  er_entity_type :: string
  er_measurements :: pydict

record entity_mapping =
  em_document_id :: string
  em_feature_id :: string
  em_operation_id :: string
  em_entity_ref :: string
  em_last_revision :: string
  em_expected_layer :: "string option"

record checkpoint =
  cp_checkpoint_id :: string
  cp_job_id :: string
  cp_revision :: string
  cp_artifact_ref :: string
  cp_created_at :: time

record commit_result =
  cr_schema_version :: string
  cr_job_id :: string
  cr_plan_hash :: string
  cr_status :: commit_status
  cr_entity_results :: "entity_result list"
  cr_previous_revision :: string
  cr_new_revision :: string
  cr_checkpoint_id :: "string option"
  cr_undo_group :: "string option"

record preview_artifact =
  pa_kind :: string
  pa_artifact_ref :: string
  pa_byte_size :: "int option"

record preview_result =
  pr_schema_version :: string
  pr_preview_id :: string
  pr_job_id :: string
  pr_plan_hash :: string
  pr_artifacts :: "preview_artifact list"
  pr_company_approved :: bool

record export_result =
  xr_document_id :: string
  xr_format :: string
  xr_artifact_ref :: string
  xr_byte_size :: "int option"

datatype rollback_method = UNDO_GROUP_METHOD | CHECKPOINT_RESTORE_METHOD

record rollback_result =
  rr_job_id :: string
  rr_restored_revision :: string
  rr_checkpoint_id :: "string option"
  rr_method :: rollback_method

definition rollback_method_value :: "rollback_method \<Rightarrow> string" where
  "rollback_method_value m =
     (case m of UNDO_GROUP_METHOD \<Rightarrow> ''undo_group'' | CHECKPOINT_RESTORE_METHOD \<Rightarrow> ''checkpoint_restore'')"

subsection \<open>The stored form of a commit result\<close>

definition entity_result_dump :: "entity_result \<Rightarrow> pyval" where
  "entity_result_dump e = PDict
     [(''operation_id'', PStr (er_operation_id e)), (''feature_id'', PStr (er_feature_id e)),
      (''entity_ref'', PStr (er_entity_ref e)), (''entity_type'', PStr (er_entity_type e)),
      (''measurements'', PDict (er_measurements e))]"

definition commit_result_dump :: "commit_result \<Rightarrow> pydict" where
  "commit_result_dump r =
     [(''schema_version'', PStr (cr_schema_version r)), (''job_id'', PStr (cr_job_id r)),
      (''plan_hash'', PStr (cr_plan_hash r)),
      (''status'', PStr (commit_status_value (cr_status r))),
      (''entity_results'', PList (map entity_result_dump (cr_entity_results r))),
      (''previous_revision'', PStr (cr_previous_revision r)),
      (''new_revision'', PStr (cr_new_revision r)),
      (''checkpoint_id'', opt_str (cr_checkpoint_id r)),
      (''undo_group'', opt_str (cr_undo_group r))]"

text \<open>Reading one field of a contract model: a required string, an optional one, a dictionary.\<close>

definition get_str :: "pydict \<Rightarrow> string \<Rightarrow> string res" where
  "get_str d k = (case map_of d k of Some (PStr s) \<Rightarrow> Inr s | _ \<Rightarrow> Inl (InvalidContract k))"

definition get_opt_str :: "pydict \<Rightarrow> string \<Rightarrow> string option res" where
  "get_opt_str d k =
     (case map_of d k of None \<Rightarrow> Inr None | Some PNone \<Rightarrow> Inr None | Some (PStr s) \<Rightarrow> Inr (Some s)
      | _ \<Rightarrow> Inl (InvalidContract k))"

definition get_dict :: "pydict \<Rightarrow> string \<Rightarrow> pydict res" where
  "get_dict d k = (case map_of d k of None \<Rightarrow> Inr [] | Some (PDict e) \<Rightarrow> Inr e
     | _ \<Rightarrow> Inl (InvalidContract k))"

definition get_list :: "pydict \<Rightarrow> string \<Rightarrow> pyval list res" where
  "get_list d k = (case map_of d k of None \<Rightarrow> Inr [] | Some (PList e) \<Rightarrow> Inr e
     | _ \<Rightarrow> Inl (InvalidContract k))"

definition only_keys :: "pydict \<Rightarrow> string list \<Rightarrow> unit res" where
  "only_keys d ks = (if set (map fst d) \<subseteq> set ks then Inr () else Inl (InvalidContract ''extra''))"

definition commit_status_of :: "string \<Rightarrow> commit_status res" where
  "commit_status_of s =
     (if s = ''committed'' then Inr STATUS_COMMITTED else if s = ''aborted'' then Inr STATUS_ABORTED
      else if s = ''unknown'' then Inr STATUS_UNKNOWN else Inl (InvalidContract ''status''))"

definition entity_result_validate :: "pyval \<Rightarrow> entity_result res" where
  "entity_result_validate v =
     (case v of
        PDict d \<Rightarrow>
          bindR (only_keys d [''operation_id'', ''feature_id'', ''entity_ref'', ''entity_type'',
            ''measurements'']) (\<lambda>_.
          bindR (get_str d ''operation_id'') (\<lambda>a.
          bindR (get_str d ''feature_id'') (\<lambda>b.
          bindR (get_str d ''entity_ref'') (\<lambda>c.
          bindR (get_str d ''entity_type'') (\<lambda>e.
          bindR (get_dict d ''measurements'') (\<lambda>m.
            Inr \<lparr>er_operation_id = a, er_feature_id = b, er_entity_ref = c, er_entity_type = e,
                 er_measurements = m\<rparr>))))))
      | _ \<Rightarrow> Inl (InvalidContract ''EntityResult''))"

definition COMMIT_RESULT_FIELDS :: "string list" where
  "COMMIT_RESULT_FIELDS =
     [''schema_version'', ''job_id'', ''plan_hash'', ''status'', ''entity_results'',
      ''previous_revision'', ''new_revision'', ''checkpoint_id'', ''undo_group'']"

definition commit_result_validate :: "pydict \<Rightarrow> commit_result res" where
  "commit_result_validate d =
     bindR (only_keys d COMMIT_RESULT_FIELDS) (\<lambda>_.
     bindR (if map_of d ''schema_version'' = None then Inr SCHEMA_VERSION
            else get_str d ''schema_version'') (\<lambda>sv.
     bindR (get_str d ''job_id'') (\<lambda>j.
     bindR (get_str d ''plan_hash'') (\<lambda>h.
     bindR (bindR (get_str d ''status'') commit_status_of) (\<lambda>s.
     bindR (bindR (get_list d ''entity_results'') (traverse entity_result_validate)) (\<lambda>es.
     bindR (get_str d ''previous_revision'') (\<lambda>p.
     bindR (get_str d ''new_revision'') (\<lambda>n.
     bindR (get_opt_str d ''checkpoint_id'') (\<lambda>c.
     bindR (get_opt_str d ''undo_group'') (\<lambda>u.
       Inr \<lparr>cr_schema_version = sv, cr_job_id = j, cr_plan_hash = h, cr_status = s,
            cr_entity_results = es, cr_previous_revision = p, cr_new_revision = n,
            cr_checkpoint_id = c, cr_undo_group = u\<rparr>))))))))))"

subsection \<open>Requests of the adapter port\<close>

record commit_request =
  cq_plan :: operation_plan
  cq_idempotency_key :: string
  cq_expected_revision :: string
  cq_approval_token :: string
  cq_create_checkpoint :: bool

record rollback_request =
  rq_job_id :: string
  rq_document_id :: string
  rq_checkpoint_id :: string
  rq_current_revision :: string
  rq_rollback_approval_token :: string
  rq_undo_group :: "string option"

record export_request =
  xq_document_id :: string
  xq_format :: string
  xq_target_path :: string
  xq_overwrite :: bool

subsection \<open>Round trip of the stored result\<close>

lemma commit_status_roundtrip [simp]: "commit_status_of (commit_status_value s) = Inr s"
  by (cases s) (simp_all add: commit_status_of_def commit_status_value_def)

lemma entity_result_roundtrip [simp]: "entity_result_validate (entity_result_dump e) = Inr e"
  by (simp add: entity_result_validate_def entity_result_dump_def only_keys_def get_str_def get_dict_def)

lemma get_opt_str_dump [simp]: "map_of d k = Some (opt_str x) \<Longrightarrow> get_opt_str d k = Inr x"
  by (cases x) (simp_all add: get_opt_str_def opt_str_def)

lemma entity_results_roundtrip [simp]:
  "traverse entity_result_validate (map entity_result_dump es) = Inr es"
  by (induction es) simp_all

lemma commit_result_keys: "only_keys (commit_result_dump r) COMMIT_RESULT_FIELDS = Inr ()"
  by (simp add: only_keys_def commit_result_dump_def COMMIT_RESULT_FIELDS_def)

lemma commit_result_lookup:
  "map_of (commit_result_dump r) ''schema_version'' = Some (PStr (cr_schema_version r))"
  "map_of (commit_result_dump r) ''job_id'' = Some (PStr (cr_job_id r))"
  "map_of (commit_result_dump r) ''plan_hash'' = Some (PStr (cr_plan_hash r))"
  "map_of (commit_result_dump r) ''status'' = Some (PStr (commit_status_value (cr_status r)))"
  "map_of (commit_result_dump r) ''entity_results'' =
     Some (PList (map entity_result_dump (cr_entity_results r)))"
  "map_of (commit_result_dump r) ''previous_revision'' = Some (PStr (cr_previous_revision r))"
  "map_of (commit_result_dump r) ''new_revision'' = Some (PStr (cr_new_revision r))"
  "map_of (commit_result_dump r) ''checkpoint_id'' = Some (opt_str (cr_checkpoint_id r))"
  "map_of (commit_result_dump r) ''undo_group'' = Some (opt_str (cr_undo_group r))"
  unfolding commit_result_dump_def by simp_all

lemma get_str_Some: "map_of d k = Some (PStr x) \<Longrightarrow> get_str d k = Inr x"
  by (simp add: get_str_def)

lemma get_list_Some: "map_of d k = Some (PList xs) \<Longrightarrow> get_list d k = Inr xs"
  by (simp add: get_list_def)

lemma dump_validates: "commit_result_validate (commit_result_dump r) = Inr r"
  unfolding commit_result_validate_def commit_result_keys
  by (simp only: commit_result_lookup(1-4,6,7) [THEN get_str_Some]
      commit_result_lookup(8,9) [THEN get_opt_str_dump] commit_result_lookup(5) [THEN get_list_Some]
      commit_result_lookup(1) bindR_simps commit_status_roundtrip entity_results_roundtrip
      option.distinct if_False) simp

text \<open>
  What the store keeps of a commit is enough to replay it: reading back the JSON form of any
  commit result gives exactly that result.
\<close>

theorem commit_result_roundtrip: "commit_result_validate (commit_result_dump r) = Inr r"
  by (rule dump_validates)

subsection \<open>The plan hash\<close>

lemma sha256_of_inj:
  assumes "inj sha" and "sha256_of sha v = Inr h" and "sha256_of sha w = Inr h"
  shows "canonical_json v = canonical_json w"
proof -
  from assms(2,3) obtain a b where ab: "canonical_json v = Inr a" "canonical_json w = Inr b"
    "''sha256:'' @ sha a = ''sha256:'' @ sha b"
    unfolding sha256_of_def bindR_Inr_iff by (metis Inr_inject)
  from ab(3) have "sha a = sha b" by simp
  with assms(1) have "a = b" by (rule injD)
  with ab show ?thesis by simp
qed

lemma plan_dump_update:
  "plan_dump (p\<lparr>pl_plan_hash := h\<rparr>) = dset (plan_dump p) ''plan_hash'' (opt_str h)"
  "plan_dump (p\<lparr>pl_plan_id := i\<rparr>) = dset (plan_dump p) ''plan_id'' (PStr i)"
  "plan_dump (p\<lparr>pl_job_id := j\<rparr>) = dset (plan_dump p) ''job_id'' (PStr j)"
  by (simp_all add: plan_dump_def)

lemma identity_fields:
  "''plan_hash'' \<in> set (VOLATILE_FIELDS @ PLAN_IDENTITY_FIELDS)"
  "''plan_id'' \<in> set (VOLATILE_FIELDS @ PLAN_IDENTITY_FIELDS)"
  "''job_id'' \<in> set (VOLATILE_FIELDS @ PLAN_IDENTITY_FIELDS)"
  by (simp_all add: VOLATILE_FIELDS_def PLAN_IDENTITY_FIELDS_def)

lemma compute_hash_identity [simp]:
  "compute_hash sha (p\<lparr>pl_plan_hash := h\<rparr>) = compute_hash sha p"
  "compute_hash sha (p\<lparr>pl_plan_id := i\<rparr>) = compute_hash sha p"
  "compute_hash sha (p\<lparr>pl_job_id := j\<rparr>) = compute_hash sha p"
  by (simp_all only: compute_hash_def compute_plan_hash_def plan_dump_update
      strip_volatile_dset [OF identity_fields(1)] strip_volatile_dset [OF identity_fields(2)]
      strip_volatile_dset [OF identity_fields(3)])

lemma verify_hash_iff: "verify_hash sha p h = Inr True \<longleftrightarrow> compute_hash sha p = Inr h"
  by (auto simp: verify_hash_def bindR_Inr_iff)

lemma with_hash_Inr:
  "with_hash sha p = Inr q \<longleftrightarrow> (\<exists>h. compute_hash sha p = Inr h \<and> q = p\<lparr>pl_plan_hash := Some h\<rparr>)"
  by (auto simp: with_hash_def bindR_Inr_iff)

text \<open>
  C12: A plan that was given its hash verifies against it, and it still does after the plan is
  renamed, moved to another job or hashed again: the hash depends on the change, not on who
  carries it. Two plans whose hash inputs have different canonical forms have different hashes
  under a collision-free digest.
\<close>

theorem plan_hash_binds_content:
  assumes "with_hash sha p = Inr q"
  shows "\<exists>h. pl_plan_hash q = Some h \<and> verify_hash sha q h = Inr True \<and>
     verify_hash sha (q\<lparr>pl_plan_id := i, pl_job_id := j, pl_plan_hash := x\<rparr>) h = Inr True \<and>
     with_hash sha q = Inr q \<and>
     (inj sha \<longrightarrow> verify_hash sha r h = Inr True \<longrightarrow>
        canonical_json (strip_volatile (VOLATILE_FIELDS @ PLAN_IDENTITY_FIELDS) (PDict (plan_dump r))) =
        canonical_json (strip_volatile (VOLATILE_FIELDS @ PLAN_IDENTITY_FIELDS) (PDict (plan_dump p))))"
proof -
  from assms obtain h where h: "compute_hash sha p = Inr h" "q = p\<lparr>pl_plan_hash := Some h\<rparr>"
    by (auto simp: with_hash_Inr)
  have "canonical_json (strip_volatile (VOLATILE_FIELDS @ PLAN_IDENTITY_FIELDS) (PDict (plan_dump r))) =
      canonical_json (strip_volatile (VOLATILE_FIELDS @ PLAN_IDENTITY_FIELDS) (PDict (plan_dump p)))"
    if "inj sha" "compute_hash sha r = Inr h"
    by (rule sha256_of_inj [OF that(1)])
      (use that(2) h(1) in \<open>simp_all only: compute_hash_def compute_plan_hash_def\<close>)
  with h show ?thesis by (simp add: verify_hash_iff with_hash_Inr del: strip_volatile.simps)
qed

definition demo_plan :: operation_plan where
  "demo_plan =
     \<lparr>pl_schema_version = SCHEMA_VERSION, pl_plan_id = ''plan_1'', pl_job_id = ''job_1'',
      pl_document_id = ''doc_1'', pl_expected_revision = ''r1'', pl_canonical_units = MM,
      pl_profile_ref = ''demo@1'', pl_operations = [], pl_validation_expectations = [],
      pl_plan_hash = None\<rparr>"

theorem plan_hash_binds_content_witness:
  "\<exists>q h. with_hash (\<lambda>s. s) demo_plan = Inr q \<and> verify_hash (\<lambda>s. s) q h = Inr True"
proof -
  have "\<exists>h. compute_hash (\<lambda>s. s) demo_plan = Inr h"
    by (simp add: compute_hash_def compute_plan_hash_def sha256_of_def canonical_json_def demo_plan_def
        plan_dump_def VOLATILE_FIELDS_def PLAN_IDENTITY_FIELDS_def less_eq_list_code less_list_code)
  then obtain q where q: "with_hash (\<lambda>s. s) demo_plan = Inr q" by (auto simp: with_hash_def)
  from plan_hash_binds_content [OF q] q show ?thesis by blast
qed

end
