(* ===== verification/ValidationModel.thy ===== *)
theory ValidationModel
  imports PlanModel
begin

section \<open>Findings, reports, profiles and the validation engine\<close>

text \<open>
  Models \<open>domain/models/validation.py\<close>, \<open>domain/models/document.py\<close>, the profile of
  \<open>company_rules/loader.py\<close>, \<open>geometry/tolerance.py\<close>, \<open>validation/findings.py\<close> and
  \<open>validation/engine.py\<close>. A rule is its identifier, its stages and its evaluation; the engine is
  the list of its rules. The identifier of a new report is an argument of \<open>engine_run\<close>.
\<close>

subsection \<open>Findings and reports\<close>

datatype severity = INFO | WARNING | ERROR | BLOCKING

definition severity_value :: "severity \<Rightarrow> string" where
  "severity_value s = (case s of INFO \<Rightarrow> ''info'' | WARNING \<Rightarrow> ''warning''
     | ERROR \<Rightarrow> ''error'' | BLOCKING \<Rightarrow> ''blocking'')"

datatype validation_stage =
    STAGE_SCHEMA | STAGE_SEMANTIC_INPUT | STAGE_PLAN | STAGE_PREVIEW_GEOMETRY
  | STAGE_COMPANY_STANDARD | PRE_COMMIT | POST_COMMIT | STAGE_DRAWING_AUDIT
  | STAGE_DRAWING_STANDARD

definition stage_value :: "validation_stage \<Rightarrow> string" where
  "stage_value s = (case s of
     STAGE_SCHEMA \<Rightarrow> ''schema'' | STAGE_SEMANTIC_INPUT \<Rightarrow> ''semantic_input''
   | STAGE_PLAN \<Rightarrow> ''plan'' | STAGE_PREVIEW_GEOMETRY \<Rightarrow> ''preview_geometry''
   | STAGE_COMPANY_STANDARD \<Rightarrow> ''company_standard'' | PRE_COMMIT \<Rightarrow> ''pre_commit''
   | POST_COMMIT \<Rightarrow> ''post_commit'' | STAGE_DRAWING_AUDIT \<Rightarrow> ''drawing_audit''
   | STAGE_DRAWING_STANDARD \<Rightarrow> ''drawing_standard'')"

record finding =
  fi_rule_id :: string
  fi_severity :: severity
  fi_message :: string
  fi_feature_id :: "string option"
  fi_entity_ref :: "string option"
  fi_operation_id :: "string option"
  fi_expected :: pyval
  fi_actual :: pyval
  fi_tolerance :: "real option"
  fi_suggested_fix :: "string option"
  fi_measurement :: pydict

text \<open>\<open>validation/findings.py\<close>: a finding with the defaults of the keyword arguments.\<close>

definition finding_of :: "string \<Rightarrow> severity \<Rightarrow> string \<Rightarrow> finding" where
  "finding_of rule_id sev msg =
     \<lparr>fi_rule_id = rule_id, fi_severity = sev, fi_message = msg, fi_feature_id = None,
      fi_entity_ref = None, fi_operation_id = None, fi_expected = PNone, fi_actual = PNone,
      fi_tolerance = None, fi_suggested_fix = None, fi_measurement = []\<rparr>"

record validation_report =
  vr_schema_version :: string
  vr_validation_id :: string
  vr_job_id :: string
  vr_stage :: validation_stage
  vr_plan_hash :: "string option"
  vr_findings :: "finding list"
  vr_entities_examined :: nat
  vr_company_approved :: bool
  vr_profile_ref :: "string option"
  vr_blocking_count :: nat
  vr_error_count :: nat
  vr_warning_count :: nat
  vr_info_count :: nat

definition count_severity :: "validation_report \<Rightarrow> severity \<Rightarrow> nat" where
  "count_severity r s = length (filter (\<lambda>f. fi_severity f = s) (vr_findings r))"

text \<open>The model validator: the counts are always derived from the findings.\<close>

definition derive_severity_counts :: "validation_report \<Rightarrow> validation_report" where
  "derive_severity_counts r =
     r\<lparr>vr_blocking_count := count_severity r BLOCKING, vr_error_count := count_severity r ERROR,
       vr_warning_count := count_severity r WARNING, vr_info_count := count_severity r INFO\<rparr>"

definition mk_report ::
  "string \<Rightarrow> string \<Rightarrow> validation_stage \<Rightarrow> string option \<Rightarrow> finding list \<Rightarrow> nat \<Rightarrow> bool \<Rightarrow>
   string option \<Rightarrow> validation_report" where
  "mk_report vid jid stage ph fs examined approved profile =
     derive_severity_counts
       \<lparr>vr_schema_version = SCHEMA_VERSION, vr_validation_id = vid, vr_job_id = jid,
        vr_stage = stage, vr_plan_hash = ph, vr_findings = fs, vr_entities_examined = examined,
        vr_company_approved = approved, vr_profile_ref = profile, vr_blocking_count = 0,
        vr_error_count = 0, vr_warning_count = 0, vr_info_count = 0\<rparr>"

definition has_blocking :: "validation_report \<Rightarrow> bool" where
  "has_blocking r \<longleftrightarrow> 0 < vr_blocking_count r"

definition gate_allows_commit :: "validation_report \<Rightarrow> bool \<Rightarrow> bool" where
  "gate_allows_commit r block_on_error =
     (if has_blocking r then False else \<not> (block_on_error \<and> 0 < vr_error_count r))"

definition opt_real :: "real option \<Rightarrow> pyval" where
  "opt_real x = (case x of None \<Rightarrow> PNone | Some r \<Rightarrow> PFloat (Fin r))"

definition finding_dump :: "finding \<Rightarrow> pyval" where
  "finding_dump f = PDict
     [(''rule_id'', PStr (fi_rule_id f)), (''severity'', PStr (severity_value (fi_severity f))),
      (''message'', PStr (fi_message f)), (''feature_id'', opt_str (fi_feature_id f)),
      (''entity_ref'', opt_str (fi_entity_ref f)), (''operation_id'', opt_str (fi_operation_id f)),
      (''expected'', fi_expected f), (''actual'', fi_actual f),
      (''tolerance'', opt_real (fi_tolerance f)), (''suggested_fix'', opt_str (fi_suggested_fix f)),
      (''measurement'', PDict (fi_measurement f))]"

definition report_dump :: "validation_report \<Rightarrow> pydict" where
  "report_dump r =
     [(''schema_version'', PStr (vr_schema_version r)), (''validation_id'', PStr (vr_validation_id r)),
      (''job_id'', PStr (vr_job_id r)), (''stage'', PStr (stage_value (vr_stage r))),
      (''plan_hash'', opt_str (vr_plan_hash r)),
      (''findings'', PList (map finding_dump (vr_findings r))),
      (''entities_examined'', PInt (int (vr_entities_examined r))),
      (''company_approved'', PBool (vr_company_approved r)),
      (''profile_ref'', opt_str (vr_profile_ref r)),
      (''blocking_count'', PInt (int (vr_blocking_count r))),
      (''error_count'', PInt (int (vr_error_count r))),
      (''warning_count'', PInt (int (vr_warning_count r))),
      (''info_count'', PInt (int (vr_info_count r)))]"

record drawing_audit_evidence =
  da_audit_id :: string
  da_document_id :: string
  da_revision :: string
  da_report :: validation_report

subsection \<open>Snapshots\<close>

record layer_info =
  li_name :: string
  li_color_index :: "int option"
  li_linetype :: "string option"
  li_lineweight :: "int option"
  li_frozen :: bool
  li_off :: bool
  li_locked :: bool

text \<open>The units are \<open>None\<close> for the literal \<open>"unknown"\<close>.\<close>

record document_snapshot =
  ds_document_id :: string
  ds_revision :: string
  ds_path_hash :: string
  ds_display_name :: string
  ds_units :: "unit_of_length option"
  ds_layers :: "layer_info list"
  ds_dimension_styles :: "string list"
  ds_text_styles :: "string list"
  ds_entity_count :: nat

definition snapshot_units_value :: "unit_of_length option \<Rightarrow> string" where
  "snapshot_units_value u = (case u of None \<Rightarrow> ''unknown'' | Some v \<Rightarrow> unit_value v)"

subsection \<open>Tolerances\<close>

record tolerance_profile =
  tp_id :: string
  tp_version :: string
  tp_absolute_length_mm :: real
  tp_relative_length :: real
  tp_angular_deg :: real
  tp_coincidence_mm :: real
  tp_area_mm2 :: real
  tp_arc_chord_tolerance_mm :: real

definition default_tolerance :: "string \<Rightarrow> string \<Rightarrow> tolerance_profile" where
  "default_tolerance i v =
     \<lparr>tp_id = i, tp_version = v, tp_absolute_length_mm = 1 / 1000, tp_relative_length = 1 / 1000000000,
      tp_angular_deg = 1 / 10000, tp_coincidence_mm = 1 / 1000, tp_area_mm2 = 1 / 100,
      tp_arc_chord_tolerance_mm = 1 / 100\<rparr>"

text \<open>\<open>math.isclose\<close>: an infinity is close to itself only, NaN to nothing.\<close>

definition isclose :: "pyfloat \<Rightarrow> pyfloat \<Rightarrow> real \<Rightarrow> real \<Rightarrow> bool" where
  "isclose a b rel_tol abs_tol =
     (case (a, b) of
        (Fin x, Fin y) \<Rightarrow> x = y \<or> \<bar>x - y\<bar> \<le> max (rel_tol * max \<bar>x\<bar> \<bar>y\<bar>) abs_tol
      | (NotANumber, _) \<Rightarrow> False
      | _ \<Rightarrow> a = b)"

definition length_close :: "tolerance_profile \<Rightarrow> pyfloat \<Rightarrow> pyfloat \<Rightarrow> bool" where
  "length_close t a b = isclose a b (tp_relative_length t) (tp_absolute_length_mm t)"

definition area_close :: "tolerance_profile \<Rightarrow> pyfloat \<Rightarrow> pyfloat \<Rightarrow> bool" where
  "area_close t a b = isclose a b (tp_relative_length t) (tp_area_mm2 t)"

text \<open>\<open>x % m\<close> for a positive float modulus.\<close>

definition fmod :: "real \<Rightarrow> real \<Rightarrow> real" where
  "fmod x m = x - m * of_int \<lfloor>x / m\<rfloor>"

definition angle_close_deg :: "tolerance_profile \<Rightarrow> pyfloat \<Rightarrow> pyfloat \<Rightarrow> bool" where
  "angle_close_deg t a b =
     (case (a, b) of
        (Fin x, Fin y) \<Rightarrow> \<bar>fmod (x - y + 180) 360 - 180\<bar> \<le> tp_angular_deg t
      | _ \<Rightarrow> False)"

definition is_coincident :: "tolerance_profile \<Rightarrow> real \<Rightarrow> bool" where
  "is_coincident t d \<longleftrightarrow> d \<le> tp_coincidence_mm t"

definition is_zero_length :: "tolerance_profile \<Rightarrow> real \<Rightarrow> bool" where
  "is_zero_length t l \<longleftrightarrow> l \<le> tp_absolute_length_mm t"

subsection \<open>Company profiles\<close>

record layer_rule =
  lr_name :: string
  lr_purpose :: string
  lr_color_index :: "int option"
  lr_linetype :: string
  lr_lineweight :: "int option"

record annotation_rules =
  ar_hole_callout_min_count :: "int option"
  ar_hole_table :: "bool option"
  ar_text_height_mm :: "real option"
  ar_maximum_text_overlap_ratio :: "real option"
  ar_placement_offsets_mm :: "(real \<times> real) list"

record title_block_field =
  tb_name :: string
  tb_required :: bool
  tb_value :: "string option"

record layout_rules =
  ly_layout_name :: "string option"
  ly_viewport_scale :: "string option"
  ly_print_scale :: "string option"
  ly_view_spacing_mm :: "real option"

record allowed_default =
  ad_path :: string
  ad_value :: pyval
  ad_reason :: string
  ad_impact :: string
  ad_override_allowed :: bool

record default_record =
  dr_path :: string
  dr_value :: pyval
  dr_source :: string
  dr_source_version :: string
  dr_reason :: string
  dr_impact :: string
  dr_override_allowed :: bool

record company_profile =
  pf_profile_id :: string
  pf_version :: string
  pf_company_approved :: bool
  pf_canonical_unit :: string
  pf_general_tolerance :: "string option"
  pf_dimension_style :: "string option"
  pf_text_style :: "string option"
  pf_dimension_styles :: "string list"
  pf_text_styles :: "string list"
  pf_layers :: "layer_rule list"
  pf_layer_map :: "(string \<times> string) list"
  pf_entity_layer_map :: "(string \<times> string) list"
  pf_minimum_hole_edge_distance_mm :: "real option"
  pf_minimum_hole_ligament_mm :: "real option"
  pf_tolerance_profile_ref :: string
  pf_allowed_defaults :: "allowed_default list"
  pf_annotation_rules :: annotation_rules
  pf_layout_rules :: layout_rules
  pf_title_block_fields :: "title_block_field list"

definition as_ref :: "company_profile \<Rightarrow> string" where
  "as_ref p = pf_profile_id p @ ''@'' @ pf_version p"

definition layer_names :: "company_profile \<Rightarrow> string list" where
  "layer_names p = remdups (map lr_name (pf_layers p))"

definition layer_for :: "company_profile \<Rightarrow> string \<Rightarrow> string res" where
  "layer_for p purpose =
     (case map_of (pf_layer_map p) purpose of
        None \<Rightarrow> Inl (Err StandardProfileNotFoundError
          (''Standard profile does not declare layer purpose '' @ quoted purpose))
      | Some layer \<Rightarrow>
          if layer \<notin> set (layer_names p)
          then Inl (Err StandardProfileNotFoundError
            (''Layer '' @ quoted layer @ '' is mapped but not declared by the standard profile''))
          else Inr layer)"

definition default_for :: "company_profile \<Rightarrow> string \<Rightarrow> default_record option" where
  "default_for p path =
     map_option (\<lambda>c. \<lparr>dr_path = ad_path c, dr_value = ad_value c, dr_source = pf_profile_id p,
         dr_source_version = pf_version p, dr_reason = ad_reason c, dr_impact = ad_impact c,
         dr_override_allowed = ad_override_allowed c\<rparr>)
       (find (\<lambda>c. ad_path c = path) (pf_allowed_defaults p))"

text \<open>\<open>ref.partition("@")\<close> with the default version \<open>1.0\<close>.\<close>

definition profile_tolerance :: "company_profile \<Rightarrow> tolerance_profile" where
  "profile_tolerance p =
     (case split_at (CHR ''@'') (pf_tolerance_profile_ref p) of
        None \<Rightarrow> default_tolerance (pf_tolerance_profile_ref p) ''1.0''
      | Some (i, v) \<Rightarrow> default_tolerance i (if v = [] then ''1.0'' else v))"

subsection \<open>The engine\<close>

record rule_context =
  rc_profile :: company_profile
  rc_tolerance :: tolerance_profile
  rc_plan :: "operation_plan option"
  rc_commit_result :: "commit_result option"
  rc_extras :: pydict

definition require_plan_of :: "rule_context \<Rightarrow> operation_plan res" where
  "require_plan_of c =
     (case rc_plan c of
        None \<Rightarrow> Inl (Err HarnessError
          ''Validation rule requires an operation plan but the context has none'')
      | Some p \<Rightarrow> Inr p)"

record validation_rule =
  ru_rule_id :: string
  ru_stages :: "validation_stage list"
  ru_evaluate :: "rule_context \<Rightarrow> finding list res"

definition engine_register :: "validation_rule \<Rightarrow> (exc, validation_rule list, unit) prog" where
  "engine_register rule rules =
     (if list_ex (\<lambda>r. ru_rule_id r = ru_rule_id rule) rules
      then (Inl (ValueError (''Duplicate validation rule id: '' @ ru_rule_id rule)), rules)
      else (Inr (), rules @ [rule]))"

definition rules_for :: "validation_rule list \<Rightarrow> validation_stage \<Rightarrow> validation_rule list" where
  "rules_for rules stage = filter (\<lambda>r. stage \<in> set (ru_stages r)) rules"

definition rule_ids :: "validation_rule list \<Rightarrow> string list" where
  "rule_ids rules = sort (map ru_rule_id rules)"

definition engine_run ::
  "validation_rule list \<Rightarrow> string \<Rightarrow> validation_stage \<Rightarrow> rule_context \<Rightarrow> string \<Rightarrow> nat option \<Rightarrow>
   validation_report res" where
  "engine_run rules vid stage context jid entities_examined =
     bindR (traverse (\<lambda>r. ru_evaluate r context) (rules_for rules stage)) (\<lambda>fss.
       let examined = (case entities_examined of Some n \<Rightarrow> n
             | None \<Rightarrow> (case rc_plan context of None \<Rightarrow> 0 | Some p \<Rightarrow> length (pl_operations p)))
       in Inr (mk_report vid jid stage
                 (case rc_plan context of None \<Rightarrow> None | Some p \<Rightarrow> pl_plan_hash p)
                 (concat fss) examined (pf_company_approved (rc_profile context))
                 (Some (as_ref (rc_profile context)))))"

subsection \<open>Lemmas\<close>

lemma gate_mk_report:
  "gate_allows_commit (mk_report vid jid st ph fs n ap pr) b \<longleftrightarrow>
     (\<forall>f \<in> set fs. fi_severity f \<noteq> BLOCKING \<and> (b \<longrightarrow> fi_severity f \<noteq> ERROR))"
  by (auto simp: gate_allows_commit_def has_blocking_def mk_report_def derive_severity_counts_def
      count_severity_def filter_empty_conv)

lemma mk_report_simps [simp]:
  "vr_findings (mk_report vid jid st ph fs n ap pr) = fs"
  "vr_job_id (mk_report vid jid st ph fs n ap pr) = jid"
  "vr_stage (mk_report vid jid st ph fs n ap pr) = st"
  "vr_plan_hash (mk_report vid jid st ph fs n ap pr) = ph"
  "vr_profile_ref (mk_report vid jid st ph fs n ap pr) = pr"
  "vr_schema_version (mk_report vid jid st ph fs n ap pr) = SCHEMA_VERSION"
  "vr_validation_id (mk_report vid jid st ph fs n ap pr) = vid"
  by (simp_all add: mk_report_def derive_severity_counts_def)

lemma mk_report_blocking:
  "has_blocking (mk_report vid jid st ph fs n ap pr) \<longleftrightarrow> (\<exists>f \<in> set fs. fi_severity f = BLOCKING)"
  by (auto simp: has_blocking_def mk_report_def derive_severity_counts_def count_severity_def
      filter_empty_conv)

lemma engine_run_Inr:
  assumes "engine_run rules vid st c jid n = Inr r"
  obtains fss where "traverse (\<lambda>ru. ru_evaluate ru c) (rules_for rules st) = Inr fss"
    and "vr_findings r = concat fss" and "vr_stage r = st" and "vr_job_id r = jid"
    and "vr_profile_ref r = Some (as_ref (rc_profile c))"
    and "vr_plan_hash r = (case rc_plan c of None \<Rightarrow> None | Some p \<Rightarrow> pl_plan_hash p)"
    and "vr_schema_version r = SCHEMA_VERSION"
    and "\<And>b. gate_allows_commit r b \<longleftrightarrow>
       (\<forall>f \<in> set (vr_findings r). fi_severity f \<noteq> BLOCKING \<and> (b \<longrightarrow> fi_severity f \<noteq> ERROR))"
    and "has_blocking r \<longleftrightarrow> (\<exists>f \<in> set (vr_findings r). fi_severity f = BLOCKING)"
  using assms by (auto simp: engine_run_def bindR_Inr_iff Let_def gate_mk_report mk_report_blocking)

lemma traverse_concat_set:
  "traverse f xs = Inr yss \<Longrightarrow> set (concat yss) = {y. \<exists>x \<in> set xs. \<exists>ys. f x = Inr ys \<and> y \<in> set ys}"
  by (induction xs arbitrary: yss) (fastforce split: sum.splits)+

lemma isclose_sym: "isclose a b r t = isclose b a r t"
  by (cases a; cases b) (auto simp: isclose_def abs_minus_commute max.commute)

lemma isclose_refl: "0 \<le> t \<Longrightarrow> isclose (Fin x) (Fin x) r t"
  by (simp add: isclose_def)

lemma fmod_bounds: "0 < m \<Longrightarrow> 0 \<le> fmod x m \<and> fmod x m < m"
proof -
  assume m: "0 < m"
  have "of_int \<lfloor>x / m\<rfloor> \<le> x / m" by linarith
  then have "of_int \<lfloor>x / m\<rfloor> * m \<le> x" by (simp only: pos_le_divide_eq [OF m])
  moreover have "x / m < of_int \<lfloor>x / m\<rfloor> + 1" by linarith
  then have "x < (of_int \<lfloor>x / m\<rfloor> + 1) * m" by (simp only: pos_divide_less_eq [OF m])
  ultimately show ?thesis by (simp add: fmod_def algebra_simps)
qed

lemma fmod_turns: "0 < m \<Longrightarrow> fmod (x + m * of_int k) m = fmod x m"
  by (simp add: fmod_def add_divide_distrib algebra_simps)

lemma fmod_unique:
  assumes "0 < m" and "0 \<le> y" and "y < m" and "x = y + m * of_int k"
  shows "fmod x m = y"
proof -
  have "fmod x m = fmod y m" using assms(1,4) by (simp add: fmod_turns)
  also have "\<lfloor>y / m\<rfloor> = 0" using assms by (simp add: floor_eq_iff)
  then have "fmod y m = y" by (simp add: fmod_def)
  finally show ?thesis .
qed

lemma fmod_neg:
  assumes "0 < m"
  shows "fmod (- x) m = (if fmod x m = 0 then 0 else m - fmod x m)"
proof -
  note b = fmod_bounds [OF assms, of x]
  have x: "x = fmod x m + m * of_int \<lfloor>x / m\<rfloor>" by (simp add: fmod_def)
  show ?thesis
  proof (cases "fmod x m = 0")
    case True
    with x have "- x = 0 + m * of_int (- \<lfloor>x / m\<rfloor>)" by simp
    with True assms show ?thesis by (simp add: fmod_unique [where k = "- \<lfloor>x / m\<rfloor>"])
  next
    case False
    have "- x = (m - fmod x m) + m * of_int (- \<lfloor>x / m\<rfloor> - 1)"
      using x by (simp add: algebra_simps)
    with False b assms show ?thesis
      by (simp add: fmod_unique [where k = "- \<lfloor>x / m\<rfloor> - 1"])
  qed
qed

text \<open>The wrapped difference of two angles, as a distance.\<close>

lemma wrapped_sym: "\<bar>fmod (- d + 180) 360 - 180\<bar> = \<bar>fmod (d + 180) 360 - 180\<bar>"
proof -
  have "- d + 180 = - (d + 180) + 360 * of_int 1" by simp
  then have "fmod (- d + 180) 360 = fmod (- (d + 180)) 360"
    by (metis fmod_turns zero_less_numeral)
  then show ?thesis using fmod_neg [of 360 "d + 180"] by (simp add: abs_minus_commute)
qed

lemma angle_close_deg_sym: "angle_close_deg t a b = angle_close_deg t b a"
proof (cases a; cases b)
  fix x y
  assume ab: "a = Fin x" "b = Fin y"
  have "- (x - y) + 180 = y - x + 180" by simp
  with wrapped_sym [of "x - y"] ab show ?thesis by (simp add: angle_close_deg_def)
qed (simp_all add: angle_close_deg_def)

lemma angle_close_deg_turns:
  "angle_close_deg t (Fin (x + 360 * of_int k)) b = angle_close_deg t (Fin x) b"
proof (cases b)
  case (Fin y)
  have "x + 360 * of_int k - y + 180 = (x - y + 180) + 360 * of_int k" by simp
  with Fin show ?thesis by (simp only: angle_close_deg_def prod.case pyfloat.case fmod_turns zero_less_numeral)
qed (simp_all add: angle_close_deg_def)

text \<open>
  Tolerance comparison is symmetric, and angles are compared as directions: any number of
  full turns added to one of them changes nothing, and an angle is close to itself.
\<close>

theorem tolerance_symmetric:
  "length_close t a b = length_close t b a \<and> area_close t a b = area_close t b a \<and>
   angle_close_deg t a b = angle_close_deg t b a \<and>
   angle_close_deg t (Fin (x + 360 * of_int k)) b = angle_close_deg t (Fin x) b \<and>
   angle_close_deg (default_tolerance i v) (Fin x) (Fin (x + 360 * of_int k))"
proof -
  have "angle_close_deg (default_tolerance i v) (Fin (x + 360 * of_int k)) (Fin x)"
    unfolding angle_close_deg_turns
    by (simp add: angle_close_deg_def default_tolerance_def fmod_def)
  then have "angle_close_deg (default_tolerance i v) (Fin x) (Fin (x + 360 * of_int k))"
    by (simp add: angle_close_deg_sym)
  moreover have "length_close t a b = length_close t b a" "area_close t a b = area_close t b a"
    unfolding length_close_def area_close_def by (rule isclose_sym)+
  ultimately show ?thesis
    using angle_close_deg_sym [of t a b] angle_close_deg_turns [of t x k b] by blast
qed

text \<open>
  The gate decision of a report that the engine returned: a commit may go on exactly when no
  rule registered for the stage produced a blocking finding and, under the default policy, none
  produced an error; warnings and infos never stop it.
\<close>

theorem gate_decision:
  assumes "engine_run rules vid stage c jid n = Inr r"
  shows "gate_allows_commit r block_on_error \<longleftrightarrow>
    (\<forall>ru \<in> set rules. stage \<in> set (ru_stages ru) \<longrightarrow>
      (\<exists>fs. ru_evaluate ru c = Inr fs \<and>
        (\<forall>f \<in> set fs. fi_severity f \<noteq> BLOCKING \<and> (block_on_error \<longrightarrow> fi_severity f \<noteq> ERROR))))"
proof -
  from assms obtain fss
    where t: "traverse (\<lambda>ru. ru_evaluate ru c) (rules_for rules stage) = Inr fss"
      and f: "vr_findings r = concat fss"
      and g: "gate_allows_commit r block_on_error \<longleftrightarrow> (\<forall>f \<in> set (vr_findings r).
         fi_severity f \<noteq> BLOCKING \<and> (block_on_error \<longrightarrow> fi_severity f \<noteq> ERROR))"
    by (elim engine_run_Inr) blast
  have all: "\<exists>fs. ru_evaluate ru c = Inr fs" if "ru \<in> set (rules_for rules stage)" for ru
    using t that by (auto simp: traverse_Inr_iff list_all2_conv_all_nth in_set_conv_nth)
  show ?thesis
    unfolding g f using traverse_concat_set [OF t] all
    by (auto simp: rules_for_def) (metis Inr_inject)+
qed

end
