(* ===== verification/StoreModel.thy ===== *)
theory StoreModel
  imports ValidationModel
begin

section \<open>Drawing specifications and the job store\<close>

text \<open>
  Models \<open>domain/models/drawing_spec.py\<close>, the result record of
  \<open>application/services/remediation_service.py\<close>, \<open>persistence/memory_store.py\<close> and
  \<open>persistence/memory_drawing_audit_store.py\<close>. Dictionaries are association lists with Python's
  insertion order. A stored remediation payload is kept as the model it is dumped from, since
  pydantic reads its own dump back unchanged; a stored commit result is kept as the dump.
\<close>

subsection \<open>DrawingSpec\<close>

record modifier_spec =
  ms_type :: string
  ms_parameters :: pydict

text \<open>\<open>re.split\<close> is not needed: the key is lowered, dashes become underscores, and it is split.\<close>

definition FORBIDDEN_TOKENS :: "string list" where
  "FORBIDDEN_TOKENS = [''point'', ''points'', ''coordinate'', ''coordinates'', ''vertex'', ''vertices'']"

definition key_tokens :: "string \<Rightarrow> string list" where
  "key_tokens key =
     split_all (CHR ''_'') (map (\<lambda>c. if c = CHR ''-'' then CHR ''_'' else c) (lower key))"

definition reject_intermediate_coordinates :: "modifier_spec \<Rightarrow> modifier_spec res" where
  "reject_intermediate_coordinates m =
     (let invalid = sort (filter (\<lambda>key. list_ex (\<lambda>t. t \<in> set FORBIDDEN_TOKENS) (key_tokens key) \<and>
            lower key \<noteq> ''vertex_indices'') (map fst (ms_parameters m)))
      in if invalid \<noteq> []
         then Inl (ValueError (''Modifier parameters cannot contain intermediate coordinate keys: '' @
                join '', '' invalid))
         else Inr m)"

datatype feature_spec =
  FeatureSpec (fs_feature_id: string) (fs_type: string) (fs_parameters: pydict)
    (fs_modifiers: "modifier_spec list") (fs_children: "feature_spec list")

record missing_input =
  mi_path :: string
  mi_reason :: string
  mi_accepted_formats :: "string list"

record assumption_record =
  as_path :: string
  as_statement :: string
  as_affects_geometry :: bool
  as_requires_approval :: bool

datatype datum_type = POINT_DATUM | SELECTED_POINT | NAMED_DATUM

record datum_spec =
  dt_type :: datum_type
  dt_point_mm :: "(pyfloat \<times> pyfloat) option"
  dt_name :: "string option"

record view_spec =
  vw_type :: string
  vw_name :: "string option"

datatype projection = ORTHOGRAPHIC | ISOMETRIC

datatype view_kind = TOP_VIEW | FRONT_VIEW | SIDE_VIEW | SECTION_VIEW

record drawing_intent =
  di_projection :: projection
  di_view :: view_kind
  di_views :: "view_spec list"
  di_datum :: "datum_spec option"

record datum_feature_symbol =
  dfs_identifier :: string
  dfs_feature_id :: string
  dfs_position_mm :: "pyfloat \<times> pyfloat"

record feature_control_frame =
  fcf_frame_id :: string
  fcf_feature_id :: string
  fcf_characteristic :: string
  fcf_tolerance_text :: string
  fcf_datum_references :: "string list"
  fcf_position_mm :: "pyfloat \<times> pyfloat"

datatype dimension_policy = AUTO_REQUIRED | AUTO_OPTIONAL | NO_DIMENSIONS

record annotations_spec =
  an_general_tolerance :: "string option"
  an_dimensions :: dimension_policy
  an_title_block :: "string option"
  an_title_block_values :: "(string \<times> string) list"
  an_dimension_style :: "string option"
  an_datum_symbols :: "datum_feature_symbol list"
  an_feature_control_frames :: "feature_control_frame list"

record drawing_spec =
  sp_schema_version :: string
  sp_spec_id :: string
  sp_document_id :: string
  sp_units :: unit_of_length
  sp_standard_profile :: "string \<times> string"
  sp_drawing :: drawing_intent
  sp_features :: "feature_spec list"
  sp_annotations :: annotations_spec
  sp_assumptions :: "assumption_record list"
  sp_explicit_defaults :: "default_record list"

text \<open>\<open>CompilationResult\<close> of \<open>plan_compiler.py\<close>.\<close>

record compilation_result =
  co_plan :: "operation_plan option"
  co_missing_inputs :: "missing_input list"
  co_defaults_applied :: "default_record list"
  co_assumptions :: "assumption_record list"

definition needs_input :: "compilation_result \<Rightarrow> bool" where
  "needs_input r \<longleftrightarrow> co_plan r = None"

type_synonym finding_ref = "string \<times> string"

record remediation_result =
  rm_plan :: operation_plan
  rm_audit_id :: string
  rm_operation_sources :: "(string \<times> finding_ref) list"
  rm_selected_findings :: "finding_ref list"
  rm_technical_inputs :: pydict

subsection \<open>InMemoryJobStore\<close>

record job_store =
  st_jobs :: "(string \<times> cad_job) list"
  st_specs :: "(string \<times> drawing_spec list) list"
  st_plans :: "(string \<times> operation_plan) list"
  st_remediations :: "(string \<times> (string \<times> remediation_result)) list"
  st_validations :: "(string \<times> validation_report) list"
  st_approvals :: "(string \<times> approval_record) list"
  st_executions :: "((string \<times> string) \<times> (string \<times> pydict)) list"
  st_entity_mappings :: "entity_mapping list"
  st_checkpoints :: "(string \<times> checkpoint) list"

definition empty_store :: job_store where
  "empty_store = \<lparr>st_jobs = [], st_specs = [], st_plans = [], st_remediations = [],
     st_validations = [], st_approvals = [], st_executions = [], st_entity_mappings = [],
     st_checkpoints = []\<rparr>"

definition save_job :: "cad_job \<Rightarrow> job_store \<Rightarrow> job_store" where
  "save_job job s = s\<lparr>st_jobs := dset (st_jobs s) (cj_job_id job) job\<rparr>"

definition get_job :: "job_store \<Rightarrow> string \<Rightarrow> cad_job option" where
  "get_job s jid = map_of (st_jobs s) jid"

definition save_spec :: "string \<Rightarrow> drawing_spec \<Rightarrow> (exc, job_store, nat) prog" where
  "save_spec jid spec s =
     (let versions = (case map_of (st_specs s) jid of None \<Rightarrow> [] | Some v \<Rightarrow> v) @ [spec]
      in (Inr (length versions), s\<lparr>st_specs := dset (st_specs s) jid versions\<rparr>))"

definition get_spec :: "job_store \<Rightarrow> string \<Rightarrow> drawing_spec option" where
  "get_spec s jid =
     (case map_of (st_specs s) jid of
        None \<Rightarrow> None | Some versions \<Rightarrow> if versions = [] then None else Some (last versions))"

definition save_plan :: "operation_plan \<Rightarrow> job_store \<Rightarrow> job_store" where
  "save_plan plan s = s\<lparr>st_plans := dset (st_plans s) (pl_job_id plan) plan\<rparr>"

definition get_plan :: "job_store \<Rightarrow> string \<Rightarrow> operation_plan option" where
  "get_plan s jid = map_of (st_plans s) jid"

definition save_remediation ::
  "string \<Rightarrow> string \<Rightarrow> remediation_result \<Rightarrow> (exc, job_store, unit) prog" where
  "save_remediation jid ph payload s =
     (if map_of (st_remediations s) jid \<noteq> None
      then (Inl (ValueError ''remediation evidence is append-only per job''), s)
      else (Inr (), s\<lparr>st_remediations := dset (st_remediations s) jid (ph, payload)\<rparr>))"

definition get_remediation :: "job_store \<Rightarrow> string \<Rightarrow> (string \<times> remediation_result) option" where
  "get_remediation s jid = map_of (st_remediations s) jid"

definition save_validation :: "validation_report \<Rightarrow> job_store \<Rightarrow> job_store" where
  "save_validation report s =
     s\<lparr>st_validations := dset (st_validations s) (vr_job_id report) report\<rparr>"

definition get_validation :: "job_store \<Rightarrow> string \<Rightarrow> validation_report option" where
  "get_validation s jid = map_of (st_validations s) jid"

definition save_approval :: "approval_record \<Rightarrow> job_store \<Rightarrow> job_store" where
  "save_approval approval s =
     s\<lparr>st_approvals := dset (st_approvals s) (ap_approval_id approval) approval\<rparr>"

definition get_approval :: "job_store \<Rightarrow> string \<Rightarrow> approval_record option" where
  "get_approval s aid = map_of (st_approvals s) aid"

definition revoke_approvals_for_job :: "string \<Rightarrow> job_store \<Rightarrow> job_store" where
  "revoke_approvals_for_job jid s =
     s\<lparr>st_approvals :=
         fold (\<lambda>aid d. dpop d aid)
           (map (ap_approval_id \<circ> snd) (filter (\<lambda>(_, a). ap_job_id a = jid) (st_approvals s)))
           (st_approvals s)\<rparr>"

definition record_execution ::
  "string \<Rightarrow> string \<Rightarrow> string \<Rightarrow> pydict \<Rightarrow> job_store \<Rightarrow> job_store" where
  "record_execution jid key digest result s =
     s\<lparr>st_executions := dset (st_executions s) (jid, key) (digest, result)\<rparr>"

definition find_execution :: "job_store \<Rightarrow> string \<Rightarrow> string \<Rightarrow> (string \<times> pydict) option" where
  "find_execution s jid key = map_of (st_executions s) (jid, key)"

definition map_entity :: "entity_mapping \<Rightarrow> job_store \<Rightarrow> job_store" where
  "map_entity m s = s\<lparr>st_entity_mappings := st_entity_mappings s @ [m]\<rparr>"

definition entity_mappings_for :: "job_store \<Rightarrow> string \<Rightarrow> entity_mapping list" where
  "entity_mappings_for s doc = filter (\<lambda>m. em_document_id m = doc) (st_entity_mappings s)"

definition save_checkpoint :: "checkpoint \<Rightarrow> job_store \<Rightarrow> job_store" where
  "save_checkpoint cp s = s\<lparr>st_checkpoints := dset (st_checkpoints s) (cp_checkpoint_id cp) cp\<rparr>"

text \<open>Both finalizers answer whether they released the lease; the in-memory store never does.\<close>

definition finalize_job ::
  "cad_job \<Rightarrow> entity_mapping list \<Rightarrow> (exc, job_store, bool) prog" where
  "finalize_job job mappings s = (Inr False, fold map_entity mappings (save_job job s))"

definition finalize_commit ::
  "cad_job \<Rightarrow> entity_mapping list \<Rightarrow> string \<Rightarrow> string \<Rightarrow> pydict \<Rightarrow> checkpoint option \<Rightarrow>
   (exc, job_store, bool) prog" where
  "finalize_commit job mappings key digest result cp s =
     (let s1 = fold map_entity mappings (save_job job s);
          s2 = (case cp of None \<Rightarrow> s1 | Some c \<Rightarrow> save_checkpoint c s1)
      in (Inr False, record_execution (cj_job_id job) key digest result s2))"

subsection \<open>InMemoryDrawingAuditStore\<close>

type_synonym drawing_audit_store = "(string \<times> drawing_audit_evidence) list"

definition save_drawing_audit ::
  "string \<Rightarrow> string \<Rightarrow> string \<Rightarrow> validation_report \<Rightarrow> drawing_audit_store \<Rightarrow> drawing_audit_store" where
  "save_drawing_audit aid doc revn report s =
     dset s aid \<lparr>da_audit_id = aid, da_document_id = doc, da_revision = revn, da_report = report\<rparr>"

definition get_drawing_audit :: "drawing_audit_store \<Rightarrow> string \<Rightarrow> drawing_audit_evidence option" where
  "get_drawing_audit s aid = map_of s aid"

subsection \<open>Lemmas\<close>

lemma store_simps [simp]:
  "get_job (save_job job s) jid = (if jid = cj_job_id job then Some job else get_job s jid)"
  "get_plan (save_plan p s) jid = (if jid = pl_job_id p then Some p else get_plan s jid)"
  "get_validation (save_validation v s) jid = (if jid = vr_job_id v then Some v else get_validation s jid)"
  "get_approval (save_approval a s) aid = (if aid = ap_approval_id a then Some a else get_approval s aid)"
  "find_execution (record_execution j k d r s) jid key =
     (if jid = j \<and> key = k then Some (d, r) else find_execution s jid key)"
  by (auto simp: get_job_def save_job_def get_plan_def save_plan_def get_validation_def
      save_validation_def get_approval_def save_approval_def find_execution_def record_execution_def)

lemma store_frame [simp]:
  "get_job (save_plan p s) = get_job s" "get_job (save_validation v s) = get_job s"
  "get_job (save_approval a s) = get_job s" "get_job (record_execution j k d r s) = get_job s"
  "get_job (map_entity m s) = get_job s" "get_job (save_checkpoint c s) = get_job s"
  "get_job (revoke_approvals_for_job j s) = get_job s"
  "get_plan (save_job job s) = get_plan s" "get_plan (save_validation v s) = get_plan s"
  "get_plan (save_approval a s) = get_plan s"
  "find_execution (save_job job s) = find_execution s"
  "find_execution (save_validation v s) = find_execution s"
  "find_execution (save_approval a s) = find_execution s"
  "find_execution (save_plan p s) = find_execution s"
  "find_execution (map_entity m s) = find_execution s"
  "find_execution (save_checkpoint c s) = find_execution s"
  "find_execution (revoke_approvals_for_job j s) = find_execution s"
  "get_approval (save_job job s) = get_approval s"
  "get_approval (save_validation v s) = get_approval s"
  "get_approval (save_plan p s) = get_approval s"
  "get_validation (save_job job s) = get_validation s"
  by (auto simp: fun_eq_iff get_job_def save_job_def get_plan_def save_plan_def get_validation_def
      save_validation_def get_approval_def save_approval_def find_execution_def record_execution_def
      map_entity_def save_checkpoint_def revoke_approvals_for_job_def)

lemma fold_map_entity:
  "fold map_entity ms s = s\<lparr>st_entity_mappings := st_entity_mappings s @ ms\<rparr>"
  by (induction ms arbitrary: s) (simp_all add: map_entity_def)

text \<open>Approvals are filed under their own identifier, one entry for each.\<close>

definition approvals_filed :: "job_store \<Rightarrow> bool" where
  "approvals_filed s \<longleftrightarrow> distinct (map fst (st_approvals s)) \<and>
     (\<forall>p \<in> set (st_approvals s). fst p = ap_approval_id (snd p))"

lemma approvals_filed_empty: "approvals_filed empty_store"
  by (simp add: approvals_filed_def empty_store_def)

lemma approvals_filed_save: "approvals_filed s \<Longrightarrow> approvals_filed (save_approval a s)"
  by (auto simp: approvals_filed_def save_approval_def distinct_dset set_dset)

lemma fold_dpop:
  "fold (\<lambda>k d. dpop d k) ks d = filter (\<lambda>p. fst p \<notin> set ks) d"
proof (induction ks arbitrary: d)
  case (Cons k ks)
  have "filter (\<lambda>p. fst p \<notin> set ks) (dpop d k) = filter (\<lambda>p. fst p \<notin> set (k # ks)) d"
    by (simp add: dpop_def case_prod_beta)
  with Cons show ?case by simp
qed simp

lemma revoked_table:
  assumes "approvals_filed s"
  shows "st_approvals (revoke_approvals_for_job jid s) =
    filter (\<lambda>p. ap_job_id (snd p) \<noteq> jid) (st_approvals s)"
proof -
  let ?t = "st_approvals s"
  let ?ks = "map (ap_approval_id \<circ> snd) (filter (\<lambda>(_, a). ap_job_id a = jid) ?t)"
  have "fst p \<notin> set ?ks \<longleftrightarrow> ap_job_id (snd p) \<noteq> jid" if p: "p \<in> set ?t" for p
  proof
    assume nk: "fst p \<notin> set ?ks"
    from p assms have "fst p = ap_approval_id (snd p)" by (simp add: approvals_filed_def)
    with nk p show "ap_job_id (snd p) \<noteq> jid" by (force simp: case_prod_beta)
  next
    assume j: "ap_job_id (snd p) \<noteq> jid"
    show "fst p \<notin> set ?ks"
    proof
      assume "fst p \<in> set ?ks"
      then obtain q where q: "q \<in> set ?t" "ap_job_id (snd q) = jid" "fst p = ap_approval_id (snd q)"
        by (auto simp: case_prod_beta)
      with assms have "fst q = fst p" by (auto simp: approvals_filed_def)
      with assms p q(1) have "q = p"
        unfolding approvals_filed_def by (metis eq_key_imp_eq_value prod.collapse)
      with q(2) j show False by blast
    qed
  qed
  then have "filter (\<lambda>p. fst p \<notin> set ?ks) ?t = filter (\<lambda>p. ap_job_id (snd p) \<noteq> jid) ?t"
    by (rule filter_cong [OF refl])
  then show ?thesis by (simp add: revoke_approvals_for_job_def fold_dpop)
qed

lemma map_of_filter_snd:
  "distinct (map fst d) \<Longrightarrow> map_of (filter (\<lambda>p. P (snd p)) d) k =
     (case map_of d k of None \<Rightarrow> None | Some v \<Rightarrow> if P v then Some v else None)"
proof (induction d)
  case (Cons a d)
  then have "fst a \<notin> fst ` set d" by simp
  then have "map_of (filter (\<lambda>p. P (snd p)) d) (fst a) = None"
    by (simp add: map_of_eq_None_iff image_iff)
  with Cons show ?case by auto
qed simp

text \<open>
  Revocation is exact: after \<open>revoke_approvals_for_job\<close> no approval of that job can be
  looked up any more, every approval of another job is still there, and nothing else in the
  store has changed.
\<close>

theorem revocation_exact:
  assumes "approvals_filed s"
  shows "get_approval (revoke_approvals_for_job jid s) aid =
      (case get_approval s aid of None \<Rightarrow> None
       | Some a \<Rightarrow> if ap_job_id a = jid then None else Some a) \<and>
    approvals_filed (revoke_approvals_for_job jid s) \<and>
    (revoke_approvals_for_job jid s)\<lparr>st_approvals := st_approvals s\<rparr> = s"
proof (intro conjI)
  have d: "distinct (map fst (st_approvals s))" using assms by (simp add: approvals_filed_def)
  show "get_approval (revoke_approvals_for_job jid s) aid =
      (case get_approval s aid of None \<Rightarrow> None
       | Some a \<Rightarrow> if ap_job_id a = jid then None else Some a)"
    unfolding get_approval_def revoked_table [OF assms]
      map_of_filter_snd [OF d, of "\<lambda>a. ap_job_id a \<noteq> jid"]
    by (simp split: option.splits)
  have "distinct (map fst (filter (\<lambda>p. ap_job_id (snd p) \<noteq> jid) (st_approvals s)))"
    using d by (rule distinct_map_filter)
  with assms show "approvals_filed (revoke_approvals_for_job jid s)"
    by (auto simp: approvals_filed_def revoked_table [OF assms])
  show "(revoke_approvals_for_job jid s)\<lparr>st_approvals := st_approvals s\<rparr> = s"
    by (simp add: revoke_approvals_for_job_def)
qed

definition demo_approval :: "string \<Rightarrow> string \<Rightarrow> approval_record" where
  "demo_approval aid jid =
     \<lparr>ap_schema_version = SCHEMA_VERSION, ap_approval_id = aid, ap_job_id = jid,
      ap_document_id = ''doc_1'', ap_expected_revision = ''r1'', ap_plan_hash = ''h'',
      ap_approved_by = ''eng'', ap_approved_at = 0, ap_expires_at = 10, ap_warnings_acknowledged = []\<rparr>"

theorem revocation_exact_witness:
  "get_approval (revoke_approvals_for_job ''job_1''
     (save_approval (demo_approval ''a2'' ''job_2'') (save_approval (demo_approval ''a1'' ''job_1'') empty_store)))
     ''a1'' = None"
proof -
  let ?s = "save_approval (demo_approval ''a2'' ''job_2'')
    (save_approval (demo_approval ''a1'' ''job_1'') empty_store)"
  have "approvals_filed ?s" by (intro approvals_filed_save approvals_filed_empty)
  from revocation_exact [OF this, of "''job_1''" "''a1''"] show ?thesis
    by (simp add: demo_approval_def)
qed

text \<open>
  Finalising a commit writes everything a later replay, audit or rollback needs in one step:
  the terminal job, the request digest with the stored result, the checkpoint when there is one,
  and the entity mappings, appended in order after all older ones.
\<close>

theorem finalize_commit_writes:
  "case finalize_commit job ms key digest result cp s of (r, s') \<Rightarrow>
     r = Inr False \<and> get_job s' (cj_job_id job) = Some job \<and>
     find_execution s' (cj_job_id job) key = Some (digest, result) \<and>
     st_entity_mappings s' = st_entity_mappings s @ ms \<and>
     (case cp of None \<Rightarrow> st_checkpoints s' = st_checkpoints s
      | Some c \<Rightarrow> map_of (st_checkpoints s') (cp_checkpoint_id c) = Some c) \<and>
     st_approvals s' = st_approvals s \<and> st_plans s' = st_plans s \<and> st_specs s' = st_specs s"
  by (auto simp: finalize_commit_def Let_def fold_map_entity save_checkpoint_def record_execution_def
      save_job_def get_job_def find_execution_def split: option.splits)

end
