(* ===== verification/Geometry.thy ===== *)
theory Geometry
  imports ValidationModel
begin

section \<open>The 2D geometry kernel\<close>

text \<open>
  Models \<open>geometry/primitives.py\<close>, \<open>geometry/intersections.py\<close> and \<open>geometry/predicates.py\<close>.
  A coordinate that passed \<open>require_finite\<close> is a real number; the rounding of binary64
  arithmetic is not modelled, so equations between lengths and areas are the exact ones that
  the tolerances of the program allow for. The dataclass constructors that can raise are the
  \<open>mk_\<close> functions.
\<close>

subsection \<open>Primitives\<close>

definition require_finite :: "pyfloat list \<Rightarrow> real list res" where
  "require_finite xs = traverse (\<lambda>x. case x of Fin r \<Rightarrow> Inr r
     | _ \<Rightarrow> Inl (Err InvalidGeometryError ''Non-finite coordinate rejected'')) xs"

datatype vector2d = Vector2D (vdx: real) (vdy: real)

definition vlength :: "vector2d \<Rightarrow> real" where
  "vlength v = sqrt ((vdx v)\<^sup>2 + (vdy v)\<^sup>2)"

definition scaled :: "vector2d \<Rightarrow> real \<Rightarrow> vector2d" where
  "scaled v f = Vector2D (vdx v * f) (vdy v * f)"

definition normalized :: "vector2d \<Rightarrow> vector2d res" where
  "normalized v =
     (if vlength v \<le> 0 then Inl (Err InvalidGeometryError ''Cannot normalize a zero-length vector'')
      else Inr (Vector2D (vdx v / vlength v) (vdy v / vlength v)))"

definition dot :: "vector2d \<Rightarrow> vector2d \<Rightarrow> real" where
  "dot v w = vdx v * vdx w + vdy v * vdy w"

definition cross :: "vector2d \<Rightarrow> vector2d \<Rightarrow> real" where
  "cross v w = vdx v * vdy w - vdy v * vdx w"

datatype point2d = Point2D (px: real) (py: real)

definition mk_point :: "pyfloat \<Rightarrow> pyfloat \<Rightarrow> point2d res" where
  "mk_point x y = bindR (require_finite [x, y]) (\<lambda>rs. Inr (Point2D (rs ! 0) (rs ! 1)))"

definition translated :: "point2d \<Rightarrow> real \<Rightarrow> real \<Rightarrow> point2d" where
  "translated p dx dy = Point2D (px p + dx) (py p + dy)"

definition rotated :: "point2d \<Rightarrow> real \<Rightarrow> point2d option \<Rightarrow> point2d" where
  "rotated p angle_deg about =
     (let pivot = (case about of None \<Rightarrow> Point2D 0 0 | Some q \<Rightarrow> q);
          radians = angle_deg * pi / 180; dx = px p - px pivot; dy = py p - py pivot
      in Point2D (px pivot + dx * cos radians - dy * sin radians)
                 (py pivot + dx * sin radians + dy * cos radians))"

definition distance_to :: "point2d \<Rightarrow> point2d \<Rightarrow> real" where
  "distance_to p q = sqrt ((px p - px q)\<^sup>2 + (py p - py q)\<^sup>2)"

definition vector_to :: "point2d \<Rightarrow> point2d \<Rightarrow> vector2d" where
  "vector_to p q = Vector2D (px q - px p) (py q - py p)"

record bounding_box =
  bb_min_x :: real
  bb_min_y :: real
  bb_max_x :: real
  bb_max_y :: real

definition box_from_points :: "point2d list \<Rightarrow> bounding_box res" where
  "box_from_points ps =
     (case ps of
        [] \<Rightarrow> Inl (Err InvalidGeometryError ''Cannot build a bounding box from zero points'')
      | p # qs \<Rightarrow> Inr \<lparr>bb_min_x = fold min (map px qs) (px p), bb_min_y = fold min (map py qs) (py p),
                      bb_max_x = fold max (map px qs) (px p), bb_max_y = fold max (map py qs) (py p)\<rparr>)"

definition box_width :: "bounding_box \<Rightarrow> real" where
  "box_width b = bb_max_x b - bb_min_x b"

definition box_height :: "bounding_box \<Rightarrow> real" where
  "box_height b = bb_max_y b - bb_min_y b"

definition box_contains_point :: "bounding_box \<Rightarrow> point2d \<Rightarrow> real \<Rightarrow> bool" where
  "box_contains_point b p margin \<longleftrightarrow>
     bb_min_x b + margin \<le> px p \<and> px p \<le> bb_max_x b - margin \<and>
     bb_min_y b + margin \<le> py p \<and> py p \<le> bb_max_y b - margin"

definition distance_to_edge :: "bounding_box \<Rightarrow> point2d \<Rightarrow> real" where
  "distance_to_edge b p =
     min (min (px p - bb_min_x b) (bb_max_x b - px p)) (min (py p - bb_min_y b) (bb_max_y b - py p))"

datatype circle2d = Circle2D (center: point2d) (diameter_mm: real)

definition mk_circle :: "point2d \<Rightarrow> pyfloat \<Rightarrow> circle2d res" where
  "mk_circle c d = bindR (require_finite [d]) (\<lambda>rs.
     if rs ! 0 \<le> 0 then Inl (Err InvalidGeometryError ''Circle diameter must be positive'')
     else Inr (Circle2D c (rs ! 0)))"

definition radius_mm :: "circle2d \<Rightarrow> real" where
  "radius_mm c = diameter_mm c / 2"

definition circle_area_mm2 :: "circle2d \<Rightarrow> real" where
  "circle_area_mm2 c = pi * (radius_mm c)\<^sup>2"

definition circle_contains_point :: "circle2d \<Rightarrow> point2d \<Rightarrow> bool" where
  "circle_contains_point c p \<longleftrightarrow> distance_to (center c) p \<le> radius_mm c"

datatype polyline2d = Polyline2D (vertices: "point2d list") (closed: bool)

definition mk_polyline :: "point2d list \<Rightarrow> bool \<Rightarrow> polyline2d res" where
  "mk_polyline vs cl =
     (if length vs < 2 then Inl (Err InvalidGeometryError ''A polyline needs at least two vertices'')
      else Inr (Polyline2D vs cl))"

definition segments :: "polyline2d \<Rightarrow> (point2d \<times> point2d) list" where
  "segments p = (let vs = vertices p in
     zip vs (tl vs) @ (if closed p then [(last vs, hd vs)] else []))"

definition perimeter :: "polyline2d \<Rightarrow> real" where
  "perimeter p = sum_list (map (\<lambda>(a, b). distance_to a b) (segments p))"

definition shoelace :: "point2d list \<Rightarrow> real" where
  "shoelace vs = sum_list (map (\<lambda>(a, b). px a * py b - px b * py a) (zip vs (tl vs @ [hd vs])))"

definition signed_area :: "polyline2d \<Rightarrow> real" where
  "signed_area p = shoelace (vertices p) / 2"

definition area :: "polyline2d \<Rightarrow> real" where
  "area p = \<bar>signed_area p\<bar>"

definition polyline_box :: "polyline2d \<Rightarrow> bounding_box res" where
  "polyline_box p = box_from_points (vertices p)"

definition has_zero_length_segment :: "polyline2d \<Rightarrow> tolerance_profile \<Rightarrow> bool" where
  "has_zero_length_segment p t =
     list_ex (\<lambda>(a, b). is_zero_length t (distance_to a b)) (segments p)"

subsection \<open>Intersections\<close>

definition segment_intersection ::
  "point2d \<Rightarrow> point2d \<Rightarrow> point2d \<Rightarrow> point2d \<Rightarrow> tolerance_profile \<Rightarrow> point2d option" where
  "segment_intersection a1 a2 b1 b2 tol =
     (let d1 = vector_to a1 a2; d2 = vector_to b1 b2; denominator = cross d1 d2 in
      if \<bar>denominator\<bar> < 1 / 10 ^ 12 then None
      else let offset = vector_to a1 b1; t = cross offset d2 / denominator;
               u = cross offset d1 / denominator
           in if \<not> (0 \<le> t \<and> t \<le> 1 \<and> 0 \<le> u \<and> u \<le> 1) then None
              else Some (Point2D (px a1 + vdx d1 * t) (py a1 + vdy d1 * t)))"

definition line_intersection ::
  "point2d \<Rightarrow> point2d \<Rightarrow> point2d \<Rightarrow> point2d \<Rightarrow> tolerance_profile \<Rightarrow> point2d option" where
  "line_intersection a1 a2 b1 b2 tol =
     (let v = vector_to a1 a2; w = vector_to b1 b2; scale = vlength v * vlength w in
      if is_zero_length tol (vlength v) \<or> is_zero_length tol (vlength w) then None
      else let denominator = cross v w; angular_limit = sin (tp_angular_deg tol * pi / 180)
           in if \<bar>denominator\<bar> / scale \<le> angular_limit then None
              else let offset = vector_to a1 b1; parameter = cross offset w / denominator
                   in Some (Point2D (px a1 + vdx v * parameter) (py a1 + vdy v * parameter)))"

definition clamp01 :: "real \<Rightarrow> real" where
  "clamp01 x = max 0 (min 1 x)"

definition point_to_segment_distance :: "point2d \<Rightarrow> point2d \<Rightarrow> point2d \<Rightarrow> real" where
  "point_to_segment_distance p a b =
     (let segment = vector_to a b; length_squared = (vdx segment)\<^sup>2 + (vdy segment)\<^sup>2 in
      if length_squared \<le> 0 then distance_to p a
      else let t = clamp01 (dot (vector_to a p) segment / length_squared)
           in distance_to p (Point2D (px a + vdx segment * t) (py a + vdy segment * t)))"

definition circles_overlap :: "point2d \<Rightarrow> real \<Rightarrow> point2d \<Rightarrow> real \<Rightarrow> real \<Rightarrow> bool" where
  "circles_overlap ca da cb db minimum_ligament_mm \<longleftrightarrow>
     distance_to ca cb < (da + db) / 2 + minimum_ligament_mm"

definition contour_intersections ::
  "polyline2d \<Rightarrow> polyline2d \<Rightarrow> tolerance_profile \<Rightarrow> point2d list" where
  "contour_intersections p q tol =
     fold (\<lambda>((a1, a2), (b1, b2)) acc.
         case segment_intersection a1 a2 b1 b2 tol of
           None \<Rightarrow> acc
         | Some c \<Rightarrow> if \<not> list_ex (\<lambda>i. is_coincident tol (distance_to c i)) acc then acc @ [c] else acc)
       (List.product (segments p) (segments q)) []"

subsection \<open>Predicates\<close>

definition points_coincident :: "point2d \<Rightarrow> point2d \<Rightarrow> tolerance_profile \<Rightarrow> bool" where
  "points_coincident a b t = is_coincident t (distance_to a b)"

fun has_duplicate_points :: "point2d list \<Rightarrow> tolerance_profile \<Rightarrow> bool" where
  "has_duplicate_points [] t = False"
| "has_duplicate_points (p # ps) t =
     (list_ex (\<lambda>q. points_coincident p q t) ps \<or> has_duplicate_points ps t)"

definition polyline_self_intersects :: "polyline2d \<Rightarrow> tolerance_profile \<Rightarrow> bool" where
  "polyline_self_intersects p tol =
     (let segs = segments p; count = length segs in
      list_ex (\<lambda>i. list_ex (\<lambda>j.
          let adjacent = (j = i + 1 \<or> (i = 0 \<and> j = count - 1 \<and> closed p)) in
          \<not> adjacent \<and>
          (case (segs ! i, segs ! j) of ((a1, a2), (b1, b2)) \<Rightarrow>
             segment_intersection a1 a2 b1 b2 tol \<noteq> None))
        [i + 1..<count]) [0..<count])"

definition is_orthogonal_rectangle :: "polyline2d \<Rightarrow> tolerance_profile \<Rightarrow> bool" where
  "is_orthogonal_rectangle p tol =
     (if \<not> closed p \<or> length (vertices p) \<noteq> 4 then False
      else list_all (\<lambda>(a, b). is_zero_length tol \<bar>py a - py b\<bar> \<or> is_zero_length tol \<bar>px a - px b\<bar>)
             (segments p))"

definition min_list_of :: "real list \<Rightarrow> real res" where
  "min_list_of xs = (case xs of [] \<Rightarrow> Inl (ValueError ''min() iterable argument is empty'')
     | x # ys \<Rightarrow> Inr (fold min ys x))"

definition minimum_edge_distance :: "circle2d \<Rightarrow> polyline2d \<Rightarrow> real res" where
  "minimum_edge_distance hole outline =
     bindR (min_list_of (map (\<lambda>(a, b). point_to_segment_distance (center hole) a b) (segments outline)))
       (\<lambda>m. Inr (m - radius_mm hole))"

definition is_closed_within :: "polyline2d \<Rightarrow> tolerance_profile \<Rightarrow> bool" where
  "is_closed_within p t \<longleftrightarrow> closed p \<or> points_coincident (hd (vertices p)) (last (vertices p)) t"

definition point_on_boundary :: "point2d \<Rightarrow> polyline2d \<Rightarrow> tolerance_profile \<Rightarrow> bool" where
  "point_on_boundary p c t =
     list_ex (\<lambda>(a, b). is_coincident t (point_to_segment_distance p a b)) (segments c)"

text \<open>The parity of the crossings of the ray to the right of the point.\<close>

definition crosses_right :: "point2d \<Rightarrow> point2d \<times> point2d \<Rightarrow> bool" where
  "crosses_right p = (\<lambda>(a, b).
     (py a > py p) \<noteq> (py b > py p) \<and>
     px a + (py p - py a) * (px b - px a) / (py b - py a) > px p)"

definition contains_point :: "polyline2d \<Rightarrow> point2d \<Rightarrow> tolerance_profile \<Rightarrow> bool" where
  "contains_point c p t =
     (if point_on_boundary p c t then True
      else fold (\<lambda>s inside. if crosses_right p s then \<not> inside else inside) (segments c) False)"

definition hole_inside_outline :: "circle2d \<Rightarrow> polyline2d \<Rightarrow> tolerance_profile \<Rightarrow> bool res" where
  "hole_inside_outline hole outline t =
     (if \<not> contains_point outline (center hole) t then Inr False
      else bindR (minimum_edge_distance hole outline) (\<lambda>m. Inr (- tp_absolute_length_mm t \<le> m)))"

definition midpoint2d :: "point2d \<Rightarrow> point2d \<Rightarrow> point2d" where
  "midpoint2d a b = Point2D ((px a + px b) / 2) ((py a + py b) / 2)"

definition probes :: "polyline2d \<Rightarrow> point2d list" where
  "probes c = vertices c @ map (\<lambda>(a, b). midpoint2d a b) (segments c)"

definition contains_contour :: "polyline2d \<Rightarrow> polyline2d \<Rightarrow> tolerance_profile \<Rightarrow> bool" where
  "contains_contour outer inner t =
     (if \<not> is_closed_within outer t \<or> \<not> is_closed_within inner t then False
      else list_all (\<lambda>p. contains_point outer p t) (probes inner))"

subsection \<open>Distances\<close>

lemma distance_to_nonneg: "0 \<le> distance_to p q"
  by (simp add: distance_to_def)

lemma distance_to_sym: "distance_to p q = distance_to q p"
  by (simp add: distance_to_def power2_commute)

lemma distance_to_zero_iff: "distance_to p q = 0 \<longleftrightarrow> p = q"
  by (cases p; cases q) (simp add: distance_to_def sum_power2_eq_zero_iff)

lemma distance_to_sq: "(distance_to p q)\<^sup>2 = (px p - px q)\<^sup>2 + (py p - py q)\<^sup>2"
  by (simp add: distance_to_def)

lemma distance_le_iff:
  "distance_to p q \<le> distance_to p r \<longleftrightarrow>
     (px p - px q)\<^sup>2 + (py p - py q)\<^sup>2 \<le> (px p - px r)\<^sup>2 + (py p - py r)\<^sup>2"
  by (simp add: distance_to_def)

lemma rotate_isometry_aux:
  fixes c s :: real
  assumes "s\<^sup>2 + c\<^sup>2 = 1"
  shows "(x * c - y * s)\<^sup>2 + (x * s + y * c)\<^sup>2 = x\<^sup>2 + y\<^sup>2"
proof -
  have "(x * c - y * s)\<^sup>2 + (x * s + y * c)\<^sup>2 = (x\<^sup>2 + y\<^sup>2) * (s\<^sup>2 + c\<^sup>2)"
    by (simp add: power2_eq_square algebra_simps)
  with assms show ?thesis by simp
qed

lemma rotated_distance:
  "distance_to (rotated p angle about) (rotated q angle about) = distance_to p q"
proof -
  let ?r = "angle * pi / 180"
  let ?x = "px p - px q" and ?y = "py p - py q"
  obtain o1 o2 where piv: "(case about of None \<Rightarrow> Point2D 0 0 | Some q \<Rightarrow> q) = Point2D o1 o2"
    by (metis point2d.exhaust)
  have x: "px (rotated p angle about) - px (rotated q angle about) = ?x * cos ?r - ?y * sin ?r"
    and y: "py (rotated p angle about) - py (rotated q angle about) = ?x * sin ?r + ?y * cos ?r"
    unfolding rotated_def Let_def piv by (simp_all add: algebra_simps)
  have "(sin ?r)\<^sup>2 + (cos ?r)\<^sup>2 = 1" by (rule sin_cos_squared_add)
  from rotate_isometry_aux [OF this, of ?x ?y] show ?thesis
    unfolding distance_to_def x y by simp
qed

subsection \<open>Segments\<close>

definition on_segment :: "point2d \<Rightarrow> point2d \<Rightarrow> real \<Rightarrow> point2d" where
  "on_segment a b s = Point2D (px a + (px b - px a) * s) (py a + (py b - py a) * s)"

lemma clamp01_range: "0 \<le> clamp01 x \<and> clamp01 x \<le> 1"
  by (simp add: clamp01_def)

lemma clamp01_best:
  assumes "0 \<le> s" and "s \<le> 1" and "0 < l" and "t = clamp01 (k / l)"
  shows "0 \<le> (s - t) * (l * t - k)"
proof -
  consider "k / l < 0" | "1 < k / l" | "0 \<le> k / l" "k / l \<le> 1" by linarith
  then show ?thesis
  proof cases
    case 1
    with assms(3) have "k < 0" by (simp add: divide_less_0_iff)
    with 1 assms show ?thesis by (simp add: clamp01_def mult_nonneg_nonpos)
  next
    case 2
    with assms(3) have "l < k" by (simp add: less_divide_eq)
    with 2 assms show ?thesis by (simp add: clamp01_def mult_nonpos_nonpos)
  next
    case 3
    then have "t = k / l" using assms(4) by (simp add: clamp01_def)
    with assms(3) show ?thesis by simp
  qed
qed

lemma quadratic_min:
  fixes wx wy dx dy s t :: real
  assumes "0 \<le> (s - t) * ((dx\<^sup>2 + dy\<^sup>2) * t - (wx * dx + wy * dy))"
  shows "(wx - dx * t)\<^sup>2 + (wy - dy * t)\<^sup>2 \<le> (wx - dx * s)\<^sup>2 + (wy - dy * s)\<^sup>2"
proof -
  have "((wx - dx * s)\<^sup>2 + (wy - dy * s)\<^sup>2) - ((wx - dx * t)\<^sup>2 + (wy - dy * t)\<^sup>2) =
      (dx\<^sup>2 + dy\<^sup>2) * (s - t)\<^sup>2 + 2 * ((s - t) * ((dx\<^sup>2 + dy\<^sup>2) * t - (wx * dx + wy * dy)))"
    by (simp add: power2_eq_square algebra_simps)
  moreover have "0 \<le> (dx\<^sup>2 + dy\<^sup>2) * (s - t)\<^sup>2" by simp
  ultimately show ?thesis using assms by linarith
qed

lemma segment_distance_attained:
  "\<exists>t. 0 \<le> t \<and> t \<le> 1 \<and> point_to_segment_distance p a b = distance_to p (on_segment a b t)"
proof (cases "(px b - px a)\<^sup>2 + (py b - py a)\<^sup>2 \<le> 0")
  case True
  then have "point_to_segment_distance p a b = distance_to p (on_segment a b 0)"
    by (simp add: point_to_segment_distance_def vector_to_def on_segment_def Let_def)
  then show ?thesis by (intro exI [of _ 0]) simp
next
  case False
  let ?t = "clamp01 (dot (vector_to a p) (vector_to a b) / ((px b - px a)\<^sup>2 + (py b - py a)\<^sup>2))"
  from False have "point_to_segment_distance p a b = distance_to p (on_segment a b ?t)"
    by (simp add: point_to_segment_distance_def vector_to_def on_segment_def Let_def)
  with clamp01_range show ?thesis by blast
qed

lemma segment_distance_least:
  assumes "0 \<le> s" and "s \<le> 1"
  shows "point_to_segment_distance p a b \<le> distance_to p (on_segment a b s)"
proof (cases "(px b - px a)\<^sup>2 + (py b - py a)\<^sup>2 \<le> 0")
  case True
  then have "px b = px a" "py b = py a" by (simp_all add: sum_power2_le_zero_iff)
  then have "on_segment a b s = a" by (simp add: on_segment_def)
  with True show ?thesis by (simp add: point_to_segment_distance_def vector_to_def Let_def)
next
  case False
  let ?l = "(px b - px a)\<^sup>2 + (py b - py a)\<^sup>2"
  let ?k = "(px p - px a) * (px b - px a) + (py p - py a) * (py b - py a)"
  let ?t = "clamp01 (?k / ?l)"
  have d: "point_to_segment_distance p a b = distance_to p (on_segment a b ?t)"
    using False by (simp add: point_to_segment_distance_def vector_to_def on_segment_def dot_def Let_def)
  from False have "0 < ?l" by simp
  from clamp01_best [OF assms this refl, of ?k]
  have "0 \<le> (s - ?t) * (((px b - px a)\<^sup>2 + (py b - py a)\<^sup>2) * ?t -
      ((px p - px a) * (px b - px a) + (py p - py a) * (py b - py a)))" .
  from quadratic_min [OF this] show ?thesis
    unfolding d distance_le_iff on_segment_def point2d.sel by (simp only: diff_diff_eq)
qed

text \<open>
  The distance from a point to a segment is the true minimum: some point of the segment is
  at that distance, and no point of the segment is nearer, also when the segment is degenerate
  or the foot of the perpendicular lies outside it.
\<close>

theorem point_to_segment_distance_minimal:
  "(\<exists>t. 0 \<le> t \<and> t \<le> 1 \<and> point_to_segment_distance p a b = distance_to p (on_segment a b t)) \<and>
   (\<forall>s \<in> {0..1}. point_to_segment_distance p a b \<le> distance_to p (on_segment a b s))"
  using segment_distance_attained segment_distance_least by auto

theorem point_to_segment_distance_minimal_witness:
  "point_to_segment_distance (Point2D 0 3) (Point2D 4 0) (Point2D 8 0) \<le>
     distance_to (Point2D 0 3) (on_segment (Point2D 4 0) (Point2D 8 0) (1 / 2))"
  using point_to_segment_distance_minimal [of "Point2D 0 3" "Point2D 4 0" "Point2D 8 0"] by simp

lemma segment_intersection_eq:
  "segment_intersection a1 a2 b1 b2 tol =
     (let D = cross (vector_to a1 a2) (vector_to b1 b2);
          t = cross (vector_to a1 b1) (vector_to b1 b2) / D;
          u = cross (vector_to a1 b1) (vector_to a1 a2) / D
      in if \<bar>D\<bar> < 1 / 10 ^ 12 then None
         else if 0 \<le> t \<and> t \<le> 1 \<and> 0 \<le> u \<and> u \<le> 1 then Some (on_segment a1 a2 t) else None)"
  by (simp add: segment_intersection_def Let_def on_segment_def vector_to_def)

lemma cross_swap: "cross v w = - cross w v"
  by (simp add: cross_def)

lemma cross_vector_swap: "cross (vector_to q p) v = - cross (vector_to p q) v"
  by (simp add: cross_def vector_to_def algebra_simps)

lemma cramer:
  fixes dx dy ex ey ox oy :: real
  assumes "dx * ey - dy * ex \<noteq> 0"
  shows "dx * ((ox * ey - oy * ex) / (dx * ey - dy * ex)) =
      ox + ex * ((ox * dy - oy * dx) / (dx * ey - dy * ex))"
    and "dy * ((ox * ey - oy * ex) / (dx * ey - dy * ex)) =
      oy + ey * ((ox * dy - oy * dx) / (dx * ey - dy * ex))"
  using assms by (simp_all add: field_simps)

lemma crossing_point:
  assumes "cross (vector_to a1 a2) (vector_to b1 b2) \<noteq> 0"
  shows "on_segment a1 a2 (cross (vector_to a1 b1) (vector_to b1 b2) / cross (vector_to a1 a2) (vector_to b1 b2)) =
    on_segment b1 b2 (cross (vector_to a1 b1) (vector_to a1 a2) / cross (vector_to a1 a2) (vector_to b1 b2))"
proof -
  from assms have "(px a2 - px a1) * (py b2 - py b1) - (py a2 - py a1) * (px b2 - px b1) \<noteq> 0"
    by (simp add: cross_def vector_to_def)
  from cramer [OF this, of "px b1 - px a1" "py b1 - py a1"] show ?thesis
    by (simp only: on_segment_def cross_def vector_to_def vector2d.sel point2d.inject) simp
qed

text \<open>
  A crossing that \<open>segment_intersection\<close> reports is one: the returned point lies on both
  segments. The order of the two segments does not change whether a crossing is reported.
\<close>

theorem segment_intersection_sound:
  assumes "segment_intersection a1 a2 b1 b2 tol = Some p"
  shows "(\<exists>t \<in> {0..1}. p = on_segment a1 a2 t) \<and> (\<exists>u \<in> {0..1}. p = on_segment b1 b2 u) \<and>
    segment_intersection b1 b2 a1 a2 tol = Some p"
proof -
  let ?d = "vector_to a1 a2" and ?e = "vector_to b1 b2" and ?o = "vector_to a1 b1"
  let ?D = "cross ?d ?e"
  let ?t = "cross ?o ?e / ?D" and ?u = "cross ?o ?d / ?D"
  have D: "\<not> \<bar>?D\<bar> < 1 / 10 ^ 12" and t: "0 \<le> ?t" "?t \<le> 1" and u: "0 \<le> ?u" "?u \<le> 1"
    and p: "p = on_segment a1 a2 ?t"
    using assms by (auto simp: segment_intersection_eq Let_def split: if_splits)
  then have "?D \<noteq> 0" by auto
  then have pu: "on_segment a1 a2 ?t = on_segment b1 b2 ?u" by (rule crossing_point)
  have "cross ?e ?d = - ?D" "cross (vector_to b1 a1) ?d = - cross ?o ?d"
    "cross (vector_to b1 a1) ?e = - cross ?o ?e"
    by (rule cross_swap, rule cross_vector_swap, rule cross_vector_swap)
  with D t u pu p have "segment_intersection b1 b2 a1 a2 tol = Some p"
    by (simp add: segment_intersection_eq Let_def)
  moreover from t have "?t \<in> {0..1}" by simp
  moreover from u have "?u \<in> {0..1}" by simp
  moreover from p pu have "p = on_segment b1 b2 ?u" by simp
  ultimately show ?thesis using p by blast
qed

theorem segment_intersection_sound_witness:
  "\<exists>u \<in> {0..1}. Point2D 1 1 = on_segment (Point2D 0 2) (Point2D 2 0) u"
proof -
  have "segment_intersection (Point2D 0 0) (Point2D 2 2) (Point2D 0 2) (Point2D 2 0)
      (default_tolerance [] []) = Some (Point2D 1 1)"
    by (simp add: segment_intersection_def vector_to_def cross_def Let_def)
  from segment_intersection_sound [OF this] show ?thesis by blast
qed

subsection \<open>Areas\<close>

lemma zip_sum_diff:
  fixes g :: "'a \<Rightarrow> real"
  assumes "length xs = length ys"
  shows "sum_list (map (\<lambda>(a, b). g b - g a) (zip xs ys)) = sum_list (map g ys) - sum_list (map g xs)"
  using assms by (induction xs ys rule: list_induct2) simp_all

lemma shoelace_Cons: "shoelace (x # xs) = sum_list (map (\<lambda>(a, b). px a * py b - px b * py a) (zip (x # xs) (xs @ [x])))"
  by (simp add: shoelace_def)

text \<open>The pairs of neighbours of a cyclic list, and sums over them.\<close>

definition neighbours :: "'a list \<Rightarrow> ('a \<times> 'a) list" where
  "neighbours vs = zip vs (tl vs @ [hd vs])"

lemma neighbours_sum_rotate1:
  fixes f :: "'a \<times> 'a \<Rightarrow> real"
  shows "sum_list (map f (neighbours (rotate1 vs))) = sum_list (map f (neighbours vs))"
proof (cases vs)
  case (Cons x xs)
  then show ?thesis
  proof (cases xs)
    case (Cons y ys)
    have "zip (y # ys @ [x]) ((ys @ [x]) @ [y]) = zip (y # ys) (ys @ [x]) @ [(x, y)]"
      using zip_append [of "y # ys" "ys @ [x]" "[x]" "[y]"] by simp
    then show ?thesis using \<open>vs = x # xs\<close> Cons by (simp add: neighbours_def)
  qed (simp add: \<open>vs = x # xs\<close>)
qed (simp add: neighbours_def)

lemma segments_closed: "vs \<noteq> [] \<Longrightarrow> segments (Polyline2D vs True) = neighbours vs"
proof -
  assume "vs \<noteq> []"
  then obtain us u where vs: "vs = us @ [u]" by (metis rev_exhaust)
  have l: "length us = length (tl vs)" by (simp add: vs)
  have "zip (us @ [u]) (tl vs) = zip us (tl vs)" using l by (simp add: zip_append1)
  moreover have "zip (us @ [u]) (tl vs @ [hd vs]) = zip us (tl vs) @ [(u, hd vs)]"
    using zip_append [OF l, of "[u]" "[hd vs]"] by simp
  ultimately show ?thesis by (simp add: segments_def neighbours_def vs Let_def)
qed

lemma shoelace_neighbours: "shoelace vs = sum_list (map (\<lambda>(a, b). px a * py b - px b * py a) (neighbours vs))"
  by (simp add: shoelace_def neighbours_def)

lemma shoelace_rotate1: "shoelace (rotate1 vs) = shoelace vs"
  unfolding shoelace_neighbours by (rule neighbours_sum_rotate1)

lemma perimeter_rotate1:
  "perimeter (Polyline2D (rotate1 vs) True) = perimeter (Polyline2D vs True)"
proof (cases "vs = []")
  case False
  then show ?thesis by (simp add: perimeter_def segments_closed neighbours_sum_rotate1)
qed simp

lemma shoelace_translated: "shoelace (map (\<lambda>p. translated p dx dy) vs) = shoelace vs"
proof (cases vs)
  case (Cons x xs)
  let ?z = "zip (x # xs) (xs @ [x])"
  have "sum_list (map (\<lambda>(a, b). g b - g a) ?z) = 0" for g :: "point2d \<Rightarrow> real"
    using zip_sum_diff [of "x # xs" "xs @ [x]" g] by simp
  from this [of py] this [of px]
  have z: "dx * sum_list (map (\<lambda>(a, b). py b - py a) ?z) - dy * sum_list (map (\<lambda>(a, b). px b - px a) ?z) = 0"
    by simp
  have lin: "sum_list (map (\<lambda>(a, b). (px a + dx) * (py b + dy) - (px b + dx) * (py a + dy)) l) =
      sum_list (map (\<lambda>(a, b). px a * py b - px b * py a) l) +
      (dx * sum_list (map (\<lambda>(a, b). py b - py a) l) - dy * sum_list (map (\<lambda>(a, b). px b - px a) l))" for l
    by (induction l) (auto simp: algebra_simps)
  let ?f = "\<lambda>p. translated p dx dy"
  have "shoelace (map ?f vs) =
      sum_list (map (\<lambda>(a, b). px a * py b - px b * py a) (zip (map ?f (x # xs)) (map ?f (xs @ [x]))))"
    by (simp add: Cons shoelace_def)
  also have "\<dots> = sum_list (map (\<lambda>(a, b). (px a + dx) * (py b + dy) - (px b + dx) * (py a + dy)) ?z)"
    unfolding zip_map_map map_map by (simp add: comp_def case_prod_unfold translated_def)
  finally have "shoelace (map ?f vs) = \<dots>" .
  with lin [of ?z] z show ?thesis by (simp add: Cons shoelace_Cons)
qed (simp add: shoelace_def)

lemma perimeter_translated:
  "perimeter (Polyline2D (map (\<lambda>p. translated p dx dy) vs) c) = perimeter (Polyline2D vs c)"
proof -
  let ?f = "\<lambda>p. translated p dx dy"
  have d: "distance_to (?f a) (?f b) = distance_to a b" for a b
    by (simp add: distance_to_def translated_def)
  have z: "zip (map ?f vs) (tl (map ?f vs)) = map (\<lambda>(a, b). (?f a, ?f b)) (zip vs (tl vs))"
    by (simp add: map_tl [symmetric] zip_map_map)
  show ?thesis
  proof (cases "vs = []")
    case False
    then show ?thesis
      by (simp add: perimeter_def segments_def z d comp_def case_prod_unfold last_map hd_map Let_def)
  qed simp
qed

text \<open>
  Area and perimeter of a closed contour are properties of the contour: they do not depend on
  the vertex the list starts with, and not on where the contour lies in the drawing. A rectangle
  given corner by corner has the area width times height.
\<close>

theorem contour_measures_invariant:
  "area (Polyline2D (rotate1 vs) True) = area (Polyline2D vs True) \<and>
   perimeter (Polyline2D (rotate1 vs) True) = perimeter (Polyline2D vs True) \<and>
   area (Polyline2D (map (\<lambda>p. translated p dx dy) vs) True) = area (Polyline2D vs True) \<and>
   perimeter (Polyline2D (map (\<lambda>p. translated p dx dy) vs) True) = perimeter (Polyline2D vs True) \<and>
   area (Polyline2D [Point2D x y, Point2D (x + \<bar>w\<bar>) y, Point2D (x + \<bar>w\<bar>) (y + \<bar>h\<bar>), Point2D x (y + \<bar>h\<bar>)] True)
     = \<bar>w\<bar> * \<bar>h\<bar>"
proof -
  have "shoelace [Point2D x y, Point2D (x + \<bar>w\<bar>) y, Point2D (x + \<bar>w\<bar>) (y + \<bar>h\<bar>), Point2D x (y + \<bar>h\<bar>)]
      = 2 * (\<bar>w\<bar> * \<bar>h\<bar>)"
    by (simp add: shoelace_def algebra_simps)
  then show ?thesis
    using shoelace_rotate1 [of vs] shoelace_translated [of dx dy vs] perimeter_rotate1 [of vs]
      perimeter_translated [of dx dy vs True]
    by (simp add: area_def signed_area_def abs_mult)
qed

subsection \<open>Containment\<close>

definition rectangle :: "real \<Rightarrow> real \<Rightarrow> real \<Rightarrow> real \<Rightarrow> polyline2d" where
  "rectangle x0 y0 x1 y1 = Polyline2D [Point2D x0 y0, Point2D x1 y0, Point2D x1 y1, Point2D x0 y1] True"

text \<open>
  Point containment agrees with the intended meaning on the outline of a plate: for an
  axis-parallel rectangle a point is contained exactly when it lies on the boundary within the
  coincidence tolerance, or inside the box (the lower and left edge included).
\<close>

theorem contains_point_rectangle:
  assumes "x0 < x1" and "y0 < y1"
  shows "contains_point (rectangle x0 y0 x1 y1) p t \<longleftrightarrow>
    point_on_boundary p (rectangle x0 y0 x1 y1) t \<or>
    (x0 \<le> px p \<and> px p < x1 \<and> y0 \<le> py p \<and> py p < y1)"
proof -
  have "segments (rectangle x0 y0 x1 y1) =
     [(Point2D x0 y0, Point2D x1 y0), (Point2D x1 y0, Point2D x1 y1), (Point2D x1 y1, Point2D x0 y1),
      (Point2D x0 y1, Point2D x0 y0)]"
    by (simp add: rectangle_def segments_def)
  then show ?thesis
    using assms by (auto simp: contains_point_def crosses_right_def)
qed

theorem contains_point_rectangle_witness:
  "contains_point (rectangle 0 0 100 50) (Point2D 99 1) (default_tolerance [] [])"
  using contains_point_rectangle [of 0 100 0 50 "Point2D 99 1" "default_tolerance [] []"] by simp

text \<open>
  Rotation about any pivot is an isometry, so every pattern that a compiler lays out by
  rotating a hole keeps the hole distances; and two holes of a pattern are judged too close
  the same way in either order.
\<close>

theorem rotation_isometry:
  "distance_to (rotated p a about) (rotated q a about) = distance_to p q \<and>
   circles_overlap p d1 q d2 m = circles_overlap q d2 p d1 m"
  by (simp add: rotated_distance circles_overlap_def distance_to_sym [of p q] add.commute)

end
