(* ===== verification/AdapterModel.thy ===== *)
theory AdapterModel
  imports Geometry
begin

section \<open>The adapter port, adapter base class and writer compatibility\<close>

text \<open>
  Models \<open>domain/ports/autocad_adapter.py\<close>, the shared scaffolding of \<open>adapters/base.py\<close> and
  the fail-closed writer policy of \<open>compatibility.py\<close>. The port is the record \<open>adapter\<close>: the
  class attributes and one program per method over the adapter's own state \<open>'a\<close>. The YAML file
  of the matrix is an input; its validated contents are the record \<open>compatibility_matrix\<close>.
\<close>

subsection \<open>Capabilities and status\<close>

datatype adapter_capability =
    INSPECT_DOCUMENT | INSPECT_SELECTION | PREVIEW | COMMIT | EXPORT | ATOMIC_TRANSACTION
  | DOCUMENT_LOCK | UNDO_GROUP | STABLE_METADATA | ROLLBACK_UNDO_GROUP | CHECKPOINT_RESTORE
  | IN_VIEWPORT_PREVIEW

definition capability_value :: "adapter_capability \<Rightarrow> string" where
  "capability_value c = (case c of
     INSPECT_DOCUMENT \<Rightarrow> ''inspect_document'' | INSPECT_SELECTION \<Rightarrow> ''inspect_selection''
   | PREVIEW \<Rightarrow> ''preview'' | COMMIT \<Rightarrow> ''commit'' | EXPORT \<Rightarrow> ''export''
   | ATOMIC_TRANSACTION \<Rightarrow> ''atomic_transaction'' | DOCUMENT_LOCK \<Rightarrow> ''document_lock''
   | UNDO_GROUP \<Rightarrow> ''undo_group'' | STABLE_METADATA \<Rightarrow> ''stable_metadata''
   | ROLLBACK_UNDO_GROUP \<Rightarrow> ''rollback_undo_group'' | CHECKPOINT_RESTORE \<Rightarrow> ''checkpoint_restore''
   | IN_VIEWPORT_PREVIEW \<Rightarrow> ''in_viewport_preview'')"

record adapter_status =
  sa_adapter_type :: string
  sa_available :: bool
  sa_capabilities :: "adapter_capability list"
  sa_cad_version :: "string option"
  sa_version_supported :: "bool option"
  sa_active_document_id :: "string option"

definition require_capability ::
  "string \<Rightarrow> adapter_capability list \<Rightarrow> adapter_capability \<Rightarrow> unit res" where
  "require_capability adapter_type capabilities c =
     (if c \<notin> set capabilities
      then Inl (Err AdapterCapabilityMissingError
             (''Adapter '' @ quoted adapter_type @ '' does not support '' @ quoted (capability_value c)))
      else Inr ())"

definition unsupported_operations :: "operation_type list \<Rightarrow> operation_plan \<Rightarrow> operation_type list" where
  "unsupported_operations supported plan =
     sort_key operation_type_value
       (filter (\<lambda>t. t \<notin> set supported) (remdups (map op_type (pl_operations plan))))"

text \<open>\<open>ENTITY_TYPE_BY_OPERATION.get(operation.type, "AcDbEntity")\<close>.\<close>

definition entity_type_for :: "operation_type \<Rightarrow> string" where
  "entity_type_for t = (case t of
     CREATE_LINE \<Rightarrow> ''AcDbLine'' | CREATE_POLYLINE \<Rightarrow> ''AcDbPolyline''
   | CREATE_CLOSED_POLYLINE \<Rightarrow> ''AcDbPolyline'' | CREATE_CIRCLE \<Rightarrow> ''AcDbCircle''
   | CREATE_CIRCLES \<Rightarrow> ''AcDbCircle'' | CREATE_ARC \<Rightarrow> ''AcDbArc'' | CREATE_TEXT \<Rightarrow> ''AcDbText''
   | CREATE_CENTERLINE \<Rightarrow> ''AcDbLine'' | CREATE_CENTERMARK \<Rightarrow> ''AcDbPoint''
   | CREATE_LINEAR_DIMENSION \<Rightarrow> ''AcDbRotatedDimension''
   | CREATE_ALIGNED_DIMENSION \<Rightarrow> ''AcDbAlignedDimension''
   | CREATE_DIAMETER_DIMENSION \<Rightarrow> ''AcDbDiametricDimension''
   | CREATE_RADIUS_DIMENSION \<Rightarrow> ''AcDbRadialDimension''
   | CREATE_ANGULAR_DIMENSION \<Rightarrow> ''AcDb2LineAngularDimension''
   | CREATE_HATCH \<Rightarrow> ''AcDbHatch'' | _ \<Rightarrow> ''AcDbEntity'')"

definition revision_from :: "(string \<Rightarrow> string) \<Rightarrow> string \<Rightarrow> pyval list \<Rightarrow> string res" where
  "revision_from sha doc parts =
     sha256_of sha (PDict [(''document_id'', PStr doc), (''parts'', PList parts)])"

subsection \<open>The port\<close>

record 'a adapter =
  ad_type :: string
  ad_supported_operations :: "operation_type list"
  ad_allows_expired_checkpoint_recovery :: bool
  ad_status :: "'a \<Rightarrow> adapter_status"
  ad_inspect_document :: "string option \<Rightarrow> (exc, 'a, document_snapshot) prog"
  ad_validate_revision :: "string \<Rightarrow> string \<Rightarrow> (exc, 'a, bool) prog"
  ad_commit :: "commit_request \<Rightarrow> (exc, 'a, commit_result) prog"
  ad_rollback :: "rollback_request \<Rightarrow> (exc, 'a, rollback_result) prog"
  ad_export :: "export_request \<Rightarrow> (exc, 'a, export_result) prog"

subsection \<open>Writer compatibility\<close>

datatype compatibility_policy = POLICY_TARGET | POLICY_PROVISIONAL

datatype verification_status = VERIFICATION_PLANNED | VERIFICATION_PROVISIONAL | VERIFICATION_VERIFIED

record compatibility_target =
  ct_autocad_release :: int
  ct_com_version_prefix :: string
  ct_dotnet_runtime :: string
  ct_policy :: compatibility_policy
  ct_verification_status :: verification_status

record compatibility_matrix =
  cm_bridge_bundle_version :: string
  cm_targets :: "compatibility_target list"

definition is_digit :: "char \<Rightarrow> bool" where
  "is_digit c \<longleftrightarrow> (let n = (of_char c :: nat) in 48 \<le> n \<and> n \<le> 57)"

definition is_letter :: "char \<Rightarrow> bool" where
  "is_letter c \<longleftrightarrow> (let n = (of_char (lower_char c) :: nat) in 97 \<le> n \<and> n \<le> 122)"

text \<open>
  The anchored pattern of a COM version, matched as a whole and without regard to case: an
  optional product name with white space, two digits, a dot and a digit, an optional letter, an
  optional white space with a label in parentheses. No alternative overlaps another, so the
  match is a left-to-right scan.
\<close>

definition drop_product :: "string \<Rightarrow> string" where
  "drop_product s =
     (if lower (take 7 s) = ''autocad'' \<and> drop 7 s \<noteq> [] \<and> is_space (hd (drop 7 s))
      then dropWhile is_space (drop 7 s) else s)"

definition is_label :: "string \<Rightarrow> bool" where
  "is_label s =
     (s = [] \<or>
      (is_space (hd s) \<and>
       (case dropWhile is_space s of
          [] \<Rightarrow> False
        | c # cs \<Rightarrow> c = CHR ''('' \<and> 2 \<le> length cs \<and> last cs = CHR '')'' \<and>
            list_all (\<lambda>x. x \<notin> {CHR ''('', CHR '')'', CHR 0x0D, CHR 0x0A}) (butlast cs))))"

definition match_version :: "string \<Rightarrow> string option" where
  "match_version s =
     (case drop_product s of
        a # b # c # d # rest \<Rightarrow>
          if is_digit a \<and> is_digit b \<and> c = CHR ''.'' \<and> is_digit d \<and>
             is_label (if rest \<noteq> [] \<and> is_letter (hd rest) then tl rest else rest)
          then Some [a, b, c, d] else None
      | _ \<Rightarrow> None)"

definition normalize_autocad_version :: "string option \<Rightarrow> string option" where
  "normalize_autocad_version detected =
     (case detected of None \<Rightarrow> None | Some s \<Rightarrow> match_version (strip s))"

definition writer_supported :: "compatibility_target \<Rightarrow> bool" where
  "writer_supported t \<longleftrightarrow> ct_policy t = POLICY_TARGET"

text \<open>The two validators that a loaded matrix has passed.\<close>

definition valid_matrix :: "compatibility_matrix \<Rightarrow> bool" where
  "valid_matrix m \<longleftrightarrow> cm_targets m \<noteq> [] \<and>
     list_all (\<lambda>t. normalize_autocad_version (Some (ct_com_version_prefix t)) = Some (ct_com_version_prefix t))
       (cm_targets m) \<and>
     distinct (map ct_autocad_release (cm_targets m)) \<and> distinct (map ct_com_version_prefix (cm_targets m))"

definition target_for_version :: "compatibility_matrix \<Rightarrow> string option \<Rightarrow> compatibility_target option" where
  "target_for_version m detected =
     (case normalize_autocad_version detected of
        None \<Rightarrow> None
      | Some v \<Rightarrow> find (\<lambda>t. ct_com_version_prefix t = v) (cm_targets m))"

definition is_writer_supported :: "compatibility_matrix \<Rightarrow> string option \<Rightarrow> bool" where
  "is_writer_supported m detected =
     (case target_for_version m detected of None \<Rightarrow> False | Some t \<Rightarrow> writer_supported t)"

definition evaluate_status :: "compatibility_matrix \<Rightarrow> adapter_status \<Rightarrow> adapter_status" where
  "evaluate_status m s =
     s\<lparr>sa_version_supported :=
         (case sa_cad_version s of None \<Rightarrow> None | Some v \<Rightarrow> Some (is_writer_supported m (Some v)))\<rparr>"

definition require_writer_compatible ::
  "compatibility_matrix \<Rightarrow> string option \<Rightarrow> compatibility_target res" where
  "require_writer_compatible m detected =
     (case target_for_version m detected of
        Some t \<Rightarrow> if writer_supported t then Inr t
                  else Inl (Err AdapterCapabilityMissingError
                    ''The detected AutoCAD version is not supported by the writer bridge'')
      | None \<Rightarrow> Inl (Err AdapterCapabilityMissingError
                    ''The detected AutoCAD version is not supported by the writer bridge''))"

subsection \<open>Properties\<close>

lemma match_version_form:
  "match_version s = Some v \<Longrightarrow>
   \<exists>a b d rest. v = [a, b, CHR ''.'', d] \<and> drop_product s = v @ rest \<and> is_digit a \<and> is_digit b \<and> is_digit d \<and>
     is_label (if rest \<noteq> [] \<and> is_letter (hd rest) then tl rest else rest)"
  by (auto simp: match_version_def split: list.splits if_splits)


definition demo_matrix :: compatibility_matrix where
  "demo_matrix =
     \<lparr>cm_bridge_bundle_version = ''1.0'',
      cm_targets = [\<lparr>ct_autocad_release = 2021, ct_com_version_prefix = ''24.0'',
          ct_dotnet_runtime = ''net48'', ct_policy = POLICY_PROVISIONAL,
          ct_verification_status = VERIFICATION_PLANNED\<rparr>,
        \<lparr>ct_autocad_release = 2024, ct_com_version_prefix = ''24.3'', ct_dotnet_runtime = ''net48'',
          ct_policy = POLICY_TARGET, ct_verification_status = VERIFICATION_VERIFIED\<rparr>]\<rparr>"

lemma demo_versions:
  "normalize_autocad_version (Some ''24.3s (LMS Tech)'') = Some ''24.3''"
  "normalize_autocad_version (Some ''AutoCAD 25.0'') = Some ''25.0''"
  "normalize_autocad_version (Some ''not 24.3'') = None"
  "normalize_autocad_version (Some ''24.3 (x) 25.0'') = None"
  by code_simp+


end
