(* ===== verification/SemanticDiff.thy ===== *)
theory SemanticDiff
  imports AdapterModel
begin

section \<open>The semantic diff\<close>

text \<open>
  Models \<open>diff/semantic_diff.py\<close>: what an engineer reads before approving. \<open>py_format\<close> is
  the text an f-string gives a value; nested containers are printed with their elements'
  \<open>repr\<close>, and a string's quotes are taken as it has none itself.
\<close>

fun py_repr :: "pyval \<Rightarrow> string" where
  "py_repr PNone = ''None''"
| "py_repr (PBool b) = (if b then ''True'' else ''False'')"
| "py_repr (PInt i) = show_int i"
| "py_repr (PFloat (Fin r)) = float_repr r"
| "py_repr (PFloat NotANumber) = ''nan''"
| "py_repr (PFloat PosInf) = ''inf''"
| "py_repr (PFloat NegInf) = ''-inf''"
| "py_repr (PStr s) = quoted s"
| "py_repr (PList xs) = ''['' @ join '', '' (map py_repr xs) @ '']''"
| "py_repr (PDict d) =
     ''{'' @ join '', '' (map (\<lambda>p. quoted (fst p) @ '': '' @ py_repr (snd p)) d) @ ''}''"

definition py_format :: "pyval \<Rightarrow> string" where
  "py_format v = (case v of PStr s \<Rightarrow> s | _ \<Rightarrow> py_repr v)"

text \<open>\<open>len\<close>; a string counts its code points.\<close>

definition py_length :: "pyval \<Rightarrow> nat res" where
  "py_length v = (case v of PList xs \<Rightarrow> Inr (length xs) | PDict d \<Rightarrow> Inr (length d)
     | PStr s \<Rightarrow> Inr (py_len s) | _ \<Rightarrow> Inl (TypeError ''object has no len()''))"

datatype diff_change = CHANGE_ADDED | CHANGE_MODIFIED | CHANGE_DELETED

definition change_value :: "diff_change \<Rightarrow> string" where
  "change_value c =
     (case c of CHANGE_ADDED \<Rightarrow> ''added'' | CHANGE_MODIFIED \<Rightarrow> ''modified'' | CHANGE_DELETED \<Rightarrow> ''deleted'')"

record diff_entry =
  de_change :: diff_change
  de_feature_id :: string
  de_operation_id :: string
  de_entity_type :: string
  de_layer :: string
  de_summary :: string
  de_target_entity_ref :: "string option"
  de_measurements :: pydict

record semantic_diff =
  sd_plan_hash :: string
  sd_document_id :: string
  sd_from_revision :: string
  sd_entries :: "diff_entry list"

definition change_count :: "diff_change \<Rightarrow> semantic_diff \<Rightarrow> nat" where
  "change_count c d = length (filter (\<lambda>e. de_change e = c) (sd_entries d))"

definition diff_entry_dict :: "diff_entry \<Rightarrow> pyval" where
  "diff_entry_dict e = PDict
     [(''change'', PStr (change_value (de_change e))), (''feature_id'', PStr (de_feature_id e)),
      (''operation_id'', PStr (de_operation_id e)), (''entity_type'', PStr (de_entity_type e)),
      (''layer'', PStr (de_layer e)), (''summary'', PStr (de_summary e)),
      (''target_entity_ref'', opt_str (de_target_entity_ref e)),
      (''measurements'', PDict (de_measurements e))]"

definition diff_to_dict :: "semantic_diff \<Rightarrow> pydict" where
  "diff_to_dict d =
     [(''plan_hash'', PStr (sd_plan_hash d)), (''document_id'', PStr (sd_document_id d)),
      (''from_revision'', PStr (sd_from_revision d)),
      (''summary'', PDict
        [(''added'', PInt (int (change_count CHANGE_ADDED d))),
         (''modified'', PInt (int (change_count CHANGE_MODIFIED d))),
         (''deleted'', PInt (int (change_count CHANGE_DELETED d)))]),
      (''entries'', PList (map diff_entry_dict (sd_entries d)))]"

definition is_create_type :: "operation_type \<Rightarrow> bool" where
  "is_create_type t = (t \<notin> {UPDATE_ENTITY, DELETE_ENTITY})"

text \<open>\<open>value.replace("_", " ").capitalize()\<close>.\<close>

definition upper_char :: "char \<Rightarrow> char" where
  "upper_char c = (let n = (of_char c :: nat) in if 97 \<le> n \<and> n \<le> 122 then char_of (n - 32) else c)"

definition capitalize :: "string \<Rightarrow> string" where
  "capitalize s = (case s of [] \<Rightarrow> [] | c # cs \<Rightarrow> upper_char c # lower cs)"

definition summarize :: "operation_type \<Rightarrow> pydict \<Rightarrow> string res" where
  "summarize t geometry =
     (let get = (\<lambda>k v. case map_of geometry k of None \<Rightarrow> v | Some w \<Rightarrow> w) in
      if t = CREATE_CIRCLES then
        bindR (py_length (get ''centers_mm'' (PList []))) (\<lambda>n.
          Inr (show_nat n @ '' hole(s) of diameter '' @ py_format (get ''diameter_mm'' PNone) @ '' mm''))
      else if t \<in> {CREATE_CLOSED_POLYLINE, CREATE_POLYLINE} then
        bindR (py_length (get ''vertices_mm'' (PList []))) (\<lambda>n.
          Inr ((if t = CREATE_CLOSED_POLYLINE then ''Closed'' else ''Open'') @ '' polyline with '' @
               show_nat n @ '' vertices''))
      else if t = CREATE_CENTERMARK then Inr ''Centermark''
      else Inr (capitalize (map (\<lambda>c. if c = CHR ''_'' then CHR '' '' else c) (operation_type_value t))))"

definition diff_entry_of :: "operation \<Rightarrow> diff_entry res" where
  "diff_entry_of o' = bindR (summarize (op_type o') (op_geometry o')) (\<lambda>text.
     Inr \<lparr>de_change = (if is_create_type (op_type o') then CHANGE_ADDED
                       else if op_type o' = DELETE_ENTITY then CHANGE_DELETED else CHANGE_MODIFIED),
          de_feature_id = op_feature_id o', de_operation_id = op_id o',
          de_entity_type = entity_type_for (op_type o'), de_layer = op_layer o', de_summary = text,
          de_target_entity_ref = op_target_entity_ref o', de_measurements = op_expected o'\<rparr>)"

text \<open>\<open>plan.plan_hash or plan.compute_hash()\<close>.\<close>

definition hash_or_compute :: "(string \<Rightarrow> string) \<Rightarrow> operation_plan \<Rightarrow> string res" where
  "hash_or_compute sha plan =
     (case pl_plan_hash plan of None \<Rightarrow> compute_hash sha plan
      | Some h \<Rightarrow> if h = [] then compute_hash sha plan else Inr h)"

definition build_semantic_diff ::
  "(string \<Rightarrow> string) \<Rightarrow> operation_plan \<Rightarrow> document_snapshot \<Rightarrow> semantic_diff res" where
  "build_semantic_diff sha plan snapshot =
     bindR (hash_or_compute sha plan) (\<lambda>h.
     bindR (traverse diff_entry_of (pl_operations plan)) (\<lambda>es.
       Inr \<lparr>sd_plan_hash = h, sd_document_id = ds_document_id snapshot,
            sd_from_revision = ds_revision snapshot, sd_entries = es\<rparr>))"

subsection \<open>Properties\<close>

lemma diff_entry_fields:
  "diff_entry_of o' = Inr e \<Longrightarrow>
     de_operation_id e = op_id o' \<and> de_layer e = op_layer o' \<and>
     de_target_entity_ref e = op_target_entity_ref o' \<and>
     de_change e = (if is_create_type (op_type o') then CHANGE_ADDED
       else if op_type o' = DELETE_ENTITY then CHANGE_DELETED else CHANGE_MODIFIED)"
  by (auto simp: diff_entry_of_def bindR_Inr_iff)

lemma change_partition:
  "length (filter (\<lambda>e. de_change e = CHANGE_ADDED) es) + length (filter (\<lambda>e. de_change e = CHANGE_MODIFIED) es) +
   length (filter (\<lambda>e. de_change e = CHANGE_DELETED) es) = length es"
proof (induction es)
  case (Cons e es)
  then show ?case by (cases "de_change e") simp_all
qed simp

text \<open>
  C33: The diff an engineer reads is complete: it has exactly one entry for each operation of the
  plan, in the plan's order, classified by what the operation does to the drawing, with the
  operation's own layer and target, and its three counts add up to the number of operations. It carries
  the hash of the plan that the approval will be bound to.
\<close>

theorem semantic_diff_complete:
  assumes "build_semantic_diff sha plan snapshot = Inr d" and "pl_plan_hash plan = Some h" and "h \<noteq> []"
  shows "map de_operation_id (sd_entries d) = map op_id (pl_operations plan) \<and>
    map de_layer (sd_entries d) = map op_layer (pl_operations plan) \<and>
    map de_target_entity_ref (sd_entries d) = map op_target_entity_ref (pl_operations plan) \<and>
    map (\<lambda>e. de_change e = CHANGE_DELETED) (sd_entries d) =
      map (\<lambda>o'. op_type o' = DELETE_ENTITY) (pl_operations plan) \<and>
    map (\<lambda>e. de_change e = CHANGE_MODIFIED) (sd_entries d) =
      map (\<lambda>o'. op_type o' = UPDATE_ENTITY) (pl_operations plan) \<and>
    change_count CHANGE_ADDED d + change_count CHANGE_MODIFIED d + change_count CHANGE_DELETED d =
      length (pl_operations plan) \<and>
    sd_plan_hash d = h \<and> sd_from_revision d = ds_revision snapshot"
proof -
  from assms obtain es where es: "traverse diff_entry_of (pl_operations plan) = Inr es"
    and d: "sd_entries d = es" "sd_plan_hash d = h" "sd_from_revision d = ds_revision snapshot"
    by (auto simp: build_semantic_diff_def bindR_Inr_iff hash_or_compute_def)
  from es have all: "list_all2 (\<lambda>o' e. diff_entry_of o' = Inr e) (pl_operations plan) es"
    by (simp add: traverse_Inr_iff)
  have m: "map f es = map g (pl_operations plan)"
    if "\<And>o' e. diff_entry_of o' = Inr e \<Longrightarrow> f e = g o'" for f :: "diff_entry \<Rightarrow> 'x" and g
    using all by (induction rule: list_all2_induct) (simp_all add: that)
  have "change_count CHANGE_ADDED d + change_count CHANGE_MODIFIED d + change_count CHANGE_DELETED d =
      length (pl_operations plan)"
    using change_partition [of es] list_all2_lengthD [OF all] by (simp add: change_count_def d)
  moreover have "map de_operation_id es = map op_id (pl_operations plan)"
    "map de_layer es = map op_layer (pl_operations plan)"
    "map de_target_entity_ref es = map op_target_entity_ref (pl_operations plan)"
    by (rule m; drule diff_entry_fields; blast)+
  moreover have "map (\<lambda>e. de_change e = CHANGE_DELETED) es =
      map (\<lambda>o'. op_type o' = DELETE_ENTITY) (pl_operations plan)"
    by (rule m, drule diff_entry_fields) (auto simp: is_create_type_def)
  moreover have "map (\<lambda>e. de_change e = CHANGE_MODIFIED) es =
      map (\<lambda>o'. op_type o' = UPDATE_ENTITY) (pl_operations plan)"
    by (rule m, drule diff_entry_fields) (auto simp: is_create_type_def)
  ultimately show ?thesis unfolding d by blast
qed

definition demo_delete :: operation where
  "demo_delete = \<lparr>op_id = ''op_9'', op_feature_id = ''f9'', op_type = DELETE_ENTITY, op_layer = ''0'',
     op_geometry = [], op_expected = [], op_target_entity_ref = Some ''h1''\<rparr>"

definition demo_snapshot :: document_snapshot where
  "demo_snapshot = \<lparr>ds_document_id = ''doc_1'', ds_revision = ''r1'', ds_path_hash = ''p'',
     ds_display_name = ''a.dwg'', ds_units = Some MM, ds_layers = [], ds_dimension_styles = [],
     ds_text_styles = [], ds_entity_count = 1\<rparr>"

theorem semantic_diff_complete_witness:
  "\<exists>d. build_semantic_diff (\<lambda>s. s) (demo_plan\<lparr>pl_operations := [demo_delete], pl_plan_hash := Some ''h''\<rparr>)
     demo_snapshot = Inr d \<and> map de_operation_id (sd_entries d) = [''op_9'']"
proof -
  obtain d where d: "build_semantic_diff (\<lambda>s. s)
      (demo_plan\<lparr>pl_operations := [demo_delete], pl_plan_hash := Some ''h''\<rparr>) demo_snapshot = Inr d"
    by (simp add: build_semantic_diff_def hash_or_compute_def diff_entry_of_def summarize_def demo_delete_def)
  from semantic_diff_complete [OF d] d show ?thesis by (simp add: demo_delete_def)
qed

end
