(* ===== verification/HarnessModel.thy ===== *)
theory HarnessModel
  imports LeaseService StoreModel AdapterModel SemanticDiff
begin

section \<open>The harness service: its state, its environment and its internals\<close>

text \<open>
  Models the state and the helpers of \<open>application/services/harness_service.py\<close>. The world is what a
  call can change: the stores, the audit trail, the lease table, the adapter's own state \<open>'a\<close>, the
  process-local caches of the service, the lease handle of the \<open>with\<close> block that is open, and how
  many clock readings, fresh identifiers and heartbeat batches were used. The environment holds what
  a call only reads: the configured collaborators, settings and secret. Parameters of the environment
  that are not definitions of this development: the pydantic parsing of a specification, the
  specification compiler, the drawing reader and the comprehension services over its model \<open>'m\<close>, the preview
  renderer and the resolution of an export path. Metrics and retention cleanup do not influence a
  call and are left out; so are the \<open>required_action\<close> and \<open>details\<close> of an error.
\<close>

record durable_recovery =
  dv_job_id :: string
  dv_document_id :: string
  dv_checkpoint_id :: string
  dv_current_revision :: string
  dv_approval_token_digest :: string

definition recovery_matches_scope ::
  "durable_recovery \<Rightarrow> string \<Rightarrow> string \<Rightarrow> string \<Rightarrow> string \<Rightarrow> bool" where
  "recovery_matches_scope r jid doc cp revn \<longleftrightarrow>
     dv_job_id r = jid \<and> dv_document_id r = doc \<and> dv_checkpoint_id r = cp \<and>
     dv_current_revision r = revn"

record 'a world =
  w_store :: job_store
  w_audit :: "audit_event list"
  w_leases :: lease_table
  w_adapter :: 'a
  w_snapshots :: "(string \<times> document_snapshot) list"
  w_undo :: "(string \<times> (string \<times> string)) list"
  w_recoveries :: "(string \<times> durable_recovery) list"
  w_remediation_jobs :: "(string \<times> remediation_result) list"
  w_drawing_audits :: "drawing_audit_store option"
  w_handle :: "lease_handle option"
  w_ticks :: nat
  w_fresh :: nat
  w_beats :: nat

record ('a, 'm) harness_env =
  hs_adapter :: "'a adapter"
  hs_rules :: "validation_rule list"
  hs_profile :: company_profile
  hs_lease :: lease_service
  hs_secret :: string
  hs_require_approval :: bool
  hs_approval_ttl :: timedelta
  hs_rollback_ttl :: timedelta
  hs_matrix :: compatibility_matrix
  hs_sha :: "string \<Rightarrow> string"
  hs_hmac :: "string \<Rightarrow> string \<Rightarrow> string"
  hs_parse_dt :: "string \<Rightarrow> time option"
  hs_parse_spec :: "pydict \<Rightarrow> drawing_spec res"
  hs_compile :: "drawing_spec \<Rightarrow> string \<Rightarrow> string \<Rightarrow> string \<Rightarrow> compilation_result res"
  hs_reader :: "(string \<Rightarrow> 'a \<Rightarrow> 'm res) option"
  hs_model_revision :: "'m \<Rightarrow> string"
  hs_remediate :: "string \<Rightarrow> 'm \<Rightarrow> string \<Rightarrow> finding_ref list \<Rightarrow> pydict \<Rightarrow> drawing_audit_store \<Rightarrow>
    string \<Rightarrow> remediation_result res"
  hs_audit_drawing :: "'m \<Rightarrow> string \<Rightarrow> (string \<times> string) list \<Rightarrow> validation_report res"
  hs_render :: "operation_plan \<Rightarrow> preview_artifact list res"
  hs_export_path :: "string \<Rightarrow> bool \<Rightarrow> string res"
  hs_clock :: "nat \<Rightarrow> time"
  hs_ids :: "nat \<Rightarrow> string"
  hs_heartbeats :: "nat \<Rightarrow> time list"

type_synonym ('a, 'b) call = "(exc, 'a world, 'b) prog"

subsection \<open>Access to the parts of the world\<close>

definition zoomP :: "('w \<Rightarrow> 's) \<Rightarrow> ('s \<Rightarrow> 'w \<Rightarrow> 'w) \<Rightarrow> ('e, 's, 'b) prog \<Rightarrow> ('e, 'w, 'b) prog" where
  "zoomP get put m w = (case m (get w) of (r, s) \<Rightarrow> (r, put s w))"

definition storeP :: "(exc, job_store, 'b) prog \<Rightarrow> ('a, 'b) call" where
  "storeP = zoomP w_store (\<lambda>s w. w\<lparr>w_store := s\<rparr>)"

definition store_put :: "(job_store \<Rightarrow> job_store) \<Rightarrow> ('a, unit) call" where
  "store_put f = modP (\<lambda>w. w\<lparr>w_store := f (w_store w)\<rparr>)"

definition adapterP :: "(exc, 'a, 'b) prog \<Rightarrow> ('a, 'b) call" where
  "adapterP = zoomP w_adapter (\<lambda>s w. w\<lparr>w_adapter := s\<rparr>)"

definition leasesP :: "(exc, lease_table, 'b) prog \<Rightarrow> ('a, 'b) call" where
  "leasesP = zoomP w_leases (\<lambda>s w. w\<lparr>w_leases := s\<rparr>)"

text \<open>\<open>datetime.now(UTC)\<close> and \<open>new_id(prefix)\<close>: the next element of a stream.\<close>

definition clockP :: "('a, 'm) harness_env \<Rightarrow> ('a, time) call" where
  "clockP env w = (Inr (hs_clock env (w_ticks w)), w\<lparr>w_ticks := Suc (w_ticks w)\<rparr>)"

definition freshP :: "('a, 'm) harness_env \<Rightarrow> ('a, string) call" where
  "freshP env w = (Inr (hs_ids env (w_fresh w)), w\<lparr>w_fresh := Suc (w_fresh w)\<rparr>)"

definition new_idP :: "('a, 'm) harness_env \<Rightarrow> string \<Rightarrow> ('a, string) call" where
  "new_idP env pre = bindP (freshP env) (\<lambda>x. retP (pre @ ''_'' @ x))"

definition logP ::
  "('a, 'm) harness_env \<Rightarrow> audit_event_type \<Rightarrow> string option \<Rightarrow> string \<Rightarrow> string \<Rightarrow> pydict \<Rightarrow>
   ('a, unit) call" where
  "logP env etype jid actor_type actor payload =
     bindP (clockP env) (\<lambda>now.
     bindP (new_idP env ''evt'') (\<lambda>eid.
     thenP (zoomP w_audit (\<lambda>es w. w\<lparr>w_audit := es\<rparr>)
       (audit_append (hs_sha env) eid now (audit_event_value etype) jid actor_type actor payload))
     (retP ())))"

definition transitionP ::
  "('a, 'm) harness_env \<Rightarrow> cad_job \<Rightarrow> job_state \<Rightarrow> (cad_job \<Rightarrow> cad_job) \<Rightarrow> ('a, cad_job) call" where
  "transitionP env job target updates =
     bindP (clockP env) (\<lambda>now. liftP (transition_to job target updates now))"

definition assertP :: "bool \<Rightarrow> ('a, unit) call" where
  "assertP b = failIf (\<not> b) AssertionError"

definition env_tolerance :: "('a, 'm) harness_env \<Rightarrow> tolerance_profile" where
  "env_tolerance env = profile_tolerance (hs_profile env)"

text \<open>
  \<open>LeaseService.hold\<close>: acquire, run the block, and release in the \<open>finally\<close> clause unless the
  store already did. \<open>beatP\<close> is the work of the heartbeat thread since the handle was looked at
  last; it matters only where the handle or the lease is read, so it runs there.
\<close>

definition beatP :: "('a, 'm) harness_env \<Rightarrow> ('a, unit) call" where
  "beatP env = modP (\<lambda>w.
     case w_handle w of None \<Rightarrow> w
     | Some h \<Rightarrow>
         (case heartbeat_run renew (ls_ttl (hs_lease env)) (hs_heartbeats env (w_beats w)) (w_leases w, h) of
            (leases, h') \<Rightarrow> w\<lparr>w_leases := leases, w_handle := Some h', w_beats := Suc (w_beats w)\<rparr>))"

definition drop_lease :: "('a, 'm) harness_env \<Rightarrow> 'a world \<Rightarrow> 'a world" where
  "drop_lease env w =
     (case w_handle w of None \<Rightarrow> w
      | Some h \<Rightarrow>
          if lh_released h then w\<lparr>w_handle := None\<rparr>
          else w\<lparr>w_handle := None, w_leases := release_table (w_leases w) (wl_lease_id (lh_lease h)),
                 w_ticks := Suc (w_ticks w)\<rparr>)"

definition holdP :: "('a, 'm) harness_env \<Rightarrow> string \<Rightarrow> string \<Rightarrow> ('a, 'b) call \<Rightarrow> ('a, 'b) call" where
  "holdP env doc owner body =
     bindP (clockP env) (\<lambda>now.
     bindP (freshP env) (\<lambda>f.
     bindP (leasesP (try_acquire doc owner (ls_ttl (hs_lease env)) now f)) (\<lambda>l.
     thenP (modP (\<lambda>w. w\<lparr>w_handle := Some (new_handle l)\<rparr>))
       (finallyP body (drop_lease env)))))"

definition handle_valid :: "time \<Rightarrow> 'a world \<Rightarrow> bool" where
  "handle_valid now w = (case w_handle w of None \<Rightarrow> False | Some h \<Rightarrow> is_valid_at h now)"

definition mark_if :: "bool \<Rightarrow> ('a, unit) call" where
  "mark_if released = modP (\<lambda>w. if released then w\<lparr>w_handle := map_option mark_released (w_handle w)\<rparr> else w)"

subsection \<open>Internals of the service\<close>

definition require_job :: "string \<Rightarrow> ('a, cad_job) call" where
  "require_job jid = bindP (getP (\<lambda>w. get_job (w_store w) jid)) (\<lambda>j.
     case j of None \<Rightarrow> raiseP (Err DocumentNotFoundError (''Unknown job '' @ quoted jid))
     | Some job \<Rightarrow> retP job)"

definition require_current_plan_schema :: "operation_plan \<Rightarrow> unit res" where
  "require_current_plan_schema plan =
     (if pl_schema_version plan \<noteq> SCHEMA_VERSION
      then Inl (Err UnsupportedSchemaVersionError ''The stored plan uses an obsolete schema version'')
      else Inr ())"

text \<open>The condition of \<open>_require_plan\<close>; \<open>verify_hash\<close> may raise.\<close>

definition plan_is_bound ::
  "('a, 'm) harness_env \<Rightarrow> string \<Rightarrow> operation_plan \<Rightarrow> cad_job \<Rightarrow> bool res" where
  "plan_is_bound env jid plan job =
     (case pl_plan_hash plan of
        None \<Rightarrow> Inr False
      | Some h \<Rightarrow> bindR (verify_hash (hs_sha env) plan h) (\<lambda>same.
          Inr (same \<and> pl_job_id plan = jid \<and> Some (pl_plan_id plan) = cj_plan_id job \<and>
               Some h = cj_plan_hash job \<and> pl_document_id plan = cj_document_id job \<and>
               (cj_state job \<in> {PLANNED, PREVIEWED, VALIDATED, APPROVED, COMMITTING} \<longrightarrow>
                  pl_expected_revision plan = cj_expected_revision job) \<and>
               pl_profile_ref plan = as_ref (hs_profile env))))"

definition require_plan :: "('a, 'm) harness_env \<Rightarrow> string \<Rightarrow> ('a, operation_plan) call" where
  "require_plan env jid = bindP (getP (\<lambda>w. get_plan (w_store w) jid)) (\<lambda>p.
     case p of None \<Rightarrow> raiseP (Err ApprovalRequiredError ''No compiled plan for this job'')
     | Some plan \<Rightarrow>
         thenP (liftP (require_current_plan_schema plan))
         (bindP (require_job jid) (\<lambda>job.
          bindP (liftP (plan_is_bound env jid plan job)) (\<lambda>ok.
          if ok then retP plan
          else raiseP (Err PlanHashMismatchError
            ''The stored plan body or job binding does not match its immutable plan hash'')))))"

definition validation_matches_plan :: "validation_report \<Rightarrow> operation_plan \<Rightarrow> string \<Rightarrow> bool" where
  "validation_matches_plan report plan jid \<longleftrightarrow>
     vr_schema_version report = SCHEMA_VERSION \<and> vr_job_id report = jid \<and>
     vr_stage report = PRE_COMMIT \<and> vr_plan_hash report = pl_plan_hash plan \<and>
     vr_profile_ref report = Some (pl_profile_ref plan)"

definition validation_decision_digest :: "(string \<Rightarrow> string) \<Rightarrow> validation_report \<Rightarrow> string res" where
  "validation_decision_digest sha report =
     sha256_of sha (PDict (dpop (report_dump report) ''validation_id''))"

definition is_live_adapter :: "adapter_status \<Rightarrow> bool" where
  "is_live_adapter s \<longleftrightarrow> sa_adapter_type s \<in> {''com'', ''dotnet_bridge''}"

definition require_compatible_writer :: "('a, 'm) harness_env \<Rightarrow> ('a, unit) call" where
  "require_compatible_writer env =
     bindP (getP (\<lambda>w. ad_status (hs_adapter env) (w_adapter w))) (\<lambda>s.
       if is_live_adapter s
       then thenP (liftP (require_writer_compatible (hs_matrix env) (sa_cad_version s))) (retP ())
       else retP ())"

definition preflight :: "('a, 'm) harness_env \<Rightarrow> operation_plan \<Rightarrow> unit res" where
  "preflight env plan =
     (if unsupported_operations (ad_supported_operations (hs_adapter env)) plan = [] then Inr ()
      else Inl (Err AdapterCapabilityMissingError
        ''The configured adapter cannot map every operation in the compiled plan''))"

definition warning_ids :: "validation_report \<Rightarrow> string list" where
  "warning_ids r = map fi_rule_id (filter (\<lambda>f. fi_severity f = WARNING) (vr_findings r))"

subsection \<open>Reading the drawing\<close>

definition harness_inspect ::
  "('a, 'm) harness_env \<Rightarrow> string option \<Rightarrow> ('a, document_snapshot) call" where
  "harness_inspect env doc =
     bindP (adapterP (ad_inspect_document (hs_adapter env) doc)) (\<lambda>snapshot.
     thenP (modP (\<lambda>w. w\<lparr>w_snapshots := dset (w_snapshots w) (ds_document_id snapshot) snapshot\<rparr>))
     (thenP (logP env DOCUMENT_INSPECTED None ''system'' ''harness''
        [(''document_id'', PStr (ds_document_id snapshot)), (''revision'', PStr (ds_revision snapshot))])
     (retP snapshot)))"

definition validate_displayed_revision ::
  "('a, 'm) harness_env \<Rightarrow> string \<Rightarrow> string \<Rightarrow> ('a, bool) call" where
  "validate_displayed_revision env doc revn = adapterP (ad_validate_revision (hs_adapter env) doc revn)"

definition snapshot_for :: "string \<Rightarrow> 'a world \<Rightarrow> document_snapshot option" where
  "snapshot_for doc w = map_of (w_snapshots w) doc"

text \<open>\<open>adapter.status()\<close> with the compatibility verdict for live adapters.\<close>

definition harness_adapter_status :: "('a, 'm) harness_env \<Rightarrow> ('a, adapter_status) call" where
  "harness_adapter_status env =
     bindP (getP (\<lambda>w. ad_status (hs_adapter env) (w_adapter w))) (\<lambda>s.
       retP (if is_live_adapter s then evaluate_status (hs_matrix env) s else s))"

subsection \<open>Live drawing resources a plan needs\<close>

text \<open>\<open>d.setdefault(k, v)\<close>.\<close>

definition dset_default :: "('k \<times> 'v) list \<Rightarrow> 'k \<Rightarrow> 'v \<Rightarrow> ('k \<times> 'v) list" where
  "dset_default d k v = (case map_of d k of None \<Rightarrow> d @ [(k, v)] | Some _ \<Rightarrow> d)"

text \<open>Names used by a plan with the first operation that uses each.\<close>

definition required_styles :: "string \<Rightarrow> operation_plan \<Rightarrow> (string \<times> string) list" where
  "required_styles fld plan =
     fold (\<lambda>o' d. case map_of (op_geometry o') fld of
             Some (PStr v) \<Rightarrow> if v = [] then d else dset_default d v (op_id o')
           | _ \<Rightarrow> d)
       (pl_operations plan) []"

definition required_layers :: "operation_plan \<Rightarrow> (string \<times> string) list" where
  "required_layers plan = fold (\<lambda>o' d. dset_default d (op_layer o') (op_id o')) (pl_operations plan) []"

definition missing_resource ::
  "string \<Rightarrow> string \<Rightarrow> string \<Rightarrow> string list \<Rightarrow> string \<times> string \<Rightarrow> finding list" where
  "missing_resource rule msg fix' available = (\<lambda>(nm, oid).
     if nm \<in> set available then []
     else [(finding_of rule BLOCKING msg)
             \<lparr>fi_operation_id := Some oid, fi_expected := PStr nm,
              fi_actual := PList (map PStr (sort (remdups available))), fi_suggested_fix := Some fix'\<rparr>])"

definition missing_live_style_findings ::
  "company_profile \<Rightarrow> operation_plan \<Rightarrow> document_snapshot \<Rightarrow> finding list" where
  "missing_live_style_findings profile plan snapshot =
     concat (map (missing_resource ''LIVE_LAYER_MISSING'' ''Required layer is not present in the live drawing.''
         ''Load the approved DWT/DWS layers, then inspect, preview, validate and approve again.''
         (map li_name (ds_layers snapshot))) (sort_key fst (required_layers plan))) @
     (if snapshot_units_value (ds_units snapshot) \<noteq> pf_canonical_unit profile
      then [(finding_of ''LIVE_DOCUMENT_UNITS_MISMATCH'' BLOCKING
               ''Live drawing units do not match the company profile.'')
              \<lparr>fi_expected := PStr (pf_canonical_unit profile),
               fi_actual := PStr (snapshot_units_value (ds_units snapshot)),
               fi_suggested_fix := Some (''Set the disposable drawing units from the approved template, '' @
                 ''then inspect, preview, validate and approve again.'')\<rparr>]
      else []) @
     concat (map (missing_resource ''LIVE_DIMSTYLE_MISSING''
         ''Required dimension style is not present in the live drawing.''
         ''Load the approved DWT/DWS styles, then inspect, preview, validate and approve again.''
         (ds_dimension_styles snapshot)) (sort_key fst (required_styles ''dimstyle'' plan))) @
     concat (map (missing_resource ''LIVE_TEXTSTYLE_MISSING''
         ''Required text style is not present in the live drawing.''
         ''Load the approved DWT/DWS styles, then inspect, preview, validate and approve again.''
         (ds_text_styles snapshot)) (sort_key fst (required_styles ''textstyle'' plan)))"

end
