(* ===== verification/HarnessWorkflow.thy ===== *)
theory HarnessWorkflow
  imports HarnessModel
begin

section \<open>The harness service: from a job to an approved plan\<close>

text \<open>
  Models \<open>create_job\<close>, \<open>submit_spec\<close>, the two remediation entries, \<open>preview\<close>, \<open>validate\<close>,
  \<open>get_diff\<close> and \<open>approve\<close> of \<open>application/services/harness_service.py\<close>, statement by statement.
\<close>

subsection \<open>Jobs and specifications\<close>

definition create_job :: "('a, 'm) harness_env \<Rightarrow> string option \<Rightarrow> ('a, cad_job) call" where
  "create_job env doc =
     bindP (harness_inspect env doc) (\<lambda>snapshot.
     bindP (new_idP env ''job'') (\<lambda>jid.
     bindP (clockP env) (\<lambda>now.
     let job = new_job jid (ds_document_id snapshot) (ds_revision snapshot) now in
     thenP (store_put (save_job job))
     (thenP (logP env JOB_CREATED (Some jid) ''system'' ''harness''
        [(''document_id'', PStr (cj_document_id job)),
         (''expected_revision'', PStr (cj_expected_revision job))])
     (retP job)))))"

definition ACCEPTED_RASTER_FEATURE :: string where
  "ACCEPTED_RASTER_FEATURE = ''_accepted_raster_trace''"

definition redact_feature :: "feature_spec \<Rightarrow> feature_spec" where
  "redact_feature f =
     (if fs_type f \<noteq> ACCEPTED_RASTER_FEATURE \<or> map_of (fs_parameters f) ''acceptance_token'' = None then f
      else FeatureSpec (fs_feature_id f) (fs_type f)
        (dset (dpop (fs_parameters f) ''acceptance_token'') ''acceptance_token_redacted'' (PBool True))
        (fs_modifiers f) (fs_children f))"

definition redact_raster_acceptance_tokens :: "drawing_spec \<Rightarrow> drawing_spec" where
  "redact_raster_acceptance_tokens spec = spec\<lparr>sp_features := map redact_feature (sp_features spec)\<rparr>"

datatype submit_reply =
    NeedsInput string "missing_input list"
  | SpecCompiled string "string option" nat "default_record list" "assumption_record list"

definition spec_payload_defaults ::
  "('a, 'm) harness_env \<Rightarrow> cad_job \<Rightarrow> string \<Rightarrow> pydict \<Rightarrow> pydict" where
  "spec_payload_defaults env job sid payload =
     dset_default (dset_default (dset_default payload ''spec_id'' (PStr sid))
       ''document_id'' (PStr (cj_document_id job)))
       ''standard_profile'' (PDict [(''profile_id'', PStr (pf_profile_id (hs_profile env))),
          (''version'', PStr (pf_version (hs_profile env)))])"

text \<open>The job after the state switch at the start of \<open>submit_spec\<close>.\<close>

definition reopen_job :: "('a, 'm) harness_env \<Rightarrow> cad_job \<Rightarrow> ('a, cad_job) call" where
  "reopen_job env job =
     (if cj_state job \<notin> {CREATED, SPEC_ACCEPTED}
      then bindP (transitionP env job SPEC_ACCEPTED id) (\<lambda>j.
        thenP (store_put (revoke_approvals_for_job (cj_job_id job)))
        (bindP (clockP env) (\<lambda>now. retP (invalidate_approval j now))))
      else if cj_state job = CREATED then transitionP env job SPEC_ACCEPTED id
      else retP job)"

definition submit_spec ::
  "('a, 'm) harness_env \<Rightarrow> string \<Rightarrow> pydict \<Rightarrow> ('a, submit_reply) call" where
  "submit_spec env jid spec_payload =
     bindP (require_job jid) (\<lambda>job.
     bindP (getP (\<lambda>w. get_remediation (w_store w) jid)) (\<lambda>stored.
     thenP (failIf (stored \<noteq> None) (Err InvalidFeatureParametersError
       ''A remediation job cannot be repurposed as a revised specification''))
     (bindP (new_idP env ''spec'') (\<lambda>sid.
     let payload = spec_payload_defaults env job sid spec_payload;
         submitted = (case map_of payload ''schema_version'' of None \<Rightarrow> PStr SCHEMA_VERSION | Some v \<Rightarrow> v) in
     thenP (failIf (submitted \<noteq> PStr SCHEMA_VERSION) (Err UnsupportedSchemaVersionError
       ''The DrawingSpec schema version is not supported by this harness''))
     (bindP (liftP (hs_parse_spec env payload)) (\<lambda>spec.
     bindP (reopen_job env job) (\<lambda>job1.
     bindP (storeP (save_spec jid (redact_raster_acceptance_tokens spec))) (\<lambda>version.
     let job2 = job1\<lparr>cj_spec_id := Some (sp_spec_id spec), cj_spec_version := version\<rparr> in
     thenP (store_put (save_job job2))
     (thenP (logP env SPEC_CHANGED (Some jid) ''ai_client'' ''unknown''
        [(''previous_spec_version'', PInt (int (cj_spec_version job))),
         (''spec_version'', PInt (int version)), (''spec_id'', PStr (sp_spec_id spec))])
     (thenP (logP env SPEC_SUBMITTED (Some jid) ''ai_client'' ''unknown''
        [(''spec_id'', PStr (sp_spec_id spec)), (''spec_version'', PInt (int version))])
     (bindP (new_idP env ''plan'') (\<lambda>pid.
     bindP (liftP (hs_compile env spec jid (cj_expected_revision job2) pid)) (\<lambda>result.
     case co_plan result of
       None \<Rightarrow> retP (NeedsInput jid (co_missing_inputs result))
     | Some plan \<Rightarrow>
         thenP (store_put (save_plan plan))
         (bindP (transitionP env job2 PLANNED (\<lambda>j. j\<lparr>cj_plan_id := Some (pl_plan_id plan),
              cj_plan_hash := pl_plan_hash plan\<rparr>)) (\<lambda>job3.
         thenP (store_put (save_job job3))
         (thenP (logP env PLAN_COMPILED (Some jid) ''system'' ''harness''
            [(''plan_hash'', opt_str (pl_plan_hash plan)),
             (''operations'', PInt (int (length (pl_operations plan))))])
         (retP (SpecCompiled jid (pl_plan_hash plan) (length (pl_operations plan))
            (co_defaults_applied result) (co_assumptions result)))))))))))))))))))"

subsection \<open>Remediation jobs\<close>

definition report_refs :: "validation_report \<Rightarrow> finding_ref list" where
  "report_refs r =
     concat (map (\<lambda>f. case fi_entity_ref f of None \<Rightarrow> [] | Some e \<Rightarrow> [(fi_rule_id f, e)]) (vr_findings r))"

definition evidence_matches ::
  "('a, 'm) harness_env \<Rightarrow> drawing_audit_evidence \<Rightarrow> remediation_result \<Rightarrow> bool" where
  "evidence_matches env evidence r \<longleftrightarrow>
     da_document_id evidence = pl_document_id (rm_plan r) \<and>
     da_revision evidence = pl_expected_revision (rm_plan r) \<and>
     vr_profile_ref (da_report evidence) = Some (pl_profile_ref (rm_plan r)) \<and>
     vr_profile_ref (da_report evidence) = Some (as_ref (hs_profile env)) \<and>
     list_all (\<lambda>i. i \<in> set (report_refs (da_report evidence))) (rm_selected_findings r)"

datatype remediation_reply = RemediationPlanned string "string option" nat nat

definition require_reader :: "('a, 'm) harness_env \<Rightarrow> string \<Rightarrow> ('a, string \<Rightarrow> 'a \<Rightarrow> 'm res) call" where
  "require_reader env msg =
     (case hs_reader env of None \<Rightarrow> raiseP (Err AdapterCapabilityMissingError msg) | Some rd \<Rightarrow> retP rd)"

definition require_drawing_audits :: "('a, drawing_audit_store) call" where
  "require_drawing_audits = bindP (getP w_drawing_audits) (\<lambda>a.
     case a of None \<Rightarrow> raiseP (Err AdapterCapabilityMissingError
       ''A remediation workflow requires persisted drawing-audit evidence'')
     | Some audits \<Rightarrow> retP audits)"

text \<open>\<open>RemediationService.compile_plan\<close> over the drawing read now.\<close>

definition recompile ::
  "('a, 'm) harness_env \<Rightarrow> (string \<Rightarrow> 'a \<Rightarrow> 'm res) \<Rightarrow> drawing_audit_store \<Rightarrow> cad_job \<Rightarrow> string \<Rightarrow>
   finding_ref list \<Rightarrow> pydict \<Rightarrow> ('a, remediation_result) call" where
  "recompile env rd audits job aid selected technical =
     bindP (getP (\<lambda>w. rd (cj_document_id job) (w_adapter w))) (\<lambda>read.
     bindP (liftP read) (\<lambda>model.
     bindP (new_idP env ''plan'') (\<lambda>pid.
     liftP (hs_remediate env (cj_job_id job) model aid selected technical audits pid))))"

definition register_remediation_plan ::
  "('a, 'm) harness_env \<Rightarrow> remediation_result \<Rightarrow> ('a, remediation_reply) call" where
  "register_remediation_plan env remediation =
     bindP (require_job (pl_job_id (rm_plan remediation))) (\<lambda>job.
     bindP (require_reader env ''A remediation workflow requires post-commit structured drawing readback'') (\<lambda>rd.
     bindP require_drawing_audits (\<lambda>audits.
     case get_drawing_audit audits (rm_audit_id remediation) of
       None \<Rightarrow> raiseP (Err DocumentNotFoundError
         ''The remediation plan's persisted audit evidence does not exist'')
     | Some evidence \<Rightarrow>
     thenP (failIf (\<not> evidence_matches env evidence remediation) (Err StaleDocumentRevisionError
       ''The remediation plan does not match its persisted audit evidence''))
     (thenP (failIf (pl_document_id (rm_plan remediation) \<noteq> cj_document_id job \<or>
          pl_expected_revision (rm_plan remediation) \<noteq> cj_expected_revision job) (Err StaleDocumentRevisionError
       ''The remediation plan is not pinned to the job's inspected document revision''))
     (thenP (failIf (cj_state job \<noteq> CREATED) (Err StaleDocumentRevisionError
       ''A remediation plan can only be registered on a fresh job''))
     (bindP (recompile env rd audits job (rm_audit_id remediation) (rm_selected_findings remediation)
          (rm_technical_inputs remediation)) (\<lambda>trusted.
     let plan = rm_plan trusted in
     thenP (liftP (preflight env plan))
     (bindP (transitionP env job SPEC_ACCEPTED id) (\<lambda>accepted.
     thenP (logP env SPEC_SUBMITTED (Some (cj_job_id job)) ''ai_client'' ''unknown''
        [(''kind'', PStr ''remediation_selection''),
         (''selected_findings'', PInt (int (length (rm_selected_findings trusted))))])
     (thenP (store_put (save_plan plan))
     (case pl_plan_hash plan of None \<Rightarrow> raiseP AssertionError
      | Some h \<Rightarrow>
     thenP (storeP (save_remediation (cj_job_id job) h trusted))
     (bindP (transitionP env accepted PLANNED (\<lambda>j. j\<lparr>cj_plan_id := Some (pl_plan_id plan),
          cj_plan_hash := pl_plan_hash plan\<rparr>)) (\<lambda>planned.
     thenP (store_put (save_job planned))
     (thenP (modP (\<lambda>w. w\<lparr>w_remediation_jobs := dset (w_remediation_jobs w) (cj_job_id job) trusted\<rparr>))
     (thenP (logP env PLAN_COMPILED (Some (cj_job_id job)) ''system'' ''harness''
        [(''plan_hash'', PStr h), (''operations'', PInt (int (length (pl_operations plan)))),
         (''kind'', PStr ''remediation'')])
     (retP (RemediationPlanned (cj_job_id job) (pl_plan_hash plan) (length (pl_operations plan))
        (length (rm_selected_findings trusted)))))))))))))))))))"

definition submit_remediation_selection ::
  "('a, 'm) harness_env \<Rightarrow> string \<Rightarrow> string \<Rightarrow> finding_ref list \<Rightarrow> pydict \<Rightarrow> ('a, remediation_reply) call" where
  "submit_remediation_selection env jid aid selected technical =
     bindP (require_job jid) (\<lambda>job.
     bindP (require_reader env ''A remediation workflow requires structured drawing readback'') (\<lambda>rd.
     bindP require_drawing_audits (\<lambda>audits.
     bindP (recompile env rd audits job aid selected technical) (\<lambda>remediation.
     register_remediation_plan env remediation))))"

definition is_remediation_plan :: "operation_plan \<Rightarrow> bool" where
  "is_remediation_plan plan = list_ex (\<lambda>o'. starts_with (op_feature_id o') ''remediation:'') (pl_operations plan)"

definition load_remediation_for_plan ::
  "string \<Rightarrow> operation_plan \<Rightarrow> ('a, remediation_result option) call" where
  "load_remediation_for_plan jid plan =
     bindP (getP (\<lambda>w. map_of (w_remediation_jobs w) jid)) (\<lambda>cached.
     bindP (getP (\<lambda>w. get_remediation (w_store w) jid)) (\<lambda>stored.
     case stored of
       None \<Rightarrow>
         if is_remediation_plan plan
         then raiseP (Err DocumentNotFoundError ''Persisted remediation selection is missing'')
         else retP None
     | Some (stored_hash, remediation) \<Rightarrow>
         if pl_plan_hash plan = None \<or> Some stored_hash \<noteq> pl_plan_hash plan \<or>
            pl_plan_hash (rm_plan remediation) \<noteq> pl_plan_hash plan \<or>
            pl_job_id (rm_plan remediation) \<noteq> jid \<or>
            (cached \<noteq> None \<and> cached \<noteq> Some remediation)
         then raiseP (Err PlanHashMismatchError
           ''Persisted remediation evidence does not match the current plan'')
         else thenP (modP (\<lambda>w. w\<lparr>w_remediation_jobs := dset (w_remediation_jobs w) jid remediation\<rparr>))
              (retP (Some remediation))))"

subsection \<open>Preview and validation\<close>

record preview_reply =
  py_plan_hash :: "string option"
  py_result :: preview_result
  py_semantic_diff :: "semantic_diff option"
  py_unrenderable_operations :: "string list"

definition UNRENDERABLE_OPERATIONS :: "operation_type list" where
  "UNRENDERABLE_OPERATIONS = [CREATE_HATCH, UPDATE_ENTITY, DELETE_ENTITY]"

text \<open>\<open>DxfPreviewAdapter.preview\<close> and \<open>preview_gaps\<close>.\<close>

definition dxf_preview :: "('a, 'm) harness_env \<Rightarrow> operation_plan \<Rightarrow> ('a, preview_result) call" where
  "dxf_preview env plan =
     bindP (new_idP env ''preview'') (\<lambda>prid.
     bindP (liftP (hs_render env plan)) (\<lambda>artifacts.
     bindP (liftP (hash_or_compute (hs_sha env) plan)) (\<lambda>h.
     retP \<lparr>pr_schema_version = SCHEMA_VERSION, pr_preview_id = prid, pr_job_id = pl_job_id plan,
       pr_plan_hash = h, pr_artifacts = artifacts,
       pr_company_approved = pf_company_approved (hs_profile env)\<rparr>)))"

definition preview_gaps :: "operation_plan \<Rightarrow> string list" where
  "preview_gaps plan =
     sort (remdups (map (operation_type_value \<circ> op_type)
       (filter (\<lambda>o'. op_type o' \<in> set UNRENDERABLE_OPERATIONS) (pl_operations plan))))"

definition harness_preview :: "('a, 'm) harness_env \<Rightarrow> string \<Rightarrow> ('a, preview_reply) call" where
  "harness_preview env jid =
     bindP (require_job jid) (\<lambda>job.
     bindP (require_plan env jid) (\<lambda>plan.
     thenP (liftP (require_current_plan_schema plan))
     (thenP (liftP (preflight env plan))
     (bindP (dxf_preview env plan) (\<lambda>result.
     bindP (getP (snapshot_for (cj_document_id job))) (\<lambda>snapshot.
     bindP (case snapshot of None \<Rightarrow> retP None
            | Some s \<Rightarrow> bindP (liftP (build_semantic_diff (hs_sha env) plan s)) (\<lambda>d. retP (Some d))) (\<lambda>diff.
     thenP (if cj_state job = PLANNED
            then bindP (transitionP env job PREVIEWED id) (\<lambda>j. store_put (save_job j)) else retP ())
     (thenP (logP env PREVIEW_GENERATED (Some jid) ''system'' ''harness''
        [(''plan_hash'', opt_str (pl_plan_hash plan)),
         (''artifacts'', PInt (int (length (pr_artifacts result))))])
     (retP \<lparr>py_plan_hash = pl_plan_hash plan, py_result = result, py_semantic_diff = diff,
        py_unrenderable_operations = preview_gaps plan\<rparr>)))))))))"

definition plan_context :: "('a, 'm) harness_env \<Rightarrow> operation_plan \<Rightarrow> commit_result option \<Rightarrow> rule_context" where
  "plan_context env plan result =
     \<lparr>rc_profile = hs_profile env, rc_tolerance = env_tolerance env, rc_plan = Some plan,
      rc_commit_result = result, rc_extras = []\<rparr>"

definition run_engine ::
  "('a, 'm) harness_env \<Rightarrow> validation_stage \<Rightarrow> operation_plan \<Rightarrow> commit_result option \<Rightarrow> string \<Rightarrow>
   ('a, validation_report) call" where
  "run_engine env stage plan result jid =
     bindP (new_idP env ''validation'') (\<lambda>vid.
     liftP (engine_run (hs_rules env) vid stage (plan_context env plan result) jid None))"

definition with_live_findings ::
  "('a, 'm) harness_env \<Rightarrow> validation_stage \<Rightarrow> operation_plan \<Rightarrow> document_snapshot option \<Rightarrow>
   validation_report \<Rightarrow> validation_report" where
  "with_live_findings env stage plan snapshot report =
     (case snapshot of None \<Rightarrow> report
      | Some s \<Rightarrow>
          (let live = missing_live_style_findings (hs_profile env) plan s in
           if stage = PRE_COMMIT \<and> live \<noteq> []
           then derive_severity_counts (report\<lparr>vr_findings := vr_findings report @ live\<rparr>)
           else report))"

definition validate_job ::
  "('a, 'm) harness_env \<Rightarrow> string \<Rightarrow> validation_stage \<Rightarrow> bool \<Rightarrow> ('a, validation_report) call" where
  "validate_job env jid stage allow_approved =
     bindP (require_job jid) (\<lambda>job.
     bindP (require_plan env jid) (\<lambda>plan.
     thenP (failIf (cj_state job = APPROVED \<and> \<not> allow_approved) (Err ApprovalRequiredError
       ''An approved job cannot replace its reviewed validation through a public tool''))
     (bindP (run_engine env stage plan None jid) (\<lambda>report0.
     bindP (getP (snapshot_for (cj_document_id job))) (\<lambda>snapshot.
     let report = with_live_findings env stage plan snapshot report0 in
     thenP (store_put (save_validation report))
     (thenP (if stage = PRE_COMMIT \<and> cj_state job = PREVIEWED \<and> \<not> has_blocking report
             then bindP (transitionP env job VALIDATED id) (\<lambda>j. store_put (save_job j)) else retP ())
     (thenP (logP env VALIDATION_COMPLETED (Some jid) ''system'' ''harness''
        [(''stage'', PStr (stage_value stage)), (''blocking'', PInt (int (vr_blocking_count report))),
         (''errors'', PInt (int (vr_error_count report))),
         (''warnings'', PInt (int (vr_warning_count report)))])
     (retP report))))))))"

definition harness_validate ::
  "('a, 'm) harness_env \<Rightarrow> string \<Rightarrow> validation_stage \<Rightarrow> ('a, validation_report) call" where
  "harness_validate env jid stage = validate_job env jid stage False"

definition get_diff :: "('a, 'm) harness_env \<Rightarrow> string \<Rightarrow> ('a, semantic_diff) call" where
  "get_diff env jid =
     bindP (require_job jid) (\<lambda>job.
     bindP (require_plan env jid) (\<lambda>plan.
     bindP (getP (snapshot_for (cj_document_id job))) (\<lambda>snapshot.
     case snapshot of
       None \<Rightarrow> raiseP (Err DocumentNotFoundError ''No document snapshot available for this job'')
     | Some s \<Rightarrow> liftP (build_semantic_diff (hs_sha env) plan s))))"

subsection \<open>Approval\<close>

definition displayed_revision_ok ::
  "('a, 'm) harness_env \<Rightarrow> cad_job \<Rightarrow> string option \<Rightarrow> ('a, bool) call" where
  "displayed_revision_ok env job displayed =
     (case displayed of None \<Rightarrow> retP True
      | Some r \<Rightarrow>
          if cj_expected_revision job \<noteq> r then retP False
          else adapterP (ad_validate_revision (hs_adapter env) (cj_document_id job) r))"

definition approve ::
  "('a, 'm) harness_env \<Rightarrow> string \<Rightarrow> string \<Rightarrow> string list \<Rightarrow> string option \<Rightarrow> string option \<Rightarrow>
   ('a, string \<times> string) call" where
  "approve env jid approved_by acknowledged displayed_plan_hash displayed_revision =
     bindP (require_job jid) (\<lambda>job.
     bindP (require_plan env jid) (\<lambda>plan.
     thenP (failIf (displayed_plan_hash \<noteq> None \<and> pl_plan_hash plan \<noteq> displayed_plan_hash)
       (Err PlanHashMismatchError ''The plan changed after the approval screen was opened''))
     (bindP (displayed_revision_ok env job displayed_revision) (\<lambda>fresh_enough.
     thenP (failIf (\<not> fresh_enough) (Err StaleDocumentRevisionError
       ''The drawing revision changed after the approval screen was opened''))
     (bindP (getP (\<lambda>w. get_validation (w_store w) jid)) (\<lambda>shown.
     case shown of
       None \<Rightarrow> raiseP (Err ApprovalRequiredError
         ''Cannot approve validation evidence for another plan, profile or stage'')
     | Some displayed_report \<Rightarrow>
     thenP (failIf (\<not> validation_matches_plan displayed_report plan jid) (Err ApprovalRequiredError
       ''Cannot approve validation evidence for another plan, profile or stage''))
     (thenP (harness_inspect env (Some (cj_document_id job)))
     (bindP (validate_job env jid PRE_COMMIT False) (\<lambda>report.
     bindP (liftP (validation_decision_digest (hs_sha env) report)) (\<lambda>now_digest.
     bindP (liftP (validation_decision_digest (hs_sha env) displayed_report)) (\<lambda>shown_digest.
     thenP (failIf (now_digest \<noteq> shown_digest) (Err ApprovalRequiredError
       ''Live validation evidence changed after the approval view was prepared''))
     (thenP (failIf (\<not> gate_allows_commit report True) (Err ApprovalRequiredError
       ''Validation findings block this plan''))
     (thenP (failIf (\<not> set (warning_ids report) \<subseteq> set acknowledged) (Err ApprovalRequiredError
       ''Every validation warning must be acknowledged before approval''))
     (case pl_plan_hash plan of None \<Rightarrow> raiseP AssertionError
      | Some h \<Rightarrow>
     bindP (clockP env) (\<lambda>now.
     bindP (new_idP env ''approval'') (\<lambda>aid.
     bindP (liftP (issue_approval (hs_hmac env) aid jid (cj_document_id job) h (cj_expected_revision job)
        approved_by (hs_secret env) (hs_approval_ttl env) (sort (remdups acknowledged)) now)) (\<lambda>(approval, token).
     thenP (store_put (save_approval approval))
     (bindP (transitionP env job APPROVED (\<lambda>j. j\<lparr>cj_approval_id := Some (ap_approval_id approval)\<rparr>)) (\<lambda>approved.
     thenP (store_put (save_job approved))
     (thenP (logP env APPROVAL_GRANTED (Some jid) ''engineer'' approved_by
        [(''approval_id'', PStr (ap_approval_id approval)), (''plan_hash'', PStr h)])
     (retP (ap_approval_id approval, token))))))))))))))))))))))"

end
