(* ===== verification/HarnessCommit.thy ===== *)
theory HarnessCommit
  imports HarnessWorkflow
begin

section \<open>The harness service: committing an approved plan\<close>

text \<open>
  Models \<open>_commit\<close> of \<open>application/services/harness_service.py\<close> in the code's own stages: the
  authorisation gates that also guard a replay, the evidence gates that guard the write, the write
  under the writer lease with its outcome classification, the post-commit validation, the re-audit
  of a remediation, and the final transition.
\<close>

definition commit_request_digest :: "(string \<Rightarrow> string) \<Rightarrow> string \<Rightarrow> string \<Rightarrow> string \<Rightarrow> string res" where
  "commit_request_digest sha jid ph revn =
     sha256_of sha (PDict [(''job_id'', PStr jid), (''plan_hash'', PStr ph), (''expected_revision'', PStr revn)])"

subsection \<open>Authorisation\<close>

definition recorded_approval :: "cad_job \<Rightarrow> 'a world \<Rightarrow> approval_record option" where
  "recorded_approval job w =
     (case cj_approval_id job of None \<Rightarrow> None
      | Some aid \<Rightarrow> if aid = [] then None else get_approval (w_store w) aid)"

definition check_approval ::
  "('a, 'm) harness_env \<Rightarrow> cad_job \<Rightarrow> string \<Rightarrow> string \<Rightarrow> string \<Rightarrow> string \<Rightarrow>
   ('a, approval_record option) call" where
  "check_approval env job token jid ph revn =
     (if \<not> hs_require_approval env then retP None
      else bindP (getP (recorded_approval job)) (\<lambda>a.
        case a of
          None \<Rightarrow> raiseP (Err ApprovalRequiredError ''No valid approval recorded for this job'')
        | Some approval \<Rightarrow>
            bindP (clockP env) (\<lambda>now.
            thenP (liftP (verify_approval_token (hs_hmac env) token approval (hs_secret env) jid ph revn now))
            (retP (Some approval)))))"

record commit_gates =
  cg_job :: cad_job
  cg_plan :: operation_plan
  cg_digest :: string
  cg_previous :: "(string \<times> pydict) option"
  cg_approval :: "approval_record option"

definition authorise_commit ::
  "('a, 'm) harness_env \<Rightarrow> string \<Rightarrow> string \<Rightarrow> string \<Rightarrow> string \<Rightarrow> string \<Rightarrow> ('a, commit_gates) call" where
  "authorise_commit env jid key revn ph token =
     bindP (require_job jid) (\<lambda>job.
     bindP (require_plan env jid) (\<lambda>plan.
     thenP (liftP (require_current_plan_schema plan))
     (bindP (liftP (commit_request_digest (hs_sha env) jid ph revn)) (\<lambda>digest.
     bindP (getP (\<lambda>w. find_execution (w_store w) jid key)) (\<lambda>previous.
     thenP (failIf (case previous of None \<Rightarrow> False | Some (stored, _) \<Rightarrow> stored \<noteq> digest)
       (Err IdempotencyKeyReusedError ''Idempotency key was already used for a different request''))
     (thenP (failIf (pl_plan_hash plan \<noteq> Some ph) (Err PlanHashMismatchError
       ''The approved preview does not match the submitted commit plan''))
     (bindP (check_approval env job token jid ph revn) (\<lambda>approval.
     retP \<lparr>cg_job = job, cg_plan = plan, cg_digest = digest, cg_previous = previous,
       cg_approval = approval\<rparr>))))))))"

subsection \<open>Evidence\<close>

definition acknowledged_warnings :: "approval_record option \<Rightarrow> string list \<Rightarrow> string list" where
  "acknowledged_warnings approval warnings =
     (case approval of None \<Rightarrow> warnings | Some a \<Rightarrow> ap_warnings_acknowledged a)"

definition evidence_allows ::
  "approval_record option \<Rightarrow> validation_report \<Rightarrow> operation_plan \<Rightarrow> string \<Rightarrow> bool" where
  "evidence_allows approval report plan jid \<longleftrightarrow>
     validation_matches_plan report plan jid \<and> gate_allows_commit report True \<and>
     set (warning_ids report) \<subseteq> set (acknowledged_warnings approval (warning_ids report))"

definition check_evidence ::
  "('a, 'm) harness_env \<Rightarrow> commit_gates \<Rightarrow> string \<Rightarrow> string \<Rightarrow> ('a, remediation_result option) call" where
  "check_evidence env g jid revn =
     (let job = cg_job g; plan = cg_plan g; approval = cg_approval g in
     thenP (failIf (cj_state job = UNKNOWN_COMMIT_STATE) (Err UnknownCommitStateError
       ''This job has an unknown commit outcome and cannot be committed automatically''))
     (bindP (getP (\<lambda>w. get_validation (w_store w) jid)) (\<lambda>shown.
     thenP (failIf (case shown of None \<Rightarrow> True | Some r \<Rightarrow> \<not> evidence_allows approval r plan jid)
       (Err ApprovalRequiredError ''Approved validation evidence no longer allows this commit''))
     (bindP (load_remediation_for_plan jid plan) (\<lambda>remediation.
     thenP (require_compatible_writer env)
     (thenP (harness_inspect env (Some (cj_document_id job)))
     (bindP (validate_job env jid PRE_COMMIT True) (\<lambda>report.
     thenP (failIf (\<not> evidence_allows approval report plan jid) (Err ApprovalRequiredError
       ''Current validation evidence does not allow this commit''))
     (bindP (adapterP (ad_validate_revision (hs_adapter env) (cj_document_id job) revn)) (\<lambda>current.
     thenP (failIf (\<not> current) (Err StaleDocumentRevisionError
       ''Document changed since the plan was approved''))
     (retP remediation)))))))))))"

subsection \<open>The write\<close>

definition is_unknown_outcome :: "exc \<Rightarrow> bool" where
  "is_unknown_outcome e = (exc_class e = Some UnknownCommitStateError)"

text \<open>\<open>type(exc).__name__\<close>.\<close>

definition class_name :: "error_class \<Rightarrow> string" where
  "class_name c = (case c of
     HarnessError \<Rightarrow> ''HarnessError''
   | MissingRequiredInputsError \<Rightarrow> ''MissingRequiredInputsError''
   | UnsupportedSchemaVersionError \<Rightarrow> ''UnsupportedSchemaVersionError''
   | UnsupportedFeatureError \<Rightarrow> ''UnsupportedFeatureError''
   | InvalidFeatureParametersError \<Rightarrow> ''InvalidFeatureParametersError''
   | InvalidGeometryError \<Rightarrow> ''InvalidGeometryError''
   | StandardProfileNotFoundError \<Rightarrow> ''StandardProfileNotFoundError''
   | DocumentNotFoundError \<Rightarrow> ''DocumentNotFoundError''
   | StaleDocumentRevisionError \<Rightarrow> ''StaleDocumentRevisionError''
   | PlanHashMismatchError \<Rightarrow> ''PlanHashMismatchError''
   | ApprovalRequiredError \<Rightarrow> ''ApprovalRequiredError''
   | ApprovalExpiredError \<Rightarrow> ''ApprovalExpiredError''
   | ApprovalScopeMismatchError \<Rightarrow> ''ApprovalScopeMismatchError''
   | WriterLeaseConflictError \<Rightarrow> ''WriterLeaseConflictError''
   | IdempotencyKeyReusedError \<Rightarrow> ''IdempotencyKeyReusedError''
   | AutoCADNotRunningError \<Rightarrow> ''AutoCADNotRunningError''
   | AutoCADBusyError \<Rightarrow> ''AutoCADBusyError''
   | AdapterCapabilityMissingError \<Rightarrow> ''AdapterCapabilityMissingError''
   | IpcTimeoutError \<Rightarrow> ''IpcTimeoutError''
   | ComCallFailedError \<Rightarrow> ''ComCallFailedError''
   | PostCommitValidationFailedError \<Rightarrow> ''PostCommitValidationFailedError''
   | UnknownCommitStateError \<Rightarrow> ''UnknownCommitStateError''
   | ExportPathNotAllowedError \<Rightarrow> ''ExportPathNotAllowedError''
   | RollbackNotAvailableError \<Rightarrow> ''RollbackNotAvailableError''
   | RollbackRecoveryRequiredError \<Rightarrow> ''RollbackRecoveryRequiredError''
   | InvalidJobTransitionError \<Rightarrow> ''InvalidJobTransitionError''
   | ToolNotAllowedError \<Rightarrow> ''ToolNotAllowedError''
   | UnsupportedInputFormatError \<Rightarrow> ''UnsupportedInputFormatError''
   | ReadScopeTooLargeError \<Rightarrow> ''ReadScopeTooLargeError'')"

definition exc_name :: "exc \<Rightarrow> string" where
  "exc_name e = (case e of
     Err c _ \<Rightarrow> class_name c | ValueError _ \<Rightarrow> ''ValueError'' | TypeError _ \<Rightarrow> ''TypeError''
   | KeyError _ \<Rightarrow> ''KeyError'' | IndexError _ \<Rightarrow> ''IndexError'' | AssertionError \<Rightarrow> ''AssertionError''
   | InvalidContract _ \<Rightarrow> ''ValidationError'' | RuntimeError _ \<Rightarrow> ''RuntimeError''
   | IntegrityError _ \<Rightarrow> ''IntegrityError'' | OperationalError _ \<Rightarrow> ''OperationalError'')"

text \<open>The \<open>except Exception\<close> clause around \<open>adapter.commit\<close>; it always raises.\<close>

definition commit_failed ::
  "('a, 'm) harness_env \<Rightarrow> string \<Rightarrow> cad_job \<Rightarrow> exc \<Rightarrow> ('a, commit_result) call" where
  "commit_failed env jid job e =
     thenP (beatP env)
     (bindP (clockP env) (\<lambda>now.
      bindP (getP (handle_valid now)) (\<lambda>valid.
      let target = (if is_unknown_outcome e \<or> \<not> valid then UNKNOWN_COMMIT_STATE else FAILED) in
      bindP (transitionP env job target id) (\<lambda>terminal.
      bindP (storeP (finalize_job terminal [])) (\<lambda>released.
      thenP (mark_if released)
      (thenP (logP env COMMIT_FAILED (Some jid) ''system'' ''harness''
         [(''error'', PStr (exc_name e)), (''outcome'', PStr (job_state_value target))])
      (if \<not> valid \<and> \<not> is_unknown_outcome e
       then raiseP (Err UnknownCommitStateError
              ''Writer lease was lost before the commit outcome was known'')
       else raiseP e)))))))"

definition write_plan ::
  "('a, 'm) harness_env \<Rightarrow> string \<Rightarrow> cad_job \<Rightarrow> operation_plan \<Rightarrow> string \<Rightarrow> string \<Rightarrow> string \<Rightarrow>
   ('a, commit_result) call" where
  "write_plan env jid job plan key revn token =
     catchP
       (bindP (adapterP (ad_commit (hs_adapter env)
          \<lparr>cq_plan = plan, cq_idempotency_key = key, cq_expected_revision = revn,
           cq_approval_token = token, cq_create_checkpoint = True\<rparr>)) (\<lambda>result.
        thenP (case cr_undo_group result of None \<Rightarrow> retP ()
               | Some u \<Rightarrow> modP (\<lambda>w. w\<lparr>w_undo := dset (w_undo w) jid (u, cr_new_revision result)\<rparr>))
        (retP result)))
       (commit_failed env jid job)"

definition commit_mappings :: "cad_job \<Rightarrow> operation_plan \<Rightarrow> commit_result \<Rightarrow> entity_mapping list" where
  "commit_mappings job plan result =
     (let ops = rev (pl_operations plan);
          type_of = map_of (map (\<lambda>o'. (op_id o', op_type o')) ops);
          layer_of = map_of (map (\<lambda>o'. (op_id o', op_layer o')) ops)
      in map (\<lambda>e. \<lparr>em_document_id = cj_document_id job, em_feature_id = er_feature_id e,
                   em_operation_id = er_operation_id e, em_entity_ref = er_entity_ref e,
                   em_last_revision = cr_new_revision result,
                   em_expected_layer = layer_of (er_operation_id e)\<rparr>)
           (filter (\<lambda>e. type_of (er_operation_id e) \<noteq> Some DELETE_ENTITY) (cr_entity_results result)))"

definition commit_checkpoint_record ::
  "('a, 'm) harness_env \<Rightarrow> string \<Rightarrow> commit_result \<Rightarrow> ('a, checkpoint option) call" where
  "commit_checkpoint_record env jid result =
     (case cr_checkpoint_id result of None \<Rightarrow> retP None
      | Some c \<Rightarrow> bindP (clockP env) (\<lambda>now.
          retP (Some \<lparr>cp_checkpoint_id = c, cp_job_id = jid, cp_revision = cr_previous_revision result,
            cp_artifact_ref = ''adapter-checkpoint://'' @ c, cp_created_at = now\<rparr>)))"

text \<open>
  What every finalisation after a write needs. \<open>now\<close> is the clock reading the call passes to the store:
  a fresh one on the failure paths, the one that checked the lease otherwise.
\<close>

record commit_outcome =
  ot_job_id :: string
  ot_job :: cad_job
  ot_plan :: operation_plan
  ot_result :: commit_result
  ot_key :: string
  ot_digest :: string
  ot_mappings :: "entity_mapping list"
  ot_checkpoint :: "checkpoint option"

definition finish_commit ::
  "('a, 'm) harness_env \<Rightarrow> commit_outcome \<Rightarrow> job_state \<Rightarrow> ('a, time) call \<Rightarrow> ('a, unit) call" where
  "finish_commit env c target now =
     bindP (transitionP env (ot_job c) target (\<lambda>j. j\<lparr>cj_checkpoint_id := cr_checkpoint_id (ot_result c),
        cj_expected_revision := cr_new_revision (ot_result c)\<rparr>)) (\<lambda>terminal.
     thenP now
     (bindP (storeP (finalize_commit terminal (ot_mappings c) (ot_key c) (ot_digest c)
        (commit_result_dump (ot_result c)) (ot_checkpoint c))) (\<lambda>released.
     mark_if released)))"

subsection \<open>After the write\<close>

definition post_commit_check ::
  "('a, 'm) harness_env \<Rightarrow> commit_outcome \<Rightarrow> validation_report \<Rightarrow> ('a, unit) call" where
  "post_commit_check env c report =
     (if has_blocking report
      then thenP (finish_commit env c FAILED (clockP env))
        (thenP (logP env COMMIT_FAILED (Some (ot_job_id c)) ''system'' ''harness''
           [(''reason'', PStr ''post_commit_validation''),
            (''findings'', PInt (int (vr_blocking_count report)))])
        (raiseP (Err PostCommitValidationFailedError
           ''Committed geometry does not match the approved plan'')))
      else retP ())"

definition finding_keys :: "validation_report \<Rightarrow> (string \<times> string option) list" where
  "finding_keys r = map (\<lambda>f. (fi_rule_id f, fi_entity_ref f)) (vr_findings r)"

definition expected_layers :: "string \<Rightarrow> job_store \<Rightarrow> (string \<times> string) list" where
  "expected_layers doc s =
     fold (\<lambda>m d. case em_expected_layer m of None \<Rightarrow> d | Some l \<Rightarrow> dset d (em_entity_ref m) l)
       (entity_mappings_for s doc) []"

text \<open>The \<open>try\<close> block of the re-audit: the findings that remain and those that are new.\<close>

definition reaudit_read ::
  "('a, 'm) harness_env \<Rightarrow> commit_outcome \<Rightarrow> remediation_result \<Rightarrow>
   ('a, finding_ref list \<times> (string \<times> string option) list) call" where
  "reaudit_read env c remediation =
     (case hs_reader env of None \<Rightarrow> raiseP AssertionError
      | Some rd \<Rightarrow>
     bindP (getP (\<lambda>w. rd (cj_document_id (ot_job c)) (w_adapter w))) (\<lambda>read.
     bindP (liftP read) (\<lambda>model.
     thenP (failIf (hs_model_revision env model \<noteq> cr_new_revision (ot_result c)) (Err StaleDocumentRevisionError
       ''Post-remediation readback did not match the committed revision''))
     (bindP (getP (\<lambda>w. expected_layers (cj_document_id (ot_job c)) (w_store w))) (\<lambda>layers.
     bindP (liftP (hs_audit_drawing env model (ot_job_id c) layers)) (\<lambda>report.
     thenP (store_put (save_validation report))
     (bindP (getP w_drawing_audits) (\<lambda>audits.
     case audits of None \<Rightarrow> raiseP AssertionError
     | Some store \<Rightarrow>
     (case get_drawing_audit store (rm_audit_id remediation) of
        None \<Rightarrow> raiseP (Err DocumentNotFoundError ''Persisted remediation audit disappeared'')
      | Some baseline \<Rightarrow>
          retP (filter (\<lambda>(r, e). (r, Some e) \<in> set (finding_keys report)) (rm_selected_findings remediation),
                sort_key (\<lambda>(r, e). (r, case e of None \<Rightarrow> [] | Some x \<Rightarrow> x))
                  (filter (\<lambda>k. k \<notin> set (finding_keys (da_report baseline)))
                    (remdups (finding_keys report)))))))))))))"

definition reaudit ::
  "('a, 'm) harness_env \<Rightarrow> commit_outcome \<Rightarrow> remediation_result \<Rightarrow> ('a, unit) call" where
  "reaudit env c remediation =
     bindP (catchP
       (bindP (reaudit_read env c remediation) (\<lambda>(remaining, introduced). retP (remaining, introduced, None)))
       (\<lambda>e. retP (rm_selected_findings remediation, [], Some (exc_name e)))) (\<lambda>(remaining, introduced, failure).
     let resolved = filter (\<lambda>i. i \<notin> set remaining) (rm_selected_findings remediation) in
     thenP (logP env DRAWING_AUDITED (Some (ot_job_id c)) ''system'' ''harness''
       [(''document_id'', PStr (cj_document_id (ot_job c))),
        (''revision'', PStr (cr_new_revision (ot_result c))),
        (''selected_count'', PInt (int (length (remdups (rm_selected_findings remediation))))),
        (''resolved_count'', PInt (int (length resolved))),
        (''remaining_count'', PInt (int (length remaining))),
        (''introduced_count'', PInt (int (length introduced))),
        (''readback_error'', opt_str failure)])
     (if remaining \<noteq> [] \<or> introduced \<noteq> []
      then thenP (finish_commit env c FAILED (clockP env))
        (thenP (logP env COMMIT_FAILED (Some (ot_job_id c)) ''system'' ''harness''
           [(''reason'', PStr ''remediation_reaudit''),
            (''remaining_findings'', PInt (int (length remaining))),
            (''introduced_findings'', PInt (int (length introduced))),
            (''readback_error'', opt_str failure)])
        (raiseP (Err PostCommitValidationFailedError
           ''One or more selected audit findings remain after remediation'')))
      else retP ()))"

definition conclude_commit :: "('a, 'm) harness_env \<Rightarrow> commit_outcome \<Rightarrow> string \<Rightarrow> ('a, commit_result) call" where
  "conclude_commit env c ph =
     thenP (beatP env)
     (bindP (clockP env) (\<lambda>now.
      bindP (getP (handle_valid now)) (\<lambda>valid.
      if \<not> valid
      then bindP (transitionP env (ot_job c) UNKNOWN_COMMIT_STATE id) (\<lambda>terminal.
           bindP (storeP (finalize_job terminal (ot_mappings c))) (\<lambda>released.
           thenP (mark_if released)
           (raiseP (Err UnknownCommitStateError
             ''Writer lease expired or could not be renewed while commit was running''))))
      else
        thenP (finish_commit env c COMMITTED (retP now))
        (thenP (logP env COMMIT_SUCCEEDED (Some (ot_job_id c)) ''system'' ''harness''
           [(''plan_hash'', PStr ph), (''entities'', PInt (int (length (cr_entity_results (ot_result c))))),
            (''new_revision'', PStr (cr_new_revision (ot_result c)))])
        (retP (ot_result c))))))"

text \<open>The body of the \<open>with\<close> block.\<close>

definition commit_under_lease ::
  "('a, 'm) harness_env \<Rightarrow> commit_gates \<Rightarrow> remediation_result option \<Rightarrow> string \<Rightarrow> string \<Rightarrow> string \<Rightarrow>
   string \<Rightarrow> string \<Rightarrow> ('a, commit_result) call" where
  "commit_under_lease env g remediation jid key revn ph token =
     bindP (transitionP env (cg_job g) COMMITTING id) (\<lambda>job.
     thenP (store_put (save_job job))
     (thenP (logP env COMMIT_STARTED (Some jid) ''system'' ''harness''
        [(''plan_hash'', PStr ph), (''idempotency_key'', PStr key)])
     (bindP (write_plan env jid job (cg_plan g) key revn token) (\<lambda>result.
     bindP (run_engine env POST_COMMIT (cg_plan g) (Some result) jid) (\<lambda>report.
     thenP (store_put (save_validation report))
     (bindP (commit_checkpoint_record env jid result) (\<lambda>cp.
     let c = \<lparr>ot_job_id = jid, ot_job = job, ot_plan = cg_plan g, ot_result = result, ot_key = key,
              ot_digest = cg_digest g, ot_mappings = commit_mappings job (cg_plan g) result,
              ot_checkpoint = cp\<rparr> in
     thenP (post_commit_check env c report)
     (thenP (case remediation of None \<Rightarrow> retP () | Some r \<Rightarrow> reaudit env c r)
     (conclude_commit env c ph)))))))))"

definition commit ::
  "('a, 'm) harness_env \<Rightarrow> string \<Rightarrow> string \<Rightarrow> string \<Rightarrow> string \<Rightarrow> string \<Rightarrow> ('a, commit_result) call" where
  "commit env jid key revn ph token =
     bindP (authorise_commit env jid key revn ph token) (\<lambda>g.
     case cg_previous g of
       Some (_, stored) \<Rightarrow> liftP (commit_result_validate stored)
     | None \<Rightarrow>
         bindP (check_evidence env g jid revn) (\<lambda>remediation.
         holdP env (cj_document_id (cg_job g)) jid
           (commit_under_lease env g remediation jid key revn ph token)))"

end
