(* ===== verification/HarnessRollback.thy ===== *)
theory HarnessRollback
  imports HarnessCommit
begin

section \<open>The harness service: rollback and export\<close>

text \<open>
  Models \<open>rollback_scope\<close>, \<open>approve_rollback\<close>, \<open>rollback\<close> and \<open>export\<close> of
  \<open>application/services/harness_service.py\<close>. \<open>rollback\<close> is split at the code's own stages: the journal
  of an interrupted attempt, the token, the gates before the lease, and the body of the \<open>with\<close> block.
\<close>

definition no_checkpoint :: "cad_job \<Rightarrow> bool" where
  "no_checkpoint job \<longleftrightarrow> cj_state job \<notin> {COMMITTED, FAILED} \<or> cj_checkpoint_id job = None"

definition no_checkpoint_error :: exc where
  "no_checkpoint_error =
     Err RollbackNotAvailableError ''This job has no proven post-commit checkpoint to restore''"

record rollback_scope_view =
  rs_job_id :: string
  rs_document_id :: string
  rs_checkpoint_id :: string
  rs_current_revision :: string

definition rollback_scope :: "('a, 'm) harness_env \<Rightarrow> string \<Rightarrow> ('a, rollback_scope_view) call" where
  "rollback_scope env jid =
     bindP (require_job jid) (\<lambda>job.
     thenP (failIf (no_checkpoint job) no_checkpoint_error)
     (bindP (getP (\<lambda>w. map_of (w_undo w) jid)) (\<lambda>receipt.
     bindP (case receipt of
         Some (_, revn) \<Rightarrow> retP revn
       | None \<Rightarrow> bindP (harness_inspect env (Some (cj_document_id job))) (\<lambda>s. retP (ds_revision s))) (\<lambda>revn.
     retP \<lparr>rs_job_id = cj_job_id job, rs_document_id = cj_document_id job,
       rs_checkpoint_id = the (cj_checkpoint_id job), rs_current_revision = revn\<rparr>))))"

definition approve_rollback ::
  "('a, 'm) harness_env \<Rightarrow> string \<Rightarrow> string \<Rightarrow> string \<Rightarrow> string \<Rightarrow> ('a, rollback_record \<times> string) call" where
  "approve_rollback env jid approved_by displayed_checkpoint displayed_revision =
     bindP (rollback_scope env jid) (\<lambda>scope.
     thenP (failIf (rs_checkpoint_id scope \<noteq> displayed_checkpoint \<or>
                    rs_current_revision scope \<noteq> displayed_revision)
       (Err StaleDocumentRevisionError ''The rollback scope changed after it was displayed''))
     (bindP (clockP env) (\<lambda>now.
     bindP (new_idP env ''approval'') (\<lambda>aid.
     bindP (liftP (issue_rollback_approval (hs_hmac env) aid (rs_job_id scope) (rs_document_id scope)
        (rs_checkpoint_id scope) (rs_current_revision scope) approved_by (hs_secret env)
        (hs_rollback_ttl env) now)) (\<lambda>(approval, token).
     thenP (logP env ROLLBACK_APPROVAL_GRANTED (Some jid) ''engineer'' approved_by
        [(''approval_id'', PStr (rb_approval_id approval)),
         (''document_id'', PStr (rb_document_id approval)),
         (''checkpoint_id'', PStr (rb_checkpoint_id approval)),
         (''current_revision'', PStr (rb_current_revision approval)),
         (''expires_at'', PStr (isoformat (rb_expires_at approval)))])
     (retP (approval, token)))))))"

subsection \<open>Rollback: journal and token\<close>

definition is_exact_recovery ::
  "durable_recovery \<Rightarrow> cad_job \<Rightarrow> string \<Rightarrow> string \<Rightarrow> string \<Rightarrow> bool res" where
  "is_exact_recovery r job cp revn digest =
     (if recovery_matches_scope r (cj_job_id job) (cj_document_id job) cp revn
      then compare_digest (dv_approval_token_digest r) digest else Inr False)"

definition check_recovery ::
  "('a, 'm) harness_env \<Rightarrow> durable_recovery option \<Rightarrow> bool \<Rightarrow> cad_job \<Rightarrow> string \<Rightarrow> string \<Rightarrow> string \<Rightarrow>
   unit res" where
  "check_recovery env recovery has_receipt job cp revn digest =
     (case recovery of None \<Rightarrow> Inr ()
      | Some r \<Rightarrow> bindR (is_exact_recovery r job cp revn digest) (\<lambda>exact.
          if has_receipt \<or> \<not> ad_allows_expired_checkpoint_recovery (hs_adapter env) \<or> \<not> exact
          then Inl (Err ApprovalScopeMismatchError
                 ''Rollback recovery does not match the exact journaled attempt'')
          else Inr ()))"

text \<open>The approval of a rollback and whether it was accepted as a durable recovery only.\<close>

definition rollback_approval ::
  "('a, 'm) harness_env \<Rightarrow> bool \<Rightarrow> cad_job \<Rightarrow> string \<Rightarrow> string \<Rightarrow> string \<Rightarrow>
   ('a, rollback_record \<times> bool) call" where
  "rollback_approval env has_receipt job cp revn token =
     catchP
       (bindP (clockP env) (\<lambda>now.
        bindP (liftP (verify_rollback_approval_token (hs_hmac env) (hs_parse_dt env) token (hs_secret env)
          (cj_job_id job) (cj_document_id job) cp revn now)) (\<lambda>a. retP (a, False))))
       (\<lambda>e. if exc_class e \<noteq> Some ApprovalExpiredError \<or> has_receipt \<or>
               \<not> ad_allows_expired_checkpoint_recovery (hs_adapter env)
            then raiseP e
            else bindP (clockP env) (\<lambda>now.
              bindP (liftP (verify_rollback_recovery_token (hs_hmac env) (hs_parse_dt env) token
                (hs_secret env) (cj_job_id job) (cj_document_id job) cp revn now)) (\<lambda>a. retP (a, True))))"

definition rollback_gates ::
  "cad_job \<Rightarrow> (string \<times> string) option \<Rightarrow> string \<Rightarrow> string \<Rightarrow> unit res" where
  "rollback_gates job receipt cp revn =
     (if no_checkpoint job then Inl no_checkpoint_error
      else if cj_checkpoint_id job \<noteq> Some cp then Inl (Err RollbackNotAvailableError
        ''The requested checkpoint is not the checkpoint recorded for this job'')
      else if (case receipt of None \<Rightarrow> False | Some (_, r) \<Rightarrow> r \<noteq> revn) then Inl (Err StaleDocumentRevisionError
        ''The session undo receipt does not match the approved revision'')
      else Inr ())"

subsection \<open>Rollback: the write\<close>

definition drop_recovery :: "string \<Rightarrow> 'a world \<Rightarrow> 'a world" where
  "drop_recovery jid w = w\<lparr>w_recoveries := dpop (w_recoveries w) jid\<rparr>"

text \<open>The two \<open>except\<close> clauses around \<open>adapter.rollback\<close>; both re-raise.\<close>

definition rollback_failed ::
  "('a, 'm) harness_env \<Rightarrow> string \<Rightarrow> cad_job \<Rightarrow> (string \<times> string) option \<Rightarrow> string \<Rightarrow> string \<Rightarrow> string \<Rightarrow>
   exc \<Rightarrow> ('a, rollback_result) call" where
  "rollback_failed env jid job receipt cp revn digest e =
     thenP (modP (\<lambda>w.
       if exc_class e = Some RollbackRecoveryRequiredError \<and> receipt = None \<and>
          ad_allows_expired_checkpoint_recovery (hs_adapter env)
       then w\<lparr>w_recoveries := dset (w_recoveries w) jid
              \<lparr>dv_job_id = cj_job_id job, dv_document_id = cj_document_id job, dv_checkpoint_id = cp,
               dv_current_revision = revn, dv_approval_token_digest = digest\<rparr>\<rparr>
       else drop_recovery jid w))
     (raiseP e)"

definition rollback_under_lease ::
  "('a, 'm) harness_env \<Rightarrow> string \<Rightarrow> cad_job \<Rightarrow> (string \<times> string) option \<Rightarrow> bool \<Rightarrow> rollback_record \<Rightarrow>
   string \<Rightarrow> string \<Rightarrow> string \<Rightarrow> string \<Rightarrow> ('a, rollback_result) call" where
  "rollback_under_lease env jid job receipt fenced approval cp revn token digest =
     bindP (if fenced then retP True
            else adapterP (ad_validate_revision (hs_adapter env) (cj_document_id job) revn)) (\<lambda>current.
     thenP (failIf (\<not> current) (Err StaleDocumentRevisionError
       ''Document changed after rollback approval''))
     (thenP (logP env ROLLBACK_STARTED (Some jid) ''engineer'' (rb_approved_by approval)
        [(''approval_id'', PStr (rb_approval_id approval)), (''checkpoint_id'', PStr cp),
         (''current_revision'', PStr revn)])
     (bindP (catchP
        (adapterP (ad_rollback (hs_adapter env)
          \<lparr>rq_job_id = jid, rq_document_id = cj_document_id job, rq_checkpoint_id = cp,
           rq_current_revision = revn, rq_rollback_approval_token = token,
           rq_undo_group = map_option fst receipt\<rparr>))
        (rollback_failed env jid job receipt cp revn digest)) (\<lambda>result.
     bindP (transitionP env job ROLLED_BACK id) (\<lambda>rolled.
     thenP (store_put (save_job rolled))
     (thenP (modP (\<lambda>w. w\<lparr>w_undo := dpop (w_undo w) jid\<rparr>))
     (thenP (modP (drop_recovery jid))
     (retP result))))))))"

definition rollback ::
  "('a, 'm) harness_env \<Rightarrow> string \<Rightarrow> string \<Rightarrow> string \<Rightarrow> string \<Rightarrow> ('a, rollback_result) call" where
  "rollback env jid cp revn token =
     bindP (require_job jid) (\<lambda>job.
     bindP (getP (\<lambda>w. map_of (w_undo w) jid)) (\<lambda>receipt.
     bindP (getP (\<lambda>w. map_of (w_recoveries w) jid)) (\<lambda>recovery.
     let digest = rollback_approval_token_digest (hs_sha env) token in
     thenP (liftP (check_recovery env recovery (receipt \<noteq> None) job cp revn digest))
     (bindP (rollback_approval env (receipt \<noteq> None) job cp revn token) (\<lambda>(approval, durable).
     thenP (liftP (rollback_gates job receipt cp revn))
     (let fenced = (receipt \<noteq> None \<or> recovery \<noteq> None \<or> durable) in
     thenP (if fenced then retP () else require_compatible_writer env)
     (bindP (holdP env (cj_document_id job) (''rollback:'' @ jid)
        (rollback_under_lease env jid job receipt fenced approval cp revn token digest)) (\<lambda>result.
     thenP (logP env ROLLBACK_SUCCEEDED (Some jid) ''system'' ''harness''
        [(''restored_revision'', PStr (rr_restored_revision result)),
         (''method'', PStr (rollback_method_value (rr_method result)))])
     (retP result)))))))))"

subsection \<open>Export\<close>

definition export ::
  "('a, 'm) harness_env \<Rightarrow> string \<Rightarrow> string \<Rightarrow> string \<Rightarrow> bool \<Rightarrow> ('a, export_result) call" where
  "export env doc target fmt overwrite =
     thenP (require_compatible_writer env)
     (bindP (liftP (hs_export_path env target overwrite)) (\<lambda>resolved.
     bindP (adapterP (ad_export (hs_adapter env)
        \<lparr>xq_document_id = doc, xq_format = fmt, xq_target_path = resolved, xq_overwrite = overwrite\<rparr>)) (\<lambda>result.
     thenP (logP env EXPORT_CREATED None ''engineer'' ''unknown''
        [(''format'', PStr fmt), (''target_path'', PStr resolved)])
     (retP result))))"

end
