(* ===== verification/HarnessLogic.thy ===== *)
theory HarnessLogic
  imports HarnessRollback
begin

section \<open>A program logic for the calls of the service\<close>

text \<open>
  Triples over programs that may raise: \<open>triple P m Q E\<close> says that from a state with \<open>P\<close> a normal
  end of \<open>m\<close> satisfies \<open>Q\<close> and a raised exception satisfies \<open>E\<close>. The rules run forward through a
  program: what a step reads becomes a fact, a step that leaves the part of the world that \<open>P\<close>
  speaks about alone is skipped. The frame lemmas say which part of the world each helper of the
  service may change.
\<close>

named_theorems triple_intro \<open>forward rules of the program logic\<close>

definition triple ::
  "('s \<Rightarrow> bool) \<Rightarrow> ('e, 's, 'a) prog \<Rightarrow> ('a \<Rightarrow> 's \<Rightarrow> bool) \<Rightarrow> ('e \<Rightarrow> 's \<Rightarrow> bool) \<Rightarrow> bool" where
  "triple P m Q E \<longleftrightarrow> (\<forall>s. P s \<longrightarrow> (case m s of (Inr x, t) \<Rightarrow> Q x t | (Inl e, t) \<Rightarrow> E e t))"

definition stable :: "('s \<Rightarrow> bool) \<Rightarrow> ('e, 's, 'a) prog \<Rightarrow> bool" where
  "stable P m \<longleftrightarrow> triple P m (\<lambda>_. P) (\<lambda>_. P)"

lemma tripleD_Inr: "triple P m Q E \<Longrightarrow> P s \<Longrightarrow> m s = (Inr x, t) \<Longrightarrow> Q x t"
  unfolding triple_def by fastforce

lemma tripleD_Inl: "triple P m Q E \<Longrightarrow> P s \<Longrightarrow> m s = (Inl e, t) \<Longrightarrow> E e t"
  unfolding triple_def by fastforce

lemma tripleI:
  assumes "\<And>s x t. P s \<Longrightarrow> m s = (Inr x, t) \<Longrightarrow> Q x t"
    and "\<And>s e t. P s \<Longrightarrow> m s = (Inl e, t) \<Longrightarrow> E e t"
  shows "triple P m Q E"
  unfolding triple_def using assms by (auto split: prod.splits sum.splits)

lemma triple_iff:
  "triple P m Q E \<longleftrightarrow>
     (\<forall>s x t. P s \<longrightarrow> m s = (Inr x, t) \<longrightarrow> Q x t) \<and> (\<forall>s e t. P s \<longrightarrow> m s = (Inl e, t) \<longrightarrow> E e t)"
  using tripleD_Inr [of P m Q E] tripleD_Inl [of P m Q E] tripleI [of P m Q E] by auto

lemma triple_conseq:
  assumes "triple P' m Q' E'" and "\<And>s. P s \<Longrightarrow> P' s" and "\<And>x s. Q' x s \<Longrightarrow> Q x s"
    and "\<And>e s. E' e s \<Longrightarrow> E e s"
  shows "triple P m Q E"
proof (rule tripleI)
  fix s x t
  assume "P s" and "m s = (Inr x, t)"
  with tripleD_Inr [OF assms(1)] assms(2,3) show "Q x t" by blast
next
  fix s e t
  assume "P s" and "m s = (Inl e, t)"
  with tripleD_Inl [OF assms(1)] assms(2,4) show "E e t" by blast
qed

lemma triple_pre: "triple P' m Q E \<Longrightarrow> (\<And>s. P s \<Longrightarrow> P' s) \<Longrightarrow> triple P m Q E"
  by (rule triple_conseq)

lemma triple_facts:
  assumes "\<And>s. P s \<Longrightarrow> F" and "F \<Longrightarrow> triple P m Q E"
  shows "triple P m Q E"
proof (cases "\<exists>s. P s")
  case True
  with assms show ?thesis by blast
next
  case False
  then show ?thesis by (simp add: triple_def)
qed

lemma triple_all:
  assumes "\<And>s. P s \<Longrightarrow> triple (\<lambda>t. t = s) m Q E"
  shows "triple P m Q E"
  using assms by (simp add: triple_def)

lemma triple_ex:
  assumes "\<And>y. triple (R y) m Q E"
  shows "triple (\<lambda>s. \<exists>y. R y s) m Q E"
proof (rule tripleI)
  fix s x t
  assume "\<exists>y. R y s" and "m s = (Inr x, t)"
  then show "Q x t" using tripleD_Inr [OF assms] by blast
next
  fix s e t
  assume "\<exists>y. R y s" and "m s = (Inl e, t)"
  then show "E e t" using tripleD_Inl [OF assms] by blast
qed

lemma triple_pure: "(F \<Longrightarrow> triple P m Q E) \<Longrightarrow> triple (\<lambda>s. F \<and> P s) m Q E"
  by (simp add: triple_def)

lemma triple_pure': "(F \<Longrightarrow> triple P m Q E) \<Longrightarrow> triple (\<lambda>s. P s \<and> F) m Q E"
  by (simp add: triple_def)

lemma triple_keeps:
  assumes "keeps R m" and "\<And>s t x. P s \<Longrightarrow> R s t \<Longrightarrow> Q x t" and "\<And>s t e. P s \<Longrightarrow> R s t \<Longrightarrow> E e t"
  shows "triple P m Q E"
proof (rule tripleI)
  fix s x t
  assume "P s" and "m s = (Inr x, t)"
  with keepsD [OF assms(1)] assms(2) show "Q x t" by blast
next
  fix s e t
  assume "P s" and "m s = (Inl e, t)"
  with keepsD [OF assms(1)] assms(3) show "E e t" by blast
qed

lemma stable_keeps: "keeps R m \<Longrightarrow> (\<And>s t. R s t \<Longrightarrow> P s \<Longrightarrow> P t) \<Longrightarrow> stable P m"
  unfolding stable_def by (rule triple_keeps) blast+

subsection \<open>Rules\<close>

lemma triple_retP [triple_intro]: "(\<And>s. P s \<Longrightarrow> Q x s) \<Longrightarrow> triple P (retP x) Q E"
  by (simp add: triple_def prog_defs)

lemma triple_raiseP [triple_intro]: "(\<And>s. P s \<Longrightarrow> E e s) \<Longrightarrow> triple P (raiseP e) Q E"
  by (simp add: triple_def prog_defs)

lemma triple_modP: "(\<And>s. P s \<Longrightarrow> Q () (g s)) \<Longrightarrow> triple P (modP g) Q E"
  by (simp add: triple_def prog_defs)

lemma triple_liftP:
  "(\<And>s x. P s \<Longrightarrow> r = Inr x \<Longrightarrow> Q x s) \<Longrightarrow> (\<And>s e. P s \<Longrightarrow> r = Inl e \<Longrightarrow> E e s) \<Longrightarrow> triple P (liftP r) Q E"
  by (auto simp: triple_def prog_defs split: sum.splits)

lemma triple_bindP:
  assumes "triple P m R E" and "\<And>x. triple (R x) (f x) Q E"
  shows "triple P (bindP m f) Q E"
  unfolding triple_def
proof (intro allI impI)
  fix s
  assume P: "P s"
  obtain r t where m: "m s = (r, t)" by (cases "m s")
  show "case bindP m f s of (Inr x, t) \<Rightarrow> Q x t | (Inl e, t) \<Rightarrow> E e t"
  proof (cases r)
    case (Inl e)
    with m tripleD_Inl [OF assms(1) P] show ?thesis by (simp add: bindP_def)
  next
    case (Inr x)
    with m tripleD_Inr [OF assms(1) P] have "R x t" by simp
    with assms(2) [of x] have "case f x t of (Inr x, t) \<Rightarrow> Q x t | (Inl e, t) \<Rightarrow> E e t"
      by (simp add: triple_def)
    with m Inr show ?thesis by (simp add: bindP_def)
  qed
qed

lemma triple_bindP':
  "triple P m R E' \<Longrightarrow> (\<And>x. triple (R x) (f x) Q E) \<Longrightarrow> (\<And>e s. E' e s \<Longrightarrow> E e s) \<Longrightarrow>
   triple P (bindP m f) Q E"
  by (rule triple_bindP [where R = R]) (auto intro: triple_conseq)

lemma triple_thenP: "triple P m (\<lambda>_. R) E \<Longrightarrow> triple R k Q E \<Longrightarrow> triple P (thenP m k) Q E"
  unfolding thenP_def by (rule triple_bindP)

lemma triple_catchP:
  assumes "triple P m Q E'" and "\<And>e. triple (E' e) (h e) Q E"
  shows "triple P (catchP m h) Q E"
  unfolding triple_def
proof (intro allI impI)
  fix s
  assume P: "P s"
  obtain r t where m: "m s = (r, t)" by (cases "m s")
  show "case catchP m h s of (Inr x, t) \<Rightarrow> Q x t | (Inl e, t) \<Rightarrow> E e t"
  proof (cases r)
    case (Inr x)
    with m tripleD_Inr [OF assms(1) P] show ?thesis by (simp add: catchP_def)
  next
    case (Inl e)
    with m tripleD_Inl [OF assms(1) P] have "E' e t" by simp
    with assms(2) [of e] have "case h e t of (Inr x, t) \<Rightarrow> Q x t | (Inl e, t) \<Rightarrow> E e t"
      by (simp add: triple_def)
    with m Inl show ?thesis by (simp add: catchP_def)
  qed
qed

lemma triple_finallyP:
  "triple P m (\<lambda>x s. Q x (g s)) (\<lambda>e s. E e (g s)) \<Longrightarrow> triple P (finallyP m g) Q E"
  unfolding triple_def finallyP_def by (fastforce split: prod.splits sum.splits)

lemma triple_If:
  "(b \<Longrightarrow> triple P m Q E) \<Longrightarrow> (\<not> b \<Longrightarrow> triple P k Q E) \<Longrightarrow> triple P (if b then m else k) Q E"
  by simp

lemma triple_option:
  "(x = None \<Longrightarrow> triple P m Q E) \<Longrightarrow> (\<And>y. x = Some y \<Longrightarrow> triple P (k y) Q E) \<Longrightarrow>
   triple P (case x of None \<Rightarrow> m | Some y \<Rightarrow> k y) Q E"
  by (cases x) simp_all

subsection \<open>Forward rules\<close>

lemma bind_getP:
  "(\<And>x. triple (\<lambda>s. P s \<and> f s = x) (k x) Q E) \<Longrightarrow> triple P (bindP (getP f) k) Q E"
  unfolding triple_def bindP_def getP_def by simp

lemma bind_liftP:
  "(\<And>x. r = Inr x \<Longrightarrow> triple P (k x) Q E) \<Longrightarrow> (\<And>e s. r = Inl e \<Longrightarrow> P s \<Longrightarrow> E e s) \<Longrightarrow>
   triple P (bindP (liftP r) k) Q E"
  unfolding triple_def bindP_def liftP_def by (auto split: sum.splits)

lemma then_liftP:
  "(\<And>x. r = Inr x \<Longrightarrow> triple P k Q E) \<Longrightarrow> (\<And>e s. r = Inl e \<Longrightarrow> P s \<Longrightarrow> E e s) \<Longrightarrow>
   triple P (thenP (liftP r) k) Q E"
  unfolding thenP_def by (rule bind_liftP)

lemma then_failIf:
  "(\<not> b \<Longrightarrow> triple P k Q E) \<Longrightarrow> (\<And>s. b \<Longrightarrow> P s \<Longrightarrow> E e s) \<Longrightarrow> triple P (thenP (failIf b e) k) Q E"
  unfolding triple_def thenP_def bindP_def failIf_def raiseP_def retP_def by auto

lemma bind_stable:
  "stable P m \<Longrightarrow> (\<And>x. triple P (k x) Q E) \<Longrightarrow> (\<And>e s. P s \<Longrightarrow> E e s) \<Longrightarrow> triple P (bindP m k) Q E"
  unfolding stable_def by (rule triple_bindP [where R = "\<lambda>_. P"]) (auto intro: triple_conseq)

lemma then_stable:
  "stable P m \<Longrightarrow> triple P k Q E \<Longrightarrow> (\<And>e s. P s \<Longrightarrow> E e s) \<Longrightarrow> triple P (thenP m k) Q E"
  unfolding thenP_def by (rule bind_stable)

subsection \<open>The parts of the world\<close>

text \<open>
  \<open>core\<close> is what the guarantees speak about: the store, the drawing, the leases, the process-local
  rollback receipts and the last snapshots. The other parts are the audit trail, the remediation cache
  and the input streams.
\<close>

definition core :: "'a world \<Rightarrow> job_store \<times> 'a \<times> lease_table \<times> lease_handle option \<times>
    (string \<times> (string \<times> string)) list \<times> (string \<times> durable_recovery) list \<times>
    (string \<times> document_snapshot) list" where
  "core w = (w_store w, w_adapter w, w_leases w, w_handle w, w_undo w, w_recoveries w, w_snapshots w)"

definition same_core :: "'a world \<Rightarrow> 'a world \<Rightarrow> bool" where
  "same_core w t \<longleftrightarrow> core t = core w"

lemma preord_same_core [simp]: "preord same_core"
  by (simp add: preord_def same_core_def)

lemma same_core_iff:
  "same_core w t \<longleftrightarrow> w_store t = w_store w \<and> w_adapter t = w_adapter w \<and> w_leases t = w_leases w \<and>
     w_handle t = w_handle w \<and> w_undo t = w_undo w \<and> w_recoveries t = w_recoveries w \<and>
     w_snapshots t = w_snapshots w"
  by (simp add: same_core_def core_def)

lemma keeps_zoomP:
  assumes "\<And>s. R s (put (snd (m (get s))) s)"
  shows "keeps R (zoomP get put m)"
  unfolding keeps_def
proof
  fix s
  obtain r t where "m (get s) = (r, t)" by (cases "m (get s)")
  with assms [of s] show "R s (snd (zoomP get put m s))" by (simp add: zoomP_def)
qed

lemma core_clockP: "keeps same_core (clockP env)"
  by (simp add: keeps_def clockP_def same_core_iff)

lemma core_freshP: "keeps same_core (freshP env)"
  by (simp add: keeps_def freshP_def same_core_iff)

lemma core_new_idP: "keeps same_core (new_idP env p)"
  unfolding new_idP_def by (intro keeps_bindP core_freshP keeps_retP preord_same_core)

lemma core_logP: "keeps same_core (logP env ty j at' a p)"
  unfolding logP_def
  by (intro keeps_bindP keeps_thenP core_clockP core_new_idP keeps_zoomP keeps_retP preord_same_core)
    (simp add: same_core_iff)

lemma core_transitionP: "keeps same_core (transitionP env job t u)"
  unfolding transitionP_def by (intro keeps_bindP core_clockP keeps_liftP preord_same_core)

lemma core_require_job: "keeps same_core (require_job jid)"
  unfolding require_job_def
  by (intro keeps_bindP keeps_getP keeps_case_option keeps_raiseP keeps_retP preord_same_core)

lemma core_require_plan: "keeps same_core (require_plan env jid)"
  unfolding require_plan_def
  by (intro keeps_bindP keeps_thenP keeps_getP keeps_case_option keeps_raiseP keeps_retP keeps_liftP
      keeps_If core_require_job preord_same_core)

lemma core_writer: "keeps same_core (require_compatible_writer env)"
  unfolding require_compatible_writer_def
  by (intro keeps_bindP keeps_thenP keeps_getP keeps_If keeps_retP keeps_liftP preord_same_core)

lemma core_remediation: "keeps same_core (load_remediation_for_plan jid plan)"
  unfolding load_remediation_for_plan_def
  by (intro keeps_bindP keeps_getP keeps_case_option keeps_If keeps_raiseP keeps_retP preord_same_core)
    (auto intro!: keeps_thenP keeps_modP keeps_retP keeps_raiseP simp: same_core_iff split: prod.splits)

lemma core_run_engine: "keeps same_core (run_engine env st plan r jid)"
  unfolding run_engine_def by (intro keeps_bindP core_new_idP keeps_liftP preord_same_core)

lemma core_check_approval: "keeps same_core (check_approval env job tok jid ph revn)"
  unfolding check_approval_def
  by (intro keeps_If keeps_retP keeps_bindP keeps_thenP keeps_getP keeps_case_option keeps_raiseP
      keeps_liftP core_clockP preord_same_core)

lemma core_authorise: "keeps same_core (authorise_commit env jid key revn ph tok)"
  unfolding authorise_commit_def
  by (intro keeps_bindP keeps_thenP keeps_failIf keeps_liftP keeps_getP keeps_retP core_require_job
      core_require_plan core_check_approval preord_same_core)

lemmas core_keeps =
  core_clockP core_freshP core_new_idP core_logP core_transitionP core_require_job core_require_plan
  core_writer core_remediation core_run_engine core_check_approval core_authorise

lemma stable_core: "keeps same_core m \<Longrightarrow> (\<And>s t. same_core s t \<Longrightarrow> P s \<Longrightarrow> P t) \<Longrightarrow> stable P m"
  by (rule stable_keeps)

subsection \<open>Reading the world\<close>

abbreviation at_core :: "'a world \<Rightarrow> 'a world \<Rightarrow> bool" where
  "at_core w s \<equiv> core s = core w"

lemma at_core_store: "at_core w s \<Longrightarrow> w_store s = w_store w"
  by (simp add: core_def)

lemma at_core_adapter: "at_core w s \<Longrightarrow> w_adapter s = w_adapter w"
  by (simp add: core_def)

lemma stable_at_core: "keeps same_core m \<Longrightarrow> stable (at_core w) m"
  by (rule stable_core) (auto simp: same_core_def)

lemmas bind_core = bind_stable [OF stable_at_core]
lemmas then_core = then_stable [OF stable_at_core]

lemma bind_getP_core:
  assumes "\<And>s. at_core w s \<Longrightarrow> f s = x" and "triple (at_core w) (k x) Q E"
  shows "triple (at_core w) (bindP (getP f) k) Q E"
proof (rule bind_getP)
  fix y
  show "triple (\<lambda>s. at_core w s \<and> f s = y) (k y) Q E"
    by (rule triple_facts [where F = "y = x"]) (use assms in \<open>auto intro: triple_pre\<close>)
qed

lemma bind_read_store:
  assumes "triple (at_core w) (k (f (w_store w))) Q E"
  shows "triple (at_core w) (bindP (getP (\<lambda>s. f (w_store s))) k) Q E"
proof (rule bind_getP_core)
  show "triple (at_core w) (k (f (w_store w))) Q E" by (rule assms)
  fix s :: "'a world"
  assume "at_core w s"
  then show "f (w_store s) = f (w_store w)" by (drule_tac at_core_store) simp
qed

lemma bind_require_job:
  assumes "\<And>job. get_job (w_store w) jid = Some job \<Longrightarrow> triple (at_core w) (k job) Q E"
    and "\<And>e s. at_core w s \<Longrightarrow> E e s"
  shows "triple (at_core w) (bindP (require_job jid) k) Q E"
proof (rule triple_bindP [where R = "\<lambda>job s. at_core w s \<and> get_job (w_store w) jid = Some job"])
  show "triple (at_core w) (require_job jid) (\<lambda>job s. at_core w s \<and> get_job (w_store w) jid = Some job) E"
    unfolding require_job_def
    by (rule bind_read_store) (intro triple_option triple_raiseP triple_retP conjI assms(2); simp)
  show "triple (\<lambda>s. at_core w s \<and> get_job (w_store w) jid = Some job) (k job) Q E" for job
    by (rule triple_facts [where F = "get_job (w_store w) jid = Some job"], simp)
      (rule triple_pre [OF assms(1)], simp_all)
qed

definition plan_in_force ::
  "('a, 'm) harness_env \<Rightarrow> job_store \<Rightarrow> string \<Rightarrow> operation_plan \<Rightarrow> cad_job \<Rightarrow> bool" where
  "plan_in_force env st jid plan job \<longleftrightarrow>
     get_job st jid = Some job \<and> get_plan st jid = Some plan \<and> pl_schema_version plan = SCHEMA_VERSION \<and>
     plan_is_bound env jid plan job = Inr True"

lemma plan_is_bound_True:
  "plan_is_bound env jid plan job = Inr True \<longleftrightarrow>
     (\<exists>h. pl_plan_hash plan = Some h \<and> verify_hash (hs_sha env) plan h = Inr True \<and> pl_job_id plan = jid \<and>
        cj_plan_id job = Some (pl_plan_id plan) \<and> cj_plan_hash job = Some h \<and>
        pl_document_id plan = cj_document_id job \<and>
        (cj_state job \<in> {PLANNED, PREVIEWED, VALIDATED, APPROVED, COMMITTING} \<longrightarrow>
           pl_expected_revision plan = cj_expected_revision job) \<and>
        pl_profile_ref plan = as_ref (hs_profile env))"
  by (auto simp: plan_is_bound_def bindR_Inr_iff split: option.splits)

lemma bind_require_plan:
  assumes "\<And>plan job. plan_in_force env (w_store w) jid plan job \<Longrightarrow> triple (at_core w) (k plan) Q E"
    and "\<And>e s. at_core w s \<Longrightarrow> E e s"
  shows "triple (at_core w) (bindP (require_plan env jid) k) Q E"
proof (rule triple_bindP
    [where R = "\<lambda>plan s. at_core w s \<and> (\<exists>job. plan_in_force env (w_store w) jid plan job)"])
  show "triple (at_core w) (require_plan env jid)
      (\<lambda>plan s. at_core w s \<and> (\<exists>job. plan_in_force env (w_store w) jid plan job)) E"
    unfolding require_plan_def
  proof (rule bind_read_store, rule triple_option)
    fix plan
    assume plan: "get_plan (w_store w) jid = Some plan"
    show "triple (at_core w) (thenP (liftP (require_current_plan_schema plan))
        (bindP (require_job jid) (\<lambda>job. bindP (liftP (plan_is_bound env jid plan job)) (\<lambda>ok.
          if ok then retP plan else raiseP (Err PlanHashMismatchError
            ''The stored plan body or job binding does not match its immutable plan hash'')))))
        (\<lambda>plan s. at_core w s \<and> (\<exists>job. plan_in_force env (w_store w) jid plan job)) E"
      by (intro then_liftP bind_require_job bind_liftP triple_If triple_retP triple_raiseP assms(2))
        (use plan in \<open>auto simp: plan_in_force_def require_current_plan_schema_def split: if_splits\<close>)
  qed (intro triple_raiseP assms(2))
  show "triple (\<lambda>s. at_core w s \<and> (\<exists>job. plan_in_force env (w_store w) jid plan job)) (k plan) Q E" for plan
    by (rule triple_facts [where F = "\<exists>job. plan_in_force env (w_store w) jid plan job"], simp)
      (use assms(1) in \<open>auto intro: triple_pre\<close>)
qed

subsection \<open>Symbolic execution\<close>

text \<open>A write moves the reference world on; \<open>thenP\<close> is pushed into branches and sequences.\<close>

lemma then_modP:
  assumes "\<And>s. at_core w s \<Longrightarrow> at_core w' (g s)" and "triple (at_core w') k Q E"
  shows "triple (at_core w) (thenP (modP g) k) Q E"
  by (rule triple_thenP [OF triple_modP assms(2)]) (rule assms(1))

lemma then_store_put:
  "triple (at_core (w\<lparr>w_store := f (w_store w)\<rparr>)) k Q E \<Longrightarrow> triple (at_core w) (thenP (store_put f) k) Q E"
  unfolding store_put_def
  by (rule then_modP [where w' = "w\<lparr>w_store := f (w_store w)\<rparr>"]) (simp_all add: core_def)

lemma bind_storeP:
  assumes "\<And>x st. m (w_store w) = (Inr x, st) \<Longrightarrow> triple (at_core (w\<lparr>w_store := st\<rparr>)) (k x) Q E"
    and "\<And>e st s. m (w_store w) = (Inl e, st) \<Longrightarrow> at_core (w\<lparr>w_store := st\<rparr>) s \<Longrightarrow> E e s"
  shows "triple (at_core w) (bindP (storeP m) k) Q E"
proof (rule triple_bindP
    [where R = "\<lambda>x s. \<exists>st. m (w_store w) = (Inr x, st) \<and> at_core (w\<lparr>w_store := st\<rparr>) s"])
  have at: "at_core (w\<lparr>w_store := snd (m (w_store w))\<rparr>) t" and r: "r = fst (m (w_store w))"
    if "at_core w s" and "storeP m s = (r, t)" for s r t
    using that by (auto simp: storeP_def zoomP_def core_def split: prod.splits)
  show "triple (at_core w) (storeP m)
      (\<lambda>x s. \<exists>st. m (w_store w) = (Inr x, st) \<and> at_core (w\<lparr>w_store := st\<rparr>) s) E"
  proof (rule tripleI)
    fix s x t
    assume "at_core w s" and "storeP m s = (Inr x, t)"
    from at [OF this] r [OF this]
    show "\<exists>st. m (w_store w) = (Inr x, st) \<and> at_core (w\<lparr>w_store := st\<rparr>) t"
      by (metis prod.collapse)
  next
    fix s e t
    assume "at_core w s" and "storeP m s = (Inl e, t)"
    from at [OF this] r [OF this] show "E e t"
      by (metis prod.collapse assms(2))
  qed
  show "triple (\<lambda>s. \<exists>st. m (w_store w) = (Inr x, st) \<and> at_core (w\<lparr>w_store := st\<rparr>) s) (k x) Q E" for x
    by (intro triple_ex triple_pure assms(1))
qed

lemma then_storeP:
  assumes "\<And>x st. m (w_store w) = (Inr x, st) \<Longrightarrow> triple (at_core (w\<lparr>w_store := st\<rparr>)) k Q E"
    and "\<And>e st s. m (w_store w) = (Inl e, st) \<Longrightarrow> at_core (w\<lparr>w_store := st\<rparr>) s \<Longrightarrow> E e s"
  shows "triple (at_core w) (thenP (storeP m) k) Q E"
  unfolding thenP_def using assms by (rule bind_storeP)

lemma bind_transition:
  assumes "\<And>now j. transition_to job t u now = Inr j \<Longrightarrow> triple (at_core w) (k j) Q E"
    and "\<And>e s. at_core w s \<Longrightarrow> E e s"
  shows "triple (at_core w) (bindP (transitionP env job t u) k) Q E"
proof (rule triple_bindP [where R = "\<lambda>j s. at_core w s \<and> (\<exists>now. transition_to job t u now = Inr j)"])
  show "triple (at_core w) (transitionP env job t u)
      (\<lambda>j s. at_core w s \<and> (\<exists>now. transition_to job t u now = Inr j)) E"
    unfolding transitionP_def
    by (intro bind_core core_clockP triple_liftP assms(2)) auto
  show "triple (\<lambda>s. at_core w s \<and> (\<exists>now. transition_to job t u now = Inr j)) (k j) Q E" for j
    by (rule triple_facts [where F = "\<exists>now. transition_to job t u now = Inr j"], simp)
      (use assms(1) in \<open>auto intro: triple_pre\<close>)
qed

lemma bindP_bindP: "bindP (bindP m f) g = bindP m (\<lambda>x. bindP (f x) g)"
  by (simp add: fun_eq_iff bindP_def split: prod.splits sum.splits)

lemma thenP_bindP: "thenP (bindP m f) k = bindP m (\<lambda>x. thenP (f x) k)"
  by (simp add: thenP_def bindP_bindP)

lemma bindP_thenP: "bindP (thenP m k) f = thenP m (bindP k f)"
  by (simp add: thenP_def bindP_bindP)

lemma thenP_thenP: "thenP (thenP m k) l = thenP m (thenP k l)"
  by (simp add: thenP_def bindP_bindP)

lemma thenP_retP: "thenP (retP x) k = k"
  by (simp add: fun_eq_iff prog_defs)

lemma bindP_retP: "bindP (retP x) k = k x"
  by (simp add: fun_eq_iff prog_defs)

lemma thenP_If: "thenP (if b then m else n) k = (if b then thenP m k else thenP n k)"
  by simp

lemma bindP_option:
  "bindP (case x of None \<Rightarrow> m | Some y \<Rightarrow> n y) k = (case x of None \<Rightarrow> bindP m k | Some y \<Rightarrow> bindP (n y) k)"
  by (cases x) simp_all

lemma thenP_option:
  "thenP (case x of None \<Rightarrow> m | Some y \<Rightarrow> n y) k = (case x of None \<Rightarrow> thenP m k | Some y \<Rightarrow> thenP (n y) k)"
  by (cases x) simp_all

lemmas prog_assoc =
  bindP_bindP thenP_bindP bindP_thenP thenP_thenP thenP_retP bindP_retP thenP_If bindP_option thenP_option

lemma bind_clock:
  "(\<And>n. triple (at_core w) (k (hs_clock env n)) Q E) \<Longrightarrow> triple (at_core w) (bindP (clockP env) k) Q E"
  by (simp add: triple_def bindP_def clockP_def core_def)

subsection \<open>Recording an event\<close>

text \<open>An audit event with a flat payload is always recorded; its world only grows by the event.\<close>

fun flat :: "pyval \<Rightarrow> bool" where
  "flat PNone = True" | "flat (PBool b) = True" | "flat (PInt i) = True" | "flat (PStr s) = True" | "flat v = False"

lemma flat_opt_str [simp]: "flat (opt_str x)"
  by (cases x) (simp_all add: opt_str_def)

lemma redact_flat:
  "list_all (\<lambda>p. flat (snd p)) d \<Longrightarrow>
   \<exists>d'. redact_payload sha b (PDict d) = PDict d' \<and> list_all (\<lambda>p. flat (snd p)) d'"
proof (induction d)
  case (Cons p d)
  then obtain d' where d': "redact_payload sha b (PDict d) = PDict d'" "list_all (\<lambda>p. flat (snd p)) d'"
    by auto
  obtain k v where p: "p = (k, v)" by (cases p)
  from Cons.prems p have "flat v" by simp
  with d' p show ?case by (cases v) auto
qed simp

lemma normalize_flat: "flat v \<Longrightarrow> normalize v = Inr v"
  by (cases v) auto

lemma traverse_flat:
  "list_all (\<lambda>p. flat (snd p)) d \<Longrightarrow>
   traverse (\<lambda>p. bindR (normalize (snd p)) (\<lambda>v. Inr (fst p, v))) d = Inr d"
  by (induction d) (auto simp: normalize_flat)

lemma normalize_flat_dict:
  assumes "list_all (\<lambda>p. flat (snd p)) d"
  shows "normalize (PDict d) = Inr (PDict (sort_key fst d))"
proof -
  have "list_all (\<lambda>p. flat (snd p)) (sort_key fst d)" using assms by (simp add: list_all_iff)
  then show ?thesis by (simp add: traverse_flat)
qed

lemma audit_append_flat:
  assumes "list_all (\<lambda>p. flat (snd p)) d"
  shows "\<exists>e. audit_append sha eid t ty j aty a d es = (Inr eid, es @ [e])"
proof -
  from redact_flat [OF assms] obtain d' where d': "redact_payload sha True (PDict d) = PDict d'"
    "list_all (\<lambda>p. flat (snd p)) d'" by blast
  have "\<exists>h. sha256_of sha (event_body eid ty j aty a (PDict d') t (last_hash es)) = Inr h"
    by (simp only: sha256_of_def canonical_json_def normalize_event_body normalize_flat_dict [OF d'(2)]
        bindR_simps) simp
  with d'(1) show ?thesis by (auto simp: audit_append_def Let_def)
qed

definition logged ::
  "('a, 'm) harness_env \<Rightarrow> audit_event_type \<Rightarrow> string option \<Rightarrow> string \<Rightarrow> string \<Rightarrow> pydict \<Rightarrow>
   'a world \<Rightarrow> 'a world" where
  "logged env ty j aty a d w = snd (logP env ty j aty a d w)"

lemma logP_flat:
  assumes "list_all (\<lambda>p. flat (snd p)) d"
  shows "logP env ty j aty a d w = (Inr (), logged env ty j aty a d w)"
  using audit_append_flat [OF assms, of "hs_sha env" "''evt'' @ ''_'' @ hs_ids env (w_fresh w)"
      "hs_clock env (w_ticks w)" "audit_event_value ty" j aty a "w_audit w"]
  by (auto simp: logged_def logP_def new_idP_def clockP_def freshP_def zoomP_def prog_defs)

lemma logged_core [simp]:
  "w_store (logged env ty j aty a d w) = w_store w" "w_adapter (logged env ty j aty a d w) = w_adapter w"
  "w_leases (logged env ty j aty a d w) = w_leases w" "w_handle (logged env ty j aty a d w) = w_handle w"
  "w_undo (logged env ty j aty a d w) = w_undo w" "w_recoveries (logged env ty j aty a d w) = w_recoveries w"
  "w_snapshots (logged env ty j aty a d w) = w_snapshots w"
  "w_remediation_jobs (logged env ty j aty a d w) = w_remediation_jobs w"
  "w_drawing_audits (logged env ty j aty a d w) = w_drawing_audits w"
  by (simp_all add: logged_def logP_def new_idP_def clockP_def freshP_def zoomP_def prog_defs
      split: prod.splits sum.splits)

end
