(* ===== verification/HarnessDemo.thy ===== *)
theory HarnessDemo
  imports HarnessLogic
begin

section \<open>A concrete harness\<close>

text \<open>
  A configuration small enough to run by hand: the drawing is a counter of its revisions, the plan has
  no operation, the clock stands still. The witnesses of the harness theorems run the service on it.
\<close>

definition demo_rev :: "nat \<Rightarrow> string" where
  "demo_rev n = CHR ''r'' # replicate (Suc n) (CHR ''1'')"

definition counter_snapshot :: "nat \<Rightarrow> document_snapshot" where
  "counter_snapshot n =
     \<lparr>ds_document_id = ''doc_1'', ds_revision = demo_rev n, ds_path_hash = ''p'', ds_display_name = ''d'',
      ds_units = Some MM, ds_layers = [], ds_dimension_styles = [], ds_text_styles = [],
      ds_entity_count = 0\<rparr>"

definition demo_adapter :: "nat adapter" where
  "demo_adapter =
     \<lparr>ad_type = ''fake'', ad_supported_operations = [], ad_allows_expired_checkpoint_recovery = False,
      ad_status = (\<lambda>n. \<lparr>sa_adapter_type = ''fake'', sa_available = True, sa_capabilities = [],
        sa_cad_version = None, sa_version_supported = None, sa_active_document_id = Some ''doc_1''\<rparr>),
      ad_inspect_document = (\<lambda>doc n. (Inr (counter_snapshot n), n)),
      ad_validate_revision = (\<lambda>doc r n. (Inr (r = demo_rev n), n)),
      ad_commit = (\<lambda>q n. (Inr
        \<lparr>cr_schema_version = SCHEMA_VERSION, cr_job_id = pl_job_id (cq_plan q),
         cr_plan_hash = the (pl_plan_hash (cq_plan q)), cr_status = STATUS_COMMITTED, cr_entity_results = [],
         cr_previous_revision = demo_rev n, cr_new_revision = demo_rev (Suc n), cr_checkpoint_id = Some ''cp_1'', cr_undo_group = None\<rparr>, Suc n)),
      ad_rollback = (\<lambda>q n. (Inr
        \<lparr>rr_job_id = rq_job_id q, rr_restored_revision = demo_rev (n - 1),
         rr_checkpoint_id = Some (rq_checkpoint_id q), rr_method = CHECKPOINT_RESTORE_METHOD\<rparr>, n - 1)),
      ad_export = (\<lambda>q n. (Inr
        \<lparr>xr_document_id = xq_document_id q, xr_format = xq_format q, xr_artifact_ref = xq_target_path q,
         xr_byte_size = None\<rparr>, n))\<rparr>"

definition bare_profile :: company_profile where
  "bare_profile =
     \<lparr>pf_profile_id = ''demo'', pf_version = ''1'', pf_company_approved = True, pf_canonical_unit = ''mm'',
      pf_general_tolerance = None, pf_dimension_style = None, pf_text_style = None,
      pf_dimension_styles = [], pf_text_styles = [], pf_layers = [],
      pf_layer_map = [], pf_entity_layer_map = [], pf_minimum_hole_edge_distance_mm = None, pf_minimum_hole_ligament_mm = None,
      pf_tolerance_profile_ref = ''t'', pf_allowed_defaults = [],
      pf_annotation_rules = \<lparr>ar_hole_callout_min_count = None, ar_hole_table = None,
        ar_text_height_mm = None, ar_maximum_text_overlap_ratio = None, ar_placement_offsets_mm = []\<rparr>,
      pf_layout_rules = \<lparr>ly_layout_name = None, ly_viewport_scale = None, ly_print_scale = None,
        ly_view_spacing_mm = None\<rparr>,
      pf_title_block_fields = []\<rparr>"

definition zero_sha :: "string \<Rightarrow> string" where
  "zero_sha m = ''0''"

definition demo_sign :: "string \<Rightarrow> string \<Rightarrow> string" where
  "demo_sign k m = replicate 64 (CHR ''0'')"

definition demo_env :: "(nat, unit) harness_env" where
  "demo_env =
     \<lparr>hs_adapter = demo_adapter, hs_rules = [], hs_profile = bare_profile,
      hs_lease = \<lparr>ls_ttl = 60000000, ls_heartbeat_interval = 10000000, ls_minimum_remaining = 10000000\<rparr>,
      hs_secret = ''key'', hs_require_approval = True, hs_approval_ttl = 900000000,
      hs_rollback_ttl = 900000000, hs_matrix = \<lparr>cm_bridge_bundle_version = ''1'', cm_targets = []\<rparr>,
      hs_sha = zero_sha, hs_hmac = demo_sign, hs_parse_dt = demo_parse,
      hs_parse_spec = (\<lambda>d. Inl AssertionError),
      hs_compile = (\<lambda>spec j r p. Inl AssertionError), hs_reader = None,
      hs_model_revision = (\<lambda>m. []), hs_remediate = (\<lambda>j m a s t d p. Inl AssertionError),
      hs_audit_drawing = (\<lambda>m j l. Inl AssertionError), hs_render = (\<lambda>p. Inr []),
      hs_export_path = (\<lambda>p b. Inr p), hs_clock = (\<lambda>n. 0), hs_ids = (\<lambda>n. ''1''),
      hs_heartbeats = (\<lambda>n. [])\<rparr>"

definition demo_hash :: string where
  "demo_hash = ''sha256:0''"

definition demo_hashed_plan :: operation_plan where
  "demo_hashed_plan = demo_plan\<lparr>pl_plan_hash := Some demo_hash\<rparr>"

definition demo_job :: "job_state \<Rightarrow> cad_job" where
  "demo_job st =
     \<lparr>cj_job_id = ''job_1'', cj_document_id = ''doc_1'', cj_expected_revision = ''r1'', cj_state = st,
      cj_spec_id = None, cj_spec_version = 0, cj_plan_id = Some ''plan_1'', cj_plan_hash = Some demo_hash,
      cj_approval_id = Some ''approval_1'', cj_checkpoint_id = None, cj_created_at = 0, cj_updated_at = 0\<rparr>"

definition demo_report :: validation_report where
  "demo_report = mk_report ''validation_1'' ''job_1'' PRE_COMMIT (Some demo_hash) [] 0 True (Some ''demo@1'')"

definition demo_issued :: "approval_record \<times> string" where
  "demo_issued = (case issue_approval demo_sign ''approval_1'' ''job_1'' ''doc_1'' demo_hash ''r1'' ''eng''
     ''key'' 900000000 [] 0 of Inr x \<Rightarrow> x)"

text \<open>A world with one job, its plan, report and approval; the drawing is at its first revision.\<close>

definition demo_world :: "job_state \<Rightarrow> nat world" where
  "demo_world st =
     \<lparr>w_store = empty_store\<lparr>st_jobs := [(''job_1'', demo_job st)],
        st_plans := [(''job_1'', demo_hashed_plan)], st_validations := [(''job_1'', demo_report)],
        st_approvals := [(''approval_1'', fst demo_issued)]\<rparr>,
      w_audit = [], w_leases = [], w_adapter = 0, w_snapshots = [], w_undo = [], w_recoveries = [],
      w_remediation_jobs = [], w_drawing_audits = None, w_handle = None, w_ticks = 0, w_fresh = 0,
      w_beats = 0\<rparr>"

subsection \<open>Its pieces evaluated\<close>

lemma demo_issue:
  "issue_approval demo_sign ''approval_1'' ''job_1'' ''doc_1'' demo_hash ''r1'' ''eng'' ''key'' 900000000 [] 0 =
     Inr demo_issued"
  by (simp add: demo_issued_def issue_approval_def make_approval_token_def Let_def)

lemma demo_sign_shape: "length (demo_sign k m) = 64 \<and> is_ascii (demo_sign k m)"
  by (simp add: demo_sign_def is_ascii_def list_all_iff)

lemma demo_token_verifies:
  "verify_approval_token demo_sign (snd demo_issued) (fst demo_issued) ''key'' ''job_1'' demo_hash ''r1'' 0 = Inr ()"
proof (rule issued_token_verifies)
  show "issue_approval demo_sign ''approval_1'' ''job_1'' ''doc_1'' demo_hash ''r1'' ''eng'' ''key''
      900000000 [] 0 = Inr (fst demo_issued, snd demo_issued)"
    by (simp add: demo_issue)
qed (simp_all add: demo_sign_shape)

lemma demo_compute_hash: "compute_hash zero_sha demo_hashed_plan = Inr demo_hash"
  by (simp add: compute_hash_def compute_plan_hash_def sha256_of_def canonical_json_def demo_plan_def
      demo_hashed_plan_def demo_hash_def zero_sha_def plan_dump_def VOLATILE_FIELDS_def
      PLAN_IDENTITY_FIELDS_def less_eq_list_code less_list_code)

lemma demo_plan_in_force:
  "cj_state job \<in> {PLANNED, PREVIEWED, VALIDATED, APPROVED, COMMITTING} \<Longrightarrow> job = demo_job (cj_state job) \<Longrightarrow>
   plan_is_bound demo_env ''job_1'' demo_hashed_plan job = Inr True"
  using demo_compute_hash
  by (auto simp: plan_is_bound_def verify_hash_def demo_env_def demo_hashed_plan_def demo_plan_def demo_job_def
      as_ref_def bare_profile_def)

subsection \<open>Running the service\<close>

lemma demo_world_store [simp]:
  "get_job (w_store (demo_world st)) ''job_1'' = Some (demo_job st)"
  "get_plan (w_store (demo_world st)) ''job_1'' = Some demo_hashed_plan"
  "get_validation (w_store (demo_world st)) ''job_1'' = Some demo_report"
  "get_approval (w_store (demo_world st)) ''approval_1'' = Some (fst demo_issued)"
  "find_execution (w_store (demo_world st)) j k = None"
  "get_remediation (w_store (demo_world st)) j = None"
  by (simp_all add: demo_world_def get_job_def get_plan_def get_validation_def get_approval_def find_execution_def get_remediation_def empty_store_def)

lemma demo_env_simps [simp]: "hs_sha demo_env = zero_sha" "hs_hmac demo_env = demo_sign" "hs_secret demo_env = ''key''"
  "hs_clock demo_env n = 0" "hs_ids demo_env n = ''1''" "hs_require_approval demo_env = True" "hs_rules demo_env = []"
  "hs_adapter demo_env = demo_adapter" "hs_profile demo_env = bare_profile" "hs_heartbeats demo_env n = []"
  "ls_ttl (hs_lease demo_env) = 60000000" "hs_parse_dt demo_env = demo_parse"
  by (simp_all add: demo_env_def)

lemma demo_job_simps [simp]:
  "cj_job_id (demo_job st) = ''job_1''" "cj_document_id (demo_job st) = ''doc_1''"
  "cj_expected_revision (demo_job st) = ''r1''" "cj_state (demo_job st) = st"
  "cj_approval_id (demo_job st) = Some ''approval_1''" "cj_checkpoint_id (demo_job st) = None"
  "cj_plan_id (demo_job st) = Some ''plan_1''" "cj_plan_hash (demo_job st) = Some demo_hash"
  by (simp_all add: demo_job_def)

lemma demo_hashed_plan_simps [simp]:
  "pl_schema_version demo_hashed_plan = SCHEMA_VERSION" "pl_plan_hash demo_hashed_plan = Some demo_hash"
  "pl_operations demo_hashed_plan = []" "pl_profile_ref demo_hashed_plan = ''demo@1''"
  "pl_job_id demo_hashed_plan = ''job_1''"
  by (simp_all add: demo_hashed_plan_def demo_plan_def)

lemma demo_approval_simps [simp]: "ap_warnings_acknowledged (fst demo_issued) = []"
  using issue_approval_Inr [of demo_sign "''approval_1''" "''job_1''" "''doc_1''" demo_hash "''r1''"
      "''eng''" "''key''" 900000000 "[]" 0 "fst demo_issued" "snd demo_issued"] demo_issue
  by simp

lemma demo_adapter_simps [simp]:
  "ad_status demo_adapter n = \<lparr>sa_adapter_type = ''fake'', sa_available = True, sa_capabilities = [],
     sa_cad_version = None, sa_version_supported = None, sa_active_document_id = Some ''doc_1''\<rparr>"
  "ad_inspect_document demo_adapter doc n = (Inr (counter_snapshot n), n)"
  "ad_validate_revision demo_adapter d r n = (Inr (r = demo_rev n), n)"
  "ad_commit demo_adapter q n = (Inr
     \<lparr>cr_schema_version = SCHEMA_VERSION, cr_job_id = pl_job_id (cq_plan q),
      cr_plan_hash = the (pl_plan_hash (cq_plan q)), cr_status = STATUS_COMMITTED, cr_entity_results = [],
      cr_previous_revision = demo_rev n, cr_new_revision = demo_rev (Suc n),
      cr_checkpoint_id = Some ''cp_1'', cr_undo_group = None\<rparr>, Suc n)"
  "ad_rollback demo_adapter rq n = (Inr
     \<lparr>rr_job_id = rq_job_id rq, rr_restored_revision = demo_rev (n - 1),
      rr_checkpoint_id = Some (rq_checkpoint_id rq), rr_method = CHECKPOINT_RESTORE_METHOD\<rparr>, n - 1)"
  "ad_allows_expired_checkpoint_recovery demo_adapter = False"
  by (simp_all add: demo_adapter_def)

lemma counter_snapshot_simps [simp]:
  "ds_document_id (counter_snapshot n) = ''doc_1''" "ds_revision (counter_snapshot n) = demo_rev n"
  by (simp_all add: counter_snapshot_def)

lemma demo_require_job: "get_job (w_store w) ''job_1'' = Some job \<Longrightarrow> require_job ''job_1'' w = (Inr job, w)"
  by (simp add: require_job_def prog_defs)

lemma demo_require_plan:
  assumes "get_job (w_store w) ''job_1'' = Some (demo_job st)"
    and "get_plan (w_store w) ''job_1'' = Some demo_hashed_plan"
    and "st \<in> {PLANNED, PREVIEWED, VALIDATED, APPROVED, COMMITTING}"
  shows "require_plan demo_env ''job_1'' w = (Inr demo_hashed_plan, w)"
  using assms demo_plan_in_force [of "demo_job st"]
  by (simp add: require_plan_def require_job_def prog_defs require_current_plan_schema_def)

lemma demo_live: "missing_live_style_findings bare_profile demo_hashed_plan (counter_snapshot n) = []"
  by (simp add: missing_live_style_findings_def required_layers_def required_styles_def counter_snapshot_def
      bare_profile_def snapshot_units_value_def unit_value_def)

lemma demo_engine:
  "engine_run [] vid stage (plan_context demo_env demo_hashed_plan r) ''job_1'' None =
     Inr (mk_report vid ''job_1'' stage (Some demo_hash) [] 0 True (Some ''demo@1''))"
  by (simp add: engine_run_def rules_for_def plan_context_def bare_profile_def as_ref_def)

lemma demo_evidence:
  "evidence_allows (Some (fst demo_issued))
     (mk_report vid ''job_1'' PRE_COMMIT (Some demo_hash) [] n True (Some ''demo@1'')) demo_hashed_plan ''job_1''"
  by (simp add: evidence_allows_def validation_matches_plan_def gate_mk_report warning_ids_def)

definition demo_gates :: commit_gates where
  "demo_gates = \<lparr>cg_job = demo_job APPROVED, cg_plan = demo_hashed_plan, cg_digest = demo_hash,
     cg_previous = None, cg_approval = Some (fst demo_issued)\<rparr>"

lemma demo_request_digest: "commit_request_digest zero_sha ''job_1'' demo_hash ''r1'' = Inr demo_hash"
  by (simp add: commit_request_digest_def sha256_of_def canonical_json_def demo_hash_def zero_sha_def
      less_eq_list_code less_list_code)

lemma demo_authorise:
  "authorise_commit demo_env ''job_1'' ''key_1'' ''r1'' demo_hash (snd demo_issued) (demo_world APPROVED) =
     (Inr demo_gates, (demo_world APPROVED)\<lparr>w_ticks := Suc (w_ticks (demo_world APPROVED))\<rparr>)"
  by (simp add: authorise_commit_def prog_defs demo_require_job demo_require_plan
      require_current_plan_schema_def demo_request_digest check_approval_def recorded_approval_def clockP_def
      demo_token_verifies demo_gates_def)

lemmas service_run =
  prog_defs Let_def clockP_def freshP_def new_idP_def zoomP_def adapterP_def storeP_def store_put_def
  leasesP_def transitionP_def transition_to_def assert_transition_def logP_flat run_engine_def

lemma demo_check:
  assumes "w_store w = w_store (demo_world APPROVED)" and "w_adapter w = 0" and "w_remediation_jobs w = []"
    and "w_leases w = []"
  shows "\<exists>t. check_evidence demo_env demo_gates ''job_1'' ''r1'' w = (Inr None, t) \<and> w_adapter t = 0 \<and>
    w_leases t = []"
  using assms demo_evidence [of "''validation_1''" 0]
  by (simp add: check_evidence_def service_run demo_gates_def demo_report_def load_remediation_for_plan_def
      is_remediation_plan_def require_compatible_writer_def is_live_adapter_def harness_inspect_def
      validate_job_def demo_require_job demo_require_plan demo_engine with_live_findings_def demo_live
      snapshot_for_def demo_rev_def evidence_allows_def)

lemma demo_commit_run:
  assumes "w_adapter w = 0" and "w_handle w = Some (new_handle l)" and "0 < wl_expires_at l"
  shows "\<exists>r t. commit_under_lease demo_env demo_gates None ''job_1'' ''key_1'' ''r1'' demo_hash tok w = (Inr r, t) \<and>
    w_adapter t = 1"
  using assms
  by (simp add: commit_under_lease_def service_run demo_gates_def write_plan_def demo_engine
      commit_checkpoint_record_def post_commit_check_def mk_report_blocking conclude_commit_def beatP_def
      handle_valid_def new_handle_def is_valid_at_def finish_commit_def finalize_commit_def mark_if_def)

lemma demo_hold:
  assumes "w_leases w = []"
  shows "\<exists>w' l. holdP demo_env doc owner body w = finallyP body (drop_lease demo_env) w' \<and>
    w_adapter w' = w_adapter w \<and> w_store w' = w_store w \<and> w_handle w' = Some (new_handle l) \<and>
    0 < wl_expires_at l"
proof -
  let ?l = "\<lparr>wl_lease_id = ''lease_1'', wl_document_id = doc, wl_owner_id = owner, wl_acquired_at = 0,
    wl_expires_at = 60000000, wl_heartbeat_at = 0\<rparr>"
  let ?w = "w\<lparr>w_ticks := Suc (w_ticks w), w_fresh := Suc (w_fresh w), w_leases := [(doc, ?l)],
    w_handle := Some (new_handle ?l)\<rparr>"
  have "holdP demo_env doc owner body w = finallyP body (drop_lease demo_env) ?w"
    using assms by (simp add: holdP_def service_run try_acquire_def active_lease_def timestamps_are_ordered_def)
  moreover have "w_adapter ?w = w_adapter w \<and> w_store ?w = w_store w \<and> w_handle ?w = Some (new_handle ?l) \<and>
      0 < wl_expires_at ?l"
    by simp
  ultimately show ?thesis by blast
qed

lemma demo_service_commit:
  "\<exists>r t. commit demo_env ''job_1'' ''key_1'' ''r1'' demo_hash (snd demo_issued) (demo_world APPROVED) = (Inr r, t) \<and>
     w_adapter t = 1"
proof -
  let ?w = "(demo_world APPROVED)\<lparr>w_ticks := Suc (w_ticks (demo_world APPROVED))\<rparr>"
  have "w_adapter ?w = 0" "w_remediation_jobs ?w = []" "w_leases ?w = []" by (simp_all add: demo_world_def)
  with demo_check [of ?w] obtain w1
    where w1: "check_evidence demo_env demo_gates ''job_1'' ''r1'' ?w = (Inr None, w1)"
      "w_adapter w1 = 0" "w_leases w1 = []" by auto
  let ?body = "commit_under_lease demo_env demo_gates None ''job_1'' ''key_1'' ''r1'' demo_hash (snd demo_issued)"
  from demo_hold [OF w1(3), of "''doc_1''" "''job_1''" ?body] w1(2) obtain w2 l
    where w2: "holdP demo_env ''doc_1'' ''job_1'' ?body w1 = finallyP ?body (drop_lease demo_env) w2"
      "w_adapter w2 = 0" "w_handle w2 = Some (new_handle l)" "0 < wl_expires_at l" by auto
  obtain r t where "?body w2 = (Inr r, t)" "w_adapter t = 1"
    using demo_commit_run [OF w2(2-4), of "snd demo_issued"] by blast
  with w1(1) w2(1) show ?thesis
    by (auto simp: commit_def bindP_def demo_authorise demo_gates_def finallyP_def drop_lease_def
        split: option.splits)
qed

end
