(* ===== verification/FakeAdapter.thy ===== *)
theory FakeAdapter
  imports AdapterModel
begin

section \<open>The in-memory CAD adapter\<close>

text \<open>
  Models \<open>adapters/fake.py\<close>: the document, the staging of a plan against a private copy, the
  atomic apply, idempotent replay, rollback to a checkpoint, and the measurement of what was
  built. The stream \<open>ids\<close> supplies the checkpoint identifiers. A text where a number is
  expected raises \<open>ValueError\<close> (numeric texts are not parsed).
\<close>

record fake_entity =
  fe_entity_ref :: string
  fe_entity_type :: string
  fe_layer :: string
  fe_feature_id :: string
  fe_operation_id :: string
  fe_geometry :: pydict
  fe_measurements :: pydict

type_synonym entities = "(string \<times> fake_entity) list"

record fake_document =
  fd_document_id :: string
  fd_display_name :: string
  fd_units :: unit_of_length
  fd_entities :: entities
  fd_layers :: "string list"
  fd_write_counter :: nat
  fd_snapshots :: "(string \<times> entities) list"

record fake_adapter =
  fk_document :: fake_document
  fk_entity_counter :: nat
  fk_executions :: "(string \<times> commit_result) list"
  fk_next_id :: nat

definition fake_capabilities :: "adapter_capability list" where
  "fake_capabilities =
     [ATOMIC_TRANSACTION, CHECKPOINT_RESTORE, COMMIT, DOCUMENT_LOCK, EXPORT, INSPECT_DOCUMENT,
      INSPECT_SELECTION, PREVIEW, STABLE_METADATA, UNDO_GROUP]"

definition all_operation_types :: "operation_type list" where
  "all_operation_types =
     [CREATE_LINE, CREATE_POLYLINE, CREATE_CLOSED_POLYLINE, CREATE_CIRCLE, CREATE_CIRCLES, CREATE_ARC,
      CREATE_TEXT, CREATE_CENTERLINE, CREATE_CENTERMARK, CREATE_LINEAR_DIMENSION,
      CREATE_ALIGNED_DIMENSION, CREATE_DIAMETER_DIMENSION, CREATE_RADIUS_DIMENSION,
      CREATE_ANGULAR_DIMENSION, CREATE_HATCH, UPDATE_ENTITY, DELETE_ENTITY]"

subsection \<open>Reading numbers and sequences\<close>

fun to_float :: "pyval \<Rightarrow> pyfloat res" where
  "to_float (PBool b) = Inr (Fin (if b then 1 else 0))"
| "to_float (PInt i) = Inr (Fin (of_int i))"
| "to_float (PFloat x) = Inr x"
| "to_float (PStr s) = Inl (ValueError ''could not convert string to float'')"
| "to_float _ = Inl (TypeError ''float() argument must be a string or a real number'')"

fun iter_value :: "pyval \<Rightarrow> pyval list res" where
  "iter_value (PList xs) = Inr xs"
| "iter_value (PStr s) = Inr (map (\<lambda>c. PStr [c]) s)"
| "iter_value (PDict d) = Inr (map (PStr \<circ> fst) d)"
| "iter_value _ = Inl (TypeError ''object is not iterable'')"

fun index_value :: "pyval \<Rightarrow> nat \<Rightarrow> pyval res" where
  "index_value (PList xs) i =
     (if i < length xs then Inr (xs ! i) else Inl (IndexError ''list index out of range''))"
| "index_value (PStr s) i =
     (if i < length s then Inr (PStr [s ! i]) else Inl (IndexError ''string index out of range''))"
| "index_value (PDict d) i = Inl (KeyError (show_nat i))"
| "index_value _ i = Inl (TypeError ''object is not subscriptable'')"

definition get_default :: "pydict \<Rightarrow> string \<Rightarrow> pyval \<Rightarrow> pyval" where
  "get_default d k v = (case map_of d k of None \<Rightarrow> v | Some w \<Rightarrow> w)"

definition float_field :: "pydict \<Rightarrow> string \<Rightarrow> pyfloat res" where
  "float_field d k = to_float (get_default d k (PFloat (Fin 0)))"

definition floats_field :: "pydict \<Rightarrow> string \<Rightarrow> pyfloat list res" where
  "floats_field d k = bindR (iter_value (get_default d k (PList []))) (traverse to_float)"

definition floats_list :: "pyfloat list \<Rightarrow> pyval" where
  "floats_list xs = PList (map PFloat xs)"

text \<open>\<open>Point2D(*map(float, value))\<close>.\<close>

definition point_field :: "pydict \<Rightarrow> string \<Rightarrow> point2d res" where
  "point_field d k = bindR (floats_field d k) (\<lambda>xs.
     case xs of [x, y] \<Rightarrow> mk_point x y
     | _ \<Rightarrow> Inl (TypeError ''Point2D.__init__() takes two coordinates''))"

definition vertex_of :: "pyval \<Rightarrow> point2d res" where
  "vertex_of v = bindR (bindR (index_value v 0) to_float) (\<lambda>x.
     bindR (bindR (index_value v 1) to_float) (\<lambda>y. mk_point x y))"

definition pf_scale :: "real \<Rightarrow> pyfloat \<Rightarrow> pyfloat" where
  "pf_scale c x = (case x of Fin r \<Rightarrow> Fin (c * r) | _ \<Rightarrow> x)"

definition pf_disc :: "pyfloat \<Rightarrow> pyfloat" where
  "pf_disc r = (case r of Fin x \<Rightarrow> Fin (pi * x * x) | NotANumber \<Rightarrow> NotANumber | _ \<Rightarrow> PosInf)"

definition pf_negative :: "pyfloat \<Rightarrow> bool" where
  "pf_negative x = (case x of Fin r \<Rightarrow> r < 0 | NegInf \<Rightarrow> True | _ \<Rightarrow> False)"

text \<open>
  \<open>radius * math.radians((end - start) % 360.0)\<close>: the modulus of a difference that is not
  finite is NaN; an infinite radius times a sweep of zero is NaN.
\<close>

definition pf_arc_length :: "pyfloat \<Rightarrow> pyfloat \<Rightarrow> pyfloat \<Rightarrow> pyfloat" where
  "pf_arc_length radius s e =
     (case (s, e) of
        (Fin a, Fin b) \<Rightarrow>
          let sweep = fmod (b - a) 360 * pi / 180 in
          (case radius of Fin r \<Rightarrow> Fin (r * sweep)
           | NotANumber \<Rightarrow> NotANumber
           | _ \<Rightarrow> if sweep = 0 then NotANumber else radius)
      | _ \<Rightarrow> NotANumber)"

subsection \<open>Measurement\<close>

definition measure_polyline :: "operation \<Rightarrow> pydict res" where
  "measure_polyline o' =
     bindR (iter_value (get_default (op_geometry o') ''vertices_mm'' (PList []))) (\<lambda>vs.
     bindR (traverse vertex_of vs) (\<lambda>pts.
     let cl = (op_type o' = CREATE_CLOSED_POLYLINE) in
     bindR (mk_polyline pts cl) (\<lambda>p.
     bindR (polyline_box p) (\<lambda>box.
       Inr [(''closed'', PBool cl), (''vertex_count'', PInt (int (length pts))),
            (''width_mm'', PFloat (Fin (box_width box))),
            (''height_mm'', PFloat (Fin (box_height box))),
            (''area_mm2'', PFloat (Fin (if cl then area p else 0))),
            (''perimeter_mm'', PFloat (Fin (perimeter p)))]))))"

definition point_list :: "point2d \<Rightarrow> pyval" where
  "point_list p = PList [PFloat (Fin (px p)), PFloat (Fin (py p))]"

definition measure_line :: "operation \<Rightarrow> pydict res" where
  "measure_line o' =
     bindR (point_field (op_geometry o') ''start_mm'') (\<lambda>a.
     bindR (point_field (op_geometry o') ''end_mm'') (\<lambda>b.
       Inr [(''start_mm'', point_list a), (''end_mm'', point_list b),
            (''length_mm'', PFloat (Fin (distance_to a b)))]))"

definition has_key :: "pydict \<Rightarrow> string \<Rightarrow> bool" where
  "has_key d k \<longleftrightarrow> map_of d k \<noteq> None"

definition measure_circle :: "operation \<Rightarrow> pydict res" where
  "measure_circle o' =
     (let g = op_geometry o'; ex = op_expected o' in
     bindR (floats_field g ''center_mm'') (\<lambda>c.
     bindR (if has_key g ''radius_mm''
            then bindR (float_field g ''radius_mm'') (\<lambda>r.
              Inr (r, [(''center_mm'', floats_list c), (''radius_mm'', PFloat r)]))
            else bindR (float_field g ''diameter_mm'') (\<lambda>d.
              Inr (pf_scale (1 / 2) d, [(''center_mm'', floats_list c), (''diameter_mm'', PFloat d)])))
       (\<lambda>(r, m0).
     let m1 = (if has_key ex ''radius_mm'' \<and> \<not> has_key m0 ''radius_mm''
               then dset m0 ''radius_mm'' (PFloat r) else m0);
         m2 = (if has_key ex ''diameter_mm'' \<and> \<not> has_key m1 ''diameter_mm''
               then dset m1 ''diameter_mm'' (PFloat (pf_scale 2 r)) else m1);
         m3 = (if has_key ex ''area_mm2'' then dset m2 ''area_mm2'' (PFloat (pf_disc r)) else m2);
         m4 = (if has_key ex ''layer'' then dset m3 ''layer'' (PStr (op_layer o')) else m3)
     in Inr m4)))"

definition measure_arc :: "operation \<Rightarrow> pydict res" where
  "measure_arc o' =
     (let g = op_geometry o' in
     bindR (floats_field g ''center_mm'') (\<lambda>c.
     bindR (float_field g ''radius_mm'') (\<lambda>r.
     bindR (float_field g ''start_angle_deg'') (\<lambda>s.
     bindR (float_field g ''end_angle_deg'') (\<lambda>e.
       Inr ([(''center_mm'', floats_list c), (''radius_mm'', PFloat r),
             (''start_angle_deg'', PFloat s), (''end_angle_deg'', PFloat e)] @
            (if has_key (op_expected o') ''arc_length_mm''
             then [(''arc_length_mm'', PFloat (pf_arc_length r s e))] else [])))))))"

definition measure_op :: "operation \<Rightarrow> pydict res" where
  "measure_op o' =
     (if op_type o' \<in> {CREATE_CLOSED_POLYLINE, CREATE_POLYLINE} then measure_polyline o'
      else if op_type o' = CREATE_LINE then measure_line o'
      else if op_type o' = CREATE_CIRCLE then measure_circle o'
      else if op_type o' = CREATE_ARC then measure_arc o'
      else Inr (op_geometry o'))"

subsection \<open>Building entities\<close>

text \<open>\<open>f"fake:handle:{n:X}"\<close>.\<close>

definition upper_hex :: "nat \<Rightarrow> char" where
  "upper_hex n = (if n < 10 then char_of (48 + n) else char_of (55 + n))"

fun show_hex :: "nat \<Rightarrow> string" where
  "show_hex n = (if n < 16 then [upper_hex n] else show_hex (n div 16) @ [upper_hex (n mod 16)])"

declare show_hex.simps [simp del]

definition handle_ref :: "nat \<Rightarrow> string" where
  "handle_ref n = ''fake:handle:'' @ show_hex n"

definition result_for :: "operation \<Rightarrow> string \<Rightarrow> string \<Rightarrow> pydict \<Rightarrow> entity_result" where
  "result_for o' ref ty m =
     \<lparr>er_operation_id = op_id o', er_feature_id = op_feature_id o', er_entity_ref = ref,
      er_entity_type = ty, er_measurements = m\<rparr>"

type_synonym built = "(fake_entity \<times> entity_result) list"

text \<open>Each of these returns the built pairs, the working entities and the entity counter.\<close>

fun build_circles ::
  "operation \<Rightarrow> nat \<Rightarrow> pyfloat \<Rightarrow> pyval list \<Rightarrow> nat \<Rightarrow> built" where
  "build_circles o' cnt d [] n = []"
| "build_circles o' cnt d (c # cs) n =
     (let ref = handle_ref (Suc n); ty = entity_type_for (op_type o') in
      (\<lparr>fe_entity_ref = ref, fe_entity_type = ty, fe_layer = op_layer o',
        fe_feature_id = op_feature_id o', fe_operation_id = op_id o',
        fe_geometry = [(''center_mm'', c), (''diameter_mm'', PFloat d)],
        fe_measurements = [(''diameter_mm'', PFloat d)]\<rparr>,
       result_for o' ref ty
         [(''count'', PInt (int cnt)), (''diameter_mm'', PFloat d), (''center_mm'', c),
          (''area_mm2'', PFloat (pf_disc (pf_scale (1 / 2) d)))])
      # build_circles o' cnt d cs (Suc n))"

definition build_entities :: "operation \<Rightarrow> nat \<Rightarrow> (built \<times> nat) res" where
  "build_entities o' n =
     (if op_type o' = CREATE_CIRCLES then
        let centers = get_default (op_geometry o') ''centers_mm'' (PList []) in
        bindR (float_field (op_geometry o') ''diameter_mm'') (\<lambda>d.
        bindR (iter_value centers) (\<lambda>cs.
          Inr (build_circles o' (length cs) d cs n, n + length cs)))
      else
        let ref = handle_ref (Suc n); ty = entity_type_for (op_type o') in
        bindR (measure_op o') (\<lambda>m.
          Inr ([(\<lparr>fe_entity_ref = ref, fe_entity_type = ty, fe_layer = op_layer o',
                  fe_feature_id = op_feature_id o', fe_operation_id = op_id o',
                  fe_geometry = op_geometry o', fe_measurements = m\<rparr>,
                 result_for o' ref ty m)], Suc n)))"

definition target_entity :: "operation \<Rightarrow> entities \<Rightarrow> fake_entity res" where
  "target_entity o' ws =
     (case (case op_target_entity_ref o' of None \<Rightarrow> None
            | Some ref \<Rightarrow> if ref = [] then None else map_of ws ref) of
        None \<Rightarrow> Inl (Err ComCallFailedError
          ''The operation references an entity that is not present in the fake document'')
      | Some e \<Rightarrow> Inr e)"

definition dict_or_empty :: "pyval \<Rightarrow> pydict" where
  "dict_or_empty v = (case v of PDict d \<Rightarrow> d | _ \<Rightarrow> [])"

text \<open>\<open>{**a, **b}\<close>.\<close>

definition dict_merge :: "pydict \<Rightarrow> pydict \<Rightarrow> pydict" where
  "dict_merge a b = fold (\<lambda>(k, v) d. dset d k v) b (fold (\<lambda>(k, v) d. dset d k v) a [])"

definition updated_entity :: "operation \<Rightarrow> pydict \<Rightarrow> fake_entity \<Rightarrow> fake_entity" where
  "updated_entity o' properties e =
     e\<lparr>fe_layer := op_layer o',
       fe_geometry := dset (fe_geometry e) ''properties''
         (PDict (dict_merge (dict_or_empty (get_default (fe_geometry e) ''properties'' (PDict [])))
           properties))\<rparr>"

definition execute_operation ::
  "operation \<Rightarrow> entities \<Rightarrow> nat \<Rightarrow> (built \<times> entities \<times> nat) res" where
  "execute_operation o' ws n =
     (if op_type o' = UPDATE_ENTITY then
        bindR (target_entity o' ws) (\<lambda>e.
          case get_default (op_geometry o') ''properties'' (PDict []) of
            PDict properties \<Rightarrow>
              (let e' = updated_entity o' properties e in
               Inr ([(e', result_for o' (fe_entity_ref e') (fe_entity_type e')
                       [(''layer'', PStr (fe_layer e'))])], ws, n))
          | _ \<Rightarrow> Inl (Err ComCallFailedError ''Update properties must be an object''))
      else if op_type o' = DELETE_ENTITY then
        bindR (target_entity o' ws) (\<lambda>e.
          Inr ([(e, result_for o' (fe_entity_ref e) (fe_entity_type e) [(''deleted'', PBool True)])],
               dpop ws (fe_entity_ref e), n))
      else bindR (build_entities o' n) (\<lambda>(built, m). Inr (built, ws, m)))"

fun stage_operations ::
  "operation list \<Rightarrow> entities \<Rightarrow> nat \<Rightarrow> (entity_result list \<times> entities \<times> nat) res" where
  "stage_operations [] ws n = Inr ([], ws, n)"
| "stage_operations (o' # ops) ws n =
     bindR (execute_operation o' ws n) (\<lambda>(built, ws1, n1).
       let ws2 = (if op_type o' \<noteq> DELETE_ENTITY
                  then fold (\<lambda>(e, _) d. dset d (fe_entity_ref e) e) built ws1 else ws1)
       in bindR (stage_operations ops ws2 n1) (\<lambda>(rs, ws3, n3). Inr (map snd built @ rs, ws3, n3)))"

text \<open>
  \<open>_apply_entities\<close>: retained entities are updated in place and keep their reference.
\<close>

definition apply_entities :: "entities \<Rightarrow> entities \<Rightarrow> entities" where
  "apply_entities document working =
     fold (\<lambda>(ref, staged) d.
         case map_of d ref of
           None \<Rightarrow> dset d ref staged
         | Some existing \<Rightarrow> dset d ref (staged\<lparr>fe_entity_ref := fe_entity_ref existing\<rparr>))
       working (filter (\<lambda>(ref, _). map_of working ref \<noteq> None) document)"

subsection \<open>The port methods\<close>

text \<open>The rows of the fingerprint, sorted as tuples.\<close>

definition entity_row :: "(string \<Rightarrow> string) \<Rightarrow> fake_entity \<Rightarrow> (string \<times> string \<times> string \<times> string) res" where
  "entity_row sha e = bindR (sha256_of sha (PDict (fe_geometry e))) (\<lambda>h.
     Inr (fe_entity_ref e, fe_entity_type e, fe_layer e, h))"

definition row_value :: "string \<times> string \<times> string \<times> string \<Rightarrow> pyval" where
  "row_value = (\<lambda>(a, b, c, d). PList [PStr a, PStr b, PStr c, PStr d])"

definition document_revision :: "(string \<Rightarrow> string) \<Rightarrow> fake_document \<Rightarrow> string res" where
  "document_revision sha doc =
     bindR (traverse (entity_row sha) (map snd (fd_entities doc))) (\<lambda>rows.
       revision_from sha (fd_document_id doc)
         [PInt (int (fd_write_counter doc)), PList (map row_value (sort rows))])"

definition fake_status :: "fake_adapter \<Rightarrow> adapter_status" where
  "fake_status s =
     \<lparr>sa_adapter_type = ''fake'', sa_available = True, sa_capabilities = fake_capabilities,
      sa_cad_version = Some ''0.0.0'', sa_version_supported = None,
      sa_active_document_id = Some (fd_document_id (fk_document s))\<rparr>"

definition layer_info_of :: "string \<Rightarrow> layer_info" where
  "layer_info_of n = \<lparr>li_name = n, li_color_index = None, li_linetype = None, li_lineweight = None,
     li_frozen = False, li_off = False, li_locked = False\<rparr>"

definition fake_inspect_document ::
  "(string \<Rightarrow> string) \<Rightarrow> string option \<Rightarrow> (exc, fake_adapter, document_snapshot) prog" where
  "fake_inspect_document sha requested s =
     (let doc = fk_document s in
      (bindR (document_revision sha doc) (\<lambda>revn.
       bindR (sha256_of sha (PStr (fd_display_name doc))) (\<lambda>ph.
         Inr \<lparr>ds_document_id = fd_document_id doc, ds_revision = revn, ds_path_hash = ph,
              ds_display_name = fd_display_name doc, ds_units = Some (fd_units doc),
              ds_layers = map layer_info_of (fd_layers doc),
              ds_dimension_styles = [''Standard'', ''DEMO-ISO-MM''],
              ds_text_styles = [''Standard'', ''DEMO-ISO''],
              ds_entity_count = length (fd_entities doc)\<rparr>)), s))"

definition fake_validate_revision ::
  "(string \<Rightarrow> string) \<Rightarrow> string \<Rightarrow> string \<Rightarrow> (exc, fake_adapter, bool) prog" where
  "fake_validate_revision sha doc_id expected s =
     (if doc_id \<noteq> fd_document_id (fk_document s) then (Inr False, s)
      else (bindR (document_revision sha (fk_document s)) (\<lambda>r. Inr (r = expected)), s))"

definition fake_commit ::
  "(string \<Rightarrow> string) \<Rightarrow> (nat \<Rightarrow> string) \<Rightarrow> commit_request \<Rightarrow>
   (exc, fake_adapter, commit_result) prog" where
  "fake_commit sha ids rq s =
     (case map_of (fk_executions s) (cq_idempotency_key rq) of
        Some previous \<Rightarrow> (Inr previous, s)
      | None \<Rightarrow>
     (case document_revision sha (fk_document s) of
        Inl e \<Rightarrow> (Inl e, s)
      | Inr current \<Rightarrow>
     (if current \<noteq> cq_expected_revision rq
      then (Inl (Err StaleDocumentRevisionError ''Document changed since the plan was approved''), s)
      else
      let doc = fk_document s;
          (cp, doc1, s1) = (if cq_create_checkpoint rq
             then (Some (ids (fk_next_id s)),
                   doc\<lparr>fd_snapshots := dset (fd_snapshots doc) (ids (fk_next_id s)) (fd_entities doc)\<rparr>,
                   s\<lparr>fk_next_id := Suc (fk_next_id s)\<rparr>)
             else (None, doc, s))
      in
     (case stage_operations (pl_operations (cq_plan rq)) (fd_entities doc) (fk_entity_counter s) of
        Inl e \<Rightarrow>
          (Inl e, s1\<lparr>fk_document :=
             (case cp of None \<Rightarrow> doc1
              | Some c \<Rightarrow> doc1\<lparr>fd_snapshots := dpop (fd_snapshots doc1) c\<rparr>)\<rparr>)
      | Inr (results, working, counter) \<Rightarrow>
          let doc2 = doc1\<lparr>fd_entities := apply_entities (fd_entities doc1) working,
                          fd_write_counter := Suc (fd_write_counter doc1)\<rparr>;
              s2 = s1\<lparr>fk_document := doc2, fk_entity_counter := counter\<rparr>
          in
         (case bindR (case pl_plan_hash (cq_plan rq) of
                  None \<Rightarrow> compute_hash sha (cq_plan rq)
                | Some h \<Rightarrow> if h = [] then compute_hash sha (cq_plan rq) else Inr h) (\<lambda>ph.
                bindR (document_revision sha doc2) (\<lambda>new_revision.
                Inr \<lparr>cr_schema_version = SCHEMA_VERSION, cr_job_id = pl_job_id (cq_plan rq),
                     cr_plan_hash = ph, cr_status = STATUS_COMMITTED, cr_entity_results = results,
                     cr_previous_revision = current, cr_new_revision = new_revision,
                     cr_checkpoint_id = cp,
                     cr_undo_group = Some (''fake-undo-'' @ show_nat (fd_write_counter doc2))\<rparr>)) of
            Inl e \<Rightarrow> (Inl e, s2)
          | Inr result \<Rightarrow>
              (Inr result,
               s2\<lparr>fk_executions := dset (fk_executions s2) (cq_idempotency_key rq) result\<rparr>))))))"

definition fake_rollback ::
  "(string \<Rightarrow> string) \<Rightarrow> rollback_request \<Rightarrow> (exc, fake_adapter, rollback_result) prog" where
  "fake_rollback sha rq s =
     (case fake_validate_revision sha (rq_document_id rq) (rq_current_revision rq) s of
        (Inl e, s1) \<Rightarrow> (Inl e, s1)
      | (Inr ok, s1) \<Rightarrow>
     (if \<not> ok
      then (Inl (Err StaleDocumentRevisionError ''Document changed after rollback approval''), s1)
      else
      let doc = fk_document s1 in
     (case (if rq_checkpoint_id rq = [] then None else map_of (fd_snapshots doc) (rq_checkpoint_id rq)) of
        None \<Rightarrow> (Inl (Err RollbackNotAvailableError ''No checkpoint available for this job''), s1)
      | Some saved \<Rightarrow>
          let doc2 = doc\<lparr>fd_entities := saved, fd_write_counter := Suc (fd_write_counter doc)\<rparr>;
              s2 = s1\<lparr>fk_document := doc2\<rparr>
          in (bindR (document_revision sha doc2) (\<lambda>r.
                Inr \<lparr>rr_job_id = rq_job_id rq, rr_restored_revision = r,
                     rr_checkpoint_id = Some (rq_checkpoint_id rq),
                     rr_method = CHECKPOINT_RESTORE_METHOD\<rparr>), s2))))"

definition fake_export :: "export_request \<Rightarrow> (exc, fake_adapter, export_result) prog" where
  "fake_export rq s =
     (Inr \<lparr>xr_document_id = fd_document_id (fk_document s), xr_format = xq_format rq,
           xr_artifact_ref = ''memory://fake/export.'' @ xq_format rq, xr_byte_size = Some 0\<rparr>, s)"

definition fake_port :: "(string \<Rightarrow> string) \<Rightarrow> (nat \<Rightarrow> string) \<Rightarrow> fake_adapter adapter" where
  "fake_port sha ids =
     \<lparr>ad_type = ''fake'', ad_supported_operations = all_operation_types,
      ad_allows_expired_checkpoint_recovery = False, ad_status = fake_status,
      ad_inspect_document = fake_inspect_document sha,
      ad_validate_revision = fake_validate_revision sha, ad_commit = fake_commit sha ids,
      ad_rollback = fake_rollback sha, ad_export = fake_export\<rparr>"

subsection \<open>Handles are never used twice\<close>

definition hex_number :: "string \<Rightarrow> nat" where
  "hex_number s = foldl (\<lambda>n c. 16 * n + (if of_char c < (58 :: nat) then of_char c - 48 else of_char c - 55)) 0 s"

lemma upper_hex_value:
  "k < 16 \<Longrightarrow> (let c = upper_hex k in
        if of_char c < (58 :: nat) then of_char c - 48 else of_char c - 55) = k"
  by (simp add: upper_hex_def)

lemma hex_number_show_hex: "hex_number (show_hex n) = n"
proof (induction n rule: show_hex.induct)
  case (1 n)
  show ?case
  proof (cases "n < 16")
    case True
    then show ?thesis by (simp add: show_hex.simps [of n] hex_number_def upper_hex_def)
  next
    case False
    with 1 have "hex_number (show_hex (n div 16)) = n div 16" by simp
    moreover have "(let c = upper_hex (n mod 16) in
        if of_char c < (58 :: nat) then of_char c - 48 else of_char c - 55) = n mod 16"
      by (rule upper_hex_value) simp
    moreover have "show_hex n = show_hex (n div 16) @ [upper_hex (n mod 16)]"
      using False by (simp only: show_hex.simps [of n] if_False)
    ultimately show ?thesis by (simp add: hex_number_def Let_def)
  qed
qed

lemma show_hex_inj: "show_hex n = show_hex m \<longleftrightarrow> n = m"
  by (metis hex_number_show_hex)

lemma handle_ref_inj: "handle_ref n = handle_ref m \<longleftrightarrow> n = m"
  by (simp add: handle_ref_def show_hex_inj)

definition own_refs :: "nat \<Rightarrow> entities \<Rightarrow> bool" where
  "own_refs n es \<longleftrightarrow>
     (\<forall>(r, e) \<in> set es. fe_entity_ref e = r \<and> r \<in> handle_ref ` {0<..n})"

lemma own_refs_mono: "own_refs n es \<Longrightarrow> n \<le> m \<Longrightarrow> own_refs m es"
  unfolding own_refs_def by fastforce

lemma own_refs_subset: "own_refs n es \<Longrightarrow> set fs \<subseteq> set es \<Longrightarrow> own_refs n fs"
  unfolding own_refs_def by blast

lemma own_refs_map_of:
  "own_refs n es \<Longrightarrow> map_of es r = Some e \<Longrightarrow> fe_entity_ref e = r \<and> r \<in> handle_ref ` {0<..n}"
  unfolding own_refs_def by (auto dest!: map_of_SomeD)

lemma dset_subset: "set (dset d k v) \<subseteq> insert (k, v) (set d)"
  by (induction d k v rule: dset.induct) auto

lemma own_refs_dset:
  "own_refs n es \<Longrightarrow> fe_entity_ref e = r \<Longrightarrow> r \<in> handle_ref ` {0<..n} \<Longrightarrow> own_refs n (dset es r e)"
  using dset_subset [of es r e] unfolding own_refs_def by blast

lemma own_refs_dpop: "own_refs n es \<Longrightarrow> own_refs n (dpop es r)"
  by (erule own_refs_subset) (auto simp: dpop_def)

lemma build_circles_refs:
  "map (fe_entity_ref \<circ> fst) (build_circles o' cnt d cs n) = map handle_ref [Suc n..<Suc (n + length cs)]"
  "map (er_entity_ref \<circ> snd) (build_circles o' cnt d cs n) = map handle_ref [Suc n..<Suc (n + length cs)]"
  by (induction cs arbitrary: n) (simp_all add: result_for_def Let_def upt_rec)

lemma build_entities_refs:
  assumes "build_entities o' n = Inr (b, m)"
  shows "n \<le> m" and "map (fe_entity_ref \<circ> fst) b = map handle_ref [Suc n..<Suc m]"
    and "map (er_entity_ref \<circ> snd) b = map handle_ref [Suc n..<Suc m]"
proof (atomize (full), cases "op_type o' = CREATE_CIRCLES")
  case True
  with assms obtain d cs where "b = build_circles o' (length cs) d cs n" "m = n + length cs"
    by (auto simp: build_entities_def bindR_Inr_iff Let_def)
  then show "n \<le> m \<and> map (fe_entity_ref \<circ> fst) b = map handle_ref [Suc n..<Suc m] \<and>
    map (er_entity_ref \<circ> snd) b = map handle_ref [Suc n..<Suc m]"
    by (simp only: build_circles_refs) simp
next
  case False
  with assms show "n \<le> m \<and> map (fe_entity_ref \<circ> fst) b = map handle_ref [Suc n..<Suc m] \<and>
    map (er_entity_ref \<circ> snd) b = map handle_ref [Suc n..<Suc m]"
    by (auto simp: build_entities_def bindR_Inr_iff Let_def result_for_def)
qed

lemma target_entity_Inr:
  "target_entity o' ws = Inr e \<Longrightarrow> \<exists>r. map_of ws r = Some e"
  by (auto simp: target_entity_def split: option.splits if_splits)

lemma execute_update:
  assumes "execute_operation o' ws n = Inr (b, ws1, m)" and "op_type o' = UPDATE_ENTITY"
  shows "\<exists>e ps. target_entity o' ws = Inr e \<and> m = n \<and> ws1 = ws \<and>
    b = [(updated_entity o' ps e, result_for o' (fe_entity_ref e) (fe_entity_type e)
      [(''layer'', PStr (op_layer o'))])]"
proof -
  from assms obtain e where e: "target_entity o' ws = Inr e"
    by (cases "target_entity o' ws") (auto simp: execute_operation_def)
  with assms show ?thesis
    by (cases "get_default (op_geometry o') ''properties'' (PDict [])")
      (auto simp: execute_operation_def Let_def updated_entity_def)
qed

lemma execute_delete:
  assumes "execute_operation o' ws n = Inr (b, ws1, m)" and "op_type o' = DELETE_ENTITY"
  shows "\<exists>e. target_entity o' ws = Inr e \<and> m = n \<and> ws1 = dpop ws (fe_entity_ref e) \<and>
    b = [(e, result_for o' (fe_entity_ref e) (fe_entity_type e) [(''deleted'', PBool True)])]"
  using assms by (cases "target_entity o' ws") (auto simp: execute_operation_def)

lemma execute_operation_refs:
  assumes "execute_operation o' ws n = Inr (b, ws1, m)" and "own_refs n ws"
  shows "n \<le> m \<and> own_refs m ws1 \<and> fe_entity_ref ` fst ` set b \<subseteq> handle_ref ` {0<..m}"
proof (cases "op_type o' = UPDATE_ENTITY \<or> op_type o' = DELETE_ENTITY")
  case True
  then have "\<exists>e. target_entity o' ws = Inr e \<and> m = n \<and> set ws1 \<subseteq> set ws \<and>
    (\<forall>p \<in> set b. fe_entity_ref (fst p) = fe_entity_ref e)"
  proof
    assume "op_type o' = UPDATE_ENTITY"
    from execute_update [OF assms(1) this] obtain e ps where "target_entity o' ws = Inr e" "m = n"
      "ws1 = ws" "b = [(updated_entity o' ps e, result_for o' (fe_entity_ref e) (fe_entity_type e)
        [(''layer'', PStr (op_layer o'))])]" by blast
    then show ?thesis by (intro exI [of _ e]) (simp add: updated_entity_def)
  next
    assume "op_type o' = DELETE_ENTITY"
    from execute_delete [OF assms(1) this] obtain e where "target_entity o' ws = Inr e" "m = n"
      "ws1 = dpop ws (fe_entity_ref e)"
      "b = [(e, result_for o' (fe_entity_ref e) (fe_entity_type e) [(''deleted'', PBool True)])]" by blast
    then show ?thesis by (intro exI [of _ e]) (auto simp: dpop_def)
  qed
  then obtain e where e: "target_entity o' ws = Inr e" and
    b: "m = n" "set ws1 \<subseteq> set ws" "\<forall>p \<in> set b. fe_entity_ref (fst p) = fe_entity_ref e" by blast
  from target_entity_Inr [OF e] own_refs_map_of [OF assms(2)]
  have "fe_entity_ref e \<in> handle_ref ` {0<..n}" by blast
  then have "fe_entity_ref ` fst ` set b \<subseteq> handle_ref ` {0<..n}" using b(3) by fastforce
  with own_refs_subset [OF assms(2) b(2)] b(1) show ?thesis by simp
next
  case False
  with assms(1) have b: "build_entities o' n = Inr (b, m)" "ws1 = ws"
    by (auto simp: execute_operation_def bindR_Inr_iff)
  have "fe_entity_ref ` fst ` set b = set (map (fe_entity_ref \<circ> fst) b)" by (simp add: image_comp)
  also have "\<dots> \<subseteq> handle_ref ` {0<..m}" unfolding build_entities_refs(2) [OF b(1)] by auto
  finally show ?thesis using build_entities_refs(1) [OF b(1)] b(2) assms(2) own_refs_mono by blast
qed

lemma own_refs_fold_dset:
  "own_refs n ws \<Longrightarrow> fe_entity_ref ` fst ` set b \<subseteq> handle_ref ` {0<..n} \<Longrightarrow>
   own_refs n (fold (\<lambda>(e, _) d. dset d (fe_entity_ref e) e) b ws)"
proof (induction b arbitrary: ws)
  case (Cons p b)
  then have "own_refs n (dset ws (fe_entity_ref (fst p)) (fst p))" by (intro own_refs_dset) auto
  with Cons show ?case by (simp add: case_prod_unfold)
qed simp

lemma stage_operations_refs:
  "stage_operations ops ws n = Inr (rs, ws', m) \<Longrightarrow> own_refs n ws \<Longrightarrow> n \<le> m \<and> own_refs m ws'"
proof (induction ops arbitrary: ws n rs)
  case (Cons o' ops)
  from Cons.prems(1) obtain b ws1 n1 rs1 where
    ex: "execute_operation o' ws n = Inr (b, ws1, n1)" and
    st: "stage_operations ops (if op_type o' \<noteq> DELETE_ENTITY
           then fold (\<lambda>(e, _) d. dset d (fe_entity_ref e) e) b ws1 else ws1) n1 = Inr (rs1, ws', m)"
    by (auto simp: bindR_Inr_iff Let_def)
  note r = execute_operation_refs [OF ex Cons.prems(2)]
  have "own_refs n1 (if op_type o' \<noteq> DELETE_ENTITY
           then fold (\<lambda>(e, _) d. dset d (fe_entity_ref e) e) b ws1 else ws1)"
    using r own_refs_fold_dset [of n1 ws1 b] by simp
  from Cons.IH [OF st this] r show ?case by simp
qed simp

lemma own_refs_apply:
  assumes "own_refs n doc" and "own_refs m ws" and "n \<le> m"
  shows "own_refs m (apply_entities doc ws)"
proof -
  have "own_refs m d \<Longrightarrow> own_refs m xs \<Longrightarrow>
     own_refs m (fold (\<lambda>(ref, staged) d.
         case map_of d ref of
           None \<Rightarrow> dset d ref staged
         | Some existing \<Rightarrow> dset d ref (staged\<lparr>fe_entity_ref := fe_entity_ref existing\<rparr>)) xs d)" for xs d
  proof (induction xs arbitrary: d)
    case (Cons p xs)
    obtain r e where p: "p = (r, e)" by (cases p)
    from Cons.prems p have re: "fe_entity_ref e = r" "r \<in> handle_ref ` {0<..m}" and
      xs: "own_refs m xs" by (auto simp: own_refs_def)
    have "own_refs m (case map_of d r of None \<Rightarrow> dset d r e
      | Some existing \<Rightarrow> dset d r (e\<lparr>fe_entity_ref := fe_entity_ref existing\<rparr>))"
      using own_refs_map_of [OF Cons.prems(1)] re Cons.prems(1)
      by (auto split: option.splits intro!: own_refs_dset)
    from Cons.IH [OF this xs] p show ?case by simp
  qed simp
  moreover have "own_refs m (filter (\<lambda>(ref, _). map_of ws ref \<noteq> None) doc)"
    by (rule own_refs_subset [OF own_refs_mono [OF assms(1,3)]]) auto
  ultimately show ?thesis unfolding apply_entities_def using assms(2) by blast
qed

subsection \<open>A commit is all or nothing\<close>

text \<open>The five ways a commit ends.\<close>

definition commit_checkpoint :: "(nat \<Rightarrow> string) \<Rightarrow> commit_request \<Rightarrow> fake_adapter \<Rightarrow> fake_adapter" where
  "commit_checkpoint ids rq s =
     (if cq_create_checkpoint rq
      then s\<lparr>fk_next_id := Suc (fk_next_id s),
             fk_document := (fk_document s)\<lparr>fd_snapshots :=
               dset (fd_snapshots (fk_document s)) (ids (fk_next_id s)) (fd_entities (fk_document s))\<rparr>\<rparr>
      else s)"

definition commit_applied ::
  "(nat \<Rightarrow> string) \<Rightarrow> commit_request \<Rightarrow> entities \<Rightarrow> nat \<Rightarrow> fake_adapter \<Rightarrow> fake_adapter" where
  "commit_applied ids rq ws m s =
     (let s1 = commit_checkpoint ids rq s in
      s1\<lparr>fk_document := (fk_document s1)\<lparr>fd_entities := apply_entities (fd_entities (fk_document s)) ws,
                                        fd_write_counter := Suc (fd_write_counter (fk_document s))\<rparr>,
         fk_entity_counter := m\<rparr>)"

lemma fake_commit_cases:
  assumes "fake_commit sha ids rq s = (x, t)"
  obtains
    (replay) r where "map_of (fk_executions s) (cq_idempotency_key rq) = Some r" "x = Inr r" "t = s"
  | (unhashable) e where "map_of (fk_executions s) (cq_idempotency_key rq) = None"
      "document_revision sha (fk_document s) = Inl e" "x = Inl e" "t = s"
  | (stale) current where "map_of (fk_executions s) (cq_idempotency_key rq) = None"
      "document_revision sha (fk_document s) = Inr current" "current \<noteq> cq_expected_revision rq"
      "x = Inl (Err StaleDocumentRevisionError ''Document changed since the plan was approved'')" "t = s"
  | (refused) e where "map_of (fk_executions s) (cq_idempotency_key rq) = None"
      "document_revision sha (fk_document s) = Inr (cq_expected_revision rq)"
      "stage_operations (pl_operations (cq_plan rq)) (fd_entities (fk_document s)) (fk_entity_counter s) = Inl e"
      "x = Inl e"
      "t = (let s1 = commit_checkpoint ids rq s in
         s1\<lparr>fk_document := (fk_document s1)\<lparr>fd_snapshots :=
           (if cq_create_checkpoint rq then dpop (fd_snapshots (fk_document s1)) (ids (fk_next_id s))
            else fd_snapshots (fk_document s1))\<rparr>\<rparr>)"
  | (unrecorded) e rs ws m where "map_of (fk_executions s) (cq_idempotency_key rq) = None"
      "document_revision sha (fk_document s) = Inr (cq_expected_revision rq)"
      "stage_operations (pl_operations (cq_plan rq)) (fd_entities (fk_document s)) (fk_entity_counter s) =
         Inr (rs, ws, m)"
      "x = Inl e" "t = commit_applied ids rq ws m s"
  | (committed) rs ws m h r where "map_of (fk_executions s) (cq_idempotency_key rq) = None"
      "document_revision sha (fk_document s) = Inr (cq_expected_revision rq)"
      "stage_operations (pl_operations (cq_plan rq)) (fd_entities (fk_document s)) (fk_entity_counter s) =
         Inr (rs, ws, m)"
      "document_revision sha (fk_document (commit_applied ids rq ws m s)) = Inr r"
      "x = Inr \<lparr>cr_schema_version = SCHEMA_VERSION, cr_job_id = pl_job_id (cq_plan rq),
         cr_plan_hash = h, cr_status = STATUS_COMMITTED, cr_entity_results = rs,
         cr_previous_revision = cq_expected_revision rq, cr_new_revision = r,
         cr_checkpoint_id = (if cq_create_checkpoint rq then Some (ids (fk_next_id s)) else None),
         cr_undo_group = Some (''fake-undo-'' @ show_nat (Suc (fd_write_counter (fk_document s))))\<rparr>"
      "t = (commit_applied ids rq ws m s)\<lparr>fk_executions :=
         dset (fk_executions s) (cq_idempotency_key rq)
           \<lparr>cr_schema_version = SCHEMA_VERSION, cr_job_id = pl_job_id (cq_plan rq),
         cr_plan_hash = h, cr_status = STATUS_COMMITTED, cr_entity_results = rs,
         cr_previous_revision = cq_expected_revision rq, cr_new_revision = r,
         cr_checkpoint_id = (if cq_create_checkpoint rq then Some (ids (fk_next_id s)) else None),
         cr_undo_group = Some (''fake-undo-'' @ show_nat (Suc (fd_write_counter (fk_document s))))\<rparr>\<rparr>"
proof (cases "map_of (fk_executions s) (cq_idempotency_key rq)")
  case (Some r)
  with assms show thesis by (intro replay) (auto simp: fake_commit_def)
next
  case None
  note none = None
  show thesis
  proof (cases "document_revision sha (fk_document s)")
    case (Inl e)
    with assms none show thesis by (intro unhashable) (auto simp: fake_commit_def)
  next
    case (Inr current)
    note cur = Inr
    show thesis
    proof (cases "current = cq_expected_revision rq")
      case False
      with assms none cur show thesis by (intro stale) (auto simp: fake_commit_def)
    next
      case True
      note eq = assms [unfolded fake_commit_def none cur option.case sum.case, simplified True]
      show thesis
      proof (cases "stage_operations (pl_operations (cq_plan rq)) (fd_entities (fk_document s))
          (fk_entity_counter s)")
        case (Inl e)
        with eq none cur True show thesis
          by (intro refused) (auto simp: commit_checkpoint_def Let_def split: if_splits)
      next
        case (Inr y)
        obtain rs ws m where y: "y = (rs, ws, m)" by (cases y)
        show thesis
        proof (cases x)
          case (Inl e)
          with eq none cur True \<open>stage_operations _ _ _ = _\<close> y show thesis
            by (intro unrecorded)
              (auto simp: commit_checkpoint_def commit_applied_def Let_def split: if_splits sum.splits)
        next
          case (Inr z)
          with eq none cur True \<open>stage_operations _ _ _ = _\<close> y show thesis
            by (cases "cq_create_checkpoint rq")
              (auto simp: commit_checkpoint_def commit_applied_def Let_def bindR_Inr_iff
                split: sum.splits intro: committed)
        qed
      qed
    qed
  qed
qed

text \<open>
  C8: A commit of the in-memory adapter is all or nothing. If it raises, nothing is recorded under the
  idempotency key and either document, checkpoints and handle counter are exactly as before, or
  the whole plan had been applied (the new geometry then has no canonical form); it never leaves a
  part of a plan behind. If it returns a new result, the document holds the entities of the completely
  executed plan and the result is recorded.
\<close>

theorem fake_commit_atomic:
  assumes "fake_commit sha ids rq s = (x, t)"
    and "map_of (fd_snapshots (fk_document s)) (ids (fk_next_id s)) = None"
    and "map_of (fk_executions s) (cq_idempotency_key rq) = None"
  shows "(case x of
      Inl e \<Rightarrow> fk_executions t = fk_executions s
    | Inr r \<Rightarrow> map_of (fk_executions t) (cq_idempotency_key rq) = Some r) \<and>
    ((fk_document t = fk_document s \<and> fk_entity_counter t = fk_entity_counter s \<and> (\<exists>e. x = Inl e)) \<or>
     (\<exists>rs ws. stage_operations (pl_operations (cq_plan rq)) (fd_entities (fk_document s))
           (fk_entity_counter s) = Inr (rs, ws, fk_entity_counter t) \<and>
        fd_entities (fk_document t) = apply_entities (fd_entities (fk_document s)) ws \<and>
        fd_write_counter (fk_document t) = Suc (fd_write_counter (fk_document s)) \<and>
        (\<forall>r. x = Inr r \<longrightarrow> cr_entity_results r = rs \<and>
           document_revision sha (fk_document s) = Inr (cr_previous_revision r) \<and>
           document_revision sha (fk_document t) = Inr (cr_new_revision r))))"
  using assms(1)
proof (cases rule: fake_commit_cases)
  case (refused e)
  have "dpop (dset d k v) k = d" if "map_of d k = None" for d :: "(string \<times> entities) list" and k v
    using that by (induction d k v rule: dset.induct) (auto simp: dpop_def split: if_splits)
  with refused assms(2) show ?thesis by (simp add: commit_checkpoint_def Let_def)
qed (use assms(3) in \<open>auto simp: commit_applied_def commit_checkpoint_def Let_def\<close>)

subsection \<open>Sequences of adapter calls\<close>

datatype adapter_call = CallCommit commit_request | CallRollback rollback_request

definition adapter_call_step ::
  "(string \<Rightarrow> string) \<Rightarrow> (nat \<Rightarrow> string) \<Rightarrow> adapter_call \<Rightarrow> fake_adapter \<Rightarrow> fake_adapter" where
  "adapter_call_step sha ids c s =
     (case c of CallCommit rq \<Rightarrow> snd (fake_commit sha ids rq s)
      | CallRollback rq \<Rightarrow> snd (fake_rollback sha rq s))"

definition adapter_run ::
  "(string \<Rightarrow> string) \<Rightarrow> (nat \<Rightarrow> string) \<Rightarrow> adapter_call list \<Rightarrow> fake_adapter \<Rightarrow> fake_adapter" where
  "adapter_run sha ids = fold (adapter_call_step sha ids)"

lemma adapter_run_simps [simp]:
  "adapter_run sha ids [] s = s"
  "adapter_run sha ids (c # cs) s = adapter_run sha ids cs (adapter_call_step sha ids c s)"
  by (simp_all add: adapter_run_def)

lemma adapter_run_induct:
  assumes "P s" and "\<And>c s. P s \<Longrightarrow> P (adapter_call_step sha ids c s)"
  shows "P (adapter_run sha ids cs s)"
  using assms(1) by (induction cs arbitrary: s) (simp_all add: assms(2))

lemma fake_rollback_cases:
  obtains "snd (fake_rollback sha rq s) = s"
  | saved where "rq_checkpoint_id rq \<noteq> []"
      "map_of (fd_snapshots (fk_document s)) (rq_checkpoint_id rq) = Some saved"
      "snd (fake_rollback sha rq s) = s\<lparr>fk_document := (fk_document s)\<lparr>fd_entities := saved,
         fd_write_counter := Suc (fd_write_counter (fk_document s))\<rparr>\<rparr>"
proof -
  obtain y where y: "fake_validate_revision sha (rq_document_id rq) (rq_current_revision rq) s = (y, s)"
    by (cases "rq_document_id rq = fd_document_id (fk_document s)")
      (auto simp: fake_validate_revision_def)
  show thesis
  proof (cases "y = Inr True \<and> rq_checkpoint_id rq \<noteq> [] \<and>
      map_of (fd_snapshots (fk_document s)) (rq_checkpoint_id rq) \<noteq> None")
    case False
    then have "snd (fake_rollback sha rq s) = s"
      by (cases y) (auto simp: fake_rollback_def y Let_def)
    then show thesis by (rule that(1))
  next
    case True
    then obtain saved where
      "map_of (fd_snapshots (fk_document s)) (rq_checkpoint_id rq) = Some saved" by blast
    with True show thesis by (intro that(2) [of saved]) (simp_all add: fake_rollback_def y Let_def)
  qed
qed

lemma recorded_step:
  assumes "map_of (fk_executions s) k = Some r"
  shows "map_of (fk_executions (adapter_call_step sha ids c s)) k = Some r"
proof (cases c)
  case (CallCommit rq)
  have "fake_commit sha ids rq s = (fst (fake_commit sha ids rq s), snd (fake_commit sha ids rq s))" by simp
  then have "map_of (fk_executions (snd (fake_commit sha ids rq s))) k = Some r"
    by (cases rule: fake_commit_cases)
      (use assms in \<open>auto simp: commit_applied_def commit_checkpoint_def Let_def\<close>)
  with CallCommit show ?thesis by (simp add: adapter_call_step_def)
next
  case (CallRollback rq)
  then show ?thesis using assms
    by (cases rule: fake_rollback_cases [of sha rq s]) (simp_all add: adapter_call_step_def)
qed

text \<open>
  Retrying is harmless: once a commit has returned, every later request with the same idempotency key
  returns the same result and changes nothing, whatever happened in between.
\<close>

theorem fake_commit_replays:
  assumes "fake_commit sha ids rq s = (Inr r, t)"
    and "cq_idempotency_key rq' = cq_idempotency_key rq"
  shows "fake_commit sha ids rq' (adapter_run sha ids cs t) = (Inr r, adapter_run sha ids cs t)"
proof -
  from assms(1) have "map_of (fk_executions t) (cq_idempotency_key rq) = Some r"
    by (cases rule: fake_commit_cases) auto
  then have "map_of (fk_executions (adapter_run sha ids cs t)) (cq_idempotency_key rq) = Some r"
    by (rule adapter_run_induct) (rule recorded_step)
  with assms(2) show ?thesis by (simp add: fake_commit_def)
qed

subsection \<open>Checkpoints and handles\<close>

text \<open>
  Every entity of the document and of every checkpoint has a handle the counter has already
  passed, and every checkpoint an identifier the stream has already produced.
\<close>

definition fake_inv :: "(nat \<Rightarrow> string) \<Rightarrow> fake_adapter \<Rightarrow> bool" where
  "fake_inv ids s \<longleftrightarrow>
     own_refs (fk_entity_counter s) (fd_entities (fk_document s)) \<and>
     (\<forall>(c, es) \<in> set (fd_snapshots (fk_document s)).
        own_refs (fk_entity_counter s) es \<and> c \<in> ids ` {..<fk_next_id s})"

lemma fake_inv_checkpoint:
  assumes "fake_inv ids s"
  shows "fake_inv ids (commit_checkpoint ids rq s)"
proof (cases "cq_create_checkpoint rq")
  case True
  have "own_refs (fk_entity_counter s) es \<and> c \<in> ids ` {..<Suc (fk_next_id s)}"
    if "(c, es) \<in> set (dset (fd_snapshots (fk_document s)) (ids (fk_next_id s))
      (fd_entities (fk_document s)))" for c es
  proof (cases "c = ids (fk_next_id s) \<and> es = fd_entities (fk_document s)")
    case True
    with assms show ?thesis by (simp add: fake_inv_def)
  next
    case False
    with that dset_subset have "(c, es) \<in> set (fd_snapshots (fk_document s))" by fast
    with assms have "own_refs (fk_entity_counter s) es" "c \<in> ids ` {..<fk_next_id s}"
      by (auto simp: fake_inv_def)
    then show ?thesis by (auto simp: lessThan_Suc)
  qed
  with True assms show ?thesis by (auto simp: fake_inv_def commit_checkpoint_def)
qed (simp add: assms commit_checkpoint_def)

lemma fake_inv_mono:
  "fake_inv ids s \<Longrightarrow> fd_snapshots (fk_document t) = fd_snapshots (fk_document s) \<Longrightarrow>
   fk_next_id t = fk_next_id s \<Longrightarrow> fk_entity_counter s \<le> fk_entity_counter t \<Longrightarrow>
   own_refs (fk_entity_counter t) (fd_entities (fk_document t)) \<Longrightarrow> fake_inv ids t"
  unfolding fake_inv_def by (auto intro: own_refs_mono)

lemma fake_inv_applied:
  assumes "fake_inv ids s"
    and "stage_operations ops (fd_entities (fk_document s)) (fk_entity_counter s) = Inr (rs, ws, m)"
  shows "fake_inv ids (commit_applied ids rq ws m s)"
proof -
  from assms(1) have own: "own_refs (fk_entity_counter s) (fd_entities (fk_document s))"
    by (simp add: fake_inv_def)
  note r = stage_operations_refs [OF assms(2) own]
  have cnt: "fk_entity_counter (commit_checkpoint ids rq s) = fk_entity_counter s"
    by (simp add: commit_checkpoint_def)
  show ?thesis
    by (rule fake_inv_mono [OF fake_inv_checkpoint [OF assms(1), of rq]])
      (use r own_refs_apply [OF own] in \<open>simp_all add: commit_applied_def Let_def cnt\<close>)
qed

lemma fake_inv_step:
  assumes "fake_inv ids s"
  shows "fake_inv ids (adapter_call_step sha ids c s)"
proof (cases c)
  case (CallCommit rq)
  have "fake_commit sha ids rq s = (fst (fake_commit sha ids rq s), snd (fake_commit sha ids rq s))" by simp
  then have "fake_inv ids (snd (fake_commit sha ids rq s))"
  proof (cases rule: fake_commit_cases)
    case (refused e)
    from fake_inv_checkpoint [OF assms, of rq] refused show ?thesis
      by (auto simp: fake_inv_def Let_def dpop_def)
  next
    case (unrecorded e rs ws m)
    with fake_inv_applied [OF assms] show ?thesis by simp
  next
    case (committed rs ws m h r)
    with fake_inv_applied [OF assms] show ?thesis by (simp add: fake_inv_def)
  qed (simp_all add: assms)
  with CallCommit show ?thesis by (simp add: adapter_call_step_def)
next
  case (CallRollback rq)
  from assms have "own_refs (fk_entity_counter s) saved"
    if "map_of (fd_snapshots (fk_document s)) k = Some saved" for k saved
    using map_of_SomeD [OF that] by (auto simp: fake_inv_def)
  then show ?thesis using assms CallRollback
    by (cases rule: fake_rollback_cases [of sha rq s]) (auto simp: adapter_call_step_def fake_inv_def)
qed

lemma normalize_rows: "traverse normalize (map row_value rows) = Inr (map row_value rows)"
proof -
  have "normalize (row_value r) = Inr (row_value r)" for r
    by (cases r) (simp add: row_value_def)
  then show ?thesis by (intro traverse_Inr_self) auto
qed

definition revision_text :: "string \<Rightarrow> nat \<Rightarrow> pyval \<Rightarrow> string" where
  "revision_text doc n rows =
     ''{'' @ json_string ''document_id'' @ '':'' @ json_string doc @ '','' @ json_string ''parts'' @
     '':['' @ show_nat n @ '','' @ json_dumps rows @ '']}''"

lemma revision_canonical:
  "canonical_json (PDict [(''document_id'', PStr doc), (''parts'', PList [PInt (int n), PList (map row_value rows)])]) =
   Inr (revision_text doc n (PList (map row_value rows)))"
proof -
  have sk: "sort_key fst [(''document_id'', PStr doc), (''parts'', v)] =
      [(''document_id'', PStr doc), (''parts'', v)]" for v
    by (simp add: less_eq_list_code less_list_code)
  show ?thesis
    by (simp add: canonical_json_def sk normalize_rows revision_text_def show_int_def show_nat_def
      del: sort_key_simps)
qed

definition document_rows ::
  "(string \<Rightarrow> string) \<Rightarrow> fake_document \<Rightarrow> (string \<times> string \<times> string \<times> string) list res" where
  "document_rows sha doc = traverse (entity_row sha) (map snd (fd_entities doc))"

lemma document_revision_text:
  "document_revision sha doc = bindR (document_rows sha doc) (\<lambda>rows.
     Inr (''sha256:'' @ sha (revision_text (fd_document_id doc) (fd_write_counter doc)
       (PList (map row_value (sort rows))))))"
  by (simp add: document_revision_def document_rows_def revision_from_def sha256_of_def revision_canonical)

lemma show_nat_comma: "CHR '','' \<notin> set (show_nat n)"
  using show_pos_digits [of "int n" "CHR '',''"] by (auto simp: show_nat_def)

lemma revision_text_counter:
  assumes "revision_text doc n x = revision_text doc m y"
  shows "n = m"
proof -
  from assms have "show_nat n @ CHR '','' # json_dumps x @ '']}'' = show_nat m @ CHR '','' # json_dumps y @ '']}''"
    by (simp add: revision_text_def)
  then have "split_at (CHR '','') (show_nat n @ CHR '','' # json_dumps x @ '']}'') =
    split_at (CHR '','') (show_nat m @ CHR '','' # json_dumps y @ '']}'')" by (rule arg_cong)
  then show ?thesis unfolding split_at_append [OF show_nat_comma] by (simp add: show_nat_inj)
qed

subsection \<open>Optimistic concurrency\<close>

text \<open>
  The contract every writer of a versioned document relies on: a write names the revision it was
  prepared for, is refused when the document has another one, and moves the document to a version
  no earlier revision belongs to. \<open>recorded\<close> are the writes the document answers from its record.
\<close>

locale versioned_writer =
  fixes text_of :: "'s \<Rightarrow> 'e + string"
    and revision_of :: "'s \<Rightarrow> 'e + string"
    and digest :: "string \<Rightarrow> string"
    and origin :: "'s \<Rightarrow> string"
    and version :: "'s \<Rightarrow> nat"
    and expects :: "'w \<Rightarrow> string"
    and recorded :: "'w \<Rightarrow> 's \<Rightarrow> bool"
    and submit :: "'w \<Rightarrow> 's \<Rightarrow> ('e + 'x) \<times> 's"
    and step :: "'c \<Rightarrow> 's \<Rightarrow> 's"
  assumes revision_digest: "revision_of s = bindR (text_of s) (\<lambda>x. Inr (''sha256:'' @ digest x))"
    and text_version: "origin s = origin t \<Longrightarrow> text_of s = Inr x \<Longrightarrow> text_of t = Inr x \<Longrightarrow>
      version s = version t"
    and stale_refused: "\<not> recorded w s \<Longrightarrow> revision_of s \<noteq> Inr (expects w) \<Longrightarrow> \<exists>e. submit w s = (Inl e, s)"
    and write_moves: "\<not> recorded w s \<Longrightarrow> submit w s = (Inr r, t) \<Longrightarrow>
      version t = Suc (version s) \<and> origin t = origin s"
    and step_monotone: "version s \<le> version (step c s) \<and> origin (step c s) = origin s"
begin

lemma run_monotone: "version s \<le> version (fold step cs s) \<and> origin (fold step cs s) = origin s"
proof (induction cs arbitrary: s)
  case (Cons c cs)
  from step_monotone [of s c] Cons.IH [of "step c s"] show ?case by simp
qed simp

lemma revision_version:
  assumes "inj digest" and "origin s = origin t" and "revision_of s = Inr r" and "revision_of t = Inr r"
  shows "version s = version t"
proof -
  from assms(3,4) obtain x y where "text_of s = Inr x" "text_of t = Inr y" "digest x = digest y"
    by (auto simp: revision_digest bindR_Inr_iff)
  with injD [OF assms(1)] text_version [OF assms(2)] show ?thesis by blast
qed

lemma no_lost_update:
  assumes "inj digest" and "\<not> recorded w s" and "submit w s = (Inr x, t)"
    and "expects w' = expects w" and "\<not> recorded w' (fold step cs t)"
  shows "\<exists>e. submit w' (fold step cs t) = (Inl e, fold step cs t)"
proof (rule stale_refused [OF assms(5)], rule notI)
  assume "revision_of (fold step cs t) = Inr (expects w')"
  moreover have "revision_of s = Inr (expects w)"
    using stale_refused [OF assms(2)] assms(3) by fastforce
  moreover have "origin s = origin (fold step cs t)"
    using run_monotone [of t cs] write_moves [OF assms(2,3)] by simp
  ultimately have "version s = version (fold step cs t)"
    using revision_version [OF assms(1)] assms(4) by metis
  with run_monotone [of t cs] write_moves [OF assms(2,3)] show False by simp
qed

end

definition fake_revision_text :: "(string \<Rightarrow> string) \<Rightarrow> fake_adapter \<Rightarrow> string res" where
  "fake_revision_text sha s = bindR (document_rows sha (fk_document s)) (\<lambda>rows.
     Inr (revision_text (fd_document_id (fk_document s)) (fd_write_counter (fk_document s))
       (PList (map row_value (sort rows)))))"

definition already_recorded :: "commit_request \<Rightarrow> fake_adapter \<Rightarrow> bool" where
  "already_recorded rq s \<longleftrightarrow> map_of (fk_executions s) (cq_idempotency_key rq) \<noteq> None"

lemma commit_counter:
  assumes "fake_commit sha ids rq s = (x, t)"
  shows "fd_document_id (fk_document t) = fd_document_id (fk_document s)"
    and "fd_write_counter (fk_document s) \<le> fd_write_counter (fk_document t)"
    and "\<not> already_recorded rq s \<Longrightarrow> x = Inr r \<Longrightarrow>
      fd_write_counter (fk_document t) = Suc (fd_write_counter (fk_document s))"
  using assms
  by (cases rule: fake_commit_cases;
      auto simp: commit_applied_def commit_checkpoint_def already_recorded_def Let_def)+

lemma call_counter:
  "fd_write_counter (fk_document s) \<le> fd_write_counter (fk_document (adapter_call_step sha ids c s)) \<and>
   fd_document_id (fk_document (adapter_call_step sha ids c s)) = fd_document_id (fk_document s)"
proof (cases c)
  case (CallCommit rq)
  with commit_counter(1,2) [of sha ids rq s] show ?thesis
    by (cases "fake_commit sha ids rq s") (auto simp: adapter_call_step_def)
next
  case (CallRollback rq)
  then show ?thesis
    by (cases rule: fake_rollback_cases [of sha rq s]) (auto simp: adapter_call_step_def)
qed

interpretation fake_writer: versioned_writer "fake_revision_text sha"
  "\<lambda>s. document_revision sha (fk_document s)" sha "\<lambda>s. fd_document_id (fk_document s)"
  "\<lambda>s. fd_write_counter (fk_document s)"
  cq_expected_revision already_recorded "fake_commit sha ids" "adapter_call_step sha ids"
  for sha ids
proof
  fix s t x
  show "document_revision sha (fk_document s) =
    bindR (fake_revision_text sha s) (\<lambda>x. Inr (''sha256:'' @ sha x))"
    by (simp add: document_revision_text fake_revision_text_def bindR_def split: sum.splits)
  show "fd_document_id (fk_document s) = fd_document_id (fk_document t) \<Longrightarrow>
    fake_revision_text sha s = Inr x \<Longrightarrow> fake_revision_text sha t = Inr x \<Longrightarrow>
    fd_write_counter (fk_document s) = fd_write_counter (fk_document t)"
    by (auto simp: fake_revision_text_def bindR_Inr_iff dest: revision_text_counter)
next
  fix rq s
  assume "\<not> already_recorded rq s" "document_revision sha (fk_document s) \<noteq> Inr (cq_expected_revision rq)"
  then show "\<exists>e. fake_commit sha ids rq s = (Inl e, s)"
    by (cases "document_revision sha (fk_document s)") (auto simp: fake_commit_def already_recorded_def)
qed (use commit_counter(1,3) call_counter in auto)

text \<open>
  C9: No update is lost: of two commits prepared for the same revision at most one succeeds. Once a
  commit has been applied, any other commit that expects the revision it started from (and is not a
  retry of a recorded one) is refused and changes nothing, whatever commits and rollbacks came in
  between.
\<close>

theorem fake_no_lost_update:
  assumes "inj sha" and "\<not> already_recorded rq s" and "fake_commit sha ids rq s = (Inr r, t)"
    and "cq_expected_revision rq' = cq_expected_revision rq"
    and "\<not> already_recorded rq' (adapter_run sha ids cs t)"
  shows "\<exists>e. fake_commit sha ids rq' (adapter_run sha ids cs t) = (Inl e, adapter_run sha ids cs t)"
  using fake_writer.no_lost_update [OF assms(1-4), of cs] assms(5) unfolding adapter_run_def by blast

subsection \<open>Restoring a checkpoint\<close>

lemma checkpoint_survives:
  assumes "inj ids" and "k < fk_next_id s" and "map_of (fd_snapshots (fk_document s)) (ids k) = Some es"
  shows "k < fk_next_id (adapter_run sha ids cs s) \<and>
    map_of (fd_snapshots (fk_document (adapter_run sha ids cs s))) (ids k) = Some es"
proof (rule adapter_run_induct [where P = "\<lambda>s. k < fk_next_id s \<and>
    map_of (fd_snapshots (fk_document s)) (ids k) = Some es"])
  show "k < fk_next_id s \<and> map_of (fd_snapshots (fk_document s)) (ids k) = Some es"
    using assms(2,3) by blast
next
  fix c and s :: fake_adapter
  assume s: "k < fk_next_id s \<and> map_of (fd_snapshots (fk_document s)) (ids k) = Some es"
  from s have ne: "ids (fk_next_id s) \<noteq> ids k" using injD [OF assms(1), of "fk_next_id s" k] by auto
  show "k < fk_next_id (adapter_call_step sha ids c s) \<and>
    map_of (fd_snapshots (fk_document (adapter_call_step sha ids c s))) (ids k) = Some es"
  proof (cases c)
    case (CallCommit rq)
    have "fake_commit sha ids rq s = (fst (fake_commit sha ids rq s), snd (fake_commit sha ids rq s))" by simp
    then have "k < fk_next_id (snd (fake_commit sha ids rq s)) \<and>
      map_of (fd_snapshots (fk_document (snd (fake_commit sha ids rq s)))) (ids k) = Some es"
      by (cases rule: fake_commit_cases)
        (use s ne in \<open>auto simp: commit_applied_def commit_checkpoint_def Let_def\<close>)
    with CallCommit show ?thesis by (simp add: adapter_call_step_def)
  next
    case (CallRollback rq)
    then show ?thesis using s
      by (cases rule: fake_rollback_cases [of sha rq s]) (auto simp: adapter_call_step_def)
  qed
qed

text \<open>
  C15: A checkpoint brings the drawing back: after a commit that made a checkpoint and any
  further commits and rollbacks, rolling back to that checkpoint at the current revision succeeds and
  leaves exactly the entities the drawing had before the commit.
\<close>

theorem checkpoint_restores:
  assumes "inj ids" and "ids (fk_next_id s) \<noteq> []"
    and "\<not> already_recorded rq s" and "fake_commit sha ids rq s = (Inr r, t)"
    and "cr_checkpoint_id r = Some (rq_checkpoint_id q)"
    and "document_revision sha (fk_document (adapter_run sha ids cs t)) = Inr (rq_current_revision q)"
    and "rq_document_id q = fd_document_id (fk_document (adapter_run sha ids cs t))"
  shows "\<exists>res v. fake_rollback sha q (adapter_run sha ids cs t) = (Inr res, v) \<and>
    fd_entities (fk_document v) = fd_entities (fk_document s) \<and>
    document_revision sha (fk_document v) = Inr (rr_restored_revision res)"
proof -
  let ?u = "adapter_run sha ids cs t"
  let ?d = "(fk_document ?u)\<lparr>fd_entities := fd_entities (fk_document s),
      fd_write_counter := Suc (fd_write_counter (fk_document ?u))\<rparr>"
  from assms(4) have t: "cq_create_checkpoint rq \<and> rq_checkpoint_id q = ids (fk_next_id s) \<and>
    fk_next_id s < fk_next_id t \<and>
    map_of (fd_snapshots (fk_document t)) (ids (fk_next_id s)) = Some (fd_entities (fk_document s)) \<and>
    (\<exists>c. document_revision sha (fk_document s) = Inr c)"
    by (cases rule: fake_commit_cases)
      (use assms(3,5) in \<open>auto simp: already_recorded_def commit_applied_def commit_checkpoint_def Let_def
        split: if_splits\<close>)
  with checkpoint_survives [OF assms(1), of "fk_next_id s" t] have
    snap: "map_of (fd_snapshots (fk_document ?u)) (rq_checkpoint_id q) = Some (fd_entities (fk_document s))"
    by simp
  from t obtain rows where "document_rows sha (fk_document s) = Inr rows"
    by (auto simp: document_revision_text bindR_Inr_iff)
  then have "document_rows sha ?d = Inr rows" by (simp add: document_rows_def)
  then obtain c where "document_revision sha ?d = Inr c" by (auto simp: document_revision_text)
  with snap assms(2,6,7) t show ?thesis
    by (simp add: fake_rollback_def fake_validate_revision_def Let_def)
qed

subsection \<open>Fresh handles\<close>

lemma stage_creates:
  "stage_operations ops ws n = Inr (rs, ws', m) \<Longrightarrow>
   list_all (\<lambda>o'. op_type o' \<notin> {UPDATE_ENTITY, DELETE_ENTITY}) ops \<Longrightarrow>
   n \<le> m \<and> map er_entity_ref rs = map handle_ref [Suc n..<Suc m]"
proof (induction ops arbitrary: ws n rs)
  case (Cons o' ops)
  from Cons.prems obtain b n1 rs1 where b: "build_entities o' n = Inr (b, n1)" and
    st: "\<exists>ws2. stage_operations ops ws2 n1 = Inr (rs1, ws', m)" and rs: "rs = map snd b @ rs1"
    by (auto simp: execute_operation_def bindR_Inr_iff Let_def)
  have "list_all (\<lambda>o'. op_type o' \<notin> {UPDATE_ENTITY, DELETE_ENTITY}) ops" using Cons.prems(2) by simp
  with st Cons.IH have "n1 \<le> m \<and> map er_entity_ref rs1 = map handle_ref [Suc n1..<Suc m]" by blast
  moreover from build_entities_refs [OF b]
  have "n \<le> n1" "map er_entity_ref (map snd b) = map handle_ref [Suc n..<Suc n1]" by simp_all
  moreover have "[Suc n..<Suc m] = [Suc n..<Suc n1] @ [Suc n1..<Suc m]"
    using calculation by (metis Suc_le_mono upt_add_eq_append le_Suc_ex)
  ultimately show ?case by (simp add: rs)
qed simp

definition fake_start :: "string \<Rightarrow> fake_adapter" where
  "fake_start doc =
     \<lparr>fk_document = \<lparr>fd_document_id = doc, fd_display_name = ''fake-drawing.dwg'', fd_units = MM,
        fd_entities = [], fd_layers = [''0'', ''OBJECT'', ''HIDDEN'', ''CENTER'', ''DIM'', ''TEXT''],
        fd_write_counter = 0, fd_snapshots = []\<rparr>,
      fk_entity_counter = 0, fk_executions = [], fk_next_id = 0\<rparr>"

lemma fake_inv_run: "fake_inv ids (adapter_run sha ids cs (fake_start doc))"
proof (rule adapter_run_induct [where P = "fake_inv ids"])
  show "fake_inv ids (fake_start doc)" by (simp add: fake_inv_def fake_start_def own_refs_def)
qed (rule fake_inv_step)

text \<open>
  Entity references are never used twice: the entities a plan creates get pairwise different
  references that occur neither in the drawing nor in any of its checkpoints, after any sequence of
  commits and rollbacks.
\<close>

theorem fake_handles_fresh:
  assumes "s = adapter_run sha ids cs (fake_start doc)"
    and "fake_commit sha ids rq s = (Inr r, t)" and "\<not> already_recorded rq s"
    and "list_all (\<lambda>o'. op_type o' \<notin> {UPDATE_ENTITY, DELETE_ENTITY}) (pl_operations (cq_plan rq))"
  shows "distinct (map er_entity_ref (cr_entity_results r)) \<and>
    (\<forall>e \<in> set (cr_entity_results r). er_entity_ref e \<notin> fst ` set (fd_entities (fk_document s)) \<and>
       (\<forall>p \<in> set (fd_snapshots (fk_document s)). er_entity_ref e \<notin> fst ` set (snd p)))"
proof -
  let ?n = "fk_entity_counter s"
  from assms(2) obtain ws m where
    "stage_operations (pl_operations (cq_plan rq)) (fd_entities (fk_document s)) ?n =
       Inr (cr_entity_results r, ws, m)"
    by (cases rule: fake_commit_cases) (use assms(3) in \<open>auto simp: already_recorded_def\<close>)
  from stage_creates [OF this assms(4)]
  have refs: "map er_entity_ref (cr_entity_results r) = map handle_ref [Suc ?n..<Suc m]" by blast
  have "inj_on handle_ref A" for A by (simp add: inj_on_def handle_ref_inj)
  then have "distinct (map er_entity_ref (cr_entity_results r))"
    unfolding refs by (simp only: distinct_map distinct_upt simp_thms)
  moreover have "er_entity_ref e \<notin> fst ` set es"
    if e: "e \<in> set (cr_entity_results r)" and "own_refs ?n es" for e es
  proof -
    from e have "er_entity_ref e \<in> set (map er_entity_ref (cr_entity_results r))" by simp
    then obtain k where "er_entity_ref e = handle_ref k" "?n < k" unfolding refs by auto
    with that(2) show ?thesis by (auto simp: own_refs_def handle_ref_inj)
  qed
  moreover have "own_refs ?n (fd_entities (fk_document s))"
    "p \<in> set (fd_snapshots (fk_document s)) \<Longrightarrow> own_refs ?n (snd p)" for p
    using fake_inv_run [of ids sha cs doc] unfolding assms(1) [symmetric] fake_inv_def by auto
  ultimately show ?thesis by blast
qed

subsection \<open>Witnesses\<close>

definition demo_text :: operation where
  "demo_text = \<lparr>op_id = ''op_1'', op_feature_id = ''f1'', op_type = CREATE_TEXT, op_layer = ''TEXT'',
     op_geometry = [(''text'', PStr ''A'')], op_expected = [], op_target_entity_ref = None\<rparr>"

definition demo_sha :: "string \<Rightarrow> string" where
  "demo_sha s = s"

definition demo_ids :: "nat \<Rightarrow> string" where
  "demo_ids n = ''cp'' @ show_nat n"

definition demo_request :: "string \<Rightarrow> commit_request" where
  "demo_request key = \<lparr>cq_plan = demo_plan\<lparr>pl_operations := [demo_text], pl_plan_hash := Some ''h''\<rparr>,
     cq_idempotency_key = key,
     cq_expected_revision = ''sha256:'' @ revision_text ''doc_1'' 0 (PList []),
     cq_approval_token = [], cq_create_checkpoint = True\<rparr>"

lemma demo_ids_inj: "inj demo_ids"
  by (simp add: inj_def demo_ids_def show_nat_inj)

lemma demo_sha_inj: "inj demo_sha"
  by (simp add: inj_def demo_sha_def)

definition demo_applied :: fake_adapter where
  "demo_applied = snd (fake_commit demo_sha demo_ids (demo_request ''k'') (fake_start ''doc_1''))"

definition demo_entity :: fake_entity where
  "demo_entity = \<lparr>fe_entity_ref = handle_ref 1, fe_entity_type = ''AcDbText'', fe_layer = ''TEXT'',
     fe_feature_id = ''f1'', fe_operation_id = ''op_1'', fe_geometry = [(''text'', PStr ''A'')],
     fe_measurements = [(''text'', PStr ''A'')]\<rparr>"

lemma demo_stage:
  "stage_operations [demo_text] [] 0 =
   Inr ([result_for demo_text (handle_ref 1) ''AcDbText'' [(''text'', PStr ''A'')]],
     [(handle_ref 1, demo_entity)], 1)"
  by (simp add: demo_text_def demo_entity_def execute_operation_def build_entities_def
      entity_type_for_def measure_op_def result_for_def Let_def)

lemma demo_apply: "apply_entities [] [(r, e)] = [(r, e)]"
  by (simp add: apply_entities_def)

lemma demo_revision:
  "fd_entities doc = [] \<Longrightarrow> document_revision demo_sha doc =
     Inr (''sha256:'' @ revision_text (fd_document_id doc) (fd_write_counter doc) (PList []))"
  "fd_entities doc = [(handle_ref 1, demo_entity)] \<Longrightarrow> \<exists>r. document_revision demo_sha doc = Inr r"
  by (simp_all add: document_revision_text document_rows_def demo_sha_def entity_row_def sha256_of_def
      canonical_json_def demo_entity_def)

lemma commit_facts:
  assumes "fake_commit sha ids rq s = (Inr r, t)" and "\<not> already_recorded rq s"
  shows "document_revision sha (fk_document t) = Inr (cr_new_revision r)"
    and "fk_executions t = dset (fk_executions s) (cq_idempotency_key rq) r"
    and "\<exists>rs ws m. stage_operations (pl_operations (cq_plan rq)) (fd_entities (fk_document s))
        (fk_entity_counter s) = Inr (rs, ws, m) \<and>
      fd_entities (fk_document t) = apply_entities (fd_entities (fk_document s)) ws"
  using assms
  by (cases rule: fake_commit_cases;
      simp add: already_recorded_def commit_applied_def commit_checkpoint_def Let_def)+

lemma commit_succeeds:
  assumes "map_of (fk_executions s) (cq_idempotency_key rq) = None"
    and "document_revision sha (fk_document s) = Inr (cq_expected_revision rq)"
    and "stage_operations (pl_operations (cq_plan rq)) (fd_entities (fk_document s)) (fk_entity_counter s) =
      Inr (rs, ws, m)"
    and "document_revision sha (fk_document (commit_applied ids rq ws m s)) = Inr new"
    and "pl_plan_hash (cq_plan rq) = Some (c # h)"
  shows "\<exists>r. fst (fake_commit sha ids rq s) = Inr r \<and> cr_entity_results r = rs \<and>
    cr_checkpoint_id r = (if cq_create_checkpoint rq then Some (ids (fk_next_id s)) else None)"
  using assms by (simp add: fake_commit_def commit_applied_def commit_checkpoint_def Let_def
      split: if_splits)

lemma demo_commit:
  "\<exists>r. fake_commit demo_sha demo_ids (demo_request ''k'') (fake_start ''doc_1'') = (Inr r, demo_applied) \<and>
     cr_checkpoint_id r = Some (demo_ids 0)"
proof -
  obtain x where x: "fake_commit demo_sha demo_ids (demo_request ''k'') (fake_start ''doc_1'') = (x, demo_applied)"
    unfolding demo_applied_def by (metis prod.collapse)
  have s: "document_revision demo_sha (fk_document (fake_start ''doc_1'')) =
      Inr (cq_expected_revision (demo_request ''k''))"
    "map_of (fk_executions (fake_start ''doc_1'')) (cq_idempotency_key (demo_request ''k'')) = None"
    "stage_operations (pl_operations (cq_plan (demo_request ''k''))) (fd_entities (fk_document (fake_start ''doc_1'')))
      (fk_entity_counter (fake_start ''doc_1'')) = Inr ([result_for demo_text (handle_ref 1) ''AcDbText''
        [(''text'', PStr ''A'')]], [(handle_ref 1, demo_entity)], 1)"
    "cq_create_checkpoint (demo_request ''k'')" "fk_next_id (fake_start ''doc_1'') = 0"
    by (simp_all add: demo_revision fake_start_def demo_request_def demo_stage del: stage_operations.simps One_nat_def)
  have "fd_entities (fk_document (commit_applied demo_ids (demo_request ''k'') [(handle_ref 1, demo_entity)] 1
      (fake_start ''doc_1''))) = [(handle_ref 1, demo_entity)]"
    by (simp add: commit_applied_def Let_def fake_start_def demo_apply)
  from demo_revision(2) [OF this] obtain r where r: "document_revision demo_sha (fk_document (commit_applied
      demo_ids (demo_request ''k'') [(handle_ref 1, demo_entity)] 1 (fake_start ''doc_1''))) = Inr r" by blast
  have pl: "pl_plan_hash (cq_plan (demo_request ''k'')) = Some ''h''" by (simp add: demo_request_def)
  from commit_succeeds [OF s(2,1,3) r pl] s(4,5) x show ?thesis by auto
qed

theorem fake_commit_atomic_witness:
  "\<exists>r. fake_commit demo_sha demo_ids (demo_request ''k'') (fake_start ''doc_1'') = (Inr r, demo_applied) \<and>
     fd_write_counter (fk_document demo_applied) = 1 \<and>
     map_of (fk_executions demo_applied) ''k'' = Some r"
proof -
  from demo_commit obtain r where
    r: "fake_commit demo_sha demo_ids (demo_request ''k'') (fake_start ''doc_1'') = (Inr r, demo_applied)" by blast
  from fake_commit_atomic [OF r] r show ?thesis by (auto simp: fake_start_def demo_request_def)
qed

theorem fake_commit_replays_witness:
  "\<exists>r. fake_commit demo_sha demo_ids (demo_request ''k'') demo_applied = (Inr r, demo_applied)"
proof -
  from demo_commit obtain r where
    r: "fake_commit demo_sha demo_ids (demo_request ''k'') (fake_start ''doc_1'') = (Inr r, demo_applied)" by blast
  from fake_commit_replays [OF r refl, of "[]"] show ?thesis by auto
qed

lemma demo_not_recorded:
  "\<not> already_recorded (demo_request ''k'') (fake_start ''doc_1'')"
  by (simp add: already_recorded_def fake_start_def)

theorem fake_no_lost_update_witness:
  "\<exists>e. fake_commit demo_sha demo_ids (demo_request ''other'') demo_applied = (Inl e, demo_applied)"
proof -
  from demo_commit obtain r where
    r: "fake_commit demo_sha demo_ids (demo_request ''k'') (fake_start ''doc_1'') = (Inr r, demo_applied)" by blast
  have "\<not> already_recorded (demo_request ''other'') (adapter_run demo_sha demo_ids [] demo_applied)"
    using commit_facts(2) [OF r demo_not_recorded]
    by (simp add: already_recorded_def fake_start_def demo_request_def)
  from fake_no_lost_update [OF demo_sha_inj demo_not_recorded r _ this]
  show ?thesis by (simp add: demo_request_def)
qed

theorem checkpoint_restores_witness:
  "\<exists>q res v. fake_rollback demo_sha q demo_applied = (Inr res, v) \<and>
     fd_entities (fk_document demo_applied) \<noteq> [] \<and> fd_entities (fk_document v) = []"
proof -
  from demo_commit obtain r where
    r: "fake_commit demo_sha demo_ids (demo_request ''k'') (fake_start ''doc_1'') = (Inr r, demo_applied)"
    "cr_checkpoint_id r = Some (demo_ids 0)" by blast
  let ?q = "\<lparr>rq_job_id = ''job_1'', rq_document_id = fd_document_id (fk_document demo_applied),
    rq_checkpoint_id = demo_ids 0, rq_current_revision = cr_new_revision r,
    rq_rollback_approval_token = [], rq_undo_group = None\<rparr>"
  have rev: "document_revision demo_sha (fk_document demo_applied) = Inr (cr_new_revision r)"
    by (rule commit_facts(1) [OF r(1) demo_not_recorded])
  have "demo_ids (fk_next_id (fake_start ''doc_1'')) \<noteq> []" by (simp add: demo_ids_def)
  from checkpoint_restores [OF demo_ids_inj this demo_not_recorded r(1), of ?q "[]"] r(2) rev
  obtain res v where v: "fake_rollback demo_sha ?q demo_applied = (Inr res, v)"
    "fd_entities (fk_document v) = []"
    by (auto simp: fake_start_def)
  moreover have "fd_entities (fk_document demo_applied) \<noteq> []"
    using commit_facts(3) [OF r(1) demo_not_recorded]
    by (auto simp: fake_start_def demo_request_def demo_stage demo_apply simp del: stage_operations.simps)
  ultimately show ?thesis by blast
qed

theorem fake_handles_fresh_witness:
  "\<exists>r. fake_commit demo_sha demo_ids (demo_request ''k'') (fake_start ''doc_1'') = (Inr r, demo_applied) \<and>
     distinct (map er_entity_ref (cr_entity_results r))"
proof -
  from demo_commit obtain r where
    r: "fake_commit demo_sha demo_ids (demo_request ''k'') (fake_start ''doc_1'') = (Inr r, demo_applied)" by blast
  have "list_all (\<lambda>o'. op_type o' \<notin> {UPDATE_ENTITY, DELETE_ENTITY}) (pl_operations (cq_plan (demo_request ''k'')))"
    by (simp add: demo_request_def demo_text_def)
  from fake_handles_fresh [where cs = "[]" and doc = "''doc_1''", OF _ r demo_not_recorded this] r
  show ?thesis by auto
qed

end
