(* ===== verification/CommitGuarantees.thy ===== *)
theory CommitGuarantees
  imports HarnessDemo FakeAdapter
begin

section \<open>What a commit guarantees\<close>

text \<open>
  The safety theorems about \<open>commit\<close>. They rest on triples of its stages: what the authorisation
  has established, what the evidence gates have established, and which part of the world a stage can
  change. The locale \<open>reading_port\<close> is what the service expects of the reading methods of its
  adapter, interpreted on the in-memory adapter.
\<close>

subsection \<open>The reading methods of the port\<close>

definition reads_only :: "('e, 's, 'b) prog \<Rightarrow> bool" where
  "reads_only m \<longleftrightarrow> (\<forall>s. snd (m s) = s)"

definition observing :: "'a adapter \<Rightarrow> bool" where
  "observing ad \<longleftrightarrow> (\<forall>doc. reads_only (ad_inspect_document ad doc)) \<and>
     (\<forall>doc r. reads_only (ad_validate_revision ad doc r))"

lemma reads_onlyD: "reads_only m \<Longrightarrow> m s = (fst (m s), s)"
  by (simp add: reads_only_def prod_eq_iff)

lemma core_adapterP: "reads_only m \<Longrightarrow> keeps same_core (adapterP m)"
  unfolding adapterP_def by (rule keeps_zoomP) (simp add: same_core_iff reads_only_def)

lemma bind_reading:
  assumes "reads_only m" and "\<And>x. fst (m (w_adapter w)) = Inr x \<Longrightarrow> triple (at_core w) (k x) Q E"
    and "\<And>e s. at_core w s \<Longrightarrow> E e s"
  shows "triple (at_core w) (bindP (adapterP m) k) Q E"
proof (rule triple_bindP [where R = "\<lambda>x s. fst (m (w_adapter w)) = Inr x \<and> at_core w s"])
  show "triple (\<lambda>s. fst (m (w_adapter w)) = Inr x \<and> at_core w s) (k x) Q E" for x
    by (intro triple_pure assms(2))
  have run: "fst (m (w_adapter w)) = r \<and> at_core w t" if "at_core w s" and "adapterP m s = (r, t)" for s r t
    using that reads_onlyD [OF assms(1)]
    by (auto simp: adapterP_def zoomP_def core_def split: prod.splits) (metis fst_conv snd_conv)+
  show "triple (at_core w) (adapterP m) (\<lambda>x s. fst (m (w_adapter w)) = Inr x \<and> at_core w s) E"
    by (rule tripleI) (use run assms(3) in \<open>blast+\<close>)
qed

text \<open>The world after the snapshot was taken.\<close>

definition seen :: "document_snapshot \<Rightarrow> 'a world \<Rightarrow> 'a world" where
  "seen snap w = w\<lparr>w_snapshots := dset (w_snapshots w) (ds_document_id snap) snap\<rparr>"

lemma bind_inspect:
  assumes "reads_only (ad_inspect_document (hs_adapter env) doc)"
    and "\<And>snap. fst (ad_inspect_document (hs_adapter env) doc (w_adapter w)) = Inr snap \<Longrightarrow>
       triple (at_core (seen snap w)) (k snap) Q E"
    and "\<And>e s. at_core w s \<Longrightarrow> E e s" and "\<And>e s snap. at_core (seen snap w) s \<Longrightarrow> E e s"
  shows "triple (at_core w) (bindP (harness_inspect env doc) k) Q E"
  unfolding harness_inspect_def prog_assoc
proof (rule bind_reading [OF assms(1) _ assms(3)])
  fix snap
  assume "fst (ad_inspect_document (hs_adapter env) doc (w_adapter w)) = Inr snap"
  from assms(2) [OF this]
  show "triple (at_core w) (thenP (modP (\<lambda>w. w\<lparr>w_snapshots := dset (w_snapshots w) (ds_document_id snap) snap\<rparr>))
     (thenP (logP env DOCUMENT_INSPECTED None ''system'' ''harness''
        [(''document_id'', PStr (ds_document_id snap)), (''revision'', PStr (ds_revision snap))])
     (k snap))) Q E"
    by (intro then_modP [where w' = "seen snap w"] then_core core_logP assms(4))
      (auto simp: seen_def core_def)
qed simp_all

locale reading_port =
  fixes port :: "'a adapter"
  assumes inspect_reads: "reads_only (ad_inspect_document port doc)"
    and validate_reads: "reads_only (ad_validate_revision port d r)"
begin

lemma observing_port: "observing port"
  by (simp add: observing_def inspect_reads validate_reads)

lemma bind_port_inspect:
  assumes "hs_adapter env = port"
    and "\<And>snap. fst (ad_inspect_document port doc (w_adapter w)) = Inr snap \<Longrightarrow> triple (at_core w) (k snap) Q E"
    and "\<And>e s. at_core w s \<Longrightarrow> E e s"
  shows "triple (at_core w) (bindP (adapterP (ad_inspect_document (hs_adapter env) doc)) k) Q E"
  unfolding assms(1) by (rule bind_reading [OF inspect_reads assms(2,3)])

lemma core_validate: "hs_adapter env = port \<Longrightarrow> keeps same_core (validate_displayed_revision env doc r)"
  unfolding validate_displayed_revision_def by (rule core_adapterP) (simp add: validate_reads)

end

lemma observing_reading_port: "observing ad \<longleftrightarrow> reading_port ad"
  by (auto simp: observing_def reading_port_def)

interpretation fake_reads: reading_port "fake_port sha ids" for sha :: "string \<Rightarrow> string" and ids :: "nat \<Rightarrow> string"
  by unfold_locales
    (auto simp: fake_port_def reads_only_def fake_inspect_document_def fake_validate_revision_def prog_defs Let_def
      split: sum.splits)

subsection \<open>The stages of a commit\<close>

text \<open>What the authorisation has established about the world it ran in.\<close>

definition approved_by_token ::
  "('a, 'm) harness_env \<Rightarrow> 'a world \<Rightarrow> cad_job \<Rightarrow> string \<Rightarrow> string \<Rightarrow> string \<Rightarrow> string \<Rightarrow>
   approval_record \<Rightarrow> bool" where
  "approved_by_token env w job token jid ph revn a \<longleftrightarrow>
     recorded_approval job w = Some a \<and>
     (\<exists>n. verify_approval_token (hs_hmac env) token a (hs_secret env) jid ph revn (hs_clock env n) = Inr ())"

definition commit_scope ::
  "('a, 'm) harness_env \<Rightarrow> 'a world \<Rightarrow> string \<Rightarrow> string \<Rightarrow> string \<Rightarrow> string \<Rightarrow> string \<Rightarrow> commit_gates \<Rightarrow> bool" where
  "commit_scope env w jid key revn ph token g \<longleftrightarrow>
     plan_in_force env (w_store w) jid (cg_plan g) (cg_job g) \<and> pl_plan_hash (cg_plan g) = Some ph \<and>
     cg_previous g = find_execution (w_store w) jid key \<and>
     commit_request_digest (hs_sha env) jid ph revn = Inr (cg_digest g) \<and>
     (\<forall>d r. cg_previous g = Some (d, r) \<longrightarrow> d = cg_digest g) \<and>
     (if hs_require_approval env
      then \<exists>a. cg_approval g = Some a \<and> approved_by_token env w (cg_job g) token jid ph revn a
      else cg_approval g = None)"

lemma recorded_approval_core: "at_core w s \<Longrightarrow> recorded_approval job s = recorded_approval job w"
  by (drule at_core_store) (simp add: recorded_approval_def split: option.splits)

lemma check_approval_triple:
  "triple (at_core w) (check_approval env job token jid ph revn)
     (\<lambda>a s. at_core w s \<and>
        (if hs_require_approval env
         then \<exists>x. a = Some x \<and> approved_by_token env w job token jid ph revn x else a = None))
     (\<lambda>_. at_core w)"
  unfolding check_approval_def
  by (intro triple_If triple_retP bind_getP_core [OF recorded_approval_core] triple_option triple_raiseP
      bind_clock then_liftP)
    (auto simp: approved_by_token_def)

lemma authorise_triple:
  "triple (at_core w) (authorise_commit env jid key revn ph token)
     (\<lambda>g s. at_core w s \<and> commit_scope env w jid key revn ph token g) (\<lambda>_. at_core w)"
  unfolding authorise_commit_def
  by (intro bind_require_job bind_require_plan then_liftP bind_liftP bind_read_store then_failIf
      triple_bindP [OF check_approval_triple] triple_retP)
    (auto simp: commit_scope_def plan_in_force_def split: option.splits)

text \<open>
  Validation writes the report and, for a previewed job without blocking finding, the next state.
\<close>

definition validated_store :: "validation_stage \<Rightarrow> cad_job \<Rightarrow> validation_report \<Rightarrow> time \<Rightarrow> job_store \<Rightarrow> job_store" where
  "validated_store stage job report now st =
     (if stage = PRE_COMMIT \<and> cj_state job = PREVIEWED \<and> \<not> has_blocking report
      then save_job (job\<lparr>cj_state := VALIDATED, cj_updated_at := now\<rparr>) (save_validation report st)
      else save_validation report st)"

definition fresh_report ::
  "('a, 'm) harness_env \<Rightarrow> 'a world \<Rightarrow> string \<Rightarrow> validation_stage \<Rightarrow> operation_plan \<Rightarrow> cad_job \<Rightarrow>
   validation_report \<Rightarrow> bool" where
  "fresh_report env w jid stage plan job report \<longleftrightarrow>
     (\<exists>vid r0. engine_run (hs_rules env) vid stage (plan_context env plan None) jid None = Inr r0 \<and>
        report = with_live_findings env stage plan (snapshot_for (cj_document_id job) w) r0)"

definition validation_step ::
  "('a, 'm) harness_env \<Rightarrow> 'a world \<Rightarrow> string \<Rightarrow> validation_stage \<Rightarrow> bool \<Rightarrow> operation_plan \<Rightarrow> cad_job \<Rightarrow>
   validation_report \<Rightarrow> time \<Rightarrow> bool" where
  "validation_step env w jid stage allow plan job report now \<longleftrightarrow>
     plan_in_force env (w_store w) jid plan job \<and> (cj_state job = APPROVED \<longrightarrow> allow) \<and>
     fresh_report env w jid stage plan job report"

lemma bind_run_engine:
  assumes "\<And>vid r. engine_run (hs_rules env) vid stage (plan_context env plan result) jid None = Inr r \<Longrightarrow>
      triple (at_core w) (k r) Q E"
    and "\<And>e s. at_core w s \<Longrightarrow> E e s"
  shows "triple (at_core w) (bindP (run_engine env stage plan result jid) k) Q E"
  unfolding run_engine_def bindP_bindP
  by (intro bind_core core_new_idP bind_liftP assms) assumption+

lemma snapshot_for_core: "at_core w s \<Longrightarrow> snapshot_for doc s = snapshot_for doc w"
  by (simp add: snapshot_for_def core_def)

lemma bind_read_snapshot:
  assumes "triple (at_core w) (k (snapshot_for doc w)) Q E"
  shows "triple (at_core w) (bindP (getP (snapshot_for doc)) k) Q E"
  using snapshot_for_core assms by (rule bind_getP_core)

definition after_validation :: "string \<Rightarrow> validation_stage \<Rightarrow> job_store \<Rightarrow> job_store \<Rightarrow> bool" where
  "after_validation jid stage st st' \<longleftrightarrow> st' = st \<or>
     (\<exists>job r now. get_job st jid = Some job \<and>
        (st' = save_validation r st \<or> st' = validated_store stage job r now st))"

lemma validate_triple:
  "triple (at_core w) (validate_job env jid stage allow)
     (\<lambda>r s. \<exists>plan job now. validation_step env w jid stage allow plan job r now \<and>
        at_core (w\<lparr>w_store := validated_store stage job r now (w_store w)\<rparr>) s)
     (\<lambda>e s. \<exists>st. after_validation jid stage (w_store w) st \<and> at_core (w\<lparr>w_store := st\<rparr>) s)"
  unfolding validate_job_def prog_assoc Let_def
  by (intro bind_require_job bind_require_plan then_failIf bind_run_engine bind_read_snapshot
      then_store_put triple_If bind_transition then_core core_logP triple_retP)
    (auto simp: validation_step_def plan_in_force_def fresh_report_def validated_store_def
      after_validation_def transition_to_Inr_iff)

text \<open>What the evidence gates have established, and the world they leave.\<close>

definition evidence_gate ::
  "('a, 'm) harness_env \<Rightarrow> 'a world \<Rightarrow> string \<Rightarrow> string \<Rightarrow> commit_gates \<Rightarrow> document_snapshot \<Rightarrow>
   validation_report \<Rightarrow> bool" where
  "evidence_gate env w jid revn g snap report \<longleftrightarrow>
     cj_state (cg_job g) \<noteq> UNKNOWN_COMMIT_STATE \<and>
     (\<exists>shown. get_validation (w_store w) jid = Some shown \<and> evidence_allows (cg_approval g) shown (cg_plan g) jid) \<and>
     fst (ad_inspect_document (hs_adapter env) (Some (cj_document_id (cg_job g))) (w_adapter w)) = Inr snap \<and>
     fresh_report env (seen snap w) jid PRE_COMMIT (cg_plan g) (cg_job g) report \<and>
     evidence_allows (cg_approval g) report (cg_plan g) jid \<and>
     fst (ad_validate_revision (hs_adapter env) (cj_document_id (cg_job g)) revn (w_adapter w)) = Inr True"

definition gated_world :: "'a world \<Rightarrow> commit_gates \<Rightarrow> document_snapshot \<Rightarrow> validation_report \<Rightarrow> time \<Rightarrow> 'a world" where
  "gated_world w g snap report now =
     (seen snap w)\<lparr>w_store := validated_store PRE_COMMIT (cg_job g) report now (w_store w)\<rparr>"

lemma seen_simps [simp]:
  "w_store (seen snap w) = w_store w" "w_adapter (seen snap w) = w_adapter w"
  "w_leases (seen snap w) = w_leases w" "w_handle (seen snap w) = w_handle w"
  "w_undo (seen snap w) = w_undo w" "w_recoveries (seen snap w) = w_recoveries w"
  by (simp_all add: seen_def)

lemma bind_validate:
  assumes "plan_in_force env (w_store w) jid plan job"
    and "\<And>r now. (cj_state job = APPROVED \<longrightarrow> allow) \<Longrightarrow> fresh_report env w jid stage plan job r \<Longrightarrow>
      triple (at_core (w\<lparr>w_store := validated_store stage job r now (w_store w)\<rparr>)) (k r) Q E"
    and "\<And>e s st. after_validation jid stage (w_store w) st \<Longrightarrow> at_core (w\<lparr>w_store := st\<rparr>) s \<Longrightarrow> E e s"
  shows "triple (at_core w) (bindP (validate_job env jid stage allow) k) Q E"
proof (rule triple_bindP [OF triple_conseq [OF validate_triple]])
  show "\<exists>now. ((cj_state job = APPROVED \<longrightarrow> allow) \<and> fresh_report env w jid stage plan job r) \<and>
      at_core (w\<lparr>w_store := validated_store stage job r now (w_store w)\<rparr>) s"
    if "\<exists>plan job now. validation_step env w jid stage allow plan job r now \<and>
      at_core (w\<lparr>w_store := validated_store stage job r now (w_store w)\<rparr>) s" for r s
    using that assms(1) by (auto simp: validation_step_def plan_in_force_def)
  show "triple (\<lambda>s. \<exists>now. ((cj_state job = APPROVED \<longrightarrow> allow) \<and> fresh_report env w jid stage plan job r) \<and>
      at_core (w\<lparr>w_store := validated_store stage job r now (w_store w)\<rparr>) s) (k r) Q E" for r
    by (intro triple_ex triple_pure assms(2)) simp_all
qed (use assms(3) in blast)+

lemma after_validation_refl: "after_validation jid stage st st"
  by (simp add: after_validation_def)

lemma after_validated_store:
  "get_job st jid = Some job \<Longrightarrow> after_validation jid stage st (validated_store stage job r now st)"
  by (auto simp: after_validation_def)

definition left_by_checks :: "'a world \<Rightarrow> string \<Rightarrow> 'a world \<Rightarrow> bool" where
  "left_by_checks w jid s \<longleftrightarrow>
     (\<exists>st snaps. after_validation jid PRE_COMMIT (w_store w) st \<and>
        at_core (w\<lparr>w_store := st, w_snapshots := snaps\<rparr>) s)"

lemma left_by_checksI:
  "at_core w s \<Longrightarrow> left_by_checks w jid s"
  "at_core (seen snap w) s \<Longrightarrow> left_by_checks w jid s"
  "after_validation jid PRE_COMMIT (w_store w) st \<Longrightarrow> at_core ((seen snap w)\<lparr>w_store := st\<rparr>) s \<Longrightarrow>
     left_by_checks w jid s"
  unfolding left_by_checks_def
  by (rule exI [of _ "w_store w"], rule exI [of _ "w_snapshots w"], simp add: core_def after_validation_refl)
    (rule exI [of _ "w_store w"], rule exI [of _ "dset (w_snapshots w) (ds_document_id snap) snap"],
      simp add: core_def after_validation_refl seen_def,
     rule exI [of _ st], rule exI [of _ "dset (w_snapshots w) (ds_document_id snap) snap"],
      simp add: core_def seen_def)

lemma check_evidence_triple:
  assumes "observing (hs_adapter env)" and scope: "plan_in_force env (w_store w) jid (cg_plan g) (cg_job g)"
  shows "triple (at_core w) (check_evidence env g jid revn)
     (\<lambda>r s. \<exists>snap report now. evidence_gate env w jid revn g snap report \<and>
        at_core (gated_world w g snap report now) s)
     (\<lambda>e. left_by_checks w jid)"
proof -
  have reads: "reads_only (ad_inspect_document (hs_adapter env) doc)"
      "reads_only (ad_validate_revision (hs_adapter env) d r)" for doc d r
    using assms(1) by (auto simp: observing_def)
  have job: "get_job (w_store w) jid = Some (cg_job g)"
    using scope by (simp add: plan_in_force_def)
  have scope': "plan_in_force env (w_store (seen snap w)) jid (cg_plan g) (cg_job g)" for snap
    using scope by simp
  show ?thesis
    unfolding check_evidence_def Let_def thenP_def [of "harness_inspect env d" for d]
    by (intro then_failIf bind_read_store bind_core core_remediation then_core core_writer
        bind_inspect bind_validate [OF scope'] bind_reading reads triple_retP)
      (auto simp: evidence_gate_def gated_world_def intro: left_by_checksI after_validated_store [OF job]
        split: option.splits)
qed

subsection \<open>Nothing is written without authority\<close>

lemma keeps_mono: "keeps R m \<Longrightarrow> (\<And>s t. R s t \<Longrightarrow> S s t) \<Longrightarrow> keeps S m"
  by (simp add: keeps_def)

abbreviation same_drawing :: "'a world \<Rightarrow> 'a world \<Rightarrow> bool" where
  "same_drawing s t \<equiv> w_adapter t = w_adapter s"

lemma drawing_core: "keeps same_core m \<Longrightarrow> keeps same_drawing m"
  by (erule keeps_mono) (simp add: same_core_iff)

lemma drawing_storeP: "keeps same_drawing (storeP m)"
  unfolding storeP_def by (rule keeps_zoomP) simp

lemma drawing_store_put: "keeps same_drawing (store_put f)"
  unfolding store_put_def by (rule keeps_modP) simp

lemma drawing_leasesP: "keeps same_drawing (leasesP m)"
  unfolding leasesP_def by (rule keeps_zoomP) simp

lemma drawing_drop_lease [simp]: "w_adapter (drop_lease env w) = w_adapter w"
  by (simp add: drop_lease_def split: option.splits)

lemma drawing_beatP: "keeps same_drawing (beatP env)"
  unfolding beatP_def by (rule keeps_modP) (simp split: option.splits prod.splits)

lemma drawing_mark_if: "keeps same_drawing (mark_if b)"
  unfolding mark_if_def by (rule keeps_modP) simp

lemmas drawing_keeps =
  core_keeps [THEN drawing_core] drawing_storeP drawing_store_put drawing_leasesP drawing_beatP
  drawing_mark_if

definition unless_written :: "'a \<Rightarrow> bool \<Rightarrow> 'a world \<Rightarrow> bool" where
  "unless_written a G s \<longleftrightarrow> w_adapter s = a \<or> G"

lemma triple_granted: "G \<Longrightarrow> triple P m (\<lambda>_. unless_written a G) (\<lambda>_. unless_written a G)"
  by (rule tripleI) (simp_all add: unless_written_def)

lemma stable_drawing: "keeps same_drawing m \<Longrightarrow> stable (\<lambda>s. w_adapter s = a) m"
  by (erule stable_keeps) simp

lemmas bind_drawing = bind_stable [OF stable_drawing]
lemmas then_drawing = then_stable [OF stable_drawing]

lemma hold_unless_written:
  assumes "triple (\<lambda>s. w_adapter s = a) body (\<lambda>_. unless_written a G) (\<lambda>_. unless_written a G)"
  shows "triple (\<lambda>s. w_adapter s = a) (holdP env doc owner body) (\<lambda>_. unless_written a G)
    (\<lambda>_. unless_written a G)"
  unfolding holdP_def
  by (intro bind_drawing drawing_keeps then_drawing keeps_modP triple_finallyP triple_conseq [OF assms])
    (simp_all add: unless_written_def)

lemma bind_transition':
  assumes "\<And>now j. transition_to job t u now = Inr j \<Longrightarrow> triple P (k j) Q E"
    and "stable P (transitionP env job t u)" and "\<And>e s. P s \<Longrightarrow> E e s"
  shows "triple P (bindP (transitionP env job t u) k) Q E"
proof (rule triple_bindP [where R = "\<lambda>j s. P s \<and> (\<exists>now. transition_to job t u now = Inr j)"])
  show "triple P (transitionP env job t u) (\<lambda>j s. P s \<and> (\<exists>now. transition_to job t u now = Inr j)) E"
  proof (rule tripleI)
    fix s j t'
    assume run: "P s" "transitionP env job t u s = (Inr j, t')"
    with assms(2) have "P t'" unfolding stable_def by (auto dest: tripleD_Inr)
    with run(2) show "P t' \<and> (\<exists>now. transition_to job t u now = Inr j)"
      by (auto simp: transitionP_def bindP_Inr_iff clockP_def liftP_Inr_iff)
  next
    fix s e t'
    assume "P s" "transitionP env job t u s = (Inl e, t')"
    with assms(2,3) show "E e t'" unfolding stable_def by (auto dest: tripleD_Inl)
  qed
  show "triple (\<lambda>s. P s \<and> (\<exists>now. transition_to job t u now = Inr j)) (k j) Q E" for j
    by (rule triple_facts [where F = "\<exists>now. transition_to job t u now = Inr j"], simp)
      (use assms(1) in \<open>auto intro: triple_pre\<close>)
qed

text \<open>The lease body only starts for an approved job.\<close>

lemma to_COMMITTING:
  assumes "transition_to job COMMITTING u now = Inr j"
  shows "cj_state job = APPROVED"
proof -
  from assms have "job_step (cj_state job) COMMITTING" by (simp add: transition_to_Inr_iff)
  then show ?thesis unfolding pred_COMMITTING .
qed

lemma commit_body_unless_written:
  assumes "cj_state (cg_job g) = APPROVED \<Longrightarrow> G"
  shows "triple (\<lambda>s. w_adapter s = a) (commit_under_lease env g rem jid key revn ph token)
    (\<lambda>_. unless_written a G) (\<lambda>_. unless_written a G)"
  unfolding commit_under_lease_def
  by (rule bind_transition', rule triple_granted, rule assms, erule to_COMMITTING)
    (simp_all add: unless_written_def stable_drawing drawing_keeps)

definition write_authority ::
  "('a, 'm) harness_env \<Rightarrow> 'a world \<Rightarrow> string \<Rightarrow> string \<Rightarrow> string \<Rightarrow> string \<Rightarrow> string \<Rightarrow> bool" where
  "write_authority env w jid key revn ph token \<longleftrightarrow>
     (\<exists>g snap report. commit_scope env w jid key revn ph token g \<and> cg_previous g = None \<and>
        evidence_gate env w jid revn g snap report \<and> cj_state (cg_job g) = APPROVED)"

lemma unless_at_core: "at_core w s \<Longrightarrow> unless_written (w_adapter w) G s"
  by (simp add: unless_written_def core_def)

lemma unless_left_by_checks: "left_by_checks w jid s \<Longrightarrow> unless_written (w_adapter w) G s"
  by (auto simp: left_by_checks_def unless_written_def core_def)

lemma gated_world_adapter [simp]: "w_adapter (gated_world w g snap report now) = w_adapter w"
  by (simp add: gated_world_def)

lemma evidence_unless_written:
  assumes "observing (hs_adapter env)" and scope: "commit_scope env w jid key revn ph token g"
    and "cg_previous g = None"
  shows "triple (at_core w)
    (bindP (check_evidence env g jid revn) (\<lambda>rem. holdP env (cj_document_id (cg_job g)) jid
       (commit_under_lease env g rem jid key revn ph token)))
    (\<lambda>_. unless_written (w_adapter w) (write_authority env w jid key revn ph token))
    (\<lambda>_. unless_written (w_adapter w) (write_authority env w jid key revn ph token))"
proof (rule triple_bindP' [OF check_evidence_triple], rule assms(1))
  show "plan_in_force env (w_store w) jid (cg_plan g) (cg_job g)"
    using scope by (simp add: commit_scope_def)
  show "triple (\<lambda>s. \<exists>snap report now. evidence_gate env w jid revn g snap report \<and>
      at_core (gated_world w g snap report now) s)
    (holdP env (cj_document_id (cg_job g)) jid (commit_under_lease env g rem jid key revn ph token))
    (\<lambda>_. unless_written (w_adapter w) (write_authority env w jid key revn ph token))
    (\<lambda>_. unless_written (w_adapter w) (write_authority env w jid key revn ph token))" for rem
  proof (intro triple_ex triple_pure)
    fix snap report now
    assume ev: "evidence_gate env w jid revn g snap report"
    have auth: "write_authority env w jid key revn ph token" if "cj_state (cg_job g) = APPROVED"
      unfolding write_authority_def using scope assms(3) ev that by blast
    show "triple (at_core (gated_world w g snap report now))
      (holdP env (cj_document_id (cg_job g)) jid (commit_under_lease env g rem jid key revn ph token))
      (\<lambda>_. unless_written (w_adapter w) (write_authority env w jid key revn ph token))
      (\<lambda>_. unless_written (w_adapter w) (write_authority env w jid key revn ph token))"
      by (rule triple_pre [OF hold_unless_written [OF commit_body_unless_written [OF auth]]])
        (simp_all add: core_def)
  qed
qed (rule unless_left_by_checks)

lemma commit_unless_written:
  assumes "observing (hs_adapter env)"
  shows "triple (at_core w) (commit env jid key revn ph token)
    (\<lambda>_. unless_written (w_adapter w) (write_authority env w jid key revn ph token))
    (\<lambda>_. unless_written (w_adapter w) (write_authority env w jid key revn ph token))"
  unfolding commit_def
  by (intro triple_bindP' [OF authorise_triple] triple_pure' triple_option evidence_unless_written assms)
    (auto intro!: triple_liftP unless_at_core split: prod.splits)

text \<open>
  C1: When a call of \<open>commit\<close> changes the drawing, whatever it returns or raises, then before the call the
  job was APPROVED with the stored plan in force (its content has the requested hash and it is bound to the
  job, the document and the expected revision), a recorded approval covers exactly this job, plan and
  revision and the presented token verifies against it at a reading of the service's clock, the stored
  and a freshly computed pre-commit report both let the commit through with every warning acknowledged,
  the live drawing is at the approved revision, and no execution is recorded under the idempotency key.
\<close>

theorem commit_needs_authority:
  assumes "observing (hs_adapter env)" and "hs_require_approval env"
    and "commit env jid key revn ph token w = (r, t)" and "w_adapter t \<noteq> w_adapter w"
  shows "\<exists>job plan a n shown snap fresh.
    get_job (w_store w) jid = Some job \<and> cj_state job = APPROVED \<and> recorded_approval job w = Some a \<and>
    get_plan (w_store w) jid = Some plan \<and> pl_plan_hash plan = Some ph \<and>
    verify_hash (hs_sha env) plan ph = Inr True \<and> pl_job_id plan = jid \<and>
    pl_document_id plan = cj_document_id job \<and> pl_expected_revision plan = cj_expected_revision job \<and>
    verify_approval_token (hs_hmac env) token a (hs_secret env) jid ph revn (hs_clock env n) = Inr () \<and>
    get_validation (w_store w) jid = Some shown \<and> evidence_allows (Some a) shown plan jid \<and>
    fst (ad_inspect_document (hs_adapter env) (Some (cj_document_id job)) (w_adapter w)) = Inr snap \<and>
    fresh_report env (seen snap w) jid PRE_COMMIT plan job fresh \<and> evidence_allows (Some a) fresh plan jid \<and>
    fst (ad_validate_revision (hs_adapter env) (cj_document_id job) revn (w_adapter w)) = Inr True \<and>
    find_execution (w_store w) jid key = None"
proof -
  have "unless_written (w_adapter w) (write_authority env w jid key revn ph token) t"
    using commit_unless_written [OF assms(1), of w jid key revn ph token] assms(3)
    by (cases r) (auto dest: tripleD_Inr tripleD_Inl)
  with assms(4) obtain g snap fresh where g: "commit_scope env w jid key revn ph token g" "cg_previous g = None"
    "evidence_gate env w jid revn g snap fresh" "cj_state (cg_job g) = APPROVED"
    by (auto simp: unless_written_def write_authority_def)
  from g(1) assms(2) obtain a n where a: "cg_approval g = Some a" "recorded_approval (cg_job g) w = Some a"
    "verify_approval_token (hs_hmac env) token a (hs_secret env) jid ph revn (hs_clock env n) = Inr ()"
    by (auto simp: commit_scope_def approved_by_token_def)
  from g(3) a(1) obtain shown where "get_validation (w_store w) jid = Some shown"
    "evidence_allows (Some a) shown (cg_plan g) jid"
    by (auto simp: evidence_gate_def)
  with g a show ?thesis
    by (intro exI [of _ "cg_job g"] exI [of _ "cg_plan g"] exI [of _ a] exI [of _ n] exI [of _ shown]
        exI [of _ snap] exI [of _ fresh])
      (auto simp: commit_scope_def plan_in_force_def plan_is_bound_True evidence_gate_def)
qed

lemma demo_observing: "observing (hs_adapter demo_env)"
  by (simp add: observing_def reads_only_def)

theorem commit_needs_authority_witness:
  "\<exists>job. get_job (w_store (demo_world APPROVED)) ''job_1'' = Some job \<and> cj_state job = APPROVED"
proof -
  obtain r t where run: "commit demo_env ''job_1'' ''key_1'' ''r1'' demo_hash (snd demo_issued) (demo_world APPROVED) =
      (Inr r, t)" and changed: "w_adapter t = 1"
    using demo_service_commit by blast
  have "w_adapter t \<noteq> w_adapter (demo_world APPROVED)" using changed by (simp add: demo_world_def)
  from commit_needs_authority [OF demo_observing _ run this] show ?thesis by auto
qed

end
