(* ===== verification/CommitReplay.thy ===== *)
theory CommitReplay
  imports CommitGuarantees
begin

section \<open>A commit is executed once\<close>

text \<open>
  What a successful commit leaves in the store, what it leaves alone, and the replay that follows:
  the same request again returns the recorded result.
\<close>

subsection \<open>Plans and approvals are not touched\<close>

definition same_files :: "'a world \<Rightarrow> 'a world \<Rightarrow> bool" where
  "same_files s t \<longleftrightarrow> st_plans (w_store t) = st_plans (w_store s) \<and>
     st_approvals (w_store t) = st_approvals (w_store s)"

lemma preord_same_files [simp, intro]: "preord same_files"
  by (simp add: preord_def same_files_def)

named_theorems files_intro \<open>programs that leave plans and approvals alone\<close>

lemma files_core: "keeps same_core m \<Longrightarrow> keeps same_files m"
  by (erule keeps_mono) (simp add: same_core_iff same_files_def)

lemmas [files_intro] = core_keeps [THEN files_core]

lemma files_adapterP [files_intro]: "keeps same_files (adapterP m)"
  unfolding adapterP_def by (rule keeps_zoomP) (simp add: same_files_def)

lemma files_leasesP [files_intro]: "keeps same_files (leasesP m)"
  unfolding leasesP_def by (rule keeps_zoomP) (simp add: same_files_def)

lemma files_store_put:
  "(\<And>s. st_plans (f s) = st_plans s \<and> st_approvals (f s) = st_approvals s) \<Longrightarrow> keeps same_files (store_put f)"
  unfolding store_put_def by (rule keeps_modP) (simp add: same_files_def)

lemma files_save_job [files_intro]: "keeps same_files (store_put (save_job j))"
  by (rule files_store_put) (simp add: save_job_def)

lemma files_save_validation [files_intro]: "keeps same_files (store_put (save_validation r))"
  by (rule files_store_put) (simp add: save_validation_def)

lemma files_fold_map_entity:
  "st_plans (fold map_entity ms s) = st_plans s \<and> st_approvals (fold map_entity ms s) = st_approvals s"
  by (induction ms arbitrary: s) (simp_all add: map_entity_def)

lemma files_finalize_job [files_intro]: "keeps same_files (storeP (finalize_job j ms))"
  unfolding storeP_def
  by (rule keeps_zoomP) (simp add: same_files_def finalize_job_def files_fold_map_entity save_job_def)

lemma files_finalize_commit [files_intro]: "keeps same_files (storeP (finalize_commit j ms k d r c))"
  unfolding storeP_def
  by (rule keeps_zoomP)
    (simp add: same_files_def finalize_commit_def Let_def files_fold_map_entity save_job_def
      record_execution_def save_checkpoint_def split: option.splits)

lemma files_modP:
  "(\<And>s. w_store (g s) = w_store s) \<Longrightarrow> keeps same_files (modP g)"
  by (rule keeps_modP) (simp add: same_files_def)

lemma files_beatP [files_intro]: "keeps same_files (beatP env)"
  unfolding beatP_def by (rule files_modP) (simp split: option.splits prod.splits)

lemma files_mark_if [files_intro]: "keeps same_files (mark_if b)"
  unfolding mark_if_def by (rule files_modP) simp

lemma files_inspect [files_intro]: "keeps same_files (harness_inspect env doc)"
  unfolding harness_inspect_def by (intro keeps_intro files_intro files_modP preord_same_files) simp_all

lemma files_validate_job [files_intro]: "keeps same_files (validate_job env jid st b)"
  unfolding validate_job_def Let_def by (intro keeps_intro files_intro preord_same_files)

lemma files_check_evidence [files_intro]: "keeps same_files (check_evidence env g jid revn)"
  unfolding check_evidence_def Let_def by (intro keeps_intro files_intro preord_same_files)

lemma files_commit_failed [files_intro]: "keeps same_files (commit_failed env jid job e)"
  unfolding commit_failed_def Let_def by (intro keeps_intro files_intro preord_same_files)

lemma files_write_plan [files_intro]: "keeps same_files (write_plan env jid job plan key revn token)"
  unfolding write_plan_def by (intro keeps_intro files_intro files_modP preord_same_files) simp_all

lemma files_finish_commit [files_intro]:
  "keeps same_files now \<Longrightarrow> keeps same_files (finish_commit env c target now)"
  unfolding finish_commit_def by (intro keeps_intro files_intro preord_same_files)

lemma files_checkpoint [files_intro]: "keeps same_files (commit_checkpoint_record env jid result)"
  unfolding commit_checkpoint_record_def by (intro keeps_intro files_intro preord_same_files)

lemma files_post_commit_check [files_intro]: "keeps same_files (post_commit_check env c report)"
  unfolding post_commit_check_def by (intro keeps_intro files_intro preord_same_files)

lemma files_reaudit_read [files_intro]: "keeps same_files (reaudit_read env c rem)"
  unfolding reaudit_read_def by (intro keeps_intro files_intro preord_same_files)

lemma keeps_case_prod [keeps_intro]: "(\<And>a b. keeps R (f a b)) \<Longrightarrow> keeps R (case p of (a, b) \<Rightarrow> f a b)"
  by (cases p) simp

lemma files_reaudit [files_intro]: "keeps same_files (reaudit env c rem)"
  unfolding reaudit_def Let_def by (intro keeps_intro files_intro preord_same_files)

lemma files_conclude_commit [files_intro]: "keeps same_files (conclude_commit env c ph)"
  unfolding conclude_commit_def by (intro keeps_intro files_intro preord_same_files)

lemma files_commit_under_lease [files_intro]:
  "keeps same_files (commit_under_lease env g rem jid key revn ph token)"
  unfolding commit_under_lease_def Let_def by (intro keeps_intro files_intro preord_same_files)

lemma files_holdP: "keeps same_files body \<Longrightarrow> keeps same_files (holdP env doc owner body)"
  unfolding holdP_def
  by (intro keeps_intro files_intro files_modP preord_same_files)
    (simp_all add: same_files_def drop_lease_def split: option.splits)

lemma files_commit: "keeps same_files (commit env jid key revn ph token)"
  unfolding commit_def
  by (intro keeps_intro files_intro files_holdP preord_same_files)

subsection \<open>What success leaves behind\<close>

abbreviation anywhere :: "'s \<Rightarrow> bool" where
  "anywhere \<equiv> \<lambda>_. True"

abbreviation any_error :: "'e \<Rightarrow> 's \<Rightarrow> bool" where
  "any_error \<equiv> \<lambda>_ _. True"

lemma triple_any: "triple P m (\<lambda>_ _. True) any_error"
  by (simp add: triple_def split: prod.splits sum.splits)

lemma bind_any: "(\<And>x. triple anywhere (k x) Q any_error) \<Longrightarrow> triple anywhere (bindP m k) Q any_error"
  by (rule triple_bindP [OF triple_any])

lemma then_any: "triple anywhere k Q any_error \<Longrightarrow> triple anywhere (thenP m k) Q any_error"
  unfolding thenP_def by (rule bind_any)

definition done_job :: "cad_job \<Rightarrow> commit_result \<Rightarrow> cad_job \<Rightarrow> bool" where
  "done_job job r j \<longleftrightarrow>
     (\<exists>t1. j = job\<lparr>cj_state := COMMITTED, cj_updated_at := t1, cj_checkpoint_id := cr_checkpoint_id r,
              cj_expected_revision := cr_new_revision r\<rparr>)"

definition committed_as :: "cad_job \<Rightarrow> string \<Rightarrow> string \<Rightarrow> commit_result \<Rightarrow> 'a world \<Rightarrow> bool" where
  "committed_as job key digest r s \<longleftrightarrow>
     (\<exists>j. done_job job r j \<and> get_job (w_store s) (cj_job_id job) = Some j) \<and>
     find_execution (w_store s) (cj_job_id job) key = Some (digest, commit_result_dump r)"

lemma committed_as_core: "same_core s t \<Longrightarrow> committed_as job key digest r s \<Longrightarrow> committed_as job key digest r t"
  by (simp add: same_core_iff committed_as_def)

lemma finalize_commit_stores:
  assumes "finalize_commit j ms key digest d cp s = (x, st)"
  shows "get_job st (cj_job_id j) = Some j \<and> find_execution st (cj_job_id j) key = Some (digest, d)"
  using assms
  by (auto simp: finalize_commit_def Let_def get_job_def find_execution_def record_execution_def
      save_checkpoint_def save_job_def fold_map_entity split: option.splits)

lemma stable_committed: "keeps same_core m \<Longrightarrow> stable (committed_as job key digest r) m"
  by (erule stable_core) (rule committed_as_core)

lemma stable_mark: "stable (committed_as job key digest r) (mark_if b)"
  unfolding mark_if_def
  by (rule stable_keeps [OF keeps_modP, where R = "\<lambda>s t. w_store t = w_store s"])
    (simp_all add: committed_as_def)

lemma finish_commit_stores:
  "triple anywhere (finish_commit env c COMMITTED now)
     (\<lambda>_. committed_as (ot_job c) (ot_key c) (ot_digest c) (ot_result c)) any_error"
  unfolding finish_commit_def
proof (rule bind_transition')
  fix t1 j
  assume "transition_to (ot_job c) COMMITTED (\<lambda>j. j\<lparr>cj_checkpoint_id := cr_checkpoint_id (ot_result c),
      cj_expected_revision := cr_new_revision (ot_result c)\<rparr>) t1 = Inr j"
  then have j: "done_job (ot_job c) (ot_result c) j" "cj_job_id j = cj_job_id (ot_job c)"
    by (auto simp: transition_to_Inr_iff done_job_def)
  have "triple anywhere (storeP (finalize_commit j (ot_mappings c) (ot_key c) (ot_digest c)
        (commit_result_dump (ot_result c)) (ot_checkpoint c)))
      (\<lambda>_. committed_as (ot_job c) (ot_key c) (ot_digest c) (ot_result c)) any_error"
    by (rule tripleI)
      (use j in \<open>auto simp: storeP_def zoomP_def committed_as_def dest: finalize_commit_stores
         split: prod.splits\<close>)
  then show "triple anywhere (thenP now (bindP (storeP (finalize_commit j (ot_mappings c) (ot_key c)
        (ot_digest c) (commit_result_dump (ot_result c)) (ot_checkpoint c))) mark_if))
      (\<lambda>_. committed_as (ot_job c) (ot_key c) (ot_digest c) (ot_result c)) any_error"
    by (intro then_any) (auto intro!: triple_bindP [where E = any_error] stable_mark [unfolded stable_def, THEN triple_conseq])
qed (auto simp: stable_def triple_any)

lemma conclude_commit_stores:
  "triple anywhere (conclude_commit env c ph)
     (\<lambda>r s. r = ot_result c \<and> committed_as (ot_job c) (ot_key c) (ot_digest c) r s) any_error"
  unfolding conclude_commit_def
  by (intro then_any bind_any triple_If triple_raiseP triple_thenP [OF finish_commit_stores]
      then_stable [OF stable_committed] core_logP triple_retP) simp_all

lemma conclude_after_start:
  assumes "transition_to job COMMITTING id t0 = Inr j" and "ot_job c = j" and "ot_key c = key"
    and "ot_digest c = digest"
  shows "triple anywhere (conclude_commit env c ph) (\<lambda>r. committed_as job key digest r) any_error"
proof (rule triple_conseq [OF conclude_commit_stores])
  fix r and s :: "'a world"
  have "done_job (ot_job c) r j' \<Longrightarrow> done_job job r j'" for j'
    using assms by (auto simp: transition_to_Inr_iff done_job_def)
  moreover have "cj_job_id (ot_job c) = cj_job_id job"
    using assms by (auto simp: transition_to_Inr_iff)
  moreover assume "r = ot_result c \<and> committed_as (ot_job c) (ot_key c) (ot_digest c) r s"
  ultimately show "committed_as job key digest r s"
    using assms by (auto simp: committed_as_def)
qed simp_all

lemma commit_under_lease_stores:
  "triple anywhere (commit_under_lease env g rem jid key revn ph token)
     (\<lambda>r. committed_as (cg_job g) key (cg_digest g) r) any_error"
  unfolding commit_under_lease_def Let_def
  by (rule bind_transition', intro then_any bind_any, erule conclude_after_start)
    (simp_all add: stable_def triple_any)

lemma holdP_stores:
  assumes "triple anywhere body (\<lambda>r. committed_as job key digest r) any_error"
  shows "triple anywhere (holdP env doc owner body) (\<lambda>r. committed_as job key digest r) any_error"
  unfolding holdP_def
  by (intro bind_any then_any triple_finallyP triple_conseq [OF assms])
    (simp_all add: committed_as_def drop_lease_def split: option.splits)

text \<open>A commit returns a recorded result and changes nothing, or it has executed the plan and recorded it.\<close>

lemma commit_outcome:
  "triple (at_core w) (commit env jid key revn ph token)
     (\<lambda>r s. \<exists>g. commit_scope env w jid key revn ph token g \<and>
        (case cg_previous g of
           None \<Rightarrow> committed_as (cg_job g) key (cg_digest g) r s
         | Some (_, stored) \<Rightarrow> commit_result_validate stored = Inr r \<and> at_core w s)) any_error"
  unfolding commit_def
proof (rule triple_bindP' [OF authorise_triple], rule triple_pure')
  fix g
  assume scope: "commit_scope env w jid key revn ph token g"
  show "triple (at_core w)
     (case cg_previous g of
        None \<Rightarrow> bindP (check_evidence env g jid revn) (\<lambda>rem. holdP env (cj_document_id (cg_job g)) jid
            (commit_under_lease env g rem jid key revn ph token))
      | Some (x, stored) \<Rightarrow> liftP (commit_result_validate stored))
     (\<lambda>r s. \<exists>g. commit_scope env w jid key revn ph token g \<and>
        (case cg_previous g of
           None \<Rightarrow> committed_as (cg_job g) key (cg_digest g) r s
         | Some (_, stored) \<Rightarrow> commit_result_validate stored = Inr r \<and> at_core w s)) any_error"
  proof (cases "cg_previous g")
    case None
    have "triple anywhere (bindP (check_evidence env g jid revn) (\<lambda>rem. holdP env (cj_document_id (cg_job g)) jid
        (commit_under_lease env g rem jid key revn ph token)))
        (\<lambda>r. committed_as (cg_job g) key (cg_digest g) r) any_error"
      by (intro bind_any holdP_stores commit_under_lease_stores)
    then show ?thesis
      unfolding None option.case
      by (rule triple_conseq) (use scope None in \<open>auto intro!: exI [of _ g]\<close>)
  next
    case (Some p)
    with scope show ?thesis
      by (cases p) (auto intro!: triple_liftP exI [of _ g])
  qed
qed simp

subsection \<open>The replay\<close>

definition jobs_filed :: "job_store \<Rightarrow> bool" where
  "jobs_filed st \<longleftrightarrow> (\<forall>jid job. get_job st jid = Some job \<longrightarrow> cj_job_id job = jid)"

definition approval_stands ::
  "('a, 'm) harness_env \<Rightarrow> 'a world \<Rightarrow> cad_job \<Rightarrow> string \<Rightarrow> string \<Rightarrow> string \<Rightarrow> string \<Rightarrow> bool" where
  "approval_stands env w job token jid ph revn \<longleftrightarrow>
     (hs_require_approval env \<longrightarrow> (\<exists>a. recorded_approval job w = Some a \<and>
        verify_approval_token (hs_hmac env) token a (hs_secret env) jid ph revn (hs_clock env (w_ticks w)) = Inr ()))"

lemma replay_run:
  assumes force: "plan_in_force env (w_store w) jid plan job" and "pl_plan_hash plan = Some ph"
    and "commit_request_digest (hs_sha env) jid ph revn = Inr digest"
    and "find_execution (w_store w) jid key = Some (digest, stored)"
    and "approval_stands env w job token jid ph revn" and "commit_result_validate stored = Inr r"
  shows "\<exists>u. commit env jid key revn ph token w = (Inr r, u) \<and> core u = core w \<and> w_audit u = w_audit w"
proof -
  have job: "require_job jid w = (Inr job, w)" and plan: "require_plan env jid w = (Inr plan, w)"
    using force by (auto simp: plan_in_force_def require_plan_def require_job_def
        require_current_plan_schema_def prog_defs)
  have appr: "\<exists>a u. check_approval env job token jid ph revn w = (Inr a, u) \<and> core u = core w \<and> w_audit u = w_audit w"
    using assms(5) by (auto simp: check_approval_def approval_stands_def prog_defs clockP_def core_def)
  then obtain a u where a: "check_approval env job token jid ph revn w = (Inr a, u)"
    "core u = core w" "w_audit u = w_audit w" by blast
  have "authorise_commit env jid key revn ph token w =
      (Inr \<lparr>cg_job = job, cg_plan = plan, cg_digest = digest, cg_previous = Some (digest, stored),
        cg_approval = a\<rparr>, u)"
    using assms(2-4) force a(1)
    by (simp add: authorise_commit_def bindP_def thenP_def job plan liftP_def getP_def failIf_def retP_def
        plan_in_force_def require_current_plan_schema_def)
  with assms(6) a(2,3) show ?thesis by (auto simp: commit_def bindP_def liftP_def)
qed

lemma verify_later:
  assumes "verify_approval_token hmac token a secret jid ph revn t0 = Inr ()" and "t1 \<le> ap_expires_at a"
  shows "verify_approval_token hmac token a secret jid ph revn t1 = Inr ()"
  using assms unfolding verify_approval_Inr by (auto simp: approval_is_expired_def)

lemma plan_bound_done:
  assumes "plan_is_bound env jid plan job = Inr True" and "done_job job r j"
  shows "plan_is_bound env jid plan j = Inr True"
  using assms unfolding plan_is_bound_True done_job_def by auto

lemma approval_still_stands:
  assumes "commit_scope env w jid key revn ph token g"
    and "recorded_approval job t = recorded_approval (cg_job g) w"
    and "\<And>a. recorded_approval job t = Some a \<Longrightarrow> hs_clock env (w_ticks t) \<le> ap_expires_at a"
  shows "approval_stands env t job token jid ph revn"
proof (cases "hs_require_approval env")
  case True
  with assms(1) obtain a n where a: "recorded_approval (cg_job g) w = Some a"
    "verify_approval_token (hs_hmac env) token a (hs_secret env) jid ph revn (hs_clock env n) = Inr ()"
    by (auto simp: commit_scope_def approved_by_token_def)
  with assms(2,3) verify_later [OF a(2)] show ?thesis by (simp add: approval_stands_def)
qed (simp add: approval_stands_def)

text \<open>The world after a successful commit still has the plan in force and the execution on record.\<close>

lemma after_commit:
  assumes "commit_scope env w jid key revn ph token g" and "jobs_filed (w_store w)" and "same_files w t"
    and "committed_as (cg_job g) key (cg_digest g) r t"
  shows "\<exists>job. plan_in_force env (w_store t) jid (cg_plan g) job \<and>
    recorded_approval job t = recorded_approval (cg_job g) w \<and>
    find_execution (w_store t) jid key = Some (cg_digest g, commit_result_dump r)"
proof -
  from assms(1) have force: "plan_in_force env (w_store w) jid (cg_plan g) (cg_job g)"
    by (simp add: commit_scope_def)
  with assms(2) have jid: "cj_job_id (cg_job g) = jid"
    by (auto simp: plan_in_force_def jobs_filed_def)
  with assms(4) obtain job where job: "done_job (cg_job g) r job" "get_job (w_store t) jid = Some job"
    and exec: "find_execution (w_store t) jid key = Some (cg_digest g, commit_result_dump r)"
    by (auto simp: committed_as_def)
  from force job plan_bound_done [OF _ job(1)] assms(3)
  have "plan_in_force env (w_store t) jid (cg_plan g) job"
    by (auto simp: plan_in_force_def same_files_def get_plan_def)
  moreover have "recorded_approval job t = recorded_approval (cg_job g) w"
    using job(1) assms(3)
    by (auto simp: recorded_approval_def done_job_def same_files_def get_approval_def split: option.splits)
  ultimately show ?thesis using exec by blast
qed

text \<open>
  C4: Once a call of \<open>commit\<close> has returned a result, the same call made again returns the same result
  and changes neither the store nor the drawing, the leases, the rollback receipts or the audit trail,
  as long as the approval has not expired: the plan is executed once.
\<close>

theorem commit_replays:
  assumes "commit env jid key revn ph token w = (Inr r, t)" and "jobs_filed (w_store w)"
    and "\<And>job a. get_job (w_store t) jid = Some job \<Longrightarrow> recorded_approval job t = Some a \<Longrightarrow>
      hs_clock env (w_ticks t) \<le> ap_expires_at a"
  shows "\<exists>u. commit env jid key revn ph token t = (Inr r, u) \<and> core u = core t \<and> w_audit u = w_audit t"
proof -
  obtain g where scope: "commit_scope env w jid key revn ph token g"
    and out: "case cg_previous g of None \<Rightarrow> committed_as (cg_job g) key (cg_digest g) r t
      | Some (_, stored) \<Rightarrow> commit_result_validate stored = Inr r \<and> at_core w t"
    using tripleD_Inr [OF commit_outcome _ assms(1)] by auto
  have files: "same_files w t" using files_commit assms(1) by (rule keepsD)
  have digest: "commit_request_digest (hs_sha env) jid ph revn = Inr (cg_digest g)"
      "pl_plan_hash (cg_plan g) = Some ph" using scope by (simp_all add: commit_scope_def)
  have "\<exists>job stored. plan_in_force env (w_store t) jid (cg_plan g) job \<and>
      recorded_approval job t = recorded_approval (cg_job g) w \<and>
      find_execution (w_store t) jid key = Some (cg_digest g, stored) \<and> commit_result_validate stored = Inr r"
  proof (cases "cg_previous g")
    case None
    with out after_commit [OF scope assms(2) files, of r] dump_validates [of r] show ?thesis by auto
  next
    case (Some p)
    with out scope obtain stored where stored: "cg_previous g = Some (cg_digest g, stored)"
      "commit_result_validate stored = Inr r" and at: "at_core w t"
      by (cases p) (auto simp: commit_scope_def)
    from at have "w_store t = w_store w" by (rule at_core_store)
    with stored scope recorded_approval_core [OF at] show ?thesis
      by (intro exI [of _ "cg_job g"] exI [of _ stored]) (simp add: commit_scope_def)
  qed
  then obtain job stored where job: "plan_in_force env (w_store t) jid (cg_plan g) job"
    "recorded_approval job t = recorded_approval (cg_job g) w"
    "find_execution (w_store t) jid key = Some (cg_digest g, stored)" "commit_result_validate stored = Inr r"
    by blast
  from job(1) have "get_job (w_store t) jid = Some job" by (simp add: plan_in_force_def)
  with assms(3) approval_still_stands [OF scope job(2)] have "approval_stands env t job token jid ph revn" by blast
  from replay_run [OF job(1) digest(2,1) job(3) this job(4)] show ?thesis .
qed

lemma demo_jobs_filed: "jobs_filed (w_store (demo_world st))"
  by (auto simp: jobs_filed_def demo_world_def get_job_def split: if_splits)

lemma demo_approval_expiry: "ap_expires_at (fst demo_issued) = 900000000"
  using issue_approval_Inr [of demo_sign "''approval_1''" "''job_1''" "''doc_1''" demo_hash "''r1''"
      "''eng''" "''key''" 900000000 "[]" 0 "fst demo_issued" "snd demo_issued"] demo_issue
  by simp

theorem commit_replays_witness:
  "\<exists>r t u. commit demo_env ''job_1'' ''key_1'' ''r1'' demo_hash (snd demo_issued) t = (Inr r, u) \<and>
     w_adapter u = 1 \<and> core u = core t"
proof -
  obtain r t where run: "commit demo_env ''job_1'' ''key_1'' ''r1'' demo_hash (snd demo_issued) (demo_world APPROVED) =
      (Inr r, t)" and written: "w_adapter t = 1"
    using demo_service_commit by blast
  have "same_files (demo_world APPROVED) t" using files_commit run by (rule keepsD)
  then have "hs_clock demo_env (w_ticks t) \<le> ap_expires_at a" if "recorded_approval job t = Some a" for job a
    using that demo_approval_expiry
    by (auto simp: recorded_approval_def same_files_def get_approval_def demo_world_def
        split: option.splits if_splits)
  with commit_replays [OF run demo_jobs_filed] obtain u
    where "commit demo_env ''job_1'' ''key_1'' ''r1'' demo_hash (snd demo_issued) t = (Inr r, u)" "core u = core t"
    by blast
  moreover from this(2) written have "w_adapter u = 1" by (simp add: core_def)
  ultimately show ?thesis by blast
qed

end
