(* ===== verification/ServiceSteps.thy ===== *)
theory ServiceSteps
  imports CommitReplay
begin

section \<open>The service as a state machine\<close>

text \<open>
  Every public operation of the service is a step from the world before to the world after the call,
  whether it returned or raised. Two facts are shown for whole histories of calls: the states of a
  job follow the transition table, and only \<open>commit\<close>, \<open>rollback\<close> and \<open>export\<close> touch the drawing.
\<close>

subsection \<open>Calls that do not touch the jobs\<close>

definition same_jobs :: "'a world \<Rightarrow> 'a world \<Rightarrow> bool" where
  "same_jobs s t \<longleftrightarrow> st_jobs (w_store t) = st_jobs (w_store s)"

lemma preord_same_jobs [simp, intro]: "preord same_jobs"
  by (simp add: preord_def same_jobs_def)

named_theorems jobs_intro \<open>programs that leave the jobs alone\<close>

lemma jobs_core: "keeps same_core m \<Longrightarrow> keeps same_jobs m"
  by (erule keeps_mono) (simp add: same_core_iff same_jobs_def)

lemmas [jobs_intro] = core_keeps [THEN jobs_core]

lemma jobs_getP [jobs_intro]: "keeps same_jobs (getP f)"
  by (rule keeps_getP) simp

lemma jobs_adapterP [jobs_intro]: "keeps same_jobs (adapterP m)"
  unfolding adapterP_def by (rule keeps_zoomP) (simp add: same_jobs_def)

lemma jobs_leasesP [jobs_intro]: "keeps same_jobs (leasesP m)"
  unfolding leasesP_def by (rule keeps_zoomP) (simp add: same_jobs_def)

lemma jobs_store_put: "(\<And>s. st_jobs (f s) = st_jobs s) \<Longrightarrow> keeps same_jobs (store_put f)"
  unfolding store_put_def by (rule keeps_modP) (simp add: same_jobs_def)

lemma jobs_save_validation [jobs_intro]: "keeps same_jobs (store_put (save_validation r))"
  by (rule jobs_store_put) (simp add: save_validation_def)

lemma jobs_save_plan [jobs_intro]: "keeps same_jobs (store_put (save_plan p))"
  by (rule jobs_store_put) (simp add: save_plan_def)

lemma jobs_save_approval [jobs_intro]: "keeps same_jobs (store_put (save_approval a))"
  by (rule jobs_store_put) (simp add: save_approval_def)

lemma jobs_revoke [jobs_intro]: "keeps same_jobs (store_put (revoke_approvals_for_job jid))"
  by (rule jobs_store_put) (simp add: revoke_approvals_for_job_def)

lemma jobs_save_spec [jobs_intro]: "keeps same_jobs (storeP (save_spec jid spec))"
  unfolding storeP_def by (rule keeps_zoomP) (simp add: same_jobs_def save_spec_def Let_def)

lemma jobs_save_remediation [jobs_intro]: "keeps same_jobs (storeP (save_remediation jid h r))"
  unfolding storeP_def by (rule keeps_zoomP) (simp add: same_jobs_def save_remediation_def)

lemma jobs_modP: "(\<And>s. w_store (g s) = w_store s) \<Longrightarrow> keeps same_jobs (modP g)"
  by (rule keeps_modP) (simp add: same_jobs_def)

lemma jobs_beatP [jobs_intro]: "keeps same_jobs (beatP env)"
  unfolding beatP_def by (rule jobs_modP) (simp split: option.splits prod.splits)

lemma jobs_mark_if [jobs_intro]: "keeps same_jobs (mark_if b)"
  unfolding mark_if_def by (rule jobs_modP) simp

lemma jobs_inspect [jobs_intro]: "keeps same_jobs (harness_inspect env doc)"
  unfolding harness_inspect_def by (intro keeps_intro jobs_intro jobs_modP preord_same_jobs) simp_all

lemma jobs_recompile [jobs_intro]: "keeps same_jobs (recompile env rd audits job aid sel tech)"
  unfolding recompile_def by (intro keeps_intro jobs_intro preord_same_jobs)

lemma jobs_require_reader [jobs_intro]: "keeps same_jobs (require_reader env msg)"
  unfolding require_reader_def by (intro keeps_intro preord_same_jobs)

lemma jobs_require_audits [jobs_intro]: "keeps same_jobs require_drawing_audits"
  unfolding require_drawing_audits_def by (intro keeps_intro preord_same_jobs)

lemma jobs_dxf_preview [jobs_intro]: "keeps same_jobs (dxf_preview env plan)"
  unfolding dxf_preview_def by (intro keeps_intro jobs_intro preord_same_jobs)

lemma jobs_displayed [jobs_intro]: "keeps same_jobs (displayed_revision_ok env job d)"
  unfolding displayed_revision_ok_def by (intro keeps_intro jobs_intro preord_same_jobs)

lemma jobs_checkpoint [jobs_intro]: "keeps same_jobs (commit_checkpoint_record env jid result)"
  unfolding commit_checkpoint_record_def by (intro keeps_intro jobs_intro preord_same_jobs)

lemma jobs_reaudit_read [jobs_intro]: "keeps same_jobs (reaudit_read env c rem)"
  unfolding reaudit_read_def by (intro keeps_intro jobs_intro preord_same_jobs)

subsection \<open>Following one job\<close>

text \<open>
  \<open>job_path\<close> compares two stores: no job is lost, and the state of each has moved along the table.
  \<open>tracks st0 job\<close> adds that the call's local \<open>job\<close> is the stored one.
\<close>

definition job_path :: "job_store \<Rightarrow> job_store \<Rightarrow> bool" where
  "job_path st st' \<longleftrightarrow>
     (\<forall>jid job. get_job st jid = Some job \<longrightarrow>
        (\<exists>job'. get_job st' jid = Some job' \<and> job_step\<^sup>*\<^sup>* (cj_state job) (cj_state job')))"

definition moved :: "job_store \<Rightarrow> 'a world \<Rightarrow> bool" where
  "moved st0 s \<longleftrightarrow> job_path st0 (w_store s) \<and> jobs_filed (w_store s)"

definition tracks :: "job_store \<Rightarrow> cad_job \<Rightarrow> 'a world \<Rightarrow> bool" where
  "tracks st0 job s \<longleftrightarrow> moved st0 s \<and> get_job (w_store s) (cj_job_id job) = Some job"

lemma job_path_refl [simp]: "job_path st st"
  by (auto simp: job_path_def)

lemma job_path_trans:
  assumes "job_path st st'" and "job_path st' st''"
  shows "job_path st st''"
  unfolding job_path_def
proof (intro allI impI)
  fix jid job
  assume "get_job st jid = Some job"
  with assms(1) obtain j where j: "get_job st' jid = Some j" "job_step\<^sup>*\<^sup>* (cj_state job) (cj_state j)"
    unfolding job_path_def by blast
  with assms(2) obtain k where "get_job st'' jid = Some k" "job_step\<^sup>*\<^sup>* (cj_state j) (cj_state k)"
    unfolding job_path_def by blast
  with j(2) show "\<exists>job'. get_job st'' jid = Some job' \<and> job_step\<^sup>*\<^sup>* (cj_state job) (cj_state job')"
    by (meson rtranclp_trans)
qed

lemma moved_start: "jobs_filed (w_store w) \<Longrightarrow> moved (w_store w) w"
  by (simp add: moved_def)

lemma moved_same_jobs: "same_jobs s t \<Longrightarrow> moved st0 s \<Longrightarrow> moved st0 t"
  by (simp add: moved_def same_jobs_def job_path_def jobs_filed_def get_job_def)

lemma tracks_same_jobs: "same_jobs s t \<Longrightarrow> tracks st0 job s \<Longrightarrow> tracks st0 job t"
  using moved_same_jobs [of s t st0] by (simp add: tracks_def same_jobs_def get_job_def)

lemma tracks_moved: "tracks st0 job s \<Longrightarrow> moved st0 s"
  by (simp add: tracks_def)

lemma stable_moved: "keeps same_jobs m \<Longrightarrow> HarnessLogic.stable (moved st0) m"
  by (erule stable_keeps) (rule moved_same_jobs)

lemma stable_tracks: "keeps same_jobs m \<Longrightarrow> HarnessLogic.stable (tracks st0 job) m"
  by (erule stable_keeps) (rule tracks_same_jobs)

lemma tracks_save:
  assumes "tracks st0 job s" and "cj_job_id j = cj_job_id job" and "job_step\<^sup>*\<^sup>* (cj_state job) (cj_state j)"
    and "st_jobs (w_store t) = st_jobs (save_job j (w_store s))"
  shows "tracks st0 j t"
proof -
  have get: "get_job (w_store t) jid = (if jid = cj_job_id j then Some j else get_job (w_store s) jid)" for jid
    using assms(4) by (simp add: get_job_def save_job_def)
  have "job_path (w_store s) (w_store t)"
    using assms(1-3) by (auto simp: job_path_def get tracks_def)
  moreover have "jobs_filed (w_store t)"
    using assms(1) by (auto simp: jobs_filed_def get tracks_def moved_def)
  ultimately show ?thesis
    using assms(1) get by (auto simp: tracks_def moved_def intro: job_path_trans)
qed

subsection \<open>Rules\<close>

lemmas bind_tracks = bind_stable [OF stable_tracks]
lemmas then_tracks = then_stable [OF stable_tracks]
lemmas bind_moved = bind_stable [OF stable_moved]
lemmas then_moved = then_stable [OF stable_moved]

lemma bind_job:
  assumes "\<And>job. cj_job_id job = jid \<Longrightarrow> triple (tracks st0 job) (k job) Q E" and "\<And>e s. moved st0 s \<Longrightarrow> E e s"
  shows "triple (moved st0) (bindP (require_job jid) k) Q E"
proof (rule triple_bindP')
  show "triple (moved st0) (require_job jid) (\<lambda>job s. tracks st0 job s \<and> cj_job_id job = jid) (\<lambda>_. moved st0)"
    by (rule tripleI)
      (auto simp: require_job_def prog_defs tracks_def moved_def jobs_filed_def split: option.splits)
  show "triple (\<lambda>s. tracks st0 job s \<and> cj_job_id job = jid) (k job) Q E" for job
    by (rule triple_pure', rule assms(1))
qed (rule assms(2))

lemma bind_step:
  assumes "\<And>now j. transition_to job t u now = Inr j \<Longrightarrow> triple (tracks st0 job') (k j) Q E"
    and "\<And>e s. tracks st0 job' s \<Longrightarrow> E e s"
  shows "triple (tracks st0 job') (bindP (transitionP env job t u) k) Q E"
  using assms by (intro bind_transition' stable_tracks jobs_core core_transitionP)

lemma transition_path:
  assumes "transition_to job t u now = Inr j"
    and "\<And>x. cj_job_id (u x) = cj_job_id x" and "\<And>x. cj_state (u x) = cj_state x"
  shows "cj_job_id j = cj_job_id job \<and> cj_state j = t \<and> t \<in> set (ALLOWED_TRANSITIONS (cj_state job)) \<and>
    job_step\<^sup>*\<^sup>* (cj_state job) t"
  using assms by (auto simp: transition_to_Inr_iff intro: r_into_rtranclp)

lemma bindP_retP_right: "bindP m retP = m"
  by (simp add: fun_eq_iff bindP_def retP_def split: prod.splits sum.splits)

lemma step_result:
  assumes "\<And>now j s. transition_to job t u now = Inr j \<Longrightarrow> tracks st0 job' s \<Longrightarrow> Q j s"
  shows "triple (tracks st0 job') (transitionP env job t u) Q (\<lambda>_. moved st0)"
proof -
  have "triple (tracks st0 job') (bindP (transitionP env job t u) retP) Q (\<lambda>_. moved st0)"
    by (rule bind_step) (auto intro: triple_retP assms tracks_moved)
  then show ?thesis by (simp only: bindP_retP_right)
qed

lemmas transition_id = transition_path [where u = id, simplified]

lemma save_tracked:
  assumes "cj_job_id j = cj_job_id job" and "job_step\<^sup>*\<^sup>* (cj_state job) (cj_state j)"
  shows "triple (tracks st0 job) (store_put (save_job j)) (\<lambda>_. tracks st0 j) (\<lambda>_. moved st0)"
  unfolding store_put_def by (rule triple_modP) (rule tracks_save [OF _ assms], simp_all)

lemma then_save:
  assumes "cj_job_id j = cj_job_id job" and "job_step\<^sup>*\<^sup>* (cj_state job) (cj_state j)"
    and "triple (tracks st0 j) k Q E" and "\<And>e s. moved st0 s \<Longrightarrow> E e s"
  shows "triple (tracks st0 job) (thenP (store_put (save_job j)) k) Q E"
  by (rule triple_thenP [OF triple_conseq [OF save_tracked [OF assms(1,2)]] assms(3)]) (auto intro: assms(4))

lemma then_save_moved:
  assumes "cj_job_id j = cj_job_id job" and "job_step\<^sup>*\<^sup>* (cj_state job) (cj_state j)"
    and "triple (moved st0) k (\<lambda>_. moved st0) (\<lambda>_. moved st0)"
  shows "triple (tracks st0 job) (thenP (store_put (save_job j)) k) (\<lambda>_. moved st0) (\<lambda>_. moved st0)"
  by (rule then_save [OF assms(1,2) triple_pre [OF assms(3)]]) (auto intro: tracks_moved)

abbreviation only_moves :: "('a, 'b) call \<Rightarrow> bool" where
  "only_moves m \<equiv> (\<forall>st0. triple (moved st0) m (\<lambda>_. moved st0) (\<lambda>_. moved st0))"

lemma only_moves_same: "keeps same_jobs m \<Longrightarrow> only_moves m"
  using stable_moved unfolding HarnessLogic.stable_def by blast

lemma holdP_moves:
  assumes "triple (tracks st0 job) body (\<lambda>_. moved st0) (\<lambda>_. moved st0)"
  shows "triple (tracks st0 job) (holdP env doc owner body) (\<lambda>_. moved st0) (\<lambda>_. moved st0)"
  unfolding holdP_def
  by (intro bind_tracks then_tracks jobs_intro jobs_modP triple_finallyP triple_conseq [OF assms])
    (auto simp: drop_lease_def moved_def tracks_def split: option.splits)

subsection \<open>The operations\<close>

lemma validate_moves: "only_moves (validate_job env jid st b)"
  unfolding validate_job_def Let_def prog_assoc
  by (intro allI bind_job bind_step then_save_moved then_failIf triple_If triple_retP then_moved then_tracks
      bind_tracks jobs_intro)
    (auto dest: transition_id intro: tracks_moved)

lemma preview_moves: "only_moves (harness_preview env jid)"
  unfolding harness_preview_def Let_def prog_assoc
  by (intro allI bind_job bind_step then_save_moved triple_If triple_option then_liftP bind_liftP triple_retP
      then_moved then_tracks bind_tracks jobs_intro)
    (auto dest: transition_id intro: tracks_moved)

text \<open>\<open>submit_spec\<close> may pass through SPEC_ACCEPTED without storing that state.\<close>

definition ahead :: "job_store \<Rightarrow> cad_job \<Rightarrow> cad_job \<Rightarrow> 'a world \<Rightarrow> bool" where
  "ahead st0 job j s \<longleftrightarrow> tracks st0 job s \<and> cj_job_id j = cj_job_id job \<and> job_step\<^sup>*\<^sup>* (cj_state job) (cj_state j)"

lemma reopen_moves:
  "triple (tracks st0 job) (reopen_job env job) (ahead st0 job) (\<lambda>_. moved st0)"
  unfolding reopen_job_def
  by (intro triple_If bind_step step_result then_tracks bind_tracks jobs_intro triple_retP)
    (auto simp: ahead_def invalidate_approval_def dest: transition_id intro: tracks_moved)

lemma ahead_save:
  assumes "cj_job_id j' = cj_job_id j" and "cj_state j' = cj_state j"
    and "triple (tracks st0 j') k Q E" and "\<And>e s. moved st0 s \<Longrightarrow> E e s"
  shows "triple (ahead st0 job j) (thenP (store_put (save_job j')) k) Q E"
  unfolding ahead_def by (intro triple_pure' then_save) (use assms in auto)

lemma ahead_same_jobs: "keeps same_jobs m \<Longrightarrow> HarnessLogic.stable (ahead st0 job j) m"
  by (erule stable_keeps) (auto simp: ahead_def dest: tracks_same_jobs)

lemmas bind_ahead = bind_stable [OF ahead_same_jobs]

lemma submit_spec_moves: "only_moves (submit_spec env jid payload)"
  unfolding submit_spec_def Let_def
  by (intro allI bind_job triple_bindP' [OF reopen_moves] ahead_save bind_step then_save_moved then_failIf
      bind_liftP triple_option triple_retP bind_ahead then_moved then_tracks bind_tracks jobs_intro)
    (auto dest: transition_path simp: ahead_def intro: tracks_moved)

lemma register_moves: "only_moves (register_remediation_plan env remediation)"
  unfolding register_remediation_plan_def Let_def
  by (intro allI bind_job bind_step then_save_moved then_failIf then_liftP triple_option triple_retP
      triple_raiseP then_moved then_tracks bind_tracks jobs_intro jobs_modP)
    (auto dest!: transition_id transition_path intro: tracks_moved)

lemma remediation_moves: "only_moves (submit_remediation_selection env jid aid selected technical)"
  unfolding submit_remediation_selection_def
  by (intro allI bind_moved jobs_intro register_moves [rule_format]) simp_all

lemma get_diff_moves: "only_moves (get_diff env jid)"
  unfolding get_diff_def
  by (intro only_moves_same keeps_intro jobs_intro preord_same_jobs)

text \<open>
  Validation inside another call may advance a PREVIEWED job behind the caller's back; for any other
  state the caller's local job stays the stored one.
\<close>

lemma bind_own_job:
  assumes "triple (tracks st0 job) (k job) Q E"
  shows "triple (tracks st0 job) (bindP (require_job (cj_job_id job)) k) Q E"
  using assms by (simp add: triple_def tracks_def require_job_def prog_defs)

lemma validate_tracks:
  assumes "cj_state job \<noteq> PREVIEWED"
  shows "triple (tracks st0 job) (validate_job env (cj_job_id job) st b) (\<lambda>_. tracks st0 job) (\<lambda>_. moved st0)"
  unfolding validate_job_def Let_def prog_assoc
  by (intro bind_own_job triple_If then_failIf triple_retP bind_step then_tracks bind_tracks jobs_intro)
    (use assms in \<open>auto intro: tracks_moved\<close>)

lemma bind_validate_tracks:
  assumes "cj_state job \<noteq> PREVIEWED" and "\<And>r. triple (tracks st0 job) (k r) Q (\<lambda>_. moved st0)"
  shows "triple (tracks st0 job) (bindP (validate_job env (cj_job_id job) st b) k) Q (\<lambda>_. moved st0)"
  by (rule triple_bindP [OF validate_tracks [OF assms(1)] assms(2)])

lemma bind_validate_moved:
  assumes "\<And>r. triple (moved st0) (k r) Q (\<lambda>_. moved st0)"
  shows "triple (moved st0) (bindP (validate_job env jid st b) k) Q (\<lambda>_. moved st0)"
  by (rule triple_bindP [OF validate_moves [rule_format] assms])

lemma no_step:
  assumes "t \<notin> set (ALLOWED_TRANSITIONS (cj_state job))"
  shows "triple (moved st0) (bindP (transitionP env job t u) k) Q (\<lambda>_. moved st0)"
  by (rule bind_transition')
    (use assms in \<open>auto simp: transition_to_Inr_iff intro: stable_moved jobs_core core_transitionP\<close>)

lemma triple_case_prod:
  "(\<And>a b. p = (a, b) \<Longrightarrow> triple P (f a b) Q E) \<Longrightarrow> triple P (case p of (a, b) \<Rightarrow> f a b) Q E"
  by (cases p) simp

lemma approve_moves: "only_moves (approve env jid who ack ph revn)"
  unfolding approve_def
proof (intro allI bind_job, goal_cases)
  case (1 st0 job)
  show ?case
  proof (cases "cj_state job = PREVIEWED")
    case True
    show ?thesis
      by (rule triple_pre [where P' = "moved st0"],
          intro then_failIf triple_option triple_case_prod bind_validate_moved bind_liftP no_step triple_raiseP
            then_moved bind_moved jobs_intro)
        (use True in \<open>simp_all add: tracks_moved\<close>)
  next
    case False
    show ?thesis
      unfolding 1 [symmetric]
      by (intro then_failIf triple_option triple_case_prod bind_validate_tracks [OF False] bind_liftP bind_step then_save_moved
          triple_raiseP triple_retP then_tracks bind_tracks then_moved jobs_intro)
        (auto dest: transition_path intro: tracks_moved)
  qed
qed

subsection \<open>Commit and rollback\<close>

lemma authorise_tracks:
  "triple (moved st0) (authorise_commit env jid key revn ph token)
     (\<lambda>g s. tracks st0 (cg_job g) s \<and> cj_job_id (cg_job g) = jid) (\<lambda>_. moved st0)"
proof (rule triple_all, rule triple_conseq [OF authorise_triple])
  fix s :: "'a world"
  assume s: "moved st0 s"
  show "at_core s t" if "t = s" for t using that by simp
  fix g and t :: "'a world"
  assume t: "at_core s t \<and> commit_scope env s jid key revn ph token g"
  then have jobs: "same_jobs s t" by (simp add: same_jobs_def core_def)
  from t have get: "get_job (w_store s) jid = Some (cg_job g)"
    by (simp add: commit_scope_def plan_in_force_def)
  with s have jid: "cj_job_id (cg_job g) = jid" by (auto simp: moved_def jobs_filed_def)
  with s get have "tracks st0 (cg_job g) s" by (simp add: tracks_def)
  with jid tracks_same_jobs [OF jobs] show "tracks st0 (cg_job g) t \<and> cj_job_id (cg_job g) = jid" by blast
next
  fix e and s t :: "'a world"
  assume "moved st0 s" and "at_core s t"
  then show "moved st0 t" using moved_same_jobs [of s t st0] by (simp add: same_jobs_def core_def)
qed

lemma evidence_tracks:
  assumes "cj_state (cg_job g) \<noteq> PREVIEWED" and "cj_job_id (cg_job g) = jid"
  shows "triple (tracks st0 (cg_job g)) (check_evidence env g jid revn) (\<lambda>_. tracks st0 (cg_job g)) (\<lambda>_. moved st0)"
  unfolding check_evidence_def Let_def assms(2) [symmetric]
  by (intro then_failIf bind_validate_tracks [OF assms(1)] triple_retP then_tracks bind_tracks jobs_intro)
    (auto intro: tracks_moved)

lemma evidence_moves: "only_moves (check_evidence env g jid revn)"
  unfolding check_evidence_def Let_def
  by (intro allI then_failIf bind_validate_moved triple_retP then_moved bind_moved jobs_intro) simp_all

lemma storeP_tracks:
  assumes "cj_job_id j = cj_job_id job" and "job_step\<^sup>*\<^sup>* (cj_state job) (cj_state j)"
    and "\<And>st. st_jobs (snd (m st)) = st_jobs (save_job j st)"
  shows "triple (tracks st0 job) (storeP m :: ('a, 'b) call) (\<lambda>_. moved st0) (\<lambda>_. moved st0)"
proof -
  have "moved st0 t" if "tracks st0 job s" and "storeP m s = (r, t)" for r and s t :: "'a world"
  proof -
    have "w_store t = snd (m (w_store s))" using that(2) by (auto simp: storeP_def zoomP_def split: prod.splits)
    with tracks_save [OF that(1) assms(1,2), of t] assms(3) show ?thesis by (simp add: tracks_moved)
  qed
  then show ?thesis by (auto intro: tripleI)
qed

lemma finalize_job_tracks:
  assumes "cj_job_id j = cj_job_id job" and "job_step\<^sup>*\<^sup>* (cj_state job) (cj_state j)"
  shows "triple (tracks st0 job) (storeP (finalize_job j ms)) (\<lambda>_. moved st0) (\<lambda>_. moved st0)"
  by (rule storeP_tracks [OF assms]) (simp add: finalize_job_def fold_map_entity)

lemma finalize_commit_tracks:
  assumes "cj_job_id j = cj_job_id job" and "job_step\<^sup>*\<^sup>* (cj_state job) (cj_state j)"
  shows "triple (tracks st0 job) (storeP (finalize_commit j ms k d r c)) (\<lambda>_. moved st0) (\<lambda>_. moved st0)"
  by (rule storeP_tracks [OF assms])
    (simp add: finalize_commit_def Let_def fold_map_entity record_execution_def save_checkpoint_def
      split: option.splits)

lemma commit_failed_moves:
  "triple (tracks st0 job) (commit_failed env jid job e) Q (\<lambda>_. moved st0)"
  unfolding commit_failed_def Let_def
  by (intro bind_step triple_bindP [OF finalize_job_tracks] then_moved triple_If triple_raiseP
      then_tracks bind_tracks jobs_intro)
    (auto dest: transition_id intro: tracks_moved)

lemma write_plan_moves:
  "triple (tracks st0 job) (write_plan env jid job plan key revn token) (\<lambda>_. tracks st0 job) (\<lambda>_. moved st0)"
  unfolding write_plan_def
  by (rule triple_catchP [where E' = "\<lambda>_. tracks st0 job"], intro bind_tracks then_tracks jobs_intro
      keeps_case_option keeps_retP jobs_modP triple_retP) (auto intro: commit_failed_moves)

lemma finish_moves:
  "ot_job c = job \<Longrightarrow> keeps same_jobs now \<Longrightarrow>
   triple (tracks st0 job) (finish_commit env c target now) (\<lambda>_. moved st0) (\<lambda>_. moved st0)"
  unfolding finish_commit_def
  by (intro bind_step then_tracks triple_bindP [OF finalize_commit_tracks]
      only_moves_same [rule_format] jobs_intro)
    (auto dest: transition_path intro: tracks_moved)

lemma post_check_moves:
  "ot_job c = job \<Longrightarrow>
   triple (tracks st0 job) (post_commit_check env c report) (\<lambda>_. tracks st0 job) (\<lambda>_. moved st0)"
  unfolding post_commit_check_def
  by (intro triple_If triple_retP triple_thenP [OF finish_moves] then_moved triple_raiseP jobs_intro) simp_all

lemma reaudit_moves:
  "ot_job c = job \<Longrightarrow>
   triple (tracks st0 job) (reaudit env c rem) (\<lambda>_. tracks st0 job) (\<lambda>_. moved st0)"
  unfolding reaudit_def Let_def
  by (intro triple_case_prod triple_If triple_retP triple_thenP [OF finish_moves] triple_raiseP bind_tracks
      then_tracks then_moved jobs_intro keeps_intro preord_same_jobs)
    (auto intro: tracks_moved)

lemma conclude_moves:
  "ot_job c = job \<Longrightarrow>
   triple (tracks st0 job) (conclude_commit env c ph) (\<lambda>_. moved st0) (\<lambda>_. moved st0)"
  unfolding conclude_commit_def
  by (intro triple_If bind_step triple_bindP [OF finalize_job_tracks] triple_thenP [OF finish_moves] triple_retP
      triple_raiseP then_tracks bind_tracks then_moved jobs_intro keeps_retP preord_same_jobs)
    (auto dest: transition_id intro: tracks_moved)

lemma optional_reaudit_moves:
  "ot_job c = job \<Longrightarrow>
   triple (tracks st0 job) (case rem of None \<Rightarrow> retP () | Some r \<Rightarrow> reaudit env c r) (\<lambda>_. tracks st0 job)
     (\<lambda>_. moved st0)"
  by (intro triple_option triple_retP reaudit_moves)

lemma under_lease_moves:
  "triple (tracks st0 (cg_job g)) (commit_under_lease env g rem jid key revn ph token) (\<lambda>_. moved st0) (\<lambda>_. moved st0)"
  unfolding commit_under_lease_def Let_def
  by (intro bind_step then_save triple_bindP [OF write_plan_moves] triple_thenP [OF post_check_moves]
      triple_thenP [OF optional_reaudit_moves] conclude_moves then_tracks bind_tracks jobs_intro)
    (auto dest: transition_id intro: tracks_moved)

lemma holdP_moves':
  assumes "triple (moved st0) body (\<lambda>_. moved st0) (\<lambda>_. moved st0)"
  shows "triple (moved st0) (holdP env doc owner body) (\<lambda>_. moved st0) (\<lambda>_. moved st0)"
  unfolding holdP_def
  by (intro bind_moved then_moved jobs_intro jobs_modP triple_finallyP triple_conseq [OF assms])
    (auto simp: drop_lease_def moved_def split: option.splits)

lemma under_lease_blocked:
  assumes "cj_state (cg_job g) = PREVIEWED"
  shows "triple (moved st0) (commit_under_lease env g rem jid key revn ph token) (\<lambda>_. moved st0) (\<lambda>_. moved st0)"
  unfolding commit_under_lease_def by (rule no_step) (simp add: assms)

lemma commit_moves: "only_moves (commit env jid key revn ph token)"
  unfolding commit_def
proof (intro allI triple_bindP [OF authorise_tracks] triple_pure' triple_option triple_case_prod)
  fix st0 and g :: commit_gates
  assume jid: "cj_job_id (cg_job g) = jid"
  show "triple (tracks st0 (cg_job g)) (bindP (check_evidence env g jid revn) (\<lambda>rem.
      holdP env (cj_document_id (cg_job g)) jid (commit_under_lease env g rem jid key revn ph token)))
      (\<lambda>_. moved st0) (\<lambda>_. moved st0)"
  proof (cases "cj_state (cg_job g) = PREVIEWED")
    case True
    have "triple (moved st0) (bindP (check_evidence env g jid revn) (\<lambda>rem.
      holdP env (cj_document_id (cg_job g)) jid (commit_under_lease env g rem jid key revn ph token)))
      (\<lambda>_. moved st0) (\<lambda>_. moved st0)"
      by (rule triple_bindP [OF evidence_moves [rule_format] holdP_moves' [OF under_lease_blocked [OF True]]])
    then show ?thesis by (rule triple_pre) (rule tracks_moved)
  next
    case False
    show ?thesis
      by (rule triple_bindP [OF evidence_tracks [OF False jid] holdP_moves [OF under_lease_moves]])
  qed
  show "triple (tracks st0 (cg_job g)) (liftP (commit_result_validate stored)) (\<lambda>_. moved st0) (\<lambda>_. moved st0)"
    for stored by (rule triple_liftP) (simp_all add: tracks_moved)
qed

lemma rollback_approval_core: "keeps same_core (rollback_approval env b job cp revn token)"
  unfolding rollback_approval_def
  by (intro keeps_catchP keeps_bindP keeps_If keeps_raiseP keeps_liftP keeps_retP core_clockP preord_same_core)

lemma rollback_failed_jobs: "keeps same_jobs (rollback_failed env jid job receipt cp revn digest e)"
  unfolding rollback_failed_def drop_recovery_def
  by (intro keeps_thenP jobs_modP keeps_raiseP preord_same_jobs) simp

lemma rollback_body_moves:
  "triple (tracks st0 job) (rollback_under_lease env jid job receipt fenced a cp revn token digest)
     (\<lambda>_. moved st0) (\<lambda>_. moved st0)"
  unfolding rollback_under_lease_def drop_recovery_def
  by (intro bind_step then_save_moved then_failIf then_moved triple_retP then_tracks bind_tracks keeps_catchP
      rollback_failed_jobs keeps_If keeps_retP jobs_intro jobs_modP preord_same_jobs)
    (auto dest: transition_id intro: tracks_moved)

lemma rollback_moves: "only_moves (rollback env jid cp revn token)"
  unfolding rollback_def Let_def
  by (intro allI bind_job triple_case_prod then_liftP triple_bindP [OF holdP_moves [OF rollback_body_moves]]
      bind_tracks then_tracks then_moved triple_retP keeps_If keeps_retP
      jobs_core [OF rollback_approval_core] jobs_intro preord_same_jobs)
    (auto intro: tracks_moved)

lemma scope_jobs: "keeps same_jobs (rollback_scope env jid)"
  unfolding rollback_scope_def
  by (intro keeps_intro jobs_intro preord_same_jobs)

lemma approve_rollback_jobs: "keeps same_jobs (approve_rollback env jid who cp revn)"
  unfolding approve_rollback_def
  by (intro keeps_intro jobs_intro scope_jobs preord_same_jobs)

lemma export_jobs: "keeps same_jobs (export env doc target fmt ow)"
  unfolding export_def by (intro keeps_intro jobs_intro preord_same_jobs)

text \<open>A new job gets an identifier that no job has yet.\<close>

definition fresh_job_ids :: "('a, 'm) harness_env \<Rightarrow> 'a world \<Rightarrow> bool" where
  "fresh_job_ids env w \<longleftrightarrow> (\<forall>n \<ge> w_fresh w. get_job (w_store w) (''job_'' @ hs_ids env n) = None)"

definition later :: "'a world \<Rightarrow> 'a world \<Rightarrow> bool" where
  "later s t \<longleftrightarrow> same_jobs s t \<and> w_fresh s \<le> w_fresh t"

lemma preord_later [simp, intro]: "preord later"
  by (auto simp: preord_def later_def same_jobs_def)

lemma later_clockP: "keeps later (clockP env)"
  by (simp add: keeps_def clockP_def later_def same_jobs_def)

lemma later_freshP: "keeps later (freshP env)"
  by (simp add: keeps_def freshP_def later_def same_jobs_def)

lemma later_new_idP: "keeps later (new_idP env p)"
  unfolding new_idP_def by (intro keeps_bindP later_freshP keeps_retP preord_later)

lemma later_zoomP:
  "(\<And>s x. w_store (put x s) = w_store s \<and> w_fresh (put x s) = w_fresh s) \<Longrightarrow> keeps later (zoomP get put m)"
  by (rule keeps_zoomP) (simp add: later_def same_jobs_def)

lemma later_logP: "keeps later (logP env ty j at' a p)"
  unfolding logP_def
  by (intro keeps_bindP keeps_thenP later_clockP later_new_idP later_zoomP keeps_retP preord_later) simp_all

lemma later_inspect: "keeps later (harness_inspect env doc)"
  unfolding harness_inspect_def adapterP_def
  by (intro keeps_bindP keeps_thenP later_zoomP later_logP keeps_modP keeps_retP preord_later)
    (simp_all add: later_def same_jobs_def)

lemma new_job_moves:
  assumes "moved st0 s" and "get_job (w_store s) (cj_job_id j) = None"
  shows "moved st0 (s\<lparr>w_store := save_job j (w_store s)\<rparr>)"
proof -
  have "job_path (w_store s) (save_job j (w_store s))"
    using assms(2) by (auto simp: job_path_def)
  with assms(1) show ?thesis
    by (auto simp: moved_def jobs_filed_def intro: job_path_trans)
qed

lemma create_moves:
  assumes "jobs_filed (w_store w)" and "fresh_job_ids env w"
  shows "triple (\<lambda>s. s = w) (create_job env doc) (\<lambda>_. moved (w_store w)) (\<lambda>_. moved (w_store w))"
proof -
  have ok: "moved (w_store w) s" if "later w s" for s
    using moved_same_jobs [of w s] moved_start [OF assms(1)] that by (simp add: later_def)
  have id: "triple (later w) (new_idP env ''job'') (\<lambda>jid s. later w s \<and> get_job (w_store s) jid = None)
      (\<lambda>_. moved (w_store w))"
    using assms(2)
    by (auto simp: triple_def new_idP_def freshP_def prog_defs later_def same_jobs_def fresh_job_ids_def get_job_def)
  have save: "moved (w_store w) (s\<lparr>w_store := save_job (new_job jid d r now) (w_store s)\<rparr>)"
    if "later w s \<and> get_job (w_store s) jid = None" for s jid d r now
    by (rule new_job_moves) (use that ok in \<open>auto simp: new_job_def\<close>)
  have inspect: "HarnessLogic.stable (later w) (harness_inspect env doc)"
    using later_inspect by (rule stable_keeps) (rule preord_trans [OF preord_later])
  have clock: "HarnessLogic.stable (\<lambda>s. later w s \<and> get_job (w_store s) jid = None) (clockP env)" for jid
    by (rule stable_keeps [OF later_clockP]) (auto simp: later_def same_jobs_def get_job_def)
  show ?thesis
    unfolding create_job_def Let_def store_put_def
    by (rule triple_pre [where P' = "later w"],
        intro bind_stable [OF inspect] triple_bindP [OF id] bind_stable [OF clock]
          triple_thenP [OF triple_modP, where R = "moved (w_store w)"] save then_moved jobs_core [OF core_logP] triple_retP)
      (auto intro: ok simp: later_def same_jobs_def)
qed

end
