(* ===== verification/ServiceHistory.thy ===== *)
theory ServiceHistory
  imports ServiceSteps
begin

section \<open>Histories of calls\<close>

text \<open>
  The public operations of \<open>HarnessService\<close> as one datatype of calls, what a call does to the world
  whether it returned or raised, and the worlds a sequence of calls can reach. The identifiers of jobs
  come from \<open>new_id\<close> (\<open>uuid4\<close>): a history asks of every \<open>create_job\<close> that no later identifier
  of the stream is already the identifier of a job.
\<close>

datatype service_call =
    CallInspect "string option"
  | CallCheckRevision string string
  | CallCreate "string option"
  | CallSubmitSpec string pydict
  | CallRegister remediation_result
  | CallSelect string string "finding_ref list" pydict
  | CallPreview string
  | CallValidate string validation_stage
  | CallDiff string
  | CallApprove string string "string list" "string option" "string option"
  | CallCommit string string string string string
  | CallRollbackScope string
  | CallApproveRollback string string string string
  | CallRollback string string string string
  | CallExport string string string bool

fun serve :: "('a, 'm) harness_env \<Rightarrow> service_call \<Rightarrow> 'a world \<Rightarrow> 'a world" where
  "serve env (CallInspect doc) w = snd (harness_inspect env doc w)"
| "serve env (CallCheckRevision doc r) w = snd (validate_displayed_revision env doc r w)"
| "serve env (CallCreate doc) w = snd (create_job env doc w)"
| "serve env (CallSubmitSpec jid payload) w = snd (submit_spec env jid payload w)"
| "serve env (CallRegister rem) w = snd (register_remediation_plan env rem w)"
| "serve env (CallSelect jid aid sel tech) w = snd (submit_remediation_selection env jid aid sel tech w)"
| "serve env (CallPreview jid) w = snd (harness_preview env jid w)"
| "serve env (CallValidate jid stage) w = snd (harness_validate env jid stage w)"
| "serve env (CallDiff jid) w = snd (get_diff env jid w)"
| "serve env (CallApprove jid who ack ph revn) w = snd (approve env jid who ack ph revn w)"
| "serve env (CallCommit jid key revn ph token) w = snd (commit env jid key revn ph token w)"
| "serve env (CallRollbackScope jid) w = snd (rollback_scope env jid w)"
| "serve env (CallApproveRollback jid who cp revn) w = snd (approve_rollback env jid who cp revn w)"
| "serve env (CallRollback jid cp revn token) w = snd (rollback env jid cp revn token w)"
| "serve env (CallExport doc target fmt overwrite) w = snd (export env doc target fmt overwrite w)"

definition is_create :: "service_call \<Rightarrow> bool" where
  "is_create c \<longleftrightarrow> (case c of CallCreate _ \<Rightarrow> True | _ \<Rightarrow> False)"

definition writes_drawing :: "service_call \<Rightarrow> bool" where
  "writes_drawing c \<longleftrightarrow> (case c of CallCommit _ _ _ _ _ \<Rightarrow> True | CallRollback _ _ _ _ \<Rightarrow> True
     | CallExport _ _ _ _ \<Rightarrow> True | _ \<Rightarrow> False)"

inductive history :: "('a, 'm) harness_env \<Rightarrow> 'a world \<Rightarrow> service_call list \<Rightarrow> 'a world \<Rightarrow> bool"
  for env :: "('a, 'm) harness_env" and w :: "'a world" where
  opened: "history env w [] w"
| called: "history env w cs s \<Longrightarrow> is_create c \<Longrightarrow> fresh_job_ids env s \<Longrightarrow> history env w (cs @ [c]) (serve env c s)"
| served: "history env w cs s \<Longrightarrow> \<not> is_create c \<Longrightarrow> history env w (cs @ [c]) (serve env c s)"

inductive_cases history_NilE: "history env w [] s"

subsection \<open>Jobs along a history\<close>

lemma triple_snd:
  assumes "triple P m (\<lambda>_. R) (\<lambda>_. R)" and "P s"
  shows "R (snd (m s))"
  using assms by (cases "m s") (auto simp: triple_def split: sum.splits)

lemma jobs_check_revision [jobs_intro]: "keeps same_jobs (validate_displayed_revision env d r)"
  unfolding validate_displayed_revision_def by (rule jobs_adapterP)

lemmas same_jobs_moves = triple_snd [OF only_moves_same [rule_format]]

lemmas served_moves =
  same_jobs_moves [OF jobs_inspect] same_jobs_moves [OF jobs_check_revision] same_jobs_moves [OF scope_jobs]
  same_jobs_moves [OF approve_rollback_jobs] same_jobs_moves [OF export_jobs]
  triple_snd [OF submit_spec_moves [rule_format]] triple_snd [OF register_moves [rule_format]]
  triple_snd [OF remediation_moves [rule_format]] triple_snd [OF preview_moves [rule_format]]
  triple_snd [OF validate_moves [rule_format]] triple_snd [OF get_diff_moves [rule_format]]
  triple_snd [OF approve_moves [rule_format]] triple_snd [OF commit_moves [rule_format]]
  triple_snd [OF rollback_moves [rule_format]]

lemma serve_moves: "moved st0 s \<Longrightarrow> \<not> is_create c \<Longrightarrow> moved st0 (serve env c s)"
  by (cases c) (simp_all add: is_create_def harness_validate_def served_moves)

lemma serve_create_moves:
  assumes "moved st0 s" and "is_create c" and "fresh_job_ids env s"
  shows "moved st0 (serve env c s)"
proof -
  from assms(2) obtain doc where c: "c = CallCreate doc" by (cases c) (auto simp: is_create_def)
  from assms(1) have "jobs_filed (w_store s)" by (simp add: moved_def)
  from triple_snd [OF create_moves [OF this assms(3)], where s = s] c
  have "moved (w_store s) (serve env c s)" by simp
  with assms(1) show ?thesis by (auto simp: moved_def intro: job_path_trans)
qed

lemma history_moves:
  assumes "history env w cs t" and "jobs_filed (w_store w)"
  shows "moved (w_store w) t"
  using assms
proof (induction rule: history.induct)
  case opened
  then show ?case by (rule moved_start)
qed (simp_all add: serve_moves serve_create_moves)

text \<open>
  C3: Whatever operations of the service are called, in whatever order and whether they return or
  raise, no stored job is lost, a job's record stays filed under its own identifier, and the state of
  every job only moves along the transition table; so a job whose commit outcome is unknown, or
  that was rolled back or cancelled, stays in that state.
\<close>

theorem job_lifecycle:
  assumes "history env w cs t" and "jobs_filed (w_store w)" and "get_job (w_store w) jid = Some job"
  shows "\<exists>job'. get_job (w_store t) jid = Some job' \<and> cj_job_id job' = jid \<and>
    job_step\<^sup>*\<^sup>* (cj_state job) (cj_state job') \<and>
    (cj_state job \<in> {UNKNOWN_COMMIT_STATE, ROLLED_BACK, CANCELLED} \<longrightarrow> cj_state job' = cj_state job)"
proof -
  from history_moves [OF assms(1,2)] assms(3) obtain job' where job':
    "get_job (w_store t) jid = Some job'" "job_step\<^sup>*\<^sup>* (cj_state job) (cj_state job')" "jobs_filed (w_store t)"
    by (auto simp: moved_def job_path_def)
  moreover from this(3,1) have "cj_job_id job' = jid" by (auto simp: jobs_filed_def)
  moreover have "cj_state job \<in> {UNKNOWN_COMMIT_STATE, ROLLED_BACK, CANCELLED} \<longrightarrow> cj_state job' = cj_state job"
    using job'(2) terminal_state by (metis converse_rtranclpE)
  ultimately show ?thesis by blast
qed

theorem job_lifecycle_witness:
  "\<exists>job'. get_job (w_store (serve demo_env (CallPreview ''job_1'') (demo_world ROLLED_BACK))) ''job_1'' = Some job' \<and>
     cj_state job' = ROLLED_BACK"
proof -
  have "history demo_env (demo_world ROLLED_BACK) ([] @ [CallPreview ''job_1''])
      (serve demo_env (CallPreview ''job_1'') (demo_world ROLLED_BACK))"
    by (intro served opened) (simp add: is_create_def)
  from job_lifecycle [OF this demo_jobs_filed, of "''job_1''" "demo_job ROLLED_BACK"] show ?thesis
    by auto
qed

subsection \<open>Who may change the drawing\<close>

named_theorems drawing_intro \<open>programs that leave the drawing alone\<close>

lemmas [drawing_intro] = core_keeps [THEN drawing_core]

declare drawing_storeP [drawing_intro] drawing_store_put [drawing_intro] drawing_leasesP [drawing_intro]
  drawing_beatP [drawing_intro] drawing_mark_if [drawing_intro]

lemma drawing_getP [drawing_intro]: "keeps same_drawing (getP f)"
  by (rule keeps_getP) simp

lemma drawing_modP: "(\<And>s. w_adapter (g s) = w_adapter s) \<Longrightarrow> keeps same_drawing (modP g)"
  by (rule keeps_modP) simp

lemma preord_same_drawing [simp, intro]: "preord same_drawing"
  by (simp add: preord_def)

lemma drawing_inspect_port [drawing_intro]:
  "observing (hs_adapter env) \<Longrightarrow> keeps same_drawing (adapterP (ad_inspect_document (hs_adapter env) doc))"
  by (rule drawing_core, rule core_adapterP) (simp add: observing_def)

lemma drawing_validate_port [drawing_intro]:
  "observing (hs_adapter env) \<Longrightarrow> keeps same_drawing (adapterP (ad_validate_revision (hs_adapter env) doc r))"
  by (rule drawing_core, rule core_adapterP) (simp add: observing_def)

lemma drawing_inspect [drawing_intro]: "observing (hs_adapter env) \<Longrightarrow> keeps same_drawing (harness_inspect env doc)"
  unfolding harness_inspect_def
  by (intro keeps_intro drawing_intro drawing_modP preord_same_drawing) simp_all

lemma drawing_validate [drawing_intro]: "keeps same_drawing (validate_job env jid st b)"
  unfolding validate_job_def Let_def by (intro keeps_intro drawing_intro preord_same_drawing)

lemma drawing_preview: "keeps same_drawing (harness_preview env jid)"
  unfolding harness_preview_def dxf_preview_def by (intro keeps_intro drawing_intro preord_same_drawing)

lemma drawing_create: "observing (hs_adapter env) \<Longrightarrow> keeps same_drawing (create_job env doc)"
  unfolding create_job_def Let_def by (intro keeps_intro drawing_intro preord_same_drawing)

lemma drawing_submit: "keeps same_drawing (submit_spec env jid payload)"
  unfolding submit_spec_def reopen_job_def Let_def by (intro keeps_intro drawing_intro preord_same_drawing)

lemma drawing_reader [drawing_intro]: "keeps same_drawing (require_reader env msg)"
  unfolding require_reader_def by (intro keeps_intro preord_same_drawing)

lemma drawing_audits [drawing_intro]: "keeps same_drawing require_drawing_audits"
  unfolding require_drawing_audits_def by (intro keeps_intro preord_same_drawing)

lemma drawing_recompile [drawing_intro]: "keeps same_drawing (recompile env rd audits job aid sel tech)"
  unfolding recompile_def by (intro keeps_intro drawing_intro preord_same_drawing)

lemma drawing_register [drawing_intro]: "keeps same_drawing (register_remediation_plan env rem)"
  unfolding register_remediation_plan_def Let_def
  by (intro keeps_intro drawing_intro drawing_modP preord_same_drawing) simp_all

lemma drawing_select: "keeps same_drawing (submit_remediation_selection env jid aid sel tech)"
  unfolding submit_remediation_selection_def by (intro keeps_intro drawing_intro preord_same_drawing)

lemma drawing_diff: "keeps same_drawing (get_diff env jid)"
  unfolding get_diff_def by (intro keeps_intro drawing_intro preord_same_drawing)

lemma drawing_check: "observing (hs_adapter env) \<Longrightarrow> keeps same_drawing (validate_displayed_revision env d r)"
  unfolding validate_displayed_revision_def by (rule drawing_validate_port)

lemma drawing_approve: "observing (hs_adapter env) \<Longrightarrow> keeps same_drawing (approve env jid who ack ph revn)"
  unfolding approve_def displayed_revision_ok_def by (intro keeps_intro drawing_intro preord_same_drawing)

lemma drawing_scope [drawing_intro]: "observing (hs_adapter env) \<Longrightarrow> keeps same_drawing (rollback_scope env jid)"
  unfolding rollback_scope_def by (intro keeps_intro drawing_intro preord_same_drawing)

lemma drawing_approve_rollback:
  "observing (hs_adapter env) \<Longrightarrow> keeps same_drawing (approve_rollback env jid who cp revn)"
  unfolding approve_rollback_def by (intro keeps_intro drawing_intro preord_same_drawing)

lemma keeps_snd: "keeps R m \<Longrightarrow> R s (snd (m s))"
  by (simp add: keeps_def)

lemmas served_drawing =
  drawing_inspect [THEN keeps_snd] drawing_create [THEN keeps_snd] drawing_submit [THEN keeps_snd]
  drawing_register [THEN keeps_snd] drawing_select [THEN keeps_snd] drawing_preview [THEN keeps_snd]
  drawing_validate [THEN keeps_snd] drawing_diff [THEN keeps_snd] drawing_check [THEN keeps_snd]
  drawing_approve [THEN keeps_snd] drawing_scope [THEN keeps_snd] drawing_approve_rollback [THEN keeps_snd]

lemma serve_drawing:
  "observing (hs_adapter env) \<Longrightarrow> \<not> writes_drawing c \<Longrightarrow> w_adapter (serve env c s) = w_adapter s"
  by (cases c) (simp_all add: writes_drawing_def harness_validate_def served_drawing)

end
