(* ===== verification/RollbackGuarantees.thy ===== *)
theory RollbackGuarantees
  imports ServiceHistory
begin

section \<open>What a rollback guarantees, and who changed the drawing\<close>

text \<open>
  The gates of \<open>rollback\<close> as triples, the theorem that a rollback touches the drawing only with the
  authority of a verified rollback token for the recorded checkpoint, and the statement about whole
  histories: a drawing that changed was changed by an authorised commit, an authorised rollback or an
  export.
\<close>

subsection \<open>The gates\<close>

definition verified_rollback ::
  "('a, 'm) harness_env \<Rightarrow> bool \<Rightarrow> cad_job \<Rightarrow> string \<Rightarrow> string \<Rightarrow> string \<Rightarrow> rollback_record \<Rightarrow> bool \<Rightarrow> bool" where
  "verified_rollback env has_receipt job cp revn token a durable \<longleftrightarrow>
     (if durable
      then \<not> has_receipt \<and> ad_allows_expired_checkpoint_recovery (hs_adapter env) \<and>
        (\<exists>n. verify_rollback_recovery_token (hs_hmac env) (hs_parse_dt env) token (hs_secret env)
          (cj_job_id job) (cj_document_id job) cp revn (hs_clock env n) = Inr a)
      else \<exists>n. verify_rollback_approval_token (hs_hmac env) (hs_parse_dt env) token (hs_secret env)
          (cj_job_id job) (cj_document_id job) cp revn (hs_clock env n) = Inr a)"

lemma rollback_approval_triple:
  "triple (at_core w) (rollback_approval env b job cp revn token)
     (\<lambda>p s. at_core w s \<and> verified_rollback env b job cp revn token (fst p) (snd p)) (\<lambda>_. at_core w)"
  unfolding rollback_approval_def
  by (intro triple_catchP [where E' = "\<lambda>_. at_core w"] triple_If bind_clock bind_liftP triple_retP triple_raiseP)
    (auto simp: verified_rollback_def)

definition rollback_authority ::
  "('a, 'm) harness_env \<Rightarrow> 'a world \<Rightarrow> string \<Rightarrow> string \<Rightarrow> string \<Rightarrow> string \<Rightarrow> bool" where
  "rollback_authority env w jid cp revn token \<longleftrightarrow>
     (\<exists>job a durable. get_job (w_store w) jid = Some job \<and>
        cj_state job \<in> {COMMITTED, FAILED} \<and> cj_checkpoint_id job = Some cp \<and>
        verified_rollback env (map_of (w_undo w) jid \<noteq> None) job cp revn token a durable \<and>
        (\<forall>u r. map_of (w_undo w) jid = Some (u, r) \<longrightarrow> r = revn) \<and>
        (\<forall>d. map_of (w_recoveries w) jid = Some d \<longrightarrow>
           recovery_matches_scope d (cj_job_id job) (cj_document_id job) cp revn \<and>
           dv_approval_token_digest d = rollback_approval_token_digest (hs_sha env) token) \<and>
        (map_of (w_undo w) jid \<noteq> None \<or> map_of (w_recoveries w) jid \<noteq> None \<or> durable \<or>
         fst (ad_validate_revision (hs_adapter env) (cj_document_id job) revn (w_adapter w)) = Inr True))"

lemma check_recovery_Inr:
  "check_recovery env (Some d) has_receipt job cp revn digest = Inr () \<Longrightarrow>
     recovery_matches_scope d (cj_job_id job) (cj_document_id job) cp revn \<and> dv_approval_token_digest d = digest"
  by (auto simp: check_recovery_def is_exact_recovery_def bindR_Inr_iff compare_digest_True split: if_splits)

lemma rollback_gates_Inr:
  "rollback_gates job receipt cp revn = Inr () \<Longrightarrow>
     cj_state job \<in> {COMMITTED, FAILED} \<and> cj_checkpoint_id job = Some cp \<and>
     (\<forall>u r. receipt = Some (u, r) \<longrightarrow> r = revn)"
  by (auto simp: rollback_gates_def no_checkpoint_def split: if_splits option.splits)

subsection \<open>The write\<close>

lemma bind_reads:
  assumes "reads_only m" and "\<And>x. fst (m a) = Inr x \<Longrightarrow> triple (\<lambda>s. w_adapter s = a) (k x) Q E"
    and "\<And>e s. w_adapter s = a \<Longrightarrow> E e s"
  shows "triple (\<lambda>s. w_adapter s = a) (bindP (adapterP m) k) Q E"
proof (rule triple_bindP [where R = "\<lambda>x s. fst (m a) = Inr x \<and> w_adapter s = a"])
  show "triple (\<lambda>s. fst (m a) = Inr x \<and> w_adapter s = a) (k x) Q E" for x
    by (intro triple_pure assms(2))
  have run: "fst (m a) = r \<and> w_adapter t = a" if "w_adapter s = a" and "adapterP m s = (r, t)" for s r t
    using that reads_onlyD [OF assms(1), of a] by (auto simp: adapterP_def zoomP_def split: prod.splits)
  show "triple (\<lambda>s. w_adapter s = a) (adapterP m) (\<lambda>x s. fst (m a) = Inr x \<and> w_adapter s = a) E"
    by (rule tripleI) (use run assms(3) in \<open>blast+\<close>)
qed

lemma rollback_body_unless_written:
  assumes "observing (hs_adapter env)"
    and "fenced \<or> fst (ad_validate_revision (hs_adapter env) (cj_document_id job) revn a) = Inr True \<Longrightarrow> G"
  shows "triple (\<lambda>s. w_adapter s = a)
    (rollback_under_lease env jid job receipt fenced approval cp revn token digest)
    (\<lambda>_. unless_written a G) (\<lambda>_. unless_written a G)"
proof (cases fenced)
  case True
  with assms(2) show ?thesis by (intro triple_granted) simp
next
  case False
  have reads: "reads_only (ad_validate_revision (hs_adapter env) (cj_document_id job) revn)"
    using assms(1) by (simp add: observing_def)
  show ?thesis
    unfolding rollback_under_lease_def using False
    by (simp, intro bind_reads [OF reads] then_failIf)
      (auto intro: triple_granted assms(2) simp: unless_written_def)
qed

lemma at_core_receipts: "at_core w s \<Longrightarrow> map_of (w_undo s) jid = map_of (w_undo w) jid"
  by (simp add: core_def)

lemma at_core_recoveries: "at_core w s \<Longrightarrow> map_of (w_recoveries s) jid = map_of (w_recoveries w) jid"
  by (simp add: core_def)

lemma then_logP_unless_written:
  "triple (unless_written a G) k Q E \<Longrightarrow> (\<And>e s. unless_written a G s \<Longrightarrow> E e s) \<Longrightarrow>
   triple (unless_written a G) (thenP (logP env ty j at' who p) k) Q E"
  by (rule then_stable [OF stable_core [OF core_logP]]) (auto simp: unless_written_def same_core_iff)

abbreviation rolled_back_by ::
  "('a, 'm) harness_env \<Rightarrow> 'a world \<Rightarrow> string \<Rightarrow> string \<Rightarrow> string \<Rightarrow> string \<Rightarrow> 'a world \<Rightarrow> bool" where
  "rolled_back_by env w jid cp revn token \<equiv>
     unless_written (w_adapter w) (rollback_authority env w jid cp revn token)"

lemma rollback_unless_written:
  assumes "observing (hs_adapter env)"
  shows "triple (at_core w) (rollback env jid cp revn token)
    (\<lambda>_. rolled_back_by env w jid cp revn token) (\<lambda>_. rolled_back_by env w jid cp revn token)"
  unfolding rollback_def Let_def
proof ((rule bind_require_job bind_getP_core [OF at_core_receipts] bind_getP_core [OF at_core_recoveries] then_liftP
      triple_bindP' [OF rollback_approval_triple] triple_pure' triple_case_prod unless_at_core | assumption)+)
  fix job p a durable and y z :: unit
  assume job: "get_job (w_store w) jid = Some job"
    and rec: "check_recovery env (map_of (w_recoveries w) jid) (map_of (w_undo w) jid \<noteq> None) job cp revn
        (rollback_approval_token_digest (hs_sha env) token) = Inr y"
    and tok: "verified_rollback env (map_of (w_undo w) jid \<noteq> None) job cp revn token (fst p) (snd p)"
    and p: "p = (a, durable)" and gates: "rollback_gates job (map_of (w_undo w) jid) cp revn = Inr z"
  let ?fenced = "map_of (w_undo w) jid \<noteq> None \<or> map_of (w_recoveries w) jid \<noteq> None \<or> durable"
  let ?G = "rollback_authority env w jid cp revn token"
  have G: ?G if "?fenced \<or>
      fst (ad_validate_revision (hs_adapter env) (cj_document_id job) revn (w_adapter w)) = Inr True"
  proof -
    from rec have "\<forall>d. map_of (w_recoveries w) jid = Some d \<longrightarrow>
        recovery_matches_scope d (cj_job_id job) (cj_document_id job) cp revn \<and>
        dv_approval_token_digest d = rollback_approval_token_digest (hs_sha env) token"
      using check_recovery_Inr by fastforce
    moreover from gates have "cj_state job \<in> {COMMITTED, FAILED} \<and> cj_checkpoint_id job = Some cp \<and>
        (\<forall>u r. map_of (w_undo w) jid = Some (u, r) \<longrightarrow> r = revn)"
      using rollback_gates_Inr [of job "map_of (w_undo w) jid" cp revn] by simp
    ultimately show ?thesis unfolding rollback_authority_def using job tok p that
      by (intro exI [of _ job] exI [of _ a] exI [of _ durable]) auto
  qed
  show "triple (at_core w)
    (thenP (if ?fenced then retP () else require_compatible_writer env)
    (bindP (holdP env (cj_document_id job) (''rollback:'' @ jid)
       (rollback_under_lease env jid job (map_of (w_undo w) jid) ?fenced a cp revn token
         (rollback_approval_token_digest (hs_sha env) token))) (\<lambda>result.
     thenP (logP env ROLLBACK_SUCCEEDED (Some jid) ''system'' ''harness''
        [(''restored_revision'', PStr (rr_restored_revision result)),
         (''method'', PStr (rollback_method_value (rr_method result)))])
     (retP result))))
    (\<lambda>_. rolled_back_by env w jid cp revn token) (\<lambda>_. rolled_back_by env w jid cp revn token)"
    by (intro then_core keeps_If keeps_retP core_writer preord_same_core
        triple_bindP [OF triple_pre [OF hold_unless_written [OF rollback_body_unless_written [OF assms G]]]]
        then_logP_unless_written triple_retP)
      (auto simp: core_def unless_written_def)
qed (erule unless_at_core)+

text \<open>
  C5: When a call of \<open>rollback\<close> changes the drawing, whatever it returns or raises, then before the call the
  job was COMMITTED or FAILED with exactly the requested checkpoint recorded, and the presented token
  verifies for this job, document, checkpoint and revision at a reading of the service's clock: as an
  unexpired rollback approval or, for an adapter that keeps a durable journal and without a receipt of
  this process, as the recovery of an interrupted attempt. A receipt kept for the job names the
  approved revision, a journaled attempt has the same scope and token digest, and if neither
  exists and the token is a normal approval, the live drawing is at the approved revision.
\<close>

theorem rollback_needs_authority:
  assumes "observing (hs_adapter env)"
    and "rollback env jid cp revn token w = (r, t)" and "w_adapter t \<noteq> w_adapter w"
  shows "\<exists>job a durable. get_job (w_store w) jid = Some job \<and>
    cj_state job \<in> {COMMITTED, FAILED} \<and> cj_checkpoint_id job = Some cp \<and>
    verified_rollback env (map_of (w_undo w) jid \<noteq> None) job cp revn token a durable \<and>
    (\<forall>u r. map_of (w_undo w) jid = Some (u, r) \<longrightarrow> r = revn) \<and>
    (\<forall>d. map_of (w_recoveries w) jid = Some d \<longrightarrow>
       recovery_matches_scope d (cj_job_id job) (cj_document_id job) cp revn \<and>
       dv_approval_token_digest d = rollback_approval_token_digest (hs_sha env) token) \<and>
    (map_of (w_undo w) jid \<noteq> None \<or> map_of (w_recoveries w) jid \<noteq> None \<or> durable \<or>
     fst (ad_validate_revision (hs_adapter env) (cj_document_id job) revn (w_adapter w)) = Inr True)"
proof -
  have "rolled_back_by env w jid cp revn token t"
    using rollback_unless_written [OF assms(1), of w jid cp revn token] assms(2)
    by (cases r) (auto dest: tripleD_Inr tripleD_Inl)
  with assms(3) show ?thesis by (simp add: unless_written_def rollback_authority_def)
qed

text \<open>A rollback on the concrete harness: the drawing goes back from its second revision.\<close>

definition demo_rollback_issued :: "rollback_record \<times> string" where
  "demo_rollback_issued = (case issue_rollback_approval demo_sign ''approval_2'' ''job_1'' ''doc_1'' ''cp_1'' ''r11''
     ''eng'' ''key'' 900000000 0 of Inr x \<Rightarrow> x)"

definition demo_done_job :: cad_job where
  "demo_done_job = (demo_job COMMITTED)\<lparr>cj_checkpoint_id := Some ''cp_1'', cj_expected_revision := ''r11''\<rparr>"

definition demo_done_world :: "nat world" where
  "demo_done_world = (demo_world COMMITTED)\<lparr>w_adapter := 1,
     w_store := save_job demo_done_job (w_store (demo_world COMMITTED))\<rparr>"

lemma demo_rollback_issue:
  "issue_rollback_approval demo_sign ''approval_2'' ''job_1'' ''doc_1'' ''cp_1'' ''r11'' ''eng'' ''key'' 900000000 0 =
     Inr demo_rollback_issued"
  by (simp add: demo_rollback_issued_def issue_rollback_approval_def make_rollback_approval_token_def Let_def is_blank_def)

lemma demo_rollback_verifies:
  "verify_rollback_approval_token demo_sign demo_parse (snd demo_rollback_issued) ''key'' ''job_1'' ''doc_1'' ''cp_1''
     ''r11'' 0 = Inr (fst demo_rollback_issued)"
proof -
  have "verify_rollback_approval_claims demo_sign demo_parse (snd demo_rollback_issued) ''key'' ''job_1''
      ''doc_1'' ''cp_1'' ''r11'' = Inr (fst demo_rollback_issued) \<and> rb_expires_at (fst demo_rollback_issued) = 0 + 900000000"
    by (rule issued_rollback_verifies [where fresh = "''approval_2''" and who = "''eng''"])
      (simp_all add: demo_rollback_issue demo_sign_shape demo_isoformat demo_parse_def)
  then show ?thesis by (simp add: verify_rollback_approval_token_def rollback_is_expired_def)
qed

lemma demo_rollback_body:
  assumes "w_adapter w = 1"
  shows "\<exists>r t. rollback_under_lease demo_env ''job_1'' demo_done_job None False a ''cp_1'' ''r11'' tok dg w = (Inr r, t) \<and>
    w_adapter t = 0"
  using assms
  by (simp add: rollback_under_lease_def service_run demo_done_job_def demo_rev_def drop_recovery_def)

lemma demo_rollback_gates:
  "rollback_approval demo_env False demo_done_job ''cp_1'' ''r11'' (snd demo_rollback_issued) w =
     (Inr (fst demo_rollback_issued, False), w\<lparr>w_ticks := Suc (w_ticks w)\<rparr>)"
  "check_recovery demo_env None False demo_done_job ''cp_1'' ''r11'' dg = Inr ()"
  "rollback_gates demo_done_job None ''cp_1'' ''r11'' = Inr ()"
  "require_compatible_writer demo_env w = (Inr (), w)"
  "require_job ''job_1'' demo_done_world = (Inr demo_done_job, demo_done_world)"
  by (simp_all add: rollback_approval_def prog_defs clockP_def demo_rollback_verifies demo_done_job_def
      check_recovery_def rollback_gates_def no_checkpoint_def require_compatible_writer_def is_live_adapter_def
      demo_require_job demo_done_world_def save_job_def get_job_def)

lemma demo_service_rollback:
  "\<exists>r t. rollback demo_env ''job_1'' ''cp_1'' ''r11'' (snd demo_rollback_issued) demo_done_world = (Inr r, t) \<and>
     w_adapter t = 0"
proof -
  let ?dg = "rollback_approval_token_digest zero_sha (snd demo_rollback_issued)"
  let ?body = "rollback_under_lease demo_env ''job_1'' demo_done_job None False (fst demo_rollback_issued) ''cp_1'' ''r11''
     (snd demo_rollback_issued) ?dg"
  let ?w = "demo_done_world\<lparr>w_ticks := 1\<rparr>"
  have "w_leases ?w = []" by (simp add: demo_done_world_def demo_world_def)
  from demo_hold [OF this, of "''doc_1''" "''rollback:job_1''" ?body] obtain w2 l
    where w2: "holdP demo_env ''doc_1'' ''rollback:job_1'' ?body ?w = finallyP ?body (drop_lease demo_env) w2"
      "w_adapter w2 = 1" by (auto simp: demo_done_world_def)
  obtain r t where run: "?body w2 = (Inr r, t)" "w_adapter t = 0" using demo_rollback_body [OF w2(2)] by blast
  have "w_adapter (drop_lease demo_env t) = 0" using run(2) by simp
  moreover have "w_undo demo_done_world = []" "w_recoveries demo_done_world = []" "w_ticks demo_done_world = 0"
      "cj_document_id demo_done_job = ''doc_1''"
    by (simp_all add: demo_done_world_def demo_world_def demo_done_job_def)
  ultimately show ?thesis
    using w2(1) run(1) by (simp add: rollback_def prog_defs Let_def demo_rollback_gates finallyP_def logP_flat)
qed

subsection \<open>Histories\<close>

lemma commit_serve_authority:
  assumes "observing (hs_adapter env)" and "w_adapter (snd (commit env jid key revn ph token s)) \<noteq> w_adapter s"
  shows "write_authority env s jid key revn ph token"
  using triple_snd [OF commit_unless_written [OF assms(1), of s jid key revn ph token], of s] assms(2)
  by (simp add: unless_written_def)

lemma rollback_serve_authority:
  assumes "observing (hs_adapter env)" and "w_adapter (snd (rollback env jid cp revn token s)) \<noteq> w_adapter s"
  shows "rollback_authority env s jid cp revn token"
  using triple_snd [OF rollback_unless_written [OF assms(1), of s jid cp revn token], of s] assms(2)
  by (simp add: unless_written_def)

theorem rollback_needs_authority_witness:
  "\<exists>job a durable. get_job (w_store demo_done_world) ''job_1'' = Some job \<and> cj_checkpoint_id job = Some ''cp_1'' \<and>
     verified_rollback demo_env False job ''cp_1'' ''r11'' (snd demo_rollback_issued) a durable"
proof -
  obtain r t where run: "rollback demo_env ''job_1'' ''cp_1'' ''r11'' (snd demo_rollback_issued) demo_done_world = (Inr r, t)"
    and changed: "w_adapter t = 0" using demo_service_rollback by blast
  have "w_adapter t \<noteq> w_adapter demo_done_world" using changed by (simp add: demo_done_world_def)
  from rollback_needs_authority [OF demo_observing run this]
  obtain job a durable where "get_job (w_store demo_done_world) ''job_1'' = Some job" "cj_checkpoint_id job = Some ''cp_1''"
      "verified_rollback demo_env (map_of (w_undo demo_done_world) ''job_1'' \<noteq> None) job ''cp_1'' ''r11''
        (snd demo_rollback_issued) a durable" by (elim exE conjE)
  moreover have "(map_of (w_undo demo_done_world) ''job_1'' \<noteq> None) = False" by (simp add: demo_done_world_def demo_world_def)
  ultimately show ?thesis by (intro exI [of _ job] exI [of _ a] exI [of _ durable]) simp
qed

fun authorised :: "('a, 'm) harness_env \<Rightarrow> 'a world \<Rightarrow> service_call \<Rightarrow> bool" where
  "authorised env s (CallCommit jid key revn ph token) = write_authority env s jid key revn ph token"
| "authorised env s (CallRollback jid cp revn token) = rollback_authority env s jid cp revn token"
| "authorised env s (CallExport doc target fmt overwrite) = True"
| "authorised env s _ = False"

lemma serve_authorised:
  assumes "observing (hs_adapter env)" and "w_adapter (serve env c s) \<noteq> w_adapter s"
  shows "authorised env s c"
proof (cases "writes_drawing c")
  case True
  with assms show ?thesis
    by (cases c) (auto simp: writes_drawing_def intro: commit_serve_authority rollback_serve_authority)
next
  case False
  with serve_drawing [OF assms(1)] assms(2) show ?thesis by blast
qed

lemma history_Nil: "history env w [] t \<Longrightarrow> t = w"
  by (erule history_NilE)

text \<open>
  C2: Over any history of calls, whatever they return or raise: if the drawing is not the one
  it was, some call of the history changed it, and that call was a commit of an approved plan with full write
  authority, a rollback with full rollback authority, or an export. Inspecting, planning, previewing,
  validating and approving never touch the drawing.
\<close>

theorem drawing_changes_authorised:
  assumes "history env w cs t" and "observing (hs_adapter env)" and "w_adapter t \<noteq> w_adapter w"
  shows "\<exists>pre c post s. cs = pre @ c # post \<and> history env w pre s \<and>
    w_adapter (serve env c s) \<noteq> w_adapter s \<and> authorised env s c"
  using assms(1,3)
proof (induction rule: history.induct)
  case opened
  then show ?case by simp
next
  case (called cs s c)
  show ?case
  proof (cases "w_adapter s = w_adapter w")
    case True
    with called.prems called.hyps(1) serve_authorised [OF assms(2)] show ?thesis by metis
  next
    case False
    with called.IH obtain pre d post x where "cs = pre @ d # post" "history env w pre x"
      "w_adapter (serve env d x) \<noteq> w_adapter x" "authorised env x d" by blast
    then show ?thesis
      by (intro exI [of _ pre] exI [of _ d] exI [of _ "post @ [c]"] exI [of _ x]) simp
  qed
next
  case (served cs s c)
  show ?case
  proof (cases "w_adapter s = w_adapter w")
    case True
    with served.prems served.hyps(1) serve_authorised [OF assms(2)] show ?thesis by metis
  next
    case False
    with served.IH obtain pre d post x where "cs = pre @ d # post" "history env w pre x"
      "w_adapter (serve env d x) \<noteq> w_adapter x" "authorised env x d" by blast
    then show ?thesis
      by (intro exI [of _ pre] exI [of _ d] exI [of _ "post @ [c]"] exI [of _ x]) simp
  qed
qed

theorem drawing_changes_authorised_witness:
  "\<exists>c s. w_adapter (serve demo_env c s) \<noteq> w_adapter s \<and> authorised demo_env s c"
proof -
  let ?c = "CallCommit ''job_1'' ''key_1'' ''r1'' demo_hash (snd demo_issued)"
  obtain r t where run: "commit demo_env ''job_1'' ''key_1'' ''r1'' demo_hash (snd demo_issued) (demo_world APPROVED) =
      (Inr r, t)" and changed: "w_adapter t = 1"
    using demo_service_commit by blast
  have "history demo_env (demo_world APPROVED) ([] @ [?c]) (serve demo_env ?c (demo_world APPROVED))"
    by (intro served opened) (simp add: is_create_def)
  with run have "history demo_env (demo_world APPROVED) ([] @ [?c]) t" by simp
  moreover have "w_adapter t \<noteq> w_adapter (demo_world APPROVED)" using changed by (simp add: demo_world_def)
  ultimately show ?thesis using drawing_changes_authorised [OF _ demo_observing] by blast
qed

end
