(* ===== verification/ValidationRules.thy ===== *)
theory ValidationRules
  imports ValidationModel
begin

section \<open>Shipped validation rules\<close>

text \<open>
  Models \<open>validation/rules/standard_rules.py\<close>, the plan-facing rules of
  \<open>validation/rules/layout_rules.py\<close> (layers, layout and DWS), the plan branch of
  \<open>FiniteCoordinatesRule\<close> and \<open>validation/rules/post_commit_rules.py\<close>. Each rule is a
  \<open>validation_rule\<close> value; its evaluation is the method of the class.
\<close>

definition sorted_names :: "string list \<Rightarrow> pyval" where
  "sorted_names xs = PList (map PStr (sort xs))"

definition for_operation :: "operation \<Rightarrow> finding \<Rightarrow> finding" where
  "for_operation o' f = f\<lparr>fi_feature_id := Some (op_feature_id o'), fi_operation_id := Some (op_id o')\<rparr>"

subsection \<open>Company drawing standard\<close>

definition STANDARD_STAGES :: "validation_stage list" where
  "STANDARD_STAGES = [STAGE_PLAN, STAGE_COMPANY_STANDARD, PRE_COMMIT]"

definition CanonicalUnitsRule :: validation_rule where
  "CanonicalUnitsRule =
     \<lparr>ru_rule_id = ''STD-UNITS-CANONICAL'', ru_stages = STANDARD_STAGES,
      ru_evaluate = (\<lambda>c. bindR (require_plan_of c) (\<lambda>plan.
        if pl_canonical_units plan = MM then Inr []
        else Inr [(finding_of ''STD-UNITS-CANONICAL'' BLOCKING
                    ''Operation plan is not in canonical units'')
                  \<lparr>fi_expected := PStr (unit_value MM),
                   fi_actual := PStr (unit_value (pl_canonical_units plan)),
                   fi_suggested_fix := Some ''Normalize the spec to millimetres before compiling''\<rparr>]))\<rparr>"

definition layer_declared_finding :: "string list \<Rightarrow> operation \<Rightarrow> finding list" where
  "layer_declared_finding declared o' =
     (if op_layer o' = ''0'' \<and>
         \<not> (case map_of (op_expected o') ''layer'' of None \<Rightarrow> False | Some v \<Rightarrow> py_eq v (PStr ''0''))
      then [for_operation o' ((finding_of ''STD-LAYER-DECLARED'' ERROR
              ''Operation falls back to layer 0 because the purpose is unmapped'')
            \<lparr>fi_expected := sorted_names declared, fi_actual := PStr ''0'',
             fi_suggested_fix := Some ''Map the feature purpose to a declared layer, or explicitly bind layer 0 as a post-commit expectation''\<rparr>)]
      else if op_layer o' \<notin> set declared
      then [for_operation o' ((finding_of ''STD-LAYER-DECLARED'' ERROR
              (''Layer '' @ quoted (op_layer o') @ '' is not declared in the standard profile''))
            \<lparr>fi_expected := sorted_names declared, fi_actual := PStr (op_layer o')\<rparr>)]
      else [])"

definition LayerDeclaredRule :: validation_rule where
  "LayerDeclaredRule =
     \<lparr>ru_rule_id = ''STD-LAYER-DECLARED'', ru_stages = STANDARD_STAGES,
      ru_evaluate = (\<lambda>c. bindR (require_plan_of c) (\<lambda>plan.
        Inr (concat (map (layer_declared_finding (layer_names (rc_profile c))) (pl_operations plan)))))\<rparr>"

definition ProfileProvenanceRule :: validation_rule where
  "ProfileProvenanceRule =
     \<lparr>ru_rule_id = ''STD-PROFILE-PROVENANCE'', ru_stages = STANDARD_STAGES,
      ru_evaluate = (\<lambda>c. bindR (require_plan_of c) (\<lambda>plan.
        Inr ((if \<not> pf_company_approved (rc_profile c)
              then [(finding_of ''STD-PROFILE-PROVENANCE'' WARNING
                      ''Drawing produced with a profile that is not company approved'')
                    \<lparr>fi_expected := PStr ''company_approved: true'',
                     fi_actual := PStr (as_ref (rc_profile c)),
                     fi_suggested_fix := Some ''Install and select the reviewed company profile before release''\<rparr>]
              else []) @
             (if pl_profile_ref plan \<noteq> as_ref (rc_profile c)
              then [(finding_of ''STD-PROFILE-PROVENANCE'' BLOCKING
                      ''Plan was compiled against a different profile version than the one loaded'')
                    \<lparr>fi_expected := PStr (pl_profile_ref plan),
                     fi_actual := PStr (as_ref (rc_profile c)),
                     fi_suggested_fix := Some ''Recompile the plan; a profile change invalidates the plan hash''\<rparr>]
              else []))))\<rparr>"

definition GeneralToleranceDeclaredRule :: validation_rule where
  "GeneralToleranceDeclaredRule =
     \<lparr>ru_rule_id = ''STD-GENERAL-TOLERANCE'', ru_stages = STANDARD_STAGES,
      ru_evaluate = (\<lambda>c.
        if (case pf_general_tolerance (rc_profile c) of None \<Rightarrow> False | Some t \<Rightarrow> t \<noteq> []) then Inr []
        else Inr [(finding_of ''STD-GENERAL-TOLERANCE'' WARNING
                    ''No general tolerance class declared by the standard profile'')
                  \<lparr>fi_expected := PStr ''e.g. ISO 2768-m'',
                   fi_suggested_fix := Some ''Set general_tolerance in the company profile''\<rparr>])\<rparr>"

subsection \<open>Layers, layout and DWS\<close>

definition NoUndeclaredLayerRule :: validation_rule where
  "NoUndeclaredLayerRule =
     \<lparr>ru_rule_id = ''NO_UNDECLARED_LAYER'', ru_stages = STANDARD_STAGES,
      ru_evaluate = (\<lambda>c. let declared = layer_names (rc_profile c) in
        bindR (require_plan_of c) (\<lambda>plan.
          Inr (map (\<lambda>o'. for_operation o' ((finding_of ''NO_UNDECLARED_LAYER'' ERROR
                ''Operation references a layer outside the selected company profile'')
              \<lparr>fi_expected := sorted_names declared, fi_actual := PStr (op_layer o')\<rparr>))
            (filter (\<lambda>o'. op_layer o' \<notin> set declared) (pl_operations plan)))))\<rparr>"

text \<open>\<open>observed.get(key) != configured\<close> for an observed dictionary.\<close>

definition dict_get :: "pydict \<Rightarrow> string \<Rightarrow> pyval" where
  "dict_get d k = (case map_of d k of None \<Rightarrow> PNone | Some v \<Rightarrow> v)"

definition layout_finding :: "pydict \<Rightarrow> string \<times> string option \<Rightarrow> finding list" where
  "layout_finding observed = (\<lambda>(key, configured).
     case configured of None \<Rightarrow> []
     | Some v \<Rightarrow>
         if \<not> py_eq (dict_get observed key) (PStr v)
         then [(finding_of ''LAYOUT_PROFILE_MATCH'' ERROR
                 (''Observed '' @ key @ '' does not match the company layout profile''))
               \<lparr>fi_expected := PStr v, fi_actual := dict_get observed key\<rparr>]
         else [])"

definition LayoutProfileRule :: validation_rule where
  "LayoutProfileRule =
     \<lparr>ru_rule_id = ''LAYOUT_PROFILE_MATCH'',
      ru_stages = [STAGE_COMPANY_STANDARD, STAGE_DRAWING_STANDARD],
      ru_evaluate = (\<lambda>c.
        case map_of (rc_extras c) ''layout'' of
          Some (PDict observed) \<Rightarrow>
            (let ex = pf_layout_rules (rc_profile c) in
             Inr (concat (map (layout_finding observed)
               [(''layout_name'', ly_layout_name ex), (''viewport_scale'', ly_viewport_scale ex),
                (''print_scale'', ly_print_scale ex)])))
        | _ \<Rightarrow> Inr [])\<rparr>"

definition opt_int :: "int option \<Rightarrow> pyval" where
  "opt_int x = (case x of None \<Rightarrow> PNone | Some i \<Rightarrow> PInt i)"

definition dws_finding :: "pydict \<Rightarrow> layer_rule \<Rightarrow> finding list" where
  "dws_finding observed l =
     (let expected = PDict [(''color_index'', opt_int (lr_color_index l)),
                            (''lineweight'', opt_int (lr_lineweight l)),
                            (''linetype'', PStr (lr_linetype l))];
          actual = dict_get observed (lr_name l)
      in if \<not> py_eq actual expected
         then [(finding_of ''DWS_LAYER_MATCH'' ERROR
                 (''Layer '' @ quoted (lr_name l) @ '' does not match the profile DWS definition''))
               \<lparr>fi_expected := expected, fi_actual := actual\<rparr>]
         else [])"

definition DwsLayerRule :: validation_rule where
  "DwsLayerRule =
     \<lparr>ru_rule_id = ''DWS_LAYER_MATCH'', ru_stages = [STAGE_COMPANY_STANDARD, STAGE_DRAWING_STANDARD],
      ru_evaluate = (\<lambda>c.
        case map_of (rc_extras c) ''layer_definitions'' of
          Some (PDict observed) \<Rightarrow>
            Inr (concat (map (dws_finding observed) (pf_layers (rc_profile c))))
        | _ \<Rightarrow> Inr [])\<rparr>"

subsection \<open>Finite coordinates\<close>

text \<open>The numbers in a value, with their paths; a bool is not a number here.\<close>

fun enum_from :: "nat \<Rightarrow> 'a list \<Rightarrow> (nat \<times> 'a) list" where
  "enum_from n [] = []"
| "enum_from n (x # xs) = (n, x) # enum_from (Suc n) xs"

lemma enum_from_cong [fundef_cong]: "n = m \<Longrightarrow> xs = ys \<Longrightarrow> enum_from n xs = enum_from m ys"
  by simp

lemma set_enum_from: "(i, v) \<in> set (enum_from n xs) \<Longrightarrow> v \<in> set xs"
  by (induction n xs rule: enum_from.induct) auto

function numeric_paths :: "pyval \<Rightarrow> string \<Rightarrow> (string \<times> pyfloat) list" where
  "numeric_paths PNone path = []"
| "numeric_paths (PBool b) path = []"
| "numeric_paths (PStr s) path = []"
| "numeric_paths (PInt i) path = [(if path = [] then ''$'' else path, Fin (of_int i))]"
| "numeric_paths (PFloat x) path = [(if path = [] then ''$'' else path, x)]"
| "numeric_paths (PDict d) path =
     concat (map (\<lambda>p. numeric_paths (snd p)
       (if path = [] then fst p else path @ ''.'' @ fst p)) d)"
| "numeric_paths (PList xs) path =
     concat (map (\<lambda>p. numeric_paths (snd p) (path @ ''['' @ show_nat (fst p) @ '']''))
       (enum_from 0 xs))"
  by pat_completeness auto
termination
  by (relation "measure (size \<circ> fst)")
    (auto dest!: set_enum_from dest: size_pdict_entry size_plist_entry)

definition float_name :: "pyfloat \<Rightarrow> string" where
  "float_name x = (case x of PosInf \<Rightarrow> ''inf'' | NegInf \<Rightarrow> ''-inf'' | NotANumber \<Rightarrow> ''nan''
     | Fin r \<Rightarrow> float_repr r)"

definition finite_finding :: "rule_context \<Rightarrow> operation \<Rightarrow> finding list" where
  "finite_finding c o' =
     map (\<lambda>(path, x). for_operation o' ((finding_of ''FINITE_COORDINATES'' BLOCKING
           (''INVALID_GEOMETRY: non-finite coordinate at '' @ quoted path))
         \<lparr>fi_expected := PStr ''finite number'', fi_actual := PStr (float_name x),
          fi_tolerance := Some (tp_absolute_length_mm (rc_tolerance c)),
          fi_suggested_fix := Some ''Recompile or repair the entity using finite coordinates'',
          fi_measurement := [(''path'', PStr path), (''unit'', PStr ''mm'')]\<rparr>))
       (filter (\<lambda>(path, x). \<not> is_finite_float x)
         (numeric_paths (PDict (op_geometry o')) ''geometry''))"

definition finite_plan_findings :: "rule_context \<Rightarrow> finding list res" where
  "finite_plan_findings c =
     bindR (require_plan_of c) (\<lambda>plan. Inr (concat (map (finite_finding c) (pl_operations plan))))"

subsection \<open>Post-commit measurements\<close>

definition EveryOperationProducedEntityRule :: validation_rule where
  "EveryOperationProducedEntityRule =
     \<lparr>ru_rule_id = ''POST-OPERATION-COVERAGE'', ru_stages = [POST_COMMIT],
      ru_evaluate = (\<lambda>c.
        case rc_commit_result c of
          None \<Rightarrow> Inr [(finding_of ''POST-OPERATION-COVERAGE'' BLOCKING
                         ''Post-commit validation ran without a commit result'')
                       \<lparr>fi_expected := PStr ''commit result present''\<rparr>]
        | Some result \<Rightarrow>
            let produced = map er_operation_id (cr_entity_results result) in
            bindR (require_plan_of c) (\<lambda>plan.
              Inr (map (\<lambda>o'. for_operation o' ((finding_of ''POST-OPERATION-COVERAGE'' BLOCKING
                    ''Operation produced no entity'')
                  \<lparr>fi_expected := PStr ''one or more entities'',
                   fi_suggested_fix := Some ''Roll back to the checkpoint and reconcile the job''\<rparr>))
                (filter (\<lambda>o'. op_id o' \<notin> set produced) (pl_operations plan)))))\<rparr>"

text \<open>\<open>float(v)\<close> of a number that is not a string.\<close>

fun float_of :: "pyval \<Rightarrow> pyfloat" where
  "float_of (PBool b) = Fin (if b then 1 else 0)"
| "float_of (PInt i) = Fin (of_int i)"
| "float_of (PFloat x) = x"
| "float_of _ = NotANumber"

definition is_list :: "pyval \<Rightarrow> bool" where
  "is_list v = (case v of PList _ \<Rightarrow> True | _ \<Rightarrow> False)"

definition items :: "pyval \<Rightarrow> pyval list" where
  "items v = (case v of PList xs \<Rightarrow> xs | _ \<Rightarrow> [])"

definition matches :: "string \<Rightarrow> pyval \<Rightarrow> pyval \<Rightarrow> tolerance_profile \<Rightarrow> bool" where
  "matches key expected actual t =
     (if is_bool expected \<or> is_bool actual then py_eq expected actual
      else if ends_with key ''_mm'' \<and> is_list expected \<and> is_list actual then
        (if length (items expected) \<noteq> length (items actual) then False
         else list_all (\<lambda>(e, a). is_number e \<and> \<not> is_bool e \<and> is_number a \<and> \<not> is_bool a \<and>
                length_close t (float_of e) (float_of a)) (zip (items expected) (items actual)))
      else if is_number expected \<and> is_number actual then
        (if ends_with key ''_mm2'' then area_close t (float_of expected) (float_of actual)
         else if ends_with key ''_deg'' then angle_close_deg t (float_of expected) (float_of actual)
         else if ends_with key ''_mm'' then length_close t (float_of expected) (float_of actual)
         else py_eq expected actual)
      else py_eq expected actual)"

text \<open>\<open>{op.operation_id: op for op in plan.operations}\<close>: the last operation of an id wins.\<close>

definition operations_by_id :: "operation list \<Rightarrow> string \<Rightarrow> operation option" where
  "operations_by_id ops i = map_of (rev (map (\<lambda>o'. (op_id o', o')) ops)) i"

definition measurement_finding ::
  "tolerance_profile \<Rightarrow> operation \<Rightarrow> entity_result \<Rightarrow> string \<times> pyval \<Rightarrow> finding list" where
  "measurement_finding t o' e = (\<lambda>(key, expected_value).
     case map_of (er_measurements e) key of
       None \<Rightarrow>
         (let sev = (if key = ''layer'' \<or> starts_with (op_feature_id o') ''raster-candidate-''
                     then BLOCKING else WARNING)
          in [(for_operation o' (finding_of ''POST-MEASUREMENT-MATCH'' sev
                (''Adapter did not measure '' @ quoted key)))
              \<lparr>fi_entity_ref := Some (er_entity_ref e), fi_expected := expected_value,
               fi_suggested_fix := Some (if sev = BLOCKING
                 then ''Implement raster geometry read-back and reconcile the commit''
                 else ''Declare the capability gap or implement the read-back'')\<rparr>])
     | Some actual_value \<Rightarrow>
         if \<not> matches key expected_value actual_value t
         then [(for_operation o' (finding_of ''POST-MEASUREMENT-MATCH'' BLOCKING
                 (''Committed geometry does not match the approved plan for '' @ quoted key)))
               \<lparr>fi_entity_ref := Some (er_entity_ref e), fi_expected := expected_value,
                fi_actual := actual_value, fi_tolerance := Some (tp_absolute_length_mm t),
                fi_suggested_fix := Some ''Roll back to the checkpoint and re-plan''\<rparr>]
         else [])"

definition entity_finding ::
  "tolerance_profile \<Rightarrow> operation list \<Rightarrow> entity_result \<Rightarrow> finding list" where
  "entity_finding t ops e =
     (case operations_by_id ops (er_operation_id e) of
        None \<Rightarrow> [(finding_of ''POST-MEASUREMENT-MATCH'' ERROR
                   ''Adapter reported an entity for an unknown operation'')
                 \<lparr>fi_entity_ref := Some (er_entity_ref e),
                  fi_expected := PStr ''operation present in the committed plan'',
                  fi_actual := PStr (er_operation_id e)\<rparr>]
      | Some o' \<Rightarrow> concat (map (measurement_finding t o' e) (op_expected o')))"

definition MeasurementMatchesExpectationRule :: validation_rule where
  "MeasurementMatchesExpectationRule =
     \<lparr>ru_rule_id = ''POST-MEASUREMENT-MATCH'', ru_stages = [POST_COMMIT],
      ru_evaluate = (\<lambda>c.
        case rc_commit_result c of
          None \<Rightarrow> Inr []
        | Some result \<Rightarrow>
            bindR (require_plan_of c) (\<lambda>plan.
              Inr (concat (map (entity_finding (rc_tolerance c) (pl_operations plan))
                (cr_entity_results result)))))\<rparr>"

definition post_commit_rules :: "validation_rule list" where
  "post_commit_rules = [EveryOperationProducedEntityRule, MeasurementMatchesExpectationRule]"

definition standard_rules :: "validation_rule list" where
  "standard_rules =
     [CanonicalUnitsRule, LayerDeclaredRule, ProfileProvenanceRule, GeneralToleranceDeclaredRule]"

definition layout_rule_list :: "validation_rule list" where
  "layout_rule_list = [NoUndeclaredLayerRule, LayoutProfileRule, DwsLayerRule]"

subsection \<open>Properties\<close>

lemma for_operation_severity [simp]: "fi_severity (for_operation o' f) = fi_severity f"
  by (simp add: for_operation_def)

lemma finding_of_severity [simp]: "fi_severity (finding_of i s m) = s"
  by (simp add: finding_of_def)

lemma engine_run_rule:
  assumes "engine_run rules vid stage c jid n = Inr r" and "ru \<in> set rules"
    and "stage \<in> set (ru_stages ru)"
  obtains fs where "ru_evaluate ru c = Inr fs" and "set fs \<subseteq> set (vr_findings r)"
proof -
  from assms(1) obtain fss
    where t: "traverse (\<lambda>ru. ru_evaluate ru c) (rules_for rules stage) = Inr fss"
      and f: "vr_findings r = concat fss"
    by (elim engine_run_Inr) blast
  from assms(2,3) have m: "ru \<in> set (rules_for rules stage)" by (simp add: rules_for_def)
  with t obtain fs where fs: "ru_evaluate ru c = Inr fs"
    by (auto simp: traverse_Inr_iff list_all2_conv_all_nth in_set_conv_nth)
  with traverse_concat_set [OF t] m f have "set fs \<subseteq> set (vr_findings r)" by auto
  with fs show thesis by (rule that)
qed

lemma not_blocking_finding:
  assumes "engine_run rules vid stage c jid n = Inr r" and "\<not> has_blocking r"
    and "f \<in> set (vr_findings r)"
  shows "fi_severity f \<noteq> BLOCKING"
  using assms by (elim engine_run_Inr) auto

lemma measurement_finding_ok:
  assumes "\<And>f. f \<in> set (measurement_finding t o' e (k, v)) \<Longrightarrow> fi_severity f \<noteq> BLOCKING"
  shows "case map_of (er_measurements e) k of
      None \<Rightarrow> k \<noteq> ''layer'' \<and> \<not> starts_with (op_feature_id o') ''raster-candidate-''
    | Some a \<Rightarrow> matches k v a t"
  using assms
  by (cases "map_of (er_measurements e) k")
    (force simp: measurement_finding_def Let_def split: if_splits)+



subsection \<open>Concrete inputs\<close>

definition demo_profile :: company_profile where
  "demo_profile =
     \<lparr>pf_profile_id = ''demo'', pf_version = ''1'', pf_company_approved = False,
      pf_canonical_unit = ''mm'', pf_general_tolerance = Some ''ISO 2768-m'', pf_dimension_style = None,
      pf_text_style = None, pf_dimension_styles = [], pf_text_styles = [],
      pf_layers = [\<lparr>lr_name = ''OBJECT'', lr_purpose = ''outline'', lr_color_index = None,
                    lr_linetype = ''Continuous'', lr_lineweight = None\<rparr>],
      pf_layer_map = [(''outline'', ''OBJECT'')], pf_entity_layer_map = [], pf_minimum_hole_edge_distance_mm = None,
      pf_minimum_hole_ligament_mm = None, pf_tolerance_profile_ref = ''demo-mechanical-mm@1.0'',
      pf_allowed_defaults = [],
      pf_annotation_rules = \<lparr>ar_hole_callout_min_count = None, ar_hole_table = None,
        ar_text_height_mm = None, ar_maximum_text_overlap_ratio = None, ar_placement_offsets_mm = []\<rparr>,
      pf_layout_rules = \<lparr>ly_layout_name = None, ly_viewport_scale = None, ly_print_scale = None,
        ly_view_spacing_mm = None\<rparr>,
      pf_title_block_fields = []\<rparr>"

definition demo_line :: operation where
  "demo_line =
     \<lparr>op_id = ''op_1'', op_feature_id = ''f_1'', op_type = CREATE_LINE, op_layer = ''OBJECT'',
      op_geometry = [(''start_mm'', PList [PInt 0, PInt 0]), (''end_mm'', PList [PInt 10, PInt 0])],
      op_expected = [(''length_mm'', PFloat (Fin 10))], op_target_entity_ref = None\<rparr>"

definition demo_line_plan :: operation_plan where
  "demo_line_plan = demo_plan\<lparr>pl_operations := [demo_line]\<rparr>"

definition demo_line_result :: commit_result where
  "demo_line_result =
     \<lparr>cr_schema_version = SCHEMA_VERSION, cr_job_id = ''job_1'', cr_plan_hash = ''h'',
      cr_status = STATUS_COMMITTED,
      cr_entity_results = [\<lparr>er_operation_id = ''op_1'', er_feature_id = ''f_1'', er_entity_ref = ''e_1'',
        er_entity_type = ''AcDbLine'', er_measurements = [(''length_mm'', PFloat (Fin (10 + 1 / 2000)))]\<rparr>],
      cr_previous_revision = ''r1'', cr_new_revision = ''r2'', cr_checkpoint_id = None,
      cr_undo_group = None\<rparr>"

definition demo_context :: rule_context where
  "demo_context =
     \<lparr>rc_profile = demo_profile, rc_tolerance = default_tolerance ''demo-mechanical-mm'' ''1.0'',
      rc_plan = Some demo_line_plan, rc_commit_result = Some demo_line_result, rc_extras = []\<rparr>"

lemma demo_standard_findings:
  "ru_evaluate CanonicalUnitsRule demo_context = Inr []"
  "ru_evaluate LayerDeclaredRule demo_context = Inr []"
  "ru_evaluate GeneralToleranceDeclaredRule demo_context = Inr []"
  by (simp_all add: CanonicalUnitsRule_def LayerDeclaredRule_def GeneralToleranceDeclaredRule_def
      demo_context_def require_plan_of_def demo_line_plan_def demo_plan_def demo_line_def demo_profile_def
      layer_declared_finding_def layer_names_def)

lemma demo_provenance_findings:
  "\<exists>f. ru_evaluate ProfileProvenanceRule demo_context = Inr [f] \<and> fi_severity f = WARNING"
  by (simp add: ProfileProvenanceRule_def demo_context_def require_plan_of_def demo_line_plan_def
      demo_plan_def demo_profile_def as_ref_def)

lemma demo_standard_run:
  "\<exists>r. engine_run standard_rules ''validation_1'' PRE_COMMIT demo_context ''job_1'' None = Inr r \<and>
       gate_allows_commit r True"
proof -
  obtain f where f: "ru_evaluate ProfileProvenanceRule demo_context = Inr [f]" "fi_severity f = WARNING"
    using demo_provenance_findings by blast
  have "rules_for standard_rules PRE_COMMIT = standard_rules"
    by (simp add: rules_for_def standard_rules_def CanonicalUnitsRule_def LayerDeclaredRule_def
        ProfileProvenanceRule_def GeneralToleranceDeclaredRule_def STANDARD_STAGES_def)
  then show ?thesis
    by (simp add: engine_run_def standard_rules_def demo_standard_findings f gate_mk_report Let_def)
qed

theorem gate_decision_witness:
  "\<exists>r. engine_run standard_rules ''validation_1'' PRE_COMMIT demo_context ''job_1'' None = Inr r \<and>
     (gate_allows_commit r False \<longleftrightarrow>
      (\<forall>ru \<in> set standard_rules. PRE_COMMIT \<in> set (ru_stages ru) \<longrightarrow>
        (\<exists>fs. ru_evaluate ru demo_context = Inr fs \<and>
          (\<forall>f \<in> set fs. fi_severity f \<noteq> BLOCKING \<and> (False \<longrightarrow> fi_severity f \<noteq> ERROR)))))"
  using demo_standard_run gate_decision by blast


lemma demo_post_run:
  "\<exists>r. engine_run post_commit_rules ''validation_2'' POST_COMMIT demo_context ''job_1'' None = Inr r \<and>
       \<not> has_blocking r"
proof -
  have "ru_evaluate EveryOperationProducedEntityRule demo_context = Inr []"
    by (simp add: EveryOperationProducedEntityRule_def demo_context_def demo_line_result_def
        require_plan_of_def demo_line_plan_def demo_line_def)
  moreover have "ru_evaluate MeasurementMatchesExpectationRule demo_context = Inr []"
    by (simp add: MeasurementMatchesExpectationRule_def demo_context_def demo_line_result_def
        require_plan_of_def demo_line_plan_def demo_line_def entity_finding_def operations_by_id_def
        measurement_finding_def matches_def is_list_def ends_with_def length_close_def isclose_def
        default_tolerance_def)
  moreover have "rules_for post_commit_rules POST_COMMIT = post_commit_rules"
    by (simp add: rules_for_def post_commit_rules_def EveryOperationProducedEntityRule_def
        MeasurementMatchesExpectationRule_def)
  ultimately show ?thesis
    by (simp add: engine_run_def post_commit_rules_def mk_report_blocking Let_def)
qed


end
