(* ===== verification/RetryModel.thy ===== *)
theory RetryModel
  imports Errors
begin

section \<open>Bounded retries of database writes\<close>

text \<open>
  Models \<open>persistence/retry.py\<close> and the transaction wrapper that every method of the SQL stores
  has (\<open>SqlJobStore._write\<close> and its siblings). A float of the policy is a real number. Reading
  the monotonic clock is a function of the world, sleeping a change of it; both are parameters
  of \<open>retry_run\<close>, as they are fields of \<open>RetryPolicy\<close>.

  The second half gives the world of a SQLite file that other connections write too: each of
  the next attempts may find the write lock taken, wait for the driver's busy timeout and
  raise, while the holder of the lock commits a change of its own.
\<close>

subsection \<open>RetryPolicy\<close>

record retry_policy =
  rp_max_attempts :: int
  rp_budget_seconds :: real
  rp_initial_delay_seconds :: real
  rp_backoff_multiplier :: real

definition DEFAULT_SQLITE_RETRY :: retry_policy where
  "DEFAULT_SQLITE_RETRY =
     \<lparr>rp_max_attempts = 5, rp_budget_seconds = 2, rp_initial_delay_seconds = 0.05,
      rp_backoff_multiplier = 2\<rparr>"

fun has_substring :: "string \<Rightarrow> string \<Rightarrow> bool" where
  "has_substring sub [] = (sub = [])"
| "has_substring sub (c # cs) = (take (length sub) (c # cs) = sub \<or> has_substring sub cs)"

definition is_database_locked :: "string \<Rightarrow> bool" where
  "is_database_locked error = has_substring ''database is locked'' (lower error)"

definition retry_exhausted :: exc where
  "retry_exhausted = Err HarnessError
     ''SQLite remained locked after the bounded retry policy was exhausted''"

text \<open>The loop from the given attempt on, with \<open>n\<close> attempts left in the range.\<close>

fun retry_loop ::
  "retry_policy \<Rightarrow> ('w \<Rightarrow> real) \<Rightarrow> (real \<Rightarrow> 'w \<Rightarrow> 'w) \<Rightarrow> (exc, 'w, 'a) prog \<Rightarrow> real \<Rightarrow> nat \<Rightarrow> nat \<Rightarrow>
   (exc, 'w, 'a) prog" where
  "retry_loop p clock sleep operation started_at attempt 0 w = (Inl AssertionError, w)"
| "retry_loop p clock sleep operation started_at attempt (Suc n) w =
     (case operation w of
        (Inl (OperationalError error), u) \<Rightarrow>
          (if \<not> is_database_locked error then (Inl (OperationalError error), u)
           else let elapsed = max 0 (clock u - started_at) in
             if rp_max_attempts p \<le> int attempt \<or> rp_budget_seconds p \<le> elapsed
             then (Inl retry_exhausted, u)
             else let requested_delay = rp_initial_delay_seconds p * rp_backoff_multiplier p ^ (attempt - 1);
                      delay = min requested_delay (rp_budget_seconds p - elapsed)
                  in if delay \<le> 0 then (Inl retry_exhausted, u)
                     else retry_loop p clock sleep operation started_at (attempt + 1) n (sleep delay u))
      | (r, u) \<Rightarrow> (r, u))"

definition retry_run ::
  "retry_policy \<Rightarrow> ('w \<Rightarrow> real) \<Rightarrow> (real \<Rightarrow> 'w \<Rightarrow> 'w) \<Rightarrow> (exc, 'w, 'a) prog \<Rightarrow> (exc, 'w, 'a) prog" where
  "retry_run p clock sleep operation w =
     retry_loop p clock sleep operation (clock w) 1 (nat (rp_max_attempts p)) w"

subsection \<open>Bounds\<close>

text \<open>
  \<open>calls\<close> and \<open>slept\<close> observe the world: one more call for each run of the operation, and the
  sum of the delays asked for.
\<close>

lemma retry_loop_bounded:
  assumes clock_op: "\<And>u. clock u \<le> clock (snd (operation u))"
    and clock_sleep: "\<And>d u. 0 < d \<Longrightarrow> clock u + d \<le> clock (sleep d u)"
    and calls_op: "\<And>u. calls (snd (operation u)) = Suc (calls u)"
    and calls_sleep: "\<And>d u. calls (sleep d u) = calls u"
    and slept_op: "\<And>u. slept (snd (operation u)) = (slept u :: real)"
    and slept_sleep: "\<And>d u. slept (sleep d u) = slept u + d"
    and "0 \<le> b" and "b \<le> max 0 (rp_budget_seconds p)" and "b \<le> clock w - t0"
    and "retry_loop p clock sleep operation t0 k n w = (r, v)"
  shows "calls v \<le> calls w + n \<and> slept v \<le> slept w + (max 0 (rp_budget_seconds p) - b) \<and>
    (\<forall>e. r = Inl (OperationalError e) \<longrightarrow> \<not> is_database_locked e)"
  using assms(7-10)
proof (induction n arbitrary: k w b)
  case (Suc n)
  obtain a u where a: "operation w = (a, u)" by (cases "operation w")
  from clock_op [of w] a have cl: "clock w \<le> clock u" by simp
  from calls_op [of w] slept_op [of w] a have g: "calls u = Suc (calls w)" "slept u = slept w" by simp_all
  show ?case
  proof (cases "\<exists>e. a = Inl (OperationalError e) \<and> is_database_locked e")
    case False
    with Suc.prems(4) a have "r = a" "v = u" by (auto split: sum.splits exc.splits)
    with False g Suc.prems(2) show ?thesis by auto
  next
    case True
    then obtain e where e: "a = Inl (OperationalError e)" "is_database_locked e" by blast
    let ?el = "max 0 (clock u - t0)"
    let ?d = "min (rp_initial_delay_seconds p * rp_backoff_multiplier p ^ (k - 1)) (rp_budget_seconds p - ?el)"
    show ?thesis
    proof (cases "rp_max_attempts p \<le> int k \<or> rp_budget_seconds p \<le> ?el \<or> ?d \<le> 0")
      case True
      with Suc.prems(4) a e have "r = Inl retry_exhausted" "v = u" by (auto simp: Let_def split: if_splits)
      with g Suc.prems(2) show ?thesis by (auto simp: retry_exhausted_def)
    next
      case False
      then have rec: "retry_loop p clock sleep operation t0 (k + 1) n (sleep ?d u) = (r, v)"
        using Suc.prems(4) a e by (auto simp: Let_def)
      from False have d: "0 < ?d" "?d \<le> rp_budget_seconds p - ?el" by auto
      have "?el = clock u - t0" using Suc.prems(1,3) cl by simp
      then have "b \<le> ?el" using Suc.prems(3) cl by simp
      with clock_sleep [OF d(1), of u] \<open>?el = clock u - t0\<close> have "b + ?d \<le> clock (sleep ?d u) - t0" by linarith
      moreover have "0 \<le> b + ?d" "b + ?d \<le> max 0 (rp_budget_seconds p)"
        using d Suc.prems(1) \<open>b \<le> ?el\<close> by linarith+
      ultimately have "calls v \<le> calls (sleep ?d u) + n \<and>
        slept v \<le> slept (sleep ?d u) + (max 0 (rp_budget_seconds p) - (b + ?d)) \<and>
        (\<forall>e. r = Inl (OperationalError e) \<longrightarrow> \<not> is_database_locked e)"
        using rec by (intro Suc.IH)
      with g calls_sleep [of ?d u] slept_sleep [of ?d u] show ?thesis by auto
    qed
  qed
qed auto

text \<open>
  C25: A retried operation is bounded: it runs at most \<open>max_attempts\<close> times, the delays
  that are slept never add up to more than the time budget, and a lock error never
  reaches the caller, provided that the clock does not run backwards and a sleep lasts at
  least as long as asked.
\<close>

theorem retry_bounded:
  assumes "\<And>u. clock u \<le> clock (snd (operation u))"
    and "\<And>d u. 0 < d \<Longrightarrow> clock u + d \<le> clock (sleep d u)"
    and "\<And>u. calls (snd (operation u)) = Suc (calls u)" and "\<And>d u. calls (sleep d u) = calls u"
    and "\<And>u. slept (snd (operation u)) = (slept u :: real)" and "\<And>d u. slept (sleep d u) = slept u + d"
    and "retry_run p clock sleep operation w = (r, v)"
  shows "calls v \<le> calls w + nat (rp_max_attempts p) \<and>
    slept v \<le> slept w + max 0 (rp_budget_seconds p) \<and>
    (\<forall>e. r = Inl (OperationalError e) \<longrightarrow> \<not> is_database_locked e)"
  using retry_loop_bounded [of clock operation sleep calls slept 0, OF assms(1-6) _ _ _
      assms(7) [unfolded retry_run_def]]
  by simp

text \<open>An operation that always finds the database locked, on a world of clock, calls and sleep.\<close>

definition demo_locked :: "(exc, real \<times> nat \<times> real, unit) prog" where
  "demo_locked = (\<lambda>(t, n, s). (Inl (OperationalError ''database is locked''), (t + 1 / 10, Suc n, s)))"

theorem retry_bounded_witness:
  "\<exists>t n s. retry_run DEFAULT_SQLITE_RETRY fst (\<lambda>d (t, n, s). (t + d, n, s + d)) demo_locked (0, 0, 0) =
     (Inl retry_exhausted, (t, n, s)) \<and> n \<le> 5 \<and> s \<le> 2"
proof -
  let ?sleep = "\<lambda>d (t, n, s). (t + d, n, s + d :: real) :: real \<times> nat \<times> real"
  have l: "is_database_locked ''database is locked''"
    by (simp add: is_database_locked_def lower_def lower_char_def)
  have r: "retry_run DEFAULT_SQLITE_RETRY fst ?sleep demo_locked (0, 0, 0) =
     (Inl retry_exhausted, (5 / 4, 5, 3 / 4))"
    by (simp add: retry_run_def DEFAULT_SQLITE_RETRY_def demo_locked_def l eval_nat_numeral)
  have "5 \<le> 0 + nat (rp_max_attempts DEFAULT_SQLITE_RETRY) \<and>
    3 / 4 \<le> 0 + max 0 (rp_budget_seconds DEFAULT_SQLITE_RETRY)"
    using retry_bounded [of fst demo_locked ?sleep "\<lambda>(t, n, s). n" "\<lambda>(t, n, s). s", OF _ _ _ _ _ _ r]
    by (auto simp: demo_locked_def)
  then show ?thesis
    by (intro exI [of _ "5 / 4"] exI [of _ 5] exI [of _ "3 / 4"] conjI r) simp_all
qed

subsection \<open>A database shared with other connections\<close>

text \<open>
  \<open>sd_rivals\<close> says what the next attempts meet: for how long the driver waits for the lock
  before it gives up, and what the connection that holds the lock commits meanwhile. An
  attempt that meets no rival runs its transaction.
\<close>

record 'd shared_db =
  sd_data :: 'd
  sd_clock :: real
  sd_rivals :: "(real \<times> ('d \<Rightarrow> 'd)) list"

definition nap :: "real \<Rightarrow> 'd shared_db \<Rightarrow> 'd shared_db" where
  "nap d w = w\<lparr>sd_clock := sd_clock w + d\<rparr>"

text \<open>\<open>session.commit()\<close> after the action, \<open>session.rollback()\<close> and the exception when it raises.\<close>

definition transact :: "(exc, 'd, 'a) prog \<Rightarrow> (exc, 'd, 'a) prog" where
  "transact action d = (case action d of (Inl e, _) \<Rightarrow> (Inl e, d) | (Inr x, t) \<Rightarrow> (Inr x, t))"

definition attempt :: "(exc, 'd, 'a) prog \<Rightarrow> (exc, 'd shared_db, 'a) prog" where
  "attempt tx w =
     (case sd_rivals w of
        [] \<Rightarrow> (case tx (sd_data w) of (r, d) \<Rightarrow> (r, w\<lparr>sd_data := d\<rparr>))
      | (wait, commit) # rest \<Rightarrow>
          (Inl (OperationalError ''(sqlite3.OperationalError) database is locked''),
           w\<lparr>sd_data := commit (sd_data w), sd_clock := sd_clock w + wait, sd_rivals := rest\<rparr>))"

definition write_db :: "retry_policy \<Rightarrow> (exc, 'd, 'a) prog \<Rightarrow> (exc, 'd shared_db, 'a) prog" where
  "write_db p action = retry_run p sd_clock nap (attempt (transact action))"

definition no_lock_errors :: "(exc, 'd, 'a) prog \<Rightarrow> bool" where
  "no_lock_errors tx \<longleftrightarrow> (\<forall>d e. fst (tx d) \<noteq> Inl (OperationalError e))"

lemma locked_message [simp]:
  "is_database_locked ''(sqlite3.OperationalError) database is locked''"
  by (simp add: is_database_locked_def lower_def lower_char_def)

lemma no_lock_errors_transact: "no_lock_errors action \<Longrightarrow> no_lock_errors (transact action)"
  by (auto simp: transact_def no_lock_errors_def split: prod.splits sum.splits)
    (metis fst_conv)

lemma tx_no_lock: "no_lock_errors tx \<Longrightarrow> fst (tx d) \<noteq> Inl (OperationalError e)"
  by (simp add: no_lock_errors_def)

lemma attempt_free:
  "sd_rivals w = [] \<Longrightarrow> attempt tx w = (case tx (sd_data w) of (r, d) \<Rightarrow> (r, w\<lparr>sd_data := d\<rparr>))"
  by (simp add: attempt_def)

text \<open>The database after the first \<open>k\<close> rivals.\<close>

definition after_rivals :: "nat \<Rightarrow> 'd shared_db \<Rightarrow> 'd" where
  "after_rivals k w = fold snd (take k (sd_rivals w)) (sd_data w)"

lemma retry_loop_atomic:
  assumes "no_lock_errors tx" and "nat (rp_max_attempts p) < k + n" and "0 < n"
    and "retry_loop p sd_clock nap (attempt tx) t0 k n w = (r, v)"
  shows "(\<exists>j. j \<le> length (sd_rivals w) \<and> 0 < j \<and> r = Inl retry_exhausted \<and> sd_data v = after_rivals j w) \<or>
    tx (after_rivals (length (sd_rivals w)) w) = (r, sd_data v)"
  using assms(2-4)
proof (induction n arbitrary: k w)
  case (Suc n)
  show ?case
  proof (cases "sd_rivals w")
    case Nil
    obtain a d where a: "tx (sd_data w) = (a, d)" by fastforce
    with tx_no_lock [OF assms(1), of "sd_data w"] have "\<nexists>e. a = Inl (OperationalError e)" by auto
    with a Nil Suc.prems(3) have "r = a" "v = w\<lparr>sd_data := d\<rparr>"
      by (auto simp: attempt_free split: sum.splits exc.splits)
    with a Nil show ?thesis by (simp add: after_rivals_def)
  next
    case (Cons q rest)
    obtain wait com where q: "q = (wait, com)" by fastforce
    let ?u = "w\<lparr>sd_data := com (sd_data w), sd_clock := sd_clock w + wait, sd_rivals := rest\<rparr>"
    have a: "attempt tx w = (Inl (OperationalError ''(sqlite3.OperationalError) database is locked''), ?u)"
      by (simp add: attempt_def Cons q)
    let ?el = "max 0 (sd_clock ?u - t0)"
    let ?d = "min (rp_initial_delay_seconds p * rp_backoff_multiplier p ^ (k - 1)) (rp_budget_seconds p - ?el)"
    show ?thesis
    proof (cases "rp_max_attempts p \<le> int k \<or> rp_budget_seconds p \<le> ?el \<or> ?d \<le> 0")
      case True
      with Suc.prems(3) a have "r = Inl retry_exhausted" "v = ?u" by (auto simp: Let_def split: if_splits)
      then show ?thesis by (intro disjI1 exI [of _ 1]) (simp add: after_rivals_def Cons q)
    next
      case False
      then have rec: "retry_loop p sd_clock nap (attempt tx) t0 (k + 1) n (nap ?d ?u) = (r, v)"
        using Suc.prems(3) a by (auto simp: Let_def)
      have shift: "after_rivals j (nap ?d ?u) = after_rivals (Suc j) w" for j
        by (simp add: after_rivals_def nap_def Cons q)
      have len: "length (sd_rivals w) = Suc (length (sd_rivals (nap ?d ?u)))" by (simp add: Cons nap_def)
      from False Suc.prems(1) have "0 < n" by linarith
      from Suc.IH [OF _ this rec] Suc.prems(1) show ?thesis
        unfolding shift len by (auto intro: exI [of _ "Suc _"])
    qed
  qed
qed simp

text \<open>
  C24: A write of the SQL stores happens entirely or not at all, whatever other connections do
  meanwhile: either its transaction is applied once, in full, to the database as the others
  left it (a transaction that raises leaves that database unchanged), or the caller gets the
  error of the exhausted policy and the database holds what the others committed and nothing of
  this write.
\<close>

theorem write_db_atomic:
  assumes "no_lock_errors action" and "1 \<le> rp_max_attempts p" and "write_db p action w = (r, v)"
  shows "(r = Inl retry_exhausted \<and> (\<exists>j \<le> length (sd_rivals w). 0 < j \<and> sd_data v = after_rivals j w)) \<or>
    (let d = after_rivals (length (sd_rivals w)) w in
      (\<exists>x. action d = (Inr x, sd_data v) \<and> r = Inr x) \<or>
      (\<exists>e. fst (action d) = Inl e \<and> r = Inl e \<and> sd_data v = d))"
  using retry_loop_atomic [OF no_lock_errors_transact [OF assms(1)] _ _
      assms(3) [unfolded write_db_def retry_run_def]] assms(2)
  by (auto simp: transact_def Let_def split: prod.splits sum.splits)

theorem write_db_atomic_witness:
  "\<exists>v. write_db DEFAULT_SQLITE_RETRY (\<lambda>d. (Inr (), d @ [1 :: nat]))
     \<lparr>sd_data = [], sd_clock = 0, sd_rivals = [(1 / 4, \<lambda>d. d @ [7])]\<rparr> = (Inr (), v) \<and> sd_data v = [7, 1]"
proof -
  let ?w = "\<lparr>sd_data = [], sd_clock = 0, sd_rivals = [(1 / 4, \<lambda>d. d @ [7])]\<rparr> :: nat list shared_db"
  let ?act = "\<lambda>d. (Inr (), d @ [1 :: nat]) :: (exc + unit) \<times> nat list"
  obtain v where r: "write_db DEFAULT_SQLITE_RETRY ?act ?w = (Inr (), v)"
    by (simp add: write_db_def retry_run_def DEFAULT_SQLITE_RETRY_def attempt_def transact_def nap_def
        eval_nat_numeral)
  from write_db_atomic [OF _ _ r] have "sd_data v = [7, 1]"
    by (auto simp: no_lock_errors_def DEFAULT_SQLITE_RETRY_def after_rivals_def Let_def)
  with r show ?thesis by blast
qed

lemma retry_loop_free:
  assumes "no_lock_errors tx" and "sd_rivals w = []"
  shows "retry_loop p c z (attempt tx) t0 k (Suc n) w =
    (case tx (sd_data w) of (r, d) \<Rightarrow> (r, w\<lparr>sd_data := d\<rparr>))"
proof -
  obtain a d where a: "tx (sd_data w) = (a, d)" by fastforce
  with tx_no_lock [OF assms(1), of "sd_data w"] have "\<nexists>e. a = Inl (OperationalError e)" by auto
  with a assms(2) show ?thesis by (auto simp: attempt_free split: sum.splits exc.splits)
qed

lemma retry_loop_locked:
  assumes "sd_rivals w = (wt, com) # rest" and "int k < rp_max_attempts p"
    and "0 \<le> sd_clock w + wt - t0" and "d = rp_initial_delay_seconds p * rp_backoff_multiplier p ^ (k - 1)"
    and "0 < d" and "sd_clock w + wt - t0 + d \<le> rp_budget_seconds p"
  shows "retry_loop p sd_clock nap (attempt tx) t0 k (Suc n) w =
    retry_loop p sd_clock nap (attempt tx) t0 (k + 1) n
      (w\<lparr>sd_data := com (sd_data w), sd_clock := sd_clock w + wt + d, sd_rivals := rest\<rparr>)"
proof -
  have "nap d (w\<lparr>sd_data := com (sd_data w), sd_clock := sd_clock w + wt, sd_rivals := rest\<rparr>) =
      w\<lparr>sd_data := com (sd_data w), sd_clock := sd_clock w + wt + d, sd_rivals := rest\<rparr>"
    by (cases w) (simp add: nap_def)
  with assms show ?thesis by (simp add: attempt_def Let_def min_absorb1)
qed

declare retry_loop.simps [simp del]

lemma default_retry_loop:
  assumes "no_lock_errors tx"
  shows "\<forall>q \<in> set rivals. 0 \<le> fst q \<and> fst q \<le> 1 / 4 \<Longrightarrow> sd_rivals w = rivals \<Longrightarrow>
    1 \<le> k \<Longrightarrow> k + length rivals \<le> 5 \<Longrightarrow> n = 6 - k \<Longrightarrow> t0 \<le> sd_clock w \<Longrightarrow>
    sd_clock w - t0 \<le> (real k - 1) / 4 + 0.05 * (2 ^ (k - 1) - 1) \<Longrightarrow>
    case retry_loop DEFAULT_SQLITE_RETRY sd_clock nap (attempt tx) t0 k n w of (r, v) \<Rightarrow>
      tx (fold snd rivals (sd_data w)) = (r, sd_data v)"
proof (induction rivals arbitrary: k n w)
  case Nil
  then have "0 < n" by simp
  then obtain m where "n = Suc m" by (cases n) auto
  from retry_loop_free [OF assms Nil.prems(2)] show ?case
    by (simp add: \<open>n = Suc m\<close> split: prod.splits)
next
  case (Cons q rest)
  obtain wt com where q: "q = (wt, com)" by fastforce
  with Cons.prems(1) have wt: "0 \<le> wt" "wt \<le> 1 / 4" by auto
  from Cons.prems(3-5) obtain m where n: "n = Suc m" "m = 6 - (k + 1)" by (cases n) auto
  define d where "d = 0.05 * (2 :: real) ^ (k - 1)"
  let ?w = "w\<lparr>sd_data := com (sd_data w), sd_clock := sd_clock w + wt + d, sd_rivals := rest\<rparr>"
  from Cons.prems(3,4) have "k = 1 \<or> k = 2 \<or> k = 3 \<or> k = 4" by auto
  then have fits: "real k / 4 + 0.05 * (2 ^ (k - 1) - 1) + d \<le> 2" by (auto simp: d_def eval_nat_numeral)
  have next_bound: "(real k - 1) / 4 + 0.05 * (2 ^ (k - 1) - 1) + 1 / 4 + d
      = (real (k + 1) - 1) / 4 + 0.05 * (2 ^ (k + 1 - 1) - 1)"
    using Cons.prems(3) by (cases k) (auto simp: d_def field_simps)
  have "retry_loop DEFAULT_SQLITE_RETRY sd_clock nap (attempt tx) t0 k n w =
      retry_loop DEFAULT_SQLITE_RETRY sd_clock nap (attempt tx) t0 (k + 1) m ?w"
    unfolding n(1)
  proof (rule retry_loop_locked)
    show "sd_rivals w = (wt, com) # rest" using Cons.prems(2) q by simp
    show "sd_clock w + wt - t0 + d \<le> rp_budget_seconds DEFAULT_SQLITE_RETRY"
      using fits wt Cons.prems(7) by (simp add: DEFAULT_SQLITE_RETRY_def field_simps)
  qed (use Cons.prems wt in \<open>auto simp: DEFAULT_SQLITE_RETRY_def d_def\<close>)
  moreover have "case retry_loop DEFAULT_SQLITE_RETRY sd_clock nap (attempt tx) t0 (k + 1) m ?w of (r, v) \<Rightarrow>
      tx (fold snd rest (sd_data ?w)) = (r, sd_data v)"
  proof (rule Cons.IH)
    have "0 < d" by (simp add: d_def)
    with Cons.prems(6) wt show "t0 \<le> sd_clock ?w" by simp
    show "sd_clock ?w - t0 \<le> (real (k + 1) - 1) / 4 + 0.05 * (2 ^ (k + 1 - 1) - 1)"
      using Cons.prems(7) wt next_bound by simp
  qed (use Cons.prems n in auto)
  ultimately show ?case by (simp add: q)
qed

lemma default_attempts: "rp_max_attempts DEFAULT_SQLITE_RETRY = 5"
  by (simp add: DEFAULT_SQLITE_RETRY_def)

text \<open>
  C26: The default policy rides out the locks that the engine's settings allow: when each lock
  wait is at most the 250 milliseconds of \<open>busy_timeout\<close>, a write that meets up to four of them
  in a row is applied, and the caller gets the result of its transaction.
\<close>

theorem default_retry_suffices:
  assumes "no_lock_errors action" and "length (sd_rivals w) \<le> 4"
    and "\<forall>q \<in> set (sd_rivals w). 0 \<le> fst q \<and> fst q \<le> 1 / 4"
  shows "case write_db DEFAULT_SQLITE_RETRY action w of (r, v) \<Rightarrow>
    transact action (after_rivals (length (sd_rivals w)) w) = (r, sd_data v)"
proof -
  have "case retry_loop DEFAULT_SQLITE_RETRY sd_clock nap (attempt (transact action)) (sd_clock w) 1 5 w of (r, v) \<Rightarrow>
      transact action (fold snd (sd_rivals w) (sd_data w)) = (r, sd_data v)"
    by (rule default_retry_loop [OF no_lock_errors_transact [OF assms(1)] assms(3) refl]) (use assms(2) in simp_all)
  then show ?thesis by (simp add: write_db_def retry_run_def default_attempts after_rivals_def)
qed

theorem default_retry_suffices_witness:
  "case write_db DEFAULT_SQLITE_RETRY (\<lambda>d. (Inr (length d), d @ [1 :: nat]))
     \<lparr>sd_data = [], sd_clock = 0, sd_rivals = [(1 / 4, \<lambda>d. d @ [7]), (0, \<lambda>d. d @ [8])]\<rparr> of (r, v) \<Rightarrow>
   r = Inr 2 \<and> sd_data v = [7, 8, 1]"
  using default_retry_suffices [of "\<lambda>d. (Inr (length d), d @ [1 :: nat])"
      "\<lparr>sd_data = [], sd_clock = 0, sd_rivals = [(1 / 4, \<lambda>d. d @ [7]), (0, \<lambda>d. d @ [8])]\<rparr>"]
  by (auto simp: no_lock_errors_def after_rivals_def transact_def split: prod.splits)

end
