(* ===== verification/SqlLeaseStore.thy ===== *)
theory SqlLeaseStore
  imports LeaseService RetryModel
begin

section \<open>The writer leases in SQLite\<close>

text \<open>
  Models \<open>persistence/sql_lease_store.py\<close> on the table \<open>writer_leases\<close> of
  \<open>persistence/models.py\<close>: its rows in insertion order, \<open>lease_id\<close> the primary key and
  \<open>document_id\<close> unique. Every operation here is one attempt of the retry policy on a database
  without contention (\<open>RetryModel.attempt\<close> adds the contention). The second part shows that it
  provides the same port as the in-memory store, and that both answer alike.
\<close>

type_synonym lease_rows = "writer_lease list"

text \<open>\<open>_model(row)\<close>: the row read back through the validator of the contract.\<close>

definition lease_model :: "writer_lease \<Rightarrow> writer_lease res" where
  "lease_model row = timestamps_are_ordered row"

definition row_of_document :: "lease_rows \<Rightarrow> string \<Rightarrow> writer_lease option" where
  "row_of_document rows doc = find (\<lambda>r. wl_document_id r = doc) rows"

definition row_of_lease :: "lease_rows \<Rightarrow> string \<Rightarrow> writer_lease option" where
  "row_of_lease rows lid = find (\<lambda>r. wl_lease_id r = lid) rows"

text \<open>The constraints of the table that an inserted row may violate.\<close>

definition violates_lease_constraints :: "lease_rows \<Rightarrow> writer_lease \<Rightarrow> bool" where
  "violates_lease_constraints rows row =
     list_ex (\<lambda>r. wl_lease_id r = wl_lease_id row \<or> wl_document_id r = wl_document_id row) rows"

definition sql_try_acquire ::
  "string \<Rightarrow> string \<Rightarrow> timedelta \<Rightarrow> time \<Rightarrow> string \<Rightarrow> (exc, lease_rows, writer_lease) prog" where
  "sql_try_acquire doc owner ttl now fresh rows =
     (case timestamps_are_ordered
        \<lparr>wl_lease_id = ''lease_'' @ fresh, wl_document_id = doc, wl_owner_id = owner,
         wl_acquired_at = now, wl_expires_at = now + ttl, wl_heartbeat_at = now\<rparr> of
        Inl e \<Rightarrow> (Inl e, rows)
      | Inr lease \<Rightarrow>
          let kept = filter (\<lambda>r. \<not> (wl_document_id r = doc \<and> wl_expires_at r \<le> now)) rows
          in if \<not> violates_lease_constraints kept lease then (Inr lease, kept @ [lease])
             else (case row_of_document rows doc of
                 None \<Rightarrow> (Inl (IntegrityError ''UNIQUE constraint failed: writer_leases.lease_id''), rows)
               | Some current \<Rightarrow>
                   (case lease_model current of
                      Inl e \<Rightarrow> (Inl e, rows)
                    | Inr conflict \<Rightarrow>
                        (Inl (Err WriterLeaseConflictError ''Document already has an active writer lease''),
                         rows))))"

text \<open>The row is validated after the commit, so a renewal that raises there is stored.\<close>

definition sql_renew :: "string \<Rightarrow> timedelta \<Rightarrow> time \<Rightarrow> (exc, lease_rows, writer_lease) prog" where
  "sql_renew lid ttl now rows =
     (case row_of_lease rows lid of
        None \<Rightarrow> (Inl (Err HarnessError ''Writer lease is no longer active''), rows)
      | Some row \<Rightarrow>
          if wl_expires_at row \<le> now
          then (Inl (Err HarnessError ''Writer lease is no longer active''), rows)
          else let updated = row\<lparr>wl_heartbeat_at := now, wl_expires_at := now + ttl\<rparr>
               in (lease_model updated, map (\<lambda>r. if wl_lease_id r = lid then updated else r) rows))"

definition sql_release :: "string \<Rightarrow> time \<Rightarrow> (exc, lease_rows, unit) prog" where
  "sql_release lid now rows = (Inr (), filter (\<lambda>r. wl_lease_id r \<noteq> lid) rows)"

definition sql_active_row :: "lease_rows \<Rightarrow> string \<Rightarrow> time \<Rightarrow> writer_lease option" where
  "sql_active_row rows doc now = find (\<lambda>r. wl_document_id r = doc \<and> now < wl_expires_at r) rows"

definition sql_active_lease :: "lease_rows \<Rightarrow> string \<Rightarrow> time \<Rightarrow> writer_lease option res" where
  "sql_active_lease rows doc now =
     (case sql_active_row rows doc now of
        None \<Rightarrow> Inr None
      | Some row \<Rightarrow> bindR (lease_model row) (\<lambda>l. Inr (Some l)))"

subsection \<open>The constraints hold\<close>

definition lease_rows_inv :: "lease_rows \<Rightarrow> bool" where
  "lease_rows_inv rows \<longleftrightarrow> distinct (map wl_document_id rows) \<and> distinct (map wl_lease_id rows)"

definition lease_row_ids :: "lease_rows \<Rightarrow> string set" where
  "lease_row_ids rows = wl_lease_id ` set rows"

lemma find_unique:
  "distinct (map f rows) \<Longrightarrow> (\<And>r. P r \<Longrightarrow> f r = k) \<Longrightarrow>
   find P rows = Some l \<longleftrightarrow> l \<in> set rows \<and> P l"
  by (induction rows) (auto simp: image_iff)

lemma find_not_Some: "find P rows = None \<longleftrightarrow> (\<forall>r \<in> set rows. \<not> P r)"
  by (auto simp: find_None_iff)

lemma find_app: "find P (xs @ ys) = (case find P xs of None \<Rightarrow> find P ys | Some x \<Rightarrow> Some x)"
  by (induction xs) simp_all

lemma find_filter_all: "(\<And>x. P x \<Longrightarrow> Q x) \<Longrightarrow> find P (filter Q xs) = find P xs"
  by (induction xs) auto

lemma lease_rows_unique:
  "lease_rows_inv rows \<Longrightarrow> l \<in> set rows \<Longrightarrow> k \<in> set rows \<Longrightarrow>
   wl_document_id l = wl_document_id k \<or> wl_lease_id l = wl_lease_id k \<Longrightarrow> l = k"
  by (auto simp: lease_rows_inv_def distinct_map dest: inj_onD)

lemma row_of_document_Some:
  "lease_rows_inv rows \<Longrightarrow> row_of_document rows d = Some l \<longleftrightarrow> l \<in> set rows \<and> wl_document_id l = d"
  unfolding row_of_document_def lease_rows_inv_def
  by (rule find_unique [where f = wl_document_id and k = d]) auto

lemma row_of_lease_Some:
  "lease_rows_inv rows \<Longrightarrow> row_of_lease rows lid = Some l \<longleftrightarrow> l \<in> set rows \<and> wl_lease_id l = lid"
  unfolding row_of_lease_def lease_rows_inv_def
  by (rule find_unique [where f = wl_lease_id and k = lid]) auto

lemma sql_active_Some:
  "lease_rows_inv rows \<Longrightarrow> sql_active_row rows d now = Some l \<longleftrightarrow>
   l \<in> set rows \<and> wl_document_id l = d \<and> now < wl_expires_at l"
  unfolding sql_active_row_def lease_rows_inv_def
  by (rule find_unique [where f = wl_document_id and k = d]) auto

lemma sql_active_None:
  "sql_active_row rows d now = None \<longleftrightarrow>
   (\<forall>r \<in> set rows. wl_document_id r = d \<longrightarrow> wl_expires_at r \<le> now)"
  by (auto simp: sql_active_row_def find_not_Some not_less)

lemma sql_active_cong:
  assumes "lease_rows_inv s" and "lease_rows_inv t"
    and "\<And>l. wl_document_id l = d \<Longrightarrow> now < wl_expires_at l \<Longrightarrow> l \<in> set t \<longleftrightarrow> l \<in> set s"
  shows "sql_active_row t d now = sql_active_row s d now"
proof (cases "sql_active_row s d now")
  case None
  with assms(3) have "sql_active_row t d now = None" unfolding sql_active_None by (meson not_le)
  with None show ?thesis by simp
next
  case (Some l)
  with assms(3) have "sql_active_row t d now = Some l"
    unfolding sql_active_Some [OF assms(1)] sql_active_Some [OF assms(2)] by blast
  with Some show ?thesis by simp
qed

subsection \<open>The operations on the rows\<close>

lemma sql_acquire_Inr:
  "sql_try_acquire d w ttl now f s = (Inr l, t) \<longleftrightarrow>
     0 < ttl \<and> (\<forall>r \<in> set s. wl_document_id r = d \<longrightarrow> wl_expires_at r \<le> now) \<and>
     (\<forall>r \<in> set s. wl_lease_id r = ''lease_'' @ f \<longrightarrow> wl_document_id r = d \<and> wl_expires_at r \<le> now) \<and>
     l = \<lparr>wl_lease_id = ''lease_'' @ f, wl_document_id = d, wl_owner_id = w,
          wl_acquired_at = now, wl_expires_at = now + ttl, wl_heartbeat_at = now\<rparr> \<and>
     t = filter (\<lambda>r. \<not> (wl_document_id r = d \<and> wl_expires_at r \<le> now)) s @ [l]"
  by (auto simp: sql_try_acquire_def timestamps_are_ordered_def Let_def violates_lease_constraints_def
      list_ex_iff split: option.splits sum.splits)

lemma sql_acquire_Inl: "sql_try_acquire d w ttl now f s = (Inl e, t) \<Longrightarrow> t = s"
  by (auto simp: sql_try_acquire_def Let_def split: option.splits sum.splits if_splits)

lemma sql_acquire_refused:
  assumes "lease_rows_inv s" and "sql_active_row s d now = Some l"
  shows "\<exists>e. sql_try_acquire d w ttl now f s = (Inl e, s) \<and>
    (0 < ttl \<longrightarrow> lease_model l = Inr l \<longrightarrow>
     e = Err WriterLeaseConflictError ''Document already has an active writer lease'')"
proof -
  from assms have l: "l \<in> set s" "wl_document_id l = d" "now < wl_expires_at l"
    by (auto simp: sql_active_Some)
  with assms(1) have "row_of_document s d = Some l" by (simp add: row_of_document_Some)
  moreover have "violates_lease_constraints
      (filter (\<lambda>r. wl_document_id r = d \<longrightarrow> \<not> wl_expires_at r \<le> now) s) k"
    if "wl_document_id k = d" for k
    using l that by (auto simp: violates_lease_constraints_def list_ex_iff intro!: bexI [of _ l])
  ultimately show ?thesis
    by (auto simp: sql_try_acquire_def timestamps_are_ordered_def Let_def split: sum.splits)
qed

lemma sql_acquire_inv:
  assumes "lease_rows_inv s" and "''lease_'' @ f \<notin> lease_row_ids s"
    and "sql_try_acquire d w ttl now f s = (r, t)"
  shows "lease_rows_inv t \<and> lease_row_ids t \<subseteq> insert (''lease_'' @ f) (lease_row_ids s)"
proof (cases r)
  case (Inl e)
  with sql_acquire_Inl assms show ?thesis by blast
next
  case (Inr l)
  with assms show ?thesis
    by (auto simp: sql_acquire_Inr lease_rows_inv_def lease_row_ids_def distinct_map_filter)
qed

lemma sql_renew_cases:
  assumes "lease_rows_inv s" and "sql_renew lid ttl now s = (r, t)"
  shows "t = s \<or> (\<exists>l \<in> set s. wl_lease_id l = lid \<and> now < wl_expires_at l \<and>
     t = map (\<lambda>k. if k = l then l\<lparr>wl_heartbeat_at := now, wl_expires_at := now + ttl\<rparr> else k) s)"
proof (cases "\<exists>l. row_of_lease s lid = Some l \<and> now < wl_expires_at l")
  case True
  then obtain l where l: "row_of_lease s lid = Some l" "now < wl_expires_at l" by blast
  with assms(1) have m: "l \<in> set s" "wl_lease_id l = lid" by (auto simp: row_of_lease_Some)
  let ?u = "l\<lparr>wl_heartbeat_at := now, wl_expires_at := now + ttl\<rparr>"
  from assms(2) l have "t = map (\<lambda>k. if wl_lease_id k = lid then ?u else k) s"
    by (simp add: sql_renew_def Let_def)
  also have "\<dots> = map (\<lambda>k. if k = l then ?u else k) s"
    using m lease_rows_unique [OF assms(1) _ m(1)] by (auto intro!: map_cong)
  finally show ?thesis using l(2) m by blast
next
  case False
  with assms(2) show ?thesis by (auto simp: sql_renew_def split: option.splits if_splits)
qed

lemma map_replace_row:
  assumes "lease_rows_inv s" and "l \<in> set s"
    and "wl_document_id u = wl_document_id l" and "wl_lease_id u = wl_lease_id l"
  shows "lease_rows_inv (map (\<lambda>k. if k = l then u else k) s) \<and>
    lease_row_ids (map (\<lambda>k. if k = l then u else k) s) = lease_row_ids s \<and>
    set (map (\<lambda>k. if k = l then u else k) s) = insert u (set s - {l})"
proof -
  have keys: "map wl_document_id (map (\<lambda>k. if k = l then u else k) s) = map wl_document_id s"
    "map wl_lease_id (map (\<lambda>k. if k = l then u else k) s) = map wl_lease_id s"
    using assms(3,4) by auto
  then have "lease_row_ids (map (\<lambda>k. if k = l then u else k) s) = lease_row_ids s"
    unfolding lease_row_ids_def by (metis list.set_map)
  moreover have "lease_rows_inv (map (\<lambda>k. if k = l then u else k) s)"
    using assms(1) unfolding lease_rows_inv_def keys .
  moreover have "set (map (\<lambda>k. if k = l then u else k) s) = insert u (set s - {l})"
    using assms(2) by auto
  ultimately show ?thesis by blast
qed

lemma sql_renew_held:
  assumes "lease_rows_inv s" and "sql_active_row s d now = Some l"
  shows "sql_renew (wl_lease_id l) ttl now s =
    (lease_model (l\<lparr>wl_heartbeat_at := now, wl_expires_at := now + ttl\<rparr>),
     map (\<lambda>k. if k = l then l\<lparr>wl_heartbeat_at := now, wl_expires_at := now + ttl\<rparr> else k) s)"
proof -
  from assms have l: "l \<in> set s" "now < wl_expires_at l" by (auto simp: sql_active_Some)
  then have row: "row_of_lease s (wl_lease_id l) = Some l" using assms(1) by (simp add: row_of_lease_Some)
  have "map (\<lambda>k. if wl_lease_id k = wl_lease_id l then u else k) s = map (\<lambda>k. if k = l then u else k) s" for u
    using lease_rows_unique [OF assms(1) _ l(1)] by (auto intro!: map_cong)
  with row l show ?thesis by (simp add: sql_renew_def Let_def)
qed

lemma sql_renew_active:
  assumes "lease_rows_inv s" and "sql_active_row s d now = Some l"
  shows "sql_active_row (snd (sql_renew (wl_lease_id l) ttl now s)) d x =
    (if x < now + ttl then Some (l\<lparr>wl_heartbeat_at := now, wl_expires_at := now + ttl\<rparr>) else None)"
proof -
  let ?u = "l\<lparr>wl_heartbeat_at := now, wl_expires_at := now + ttl\<rparr>"
  from assms have l: "l \<in> set s" "wl_document_id l = d" by (auto simp: sql_active_Some)
  from map_replace_row [OF assms(1) l(1), of ?u]
  have t: "lease_rows_inv (map (\<lambda>k. if k = l then ?u else k) s)"
    "set (map (\<lambda>k. if k = l then ?u else k) s) = insert ?u (set s - {l})" by auto
  have others: "k = l" if "k \<in> set s" "wl_document_id k = d" for k
    using lease_rows_unique [OF assms(1) that(1) l(1)] that l(2) by simp
  show ?thesis
  proof (cases "x < now + ttl")
    case True
    with t l show ?thesis by (simp add: sql_renew_held [OF assms] sql_active_Some)
  next
    case False
    have "wl_expires_at r \<le> x" if "r \<in> insert ?u (set s - {l})" "wl_document_id r = d" for r
      using that others [of r] False by auto
    with t(2) have "sql_active_row (map (\<lambda>k. if k = l then ?u else k) s) d x = None"
      unfolding sql_active_None by blast
    with False show ?thesis by (simp add: sql_renew_held [OF assms])
  qed
qed

lemma sql_renew_frame:
  assumes "lease_rows_inv s" and "sql_renew lid ttl now s = (r, t)"
    and "sql_active_row s d x = Some k" and "wl_lease_id k \<noteq> lid"
  shows "sql_active_row t d x = Some k"
  using sql_renew_cases [OF assms(1,2)]
proof
  assume "\<exists>l \<in> set s. wl_lease_id l = lid \<and> now < wl_expires_at l \<and>
     t = map (\<lambda>k. if k = l then l\<lparr>wl_heartbeat_at := now, wl_expires_at := now + ttl\<rparr> else k) s"
  then obtain l where l: "l \<in> set s" "wl_lease_id l = lid"
    "t = map (\<lambda>k. if k = l then l\<lparr>wl_heartbeat_at := now, wl_expires_at := now + ttl\<rparr> else k) s"
    by blast
  from map_replace_row [OF assms(1) l(1), of "l\<lparr>wl_heartbeat_at := now, wl_expires_at := now + ttl\<rparr>"] l(3)
  have "lease_rows_inv t" "set t = insert (l\<lparr>wl_heartbeat_at := now, wl_expires_at := now + ttl\<rparr>) (set s - {l})"
    by auto
  with assms l show ?thesis by (auto simp: sql_active_Some)
qed (use assms in simp)

lemma sql_release_inv:
  "lease_rows_inv s \<Longrightarrow> lease_rows_inv (filter (\<lambda>r. wl_lease_id r \<noteq> lid) s)"
  by (simp add: lease_rows_inv_def distinct_map_filter)

interpretation sql_lease: lease_store lease_rows_inv lease_row_ids sql_active_row
  sql_try_acquire sql_renew sql_release "\<lambda>l now. wl_acquired_at l \<le> now"
proof (unfold_locales, goal_cases)
  case (1 s d now l w ttl f)
  then show ?case using sql_acquire_refused by blast
next
  case (2 s d now l ttl w f)
  then show ?case using sql_acquire_refused [OF 2(1,2), of w ttl f] by (auto simp: lease_model_def)
next
  case (3 s d now ttl f w)
  then have "wl_lease_id r \<noteq> ''lease_'' @ f" if "r \<in> set s" for r
    using that unfolding lease_row_ids_def by (metis imageI)
  with 3 show ?case by (auto simp: sql_acquire_Inr sql_active_None)
next
  case (4 s d w ttl now f l t)
  then have t: "now < wl_expires_at l" "wl_document_id l = d"
      "t = filter (\<lambda>r. \<not> (wl_document_id r = d \<and> wl_expires_at r \<le> now)) s @ [l]"
      "\<forall>r \<in> set s. wl_document_id r = d \<longrightarrow> wl_expires_at r \<le> now"
    by (auto simp: sql_acquire_Inr)
  then have "find (\<lambda>r. wl_document_id r = d \<and> now < wl_expires_at r)
      (filter (\<lambda>r. \<not> (wl_document_id r = d \<and> wl_expires_at r \<le> now)) s) = None"
    unfolding find_not_Some by auto
  with t have "sql_active_row t d now = Some l" by (simp add: sql_active_row_def find_app)
  with 4 show ?case by (auto simp: sql_acquire_Inr sql_active_None)
next
  case (5 d w ttl now f s e t)
  then show ?case by (rule sql_acquire_Inl)
next
  case (6 s f d w ttl now r t)
  then show ?case by (rule sql_acquire_inv)
next
  case (7 s d w ttl now f r t d' x)
  let ?P = "\<lambda>r. wl_document_id r = d' \<and> x < wl_expires_at r"
  let ?Q = "\<lambda>r. \<not> (wl_document_id r = d \<and> wl_expires_at r \<le> now)"
  show ?case
  proof (cases r)
    case (Inl e)
    with 7 show ?thesis by (auto dest: sql_acquire_Inl)
  next
    case (Inr l)
    with 7(2) have "wl_document_id l = d" "t = filter ?Q s @ [l]" by (auto simp: sql_acquire_Inr)
    moreover have "find ?P (filter ?Q s) = find ?P s" using 7(3) by (intro find_filter_all) auto
    ultimately show ?thesis using 7(3) by (simp add: sql_active_row_def find_app split: option.splits)
  qed
next
  case (8 s d now l x)
  then show ?case by (simp add: sql_active_Some)
next
  case (9 s d now l)
  then show ?case by (auto simp: sql_active_row_def find_Some_iff)
next
  case (10 s d now l)
  then show ?case by (auto simp: sql_active_Some lease_row_ids_def)
next
  case (11 s d x l d' y k)
  then show ?case using lease_rows_unique [OF 11(1)] by (auto simp: sql_active_Some)
next
  case (12 s d now l ttl x)
  then show ?case by (rule sql_renew_active)
next
  case (13 s d now l ttl)
  then show ?case by (simp add: sql_renew_held lease_model_def timestamps_are_ordered_def)
next
  case (14 l now x hb ex)
  then show ?case by simp
next
  case (15 s lid ttl now r t d x k)
  then have "wl_lease_id k \<noteq> lid" by blast
  with 15(1,2,4) show ?case by (rule sql_renew_frame)
next
  case (16 s lid ttl now r t)
  from sql_renew_cases [OF 16] show ?case
  proof (elim disjE bexE conjE)
    fix l
    assume l: "l \<in> set s" "t = map (\<lambda>k. if k = l then l\<lparr>wl_heartbeat_at := now, wl_expires_at := now + ttl\<rparr> else k) s"
    from map_replace_row [OF 16(1) l(1), of "l\<lparr>wl_heartbeat_at := now, wl_expires_at := now + ttl\<rparr>"]
    show ?thesis unfolding l(2) by simp
  qed (use 16 in simp)
next
  case (17 s now lid)
  show ?case
  proof (cases "row_of_lease s lid")
    case None
    then show ?thesis by (simp add: sql_renew_def)
  next
    case (Some l)
    then have "l \<in> set s" "wl_lease_id l = lid" by (auto simp: row_of_lease_Some [OF 17(1)])
    with 17(2) [of "wl_document_id l" l] have "\<not> now < wl_expires_at l"
      by (auto simp: sql_active_Some [OF 17(1)])
    then have "wl_expires_at l \<le> now" by simp
    with Some show ?thesis by (simp add: sql_renew_def)
  qed
next
  case (18 s lid now r t)
  then show ?case by (auto simp: sql_release_def sql_release_inv lease_row_ids_def)
next
  case (19 s lid now r t d x l)
  then show ?case by (auto simp: sql_release_def sql_active_Some sql_release_inv)
qed

subsection \<open>Both stores answer alike\<close>

text \<open>
  The abstraction: the rows of the table are the entries of the dictionary, and every one of
  them passes the validator and was acquired before now.
\<close>

definition same_leases :: "time \<Rightarrow> lease_table \<Rightarrow> lease_rows \<Rightarrow> bool" where
  "same_leases T s rows \<longleftrightarrow> lease_inv s \<and> lease_rows_inv rows \<and> set rows = snd ` set s \<and>
     (\<forall>l \<in> set rows. wl_acquired_at l \<le> T \<and> lease_model l = Inr l)"

text \<open>A call of either store, with the lease it returns, if any.\<close>

fun lease_call :: "lease_op \<Rightarrow> (exc, lease_table, writer_lease option) prog" where
  "lease_call (Acquire d w ttl now f) = bindP (try_acquire d w ttl now f) (\<lambda>l. retP (Some l))"
| "lease_call (Renew lid ttl now) = bindP (renew lid ttl now) (\<lambda>l. retP (Some l))"
| "lease_call (Release lid now) = bindP (release lid now) (\<lambda>_. retP None)"

fun sql_lease_call :: "lease_op \<Rightarrow> (exc, lease_rows, writer_lease option) prog" where
  "sql_lease_call (Acquire d w ttl now f) = bindP (sql_try_acquire d w ttl now f) (\<lambda>l. retP (Some l))"
| "sql_lease_call (Renew lid ttl now) = bindP (sql_renew lid ttl now) (\<lambda>l. retP (Some l))"
| "sql_lease_call (Release lid now) = bindP (sql_release lid now) (\<lambda>_. retP None)"

fun run_calls :: "('op \<Rightarrow> (exc, 's, 'a) prog) \<Rightarrow> 'op list \<Rightarrow> 's \<Rightarrow> (exc + 'a) list \<times> 's" where
  "run_calls call [] s = ([], s)"
| "run_calls call (a # as) s =
     (case call a s of (r, t) \<Rightarrow> (case run_calls call as t of (rs, u) \<Rightarrow> (r # rs, u)))"

text \<open>Time does not run backwards, and every time to live is positive.\<close>

fun op_positive :: "lease_op \<Rightarrow> bool" where
  "op_positive (Acquire d w ttl now f) = (0 < ttl)"
| "op_positive (Renew lid ttl now) = (0 < ttl)"
| "op_positive (Release lid now) = True"

fun timely :: "time \<Rightarrow> lease_op list \<Rightarrow> bool" where
  "timely T [] = True"
| "timely T (a # as) = (T \<le> op_time a \<and> op_positive a \<and> timely (op_time a) as)"

lemma same_leases_set:
  "same_leases T s rows \<Longrightarrow> l \<in> set rows \<longleftrightarrow> (wl_document_id l, l) \<in> set s"
proof -
  assume R: "same_leases T s rows"
  then have "fst p = wl_document_id (snd p)" if "p \<in> set s" for p
    using that by (simp add: same_leases_def lease_inv_def)
  moreover have "set rows = snd ` set s" using R by (simp add: same_leases_def)
  ultimately show ?thesis by (force simp: image_iff)
qed

lemma same_leases_active:
  assumes "same_leases T s rows"
  shows "sql_active_row rows d now = active_lease s d now"
proof -
  from assms have i: "lease_inv s" "lease_rows_inv rows" by (auto simp: same_leases_def)
  have "sql_active_row rows d now = Some l \<longleftrightarrow> active_lease s d now = Some l" for l
  proof -
    have "(d, l) \<in> set s \<Longrightarrow> wl_document_id l = d" using i(1) by (simp add: lease_inv_iff)
    then show ?thesis
      unfolding sql_active_Some [OF i(2)] active_lease_Some lease_inv_map_of [OF i(1)]
        same_leases_set [OF assms] by blast
  qed
  then show ?thesis by (metis option.exhaust)
qed

lemma same_leases_ids: "same_leases T s rows \<Longrightarrow> lease_row_ids rows = lease_ids s"
  by (force simp: same_leases_def lease_row_ids_def lease_ids_def)

lemma same_leases_find:
  assumes "same_leases T s rows"
  shows "row_of_lease rows lid = find_lease s lid"
proof -
  from assms have i: "lease_inv s" "lease_rows_inv rows" by (auto simp: same_leases_def)
  have "row_of_lease rows lid = Some l \<longleftrightarrow> find_lease s lid = Some l" for l
    unfolding row_of_lease_Some [OF i(2)] find_lease_iff [OF i(1)] same_leases_set [OF assms] by blast
  then show ?thesis by (metis option.exhaust)
qed

lemma same_leases_later: "same_leases T s rows \<Longrightarrow> T \<le> now \<Longrightarrow> same_leases now s rows"
  unfolding same_leases_def by (meson order_trans)

lemma same_leases_put:
  assumes "same_leases T s rows" and "T \<le> now" and "lease_inv (dset s d l)" and "lease_rows_inv rows'"
    and "wl_document_id l = d" and "set rows' = insert l {r \<in> set rows. wl_document_id r \<noteq> d}"
    and "wl_acquired_at l \<le> now" and "lease_model l = Inr l"
  shows "same_leases now (dset s d l) rows'"
proof -
  have "set (dset s d l) = insert (d, l) {p \<in> set s. fst p \<noteq> d}"
    using assms(1) by (simp add: set_dset same_leases_def lease_inv_def)
  moreover have "snd ` {p \<in> set s. fst p \<noteq> d} = {r \<in> set rows. wl_document_id r \<noteq> d}"
  proof -
    have "fst p = wl_document_id (snd p)" if "p \<in> set s" for p
      using assms(1) that by (simp add: same_leases_def lease_inv_def)
    moreover have "set rows = snd ` set s" using assms(1) by (simp add: same_leases_def)
    ultimately show ?thesis by (auto simp: image_iff)
  qed
  ultimately have "set rows' = snd ` set (dset s d l)" using assms(6) by simp
  moreover have "\<forall>k \<in> set rows'. wl_acquired_at k \<le> now \<and> lease_model k = Inr k"
  proof
    fix k assume "k \<in> set rows'"
    with assms(6) consider "k = l" | "k \<in> set rows" by auto
    then show "wl_acquired_at k \<le> now \<and> lease_model k = Inr k"
    proof cases
      case 2
      with assms(1) have "wl_acquired_at k \<le> T \<and> lease_model k = Inr k" by (simp add: same_leases_def)
      with assms(2) show ?thesis by simp
    qed (use assms(7,8) in simp)
  qed
  ultimately show ?thesis using assms(3,4) by (simp add: same_leases_def)
qed

lemma lease_call_simulated:
  assumes R: "same_leases T s rows" and T: "T \<le> op_time a" and pos: "op_positive a"
    and fresh: "case a of Acquire _ _ _ _ f \<Rightarrow> ''lease_'' @ f \<notin> lease_ids s | _ \<Rightarrow> True"
  shows "fst (sql_lease_call a rows) = fst (lease_call a s) \<and>
    same_leases (op_time a) (snd (lease_call a s)) (snd (sql_lease_call a rows))"
proof -
  from R have i: "lease_inv s" "lease_rows_inv rows" by (auto simp: same_leases_def)
  show ?thesis
  proof (cases a)
    case (Acquire d w ttl now f)
    with T pos fresh same_leases_ids [OF R]
    have a: "T \<le> now" "0 < ttl" "''lease_'' @ f \<notin> lease_ids s" "''lease_'' @ f \<notin> lease_row_ids rows" by auto
    show ?thesis
    proof (cases "active_lease s d now")
      case (Some l)
      with same_leases_active [OF R] have q: "sql_active_row rows d now = Some l" by simp
      with R have "lease_model l = Inr l" by (auto simp: sql_active_Some [OF i(2)] same_leases_def)
      with sql_acquire_refused [OF i(2) q, of w ttl f] a(2)
      have "sql_try_acquire d w ttl now f rows =
        (Inl (Err WriterLeaseConflictError ''Document already has an active writer lease''), rows)" by auto
      with Some same_leases_later [OF R a(1)] show ?thesis
        by (simp add: Acquire try_acquire_def bindP_def)
    next
      case None
      let ?l = "\<lparr>wl_lease_id = ''lease_'' @ f, wl_document_id = d, wl_owner_id = w,
          wl_acquired_at = now, wl_expires_at = now + ttl, wl_heartbeat_at = now\<rparr>"
      from None same_leases_active [OF R] have q: "sql_active_row rows d now = None" by simp
      have m: "try_acquire d w ttl now f s = (Inr ?l, dset s d ?l)" using None a(2) by (simp add: mem_acquire_Inr)
      from sql_lease.acquire_free [OF i(2) q a(2,4)] obtain t where t: "sql_try_acquire d w ttl now f rows = (Inr ?l, t)" by blast
      from q have exp: "wl_expires_at r \<le> now" if "r \<in> set rows" "wl_document_id r = d" for r
        using that unfolding sql_active_None by blast
      have "same_leases now (dset s d ?l) t"
      proof (rule same_leases_put [OF R a(1)])
        show "lease_inv (dset s d ?l)" using mem_acquire_inv [OF i(1) a(3) m] by blast
        show "lease_rows_inv t" using sql_acquire_inv [OF i(2) a(4) t] by blast
        from t have "t = filter (\<lambda>r. \<not> (wl_document_id r = d \<and> wl_expires_at r \<le> now)) rows @ [?l]"
          unfolding sql_acquire_Inr by blast
        then show "set t = insert ?l {r \<in> set rows. wl_document_id r \<noteq> d}" using exp by auto
      qed (use a in \<open>auto simp: lease_model_def timestamps_are_ordered_def\<close>)
      with m t show ?thesis by (simp add: Acquire bindP_def retP_def)
    qed
  next
    case (Renew lid ttl now)
    with T pos have a: "T \<le> now" "0 < ttl" by auto
    show ?thesis
    proof (cases "\<exists>l. find_lease s lid = Some l \<and> now < wl_expires_at l")
      case False
      with same_leases_find [OF R, of lid] same_leases_later [OF R a(1)] show ?thesis
        by (auto simp: Renew renew_def sql_renew_def bindP_def split: option.splits)
    next
      case True
      then obtain l where l: "find_lease s lid = Some l" "now < wl_expires_at l" by blast
      with same_leases_find [OF R] have row: "row_of_lease rows lid = Some l" by simp
      let ?u = "l\<lparr>wl_heartbeat_at := now, wl_expires_at := now + ttl\<rparr>"
      let ?t = "map (\<lambda>k. if k = l then ?u else k) rows"
      from row i(2) have m: "l \<in> set rows" "wl_lease_id l = lid" by (auto simp: row_of_lease_Some)
      then have act: "sql_active_row rows (wl_document_id l) now = Some l" using l(2) by (simp add: sql_active_Some [OF i(2)])
      with same_leases_active [OF R] have mact: "active_lease s (wl_document_id l) now = Some l" by simp
      from R m(1) have "wl_acquired_at l \<le> T" by (auto simp: same_leases_def)
      with a have "lease_model ?u = Inr ?u" by (simp add: lease_model_def timestamps_are_ordered_def)
      with sql_renew_held [OF i(2) act, of ttl] m(2) have t: "sql_renew lid ttl now rows = (Inr ?u, ?t)" by simp
      from mem_renew_held [OF i(1) mact, of ttl] m(2)
      have mt: "renew lid ttl now s = (Inr ?u, dset s (wl_document_id l) ?u)" by simp
      have "same_leases now (dset s (wl_document_id l) ?u) ?t"
      proof (rule same_leases_put [OF R a(1)])
        show "lease_inv (dset s (wl_document_id l) ?u)" using mem_renew_inv [OF i(1) mt] by blast
        from map_replace_row [OF i(2) m(1), of ?u] show "lease_rows_inv ?t" by simp
        have "set rows - {l} = {r \<in> set rows. wl_document_id r \<noteq> wl_document_id l}"
          using lease_rows_unique [OF i(2) _ m(1)] m(1) by auto
        with map_replace_row [OF i(2) m(1), of ?u]
        show "set ?t = insert ?u {r \<in> set rows. wl_document_id r \<noteq> wl_document_id l}" by simp
      qed (use \<open>wl_acquired_at l \<le> T\<close> a \<open>lease_model ?u = Inr ?u\<close> in auto)
      with t mt show ?thesis by (simp add: Renew bindP_def retP_def)
    qed
  next
    case (Release lid now)
    with T have a: "T \<le> now" by simp
    have "same_leases now (release_table s lid) (filter (\<lambda>r. wl_lease_id r \<noteq> lid) rows)"
    proof -
      have "snd ` set (release_table s lid) = {l \<in> snd ` set s. wl_lease_id l \<noteq> lid}"
        using release_table_iff [OF i(1)] by (auto simp: image_iff)
      with same_leases_later [OF R a] lease_inv_release [OF i(1), of lid] sql_release_inv [OF i(2), of lid]
      show ?thesis by (simp add: same_leases_def)
    qed
    then show ?thesis by (simp add: Release release_def sql_release_def bindP_def retP_def)
  qed
qed

lemma lease_exec_call: "lease_exec a s = snd (lease_call a s)"
  by (cases a) (auto simp: bindP_def retP_def split: prod.splits sum.splits)

text \<open>
  C23: The SQLite store refines the in-memory one: from the same leases, any sequence of
  acquisitions, heartbeats and releases with positive times to live, fresh identifiers and a
  clock that does not run backwards gets the same answer from both, call by call, errors
  included, and at the end both show the same active lease for every document at any time.
\<close>

theorem sql_lease_refines:
  assumes "same_leases T s rows" and "timely T as" and "fresh_lease_ids s as"
    and "run_calls lease_call as s = (rs, s')" and "run_calls sql_lease_call as rows = (qs, rows')"
  shows "qs = rs \<and> (\<forall>d now. sql_active_row rows' d now = active_lease s' d now)"
  using assms
proof (induction as arbitrary: T s rows rs qs)
  case Nil
  then show ?case using same_leases_active by auto
next
  case (Cons a as)
  from Cons.prems(4) obtain rs1 where m: "run_calls lease_call as (snd (lease_call a s)) = (rs1, s')"
    "rs = fst (lease_call a s) # rs1" by (auto split: prod.splits)
  from Cons.prems(5) obtain qs1 where q: "run_calls sql_lease_call as (snd (sql_lease_call a rows)) = (qs1, rows')"
    "qs = fst (sql_lease_call a rows) # qs1" by (auto split: prod.splits)
  have "fst (sql_lease_call a rows) = fst (lease_call a s) \<and>
    same_leases (op_time a) (snd (lease_call a s)) (snd (sql_lease_call a rows))"
    using Cons.prems(1-3) by (intro lease_call_simulated) auto
  moreover from this have "qs1 = rs1 \<and> (\<forall>d now. sql_active_row rows' d now = active_lease s' d now)"
    using Cons.prems(2,3) by (intro Cons.IH [OF _ _ _ m(1) q(1)]) (auto simp: lease_exec_call)
  ultimately show ?case using m(2) q(2) by simp
qed

theorem sql_lease_refines_witness:
  "\<exists>rows. run_calls sql_lease_call
     [Acquire ''doc_1'' ''w1'' 30 0 ''a'', Acquire ''doc_1'' ''w2'' 30 5 ''b'', Release ''lease_a'' 6,
      Acquire ''doc_1'' ''w2'' 30 7 ''c''] [] =
     ([Inr (Some \<lparr>wl_lease_id = ''lease_a'', wl_document_id = ''doc_1'', wl_owner_id = ''w1'',
          wl_acquired_at = 0, wl_expires_at = 30, wl_heartbeat_at = 0\<rparr>),
       Inl (Err WriterLeaseConflictError ''Document already has an active writer lease''), Inr None,
       Inr (Some \<lparr>wl_lease_id = ''lease_c'', wl_document_id = ''doc_1'', wl_owner_id = ''w2'',
          wl_acquired_at = 7, wl_expires_at = 37, wl_heartbeat_at = 7\<rparr>)], rows)"
proof -
  let ?as = "[Acquire ''doc_1'' ''w1'' 30 0 ''a'', Acquire ''doc_1'' ''w2'' 30 5 ''b'', Release ''lease_a'' 6,
      Acquire ''doc_1'' ''w2'' 30 7 ''c'']"
  obtain qs rows where q: "run_calls sql_lease_call ?as [] = (qs, rows)" by fastforce
  have "qs = fst (run_calls lease_call ?as []) \<and>
    (\<forall>d now. sql_active_row rows d now = active_lease (snd (run_calls lease_call ?as [])) d now)"
    by (rule sql_lease_refines [OF _ _ _ _ q, where T = 0])
      (auto simp: same_leases_def lease_rows_inv_def try_acquire_def active_lease_def
        timestamps_are_ordered_def release_def lease_ids_def)
  then have "qs = fst (run_calls lease_call ?as [])" by simp
  with q show ?thesis
    by (simp add: try_acquire_def active_lease_def timestamps_are_ordered_def release_def bindP_def retP_def)
qed

end
