(* ===== verification/SqlJobStore.thy ===== *)
theory SqlJobStore
  imports StoreModel SqlLeaseStore "HOL-Library.Product_Lexorder"
begin

section \<open>The job store in SQLite\<close>

text \<open>
  Models \<open>persistence/sql_job_store.py\<close> on the tables of \<open>persistence/models.py\<close>: a table is the
  list of its rows in insertion order. Every method is the action that \<open>_write\<close> runs in one
  transaction (\<open>RetryModel.transact\<close>), with the constraints the schema declares as branches:
  a violated primary key, UNIQUE constraint or foreign key (the engine switches them on) raises
  \<open>IntegrityError\<close>. A JSON column holds the model it is dumped from. Columns that no query of the
  program reads (\<open>path_hash\<close>, \<open>fingerprint\<close>, \<open>content_hash\<close>, \<open>byte_size\<close>, the copies of
  a report's counters and of an execution's status and times) are left out. \<open>datetime.now(UTC)\<close>
  is the argument \<open>now\<close>, \<open>new_id\<close> of an execution is not observable.
\<close>

subsection \<open>The tables\<close>

record document_row =
  dr_document_id :: string
  dr_current_revision :: string
  dr_last_seen_at :: time

record job_row =
  jr_job_id :: string
  jr_document_id :: string
  jr_state :: job_state
  jr_expected_revision :: string
  jr_spec_version :: nat
  jr_plan_hash :: "string option"
  jr_created_at :: time
  jr_updated_at :: time

record spec_row =
  sr_spec_version_id :: string
  sr_job_id :: string
  sr_version :: nat
  sr_spec :: drawing_spec

record plan_row =
  plr_plan_id :: string
  plr_job_id :: string
  plr_plan :: operation_plan
  plr_plan_hash :: string
  plr_created_at :: time

record remediation_row =
  rr_job_id :: string
  rr_plan_hash :: string
  rr_selection :: remediation_result

record validation_row =
  var_validation_id :: string
  var_job_id :: string
  var_report :: validation_report
  var_created_at :: time

record approval_row =
  apr_approval_id :: string
  apr_job_id :: string
  apr_approved_at :: time
  apr_revoked :: bool
  apr_record :: approval_record

record execution_row =
  er_job_id :: string
  er_idempotency_key :: string
  er_request_digest :: string
  er_result :: pydict

record sql_db =
  db_documents :: "document_row list"
  db_jobs :: "job_row list"
  db_specs :: "spec_row list"
  db_plans :: "plan_row list"
  db_remediations :: "remediation_row list"
  db_validations :: "validation_row list"
  db_approvals :: "approval_row list"
  db_executions :: "execution_row list"
  db_mappings :: "entity_mapping list"
  db_checkpoints :: "checkpoint list"
  db_leases :: lease_rows

definition empty_db :: sql_db where
  "empty_db = \<lparr>db_documents = [], db_jobs = [], db_specs = [], db_plans = [], db_remediations = [],
     db_validations = [], db_approvals = [], db_executions = [], db_mappings = [],
     db_checkpoints = [], db_leases = []\<rparr>"

text \<open>The row with a given key, and an update of it in place.\<close>

definition row_by :: "('r \<Rightarrow> 'k) \<Rightarrow> 'k \<Rightarrow> 'r list \<Rightarrow> 'r option" where
  "row_by key k rows = find (\<lambda>r. key r = k) rows"

definition update_rows :: "('r \<Rightarrow> bool) \<Rightarrow> ('r \<Rightarrow> 'r) \<Rightarrow> 'r list \<Rightarrow> 'r list" where
  "update_rows P f rows = map (\<lambda>r. if P r then f r else r) rows"

text \<open>\<open>ORDER BY time DESC, id DESC LIMIT 1\<close>.\<close>

fun latest_by :: "('r \<Rightarrow> time \<times> string) \<Rightarrow> 'r list \<Rightarrow> 'r option" where
  "latest_by key [] = None"
| "latest_by key (r # rows) =
     (case latest_by key rows of
        None \<Rightarrow> Some r
      | Some q \<Rightarrow> if key q < key r then Some r else Some q)"

fun latest_version :: "spec_row list \<Rightarrow> spec_row option" where
  "latest_version [] = None"
| "latest_version (r # rows) =
     (case latest_version rows of
        None \<Rightarrow> Some r
      | Some q \<Rightarrow> if sr_version q < sr_version r then Some r else Some q)"

definition UNIQUE_FAILED :: exc where
  "UNIQUE_FAILED = IntegrityError ''UNIQUE constraint failed''"

definition FOREIGN_KEY_FAILED :: exc where
  "FOREIGN_KEY_FAILED = IntegrityError ''FOREIGN KEY constraint failed''"

definition job_exists :: "string \<Rightarrow> sql_db \<Rightarrow> bool" where
  "job_exists jid db = (row_by jr_job_id jid (db_jobs db) \<noteq> None)"

text \<open>An \<open>INSERT\<close> of a row that references a job.\<close>

definition insert_for_job :: "string \<Rightarrow> bool \<Rightarrow> (sql_db \<Rightarrow> sql_db) \<Rightarrow> (exc, sql_db, unit) prog" where
  "insert_for_job jid unique ins db =
     (if \<not> unique then (Inl UNIQUE_FAILED, db)
      else if \<not> job_exists jid db then (Inl FOREIGN_KEY_FAILED, db)
      else (Inr (), ins db))"

subsection \<open>Jobs\<close>

definition put_document :: "cad_job \<Rightarrow> time \<Rightarrow> document_row list \<Rightarrow> document_row list" where
  "put_document job now docs =
     (case row_by dr_document_id (cj_document_id job) docs of
        None \<Rightarrow> docs @ [\<lparr>dr_document_id = cj_document_id job,
                        dr_current_revision = cj_expected_revision job, dr_last_seen_at = now\<rparr>]
      | Some _ \<Rightarrow> update_rows (\<lambda>d. dr_document_id d = cj_document_id job)
          (\<lambda>d. d\<lparr>dr_current_revision := cj_expected_revision job, dr_last_seen_at := now\<rparr>) docs)"

definition sql_save_job :: "cad_job \<Rightarrow> time \<Rightarrow> (exc, sql_db, unit) prog" where
  "sql_save_job job now db =
     (Inr (), db\<lparr>db_documents := put_document job now (db_documents db),
        db_jobs :=
          (case row_by jr_job_id (cj_job_id job) (db_jobs db) of
             None \<Rightarrow> db_jobs db @
               [\<lparr>jr_job_id = cj_job_id job, jr_document_id = cj_document_id job, jr_state = cj_state job,
                 jr_expected_revision = cj_expected_revision job, jr_spec_version = cj_spec_version job,
                 jr_plan_hash = cj_plan_hash job, jr_created_at = cj_created_at job,
                 jr_updated_at = cj_updated_at job\<rparr>]
           | Some _ \<Rightarrow> update_rows (\<lambda>r. jr_job_id r = cj_job_id job)
               (\<lambda>r. r\<lparr>jr_document_id := cj_document_id job, jr_state := cj_state job,
                  jr_expected_revision := cj_expected_revision job, jr_spec_version := cj_spec_version job,
                  jr_plan_hash := cj_plan_hash job, jr_updated_at := cj_updated_at job\<rparr>) (db_jobs db))\<rparr>)"

definition sql_get_job :: "sql_db \<Rightarrow> string \<Rightarrow> cad_job option" where
  "sql_get_job db jid =
     map_option (\<lambda>row.
       let spec_row = latest_version (filter (\<lambda>r. sr_job_id r = jid) (db_specs db));
           plan_row = (case jr_plan_hash row of
               None \<Rightarrow> None
             | Some h \<Rightarrow> latest_by (\<lambda>r. (plr_created_at r, plr_plan_id r))
                 (filter (\<lambda>r. plr_job_id r = jid \<and> plr_plan_hash r = h) (db_plans db)));
           approval_row = latest_by (\<lambda>r. (apr_approved_at r, apr_approval_id r))
             (filter (\<lambda>r. apr_job_id r = jid \<and> \<not> apr_revoked r) (db_approvals db));
           checkpoint_row = latest_by (\<lambda>c. (cp_created_at c, cp_checkpoint_id c))
             (filter (\<lambda>c. cp_job_id c = jid) (db_checkpoints db))
       in \<lparr>cj_job_id = jr_job_id row, cj_document_id = jr_document_id row,
           cj_expected_revision = jr_expected_revision row, cj_state = jr_state row,
           cj_spec_id = map_option (\<lambda>r. sp_spec_id (sr_spec r)) spec_row,
           cj_spec_version = jr_spec_version row,
           cj_plan_id = map_option plr_plan_id plan_row, cj_plan_hash = jr_plan_hash row,
           cj_approval_id = map_option apr_approval_id approval_row,
           cj_checkpoint_id = map_option cp_checkpoint_id checkpoint_row,
           cj_created_at = jr_created_at row, cj_updated_at = jr_updated_at row\<rparr>)
     (row_by jr_job_id jid (db_jobs db))"

subsection \<open>Specifications, plans and reports\<close>

definition spec_version_id :: "drawing_spec \<Rightarrow> nat \<Rightarrow> string" where
  "spec_version_id spec version = sp_spec_id spec @ '':'' @ show_nat version"

definition next_version :: "string \<Rightarrow> sql_db \<Rightarrow> nat" where
  "next_version jid db =
     (case latest_version (filter (\<lambda>r. sr_job_id r = jid) (db_specs db)) of
        None \<Rightarrow> 1 | Some r \<Rightarrow> sr_version r + 1)"

definition sql_save_spec :: "string \<Rightarrow> drawing_spec \<Rightarrow> (exc, sql_db, nat) prog" where
  "sql_save_spec jid spec db =
     (let version = next_version jid db;
          vid = spec_version_id spec version
      in bindP (insert_for_job jid
            (row_by sr_spec_version_id vid (db_specs db) = None \<and>
             row_by (\<lambda>r. (sr_job_id r, sr_version r)) (jid, version) (db_specs db) = None)
            (\<lambda>d. d\<lparr>db_specs := db_specs d @
               [\<lparr>sr_spec_version_id = vid, sr_job_id = jid, sr_version = version, sr_spec = spec\<rparr>]\<rparr>))
          (\<lambda>_. retP version) db)"

definition sql_get_spec :: "sql_db \<Rightarrow> string \<Rightarrow> drawing_spec option" where
  "sql_get_spec db jid =
     map_option sr_spec (latest_version (filter (\<lambda>r. sr_job_id r = jid) (db_specs db)))"

text \<open>\<open>plan.plan_hash or plan.compute_hash()\<close>.\<close>

definition stored_plan_hash :: "(string \<Rightarrow> string) \<Rightarrow> operation_plan \<Rightarrow> string res" where
  "stored_plan_hash sha plan =
     (case pl_plan_hash plan of
        None \<Rightarrow> compute_hash sha plan
      | Some h \<Rightarrow> if h = [] then compute_hash sha plan else Inr h)"

definition sql_save_plan :: "(string \<Rightarrow> string) \<Rightarrow> operation_plan \<Rightarrow> time \<Rightarrow> (exc, sql_db, unit) prog" where
  "sql_save_plan sha plan now =
     bindP (liftP (stored_plan_hash sha plan)) (\<lambda>h db.
       (case row_by plr_plan_id (pl_plan_id plan) (db_plans db) of
          None \<Rightarrow> insert_for_job (pl_job_id plan) True
            (\<lambda>d. d\<lparr>db_plans := db_plans d @
               [\<lparr>plr_plan_id = pl_plan_id plan, plr_job_id = pl_job_id plan, plr_plan = plan,
                 plr_plan_hash = h, plr_created_at = now\<rparr>]\<rparr>) db
        | Some _ \<Rightarrow> (Inr (), db\<lparr>db_plans := update_rows (\<lambda>r. plr_plan_id r = pl_plan_id plan)
            (\<lambda>r. r\<lparr>plr_plan := plan, plr_plan_hash := h\<rparr>) (db_plans db)\<rparr>)))"

definition sql_get_plan :: "sql_db \<Rightarrow> string \<Rightarrow> operation_plan option" where
  "sql_get_plan db jid =
     map_option plr_plan (latest_by (\<lambda>r. (plr_created_at r, plr_plan_id r))
       (filter (\<lambda>r. plr_job_id r = jid) (db_plans db)))"

definition sql_save_remediation ::
  "string \<Rightarrow> string \<Rightarrow> remediation_result \<Rightarrow> (exc, sql_db, unit) prog" where
  "sql_save_remediation jid ph payload db =
     insert_for_job jid (row_by rr_job_id jid (db_remediations db) = None)
       (\<lambda>d. d\<lparr>db_remediations := db_remediations d @
          [\<lparr>rr_job_id = jid, rr_plan_hash = ph, rr_selection = payload\<rparr>]\<rparr>) db"

definition sql_get_remediation :: "sql_db \<Rightarrow> string \<Rightarrow> (string \<times> remediation_result) option" where
  "sql_get_remediation db jid =
     map_option (\<lambda>r. (rr_plan_hash r, rr_selection r)) (row_by rr_job_id jid (db_remediations db))"

definition sql_save_validation :: "validation_report \<Rightarrow> time \<Rightarrow> (exc, sql_db, unit) prog" where
  "sql_save_validation report now db =
     (case row_by var_validation_id (vr_validation_id report) (db_validations db) of
        None \<Rightarrow> insert_for_job (vr_job_id report) True
          (\<lambda>d. d\<lparr>db_validations := db_validations d @
             [\<lparr>var_validation_id = vr_validation_id report, var_job_id = vr_job_id report,
               var_report = report, var_created_at = now\<rparr>]\<rparr>) db
      | Some _ \<Rightarrow> (Inr (), db\<lparr>db_validations :=
          update_rows (\<lambda>r. var_validation_id r = vr_validation_id report)
            (\<lambda>r. r\<lparr>var_report := report\<rparr>) (db_validations db)\<rparr>))"

definition sql_get_validation :: "sql_db \<Rightarrow> string \<Rightarrow> validation_report option" where
  "sql_get_validation db jid =
     map_option var_report (latest_by (\<lambda>r. (var_created_at r, var_validation_id r))
       (filter (\<lambda>r. var_job_id r = jid) (db_validations db)))"

subsection \<open>Approvals and executions\<close>

definition sql_save_approval :: "approval_record \<Rightarrow> (exc, sql_db, unit) prog" where
  "sql_save_approval a db =
     (case row_by apr_approval_id (ap_approval_id a) (db_approvals db) of
        None \<Rightarrow> insert_for_job (ap_job_id a) True
          (\<lambda>d. d\<lparr>db_approvals := db_approvals d @
             [\<lparr>apr_approval_id = ap_approval_id a, apr_job_id = ap_job_id a,
               apr_approved_at = ap_approved_at a, apr_revoked = False, apr_record = a\<rparr>]\<rparr>) db
      | Some _ \<Rightarrow> (Inr (), db\<lparr>db_approvals := update_rows (\<lambda>r. apr_approval_id r = ap_approval_id a)
          (\<lambda>r. r\<lparr>apr_record := a, apr_revoked := False\<rparr>) (db_approvals db)\<rparr>))"

definition sql_get_approval :: "sql_db \<Rightarrow> string \<Rightarrow> approval_record option" where
  "sql_get_approval db aid =
     (case row_by apr_approval_id aid (db_approvals db) of
        None \<Rightarrow> None | Some r \<Rightarrow> if apr_revoked r then None else Some (apr_record r))"

definition sql_revoke_approvals_for_job :: "string \<Rightarrow> (exc, sql_db, unit) prog" where
  "sql_revoke_approvals_for_job jid db =
     (Inr (), db\<lparr>db_approvals := update_rows (\<lambda>r. apr_job_id r = jid)
        (\<lambda>r. r\<lparr>apr_revoked := True\<rparr>) (db_approvals db)\<rparr>)"

definition execution_key :: "execution_row \<Rightarrow> string \<times> string" where
  "execution_key r = (er_job_id r, er_idempotency_key r)"

definition sql_record_execution ::
  "string \<Rightarrow> string \<Rightarrow> string \<Rightarrow> pydict \<Rightarrow> (exc, sql_db, unit) prog" where
  "sql_record_execution jid key digest result db =
     (case row_by execution_key (jid, key) (db_executions db) of
        None \<Rightarrow> insert_for_job jid True
          (\<lambda>d. d\<lparr>db_executions := db_executions d @
             [\<lparr>er_job_id = jid, er_idempotency_key = key, er_request_digest = digest, er_result = result\<rparr>]\<rparr>) db
      | Some _ \<Rightarrow> (Inr (), db\<lparr>db_executions := update_rows (\<lambda>r. execution_key r = (jid, key))
          (\<lambda>r. r\<lparr>er_request_digest := digest, er_result := result\<rparr>) (db_executions db)\<rparr>))"

definition sql_find_execution :: "sql_db \<Rightarrow> string \<Rightarrow> string \<Rightarrow> (string \<times> pydict) option" where
  "sql_find_execution db jid key =
     map_option (\<lambda>r. (er_request_digest r, er_result r)) (row_by execution_key (jid, key) (db_executions db))"

subsection \<open>Entity mappings, checkpoints and the finalizers\<close>

definition mapping_key :: "entity_mapping \<Rightarrow> string \<times> string" where
  "mapping_key m = (em_document_id m, em_entity_ref m)"

text \<open>\<open>map_entity\<close> and \<open>_save_mapping\<close>: one row for an entity, updated in place.\<close>

definition save_mapping_row :: "entity_mapping \<Rightarrow> entity_mapping list \<Rightarrow> entity_mapping list" where
  "save_mapping_row m rows =
     (case row_by mapping_key (mapping_key m) rows of
        None \<Rightarrow> rows @ [m]
      | Some _ \<Rightarrow> update_rows (\<lambda>r. mapping_key r = mapping_key m)
          (\<lambda>r. r\<lparr>em_feature_id := em_feature_id m, em_operation_id := em_operation_id m,
             em_last_revision := em_last_revision m, em_expected_layer := em_expected_layer m\<rparr>) rows)"

definition sql_map_entity :: "entity_mapping \<Rightarrow> (exc, sql_db, unit) prog" where
  "sql_map_entity m db = (Inr (), db\<lparr>db_mappings := save_mapping_row m (db_mappings db)\<rparr>)"

definition sql_entity_mappings_for :: "sql_db \<Rightarrow> string \<Rightarrow> entity_mapping list" where
  "sql_entity_mappings_for db doc = filter (\<lambda>m. em_document_id m = doc) (db_mappings db)"

definition sql_save_checkpoint :: "checkpoint \<Rightarrow> (exc, sql_db, unit) prog" where
  "sql_save_checkpoint cp db =
     (case row_by cp_checkpoint_id (cp_checkpoint_id cp) (db_checkpoints db) of
        None \<Rightarrow> insert_for_job (cp_job_id cp) True
          (\<lambda>d. d\<lparr>db_checkpoints := db_checkpoints d @ [cp]\<rparr>) db
      | Some _ \<Rightarrow> (Inr (), db\<lparr>db_checkpoints := update_rows (\<lambda>c. cp_checkpoint_id c = cp_checkpoint_id cp)
          (\<lambda>c. c\<lparr>cp_revision := cp_revision cp, cp_artifact_ref := cp_artifact_ref cp\<rparr>) (db_checkpoints db)\<rparr>))"

definition save_terminal_job :: "cad_job \<Rightarrow> (exc, sql_db, unit) prog" where
  "save_terminal_job job db =
     (if \<not> job_exists (cj_job_id job) db
      then (Inl (RuntimeError ''Cannot finalize a job that was not persisted''), db)
      else (Inr (), db\<lparr>
        db_jobs := update_rows (\<lambda>r. jr_job_id r = cj_job_id job)
          (\<lambda>r. r\<lparr>jr_state := cj_state job, jr_expected_revision := cj_expected_revision job,
             jr_spec_version := cj_spec_version job, jr_plan_hash := cj_plan_hash job,
             jr_updated_at := cj_updated_at job\<rparr>) (db_jobs db),
        db_documents := update_rows (\<lambda>d. dr_document_id d = cj_document_id job)
          (\<lambda>d. d\<lparr>dr_current_revision := cj_expected_revision job, dr_last_seen_at := cj_updated_at job\<rparr>)
          (db_documents db)\<rparr>))"

definition delete_lease :: "string \<Rightarrow> sql_db \<Rightarrow> sql_db" where
  "delete_lease lid db = db\<lparr>db_leases := filter (\<lambda>l. wl_lease_id l \<noteq> lid) (db_leases db)\<rparr>"

definition sql_finalize_job ::
  "cad_job \<Rightarrow> string \<Rightarrow> entity_mapping list \<Rightarrow> (exc, sql_db, bool) prog" where
  "sql_finalize_job job lid mappings =
     thenP (save_terminal_job job)
     (thenP (modP (\<lambda>db. db\<lparr>db_mappings := fold save_mapping_row mappings (db_mappings db)\<rparr>))
     (thenP (modP (delete_lease lid)) (retP True)))"

definition sql_finalize_commit ::
  "cad_job \<Rightarrow> string \<Rightarrow> entity_mapping list \<Rightarrow> string \<Rightarrow> string \<Rightarrow> pydict \<Rightarrow> checkpoint option \<Rightarrow>
   (exc, sql_db, bool) prog" where
  "sql_finalize_commit job lid mappings key digest result cp =
     thenP (save_terminal_job job)
     (thenP (modP (\<lambda>db. db\<lparr>db_mappings := fold save_mapping_row mappings (db_mappings db)\<rparr>))
     (thenP (case cp of None \<Rightarrow> retP () | Some c \<Rightarrow> sql_save_checkpoint c)
     (thenP (\<lambda>db. insert_for_job (cj_job_id job)
          (row_by execution_key (cj_job_id job, key) (db_executions db) = None)
          (\<lambda>d. d\<lparr>db_executions := db_executions d @
             [\<lparr>er_job_id = cj_job_id job, er_idempotency_key = key, er_request_digest = digest,
               er_result = result\<rparr>]\<rparr>) db)
     (thenP (modP (delete_lease lid)) (retP True)))))"

end
