(* ===== verification/StorePort.thy ===== *)
theory StorePort
  imports StoreModel
begin

section \<open>What a job store promises\<close>

text \<open>
  The abstract specification of the port \<open>JobStore\<close>: the state a client can observe through its
  queries (\<open>store_view\<close>), the effect of every writing operation on it (\<open>apply_op\<close>) and the
  answer it gives. The locale \<open>job_store_port\<close> is the contract of an implementation; what
  follows for whole runs is proved in it once. \<open>InMemoryJobStore\<close> provides it here,
  \<open>SqlJobStore\<close> in \<open>SqlStoreRefinement\<close>.

  The view has of a job the fields that both implementations store; the SQL store computes the
  references to the specification, the plan, the approval and the checkpoint from its other
  tables. Of the entity mappings it has the last one recorded for an entity.
\<close>

record store_view =
  sv_job :: "string \<Rightarrow> cad_job option"
  sv_specs :: "string \<Rightarrow> drawing_spec list"
  sv_plan :: "string \<Rightarrow> operation_plan option"
  sv_remediation :: "string \<Rightarrow> (string \<times> remediation_result) option"
  sv_validation :: "string \<Rightarrow> validation_report option"
  sv_approval :: "string \<Rightarrow> approval_record option"
  sv_execution :: "string \<times> string \<Rightarrow> (string \<times> pydict) option"
  sv_mapping :: "string \<times> string \<Rightarrow> entity_mapping option"

definition job_core :: "cad_job \<Rightarrow> cad_job" where
  "job_core j = j\<lparr>cj_spec_id := None, cj_plan_id := None, cj_approval_id := None, cj_checkpoint_id := None\<rparr>"

datatype store_op =
    SaveJob cad_job
  | SaveSpec string drawing_spec
  | SavePlan operation_plan
  | SaveRemediation string string remediation_result
  | SaveValidation validation_report
  | SaveApproval approval_record
  | RevokeApprovals string
  | RecordExecution string string string pydict
  | MapEntity entity_mapping
  | SaveCheckpoint checkpoint
  | FinalizeJob cad_job string "entity_mapping list"
  | FinalizeCommit cad_job string "entity_mapping list" string string pydict "checkpoint option"

definition view_job :: "cad_job \<Rightarrow> store_view \<Rightarrow> store_view" where
  "view_job j v = v\<lparr>sv_job := (sv_job v)(cj_job_id j \<mapsto> job_core j)\<rparr>"

definition view_mapping :: "entity_mapping \<Rightarrow> store_view \<Rightarrow> store_view" where
  "view_mapping m v = v\<lparr>sv_mapping := (sv_mapping v)((em_document_id m, em_entity_ref m) \<mapsto> m)\<rparr>"

definition view_execution :: "string \<Rightarrow> string \<Rightarrow> string \<Rightarrow> pydict \<Rightarrow> store_view \<Rightarrow> store_view" where
  "view_execution jid key digest result v =
     v\<lparr>sv_execution := (sv_execution v)((jid, key) \<mapsto> (digest, result))\<rparr>"

fun apply_op :: "store_op \<Rightarrow> store_view \<Rightarrow> store_view" where
  "apply_op (SaveJob j) v = view_job j v"
| "apply_op (SaveSpec jid spec) v = v\<lparr>sv_specs := (sv_specs v)(jid := sv_specs v jid @ [spec])\<rparr>"
| "apply_op (SavePlan p) v = v\<lparr>sv_plan := (sv_plan v)(pl_job_id p \<mapsto> p)\<rparr>"
| "apply_op (SaveRemediation jid ph r) v = v\<lparr>sv_remediation := (sv_remediation v)(jid \<mapsto> (ph, r))\<rparr>"
| "apply_op (SaveValidation r) v = v\<lparr>sv_validation := (sv_validation v)(vr_job_id r \<mapsto> r)\<rparr>"
| "apply_op (SaveApproval a) v = v\<lparr>sv_approval := (sv_approval v)(ap_approval_id a \<mapsto> a)\<rparr>"
| "apply_op (RevokeApprovals jid) v = v\<lparr>sv_approval := (\<lambda>aid. case sv_approval v aid of
     None \<Rightarrow> None | Some a \<Rightarrow> if ap_job_id a = jid then None else Some a)\<rparr>"
| "apply_op (RecordExecution jid key digest result) v = view_execution jid key digest result v"
| "apply_op (MapEntity m) v = view_mapping m v"
| "apply_op (SaveCheckpoint c) v = v"
| "apply_op (FinalizeJob j lid ms) v = fold view_mapping ms (view_job j v)"
| "apply_op (FinalizeCommit j lid ms key digest result cp) v =
     view_execution (cj_job_id j) key digest result (fold view_mapping ms (view_job j v))"

text \<open>\<open>save_spec\<close> answers with the version number.\<close>

fun op_answer :: "store_op \<Rightarrow> store_view \<Rightarrow> nat option" where
  "op_answer (SaveSpec jid spec) v = Some (length (sv_specs v jid) + 1)"
| "op_answer _ v = None"

text \<open>
  The client's side: evidence is filed for jobs that were saved, a job keeps its creation time,
  remediation evidence is saved once, a commit is finalised under a key that is not recorded yet.
\<close>

definition keeps_creation :: "cad_job \<Rightarrow> store_view \<Rightarrow> bool" where
  "keeps_creation j v \<longleftrightarrow>
     (case sv_job v (cj_job_id j) of None \<Rightarrow> True | Some c \<Rightarrow> cj_created_at c = cj_created_at j)"

definition known_job :: "string \<Rightarrow> store_view \<Rightarrow> bool" where
  "known_job jid v \<longleftrightarrow> sv_job v jid \<noteq> None"

definition keeps_document :: "cad_job \<Rightarrow> store_view \<Rightarrow> bool" where
  "keeps_document j v \<longleftrightarrow>
     (case sv_job v (cj_job_id j) of None \<Rightarrow> False | Some c \<Rightarrow> cj_document_id c = cj_document_id j)"

fun op_ok :: "store_op \<Rightarrow> store_view \<Rightarrow> bool" where
  "op_ok (SaveJob j) v = keeps_creation j v"
| "op_ok (SaveSpec jid spec) v = known_job jid v"
| "op_ok (SavePlan p) v = known_job (pl_job_id p) v"
| "op_ok (SaveRemediation jid ph r) v = (known_job jid v \<and> sv_remediation v jid = None)"
| "op_ok (SaveValidation r) v = known_job (vr_job_id r) v"
| "op_ok (SaveApproval a) v = known_job (ap_job_id a) v"
| "op_ok (RevokeApprovals jid) v = True"
| "op_ok (RecordExecution jid key digest result) v = known_job jid v"
| "op_ok (MapEntity m) v = True"
| "op_ok (SaveCheckpoint c) v = known_job (cp_job_id c) v"
| "op_ok (FinalizeJob j lid ms) v = (keeps_document j v \<and> keeps_creation j v)"
| "op_ok (FinalizeCommit j lid ms key digest result cp) v =
     (keeps_document j v \<and> keeps_creation j v \<and> sv_execution v (cj_job_id j, key) = None \<and>
      (case cp of None \<Rightarrow> True | Some c \<Rightarrow> known_job (cp_job_id c) v))"

text \<open>A run: operations with the times at which they are called.\<close>

fun abstract_run :: "(time \<times> store_op) list \<Rightarrow> store_view \<Rightarrow> nat option list \<times> store_view" where
  "abstract_run [] v = ([], v)"
| "abstract_run ((now, a) # as) v =
     (case abstract_run as (apply_op a v) of (rs, u) \<Rightarrow> (op_answer a v # rs, u))"

fun concrete_run ::
  "(time \<Rightarrow> store_op \<Rightarrow> (exc, 's, nat option) prog) \<Rightarrow> (time \<times> store_op) list \<Rightarrow> 's \<Rightarrow>
   (exc + nat option) list \<times> 's" where
  "concrete_run exec [] s = ([], s)"
| "concrete_run exec ((now, a) # as) s =
     (case exec now a s of (r, t) \<Rightarrow> (case concrete_run exec as t of (rs, u) \<Rightarrow> (r # rs, u)))"

locale job_store_port =
  fixes inv :: "time \<Rightarrow> 's \<Rightarrow> bool"
    and view :: "'s \<Rightarrow> store_view"
    and fresh :: "store_op \<Rightarrow> 's \<Rightarrow> bool"
    and exec :: "time \<Rightarrow> store_op \<Rightarrow> (exc, 's, nat option) prog"
  assumes exec_ok:
    "inv T s \<Longrightarrow> T < now \<Longrightarrow> op_ok a (view s) \<Longrightarrow> fresh a s \<Longrightarrow>
     \<exists>t. exec now a s = (Inr (op_answer a (view s)), t) \<and> inv now t \<and> view t = apply_op a (view s)"
begin

fun run_ok :: "time \<Rightarrow> (time \<times> store_op) list \<Rightarrow> 's \<Rightarrow> bool" where
  "run_ok T [] s = True"
| "run_ok T ((now, a) # as) s =
     (T < now \<and> op_ok a (view s) \<and> fresh a s \<and> run_ok now as (snd (exec now a s)))"

lemma run_refines:
  assumes "inv T s" and "run_ok T as s" and "concrete_run exec as s = (rs, t)"
  shows "(map Inr (fst (abstract_run as (view s))), snd (abstract_run as (view s))) = (rs, view t)"
  using assms
proof (induction as arbitrary: T s rs)
  case (Cons p as)
  obtain now a where p: "p = (now, a)" by fastforce
  with Cons.prems(2) have ok: "T < now" "op_ok a (view s)" "fresh a s" by auto
  from exec_ok [OF Cons.prems(1) ok] obtain u
    where u: "exec now a s = (Inr (op_answer a (view s)), u)" "inv now u" "view u = apply_op a (view s)"
    by blast
  from Cons.prems(3) obtain qs where q: "concrete_run exec as u = (qs, t)" "rs = Inr (op_answer a (view s)) # qs"
    by (auto simp: p u(1) split: prod.splits)
  from Cons.IH [OF u(2) _ q(1)] Cons.prems(2)
  have "(map Inr (fst (abstract_run as (view u))), snd (abstract_run as (view u))) = (qs, view t)"
    by (simp add: p u(1))
  then show ?case by (cases "abstract_run as (view u)") (simp add: p q(2) u(3))
qed simp

end

subsection \<open>The in-memory store\<close>

definition last_mapping :: "entity_mapping list \<Rightarrow> string \<times> string \<Rightarrow> entity_mapping option" where
  "last_mapping ms k = find (\<lambda>m. (em_document_id m, em_entity_ref m) = k) (rev ms)"

definition mem_view :: "job_store \<Rightarrow> store_view" where
  "mem_view s =
     \<lparr>sv_job = (\<lambda>jid. map_option job_core (get_job s jid)),
      sv_specs = (\<lambda>jid. case map_of (st_specs s) jid of None \<Rightarrow> [] | Some vs \<Rightarrow> vs),
      sv_plan = get_plan s,
      sv_remediation = get_remediation s,
      sv_validation = get_validation s,
      sv_approval = get_approval s,
      sv_execution = (\<lambda>(jid, key). find_execution s jid key),
      sv_mapping = last_mapping (st_entity_mappings s)\<rparr>"

fun mem_exec :: "time \<Rightarrow> store_op \<Rightarrow> (exc, job_store, nat option) prog" where
  "mem_exec now (SaveJob j) = thenP (modP (save_job j)) (retP None)"
| "mem_exec now (SaveSpec jid spec) = bindP (save_spec jid spec) (\<lambda>n. retP (Some n))"
| "mem_exec now (SavePlan p) = thenP (modP (save_plan p)) (retP None)"
| "mem_exec now (SaveRemediation jid ph r) = thenP (save_remediation jid ph r) (retP None)"
| "mem_exec now (SaveValidation r) = thenP (modP (save_validation r)) (retP None)"
| "mem_exec now (SaveApproval a) = thenP (modP (save_approval a)) (retP None)"
| "mem_exec now (RevokeApprovals jid) = thenP (modP (revoke_approvals_for_job jid)) (retP None)"
| "mem_exec now (RecordExecution jid key digest result) =
     thenP (modP (record_execution jid key digest result)) (retP None)"
| "mem_exec now (MapEntity m) = thenP (modP (map_entity m)) (retP None)"
| "mem_exec now (SaveCheckpoint c) = thenP (modP (save_checkpoint c)) (retP None)"
| "mem_exec now (FinalizeJob j lid ms) = thenP (finalize_job j ms) (retP None)"
| "mem_exec now (FinalizeCommit j lid ms key digest result cp) =
     thenP (finalize_commit j ms key digest result cp) (retP None)"

lemma last_mapping_snoc:
  "last_mapping (ms @ [m]) = (last_mapping ms)((em_document_id m, em_entity_ref m) \<mapsto> m)"
  by (auto simp: last_mapping_def fun_eq_iff)

lemma view_mappings:
  "fold view_mapping ms v = v\<lparr>sv_mapping := fold (\<lambda>m f. f((em_document_id m, em_entity_ref m) \<mapsto> m)) ms (sv_mapping v)\<rparr>"
  by (induction ms arbitrary: v) (simp_all add: view_mapping_def)

lemma last_mapping_append:
  "last_mapping (ns @ ms) = fold (\<lambda>m f. f((em_document_id m, em_entity_ref m) \<mapsto> m)) ms (last_mapping ns)"
proof (induction ms arbitrary: ns)
  case (Cons m ms)
  from Cons [of "ns @ [m]"] show ?case by (simp add: last_mapping_snoc)
qed simp

lemmas store_defs =
  save_job_def get_job_def save_plan_def get_plan_def save_remediation_def get_remediation_def
  save_validation_def get_validation_def save_approval_def get_approval_def record_execution_def
  find_execution_def map_entity_def save_checkpoint_def save_spec_def

lemma mem_view_revoke:
  assumes "approvals_filed s"
  shows "get_approval (revoke_approvals_for_job jid s) =
    (\<lambda>aid. case get_approval s aid of None \<Rightarrow> None | Some a \<Rightarrow> if ap_job_id a = jid then None else Some a)"
proof -
  have d: "distinct (map fst (st_approvals s))" using assms by (simp add: approvals_filed_def)
  show ?thesis
    unfolding get_approval_def revoked_table [OF assms]
      map_of_filter_snd [OF d, of "\<lambda>a. ap_job_id a \<noteq> jid"]
    by (auto simp: fun_eq_iff split: option.splits)
qed

lemma approvals_filed_exec:
  assumes "approvals_filed s" and "mem_exec now a s = (r, t)"
  shows "approvals_filed t"
proof (cases a)
  case (RevokeApprovals jid)
  then have t: "t = revoke_approvals_for_job jid s" using assms(2) by (simp add: prog_defs)
  have "approvals_filed (revoke_approvals_for_job jid s)"
    using assms(1) by (auto simp: approvals_filed_def revoked_table [OF assms(1)] distinct_map_filter)
  then show ?thesis unfolding t .
next
  case (SaveApproval b)
  with assms show ?thesis by (auto simp: prog_defs intro: approvals_filed_save)
qed (use assms in \<open>auto simp: prog_defs store_defs finalize_job_def finalize_commit_def fold_map_entity
    approvals_filed_def Let_def split: if_splits option.splits prod.splits sum.splits\<close>)

interpretation mem_store: job_store_port "\<lambda>T s. approvals_filed s" mem_view "\<lambda>a s. True" mem_exec
proof
  fix T now :: time and s a
  assume inv: "approvals_filed s" and ok: "op_ok a (mem_view s)"
  have "\<exists>t. mem_exec now a s = (Inr (op_answer a (mem_view s)), t) \<and> mem_view t = apply_op a (mem_view s)"
  proof (cases a)
    case (RevokeApprovals jid)
    then show ?thesis
      using mem_view_revoke [OF inv, of jid]
      by (simp add: prog_defs mem_view_def)
        (simp add: revoke_approvals_for_job_def store_defs fun_eq_iff)
  next
    case (SaveRemediation jid ph r)
    with ok show ?thesis
      by (auto simp: prog_defs mem_view_def store_defs fun_eq_iff)
  next
    case (FinalizeJob j lid ms)
    then show ?thesis
      by (auto simp: prog_defs mem_view_def finalize_job_def fold_map_entity last_mapping_append
          view_mappings view_job_def store_defs fun_eq_iff)
  next
    case (FinalizeCommit j lid ms key digest result cp)
    then show ?thesis
      by (cases cp) (auto simp: prog_defs mem_view_def finalize_commit_def fold_map_entity last_mapping_append
          view_mappings view_job_def view_execution_def store_defs fun_eq_iff Let_def)
  qed (use ok in \<open>auto simp: prog_defs mem_view_def store_defs view_job_def view_mapping_def
      view_execution_def last_mapping_snoc fun_eq_iff Let_def split: option.splits\<close>)
  then obtain t where t: "mem_exec now a s = (Inr (op_answer a (mem_view s)), t)"
    "mem_view t = apply_op a (mem_view s)" by blast
  with approvals_filed_exec [OF inv t(1)]
  show "\<exists>t. mem_exec now a s = (Inr (op_answer a (mem_view s)), t) \<and> approvals_filed t \<and>
    mem_view t = apply_op a (mem_view s)" by blast
qed

end
