(* ===== verification/SqlStoreRefinement.thy ===== *)
theory SqlStoreRefinement
  imports SqlJobStore StorePort
begin

section \<open>The SQL job store provides the port\<close>

text \<open>
  The refinement of the abstract store by \<open>SqlJobStore\<close>: its invariant (the versions of a job's
  specifications are numbered from one, no row is younger than the last operation, an approval
  row belongs to the job its record names), the view its queries give, and the simulation.
  With the interpretation of the same port by the in-memory store this shows that the two
  implementations can be exchanged.
\<close>

subsection \<open>Rows\<close>

lemma row_by_snoc: "row_by key k (rows @ [r]) =
    (case row_by key k rows of None \<Rightarrow> if key r = k then Some r else None | Some q \<Rightarrow> Some q)"
  by (simp add: row_by_def find_app split: option.split)

lemma row_by_update:
  assumes "\<And>r. P r \<Longrightarrow> key (f r) = key r"
  shows "row_by key k (update_rows P f rows) = map_option (\<lambda>r. if P r then f r else r) (row_by key k rows)"
  using assms by (induction rows) (auto simp: row_by_def update_rows_def)

lemma row_by_key: "row_by key k rows = Some r \<Longrightarrow> key r = k \<and> r \<in> set rows"
  by (auto simp: row_by_def dest: find_SomeD)

lemma row_by_None: "row_by key k rows = None \<longleftrightarrow> (\<forall>r \<in> set rows. key r \<noteq> k)"
  by (auto simp: row_by_def find_None_iff)

text \<open>Updating the row of a key, when it has one.\<close>

lemma row_by_put:
  assumes "\<And>r. key r = k' \<Longrightarrow> key (f r) = k'"
  shows "row_by key k (update_rows (\<lambda>r. key r = k') f rows) =
    (if k = k' then map_option f (row_by key k rows) else row_by key k rows)"
proof -
  have "row_by key k (update_rows (\<lambda>r. key r = k') f rows) =
      map_option (\<lambda>r. if key r = k' then f r else r) (row_by key k rows)"
    by (rule row_by_update) (simp add: assms)
  then show ?thesis by (auto dest: row_by_key split: option.splits simp: map_option_case)
qed

lemma latest_by_in: "latest_by key rows = Some r \<Longrightarrow> r \<in> set rows"
  by (induction rows) (auto split: option.splits if_splits)

lemma latest_by_snoc:
  "(\<And>r. r \<in> set rows \<Longrightarrow> key r < key q) \<Longrightarrow> latest_by key (rows @ [q]) = Some q"
proof (induction rows)
  case (Cons r rows)
  then have "latest_by key (rows @ [q]) = Some q" "key r < key q" by auto
  then show ?case by (auto dest: less_asym)
qed simp

lemma latest_version_snoc:
  "(\<And>r. r \<in> set rows \<Longrightarrow> sr_version r < sr_version q) \<Longrightarrow> latest_version (rows @ [q]) = Some q"
proof (induction rows)
  case (Cons r rows)
  then have "latest_version (rows @ [q]) = Some q" "sr_version r < sr_version q" by auto
  then show ?case by simp
qed simp

lemma latest_version_numbered:
  assumes "map sr_version rows = [1..<Suc (length rows)]"
  shows "latest_version rows = (if rows = [] then None else Some (last rows))"
proof (cases rows rule: rev_cases)
  case (snoc qs q)
  from assms have "map sr_version qs = [1..<Suc (length qs)]" "sr_version q = Suc (length qs)"
    unfolding snoc by (auto simp del: upt_Suc simp add: upt_Suc_append)
  then have "sr_version r < sr_version q" if "r \<in> set qs" for r
    using that by (metis atLeastLessThan_iff imageI list.set_map set_upt)
  with latest_version_snoc [of qs q] show ?thesis by (simp add: snoc)
qed simp

subsection \<open>Invariant and view\<close>

definition spec_rows :: "sql_db \<Rightarrow> string \<Rightarrow> spec_row list" where
  "spec_rows db jid = filter (\<lambda>r. sr_job_id r = jid) (db_specs db)"

definition specs_numbered :: "sql_db \<Rightarrow> bool" where
  "specs_numbered db \<longleftrightarrow>
     (\<forall>jid. map sr_version (spec_rows db jid) = [1..<Suc (length (spec_rows db jid))])"

definition sql_inv :: "time \<Rightarrow> sql_db \<Rightarrow> bool" where
  "sql_inv T db \<longleftrightarrow> specs_numbered db \<and>
     (\<forall>r \<in> set (db_plans db). plr_created_at r \<le> T) \<and>
     (\<forall>r \<in> set (db_validations db). var_created_at r \<le> T) \<and>
     (\<forall>r \<in> set (db_approvals db). apr_job_id r = ap_job_id (apr_record r))"

definition sql_view :: "sql_db \<Rightarrow> store_view" where
  "sql_view db =
     \<lparr>sv_job = (\<lambda>jid. map_option job_core (sql_get_job db jid)),
      sv_specs = (\<lambda>jid. map sr_spec (spec_rows db jid)),
      sv_plan = sql_get_plan db,
      sv_remediation = sql_get_remediation db,
      sv_validation = sql_get_validation db,
      sv_approval = sql_get_approval db,
      sv_execution = (\<lambda>(jid, key). sql_find_execution db jid key),
      sv_mapping = (\<lambda>k. row_by mapping_key k (db_mappings db))\<rparr>"

text \<open>\<open>new_id\<close> gives identifiers no row has; a specification's row gets a free primary key.\<close>

fun sql_fresh :: "store_op \<Rightarrow> sql_db \<Rightarrow> bool" where
  "sql_fresh (SaveSpec jid spec) db =
     (row_by sr_spec_version_id (spec_version_id spec (next_version jid db)) (db_specs db) = None)"
| "sql_fresh (SavePlan p) db =
     (row_by plr_plan_id (pl_plan_id p) (db_plans db) = None \<and>
      (\<exists>h. pl_plan_hash p = Some h \<and> h \<noteq> []))"
| "sql_fresh (SaveValidation r) db =
     (row_by var_validation_id (vr_validation_id r) (db_validations db) = None)"
| "sql_fresh (SaveApproval a) db =
     (row_by apr_approval_id (ap_approval_id a) (db_approvals db) = None)"
| "sql_fresh _ db = True"

text \<open>Every operation is the transaction of its action.\<close>

fun sql_action :: "(string \<Rightarrow> string) \<Rightarrow> time \<Rightarrow> store_op \<Rightarrow> (exc, sql_db, nat option) prog" where
  "sql_action sha now (SaveJob j) = thenP (sql_save_job j now) (retP None)"
| "sql_action sha now (SaveSpec jid spec) = bindP (sql_save_spec jid spec) (\<lambda>n. retP (Some n))"
| "sql_action sha now (SavePlan p) = thenP (sql_save_plan sha p now) (retP None)"
| "sql_action sha now (SaveRemediation jid ph r) = thenP (sql_save_remediation jid ph r) (retP None)"
| "sql_action sha now (SaveValidation r) = thenP (sql_save_validation r now) (retP None)"
| "sql_action sha now (SaveApproval a) = thenP (sql_save_approval a) (retP None)"
| "sql_action sha now (RevokeApprovals jid) = thenP (sql_revoke_approvals_for_job jid) (retP None)"
| "sql_action sha now (RecordExecution jid key digest result) =
     thenP (sql_record_execution jid key digest result) (retP None)"
| "sql_action sha now (MapEntity m) = thenP (sql_map_entity m) (retP None)"
| "sql_action sha now (SaveCheckpoint c) = thenP (sql_save_checkpoint c) (retP None)"
| "sql_action sha now (FinalizeJob j lid ms) = thenP (sql_finalize_job j lid ms) (retP None)"
| "sql_action sha now (FinalizeCommit j lid ms key digest result cp) =
     thenP (sql_finalize_commit j lid ms key digest result cp) (retP None)"

definition sql_exec :: "(string \<Rightarrow> string) \<Rightarrow> time \<Rightarrow> store_op \<Rightarrow> (exc, sql_db, nat option) prog" where
  "sql_exec sha now a = transact (sql_action sha now a)"

subsection \<open>The simulation\<close>

definition row_core :: "job_row \<Rightarrow> cad_job" where
  "row_core row =
     \<lparr>cj_job_id = jr_job_id row, cj_document_id = jr_document_id row,
      cj_expected_revision = jr_expected_revision row, cj_state = jr_state row, cj_spec_id = None,
      cj_spec_version = jr_spec_version row, cj_plan_id = None, cj_plan_hash = jr_plan_hash row,
      cj_approval_id = None, cj_checkpoint_id = None,
      cj_created_at = jr_created_at row, cj_updated_at = jr_updated_at row\<rparr>"

lemma sv_job_sql: "map_option job_core (sql_get_job db jid) = map_option row_core (row_by jr_job_id jid (db_jobs db))"
  by (cases "row_by jr_job_id jid (db_jobs db)")
    (simp_all add: sql_get_job_def job_core_def row_core_def Let_def)

lemma known_job_sql: "known_job jid (sql_view db) \<longleftrightarrow> job_exists jid db"
  by (simp add: known_job_def sql_view_def sv_job_sql job_exists_def)

lemma sql_view_simps:
  "sv_job (sql_view db) = (\<lambda>jid. map_option row_core (row_by jr_job_id jid (db_jobs db)))"
  "sv_specs (sql_view db) = (\<lambda>jid. map sr_spec (spec_rows db jid))"
  "sv_plan (sql_view db) = sql_get_plan db"
  "sv_remediation (sql_view db) = sql_get_remediation db"
  "sv_validation (sql_view db) = sql_get_validation db"
  "sv_approval (sql_view db) = sql_get_approval db"
  "sv_execution (sql_view db) = (\<lambda>(jid, key). sql_find_execution db jid key)"
  "sv_mapping (sql_view db) = (\<lambda>k. row_by mapping_key k (db_mappings db))"
  by (simp_all add: sql_view_def sv_job_sql)

lemma sql_view_eqI:
  assumes "sv_job (sql_view db) = sv_job v" "sv_specs (sql_view db) = sv_specs v"
    "sv_plan (sql_view db) = sv_plan v" "sv_remediation (sql_view db) = sv_remediation v"
    "sv_validation (sql_view db) = sv_validation v" "sv_approval (sql_view db) = sv_approval v"
    "sv_execution (sql_view db) = sv_execution v" "sv_mapping (sql_view db) = sv_mapping v"
  shows "sql_view db = v"
  using assms by (intro store_view.equality) simp_all

definition simulates :: "(string \<Rightarrow> string) \<Rightarrow> time \<Rightarrow> store_op \<Rightarrow> sql_db \<Rightarrow> sql_db \<Rightarrow> bool" where
  "simulates sha now a db t \<longleftrightarrow> sql_action sha now a db = (Inr (op_answer a (sql_view db)), t) \<and>
     sql_inv now t \<and> sql_view t = apply_op a (sql_view db)"

lemma simulatesI:
  assumes "sql_action sha now a db = (Inr (op_answer a (sql_view db)), t)" and "sql_inv now t"
    and "sql_view t = apply_op a (sql_view db)"
  shows "\<exists>t. simulates sha now a db t"
  using assms unfolding simulates_def by blast

lemma sql_inv_later: "sql_inv T db \<Longrightarrow> T < now \<Longrightarrow> sql_inv now db"
  unfolding sql_inv_def by (meson less_imp_le order_trans)

text \<open>A change of tables that the invariant does not read.\<close>

lemma sql_inv_frame:
  "sql_inv T db \<Longrightarrow> db_specs t = db_specs db \<Longrightarrow> db_plans t = db_plans db \<Longrightarrow>
   db_validations t = db_validations db \<Longrightarrow> db_approvals t = db_approvals db \<Longrightarrow> sql_inv T t"
  by (simp add: sql_inv_def specs_numbered_def spec_rows_def)

lemmas query_defs =
  spec_rows_def sql_get_plan_def sql_get_remediation_def sql_get_validation_def sql_get_approval_def
  sql_find_execution_def

lemma insert_known:
  "job_exists jid db \<Longrightarrow> insert_for_job jid True ins db = (Inr (), ins db)"
  by (simp add: insert_for_job_def)

lemma sim_save_job:
  assumes "sql_inv T db" and "T < now" and "keeps_creation j (sql_view db)"
  shows "\<exists>t. simulates sha now (SaveJob j) db t"
proof (rule simulatesI)
  let ?t = "snd (sql_save_job j now db)"
  show "sql_action sha now (SaveJob j) db = (Inr (op_answer (SaveJob j) (sql_view db)), ?t)"
    by (simp add: prog_defs sql_save_job_def)
  show "sql_inv now ?t"
    by (rule sql_inv_frame [OF sql_inv_later [OF assms(1,2)]]) (simp_all add: sql_save_job_def)
  show "sql_view ?t = apply_op (SaveJob j) (sql_view db)"
  proof (rule sql_view_eqI)
    show "sv_job (sql_view ?t) = sv_job (apply_op (SaveJob j) (sql_view db))"
    proof (cases "row_by jr_job_id (cj_job_id j) (db_jobs db)")
      case None
      then show ?thesis
        by (auto simp: fun_eq_iff sql_view_simps view_job_def sql_save_job_def row_by_snoc row_core_def
            job_core_def split: option.splits)
    next
      case (Some r)
      with assms(3) have "jr_created_at r = cj_created_at j"
        by (simp add: keeps_creation_def sql_view_simps row_core_def)
      with Some row_by_key [OF Some] show ?thesis
        by (auto simp: fun_eq_iff sql_view_simps view_job_def sql_save_job_def row_by_put row_core_def
            job_core_def split: option.splits)
    qed
  qed (simp_all add: sql_view_simps view_job_def sql_save_job_def query_defs fun_eq_iff)
qed

lemma sim_save_spec:
  assumes "sql_inv T db" and "T < now" and "known_job jid (sql_view db)"
    and "sql_fresh (SaveSpec jid spec) db"
  shows "\<exists>t. simulates sha now (SaveSpec jid spec) db t"
proof (rule simulatesI)
  let ?n = "Suc (length (spec_rows db jid))"
  let ?row = "\<lparr>sr_spec_version_id = spec_version_id spec ?n, sr_job_id = jid, sr_version = ?n, sr_spec = spec\<rparr>"
  let ?t = "db\<lparr>db_specs := db_specs db @ [?row]\<rparr>"
  from assms(1) have num: "map sr_version (spec_rows db jid') = [1..<Suc (length (spec_rows db jid'))]" for jid'
    by (auto simp: sql_inv_def specs_numbered_def)
  have last: "sr_version (last (spec_rows db jid)) = length (spec_rows db jid)" if "spec_rows db jid \<noteq> []"
    using num [of jid] that by (cases "spec_rows db jid" rule: rev_cases) (auto simp del: upt_Suc simp add: upt_Suc_append)
  have n: "next_version jid db = ?n"
    using latest_version_numbered [OF num [of jid]] last
    by (simp add: next_version_def spec_rows_def [symmetric])
  have "sr_version r \<noteq> ?n" if "r \<in> set (spec_rows db jid)" for r
  proof -
    have "sr_version r \<in> set (map sr_version (spec_rows db jid))" using that by simp
    then show ?thesis unfolding num by auto
  qed
  then have "row_by (\<lambda>r. (sr_job_id r, sr_version r)) (jid, ?n) (db_specs db) = None"
    by (auto simp: row_by_None spec_rows_def)
  with assms(3,4) n show "sql_action sha now (SaveSpec jid spec) db =
      (Inr (op_answer (SaveSpec jid spec) (sql_view db)), ?t)"
    by (simp add: sql_save_spec_def Let_def insert_for_job_def known_job_sql prog_defs sql_view_simps)
  have rows: "spec_rows ?t jid' = (if jid' = jid then spec_rows db jid @ [?row] else spec_rows db jid')" for jid'
    by (simp add: spec_rows_def)
  have "specs_numbered ?t"
    unfolding specs_numbered_def rows
    using num num [of jid] by (auto simp del: upt_Suc simp add: upt_Suc_append)
  with sql_inv_later [OF assms(1,2)] show "sql_inv now ?t" by (simp add: sql_inv_def)
  show "sql_view ?t = apply_op (SaveSpec jid spec) (sql_view db)"
    by (rule sql_view_eqI) (simp_all add: sql_view_simps rows fun_eq_iff query_defs)
qed

lemma latest_row_put:
  assumes "\<And>r. r \<in> set rows \<Longrightarrow> created r \<le> (T :: time)" and "T < created q"
  shows "latest_by (\<lambda>r. (created r, ident r)) (filter (\<lambda>r. owner r = k) (rows @ [q])) =
    (if k = owner q then Some q else latest_by (\<lambda>r. (created r, ident r)) (filter (\<lambda>r. owner r = k) rows))"
proof (cases "k = owner q")
  case True
  have "(created r, ident r) < (created q, ident q)" if "r \<in> set (filter (\<lambda>r. owner r = k) rows)" for r
    using assms that by (fastforce simp: less_prod_def)
  with True show ?thesis
    using latest_by_snoc [where key = "\<lambda>r. (created r, ident r)" and q = q
        and rows = "filter (\<lambda>r. owner r = k) rows"] by simp
qed simp

lemma sim_save_plan:
  assumes "sql_inv T db" and "T < now" and "known_job (pl_job_id p) (sql_view db)"
    and "sql_fresh (SavePlan p) db"
  shows "\<exists>t. simulates sha now (SavePlan p) db t"
proof -
  from assms(4) obtain h where h: "stored_plan_hash sha p = Inr h"
    and fresh: "row_by plr_plan_id (pl_plan_id p) (db_plans db) = None"
    by (auto simp: stored_plan_hash_def)
  let ?row = "\<lparr>plr_plan_id = pl_plan_id p, plr_job_id = pl_job_id p, plr_plan = p, plr_plan_hash = h,
      plr_created_at = now\<rparr>"
  let ?t = "db\<lparr>db_plans := db_plans db @ [?row]\<rparr>"
  from h fresh assms(3)
  have act: "sql_action sha now (SavePlan p) db = (Inr (op_answer (SavePlan p) (sql_view db)), ?t)"
    by (simp add: sql_save_plan_def prog_defs insert_known known_job_sql)
  from sql_inv_later [OF assms(1,2)] have inv: "sql_inv now ?t"
    by (simp add: sql_inv_def specs_numbered_def spec_rows_def)
  have "sql_get_plan ?t = (sql_get_plan db)(pl_job_id p \<mapsto> p)"
    using latest_row_put [of "db_plans db" plr_created_at T ?row plr_plan_id plr_job_id] assms(1,2)
    by (auto simp: fun_eq_iff sql_get_plan_def sql_inv_def)
  then have "sql_view ?t = apply_op (SavePlan p) (sql_view db)"
    by (intro sql_view_eqI) (simp_all add: sql_view_simps query_defs fun_eq_iff)
  with act inv show ?thesis by (rule simulatesI)
qed

lemma sim_save_validation:
  assumes "sql_inv T db" and "T < now" and "known_job (vr_job_id r) (sql_view db)"
    and "sql_fresh (SaveValidation r) db"
  shows "\<exists>t. simulates sha now (SaveValidation r) db t"
proof (rule simulatesI)
  let ?row = "\<lparr>var_validation_id = vr_validation_id r, var_job_id = vr_job_id r, var_report = r,
      var_created_at = now\<rparr>"
  let ?t = "db\<lparr>db_validations := db_validations db @ [?row]\<rparr>"
  from assms(3,4)
  show "sql_action sha now (SaveValidation r) db = (Inr (op_answer (SaveValidation r) (sql_view db)), ?t)"
    by (simp add: sql_save_validation_def prog_defs insert_known known_job_sql)
  from sql_inv_later [OF assms(1,2)] show "sql_inv now ?t"
    by (simp add: sql_inv_def specs_numbered_def spec_rows_def)
  have "sql_get_validation ?t = (sql_get_validation db)(vr_job_id r \<mapsto> r)"
    using latest_row_put [of "db_validations db" var_created_at T ?row var_validation_id var_job_id] assms(1,2)
    by (auto simp: fun_eq_iff sql_get_validation_def sql_inv_def)
  then show "sql_view ?t = apply_op (SaveValidation r) (sql_view db)"
    by (intro sql_view_eqI) (simp_all add: sql_view_simps query_defs fun_eq_iff)
qed

lemma sim_save_remediation:
  assumes "sql_inv T db" and "T < now" and "op_ok (SaveRemediation jid ph r) (sql_view db)"
  shows "\<exists>t. simulates sha now (SaveRemediation jid ph r) db t"
proof (rule simulatesI)
  let ?row = "\<lparr>rr_job_id = jid, rr_plan_hash = ph, rr_selection = r\<rparr>"
  let ?t = "db\<lparr>db_remediations := db_remediations db @ [?row]\<rparr>"
  from assms(3) have ok: "job_exists jid db" "row_by rr_job_id jid (db_remediations db) = None"
    by (auto simp: known_job_sql sql_view_simps sql_get_remediation_def)
  then show "sql_action sha now (SaveRemediation jid ph r) db =
      (Inr (op_answer (SaveRemediation jid ph r) (sql_view db)), ?t)"
    by (simp add: sql_save_remediation_def prog_defs insert_known)
  from sql_inv_later [OF assms(1,2)] show "sql_inv now ?t"
    by (simp add: sql_inv_def specs_numbered_def spec_rows_def)
  from ok(2) show "sql_view ?t = apply_op (SaveRemediation jid ph r) (sql_view db)"
    by (intro sql_view_eqI) (auto simp: sql_view_simps query_defs fun_eq_iff row_by_snoc split: option.splits)
qed

lemma sim_save_approval:
  assumes "sql_inv T db" and "T < now" and "known_job (ap_job_id a) (sql_view db)"
    and "sql_fresh (SaveApproval a) db"
  shows "\<exists>t. simulates sha now (SaveApproval a) db t"
proof (rule simulatesI)
  let ?row = "\<lparr>apr_approval_id = ap_approval_id a, apr_job_id = ap_job_id a,
      apr_approved_at = ap_approved_at a, apr_revoked = False, apr_record = a\<rparr>"
  let ?t = "db\<lparr>db_approvals := db_approvals db @ [?row]\<rparr>"
  from assms(3,4)
  show "sql_action sha now (SaveApproval a) db = (Inr (op_answer (SaveApproval a) (sql_view db)), ?t)"
    by (simp add: sql_save_approval_def prog_defs insert_known known_job_sql)
  from sql_inv_later [OF assms(1,2)] show "sql_inv now ?t"
    by (simp add: sql_inv_def specs_numbered_def spec_rows_def)
  from assms(4) show "sql_view ?t = apply_op (SaveApproval a) (sql_view db)"
    by (intro sql_view_eqI) (auto simp: sql_view_simps query_defs fun_eq_iff row_by_snoc split: option.splits)
qed

lemma sim_revoke:
  assumes "sql_inv T db" and "T < now"
  shows "\<exists>t. simulates sha now (RevokeApprovals jid) db t"
proof (rule simulatesI)
  let ?t = "db\<lparr>db_approvals := update_rows (\<lambda>r. apr_job_id r = jid) (\<lambda>r. r\<lparr>apr_revoked := True\<rparr>) (db_approvals db)\<rparr>"
  show "sql_action sha now (RevokeApprovals jid) db = (Inr (op_answer (RevokeApprovals jid) (sql_view db)), ?t)"
    by (simp add: sql_revoke_approvals_for_job_def prog_defs)
  from sql_inv_later [OF assms(1,2)] show "sql_inv now ?t"
    by (auto simp: sql_inv_def specs_numbered_def spec_rows_def update_rows_def)
  have "sql_get_approval ?t aid = (case sql_get_approval db aid of
      None \<Rightarrow> None | Some a \<Rightarrow> if ap_job_id a = jid then None else Some a)" for aid
  proof -
    have "row_by apr_approval_id aid (db_approvals ?t) =
        map_option (\<lambda>r. if apr_job_id r = jid then r\<lparr>apr_revoked := True\<rparr> else r)
          (row_by apr_approval_id aid (db_approvals db))"
      by (simp add: row_by_update)
    moreover have "apr_job_id r = ap_job_id (apr_record r)" if "row_by apr_approval_id aid (db_approvals db) = Some r" for r
      using row_by_key [OF that] assms(1) by (auto simp: sql_inv_def)
    ultimately show ?thesis by (auto simp: sql_get_approval_def split: option.splits)
  qed
  then show "sql_view ?t = apply_op (RevokeApprovals jid) (sql_view db)"
    by (intro sql_view_eqI) (simp_all add: sql_view_simps query_defs fun_eq_iff)
qed

lemma thenP_run: "m s = (Inr x, t) \<Longrightarrow> thenP m k s = k t"
  by (simp add: prog_defs)

lemma execution_view:
  "row_by execution_key (jid, key) rows = None \<Longrightarrow>
   sql_find_execution (db\<lparr>db_executions := rows @ [\<lparr>er_job_id = jid, er_idempotency_key = key,
     er_request_digest = digest, er_result = result\<rparr>]\<rparr>) j k =
   (if (j, k) = (jid, key) then Some (digest, result)
    else sql_find_execution (db\<lparr>db_executions := rows\<rparr>) j k)"
  by (auto simp: sql_find_execution_def row_by_snoc execution_key_def split: option.splits)

lemma sim_record_execution:
  assumes "sql_inv T db" and "T < now" and "known_job jid (sql_view db)"
  shows "\<exists>t. simulates sha now (RecordExecution jid key digest result) db t"
proof (rule simulatesI)
  let ?row = "\<lparr>er_job_id = jid, er_idempotency_key = key, er_request_digest = digest, er_result = result\<rparr>"
  let ?t = "snd (sql_record_execution jid key digest result db)"
  have rows: "sql_record_execution jid key digest result db = (Inr (), ?t)"
    using assms(3) by (simp add: sql_record_execution_def insert_known known_job_sql split: option.splits)
  then show "sql_action sha now (RecordExecution jid key digest result) db =
      (Inr (op_answer (RecordExecution jid key digest result) (sql_view db)), ?t)"
    by (simp add: thenP_run retP_def)
  have frame: "\<exists>es. ?t = db\<lparr>db_executions := es\<rparr>"
    using assms(3) by (auto simp: sql_record_execution_def insert_known known_job_sql split: option.splits)
  then obtain es where es: "?t = db\<lparr>db_executions := es\<rparr>" by blast
  show "sql_inv now ?t"
    unfolding es by (rule sql_inv_frame [OF sql_inv_later [OF assms(1,2)]]) simp_all
  have "sql_find_execution ?t j k = (if (j, k) = (jid, key) then Some (digest, result)
      else sql_find_execution db j k)" for j k
  proof (cases "row_by execution_key (jid, key) (db_executions db)")
    case None
    with assms(3) execution_view [OF None, where db = db and j = j and k = k and digest = digest and result = result] show ?thesis
      by (simp add: sql_record_execution_def insert_known known_job_sql)
  next
    case (Some r)
    have "row_by execution_key (j, k) (update_rows (\<lambda>r. execution_key r = (jid, key))
        (\<lambda>r. r\<lparr>er_request_digest := digest, er_result := result\<rparr>) (db_executions db)) =
      (if (j, k) = (jid, key) then map_option (\<lambda>r. r\<lparr>er_request_digest := digest, er_result := result\<rparr>)
         (row_by execution_key (j, k) (db_executions db)) else row_by execution_key (j, k) (db_executions db))"
      by (rule row_by_put) (simp add: execution_key_def)
    with Some show ?thesis by (auto simp: sql_record_execution_def sql_find_execution_def)
  qed
  with frame show "sql_view ?t = apply_op (RecordExecution jid key digest result) (sql_view db)"
    by (intro sql_view_eqI) (auto simp: sql_view_simps view_execution_def query_defs fun_eq_iff)
qed

lemma save_mapping_row_view:
  "row_by mapping_key k (save_mapping_row m rows) = ((\<lambda>k. row_by mapping_key k rows)(mapping_key m \<mapsto> m)) k"
proof (cases "row_by mapping_key (mapping_key m) rows")
  case None
  then show ?thesis by (auto simp: save_mapping_row_def row_by_snoc split: option.splits)
next
  case (Some q)
  then have q: "mapping_key q = mapping_key m" by (auto dest: row_by_key)
  let ?f = "\<lambda>r. r\<lparr>em_feature_id := em_feature_id m, em_operation_id := em_operation_id m,
             em_last_revision := em_last_revision m, em_expected_layer := em_expected_layer m\<rparr>"
  have "row_by mapping_key k (update_rows (\<lambda>r. mapping_key r = mapping_key m) ?f rows) =
      (if k = mapping_key m then map_option ?f (row_by mapping_key k rows) else row_by mapping_key k rows)"
    by (rule row_by_put) (simp add: mapping_key_def)
  moreover have "?f q = m" using q by (cases q; cases m) (simp add: mapping_key_def)
  ultimately show ?thesis using Some by (simp add: save_mapping_row_def)
qed

lemma fold_mapping_view:
  "(\<lambda>k. row_by mapping_key k (fold save_mapping_row ms rows)) =
   fold (\<lambda>m f. f((em_document_id m, em_entity_ref m) \<mapsto> m)) ms (\<lambda>k. row_by mapping_key k rows)"
proof (induction ms arbitrary: rows)
  case (Cons m ms)
  have "(\<lambda>k. row_by mapping_key k (save_mapping_row m rows)) =
      (\<lambda>k. row_by mapping_key k rows)((em_document_id m, em_entity_ref m) \<mapsto> m)"
    by (rule ext) (simp only: save_mapping_row_view, simp add: mapping_key_def)
  then show ?case by (simp only: fold_simps comp_apply Cons.IH)
qed simp

lemma sim_map_entity:
  assumes "sql_inv T db" and "T < now"
  shows "\<exists>t. simulates sha now (MapEntity m) db t"
proof (rule simulatesI)
  let ?t = "db\<lparr>db_mappings := save_mapping_row m (db_mappings db)\<rparr>"
  show "sql_action sha now (MapEntity m) db = (Inr (op_answer (MapEntity m) (sql_view db)), ?t)"
    by (simp add: sql_map_entity_def prog_defs)
  from sql_inv_later [OF assms] show "sql_inv now ?t"
    by (simp add: sql_inv_def specs_numbered_def spec_rows_def)
  show "sql_view ?t = apply_op (MapEntity m) (sql_view db)"
    using fold_mapping_view [of "[m]" "db_mappings db"]
    by (intro sql_view_eqI) (simp_all add: sql_view_simps view_mapping_def query_defs fun_eq_iff)
qed

lemma checkpoint_saved:
  assumes "job_exists (cp_job_id c) db"
  obtains cs where "sql_save_checkpoint c db = (Inr (), db\<lparr>db_checkpoints := cs\<rparr>)"
proof (cases "row_by cp_checkpoint_id (cp_checkpoint_id c) (db_checkpoints db)")
  case None
  with assms that show thesis by (simp add: sql_save_checkpoint_def insert_known)
next
  case (Some q)
  with that show thesis by (simp add: sql_save_checkpoint_def)
qed

lemma sim_save_checkpoint:
  assumes "sql_inv T db" and "T < now" and "known_job (cp_job_id c) (sql_view db)"
  shows "\<exists>t. simulates sha now (SaveCheckpoint c) db t"
proof -
  from assms(3) obtain cs where cs: "sql_save_checkpoint c db = (Inr (), db\<lparr>db_checkpoints := cs\<rparr>)"
    unfolding known_job_sql by (rule checkpoint_saved)
  show ?thesis
  proof (rule simulatesI [where t = "db\<lparr>db_checkpoints := cs\<rparr>"])
    show "sql_action sha now (SaveCheckpoint c) db =
        (Inr (op_answer (SaveCheckpoint c) (sql_view db)), db\<lparr>db_checkpoints := cs\<rparr>)"
      by (simp add: cs prog_defs)
    from sql_inv_later [OF assms(1,2)] show "sql_inv now (db\<lparr>db_checkpoints := cs\<rparr>)"
      by (simp add: sql_inv_def specs_numbered_def spec_rows_def)
    show "sql_view (db\<lparr>db_checkpoints := cs\<rparr>) = apply_op (SaveCheckpoint c) (sql_view db)"
      by (intro sql_view_eqI) (simp_all add: sql_view_simps query_defs fun_eq_iff)
  qed
qed

text \<open>The terminal job and its mappings, which both finalizers write first.\<close>

definition terminal_db :: "cad_job \<Rightarrow> entity_mapping list \<Rightarrow> sql_db \<Rightarrow> sql_db" where
  "terminal_db j ms db =
     (let d = snd (save_terminal_job j db) in d\<lparr>db_mappings := fold save_mapping_row ms (db_mappings d)\<rparr>)"

lemma thenP_terminal:
  "job_exists (cj_job_id j) db \<Longrightarrow> thenP (save_terminal_job j) k db = k (snd (save_terminal_job j db))"
  by (simp add: save_terminal_job_def prog_defs)

lemma thenP_modP: "thenP (modP g) k s = k (g s)"
  by (simp add: prog_defs)

lemma thenP_assoc: "thenP (thenP m k) l = thenP m (thenP k l)"
  by (auto simp: fun_eq_iff prog_defs split: prod.splits sum.splits)

lemma terminal_db_frame:
  "job_exists (cj_job_id j) db \<Longrightarrow> db_specs (terminal_db j ms db) = db_specs db \<and>
   db_plans (terminal_db j ms db) = db_plans db \<and> db_remediations (terminal_db j ms db) = db_remediations db \<and>
   db_validations (terminal_db j ms db) = db_validations db \<and> db_approvals (terminal_db j ms db) = db_approvals db \<and>
   db_executions (terminal_db j ms db) = db_executions db \<and>
   db_mappings (terminal_db j ms db) = fold save_mapping_row ms (db_mappings db)"
  by (simp add: terminal_db_def save_terminal_job_def)

lemma terminal_db_jobs:
  assumes "keeps_document j (sql_view db)" and "keeps_creation j (sql_view db)"
  shows "map_option row_core (row_by jr_job_id jid (db_jobs (terminal_db j ms db))) =
    ((sv_job (sql_view db))(cj_job_id j \<mapsto> job_core j)) jid"
proof -
  let ?f = "\<lambda>r. r\<lparr>jr_state := cj_state j, jr_expected_revision := cj_expected_revision j,
             jr_spec_version := cj_spec_version j, jr_plan_hash := cj_plan_hash j,
             jr_updated_at := cj_updated_at j\<rparr>"
  from assms obtain r where r: "row_by jr_job_id (cj_job_id j) (db_jobs db) = Some r"
    "jr_document_id r = cj_document_id j" "jr_created_at r = cj_created_at j"
    by (auto simp: keeps_document_def keeps_creation_def sql_view_simps row_core_def split: option.splits)
  then have "db_jobs (terminal_db j ms db) = update_rows (\<lambda>r. jr_job_id r = cj_job_id j) ?f (db_jobs db)"
    by (simp add: terminal_db_def save_terminal_job_def job_exists_def)
  moreover have "row_core (?f r) = job_core j"
    using r row_by_key [OF r(1)] by (simp add: row_core_def job_core_def)
  ultimately show ?thesis using r(1) by (simp add: row_by_put sql_view_simps)
qed

lemma terminal_db_view:
  assumes "keeps_document j (sql_view db)" and "keeps_creation j (sql_view db)"
    and "db_jobs t = db_jobs (terminal_db j ms db)" and "db_specs t = db_specs db"
    and "db_plans t = db_plans db" and "db_remediations t = db_remediations db"
    and "db_validations t = db_validations db" and "db_approvals t = db_approvals db"
    and "db_mappings t = fold save_mapping_row ms (db_mappings db)"
    and "sv_execution (sql_view t) = E"
  shows "sql_view t = (fold view_mapping ms (view_job j (sql_view db)))\<lparr>sv_execution := E\<rparr>"
  using assms(3-10) terminal_db_jobs [OF assms(1,2), of _ ms]
  by (intro sql_view_eqI)
    (simp_all add: sql_view_simps view_job_def view_mappings fold_mapping_view query_defs fun_eq_iff)

lemma view_execution_id:
  "(fold view_mapping ms (view_job j v))\<lparr>sv_execution := sv_execution v\<rparr> = fold view_mapping ms (view_job j v)"
  by (cases v) (simp add: view_mappings view_job_def)

lemma view_execution_terminal:
  "view_execution jid key digest result (fold view_mapping ms (view_job j v)) =
   (fold view_mapping ms (view_job j v))\<lparr>sv_execution := (sv_execution v)((jid, key) \<mapsto> (digest, result))\<rparr>"
  by (simp add: view_execution_def view_mappings view_job_def)

lemma keeps_document_known: "keeps_document j (sql_view db) \<Longrightarrow> job_exists (cj_job_id j) db"
  by (auto simp: keeps_document_def sql_view_simps job_exists_def split: option.splits)

lemma sim_finalize_job:
  assumes "sql_inv T db" and "T < now" and "keeps_document j (sql_view db)" and "keeps_creation j (sql_view db)"
  shows "\<exists>t. simulates sha now (FinalizeJob j lid ms) db t"
proof (rule simulatesI)
  let ?t = "delete_lease lid (terminal_db j ms db)"
  note known = keeps_document_known [OF assms(3)]
  note frame = terminal_db_frame [OF known, of ms]
  show "sql_action sha now (FinalizeJob j lid ms) db = (Inr (op_answer (FinalizeJob j lid ms) (sql_view db)), ?t)"
    by (simp add: sql_finalize_job_def thenP_assoc thenP_terminal [OF known] thenP_modP
        terminal_db_def thenP_run retP_def Let_def)
  show "sql_inv now ?t"
    using frame by (intro sql_inv_frame [OF sql_inv_later [OF assms(1,2)]]) (simp_all add: delete_lease_def)
  have "sql_view ?t = (fold view_mapping ms (view_job j (sql_view db)))\<lparr>sv_execution := sv_execution (sql_view db)\<rparr>"
    using frame
    by (intro terminal_db_view [OF assms(3,4)]) (simp_all add: delete_lease_def sql_view_simps query_defs)
  then show "sql_view ?t = apply_op (FinalizeJob j lid ms) (sql_view db)"
    by (simp add: view_execution_id)
qed

lemma sim_finalize_commit:
  assumes "sql_inv T db" and "T < now"
    and ok: "op_ok (FinalizeCommit j lid ms key digest result cp) (sql_view db)"
  shows "\<exists>t. simulates sha now (FinalizeCommit j lid ms key digest result cp) db t"
proof -
  from ok have doc: "keeps_document j (sql_view db)" and cre: "keeps_creation j (sql_view db)"
    and unused: "row_by execution_key (cj_job_id j, key) (db_executions db) = None"
    by (auto simp: sql_view_simps sql_find_execution_def)
  note known = keeps_document_known [OF doc]
  note frame = terminal_db_frame [OF known, of ms]
  let ?row = "\<lparr>er_job_id = cj_job_id j, er_idempotency_key = key, er_request_digest = digest, er_result = result\<rparr>"
  let ?d = "terminal_db j ms db"
  have jobs: "job_exists jid ?d \<longleftrightarrow> job_exists jid db" for jid
    by (simp add: terminal_db_def save_terminal_job_def job_exists_def Let_def row_by_update)
  obtain cs where cs: "(case cp of None \<Rightarrow> retP () | Some c \<Rightarrow> sql_save_checkpoint c) ?d =
      (Inr (), ?d\<lparr>db_checkpoints := cs\<rparr>)"
  proof (cases cp)
    case None
    have "?d = ?d\<lparr>db_checkpoints := db_checkpoints ?d\<rparr>" by simp
    with None that [of "db_checkpoints ?d"] show thesis by (simp add: retP_def)
  next
    case (Some c)
    with ok have "job_exists (cp_job_id c) ?d" by (simp add: jobs known_job_sql)
    from checkpoint_saved [OF this] Some that show thesis by auto
  qed
  let ?e = "?d\<lparr>db_checkpoints := cs, db_executions := db_executions db @ [?row]\<rparr>"
  have ins: "insert_for_job (cj_job_id j) (row_by execution_key (cj_job_id j, key) (db_executions ?d) = None)
      (\<lambda>d. d\<lparr>db_executions := db_executions d @ [?row]\<rparr>) (?d\<lparr>db_checkpoints := cs\<rparr>) = (Inr (), ?e)"
    using frame unused known jobs by (simp add: insert_for_job_def job_exists_def)
  have d: "(snd (save_terminal_job j db))\<lparr>db_mappings :=
      fold save_mapping_row ms (db_mappings (snd (save_terminal_job j db)))\<rparr> = ?d"
    by (simp add: terminal_db_def Let_def)
  show ?thesis
  proof (rule simulatesI)
    have "sql_finalize_commit j lid ms key digest result cp db = (Inr True, delete_lease lid ?e)"
      by (simp add: sql_finalize_commit_def thenP_terminal [OF known] thenP_modP d thenP_run cs ins retP_def)
    then show "sql_action sha now (FinalizeCommit j lid ms key digest result cp) db =
        (Inr (op_answer (FinalizeCommit j lid ms key digest result cp) (sql_view db)), delete_lease lid ?e)"
      by (simp add: thenP_run retP_def)
    show "sql_inv now (delete_lease lid ?e)"
      using frame by (intro sql_inv_frame [OF sql_inv_later [OF assms(1,2)]]) (simp_all add: delete_lease_def)
    have "sv_execution (sql_view (delete_lease lid ?e)) =
        (sv_execution (sql_view db))((cj_job_id j, key) \<mapsto> (digest, result))"
      using execution_view [OF unused, where db = db and digest = digest and result = result]
      by (auto simp: fun_eq_iff sql_view_simps delete_lease_def sql_find_execution_def)
    then have "sql_view (delete_lease lid ?e) = (fold view_mapping ms (view_job j (sql_view db)))
        \<lparr>sv_execution := (sv_execution (sql_view db))((cj_job_id j, key) \<mapsto> (digest, result))\<rparr>"
      using frame by (intro terminal_db_view [OF doc cre]) (simp_all add: delete_lease_def)
    then show "sql_view (delete_lease lid ?e) =
        apply_op (FinalizeCommit j lid ms key digest result cp) (sql_view db)"
      by (simp add: view_execution_terminal)
  qed
qed

lemma sql_simulates:
  assumes "sql_inv T db" and "T < now" and "op_ok a (sql_view db)" and "sql_fresh a db"
  shows "\<exists>t. simulates sha now a db t"
  using assms(3,4)
  by (cases a) (auto intro: sim_save_job [OF assms(1,2)] sim_save_spec [OF assms(1,2)]
      sim_save_plan [OF assms(1,2)] sim_save_remediation [OF assms(1,2)] sim_save_validation [OF assms(1,2)]
      sim_save_approval [OF assms(1,2)] sim_revoke [OF assms(1,2)] sim_record_execution [OF assms(1,2)]
      sim_map_entity [OF assms(1,2)] sim_save_checkpoint [OF assms(1,2)] sim_finalize_job [OF assms(1,2)]
      sim_finalize_commit [OF assms(1,2)] simp del: op_answer.simps apply_op.simps)

interpretation sql_store: job_store_port sql_inv sql_view sql_fresh "sql_exec sha" for sha
proof
  fix T now :: time and db a
  assume "sql_inv T db" "T < now" "op_ok a (sql_view db)" "sql_fresh a db"
  from sql_simulates [OF this, of sha] obtain t where "simulates sha now a db t" by blast
  then show "\<exists>t. sql_exec sha now a db = (Inr (op_answer a (sql_view db)), t) \<and> sql_inv now t \<and>
    sql_view t = apply_op a (sql_view db)"
    by (auto simp: simulates_def sql_exec_def transact_def)
qed

subsection \<open>The two stores can be exchanged\<close>

text \<open>A run within the contract, as the client of the SQL store meets it.\<close>

fun sql_run_ok :: "(string \<Rightarrow> string) \<Rightarrow> time \<Rightarrow> (time \<times> store_op) list \<Rightarrow> sql_db \<Rightarrow> bool" where
  "sql_run_ok sha T [] db = True"
| "sql_run_ok sha T ((now, a) # as) db =
     (T < now \<and> op_ok a (sql_view db) \<and> sql_fresh a db \<and> sql_run_ok sha now as (snd (sql_exec sha now a db)))"

lemma sql_run_ok_eq: "sql_run_ok sha T as db = sql_store.run_ok sha T as db"
proof (induction as arbitrary: T db)
  case (Cons p as)
  then show ?case by (cases p) simp
qed simp

lemma mem_run_ok:
  assumes "approvals_filed s" and "sql_inv T db" and "mem_view s = sql_view db" and "sql_run_ok sha T as db"
  shows "mem_store.run_ok T as s"
  using assms
proof (induction as arbitrary: T s db)
  case (Cons p as)
  obtain now a where p: "p = (now, a)" by fastforce
  with Cons.prems(4) have ok: "T < now" "op_ok a (sql_view db)" "sql_fresh a db"
    "sql_run_ok sha now as (snd (sql_exec sha now a db))" by auto
  from sql_store.exec_ok [OF Cons.prems(2) ok(1-3), of sha] obtain db'
    where d: "sql_exec sha now a db = (Inr (op_answer a (sql_view db)), db')" "sql_inv now db'"
      "sql_view db' = apply_op a (sql_view db)" by blast
  from mem_store.exec_ok [OF Cons.prems(1) ok(1) _ TrueI] ok(2) Cons.prems(3) obtain s'
    where m: "mem_exec now a s = (Inr (op_answer a (mem_view s)), s')" "approvals_filed s'"
      "mem_view s' = apply_op a (mem_view s)" by metis
  have "mem_store.run_ok now as s'"
    using m d ok(4) Cons.prems(3) by (intro Cons.IH [of s' now db']) simp_all
  with ok m(1) Cons.prems(3) show ?case by (simp add: p)
qed simp

lemma sql_get_spec_view:
  "sql_inv T db \<Longrightarrow> sql_get_spec db jid =
    (if sv_specs (sql_view db) jid = [] then None else Some (last (sv_specs (sql_view db) jid)))"
  using latest_version_numbered [of "spec_rows db jid"]
  by (simp add: sql_get_spec_def spec_rows_def [symmetric] sql_view_simps sql_inv_def specs_numbered_def
      last_map del: upt_Suc)

lemma mem_get_spec_view:
  "get_spec s jid = (if sv_specs (mem_view s) jid = [] then None else Some (last (sv_specs (mem_view s) jid)))"
  by (auto simp: get_spec_def mem_view_def split: option.splits)


lemma empty_views: "mem_view empty_store = sql_view empty_db"
  by (simp add: mem_view_def sql_view_def empty_store_def empty_db_def get_job_def sql_get_job_def
      row_by_def spec_rows_def get_plan_def sql_get_plan_def get_remediation_def sql_get_remediation_def
      get_validation_def sql_get_validation_def get_approval_def sql_get_approval_def find_execution_def
      sql_find_execution_def last_mapping_def fun_eq_iff)

lemma empty_db_inv: "sql_inv T empty_db"
  by (simp add: sql_inv_def specs_numbered_def spec_rows_def empty_db_def)


text \<open>
  The primary key of a specification's row is built from the client's \<open>spec_id\<close> and the version
  alone: two jobs that submit a specification with the same identifier collide.
\<close>

lemma spec_id_collision:
  assumes "row_by sr_spec_version_id (spec_version_id spec (next_version jid db)) (db_specs db) \<noteq> None"
  shows "sql_exec sha now (SaveSpec jid spec) db = (Inl UNIQUE_FAILED, db)"
  using assms by (simp add: sql_exec_def transact_def sql_save_spec_def Let_def insert_for_job_def prog_defs)

end
