(* ===== verification/Curves.thy ===== *)
theory Curves
  imports Geometry
begin

section \<open>Curves, patterns and the rest of the predicates\<close>

text \<open>
  Models \<open>geometry/curves.py\<close>, \<open>geometry/patterns.py\<close> and the overflow measures of
  \<open>geometry/predicates.py\<close>, over exact reals as \<open>Geometry\<close> does. A float that the code has not yet
  checked is a \<open>pyfloat\<close>; \<open>finite1\<close> is \<open>require_finite\<close> of one number. \<open>math.atan2\<close> is the
  argument of the complex number (signed zeros are not modelled).
\<close>

subsection \<open>Numbers\<close>

definition finite1 :: "pyfloat \<Rightarrow> real res" where
  "finite1 x = (case x of Fin r \<Rightarrow> Inr r
     | _ \<Rightarrow> Inl (Err InvalidGeometryError ''Non-finite coordinate rejected''))"

lemma finite1_Inr [simp]: "finite1 x = Inr r \<longleftrightarrow> x = Fin r"
  by (cases x) (auto simp: finite1_def)

lemma finite1_Fin [simp]: "finite1 (Fin r) = Inr r"
  by (simp add: finite1_def)

definition radians :: "real \<Rightarrow> real" where
  "radians d = d * pi / 180"

definition degrees :: "real \<Rightarrow> real" where
  "degrees r = r * 180 / pi"

definition atan2 :: "real \<Rightarrow> real \<Rightarrow> real" where
  "atan2 y x = (if x = 0 \<and> y = 0 then 0 else Arg (Complex x y))"

subsection \<open>Curve parameters\<close>

datatype curve_kind = ARC | CIRCLE | ELLIPSE

record curve_params =
  cu_kind :: curve_kind
  cu_center :: point2d
  cu_start_angle_deg :: real
  cu_sweep_deg :: real
  cu_radius_mm :: "real option"
  cu_semi_major_mm :: "real option"
  cu_semi_minor_mm :: "real option"
  cu_rotation_deg :: real

text \<open>\<open>__post_init__\<close> for finite numbers.\<close>

definition mk_curve :: "curve_params \<Rightarrow> curve_params res" where
  "mk_curve c =
     (if \<not> (0 < \<bar>cu_sweep_deg c\<bar> \<and> \<bar>cu_sweep_deg c\<bar> \<le> 360)
      then Inl (Err InvalidGeometryError ''Curve sweep must be non-zero and at most 360 degrees'')
      else case cu_kind c of
        ELLIPSE \<Rightarrow>
          (case (cu_semi_major_mm c, cu_semi_minor_mm c) of
             (Some a, Some b) \<Rightarrow>
               if a \<le> 0 \<or> b \<le> 0 \<or> a < b \<or> cu_radius_mm c \<noteq> None
               then Inl (Err InvalidGeometryError ''Ellipse axes must satisfy major >= minor > 0'')
               else Inr c
           | _ \<Rightarrow> Inl (Err InvalidGeometryError ''Ellipse axes must satisfy major >= minor > 0''))
      | _ \<Rightarrow>
          (case cu_radius_mm c of
             None \<Rightarrow> Inl (Err InvalidGeometryError ''Circular curve radius must be positive'')
           | Some r \<Rightarrow>
               if r \<le> 0 then Inl (Err InvalidGeometryError ''Circular curve radius must be positive'')
               else if cu_semi_major_mm c \<noteq> None \<or> cu_semi_minor_mm c \<noteq> None
               then Inl (Err InvalidGeometryError ''Circular curves cannot carry ellipse axes'')
               else Inr c))"

definition end_angle_deg :: "curve_params \<Rightarrow> real" where
  "end_angle_deg c = cu_start_angle_deg c + cu_sweep_deg c"

definition is_full :: "curve_params \<Rightarrow> bool" where
  "is_full c = isclose (Fin \<bar>cu_sweep_deg c\<bar>) (Fin 360) 0 (1 / 10 ^ 12)"

definition maximum_radius_mm :: "curve_params \<Rightarrow> real res" where
  "maximum_radius_mm c =
     (case cu_radius_mm c of Some r \<Rightarrow> Inr r
      | None \<Rightarrow> (case cu_semi_major_mm c of Some a \<Rightarrow> Inr a | None \<Rightarrow> Inl AssertionError))"

definition point_at_fraction :: "curve_params \<Rightarrow> real \<Rightarrow> point2d res" where
  "point_at_fraction c fraction =
     (if \<not> (0 \<le> fraction \<and> fraction \<le> 1)
      then Inl (Err InvalidGeometryError ''Curve fraction must lie in [0, 1]'')
      else let parameter = radians (cu_start_angle_deg c + cu_sweep_deg c * fraction) in
        case cu_radius_mm c of
          Some r \<Rightarrow> Inr (Point2D (px (cu_center c) + r * cos parameter) (py (cu_center c) + r * sin parameter))
        | None \<Rightarrow>
            (case (cu_semi_major_mm c, cu_semi_minor_mm c) of
               (Some a, Some b) \<Rightarrow>
                 let rotation = radians (cu_rotation_deg c); lx = a * cos parameter; ly = b * sin parameter
                 in Inr (Point2D (px (cu_center c) + lx * cos rotation - ly * sin rotation)
                                 (py (cu_center c) + lx * sin rotation + ly * cos rotation))
             | _ \<Rightarrow> Inl AssertionError))"

definition start_point :: "curve_params \<Rightarrow> point2d res" where
  "start_point c = point_at_fraction c 0"

definition end_point :: "curve_params \<Rightarrow> point2d res" where
  "end_point c = point_at_fraction c 1"

definition normalize_circle :: "point2d \<Rightarrow> real \<Rightarrow> curve_params res" where
  "normalize_circle c r =
     mk_curve \<lparr>cu_kind = CIRCLE, cu_center = c, cu_start_angle_deg = 0, cu_sweep_deg = 360,
       cu_radius_mm = Some r, cu_semi_major_mm = None, cu_semi_minor_mm = None, cu_rotation_deg = 0\<rparr>"

definition normalize_arc ::
  "point2d \<Rightarrow> real \<Rightarrow> real \<Rightarrow> real option \<Rightarrow> real option \<Rightarrow> curve_params res" where
  "normalize_arc c r start end_angle sweep =
     (if (end_angle = None) = (sweep = None)
      then Inl (Err InvalidGeometryError ''Provide exactly one of end_angle_deg or sweep_deg'')
      else let resolved = (case sweep of Some s \<Rightarrow> s
             | None \<Rightarrow> (let d = fmod (the end_angle - start) 360
                        in if isclose (Fin d) (Fin 0) 0 (1 / 10 ^ 12) then 360 else d))
           in mk_curve \<lparr>cu_kind = ARC, cu_center = c, cu_start_angle_deg = start, cu_sweep_deg = resolved,
                cu_radius_mm = Some r, cu_semi_major_mm = None, cu_semi_minor_mm = None, cu_rotation_deg = 0\<rparr>)"

definition normalize_ellipse ::
  "point2d \<Rightarrow> real \<Rightarrow> real \<Rightarrow> real \<Rightarrow> real \<Rightarrow> real \<Rightarrow> curve_params res" where
  "normalize_ellipse c a b rotation start sweep =
     mk_curve \<lparr>cu_kind = ELLIPSE, cu_center = c, cu_start_angle_deg = start, cu_sweep_deg = sweep,
       cu_radius_mm = None, cu_semi_major_mm = Some a, cu_semi_minor_mm = Some b, cu_rotation_deg = rotation\<rparr>"

definition normalize_bulge :: "point2d \<Rightarrow> point2d \<Rightarrow> real \<Rightarrow> curve_params res" where
  "normalize_bulge s e bulge =
     (let chord = distance_to s e in
      if chord \<le> 0 \<or> isclose (Fin bulge) (Fin 0) 0 (1 / 10 ^ 15)
      then Inl (Err InvalidGeometryError ''A bulge needs distinct endpoints and a non-zero factor'')
      else let dx = px e - px s; dy = py e - py s;
               mx = (px s + px e) / 2; my = (py s + py e) / 2;
               offset = chord * (1 - bulge * bulge) / (4 * bulge);
               c = Point2D (mx - dy * offset / chord) (my + dx * offset / chord);
               radius = chord * (1 + bulge * bulge) / (4 * \<bar>bulge\<bar>);
               start = degrees (atan2 (py s - py c) (px s - px c));
               sweep = degrees (4 * arctan bulge)
           in mk_curve \<lparr>cu_kind = ARC, cu_center = c, cu_start_angle_deg = start, cu_sweep_deg = sweep,
                cu_radius_mm = Some radius, cu_semi_major_mm = None, cu_semi_minor_mm = None, cu_rotation_deg = 0\<rparr>)"

definition max_chord_step :: "real \<Rightarrow> real \<Rightarrow> real" where
  "max_chord_step radius tol =
     (if radius \<le> tol then pi else 2 * arccos (max (- 1) (min 1 (1 - tol / radius))))"

definition chord_segment_count :: "curve_params \<Rightarrow> real \<Rightarrow> nat res" where
  "chord_segment_count c tol =
     (if tol \<le> 0 then Inl (Err InvalidGeometryError ''Chord tolerance must be positive'')
      else bindR (maximum_radius_mm c) (\<lambda>radius.
        Inr (nat (max 1 \<lceil>\<bar>radians (cu_sweep_deg c)\<bar> / max_chord_step radius tol\<rceil>))))"

definition linearize_curve :: "curve_params \<Rightarrow> real \<Rightarrow> point2d list res" where
  "linearize_curve c tol =
     bindR (chord_segment_count c tol) (\<lambda>n.
       traverse (\<lambda>i. point_at_fraction c (real i / real n)) [0..<n + 1])"

definition chord_error_bound :: "curve_params \<Rightarrow> nat \<Rightarrow> real res" where
  "chord_error_bound c n =
     (if n < 1 then Inl (Err InvalidGeometryError ''A curve approximation needs at least one segment'')
      else bindR (maximum_radius_mm c) (\<lambda>radius.
        Inr (radius * (1 - cos (\<bar>radians (cu_sweep_deg c)\<bar> / (2 * real n))))))"

subsection \<open>Patterns\<close>

definition bolt_circle ::
  "point2d \<Rightarrow> pyfloat \<Rightarrow> int \<Rightarrow> pyfloat \<Rightarrow> bool \<Rightarrow> point2d list res" where
  "bolt_circle c pcd num start_angle clockwise =
     bindR (finite1 pcd) (\<lambda>d.
     bindR (finite1 start_angle) (\<lambda>start.
       if d \<le> 0 then Inl (Err InvalidFeatureParametersError ''Pitch circle diameter must be positive'')
       else if num < 1
       then Inl (Err InvalidFeatureParametersError ''Bolt circle hole count must be a positive integer'')
       else let radius = d / 2; step = 360 / of_int num; direction = (if clockwise then - 1 else 1)
            in Inr (map (\<lambda>i. let angle = radians (start + direction * step * real i)
                 in Point2D (px c + radius * cos angle) (py c + radius * sin angle)) [0..<nat num])))"

definition rectangular_grid ::
  "point2d \<Rightarrow> int \<Rightarrow> int \<Rightarrow> pyfloat \<Rightarrow> pyfloat \<Rightarrow> point2d list res" where
  "rectangular_grid origin count_x count_y pitch_x pitch_y =
     (if count_x < 1 \<or> count_y < 1
      then Inl (Err InvalidFeatureParametersError ''Grid counts must be positive integers'')
      else bindR (finite1 pitch_x) (\<lambda>dx. bindR (finite1 pitch_y) (\<lambda>dy.
        if (1 < count_x \<and> dx \<le> 0) \<or> (1 < count_y \<and> dy \<le> 0)
        then Inl (Err InvalidFeatureParametersError
          ''Grid pitch must be positive when more than one hole is requested'')
        else Inr (concat (map (\<lambda>iy. map (\<lambda>ix.
               Point2D (px origin + real ix * dx) (py origin + real iy * dy)) [0..<nat count_x])
             [0..<nat count_y])))))"

definition slot_outline :: "point2d \<Rightarrow> pyfloat \<Rightarrow> pyfloat \<Rightarrow> pyfloat \<Rightarrow> point2d list res" where
  "slot_outline c len wid angle =
     bindR (finite1 len) (\<lambda>l. bindR (finite1 wid) (\<lambda>w. bindR (finite1 angle) (\<lambda>a.
       if w \<le> 0 then Inl (Err InvalidFeatureParametersError ''Slot width must be positive'')
       else if l \<le> w
       then Inl (Err InvalidFeatureParametersError
         ''Slot length must exceed its width, otherwise specify a circular hole'')
       else let hs = (l - w) / 2; hw = w / 2
            in Inr (map (\<lambda>p. translated (rotated p a None) (px c) (py c))
                 [Point2D (- hs) hw, Point2D hs hw, Point2D hs (- hw), Point2D (- hs) (- hw)]))))"

definition slot_end_arcs :: "point2d list \<Rightarrow> real \<Rightarrow> (curve_params \<times> curve_params) res" where
  "slot_end_arcs tangents wid =
     (case tangents of
        [q1, q2, q3, q4] \<Rightarrow>
          if wid \<le> 0 then Inl (Err InvalidFeatureParametersError ''Slot width must be positive'')
          else let rc = midpoint2d q2 q3; lc = midpoint2d q4 q1; radius = wid / 2;
                   rs = degrees (atan2 (py q2 - py rc) (px q2 - px rc));
                   ls = degrees (atan2 (py q4 - py lc) (px q4 - px lc))
               in bindR (normalize_arc rc radius rs None (Some (- 180))) (\<lambda>right.
                  bindR (normalize_arc lc radius ls None (Some (- 180))) (\<lambda>left. Inr (right, left)))
      | _ \<Rightarrow> Inl (Err InvalidFeatureParametersError
          ''A slot outline must provide exactly four tangent points''))"

definition linear_pattern ::
  "point2d \<Rightarrow> pyfloat \<times> pyfloat \<Rightarrow> pyfloat \<Rightarrow> int \<Rightarrow> point2d list res" where
  "linear_pattern s direction pitch num =
     bindR (finite1 (fst direction)) (\<lambda>dx. bindR (finite1 (snd direction)) (\<lambda>dy.
     bindR (finite1 pitch) (\<lambda>d.
       if num < 1
       then Inl (Err InvalidFeatureParametersError ''Linear pattern count must be a positive integer'')
       else if d \<le> 0
       then Inl (Err InvalidFeatureParametersError ''Linear pattern pitch must be positive'')
       else let len = sqrt (dx\<^sup>2 + dy\<^sup>2) in
         if len \<le> 0
         then Inl (Err InvalidFeatureParametersError ''Linear pattern direction cannot be zero'')
         else Inr (map (\<lambda>i. Point2D (px s + dx / len * d * real i) (py s + dy / len * d * real i))
                [0..<nat num]))))"

subsection \<open>Overflow\<close>

definition max_list_of :: "real list \<Rightarrow> real res" where
  "max_list_of xs = (case xs of [] \<Rightarrow> Inl (ValueError ''max() iterable argument is empty'')
     | x # ys \<Rightarrow> Inr (fold max ys x))"

definition boundary_distance :: "polyline2d \<Rightarrow> point2d \<Rightarrow> real res" where
  "boundary_distance outer p =
     min_list_of (map (\<lambda>(a, b). point_to_segment_distance p a b) (segments outer))"

definition contour_overflow_mm :: "polyline2d \<Rightarrow> polyline2d \<Rightarrow> tolerance_profile \<Rightarrow> real res" where
  "contour_overflow_mm outer inner t =
     (let outside = filter (\<lambda>p. \<not> contains_point outer p t) (probes inner) in
      if outside = [] then Inr 0
      else bindR (traverse (boundary_distance outer) outside) max_list_of)"

definition circle_overflow_mm :: "polyline2d \<Rightarrow> circle2d \<Rightarrow> tolerance_profile \<Rightarrow> real res" where
  "circle_overflow_mm outer c t =
     bindR (boundary_distance outer (center c)) (\<lambda>d.
       Inr (if contains_point outer (center c) t then max 0 (radius_mm c - d) else radius_mm c + d))"

subsection \<open>Chord approximation\<close>

lemma max_chord_step_bounds:
  assumes "0 < radius" and "0 < tol"
  shows "0 < max_chord_step radius tol \<and> max_chord_step radius tol \<le> pi \<and>
    radius * (1 - cos (max_chord_step radius tol / 2)) \<le> tol"
proof (cases "radius \<le> tol")
  case True
  then show ?thesis by (simp add: max_chord_step_def)
next
  case False
  let ?c = "1 - tol / radius"
  from False assms have c: "0 < ?c" "?c < 1" by (auto simp: field_simps)
  then have m: "max (- 1) (min 1 ?c) = ?c" by auto
  have "0 < arccos ?c" "arccos ?c \<le> pi / 2"
    using c arccos_lt_bounded [of ?c] arccos_le_pi2 [of ?c] by auto
  moreover have "radius * (1 - cos (arccos ?c)) = tol"
    using c assms by (simp add: cos_arccos field_simps)
  ultimately show ?thesis using False m by (simp add: max_chord_step_def)
qed

text \<open>The half step of the chosen count is at most half the largest admissible step.\<close>

lemma chord_half_step:
  assumes "maximum_radius_mm c = Inr radius" and "0 < radius" and "0 < tol"
    and "chord_segment_count c tol = Inr n"
  shows "0 < n \<and> \<bar>radians (cu_sweep_deg c)\<bar> / (2 * real n) \<le> max_chord_step radius tol / 2"
proof -
  let ?s = "\<bar>radians (cu_sweep_deg c)\<bar>" and ?m = "max_chord_step radius tol"
  from assms have n: "n = nat (max 1 \<lceil>?s / ?m\<rceil>)" by (simp add: chord_segment_count_def)
  have m: "0 < ?m" using max_chord_step_bounds assms(2,3) by blast
  have "?s / ?m \<le> of_int \<lceil>?s / ?m\<rceil>" by (rule le_of_int_ceiling)
  also have "\<dots> \<le> real n" using n by linarith
  finally have "?s / ?m \<le> real n" .
  with m have "?s \<le> real n * ?m" by (simp add: field_simps)
  moreover from n have "0 < n" by simp
  ultimately show ?thesis by (simp add: field_simps)
qed

lemma chord_sagitta:
  assumes "maximum_radius_mm c = Inr radius" and "0 < radius" and "0 < tol"
    and "chord_segment_count c tol = Inr n"
  shows "radius * (1 - cos (\<bar>radians (cu_sweep_deg c)\<bar> / (2 * real n))) \<le> tol"
proof -
  let ?h = "\<bar>radians (cu_sweep_deg c)\<bar> / (2 * real n)" and ?m = "max_chord_step radius tol / 2"
  from chord_half_step [OF assms] have "?h \<le> ?m" by blast
  moreover have "0 \<le> ?h" by simp
  moreover have "?m \<le> pi" using max_chord_step_bounds [OF assms(2,3)] pi_gt_zero by linarith
  ultimately have "cos ?m \<le> cos ?h" by (intro cos_monotone_0_pi_le)
  then have "radius * (1 - cos ?h) \<le> radius * (1 - cos ?m)" using assms(2) by simp
  with max_chord_step_bounds [OF assms(2,3)] show ?thesis by linarith
qed

text \<open>A point of a circle, and the chords between its points.\<close>

definition circle_point :: "point2d \<Rightarrow> real \<Rightarrow> real \<Rightarrow> point2d" where
  "circle_point c r t = Point2D (px c + r * cos t) (py c + r * sin t)"

lemma sin_abs_pos:
  fixes h :: real
  assumes "h \<noteq> 0" and "\<bar>h\<bar> \<le> pi / 2"
  shows "0 < sin \<bar>h\<bar>"
  using assms pi_gt_zero by (intro sin_gt_zero) linarith+

lemma sin_abs_mono:
  fixes e h :: real
  assumes "\<bar>e\<bar> \<le> \<bar>h\<bar>" and "\<bar>h\<bar> \<le> pi / 2"
  shows "\<bar>sin e\<bar> \<le> sin \<bar>h\<bar>"
proof -
  have "sin \<bar>e\<bar> \<le> sin \<bar>h\<bar>" using assms by (intro sin_monotone_2pi_le) auto
  moreover have "\<bar>sin e\<bar> = sin \<bar>e\<bar>"
    using assms sin_ge_zero [of "\<bar>e\<bar>"] pi_gt_zero by (cases "0 \<le> e") auto
  ultimately show ?thesis by simp
qed

lemma chord_deviation_pos:
  assumes "0 \<le> r" and "\<bar>e\<bar> \<le> h" and "h \<le> pi / 2" and "0 < h"
  shows "\<exists>s. 0 \<le> s \<and> s \<le> 1 \<and> 
    distance_to (circle_point c r (m + e)) (on_segment (circle_point c r (m - h)) (circle_point c r (m + h)) s)
    \<le> r * (1 - cos h)"
proof -
  have sh: "0 < sin h" using sin_abs_pos [of h] assms by simp
  have se: "\<bar>sin e\<bar> \<le> sin h" using sin_abs_mono [of e h] assms by simp
  obtain s where s: "0 \<le> s" "s \<le> 1" and s2: "sin h * (2 * s - 1) = sin e"
  proof (rule that [of "(sin h + sin e) / (2 * sin h)"])
    show "0 \<le> (sin h + sin e) / (2 * sin h)" "(sin h + sin e) / (2 * sin h) \<le> 1"
      using sh se by (auto simp: field_simps abs_le_iff)
    show "sin h * (2 * ((sin h + sin e) / (2 * sin h)) - 1) = sin e" using sh by (simp add: field_simps)
  qed
  let ?q = "on_segment (circle_point c r (m - h)) (circle_point c r (m + h)) s"
  have x: "px (circle_point c r (m + e)) - px ?q = (r * cos e - r * cos h) * cos m"
  proof -
    have "px ?q = px c + r * (cos m * cos h - sin m * (sin h * (2 * s - 1)))"
      by (simp add: on_segment_def circle_point_def cos_add cos_diff algebra_simps)
    then show ?thesis unfolding s2 by (simp add: circle_point_def cos_add algebra_simps)
  qed
  have y: "py (circle_point c r (m + e)) - py ?q = (r * cos e - r * cos h) * sin m"
  proof -
    have "py ?q = py c + r * (sin m * cos h + cos m * (sin h * (2 * s - 1)))"
      by (simp add: on_segment_def circle_point_def sin_add sin_diff algebra_simps)
    then show ?thesis unfolding s2 by (simp add: circle_point_def sin_add algebra_simps)
  qed
  have "distance_to (circle_point c r (m + e)) ?q = \<bar>r * cos e - r * cos h\<bar>"
    unfolding distance_to_def x y
    by (simp add: power_mult_distrib real_sqrt_mult flip: distrib_left)
  also have "\<dots> = r * (cos e - cos h)"
  proof -
    have "cos h \<le> cos \<bar>e\<bar>" using assms by (intro cos_monotone_0_pi_le) auto
    then have "cos h \<le> cos e" by (cases "0 \<le> e") auto
    with assms(1) show ?thesis by (simp add: mult_left_mono right_diff_distrib)
  qed
  also have "\<dots> \<le> r * (1 - cos h)" using assms(1) by (intro mult_left_mono) auto
  finally show ?thesis using s by blast
qed

lemma on_segment_swap: "on_segment b a (1 - s) = on_segment a b s"
  by (simp add: on_segment_def algebra_simps)

lemma chord_deviation:
  assumes "0 \<le> r" and "\<bar>e\<bar> \<le> \<bar>h\<bar>" and "\<bar>h\<bar> \<le> pi / 2" and "h \<noteq> 0"
  shows "point_to_segment_distance (circle_point c r (m + e)) (circle_point c r (m - h)) (circle_point c r (m + h))
    \<le> r * (1 - cos h)" (is "point_to_segment_distance ?p ?a ?b \<le> _")
proof -
  have "\<exists>s. 0 \<le> s \<and> s \<le> 1 \<and> distance_to ?p (on_segment ?a ?b s) \<le> r * (1 - cos h)"
  proof (cases "0 \<le> h")
    case True
    with assms show ?thesis by (intro chord_deviation_pos) auto
  next
    case False
    with assms chord_deviation_pos [of r e "- h" c m] obtain s where s: "0 \<le> s" "s \<le> 1"
      "distance_to ?p (on_segment ?b ?a s) \<le> r * (1 - cos h)" by auto
    then show ?thesis by (intro exI [of _ "1 - s"]) (simp add: on_segment_swap)
  qed
  then obtain s where s: "0 \<le> s" "s \<le> 1" "distance_to ?p (on_segment ?a ?b s) \<le> r * (1 - cos h)" by blast
  from order_trans [OF segment_distance_least [OF s(1,2)] s(3)] show ?thesis .
qed

lemma point_at_circle:
  assumes "cu_radius_mm c = Some r" and "0 \<le> f" and "f \<le> 1"
  shows "point_at_fraction c f =
    Inr (circle_point (cu_center c) r (radians (cu_start_angle_deg c + cu_sweep_deg c * f)))"
  using assms by (simp add: point_at_fraction_def circle_point_def Let_def)

lemma linearize_points:
  assumes "cu_radius_mm c = Some r" and "linearize_curve c tol = Inr ps"
  obtains n where "chord_segment_count c tol = Inr n" and
    "ps = map (\<lambda>i. circle_point (cu_center c) r (radians (cu_start_angle_deg c + cu_sweep_deg c * (real i / real n)))) [0..<n + 1]"
proof -
  from assms(2) obtain n where n: "chord_segment_count c tol = Inr n"
    "traverse (\<lambda>i. point_at_fraction c (real i / real n)) [0..<n + 1] = Inr ps"
    by (auto simp: linearize_curve_def bindR_Inr_iff)
  have "traverse (\<lambda>i. point_at_fraction c (real i / real n)) [0..<n + 1] =
      Inr (map (\<lambda>i. circle_point (cu_center c) r (radians (cu_start_angle_deg c + cu_sweep_deg c * (real i / real n)))) [0..<n + 1])"
    by (intro traverse_all_Inr point_at_circle [OF assms(1)]) (auto simp: divide_le_eq)
  with n that show thesis by simp
qed

lemma zip_tl_map_upt: "i < n \<Longrightarrow> (f i, f (Suc i)) \<in> set (zip (map f [0..<n + 1]) (tl (map f [0..<n + 1])))"
  by (auto simp: in_set_zip nth_tl simp del: upt_Suc intro!: exI [of _ i])

text \<open>
  C34: The polyline that stands for a circular curve is as close to it as the tolerance asks:
  \<open>linearize_curve\<close> succeeds, and every point of the curve, at any fraction of its sweep, is
  within the chord tolerance of one of the segments between consecutive points.
\<close>

theorem linearize_within_tolerance:
  assumes "mk_curve c = Inr c" and "cu_radius_mm c = Some r" and "0 < r" and "0 < tol"
    and "0 \<le> f" and "f \<le> 1"
  shows "\<exists>ps p a b. linearize_curve c tol = Inr ps \<and> point_at_fraction c f = Inr p \<and>
    (a, b) \<in> set (zip ps (tl ps)) \<and> point_to_segment_distance p a b \<le> tol"
proof -
  let ?sw = "radians (cu_sweep_deg c)"
  from assms(1) have sweep: "cu_sweep_deg c \<noteq> 0" by (auto simp: mk_curve_def split: if_splits)
  have max: "maximum_radius_mm c = Inr r" using assms(2) by (simp add: maximum_radius_mm_def)
  then obtain n where n: "chord_segment_count c tol = Inr n" using assms(4) by (simp add: chord_segment_count_def)
  have "linearize_curve c tol = Inr (map (\<lambda>i. circle_point (cu_center c) r
      (radians (cu_start_angle_deg c + cu_sweep_deg c * (real i / real n)))) [0..<n + 1])" (is "_ = Inr (map ?pt _)")
    unfolding linearize_curve_def n bindR_simps
    by (intro traverse_all_Inr point_at_circle [OF assms(2)]) (auto simp: divide_le_eq)
  moreover have "point_at_fraction c f =
      Inr (circle_point (cu_center c) r (radians (cu_start_angle_deg c + cu_sweep_deg c * f)))" (is "_ = Inr ?p")
    using point_at_circle [OF assms(2,5,6)] .
  moreover have "\<exists>i < n. point_to_segment_distance ?p (?pt i) (?pt (Suc i)) \<le> tol"
  proof -
    from chord_half_step [OF max assms(3,4) n] have n0: "0 < n"
      and half: "\<bar>?sw\<bar> / (2 * real n) \<le> max_chord_step r tol / 2" by auto
    let ?h = "?sw / (2 * real n)"
    have h: "\<bar>?h\<bar> \<le> pi / 2" using half max_chord_step_bounds [OF assms(3,4)] n0 by (simp add: abs_divide)
    have h0: "?h \<noteq> 0" using sweep n0 by (simp add: radians_def)
    define i where "i = min (nat \<lfloor>f * real n\<rfloor>) (n - 1)"
    have i: "i < n" using n0 by (simp add: i_def)
    have fl: "real i \<le> f * real n" "f * real n \<le> real i + 1"
    proof -
      have "0 \<le> f * real n" using assms(5) by simp
      then have fn: "real (nat \<lfloor>f * real n\<rfloor>) \<le> f * real n" "f * real n < real (nat \<lfloor>f * real n\<rfloor>) + 1" by linarith+
      then show "real i \<le> f * real n" by (simp add: i_def min_def)
      have "f * real n \<le> real n" using mult_right_mono [OF assms(6), of "real n"] by simp
      with fn n0 show "f * real n \<le> real i + 1" by (auto simp: i_def min_def of_nat_diff)
    qed
    let ?e = "?sw * (f - (real i + 1 / 2) / real n)" and ?m = "radians (cu_start_angle_deg c + cu_sweep_deg c * ((real i + 1 / 2) / real n))"
    have frac: "\<bar>f - (real i + 1 / 2) / real n\<bar> \<le> 1 / (2 * real n)"
      using fl n0 by (auto simp: abs_le_iff field_simps)
    then have "\<bar>?sw\<bar> * \<bar>f - (real i + 1 / 2) / real n\<bar> \<le> \<bar>?sw\<bar> * (1 / (2 * real n))"
      by (intro mult_left_mono) auto
    then have e: "\<bar>?e\<bar> \<le> \<bar>?h\<bar>" by (simp add: abs_mult abs_divide)
    have pm: "?p = circle_point (cu_center c) r (?m + ?e)"
      by (simp add: radians_def algebra_simps add_divide_distrib)
    have "(real i + 1 / 2) / real n - 1 / (2 * real n) = real i / real n"
      "(real i + 1 / 2) / real n + 1 / (2 * real n) = real (Suc i) / real n"
      using n0 by (auto simp: field_simps)
    moreover have "?m - ?h = radians (cu_start_angle_deg c + cu_sweep_deg c * ((real i + 1 / 2) / real n - 1 / (2 * real n)))"
      "?m + ?h = radians (cu_start_angle_deg c + cu_sweep_deg c * ((real i + 1 / 2) / real n + 1 / (2 * real n)))"
      by (simp_all add: radians_def algebra_simps)
    ultimately have am: "?pt i = circle_point (cu_center c) r (?m - ?h)"
      and bm: "?pt (Suc i) = circle_point (cu_center c) r (?m + ?h)" by simp_all
    have "r * (1 - cos ?h) \<le> tol"
      using chord_sagitta [OF max assms(3,4) n] n0 by (cases "0 \<le> ?sw") auto
    with chord_deviation [OF less_imp_le [OF assms(3)] e h h0, of "cu_center c" ?m] i show ?thesis
      unfolding pm [symmetric] am [symmetric] bm [symmetric] by (blast intro: order_trans)
  qed
  ultimately show ?thesis using zip_tl_map_upt [of _ n ?pt] by blast
qed
theorem linearize_within_tolerance_witness:
  "\<exists>c ps. normalize_circle (Point2D 0 0) 5 = Inr c \<and> linearize_curve c (1 / 100) = Inr ps"
proof -
  let ?c = "\<lparr>cu_kind = CIRCLE, cu_center = Point2D 0 0, cu_start_angle_deg = 0, cu_sweep_deg = 360,
       cu_radius_mm = Some 5, cu_semi_major_mm = None, cu_semi_minor_mm = None, cu_rotation_deg = 0\<rparr>"
  have "mk_curve ?c = Inr ?c" by (simp add: mk_curve_def)
  from linearize_within_tolerance [OF this, of 5 "1 / 100" "1 / 2"] obtain ps
    where "linearize_curve ?c (1 / 100) = Inr ps" by auto
  moreover have "normalize_circle (Point2D 0 0) 5 = Inr ?c" by (simp add: normalize_circle_def mk_curve_def)
  ultimately show ?thesis by blast
qed

subsection \<open>Bolt circles\<close>

lemma circle_chord:
  assumes "0 \<le> r"
  shows "distance_to (circle_point c r t) (circle_point c r u) = 2 * r * \<bar>sin ((t - u) / 2)\<bar>"
proof -
  have "(cos t - cos u)\<^sup>2 + (sin t - sin u)\<^sup>2 = 2 - 2 * cos (t - u)"
    using sin_cos_squared_add [of t] sin_cos_squared_add [of u]
    unfolding power2_diff cos_diff by (simp add: algebra_simps)
  also have "\<dots> = (2 * sin ((t - u) / 2))\<^sup>2"
  proof -
    define v where "v = (t - u) / 2"
    have "t - u = 2 * v" by (simp add: v_def)
    then show ?thesis unfolding v_def [symmetric] by (simp only: cos_double_sin power_mult_distrib) simp
  qed
  finally have "(r * (cos t - cos u))\<^sup>2 + (r * (sin t - sin u))\<^sup>2 = (2 * r * \<bar>sin ((t - u) / 2)\<bar>)\<^sup>2"
    by (simp add: power_mult_distrib flip: distrib_left)
  then have "distance_to (circle_point c r t) (circle_point c r u) = sqrt ((2 * r * \<bar>sin ((t - u) / 2)\<bar>)\<^sup>2)"
    by (simp add: distance_to_def circle_point_def right_diff_distrib)
  with assms show ?thesis by simp
qed

lemma circle_point_radius: "0 \<le> r \<Longrightarrow> distance_to c (circle_point c r t) = r"
proof -
  assume r: "0 \<le> r"
  have "(r * cos t)\<^sup>2 + (r * sin t)\<^sup>2 = r\<^sup>2 * ((sin t)\<^sup>2 + (cos t)\<^sup>2)"
    unfolding power_mult_distrib distrib_left by (rule add.commute)
  also have "\<dots> = r\<^sup>2" by (simp only: sin_cos_squared_add mult_1_right)
  finally have eq: "(r * cos t)\<^sup>2 + (r * sin t)\<^sup>2 = r\<^sup>2" .
  have "distance_to c (circle_point c r t) = sqrt ((r * cos t)\<^sup>2 + (r * sin t)\<^sup>2)"
    unfolding distance_to_def circle_point_def by (simp del: power_mult_distrib)
  with r show ?thesis unfolding eq by simp
qed

text \<open>
  A bolt circle is what its name says: it has as many holes as asked, every hole centre is
  exactly half the pitch circle diameter away from the centre, and the distance between
  neighbours, the last and the first included, is the same all around, whichever way the
  angles advance.
\<close>

theorem bolt_circle_equally_spaced:
  assumes "bolt_circle c pcd num start clockwise = Inr ps"
  shows "\<exists>d. pcd = Fin d \<and> 0 < d \<and> 1 \<le> num \<and> length ps = nat num \<and>
    (\<forall>p \<in> set ps. distance_to c p = d / 2) \<and>
    (\<forall>i < length ps. distance_to (ps ! i) (ps ! (Suc i mod length ps)) = d * sin (pi / of_int num))"
proof -
  from assms obtain d s where d: "pcd = Fin d" "start = Fin s" "0 < d" "1 \<le> num"
    and ps: "ps = map (\<lambda>i. circle_point c (d / 2)
      (radians (s + (if clockwise then - 1 else 1) * (360 / of_int num) * real i))) [0..<nat num]"
    by (auto simp: bolt_circle_def bindR_Inr_iff circle_point_def Let_def split: if_splits)
  let ?dir = "(if clockwise then - 1 else 1) :: real"
  let ?t = "\<lambda>i. radians (s + ?dir * (360 / of_int num) * real i)"
  have len: "length ps = nat num" by (simp add: ps)
  have n: "real (nat num) = of_int num" "0 < real_of_int num" using d(4) by auto
  have "distance_to (ps ! i) (ps ! (Suc i mod length ps)) = d * sin (pi / of_int num)" if i: "i < length ps" for i
  proof -
    have si: "Suc i mod nat num < nat num" using d(4) by simp
    have sin0: "0 \<le> sin (pi / of_int num)" using d(4) by (intro sin_ge_zero) (auto simp: field_simps)
    have "\<bar>sin ((?t i - ?t (Suc i mod nat num)) / 2)\<bar> = sin (pi / of_int num)"
    proof (cases "Suc i < nat num")
      case True
      then have "(?t i - ?t (Suc i mod nat num)) / 2 = - ?dir * (pi / of_int num)"
        by (simp add: radians_def field_simps)
      with sin0 show ?thesis by auto
    next
      case False
      with i len have "Suc i = nat num" by simp
      then have "real i = of_int num - 1" "Suc i mod nat num = 0" using n(1) d(4) by auto
      then have "(?t i - ?t (Suc i mod nat num)) / 2 = ?dir * (pi - pi / of_int num)"
        using n(2) by (simp add: radians_def field_simps) (simp add: \<open>real i = _\<close> algebra_simps)
      with sin0 show ?thesis by auto
    qed
    with d(3) i si len show ?thesis by (simp add: ps circle_chord)
  qed
  moreover have "\<forall>p \<in> set ps. distance_to c p = d / 2" using d(3) by (auto simp: ps circle_point_radius)
  ultimately show ?thesis using d len by blast
qed

theorem bolt_circle_equally_spaced_witness:
  "\<exists>ps. bolt_circle (Point2D 10 20) (Fin 80) 6 (Fin 30) False = Inr ps \<and> length ps = 6 \<and>
    distance_to (ps ! 5) (ps ! 0) = 80 * sin (pi / 6)"
proof -
  obtain ps where ps: "bolt_circle (Point2D 10 20) (Fin 80) 6 (Fin 30) False = Inr ps"
    by (simp add: bolt_circle_def)
  from bolt_circle_equally_spaced [OF this] have l: "length ps = 6"
    and all: "\<forall>i < length ps. distance_to (ps ! i) (ps ! (Suc i mod length ps)) = 80 * sin (pi / 6)" by auto
  from all l have "distance_to (ps ! 5) (ps ! (Suc 5 mod length ps)) = 80 * sin (pi / 6)"
    by (elim allE [of _ 5]) simp
  then have "distance_to (ps ! 5) (ps ! 0) = 80 * sin (pi / 6)" using l by simp
  with ps l show ?thesis by blast
qed

end
