(* ===== verification/Areas.thy ===== *)
theory Areas
  imports Curves
begin

section \<open>Areas of mixed contours and the containment forest\<close>

text \<open>
  Models \<open>geometry/areas.py\<close>: contours whose edges are lines or curves, their exact signed area
  by Green's theorem, their perimeter, and the forest of nested contours with even/odd
  material. The depth of a contour is found by walking up the parents with the set of visited
  contours, as the code does; \<open>depth_walk\<close> is total because that set grows.
\<close>

subsection \<open>Contours\<close>

datatype contour_edge =
    LineEdge (le_start: point2d) (le_end: point2d)
  | CurveEdge curve_params

datatype contour = PolyContour polyline2d | CurveContour "contour_edge list"

definition mk_curve_contour :: "contour_edge list \<Rightarrow> contour res" where
  "mk_curve_contour edges =
     (if edges = [] then Inl (Err InvalidGeometryError ''A contour needs at least one edge'')
      else Inr (CurveContour edges))"

definition edge_points :: "real \<Rightarrow> contour_edge \<Rightarrow> point2d list res" where
  "edge_points tol e = (case e of LineEdge a b \<Rightarrow> Inr [a, b] | CurveEdge c \<Rightarrow> linearize_curve c tol)"

definition contour_vertices :: "contour_edge list \<Rightarrow> real \<Rightarrow> point2d list res" where
  "contour_vertices edges tol =
     bindR (traverse (edge_points tol) edges) (\<lambda>pss.
       let points = fold (\<lambda>ps acc. if acc = [] then ps else acc @ tl ps) pss []
       in Inr (if 1 < length points \<and> distance_to (hd points) (last points) \<le> tol
               then butlast points else points))"

definition point_cross :: "point2d \<Rightarrow> point2d \<Rightarrow> real" where
  "point_cross a b = px a * py b - px b * py a"

definition axis_product :: "curve_params \<Rightarrow> real res" where
  "axis_product c =
     (case cu_radius_mm c of Some r \<Rightarrow> Inr (r\<^sup>2)
      | None \<Rightarrow> (case (cu_semi_major_mm c, cu_semi_minor_mm c) of
          (Some a, Some b) \<Rightarrow> Inr (a * b) | _ \<Rightarrow> Inl AssertionError))"

definition edge_area :: "contour_edge \<Rightarrow> real res" where
  "edge_area e =
     (case e of
        LineEdge a b \<Rightarrow> Inr (point_cross a b / 2)
      | CurveEdge c \<Rightarrow>
          bindR (axis_product c) (\<lambda>product.
          bindR (end_point c) (\<lambda>q.
          bindR (start_point c) (\<lambda>p.
            Inr ((point_cross (cu_center c) q - point_cross (cu_center c) p) / 2 +
                 product * radians (cu_sweep_deg c) / 2)))))"

definition signed_contour_area :: "contour \<Rightarrow> real res" where
  "signed_contour_area c =
     (case c of
        PolyContour p \<Rightarrow>
          if \<not> closed p then Inl (Err InvalidGeometryError ''Area is undefined for an open contour'')
          else Inr (signed_area p)
      | CurveContour edges \<Rightarrow> bindR (traverse edge_area edges) (\<lambda>xs. Inr (sum_list xs)))"

definition contour_area :: "contour \<Rightarrow> real res" where
  "contour_area c = bindR (signed_contour_area c) (\<lambda>a. Inr \<bar>a\<bar>)"

subsection \<open>Lengths\<close>

definition ellipse_speed :: "real \<Rightarrow> real \<Rightarrow> real \<Rightarrow> real" where
  "ellipse_speed a b t = sqrt ((a * sin t)\<^sup>2 + (b * cos t)\<^sup>2)"

text \<open>Simpson's rule on 4096 intervals.\<close>

definition ellipse_arc_length :: "curve_params \<Rightarrow> real res" where
  "ellipse_arc_length c =
     (case (cu_semi_major_mm c, cu_semi_minor_mm c) of
        (Some a, Some b) \<Rightarrow>
          let start = radians (cu_start_angle_deg c); end = radians (end_angle_deg c);
              step = (end - start) / 4096;
              total = ellipse_speed a b start + ellipse_speed a b end +
                sum_list (map (\<lambda>i. (if odd i then 4 else 2) * ellipse_speed a b (start + real i * step)) [1..<4096])
          in Inr \<bar>total * step / 3\<bar>
      | _ \<Rightarrow> Inl AssertionError)"

definition curve_length :: "curve_params \<Rightarrow> real res" where
  "curve_length c =
     (case cu_radius_mm c of
        Some r \<Rightarrow> Inr (r * \<bar>radians (cu_sweep_deg c)\<bar>)
      | None \<Rightarrow> ellipse_arc_length c)"

definition edge_length :: "contour_edge \<Rightarrow> real res" where
  "edge_length e = (case e of LineEdge a b \<Rightarrow> Inr (distance_to a b) | CurveEdge c \<Rightarrow> curve_length c)"

definition contour_perimeter :: "contour \<Rightarrow> real res" where
  "contour_perimeter c =
     (case c of
        PolyContour p \<Rightarrow>
          if \<not> closed p then Inl (Err InvalidGeometryError ''Perimeter is undefined for an open contour'')
          else Inr (perimeter p)
      | CurveContour edges \<Rightarrow> bindR (traverse edge_length edges) (\<lambda>xs. Inr (sum_list xs)))"

definition as_polyline :: "tolerance_profile \<Rightarrow> contour \<Rightarrow> polyline2d res" where
  "as_polyline t c =
     (case c of
        PolyContour p \<Rightarrow> Inr p
      | CurveContour edges \<Rightarrow>
          bindR (contour_vertices edges (tp_arc_chord_tolerance_mm t)) (\<lambda>vs. mk_polyline vs True))"

subsection \<open>The containment forest\<close>

record contour_node =
  cn_contour :: contour
  cn_parent_index :: "nat option"
  cn_depth :: nat
  cn_area_mm2 :: real

definition is_open_polyline :: "contour \<Rightarrow> bool" where
  "is_open_polyline c = (case c of PolyContour p \<Rightarrow> \<not> closed p | CurveContour _ \<Rightarrow> False)"

definition containers ::
  "tolerance_profile \<Rightarrow> real list \<Rightarrow> polyline2d list \<Rightarrow> nat \<Rightarrow> nat list" where
  "containers t areas polylines index =
     filter (\<lambda>candidate. candidate \<noteq> index \<and> areas ! index < areas ! candidate \<and>
         contains_contour (polylines ! candidate) (polylines ! index) t) [0..<length polylines]"

text \<open>\<open>min(xs, key=lambda i: (areas[i], i), default=None)\<close>.\<close>

fun smallest_of :: "real list \<Rightarrow> nat list \<Rightarrow> nat option" where
  "smallest_of areas [] = None"
| "smallest_of areas (i # is) =
     (case smallest_of areas is of
        None \<Rightarrow> Some i
      | Some j \<Rightarrow> Some (if areas ! j < areas ! i \<or> (areas ! j = areas ! i \<and> j < i) then j else i))"

text \<open>The loop that counts the ancestors of a contour.\<close>

function (sequential) depth_walk :: "nat option list \<Rightarrow> nat list \<Rightarrow> nat option \<Rightarrow> nat \<Rightarrow> nat res" where
  "depth_walk parents seen None depth = Inr depth"
| "depth_walk parents seen (Some p) depth =
     (if p \<in> set seen then Inl (Err InvalidGeometryError ''Contour containment cycle detected'')
      else if length parents \<le> p then Inl (IndexError ''tuple index out of range'')
      else depth_walk parents (p # seen) (parents ! p) (Suc depth))"
  by pat_completeness auto
termination
proof (relation "measure (\<lambda>(parents, seen, q, d). card ({..<length parents} - set seen) + (if q = None then 0 else 1))")
  fix parents :: "nat option list" and seen p depth
  assume p: "p \<notin> set seen" "\<not> length parents \<le> p"
  have "p \<in> {..<length parents} - set seen" using p by simp
  moreover have "p \<notin> {..<length parents} - set (p # seen)" by simp
  moreover have "{..<length parents} - set (p # seen) \<subseteq> {..<length parents} - set seen"
    by (rule Diff_mono) auto
  ultimately have "{..<length parents} - set (p # seen) \<subset> {..<length parents} - set seen" by blast
  then have card: "card ({..<length parents} - set (p # seen)) < card ({..<length parents} - set seen)"
    by (intro psubset_card_mono) auto
  have step: "a + (if b then 0 else 1) < c + 1" if "a < c" for a c :: nat and b using that by simp
  from card have "card ({..<length parents} - set (p # seen)) + (if parents ! p = None then 0 else 1) <
      card ({..<length parents} - set seen) + 1"
    by (rule step)
  then show "((parents, p # seen, parents ! p, Suc depth), (parents, seen, Some p, depth)) \<in>
      measure (\<lambda>(parents, seen, q, d). card ({..<length parents} - set seen) + (if q = None then 0 else 1))"
    by (simp only: in_measure split_conv option.distinct if_False)
qed simp

definition forest_build :: "contour list \<Rightarrow> tolerance_profile \<Rightarrow> contour_node list res" where
  "forest_build contours t =
     (if list_ex is_open_polyline contours
      then Inl (Err InvalidGeometryError ''Contour forests accept only closed contours'')
      else bindR (traverse contour_area contours) (\<lambda>areas.
        bindR (traverse (as_polyline t) contours) (\<lambda>polylines.
          let parents = map (\<lambda>i. smallest_of areas (containers t areas polylines i)) [0..<length polylines]
          in bindR (traverse (\<lambda>i. depth_walk parents [i] (parents ! i) 0) [0..<length contours]) (\<lambda>depths.
               Inr (map (\<lambda>i. \<lparr>cn_contour = contours ! i, cn_parent_index = parents ! i,
                     cn_depth = depths ! i, cn_area_mm2 = areas ! i\<rparr>) [0..<length contours])))))"

definition forest_roots :: "contour_node list \<Rightarrow> contour_node list" where
  "forest_roots nodes = filter (\<lambda>n. cn_parent_index n = None) nodes"

definition max_depth :: "contour_node list \<Rightarrow> nat" where
  "max_depth nodes = fold max (map cn_depth nodes) 0"

definition net_area_mm2 :: "contour_node list \<Rightarrow> real" where
  "net_area_mm2 nodes =
     sum_list (map (\<lambda>n. cn_area_mm2 n * (if cn_depth n mod 2 = 0 then 1 else - 1)) nodes)"

definition total_perimeter_mm :: "contour_node list \<Rightarrow> real res" where
  "total_perimeter_mm nodes =
     bindR (traverse (\<lambda>n. contour_perimeter (cn_contour n)) nodes) (\<lambda>xs. Inr (sum_list xs))"

subsection \<open>Depths follow the parents\<close>

definition growing :: "real list \<Rightarrow> nat option list \<Rightarrow> bool" where
  "growing areas parents \<longleftrightarrow>
     (\<forall>i < length parents. \<forall>p. parents ! i = Some p \<longrightarrow> p < length parents \<and> areas ! i < areas ! p)"

definition below :: "real list \<Rightarrow> nat list \<Rightarrow> nat option \<Rightarrow> bool" where
  "below areas seen q \<longleftrightarrow> (\<forall>p. q = Some p \<longrightarrow> (\<forall>s \<in> set seen. areas ! s < areas ! p))"

lemma smallest_of_in: "smallest_of areas is = Some j \<Longrightarrow> j \<in> set is"
  by (induction areas "is" arbitrary: j rule: smallest_of.induct)
    (fastforce split: option.splits if_splits)+

lemma smallest_of_None: "smallest_of areas is = None \<longleftrightarrow> is = []"
  by (cases "is") (auto split: option.splits)

lemma smallest_of_least: "smallest_of areas is = Some j \<Longrightarrow> i \<in> set is \<Longrightarrow> areas ! j \<le> areas ! i"
proof (induction areas "is" arbitrary: i j rule: smallest_of.induct)
  case (2 areas a "is")
  show ?case
  proof (cases "smallest_of areas is")
    case None
    with 2(2,3) show ?thesis by (auto simp: smallest_of_None)
  next
    case (Some k)
    from 2(1) [OF Some] have "\<And>i. i \<in> set is \<Longrightarrow> areas ! k \<le> areas ! i" .
    with 2(2,3) Some show ?thesis by (fastforce split: if_splits)
  qed
qed simp

lemma below_step:
  assumes "growing areas parents" and "p < length parents" and "below areas seen (Some p)"
  shows "below areas (p # seen) (parents ! p)"
  using assms unfolding growing_def below_def by (auto intro: less_trans)

text \<open>Above a contour of larger area than all visited ones the walk never meets a visited one.\<close>

lemma depth_walk_height:
  fixes d :: nat
  assumes "growing areas parents" and "below areas seen q" and "\<And>p. q = Some p \<Longrightarrow> p < length parents"
  shows "\<exists>k. \<forall>seen' d'. below areas seen' q \<longrightarrow> depth_walk parents seen' q d' = Inr (d' + k)"
  using assms
proof (induction parents seen q d rule: depth_walk.induct)
  case (1 parents seen d)
  show ?case by (intro exI [of _ 0]) simp
next
  case (2 parents seen p d)
  then have p: "p < length parents" by blast
  have fresh: "p \<notin> set seen'" if "below areas seen' (Some p)" for seen'
    using that by (force simp: below_def)
  have next_lt: "r < length parents" if "parents ! p = Some r" for r
    using 2(2) p that by (auto simp: growing_def)
  from 2(1) [OF fresh [OF 2(3)] _ 2(2) below_step [OF 2(2) p 2(3)] next_lt] p obtain k where
    k: "\<And>seen' d'. below areas seen' (parents ! p) \<Longrightarrow> depth_walk parents seen' (parents ! p) d' = Inr (d' + k)"
    by auto
  have "depth_walk parents seen' (Some p) d' = Inr (d' + Suc k)" if "below areas seen' (Some p)" for seen' d'
    using p fresh [OF that] k [OF below_step [OF 2(2) p that]] by simp
  then show ?case by blast
qed

lemma containers_mem:
  "j \<in> set (containers t areas polylines i) \<longleftrightarrow>
     j < length polylines \<and> j \<noteq> i \<and> areas ! i < areas ! j \<and> contains_contour (polylines ! j) (polylines ! i) t"
  by (auto simp: containers_def)

text \<open>
  C35: The containment forest always exists and is well formed: for closed contours whose areas
  and polylines could be computed, building it never fails with a cycle; a contour has a parent
  exactly when some contour of larger area contains it, the parent is the smallest of these, and
  the depth of a contour is one more than that of its parent and zero for a root, so that
  even and odd depths are material and holes.
\<close>

theorem contour_forest_sound:
  assumes "\<not> list_ex is_open_polyline cs"
    and "traverse contour_area cs = Inr areas" and "traverse (as_polyline t) cs = Inr ps"
  shows "\<exists>nodes. forest_build cs t = Inr nodes \<and> length nodes = length cs \<and>
    (\<forall>i < length nodes. cn_contour (nodes ! i) = cs ! i \<and> cn_area_mm2 (nodes ! i) = areas ! i \<and>
      (case cn_parent_index (nodes ! i) of
         None \<Rightarrow> cn_depth (nodes ! i) = 0 \<and> containers t areas ps i = []
       | Some p \<Rightarrow> p \<in> set (containers t areas ps i) \<and>
           (\<forall>j \<in> set (containers t areas ps i). areas ! p \<le> areas ! j) \<and>
           cn_depth (nodes ! i) = Suc (cn_depth (nodes ! p))))"
proof -
  let ?ps = "map (\<lambda>i. smallest_of areas (containers t areas ps i)) [0..<length ps]"
  from assms(2,3) have len: "length areas = length cs" "length ps = length cs"
    by (auto simp: traverse_Inr_iff dest: list_all2_lengthD)
  have parent: "?ps ! i = smallest_of areas (containers t areas ps i)" if "i < length cs" for i
    using that len by simp
  have grow: "growing areas ?ps"
    using len by (auto simp: growing_def containers_mem dest!: smallest_of_in)
  have ex: "\<exists>k. depth_walk ?ps [i] (?ps ! i) 0 = Inr k \<and>
      (case ?ps ! i of None \<Rightarrow> k = 0 | Some p \<Rightarrow> (\<exists>m. depth_walk ?ps [p] (?ps ! p) 0 = Inr m \<and> k = Suc m))"
    if i: "i < length cs" for i
  proof (cases "?ps ! i")
    case None
    then show ?thesis by simp
  next
    case (Some p)
    with i len grow have p: "p < length ?ps" "areas ! i < areas ! p" by (auto simp: growing_def)
    then have b: "below areas [i] (Some p)" by (simp add: below_def)
    have b1: "below areas [p, i] (?ps ! p)" "below areas [p] (?ps ! p)"
      using below_step [OF grow p(1) b] by (auto simp: below_def)
    from depth_walk_height [OF grow b1(1)] grow p(1) obtain k where
      k: "\<And>seen' d'. below areas seen' (?ps ! p) \<Longrightarrow> depth_walk ?ps seen' (?ps ! p) d' = Inr (d' + k)"
      unfolding growing_def by blast
    from p have "i \<noteq> p" by auto
    with p(1) have "depth_walk ?ps [i] (Some p) 0 = depth_walk ?ps [p, i] (?ps ! p) (Suc 0)" by simp
    with k [OF b1(1)] k [OF b1(2)] Some show ?thesis by simp
  qed
  define h where "h i = (case depth_walk ?ps [i] (?ps ! i) 0 of Inr k \<Rightarrow> k | Inl _ \<Rightarrow> 0)" for i
  have h: "depth_walk ?ps [i] (?ps ! i) 0 = Inr (h i)"
    and step: "case ?ps ! i of None \<Rightarrow> h i = 0
        | Some p \<Rightarrow> (\<exists>m. depth_walk ?ps [p] (?ps ! p) 0 = Inr m \<and> h i = Suc m)" if "i < length cs" for i
  proof -
    from ex [OF that] obtain k where k: "depth_walk ?ps [i] (?ps ! i) 0 = Inr k"
      "case ?ps ! i of None \<Rightarrow> k = 0 | Some p \<Rightarrow> (\<exists>m. depth_walk ?ps [p] (?ps ! p) 0 = Inr m \<and> k = Suc m)" by blast
    from k(1) have "h i = k" unfolding h_def by (simp only: sum.case)
    with k show "depth_walk ?ps [i] (?ps ! i) 0 = Inr (h i)" "case ?ps ! i of None \<Rightarrow> h i = 0
        | Some p \<Rightarrow> (\<exists>m. depth_walk ?ps [p] (?ps ! p) 0 = Inr m \<and> h i = Suc m)" by (simp_all only:)
  qed
  let ?node = "\<lambda>i. \<lparr>cn_contour = cs ! i, cn_parent_index = ?ps ! i, cn_depth = h i, cn_area_mm2 = areas ! i\<rparr>"
  have "traverse (\<lambda>i. depth_walk ?ps [i] (?ps ! i) 0) [0..<length cs] = Inr (map h [0..<length cs])"
    by (rule traverse_all_Inr) (simp only: h set_upt atLeastLessThan_iff)
  then have "forest_build cs t = Inr (map (\<lambda>i. \<lparr>cn_contour = cs ! i, cn_parent_index = ?ps ! i,
      cn_depth = map h [0..<length cs] ! i, cn_area_mm2 = areas ! i\<rparr>) [0..<length cs])"
    unfolding forest_build_def by (simp only: assms if_False bindR_simps Let_def)
  then have build: "forest_build cs t = Inr (map ?node [0..<length cs])"
    by (simp cong: map_cong)
  have "case ?ps ! i of None \<Rightarrow> h i = 0 \<and> containers t areas ps i = []
     | Some p \<Rightarrow> p \<in> set (containers t areas ps i) \<and>
         (\<forall>j \<in> set (containers t areas ps i). areas ! p \<le> areas ! j) \<and> h i = Suc (h p)" if i: "i < length cs" for i
  proof (cases "?ps ! i")
    case None
    with parent [OF i] have "smallest_of areas (containers t areas ps i) = None" by simp
    then have "containers t areas ps i = []" unfolding smallest_of_None .
    with step [OF i] None show ?thesis by (simp del: nth_map)
  next
    case (Some p)
    with parent [OF i] have sm: "smallest_of areas (containers t areas ps i) = Some p" by simp
    from smallest_of_in [OF sm] len have "p < length cs" by (simp add: containers_mem)
    with step [OF i] Some h [of p] have "h i = Suc (h p)" by auto
    with smallest_of_in [OF sm] smallest_of_least [OF sm] Some show ?thesis by simp
  qed
  moreover have "p < length cs" if "i < length cs" "?ps ! i = Some p" for i p
    using grow that len by (auto simp: growing_def)
  moreover have nodes: "case ?ps ! i of None \<Rightarrow> h i = 0 \<and> containers t areas ps i = []
     | Some p \<Rightarrow> p < length cs \<and> p \<in> set (containers t areas ps i) \<and>
         (\<forall>j \<in> set (containers t areas ps i). areas ! p \<le> areas ! j) \<and> h i = Suc (h p)" if "i < length cs" for i
  proof (cases "?ps ! i")
    case None
    with calculation(1) [OF that] show ?thesis by (simp del: nth_map)
  next
    case (Some p)
    with calculation(1) [OF that] calculation(2) [OF that Some] show ?thesis by (simp del: nth_map)
  qed
  have nth: "map ?node [0..<length cs] ! i = ?node i" if "i < length cs" for i
    using that by simp
  show ?thesis
  proof (intro exI conjI allI impI)
    show "forest_build cs t = Inr (map ?node [0..<length cs])" by (rule build)
    show "length (map ?node [0..<length cs]) = length cs" by simp
    fix i assume "i < length (map ?node [0..<length cs])"
    then have i: "i < length cs" by simp
    note n = nth [OF i]
    show "cn_contour (map ?node [0..<length cs] ! i) = cs ! i" unfolding n by simp
    show "cn_area_mm2 (map ?node [0..<length cs] ! i) = areas ! i" unfolding n by simp
    show "case cn_parent_index (map ?node [0..<length cs] ! i) of
         None \<Rightarrow> cn_depth (map ?node [0..<length cs] ! i) = 0 \<and> containers t areas ps i = []
       | Some p \<Rightarrow> p \<in> set (containers t areas ps i) \<and>
           (\<forall>j \<in> set (containers t areas ps i). areas ! p \<le> areas ! j) \<and>
           cn_depth (map ?node [0..<length cs] ! i) = Suc (cn_depth (map ?node [0..<length cs] ! p))"
    proof (cases "?ps ! i")
      case None
      with nodes [OF i] show ?thesis unfolding n by (simp del: nth_map)
    next
      case (Some p)
      with nodes [OF i] have "p < length cs" by simp
      from nth [OF this] nodes [OF i] Some show ?thesis unfolding n by (simp del: nth_map)
    qed
  qed
qed

theorem contour_forest_sound_witness:
  "\<exists>nodes. forest_build
     [PolyContour (Polyline2D [Point2D 0 0, Point2D 9 0, Point2D 9 9, Point2D 0 9] True),
      PolyContour (Polyline2D [Point2D 3 3, Point2D 6 3, Point2D 6 6, Point2D 3 6] True)]
     (default_tolerance ''t'' ''1'') = Inr nodes \<and> length nodes = 2"
  by (rule exE [OF contour_forest_sound [of
     "[PolyContour (Polyline2D [Point2D 0 0, Point2D 9 0, Point2D 9 9, Point2D 0 9] True),
       PolyContour (Polyline2D [Point2D 3 3, Point2D 6 3, Point2D 6 6, Point2D 3 6] True)]" "[81, 9]"
     "default_tolerance ''t'' ''1''"
     "[Polyline2D [Point2D 0 0, Point2D 9 0, Point2D 9 9, Point2D 0 9] True,
       Polyline2D [Point2D 3 3, Point2D 6 3, Point2D 6 6, Point2D 3 6] True]"]])
    (auto simp: is_open_polyline_def contour_area_def signed_contour_area_def signed_area_def shoelace_def
      as_polyline_def)

subsection \<open>The analytic area agrees with the shoelace formula\<close>

lemma zip_rotate1: "vs \<noteq> [] \<Longrightarrow> zip vs (tl vs @ [hd vs]) = zip vs (tl vs) @ [(last vs, hd vs)]"
proof (induction vs)
  case (Cons v vs)
  have "zip (v # ws) (ws @ [x]) = zip (v # ws) ws @ [(last (v # ws), x)]" for v x :: 'a and ws
    by (induction ws arbitrary: v) auto
  then show ?case by simp
qed simp

lemma line_contour_area:
  assumes "closed p" and "vertices p \<noteq> []"
  shows "signed_contour_area (CurveContour (map (\<lambda>(a, b). LineEdge a b) (segments p))) =
    signed_contour_area (PolyContour p)"
proof -
  have "traverse edge_area (map (\<lambda>(a, b). LineEdge a b) es) = Inr (map (\<lambda>(a, b). point_cross a b / 2) es)" for es
    by (induction es) (auto simp: edge_area_def)
  moreover have "sum_list (map (\<lambda>(a, b). point_cross a b / 2) es) =
      sum_list (map (\<lambda>(a, b). px a * py b - px b * py a) es) / 2" for es
    by (induction es) (auto simp: point_cross_def field_simps)
  ultimately have "signed_contour_area (CurveContour (map (\<lambda>(a, b). LineEdge a b) es)) =
      Inr (sum_list (map (\<lambda>(a, b). px a * py b - px b * py a) es) / 2)" for es
    unfolding signed_contour_area_def contour.case by (simp only: bindR_simps)
  moreover have "zip (vertices p) (tl (vertices p) @ [hd (vertices p)]) = segments p"
    using assms by (simp add: segments_def Let_def zip_rotate1)
  ultimately show ?thesis using assms(1)
    by (simp add: signed_contour_area_def signed_area_def shoelace_def)
qed

lemma disc_area:
  assumes "normalize_circle c r = Inr d"
  shows "contour_area (CurveContour [CurveEdge d]) = Inr (pi * r\<^sup>2)"
  using assms by (auto simp: normalize_circle_def mk_curve_def contour_area_def signed_contour_area_def
      edge_area_def axis_product_def end_point_def start_point_def point_at_fraction_def radians_def
      split: if_splits)

end
