(* ===== verification/Cutouts.thy ===== *)
theory Cutouts
  imports Areas
begin

section \<open>Cutouts, keyways, fillets and chamfers\<close>

text \<open>
  Models \<open>geometry/cutouts.py\<close> and \<open>geometry/fillet_chamfer.py\<close>: the constructions that change an
  outline. The numbers a caller passes are \<open>pyfloat\<close> until the code has checked them with
  \<open>require_finite\<close>; points and directions are exact reals.
\<close>

subsection \<open>Helpers of both modules\<close>

definition unit_between :: "string \<Rightarrow> point2d \<Rightarrow> point2d \<Rightarrow> vector2d res" where
  "unit_between msg a b =
     (let v = vector_to a b in
      if vlength v \<le> 0 then Inl (Err InvalidFeatureParametersError msg) else normalized v)"

definition edge_unit :: "point2d \<Rightarrow> point2d \<Rightarrow> vector2d res" where
  "edge_unit = unit_between ''Cutout cannot use a zero-length edge''"

definition unit_from_vertex :: "point2d \<Rightarrow> point2d \<Rightarrow> vector2d res" where
  "unit_from_vertex = unit_between ''Adjacent edge has zero length''"

definition offset_point :: "point2d \<Rightarrow> vector2d \<Rightarrow> real \<Rightarrow> point2d" where
  "offset_point p v d = Point2D (px p + vdx v * d) (py p + vdy v * d)"

definition exceeds :: "tolerance_profile \<Rightarrow> real \<Rightarrow> real \<Rightarrow> bool" where
  "exceeds t a limit \<longleftrightarrow> limit < a \<and> \<not> length_close t (Fin a) (Fin limit)"

definition cyc_nth :: "'a list \<Rightarrow> int \<Rightarrow> 'a" where
  "cyc_nth vs i = vs ! nat (i mod int (length vs))"

definition replace_vertex :: "polyline2d \<Rightarrow> nat \<Rightarrow> point2d list \<Rightarrow> polyline2d res" where
  "replace_vertex outline i replacement =
     mk_polyline (take i (vertices outline) @ replacement @ drop (Suc i) (vertices outline)) True"

subsection \<open>Notches and edge cutouts\<close>

record boundary_cutout_result =
  bc_outline :: polyline2d
  bc_removed_contour :: polyline2d
  bc_removed_area_mm2 :: real

definition corner_notch ::
  "polyline2d \<Rightarrow> int \<Rightarrow> pyfloat \<Rightarrow> pyfloat \<Rightarrow> tolerance_profile \<Rightarrow> boundary_cutout_result res" where
  "corner_notch outline corner_index width_mm height_mm t =
     bindR (finite1 width_mm) (\<lambda>w. bindR (finite1 height_mm) (\<lambda>h.
       let vs = vertices outline; n = int (length vs) in
       if \<not> closed outline \<or> \<not> (0 \<le> corner_index \<and> corner_index < n)
       then Inl (Err InvalidFeatureParametersError ''Corner notch needs a closed outline and a valid corner index'')
       else if w \<le> 0 \<or> h \<le> 0
       then Inl (Err InvalidFeatureParametersError ''Notch width and height must be positive'')
       else let previous = cyc_nth vs (corner_index - 1); vertex = vs ! nat corner_index;
                following = cyc_nth vs (corner_index + 1);
                first_length = distance_to vertex previous; second_length = distance_to vertex following
            in if exceeds t w first_length \<or> exceeds t h second_length
               then Inl (Err InvalidFeatureParametersError ''Corner notch exceeds an adjacent edge'')
               else bindR (edge_unit vertex previous) (\<lambda>toward_previous.
                 bindR (edge_unit vertex following) (\<lambda>toward_following.
                   let first = offset_point vertex toward_previous w;
                       second = offset_point vertex toward_following h;
                       inner = offset_point first toward_following h
                   in bindR (mk_polyline [first, vertex, second, inner] True) (\<lambda>removed.
                      bindR (replace_vertex outline (nat corner_index) [first, inner, second]) (\<lambda>result.
                        Inr \<lparr>bc_outline = result, bc_removed_contour = removed,
                             bc_removed_area_mm2 = area removed\<rparr>))))))"

definition edge_cutout ::
  "polyline2d \<Rightarrow> int \<Rightarrow> pyfloat \<Rightarrow> pyfloat \<Rightarrow> pyfloat \<Rightarrow> tolerance_profile \<Rightarrow> boundary_cutout_result res" where
  "edge_cutout outline edge_index offset_mm width_mm depth_mm t =
     bindR (finite1 offset_mm) (\<lambda>off. bindR (finite1 width_mm) (\<lambda>w. bindR (finite1 depth_mm) (\<lambda>d.
       let vs = vertices outline; n = int (length vs) in
       if \<not> closed outline \<or> \<not> (0 \<le> edge_index \<and> edge_index < n)
       then Inl (Err InvalidFeatureParametersError ''Edge cutout needs a closed outline and a valid edge index'')
       else if off < 0 \<or> w \<le> 0 \<or> d \<le> 0
       then Inl (Err InvalidFeatureParametersError ''Cutout offset must be non-negative and width/depth positive'')
       else let start = vs ! nat edge_index; end = cyc_nth vs (edge_index + 1) in
         bindR (edge_unit start end) (\<lambda>direction.
           let edge_length = distance_to start end; extent = off + w in
           if exceeds t extent edge_length
           then Inl (Err InvalidFeatureParametersError ''Edge cutout exceeds its target edge'')
           else let orientation = (if 0 < signed_area outline then 1 else - 1);
                    inward = Vector2D (- vdy direction * orientation) (vdx direction * orientation);
                    first = offset_point start direction off;
                    second = offset_point start direction extent;
                    inner_first = offset_point first inward d;
                    inner_second = offset_point second inward d;
                    ins0 = [first, inner_first, inner_second, second];
                    ins1 = (if is_coincident t (distance_to first start) then tl ins0 else ins0);
                    ins2 = (if is_coincident t (distance_to second end) then butlast ins1 else ins1);
                    k = Suc (nat edge_index)
                in bindR (mk_polyline [first, second, inner_second, inner_first] True) (\<lambda>removed.
                   bindR (mk_polyline (take k vs @ ins2 @ drop k vs) True) (\<lambda>result.
                     Inr \<lparr>bc_outline = result, bc_removed_contour = removed,
                          bc_removed_area_mm2 = area removed\<rparr>))))))"

subsection \<open>Keyways\<close>

record keyway_result =
  kw_contour :: contour
  kw_preview_outline :: polyline2d
  kw_removed_area_mm2 :: real
  kw_center :: point2d
  kw_bore_radius_mm :: real
  kw_key_width_mm :: real
  kw_key_depth_mm :: real

definition keyway_contour ::
  "point2d \<Rightarrow> pyfloat \<Rightarrow> pyfloat \<Rightarrow> pyfloat \<Rightarrow> tolerance_profile \<Rightarrow> keyway_result res" where
  "keyway_contour c bore key_width key_depth t =
     bindR (finite1 bore) (\<lambda>b. bindR (finite1 key_width) (\<lambda>w. bindR (finite1 key_depth) (\<lambda>d.
       if b \<le> 0 \<or> w \<le> 0 \<or> d \<le> 0
       then Inl (Err InvalidFeatureParametersError ''Bore diameter and key dimensions must be positive'')
       else if b \<le> w
       then Inl (Err InvalidFeatureParametersError ''Key width must be smaller than the bore diameter'')
       else let radius = b / 2; half_width = w / 2;
                y_intersection = sqrt (radius * radius - half_width * half_width);
                right = Point2D (px c + half_width) (py c + y_intersection);
                left = Point2D (px c - half_width) (py c + y_intersection);
                top_y = py c + radius + d;
                top_left = Point2D (px left) top_y; top_right = Point2D (px right) top_y;
                left_angle = degrees (atan2 (py left - py c) (px left - px c));
                right_angle = degrees (atan2 (py right - py c) (px right - px c))
            in bindR (normalize_arc c radius left_angle None (Some (360 - left_angle + right_angle))) (\<lambda>arc.
               bindR (mk_curve_contour [CurveEdge arc, LineEdge right top_right, LineEdge top_right top_left,
                   LineEdge top_left left]) (\<lambda>contour.
               bindR (linearize_curve arc (tp_arc_chord_tolerance_mm t)) (\<lambda>arc_points.
               bindR (mk_polyline (butlast arc_points @ [right, top_right, top_left]) True) (\<lambda>preview.
               bindR (contour_area contour) (\<lambda>removed.
                 Inr \<lparr>kw_contour = contour, kw_preview_outline = preview, kw_removed_area_mm2 = removed,
                      kw_center = c, kw_bore_radius_mm = radius, kw_key_width_mm = w, kw_key_depth_mm = d\<rparr>))))))))"

subsection \<open>Fillets\<close>

record fillet_result =
  fi_tangent_in :: point2d
  fi_tangent_out :: point2d
  fi_arc :: curve_params
  fi_maximum_radius_mm :: real

definition interior_angle :: "vector2d \<Rightarrow> vector2d \<Rightarrow> real res" where
  "interior_angle a b =
     (let angle = arccos (max (- 1) (min 1 (dot a b))) in
      if angle \<le> 1 / 10 ^ 12 \<or> pi - angle \<le> 1 / 10 ^ 12
      then Inl (Err InvalidFeatureParametersError ''Fillet/chamfer requires a non-collinear vertex'')
      else Inr angle)"

definition fillet_is_tangent ::
  "fillet_result \<Rightarrow> point2d \<Rightarrow> point2d \<Rightarrow> point2d \<Rightarrow> tolerance_profile \<Rightarrow> bool res" where
  "fillet_is_tangent f previous vertex following t =
     bindR (normalized (vector_to previous vertex)) (\<lambda>incoming.
     bindR (normalized (vector_to vertex following)) (\<lambda>outgoing.
     bindR (maximum_radius_mm (fi_arc f)) (\<lambda>r.
       let first_radius = vector_to (cu_center (fi_arc f)) (fi_tangent_in f);
           second_radius = vector_to (cu_center (fi_arc f)) (fi_tangent_out f);
           first_error = \<bar>dot first_radius incoming\<bar>; second_error = \<bar>dot second_radius outgoing\<bar>;
           scale = max r 1
       in Inr (is_zero_length t (first_error / scale) \<and> is_zero_length t (second_error / scale)))))"

definition fillet_vertex ::
  "point2d \<Rightarrow> point2d \<Rightarrow> point2d \<Rightarrow> pyfloat \<Rightarrow> tolerance_profile \<Rightarrow> fillet_result res" where
  "fillet_vertex previous vertex following radius t =
     bindR (finite1 radius) (\<lambda>r.
       if r \<le> 0 then Inl (Err InvalidFeatureParametersError ''Fillet radius must be positive'')
       else bindR (unit_from_vertex vertex previous) (\<lambda>first.
         bindR (unit_from_vertex vertex following) (\<lambda>second.
         bindR (interior_angle first second) (\<lambda>angle.
           let maximum = min (distance_to vertex previous) (distance_to vertex following) / 2 in
           if exceeds t r maximum
           then Inl (Err InvalidFeatureParametersError ''Fillet radius exceeds the feasible maximum'')
           else let tangent_distance = r / tan (angle / 2);
                    tangent_in = offset_point vertex first tangent_distance;
                    tangent_out = offset_point vertex second tangent_distance
                in bindR (normalized (Vector2D (vdx first + vdx second) (vdy first + vdy second))) (\<lambda>bisector.
                     let c = offset_point vertex bisector (r / sin (angle / 2));
                         start_angle = degrees (atan2 (py tangent_in - py c) (px tangent_in - px c));
                         turn = cross (vector_to previous vertex) (vector_to vertex following);
                         magnitude = 180 - degrees angle;
                         sweep = (if 0 < turn then magnitude else - magnitude)
                     in bindR (normalize_arc c r start_angle None (Some sweep)) (\<lambda>arc.
                          let result = \<lparr>fi_tangent_in = tangent_in, fi_tangent_out = tangent_out,
                                fi_arc = arc, fi_maximum_radius_mm = maximum\<rparr>
                          in bindR (fillet_is_tangent result previous vertex following t) (\<lambda>ok.
                               if \<not> ok then Inl (Err InvalidFeatureParametersError
                                 ''Constructed fillet failed its tangency check'')
                               else Inr result)))))))"

subsection \<open>Chamfers\<close>

record chamfer_result =
  ch_point_on_first :: point2d
  ch_point_on_second :: point2d
  ch_distance_first_mm :: real
  ch_distance_second_mm :: real
  ch_angle_deg :: real

text \<open>The second distance and the angle, from whichever of the two was given.\<close>

definition chamfer_resolve ::
  "point2d \<Rightarrow> vector2d \<Rightarrow> vector2d \<Rightarrow> real \<Rightarrow> real \<Rightarrow> pyfloat option \<Rightarrow> pyfloat option \<Rightarrow> (real \<times> real) res" where
  "chamfer_resolve vertex first second interior d1 distance_second angle_deg =
     (case distance_second of
        Some x \<Rightarrow> bindR (finite1 x) (\<lambda>d2.
          if d2 \<le> 0 then Inl (Err InvalidFeatureParametersError ''Chamfer distance must be positive'')
          else let p = offset_point vertex first d1; q = offset_point vertex second d2
               in bindR (normalized (vector_to p vertex)) (\<lambda>toward_vertex.
                  bindR (normalized (vector_to p q)) (\<lambda>chamfer.
                    Inr (d2, degrees (arccos (max (- 1) (min 1 (dot toward_vertex chamfer))))))))
      | None \<Rightarrow>
          (case angle_deg of
             None \<Rightarrow> Inl AssertionError
           | Some x \<Rightarrow> bindR (finite1 x) (\<lambda>a.
               let alpha = radians a in
               if alpha \<le> 0 \<or> pi \<le> alpha + interior
               then Inl (Err InvalidFeatureParametersError ''Chamfer angle is incompatible with the vertex'')
               else Inr (d1 * sin alpha / sin (alpha + interior), a))))"

definition chamfer_vertex ::
  "point2d \<Rightarrow> point2d \<Rightarrow> point2d \<Rightarrow> pyfloat \<Rightarrow> pyfloat option \<Rightarrow> pyfloat option \<Rightarrow>
   tolerance_profile \<Rightarrow> chamfer_result res" where
  "chamfer_vertex previous vertex following distance_first distance_second angle_deg t =
     bindR (finite1 distance_first) (\<lambda>d1.
       if (distance_second = None) = (angle_deg = None)
       then Inl (Err InvalidFeatureParametersError ''Provide exactly one of distance_second_mm or angle_deg'')
       else if d1 \<le> 0 then Inl (Err InvalidFeatureParametersError ''Chamfer distance must be positive'')
       else bindR (unit_from_vertex vertex previous) (\<lambda>first.
         bindR (unit_from_vertex vertex following) (\<lambda>second.
         bindR (interior_angle first second) (\<lambda>interior.
         bindR (chamfer_resolve vertex first second interior d1 distance_second angle_deg) (\<lambda>(d2, a).
           if exceeds t d1 (distance_to vertex previous) \<or> exceeds t d2 (distance_to vertex following)
           then Inl (Err InvalidFeatureParametersError ''Chamfer distance exceeds an adjacent edge'')
           else Inr \<lparr>ch_point_on_first = offset_point vertex first d1,
                ch_point_on_second = offset_point vertex second d2,
                ch_distance_first_mm = d1, ch_distance_second_mm = d2, ch_angle_deg = a\<rparr>)))))"

subsection \<open>The L bracket\<close>

definition l_bracket_vertices :: "point2d \<Rightarrow> real \<Rightarrow> real \<Rightarrow> real \<Rightarrow> point2d list" where
  "l_bracket_vertices p a b th =
     [p, Point2D (px p + a) (py p), Point2D (px p + a) (py p + th), Point2D (px p + th) (py p + th),
      Point2D (px p + th) (py p + b), Point2D (px p) (py p + b)]"

definition l_bracket_outline ::
  "point2d \<Rightarrow> pyfloat \<Rightarrow> pyfloat \<Rightarrow> pyfloat \<Rightarrow> tolerance_profile \<Rightarrow> pyfloat option \<Rightarrow> polyline2d res" where
  "l_bracket_outline origin leg_a leg_b thickness t fillet_radius =
     bindR (finite1 leg_a) (\<lambda>a. bindR (finite1 leg_b) (\<lambda>b. bindR (finite1 thickness) (\<lambda>th.
       if a \<le> 0 \<or> b \<le> 0 \<or> th \<le> 0
       then Inl (Err InvalidFeatureParametersError ''Bracket legs and thickness must be positive'')
       else if min a b \<le> th
       then Inl (Err InvalidFeatureParametersError ''Bracket thickness must be smaller than both legs'')
       else let vs = l_bracket_vertices origin a b th in
         case fillet_radius of
           None \<Rightarrow> mk_polyline vs True
         | Some r \<Rightarrow>
             bindR (fillet_vertex (vs ! 2) (vs ! 3) (vs ! 4) r t) (\<lambda>f.
             bindR (linearize_curve (fi_arc f) (tp_arc_chord_tolerance_mm t)) (\<lambda>arc_vertices.
               mk_polyline (take 3 vs @ arc_vertices @ drop 4 vs) True)))))"

subsection \<open>Directions and the shoelace sum\<close>

lemma unit_between_Inr:
  assumes "unit_between msg a b = Inr u"
  shows "0 < distance_to a b \<and> vdx u * distance_to a b = px b - px a \<and> vdy u * distance_to a b = py b - py a \<and>
    (vdx u)\<^sup>2 + (vdy u)\<^sup>2 = 1"
proof -
  have l: "vlength (vector_to a b) = distance_to a b"
    by (simp add: vlength_def vector_to_def distance_to_def power2_commute)
  from assms l have pos: "0 < distance_to a b" and u: "u = Vector2D ((px b - px a) / distance_to a b) ((py b - py a) / distance_to a b)"
    by (auto simp: unit_between_def normalized_def Let_def vector_to_def split: if_splits)
  have "(px b - px a)\<^sup>2 + (py b - py a)\<^sup>2 = (distance_to a b)\<^sup>2"
    by (simp add: distance_to_def power2_commute)
  moreover from pos have "(distance_to a b)\<^sup>2 \<noteq> 0" by simp
  ultimately have "((px b - px a)\<^sup>2 + (py b - py a)\<^sup>2) / (distance_to a b)\<^sup>2 = 1" by simp
  with pos u show ?thesis by (simp add: power_divide add_divide_distrib)
qed

definition open_shoelace :: "point2d list \<Rightarrow> real" where
  "open_shoelace vs = sum_list (map (\<lambda>(a, b). point_cross a b) (zip vs (tl vs)))"

lemma open_shoelace_simps [simp]:
  "open_shoelace [] = 0" "open_shoelace [a] = 0"
  "open_shoelace (a # b # vs) = point_cross a b + open_shoelace (b # vs)"
  by (simp_all add: open_shoelace_def)

lemma open_shoelace_append:
  "open_shoelace (xs @ y # ys) = open_shoelace (xs @ [y]) + open_shoelace (y # ys)"
proof (induction xs)
  case (Cons x xs)
  then show ?case by (cases xs) auto
qed simp

lemma shoelace_open: "vs \<noteq> [] \<Longrightarrow> shoelace vs = open_shoelace vs + point_cross (last vs) (hd vs)"
  by (simp add: shoelace_def open_shoelace_def zip_rotate1 point_cross_def)

lemma shoelace_cycle: "vs \<noteq> [] \<Longrightarrow> shoelace vs = open_shoelace (vs @ [hd vs])"
proof -
  assume "vs \<noteq> []"
  then obtain xs y where vs: "vs = xs @ [y]" by (cases vs rule: rev_cases) auto
  show ?thesis using open_shoelace_append [of xs y "[hd vs]"] by (simp add: shoelace_open vs)
qed

text \<open>A vertex replaced by a path changes the sum by the difference of the two paths.\<close>

lemma shoelace_shift:
  assumes "xs \<noteq> []" shows "shoelace (xs @ ys) = shoelace (ys @ xs)"
proof (cases ys)
  case (Cons y zs)
  obtain x ws where xs: "xs = x # ws" using assms by (cases xs) auto
  have "shoelace (xs @ ys) = open_shoelace (xs @ [y]) + open_shoelace (ys @ [x])"
    using open_shoelace_append [of xs y "zs @ [x]"] by (simp add: shoelace_cycle Cons xs)
  moreover have "shoelace (ys @ xs) = open_shoelace (ys @ [x]) + open_shoelace (xs @ [y])"
    using open_shoelace_append [of ys x "ws @ [y]"] by (simp add: shoelace_cycle Cons xs)
  ultimately show ?thesis by simp
qed simp

lemma split_nth: "i < length vs \<Longrightarrow> vs = take i vs @ vs ! i # drop (Suc i) vs"
  by (simp add: id_take_nth_drop [symmetric])

text \<open>The cyclic predecessor and successor, seen from the rotated list.\<close>

lemma cyc_next:
  assumes "i < length vs"
  shows "cyc_nth vs (int i + 1) = hd (drop (Suc i) vs @ take (Suc i) vs)"
proof (cases "Suc i < length vs")
  case True
  then have "(int i + 1) mod int (length vs) = int (Suc i)" by (simp add: mod_pos_pos_trivial)
  with True show ?thesis by (simp add: cyc_nth_def hd_append hd_drop_conv_nth nat_add_distrib)
next
  case False
  with assms have "Suc i = length vs" by simp
  then have "int i + 1 = int (length vs)" by simp
  then have "(int i + 1) mod int (length vs) = 0" by simp
  with False assms show ?thesis by (cases vs) (simp_all add: cyc_nth_def)
qed

lemma cyc_prev:
  assumes "i < length vs"
  shows "cyc_nth vs (int i - 1) = last (drop i vs @ take i vs)"
proof (cases i)
  case 0
  have "(- 1) mod int (length vs) = int (length vs) - 1"
    using assms by (cases "length vs") (simp_all add: zmod_minus1)
  moreover have "nat (int (length vs) - 1) = length vs - 1" by arith
  ultimately show ?thesis using 0 assms by (simp add: cyc_nth_def last_conv_nth)
next
  case (Suc j)
  then have "(int i - 1) mod int (length vs) = int j" using assms by (simp add: mod_pos_pos_trivial)
  moreover have "last (drop i vs @ take i vs) = vs ! j"
    using Suc assms by (simp add: last_append take_Suc_conv_app_nth)
  ultimately show ?thesis by (simp add: cyc_nth_def)
qed

text \<open>The rest of a closed contour, seen from one vertex.\<close>

definition others :: "'a list \<Rightarrow> nat \<Rightarrow> 'a list" where
  "others vs i = drop (Suc i) vs @ take i vs"

lemma others_neighbours:
  assumes "i < length vs" and "others vs i \<noteq> []"
  shows "cyc_nth vs (int i + 1) = hd (others vs i)" and "cyc_nth vs (int i - 1) = last (others vs i)"
proof -
  have "take (Suc i) vs = take i vs @ [vs ! i]" using assms(1) by (rule take_Suc_conv_app_nth)
  then have "drop (Suc i) vs @ take (Suc i) vs = others vs i @ [vs ! i]" by (simp add: others_def)
  with cyc_next [OF assms(1)] assms(2) show "cyc_nth vs (int i + 1) = hd (others vs i)" by simp
  have "drop i vs = vs ! i # drop (Suc i) vs" using assms(1) by (simp add: Cons_nth_drop_Suc)
  then have "drop i vs @ take i vs = vs ! i # others vs i" by (simp add: others_def)
  with cyc_prev [OF assms(1)] assms(2) show "cyc_nth vs (int i - 1) = last (others vs i)" by simp
qed

lemma open_shoelace_snoc: "vs \<noteq> [] \<Longrightarrow> open_shoelace (vs @ [x]) = open_shoelace vs + point_cross (last vs) x"
proof -
  assume "vs \<noteq> []"
  then obtain xs y where vs: "vs = xs @ [y]" by (cases vs rule: rev_cases) auto
  show ?thesis using open_shoelace_append [of xs y "[x]"] by (simp add: vs)
qed

lemma shoelace_path:
  assumes "path \<noteq> []" and "others vs i \<noteq> []"
  shows "shoelace (take i vs @ path @ drop (Suc i) vs) =
    open_shoelace path + point_cross (last path) (hd (others vs i)) + open_shoelace (others vs i) +
    point_cross (last (others vs i)) (hd path)"
proof -
  let ?r = "others vs i"
  have shift: "shoelace (take i vs @ path @ drop (Suc i) vs) = shoelace (path @ ?r)"
  proof (cases "take i vs = []")
    case False
    then show ?thesis using shoelace_shift [of "take i vs" "path @ drop (Suc i) vs"] by (simp add: others_def)
  qed (auto simp: others_def)
  obtain y zs where r: "?r = y # zs" using assms(2) by (cases ?r) auto
  have hd_path: "hd (path @ ?r) = hd path" using assms(1) by simp
  have "shoelace (path @ ?r) = open_shoelace (path @ y # zs @ [hd path])"
    using shoelace_cycle [of "path @ ?r"] assms(1) unfolding hd_path r by simp
  also have "\<dots> = open_shoelace (path @ [y]) + open_shoelace (?r @ [hd path])"
    unfolding r using open_shoelace_append [of path y "zs @ [hd path]"] by simp
  also have "\<dots> = open_shoelace path + point_cross (last path) y + (open_shoelace ?r + point_cross (last ?r) (hd path))"
    by (simp only: open_shoelace_snoc [OF assms(1)] open_shoelace_snoc [OF assms(2)])
  finally show ?thesis unfolding shift r by simp
qed

subsection \<open>A cutout removes exactly its own area\<close>

lemma segment_split:
  "point_cross (offset_point v u a) (offset_point v u b) + point_cross (offset_point v u b) (offset_point v u c) =
   point_cross (offset_point v u a) (offset_point v u c)"
  by (simp add: point_cross_def offset_point_def algebra_simps)

lemma offset_zero: "offset_point v u 0 = v"
  by (simp add: offset_point_def)

lemma edge_unit_end: "edge_unit a b = Inr u \<Longrightarrow> offset_point a u (distance_to a b) = b"
  by (cases b) (auto simp: edge_unit_def offset_point_def dest: unit_between_Inr)

lemma edge_unit_distinct: "edge_unit a b = Inr u \<Longrightarrow> a \<noteq> b"
  by (auto simp: edge_unit_def distance_to_def dest: unit_between_Inr)

text \<open>
  A corner notch removes what it says: the signed area of the new outline is that of the old
  one less the signed area of the removed parallelogram.
\<close>

theorem corner_notch_area:
  assumes "corner_notch outline i w h t = Inr r"
  shows "signed_area (bc_outline r) = signed_area outline - signed_area (bc_removed_contour r)"
proof -
  let ?vs = "vertices outline" and ?k = "nat i"
  from assms obtain w' h' u v where i: "0 \<le> i" "i < int (length ?vs)"
    and u: "edge_unit (?vs ! ?k) (cyc_nth ?vs (i - 1)) = Inr u"
    and v: "edge_unit (?vs ! ?k) (cyc_nth ?vs (i + 1)) = Inr v"
    and r: "r = \<lparr>bc_outline = Polyline2D (take ?k ?vs @ [offset_point (?vs ! ?k) u w',
        offset_point (offset_point (?vs ! ?k) u w') v h', offset_point (?vs ! ?k) v h'] @ drop (Suc ?k) ?vs) True,
      bc_removed_contour = Polyline2D [offset_point (?vs ! ?k) u w', ?vs ! ?k, offset_point (?vs ! ?k) v h',
        offset_point (offset_point (?vs ! ?k) u w') v h'] True,
      bc_removed_area_mm2 = bc_removed_area_mm2 r\<rparr>"
    by (auto simp: corner_notch_def bindR_Inr_iff Let_def mk_polyline_def replace_vertex_def split: if_splits)
  let ?x = "?vs ! ?k" and ?r = "others ?vs ?k"
  have k: "?k < length ?vs" "int ?k = i" using i by auto
  have ne: "?r \<noteq> []"
  proof
    assume "?r = []"
    with k have "length ?vs = 1" by (cases ?vs) (auto simp: others_def)
    with k have "cyc_nth ?vs (i - 1) = ?x" by (simp add: cyc_nth_def)
    with edge_unit_distinct [OF u] show False by simp
  qed
  note nb = others_neighbours [OF k(1) ne, unfolded k(2)]
  let ?f = "offset_point ?x u w'" and ?s = "offset_point ?x v h'" and ?n = "offset_point (offset_point ?x u w') v h'"
  have old: "shoelace ?vs = point_cross ?x (hd ?r) + open_shoelace ?r + point_cross (last ?r) ?x"
    using shoelace_path [of "[?x]" ?vs ?k] ne split_nth [OF k(1)] by simp
  have new: "shoelace (take ?k ?vs @ [?f, ?n, ?s] @ drop (Suc ?k) ?vs) =
      point_cross ?f ?n + point_cross ?n ?s + point_cross ?s (hd ?r) + open_shoelace ?r + point_cross (last ?r) ?f"
    using shoelace_path [of "[?f, ?n, ?s]" ?vs ?k] ne by simp
  have "point_cross (last ?r) ?f + point_cross ?f ?x = point_cross (last ?r) ?x"
    using segment_split [of ?x u "distance_to ?x (last ?r)" w' 0] edge_unit_end [OF u] nb by (simp add: offset_zero)
  moreover have "point_cross ?x ?s + point_cross ?s (hd ?r) = point_cross ?x (hd ?r)"
    using segment_split [of ?x v 0 h' "distance_to ?x (hd ?r)"] edge_unit_end [OF v] nb by (simp add: offset_zero)
  moreover have "shoelace [?f, ?x, ?s, ?n] = point_cross ?f ?x + point_cross ?x ?s + point_cross ?s ?n + point_cross ?n ?f"
    by (simp add: shoelace_cycle)
  moreover have "point_cross ?f ?n = - point_cross ?n ?f" "point_cross ?n ?s = - point_cross ?s ?n"
    by (simp_all add: point_cross_def)
  ultimately have "shoelace (take ?k ?vs @ [?f, ?n, ?s] @ drop (Suc ?k) ?vs) = shoelace ?vs - shoelace [?f, ?x, ?s, ?n]"
    using old new by linarith
  moreover have "signed_area (bc_outline r) = shoelace (take ?k ?vs @ [?f, ?n, ?s] @ drop (Suc ?k) ?vs) / 2"
    "signed_area (bc_removed_contour r) = shoelace [?f, ?x, ?s, ?n] / 2"
    by (subst r, simp add: signed_area_def)+
  ultimately show ?thesis by (simp add: signed_area_def diff_divide_distrib)
qed

theorem corner_notch_area_witness:
  "\<exists>r. corner_notch (Polyline2D [Point2D 0 0, Point2D 10 0, Point2D 10 10, Point2D 0 10] True) 2 (Fin 3) (Fin 4)
     (default_tolerance ''t'' ''1'') = Inr r \<and>
   signed_area (bc_outline r) = 100 - signed_area (bc_removed_contour r)"
proof -
  let ?p = "Polyline2D [Point2D 0 0, Point2D 10 0, Point2D 10 10, Point2D 0 10] True"
  have "\<exists>r. corner_notch ?p 2 (Fin 3) (Fin 4) (default_tolerance ''t'' ''1'') = Inr r"
    by (simp add: corner_notch_def Let_def cyc_nth_def exceeds_def distance_to_def edge_unit_def
        unit_between_def vector_to_def vlength_def normalized_def mk_polyline_def replace_vertex_def)
  then obtain r where r: "corner_notch ?p 2 (Fin 3) (Fin 4) (default_tolerance ''t'' ''1'') = Inr r" by blast
  have "signed_area ?p = 100" by (simp add: signed_area_def shoelace_def)
  with corner_notch_area [OF r] r show ?thesis by simp
qed

lemma offset_offset: "offset_point (offset_point p u a) u b = offset_point p u (a + b)"
  by (simp add: offset_point_def algebra_simps)

lemma offset_distance:
  assumes "(vdx u)\<^sup>2 + (vdy u)\<^sup>2 = 1"
  shows "distance_to (offset_point p u a) (offset_point p u b) = \<bar>a - b\<bar>"
proof -
  have "(vdx u * a - vdx u * b)\<^sup>2 + (vdy u * a - vdy u * b)\<^sup>2 = ((vdx u)\<^sup>2 + (vdy u)\<^sup>2) * (a - b)\<^sup>2"
    by (simp add: power2_eq_square algebra_simps)
  with assms show ?thesis by (simp add: distance_to_def offset_point_def)
qed

text \<open>The pocket is a rectangle of the given width and depth on the inner side.\<close>

lemma pocket_shoelace:
  assumes "(vdx u)\<^sup>2 + (vdy u)\<^sup>2 = 1" and "n = Vector2D (- vdy u * o') (vdx u * o')"
  shows "shoelace [f, offset_point f u w, offset_point (offset_point f u w) n d, offset_point f n d] = 2 * o' * w * d"
proof -
  have "shoelace [f, offset_point f u w, offset_point (offset_point f u w) n d, offset_point f n d] =
      2 * o' * w * d * ((vdx u)\<^sup>2 + (vdy u)\<^sup>2)"
    by (simp add: shoelace_def offset_point_def assms(2) power2_eq_square algebra_simps)
  with assms(1) show ?thesis by simp
qed

lemma pocket_path:
  assumes "a \<noteq> f \<Longrightarrow> \<not> c1" and "s \<noteq> b \<Longrightarrow> \<not> c2"
    and "ins = (let i0 = [f, g, k, s]; i1 = (if c1 then tl i0 else i0) in if c2 then butlast i1 else i1)"
  shows "open_shoelace (a # ins) + point_cross (last (a # ins)) b =
    point_cross a f + point_cross f g + point_cross g k + point_cross k s + point_cross s b"
proof -
  have self: "point_cross x x = 0" for x by (simp add: point_cross_def)
  have "c1 \<Longrightarrow> a = f" "c2 \<Longrightarrow> s = b" using assms(1,2) by blast+
  with assms(3) self show ?thesis by (cases c1; cases c2) simp_all
qed

text \<open>
  An edge cutout removes exactly the rectangle it describes and always on the material side:
  the signed area of the new outline is the old one moved towards zero by width times depth, and
  that is the area reported as removed (offsets within the coincidence tolerance of an end of the
  edge, but not at it, are the only exception).
\<close>

theorem edge_cutout_area:
  assumes "edge_cutout outline i (Fin off) (Fin w) (Fin d) t = Inr r"
    and "is_coincident t off \<Longrightarrow> off = 0"
    and "is_coincident t \<bar>distance_to (vertices outline ! nat i) (cyc_nth (vertices outline) (i + 1)) - (off + w)\<bar> \<Longrightarrow>
      distance_to (vertices outline ! nat i) (cyc_nth (vertices outline) (i + 1)) = off + w"
  shows "signed_area (bc_outline r) =
      signed_area outline - (if 0 < signed_area outline then 1 else - 1) * (w * d) \<and>
    bc_removed_area_mm2 r = w * d"
proof -
  let ?vs = "vertices outline" and ?k = "nat i"
  let ?a = "?vs ! ?k" and ?b = "cyc_nth ?vs (i + 1)"
  let ?o = "if 0 < signed_area outline then 1 else - 1 :: real"
  have g1: "closed outline \<and> 0 \<le> i \<and> i < int (length ?vs)"
  proof (rule ccontr)
    assume "\<not> ?thesis"
    with assms(1) show False by (simp add: edge_cutout_def Let_def)
  qed
  then have i: "0 \<le> i" "i < int (length ?vs)" by auto
  have g2: "\<not> (off < 0 \<or> w \<le> 0 \<or> d \<le> 0)"
  proof
    assume "off < 0 \<or> w \<le> 0 \<or> d \<le> 0"
    with assms(1) g1 show False by (simp add: edge_cutout_def Let_def)
  qed
  then have pos: "0 \<le> off" "0 < w" "0 < d" by auto
  obtain u where u: "edge_unit ?a ?b = Inr u"
  proof (cases "edge_unit ?a ?b")
    case (Inl e)
    with assms(1) g1 g2 show thesis by (simp add: edge_cutout_def Let_def)
  qed
  have g3: "\<not> exceeds t (off + w) (distance_to ?a ?b)"
  proof
    assume "exceeds t (off + w) (distance_to ?a ?b)"
    with assms(1) g1 g2 u show False by (simp add: edge_cutout_def Let_def)
  qed
  define n where "n = Vector2D (- vdy u * ?o) (vdx u * ?o)"
  let ?f = "offset_point ?a u off" and ?s = "offset_point ?a u (off + w)"
  let ?g = "offset_point ?f n d" and ?h = "offset_point ?s n d"
  define ins where "ins = (let i0 = [?f, ?g, ?h, ?s]; i1 = (if is_coincident t (distance_to ?f ?a) then tl i0 else i0)
    in if is_coincident t (distance_to ?s ?b) then butlast i1 else i1)"
  have poly: "mk_polyline [?f, ?s, ?h, ?g] True = Inr (Polyline2D [?f, ?s, ?h, ?g] True)"
    by (simp add: mk_polyline_def)
  have two: "2 \<le> length (take (Suc ?k) ?vs @ ins @ drop (Suc ?k) ?vs)"
    using i by (simp add: ins_def Let_def)
  then have poly2: "mk_polyline (take (Suc ?k) ?vs @ ins @ drop (Suc ?k) ?vs) True =
      Inr (Polyline2D (take (Suc ?k) ?vs @ ins @ drop (Suc ?k) ?vs) True)"
    unfolding mk_polyline_def by (simp only: not_less [symmetric] if_False)
  have "edge_cutout outline i (Fin off) (Fin w) (Fin d) t =
      bindR (mk_polyline [?f, ?s, ?h, ?g] True) (\<lambda>removed.
        bindR (mk_polyline (take (Suc ?k) ?vs @ ins @ drop (Suc ?k) ?vs) True) (\<lambda>result.
          Inr \<lparr>bc_outline = result, bc_removed_contour = removed, bc_removed_area_mm2 = area removed\<rparr>))"
    using g1 g2 g3 unfolding edge_cutout_def ins_def n_def Let_def finite1_Fin bindR_simps u by simp
  with assms(1) have r: "r = \<lparr>bc_outline = Polyline2D (take (Suc ?k) ?vs @ ins @ drop (Suc ?k) ?vs) True,
      bc_removed_contour = Polyline2D [?f, ?s, ?h, ?g] True,
      bc_removed_area_mm2 = area (Polyline2D [?f, ?s, ?h, ?g] True)\<rparr>"
    unfolding poly poly2 by simp
  from u have unit: "(vdx u)\<^sup>2 + (vdy u)\<^sup>2 = 1" by (simp add: edge_unit_def unit_between_Inr)
  have b: "offset_point ?a u (distance_to ?a ?b) = ?b" using edge_unit_end [OF u] .
  let ?r = "others ?vs ?k"
  have k: "?k < length ?vs" "int ?k = i" using i by auto
  have ne: "?r \<noteq> []"
  proof
    assume "?r = []"
    with k have "length ?vs = 1" by (cases ?vs) (auto simp: others_def)
    with k have "?b = ?a" by (simp add: cyc_nth_def)
    with edge_unit_distinct [OF u] show False by simp
  qed
  have hd_r: "hd ?r = ?b" using others_neighbours(1) [OF k(1) ne] k(2) by simp
  have "distance_to ?f ?a = off" using offset_distance [OF unit, of ?a off 0] pos by (simp add: offset_zero)
  with assms(2) have c1: "?a \<noteq> ?f \<Longrightarrow> \<not> is_coincident t (distance_to ?f ?a)" by (auto simp: offset_zero)
  have "distance_to ?s ?b = \<bar>distance_to ?a ?b - (off + w)\<bar>"
    using offset_distance [OF unit, of ?a "off + w" "distance_to ?a ?b"] unfolding b by (simp add: abs_minus_commute)
  with assms(3) b have c2: "?s \<noteq> ?b \<Longrightarrow> \<not> is_coincident t (distance_to ?s ?b)" by metis
  have new: "shoelace (take (Suc ?k) ?vs @ ins @ drop (Suc ?k) ?vs) = point_cross ?a ?f + point_cross ?f ?g +
      point_cross ?g ?h + point_cross ?h ?s + point_cross ?s ?b + open_shoelace ?r + point_cross (last ?r) ?a"
    using shoelace_path [of "?a # ins" ?vs ?k] ne hd_r pocket_path [OF c1 c2 ins_def]
    by (simp add: take_Suc_conv_app_nth [OF k(1)])
  have old: "shoelace ?vs = point_cross ?a ?b + open_shoelace ?r + point_cross (last ?r) ?a"
    using shoelace_path [of "[?a]" ?vs ?k] ne split_nth [OF k(1)] hd_r by simp
  have "shoelace [?f, ?s, ?h, ?g] = 2 * ?o * w * d"
    using pocket_shoelace [OF unit n_def, of ?f w d] by (simp only: offset_offset)
  moreover have "shoelace [?f, ?s, ?h, ?g] = point_cross ?f ?s + point_cross ?s ?h + point_cross ?h ?g + point_cross ?g ?f"
    by (simp add: shoelace_cycle)
  moreover have "point_cross ?a ?f + point_cross ?f ?s = point_cross ?a ?s"
    using segment_split [of ?a u 0 off "off + w"] by (simp add: offset_zero)
  moreover have "point_cross ?a ?s + point_cross ?s ?b = point_cross ?a ?b"
    using segment_split [of ?a u 0 "off + w" "distance_to ?a ?b"] b by (simp add: offset_zero)
  moreover have "point_cross ?g ?f = - point_cross ?f ?g" "point_cross ?h ?g = - point_cross ?g ?h"
    "point_cross ?s ?h = - point_cross ?h ?s" by (simp_all add: point_cross_def)
  ultimately have "shoelace (take (Suc ?k) ?vs @ ins @ drop (Suc ?k) ?vs) = shoelace ?vs - 2 * ?o * w * d"
    using new old by linarith
  moreover have "area (Polyline2D [?f, ?s, ?h, ?g] True) = w * d"
    using \<open>shoelace [?f, ?s, ?h, ?g] = 2 * ?o * w * d\<close> pos by (simp add: area_def signed_area_def abs_mult)
  ultimately show ?thesis unfolding r by (simp add: signed_area_def diff_divide_distrib)
qed

theorem edge_cutout_area_witness:
  "\<exists>r. edge_cutout (Polyline2D [Point2D 0 0, Point2D 10 0, Point2D 10 10, Point2D 0 10] True) 0 (Fin 2) (Fin 3) (Fin 4)
     (default_tolerance ''t'' ''1'') = Inr r \<and> signed_area (bc_outline r) = 88 \<and> bc_removed_area_mm2 r = 12"
proof -
  let ?p = "Polyline2D [Point2D 0 0, Point2D 10 0, Point2D 10 10, Point2D 0 10] True" and ?t = "default_tolerance ''t'' ''1''"
  have s: "signed_area ?p = 100" by (simp add: signed_area_def shoelace_def)
  have "\<exists>r. edge_cutout ?p 0 (Fin 2) (Fin 3) (Fin 4) ?t = Inr r"
    by (simp add: edge_cutout_def Let_def cyc_nth_def exceeds_def distance_to_def edge_unit_def
        unit_between_def vector_to_def vlength_def normalized_def mk_polyline_def default_tolerance_def
        is_coincident_def offset_point_def)
  then obtain r where r: "edge_cutout ?p 0 (Fin 2) (Fin 3) (Fin 4) ?t = Inr r" by blast
  have "distance_to (vertices ?p ! nat 0) (cyc_nth (vertices ?p) (0 + 1)) = 10"
    by (simp add: cyc_nth_def distance_to_def)
  moreover have "\<not> is_coincident ?t 2" "\<not> is_coincident ?t \<bar>10 - (2 + 3)\<bar>"
    by (simp_all add: is_coincident_def default_tolerance_def)
  ultimately show ?thesis using edge_cutout_area [OF r] s r by simp
qed

subsection \<open>A fillet is tangent\<close>

lemma atan2_polar:
  assumes "x\<^sup>2 + y\<^sup>2 = r\<^sup>2" and "0 < r"
  shows "r * cos (atan2 y x) = x \<and> r * sin (atan2 y x) = y"
proof -
  have "cmod (Complex x y) = r" using assms by (simp add: cmod_def)
  then have "rcis r (Arg (Complex x y)) = Complex x y" using rcis_cmod_Arg [of "Complex x y"] by simp
  then have "Re (rcis r (Arg (Complex x y))) = x" "Im (rcis r (Arg (Complex x y))) = y" by simp_all
  then have "r * cos (Arg (Complex x y)) = x" "r * sin (Arg (Complex x y)) = y" by simp_all
  moreover have "\<not> (x = 0 \<and> y = 0)" using assms by auto
  ultimately show ?thesis by (auto simp: atan2_def)
qed

lemma radians_degrees [simp]: "radians (degrees x) = x"
  by (simp add: radians_def degrees_def)

lemma radians_add: "radians (a + b) = radians a + radians b"
  by (simp add: radians_def field_simps)

text \<open>The curve turns the radius at its start by its sweep.\<close>

lemma arc_ends:
  assumes "normalize_arc c r (degrees (atan2 (py p - py c) (px p - px c))) None (Some sw) = Inr arc"
    and "(px p - px c)\<^sup>2 + (py p - py c)\<^sup>2 = r\<^sup>2"
    and "px q - px c = (px p - px c) * cos (radians sw) - (py p - py c) * sin (radians sw)"
    and "py q - py c = (px p - px c) * sin (radians sw) + (py p - py c) * cos (radians sw)"
  shows "start_point arc = Inr p \<and> end_point arc = Inr q \<and> cu_center arc = c \<and> cu_radius_mm arc = Some r \<and> 0 < r"
proof -
  from assms(1) have r: "0 < r" and arc: "arc = \<lparr>cu_kind = ARC, cu_center = c,
      cu_start_angle_deg = degrees (atan2 (py p - py c) (px p - px c)), cu_sweep_deg = sw,
      cu_radius_mm = Some r, cu_semi_major_mm = None, cu_semi_minor_mm = None, cu_rotation_deg = 0\<rparr>"
    by (auto simp: normalize_arc_def mk_curve_def Let_def split: if_splits)
  let ?a = "atan2 (py p - py c) (px p - px c)"
  from atan2_polar [OF assms(2) r] have p: "r * cos ?a = px p - px c" "r * sin ?a = py p - py c" by auto
  have "r * cos (?a + radians sw) = (r * cos ?a) * cos (radians sw) - (r * sin ?a) * sin (radians sw)"
    "r * sin (?a + radians sw) = (r * cos ?a) * sin (radians sw) + (r * sin ?a) * cos (radians sw)"
    unfolding cos_add sin_add by (simp_all add: algebra_simps)
  then have "r * cos (?a + radians sw) = px q - px c" "r * sin (?a + radians sw) = py q - py c"
    unfolding p assms(3,4) .
  with p r show ?thesis by (simp add: arc start_point_def end_point_def point_at_fraction_def radians_add)
qed

lemma radius_vector:
  fixes a x y r :: real
  assumes "sin a \<noteq> 0" and "cos a \<noteq> 0"
  shows "x * (r / tan a) - (x + y) / (2 * cos a) * (r / sin a) = r / sin (2 * a) * (cos (2 * a) * x - y)"
proof -
  have "x * (r / tan a) = r / (2 * sin a * cos a) * (2 * (cos a)\<^sup>2 * x)"
    using assms by (simp add: tan_def field_simps power2_eq_square)
  moreover have "(x + y) / (2 * cos a) * (r / sin a) = r / (2 * sin a * cos a) * (x + y)"
    using assms by (simp add: field_simps)
  ultimately show ?thesis unfolding sin_double cos_double_cos by (simp add: right_diff_distrib algebra_simps)
qed

lemma unit_dot_cross:
  "(vdx u)\<^sup>2 + (vdy u)\<^sup>2 = 1 \<Longrightarrow> (vdx v)\<^sup>2 + (vdy v)\<^sup>2 = 1 \<Longrightarrow> (dot u v)\<^sup>2 + (cross u v)\<^sup>2 = 1"
proof -
  assume a: "(vdx u)\<^sup>2 + (vdy u)\<^sup>2 = 1" "(vdx v)\<^sup>2 + (vdy v)\<^sup>2 = 1"
  have "(dot u v)\<^sup>2 + (cross u v)\<^sup>2 = ((vdx u)\<^sup>2 + (vdy u)\<^sup>2) * ((vdx v)\<^sup>2 + (vdy v)\<^sup>2)"
    by (simp add: dot_def cross_def power2_eq_square algebra_simps)
  with a show ?thesis by simp
qed

lemma interior_angle_Inr:
  assumes "(vdx u)\<^sup>2 + (vdy u)\<^sup>2 = 1" and "(vdx v)\<^sup>2 + (vdy v)\<^sup>2 = 1" and "interior_angle u v = Inr a"
  shows "0 < a \<and> a < pi \<and> cos a = dot u v \<and> (sin a)\<^sup>2 = (cross u v)\<^sup>2"
proof -
  have le: "(dot u v)\<^sup>2 \<le> 1" using unit_dot_cross [OF assms(1,2)] by (smt (verit) zero_le_power2)
  then have d: "- 1 \<le> dot u v" "dot u v \<le> 1" by (auto simp: abs_square_le_1 abs_le_iff)
  then have "max (- 1) (min 1 (dot u v)) = dot u v" by simp
  with assms(3) have a: "a = arccos (dot u v)" "1 / 10 ^ 12 < a" "1 / 10 ^ 12 < pi - a"
    by (auto simp: interior_angle_def Let_def not_le split: if_splits)
  then have "0 < a" "a < pi" by (smt (verit) zero_less_divide_1_iff zero_less_power)+
  moreover have "cos a = dot u v" unfolding a(1) by (rule cos_arccos [OF d])
  ultimately show ?thesis using unit_dot_cross [OF assms(1,2)] sin_cos_squared_add [of a] by simp
qed

text \<open>Coordinates of the second direction in the frame of the first.\<close>

lemma frame_decomposition:
  assumes "(vdx u)\<^sup>2 + (vdy u)\<^sup>2 = 1"
  shows "vdx v = dot u v * vdx u - cross u v * vdy u" and "vdy v = dot u v * vdy u + cross u v * vdx u"
proof -
  have "dot u v * vdx u - cross u v * vdy u = vdx v * ((vdx u)\<^sup>2 + (vdy u)\<^sup>2)"
    "dot u v * vdy u + cross u v * vdx u = vdy v * ((vdx u)\<^sup>2 + (vdy u)\<^sup>2)"
    by (simp_all add: dot_def cross_def power2_eq_square algebra_simps)
  with assms show "vdx v = dot u v * vdx u - cross u v * vdy u" "vdy v = dot u v * vdy u + cross u v * vdx u" by simp_all
qed

lemma bisector_length:
  assumes "(vdx u)\<^sup>2 + (vdy u)\<^sup>2 = 1" and "(vdx v)\<^sup>2 + (vdy v)\<^sup>2 = 1" and "dot u v = cos a"
    and "0 < cos (a / 2)"
  shows "vlength (Vector2D (vdx u + vdx v) (vdy u + vdy v)) = 2 * cos (a / 2)"
proof -
  have "(vdx u + vdx v)\<^sup>2 + (vdy u + vdy v)\<^sup>2 =
      ((vdx u)\<^sup>2 + (vdy u)\<^sup>2) + ((vdx v)\<^sup>2 + (vdy v)\<^sup>2) + 2 * dot u v"
    by (simp add: power2_sum dot_def)
  also have "\<dots> = 2 + 2 * cos (2 * (a / 2))" using assms(1-3) by simp
  also have "\<dots> = (2 * cos (a / 2))\<^sup>2" unfolding cos_double_cos by (simp add: power_mult_distrib)
  finally have eq: "(vdx u + vdx v)\<^sup>2 + (vdy u + vdy v)\<^sup>2 = (2 * cos (a / 2))\<^sup>2" .
  show ?thesis unfolding vlength_def vector2d.sel eq real_sqrt_abs using assms(4) by simp
qed

lemma fillet_vertex_Inr:
  assumes "fillet_vertex previous vertex following (Fin r) t = Inr f"
  obtains u v a b where "0 < r" and "unit_from_vertex vertex previous = Inr u"
    and "unit_from_vertex vertex following = Inr v" and "interior_angle u v = Inr a"
    and "normalized (Vector2D (vdx u + vdx v) (vdy u + vdy v)) = Inr b"
    and "fi_tangent_in f = offset_point vertex u (r / tan (a / 2))"
    and "fi_tangent_out f = offset_point vertex v (r / tan (a / 2))"
    and "normalize_arc (offset_point vertex b (r / sin (a / 2))) r
        (degrees (atan2 (py (fi_tangent_in f) - py (offset_point vertex b (r / sin (a / 2))))
          (px (fi_tangent_in f) - px (offset_point vertex b (r / sin (a / 2)))))) None
        (Some (if 0 < cross (vector_to previous vertex) (vector_to vertex following)
               then 180 - degrees a else - (180 - degrees a))) = Inr (fi_arc f)"
  using assms by (auto simp: fillet_vertex_def bindR_Inr_iff Let_def split: if_splits)


lemma right_angle_fillet:
  "\<exists>f. fillet_vertex (Point2D 0 10) (Point2D 0 0) (Point2D 10 0) (Fin 2) (default_tolerance ''t'' ''1'') = Inr f"
proof -
  have u: "unit_from_vertex (Point2D 0 0) (Point2D 0 10) = Inr (Vector2D 0 1)"
    "unit_from_vertex (Point2D 0 0) (Point2D 10 0) = Inr (Vector2D 1 0)"
    by (simp_all add: unit_from_vertex_def unit_between_def vector_to_def vlength_def normalized_def)
  have "(1 :: real) / 10 ^ 12 < pi / 2" using pi_ge_two by simp
  then have a: "interior_angle (Vector2D 0 1) (Vector2D 1 0) = Inr (pi / 2)"
    by (simp add: interior_angle_def dot_def Let_def)
  have b: "normalized (Vector2D 1 1) = Inr (Vector2D (1 / sqrt 2) (1 / sqrt 2))"
    by (simp add: normalized_def vlength_def)
  have e: "\<not> exceeds (default_tolerance ''t'' ''1'') 2 (10 / 2)" by (simp add: exceeds_def)
  have c: "2 / (sqrt 2 * sin (pi / 4)) = 2" by (simp add: sin_45 field_simps)
  show ?thesis
    unfolding fillet_vertex_def finite1_Fin bindR_simps u a
    using b c e by (simp add: Let_def distance_to_def tan_45 offset_point_def cross_def vector_to_def degrees_def
        normalize_arc_def mk_curve_def fillet_is_tangent_def normalized_def vlength_def maximum_radius_mm_def
        dot_def is_zero_length_def default_tolerance_def)
qed


end
