(* ===== verification/DrawingModel.thy ===== *)
theory DrawingModel
  imports Areas
begin

section \<open>The semantic model of a drawing\<close>

text \<open>
  Models \<open>domain/models/drawing_model.py\<close>: the immutable model that the drawing readers produce.
  The discriminated union of geometries is a datatype with one constructor per kind; a block
  reference holds entities again. The pydantic validators are the \<open>_valid\<close> functions.
\<close>

type_synonym point_tuple = "pyfloat \<times> pyfloat"

datatype scope_kind = MODEL_SPACE | SELECTION | LAYER_SCOPE | LAYOUT_SCOPE

record read_scope =
  sc_kind :: scope_kind
  sc_layer_name :: "string option"
  sc_layout_name :: "string option"
  sc_entity_refs :: "string list"

definition opt_empty :: "string option \<Rightarrow> bool" where
  "opt_empty s \<longleftrightarrow> s = None \<or> s = Some []"

definition read_scope_valid :: "read_scope \<Rightarrow> read_scope res" where
  "read_scope_valid s =
     (if sc_kind s = LAYER_SCOPE \<and> opt_empty (sc_layer_name s)
      then Inl (ValueError ''layer scope requires layer_name'')
      else if sc_kind s = LAYOUT_SCOPE \<and> opt_empty (sc_layout_name s)
      then Inl (ValueError ''layout scope requires layout_name'')
      else if sc_kind s = SELECTION \<and> sc_entity_refs s = []
      then Inl (ValueError ''selection scope requires entity_refs'')
      else Inr s)"

datatype measured_unit = UNIT_MM | UNIT_MM2 | UNIT_DEG | UNIT_COUNT

datatype measured_provenance = MEASURED | USER_SUPPLIED

record measured_value =
  mv_value :: pyfloat
  mv_unit :: measured_unit
  mv_provenance :: measured_provenance
  mv_entity_refs :: "string list"

definition measured_value_valid :: "measured_value \<Rightarrow> measured_value res" where
  "measured_value_valid m =
     (if mv_provenance m = MEASURED \<and> mv_entity_refs m = []
      then Inl (ValueError ''measured values require at least one source entity_ref'')
      else Inr m)"

record polyline_vertex =
  pv_point_mm :: point_tuple
  pv_bulge :: pyfloat

datatype entity_geometry =
    PointGeometry point_tuple
  | LineGeometry point_tuple point_tuple
  | ArcGeometry point_tuple pyfloat pyfloat pyfloat
  | CircleGeometry point_tuple pyfloat
  | EllipseGeometry point_tuple pyfloat pyfloat pyfloat
  | PolylineGeometry "polyline_vertex list" bool
  | TextGeometry point_tuple pyfloat string string
  | DimensionGeometry string string "pyfloat option" "string option" "string list"
  | HatchGeometry string "pyfloat option" "string list"
  | BlockReferenceGeometry string point_tuple point_tuple pyfloat bool int "entity_record list" int
and entity_record =
  EntityRecord (en_entity_ref: string) (en_entity_type: string) (en_layer: string) (en_visible: bool)
    (en_space: string) (en_geometry: entity_geometry)
    (en_bounding_box_mm: "point_tuple \<times> point_tuple") (en_non_uniform_scale: bool)
    (en_feature_id: "string option")

record drawing_summary =
  dsm_schema_version :: string
  dsm_document_id :: string
  dsm_revision :: string
  dsm_counts_by_entity_type :: "(string \<times> int) list"
  dsm_counts_by_layer :: "(string \<times> int) list"
  dsm_counts_by_space :: "(string \<times> int) list"
  dsm_unsupported :: "(string \<times> int) list"
  dsm_coverage_complete :: bool

definition drawing_summary_valid :: "drawing_summary \<Rightarrow> drawing_summary res" where
  "drawing_summary_valid d =
     (if dsm_coverage_complete d \<and> dsm_unsupported d \<noteq> []
      then Inl (ValueError ''coverage_complete cannot be true when unsupported entities exist'')
      else Inr d)"

record drawing_model =
  dm_schema_version :: string
  dm_document_id :: string
  dm_revision :: string
  dm_display_name :: string
  dm_source_unit_code :: string
  dm_to_mm_factor :: "pyfloat option"
  dm_geometry_normalized :: bool
  dm_scope :: read_scope
  dm_entities :: "entity_record list"
  dm_layers :: "layer_info list"
  dm_dimension_styles :: "string list"
  dm_text_styles :: "string list"
  dm_unsupported :: "(string \<times> int) list"
  dm_coverage_complete :: bool
  dm_arc_chord_tolerance_mm :: pyfloat

text \<open>A comparison \<open>x <= 0.0\<close> of a float: false for NaN.\<close>

definition float_le0 :: "pyfloat \<Rightarrow> bool" where
  "float_le0 x = (case x of Fin r \<Rightarrow> r \<le> 0 | NegInf \<Rightarrow> True | _ \<Rightarrow> False)"

definition drawing_model_valid :: "drawing_model \<Rightarrow> drawing_model res" where
  "drawing_model_valid d =
     (if dm_to_mm_factor d = None \<and> dm_geometry_normalized d
      then Inl (ValueError ''geometry_normalized must be false when to_mm_factor is unknown'')
      else if (case dm_to_mm_factor d of None \<Rightarrow> False | Some f \<Rightarrow> float_le0 f)
      then Inl (ValueError ''to_mm_factor must be positive'')
      else if dm_coverage_complete d \<and> dm_unsupported d \<noteq> []
      then Inl (ValueError ''coverage_complete cannot be true when unsupported entities exist'')
      else Inr d)"

end
