(* ===== verification/Contours.thy ===== *)
theory Contours
  imports DrawingModel
begin

section \<open>Assembling the contours of a drawing\<close>

text \<open>
  Models \<open>comprehension/contours.py\<close>: the entities of a drawing become edges, edges whose ends
  coincide within tolerance are chained, a chain that closes is a contour and one that does not is
  reported with its gap. The loops consume the list of unused edges, which is why they end.
\<close>

lemma bindR_cong [fundef_cong]:
  "r = s \<Longrightarrow> (\<And>x. s = Inr x \<Longrightarrow> f x = g x) \<Longrightarrow> bindR r f = bindR s g"
  by (cases s) simp_all

subsection \<open>Edges\<close>

record edge_record =
  ec_edge :: contour_edge
  ec_entity_ref :: string

definition edge_start :: "edge_record \<Rightarrow> point2d res" where
  "edge_start r = (case ec_edge r of LineEdge a b \<Rightarrow> Inr a | CurveEdge c \<Rightarrow> start_point c)"

definition edge_end :: "edge_record \<Rightarrow> point2d res" where
  "edge_end r = (case ec_edge r of LineEdge a b \<Rightarrow> Inr b | CurveEdge c \<Rightarrow> end_point c)"

record assembled_contour =
  ac_contour :: contour
  ac_entity_refs :: "string list"
  ac_edges :: "edge_record list"
  ac_is_circle :: bool

record open_contour_finding =
  oc_gap_mm :: real
  oc_endpoint_entity_refs :: "string \<times> string"

record contour_analysis =
  ca_contours :: "assembled_contour list"
  ca_forest :: "contour_node list"
  ca_open_contours :: "open_contour_finding list"

definition point_of_tuple :: "point_tuple \<Rightarrow> point2d res" where
  "point_of_tuple v = mk_point (fst v) (snd v)"

definition reverse_curve :: "curve_params \<Rightarrow> curve_params res" where
  "reverse_curve c = mk_curve (c\<lparr>cu_start_angle_deg := end_angle_deg c, cu_sweep_deg := - cu_sweep_deg c\<rparr>)"

definition reverse_edge :: "edge_record \<Rightarrow> edge_record res" where
  "reverse_edge r =
     (case ec_edge r of
        LineEdge a b \<Rightarrow> Inr (r\<lparr>ec_edge := LineEdge b a\<rparr>)
      | CurveEdge c \<Rightarrow> bindR (reverse_curve c) (\<lambda>d. Inr (r\<lparr>ec_edge := CurveEdge d\<rparr>)))"

definition polyline_edge ::
  "polyline_vertex list \<Rightarrow> string \<Rightarrow> nat \<Rightarrow> edge_record res" where
  "polyline_edge vs ref i =
     bindR (point_of_tuple (pv_point_mm (vs ! i))) (\<lambda>a.
     bindR (point_of_tuple (pv_point_mm (vs ! (Suc i mod length vs)))) (\<lambda>b.
     bindR (finite1 (pv_bulge (vs ! i))) (\<lambda>bulge.
       if \<bar>bulge\<bar> \<le> 1 / 10 ^ 15 then Inr \<lparr>ec_edge = LineEdge a b, ec_entity_ref = ref\<rparr>
       else bindR (normalize_bulge a b bulge) (\<lambda>c. Inr \<lparr>ec_edge = CurveEdge c, ec_entity_ref = ref\<rparr>))))"

text \<open>What one entity contributes: edges to be chained, and closed circles.\<close>

definition entity_contribution ::
  "entity_record \<Rightarrow> (edge_record list \<times> assembled_contour list) res" where
  "entity_contribution e =
     (let ref = en_entity_ref e in
      case en_geometry e of
        LineGeometry a b \<Rightarrow>
          bindR (point_of_tuple a) (\<lambda>p. bindR (point_of_tuple b) (\<lambda>q.
            Inr ([\<lparr>ec_edge = LineEdge p q, ec_entity_ref = ref\<rparr>], [])))
      | ArcGeometry c radius a b \<Rightarrow>
          bindR (point_of_tuple c) (\<lambda>p. bindR (finite1 radius) (\<lambda>r. bindR (finite1 a) (\<lambda>s. bindR (finite1 b) (\<lambda>t.
          bindR (normalize_arc p r s (Some t) None) (\<lambda>arc.
            Inr ([\<lparr>ec_edge = CurveEdge arc, ec_entity_ref = ref\<rparr>], []))))))
      | CircleGeometry c radius \<Rightarrow>
          bindR (point_of_tuple c) (\<lambda>p. bindR (finite1 radius) (\<lambda>r. bindR (normalize_circle p r) (\<lambda>curve.
          bindR (mk_curve_contour [CurveEdge curve]) (\<lambda>contour.
            Inr ([], [\<lparr>ac_contour = contour, ac_entity_refs = [ref],
                       ac_edges = [\<lparr>ec_edge = CurveEdge curve, ec_entity_ref = ref\<rparr>], ac_is_circle = True\<rparr>])))))
      | PolylineGeometry vs cl \<Rightarrow>
          bindR (traverse (polyline_edge vs ref) [0..<if cl then length vs else length vs - 1]) (\<lambda>es.
            Inr (es, []))
      | _ \<Rightarrow> Inr ([], []))"

definition entity_edges :: "drawing_model \<Rightarrow> (edge_record list \<times> assembled_contour list) res" where
  "entity_edges m =
     bindR (traverse entity_contribution (dm_entities m)) (\<lambda>xs.
       Inr (concat (map fst xs), concat (map snd xs)))"

subsection \<open>Chains\<close>

fun find_match_from ::
  "nat \<Rightarrow> edge_record list \<Rightarrow> point2d \<Rightarrow> tolerance_profile \<Rightarrow> (nat \<times> edge_record) option res" where
  "find_match_from i [] endpoint t = Inr None"
| "find_match_from i (c # cs) endpoint t =
     bindR (edge_start c) (\<lambda>a.
       if is_coincident t (distance_to endpoint a) then Inr (Some (i, c))
       else bindR (edge_end c) (\<lambda>b.
         if is_coincident t (distance_to endpoint b) then bindR (reverse_edge c) (\<lambda>r. Inr (Some (i, r)))
         else find_match_from (Suc i) cs endpoint t))"

definition find_match ::
  "edge_record list \<Rightarrow> point2d \<Rightarrow> tolerance_profile \<Rightarrow> (nat \<times> edge_record) option res" where
  "find_match = find_match_from 0"

definition remove_nth :: "nat \<Rightarrow> 'a list \<Rightarrow> 'a list" where
  "remove_nth i xs = take i xs @ drop (Suc i) xs"

definition unique_refs :: "edge_record list \<Rightarrow> string list" where
  "unique_refs rs = rev (remdups (rev (map ec_entity_ref rs)))"

definition closes :: "tolerance_profile \<Rightarrow> edge_record list \<Rightarrow> real res" where
  "closes t chain = bindR (edge_end (last chain)) (\<lambda>e. bindR (edge_start (hd chain)) (\<lambda>s.
     Inr (distance_to e s)))"

text \<open>\<open>while unused\<close>: append at the end until the chain closes or nothing fits.\<close>

function extend_forward ::
  "tolerance_profile \<Rightarrow> edge_record list \<Rightarrow> edge_record list \<Rightarrow> (edge_record list \<times> edge_record list) res" where
  "extend_forward t chain unused =
     (if unused = [] then Inr (chain, unused)
      else bindR (edge_end (last chain)) (\<lambda>e.
        bindR (find_match unused e t) (\<lambda>m.
          case m of
            None \<Rightarrow> Inr (chain, unused)
          | Some (i, r) \<Rightarrow>
              if length unused \<le> i then Inl (IndexError ''pop index out of range'')
              else bindR (closes t (chain @ [r])) (\<lambda>gap.
                if is_coincident t gap then Inr (chain @ [r], remove_nth i unused)
                else extend_forward t (chain @ [r]) (remove_nth i unused)))))"
  by pat_completeness auto
termination
  by (relation "measure (\<lambda>(t, chain, unused). length unused)") (auto simp: remove_nth_def)

text \<open>The second loop inserts reversed matches at the front.\<close>

function extend_backward ::
  "tolerance_profile \<Rightarrow> edge_record list \<Rightarrow> edge_record list \<Rightarrow> (edge_record list \<times> edge_record list) res" where
  "extend_backward t chain unused =
     (if unused = [] then Inr (chain, unused)
      else bindR (closes t chain) (\<lambda>gap.
        if is_coincident t gap then Inr (chain, unused)
        else bindR (edge_start (hd chain)) (\<lambda>s.
          bindR (find_match unused s t) (\<lambda>m.
            case m of
              None \<Rightarrow> Inr (chain, unused)
            | Some (i, r) \<Rightarrow>
                if length unused \<le> i then Inl (IndexError ''pop index out of range'')
                else bindR (reverse_edge r) (\<lambda>q.
                  extend_backward t (q # chain) (remove_nth i unused))))))"
  by pat_completeness auto
termination
  by (relation "measure (\<lambda>(t, chain, unused). length unused)") (auto simp: remove_nth_def)

declare extend_forward.simps [simp del] extend_backward.simps [simp del]

definition extend_chain ::
  "tolerance_profile \<Rightarrow> edge_record \<Rightarrow> edge_record list \<Rightarrow> (edge_record list \<times> edge_record list) res" where
  "extend_chain t first unused =
     bindR (extend_forward t [first] unused) (\<lambda>(chain, rest). extend_backward t chain rest)"

definition classify_chain ::
  "tolerance_profile \<Rightarrow> edge_record list \<Rightarrow> (open_contour_finding + assembled_contour) res" where
  "classify_chain t chain =
     bindR (closes t chain) (\<lambda>gap.
       if is_coincident t gap
       then bindR (mk_curve_contour (map ec_edge chain)) (\<lambda>contour.
         Inr (Inr \<lparr>ac_contour = contour, ac_entity_refs = unique_refs chain, ac_edges = chain,
                   ac_is_circle = False\<rparr>))
       else Inr (Inl \<lparr>oc_gap_mm = gap,
         oc_endpoint_entity_refs = (ec_entity_ref (hd chain), ec_entity_ref (last chain))\<rparr>))"

lemma length_remove_nth: "i < length xs \<Longrightarrow> length (remove_nth i xs) < length xs"
  by (simp add: remove_nth_def)

text \<open>The loops as step relations, for rule induction.\<close>

inductive forward ::
  "tolerance_profile \<Rightarrow> edge_record list \<Rightarrow> edge_record list \<Rightarrow> edge_record list \<Rightarrow> edge_record list \<Rightarrow> bool"
  for t :: tolerance_profile where
  forward_stop: "forward t chain unused chain unused"
| forward_step: "edge_end (last chain) = Inr e \<Longrightarrow> find_match unused e t = Inr (Some (i, r)) \<Longrightarrow>
    i < length unused \<Longrightarrow> forward t (chain @ [r]) (remove_nth i unused) c rest \<Longrightarrow>
    forward t chain unused c rest"

inductive backward ::
  "tolerance_profile \<Rightarrow> edge_record list \<Rightarrow> edge_record list \<Rightarrow> edge_record list \<Rightarrow> edge_record list \<Rightarrow> bool"
  for t :: tolerance_profile where
  backward_stop: "backward t chain unused chain unused"
| backward_step: "edge_start (hd chain) = Inr s \<Longrightarrow> find_match unused s t = Inr (Some (i, r)) \<Longrightarrow>
    i < length unused \<Longrightarrow> reverse_edge r = Inr q \<Longrightarrow> backward t (q # chain) (remove_nth i unused) c rest \<Longrightarrow>
    backward t chain unused c rest"

lemma extend_forward_steps: "extend_forward t chain unused = Inr (c, rest) \<Longrightarrow> forward t chain unused c rest"
proof (induction "length unused" arbitrary: chain unused rule: less_induct)
  case less
  note eq = less.prems [unfolded extend_forward.simps [of t chain unused]]
  show ?case
  proof (cases "unused = []")
    case True
    with eq show ?thesis by (auto intro: forward_stop)
  next
    case False
    with eq obtain e m where e: "edge_end (last chain) = Inr e" and m: "find_match unused e t = Inr m"
      by (auto simp: bindR_Inr_iff)
    show ?thesis
    proof (cases m)
      case None
      with eq e m False show ?thesis by (auto intro: forward_stop)
    next
      case (Some p)
      obtain i r where p: "p = (i, r)" by (cases p)
      from eq e m False Some p have i: "i < length unused" by (auto split: if_splits)
      with eq e m False Some p have
        "(c = chain @ [r] \<and> rest = remove_nth i unused) \<or> extend_forward t (chain @ [r]) (remove_nth i unused) = Inr (c, rest)"
        by (auto simp: bindR_Inr_iff split: if_splits)
      then have "forward t (chain @ [r]) (remove_nth i unused) c rest"
        using less.hyps [OF length_remove_nth [OF i]] by (auto intro: forward_stop)
      with e m Some p i show ?thesis by (auto intro: forward_step)
    qed
  qed
qed

lemma extend_backward_steps: "extend_backward t chain unused = Inr (c, rest) \<Longrightarrow> backward t chain unused c rest"
proof (induction "length unused" arbitrary: chain unused rule: less_induct)
  case less
  note eq = less.prems [unfolded extend_backward.simps [of t chain unused]]
  show ?case
  proof (cases "unused = []")
    case True
    with eq show ?thesis by (auto intro: backward_stop)
  next
    case False
    with eq obtain gap where gap: "closes t chain = Inr gap" by (auto simp: bindR_Inr_iff)
    show ?thesis
    proof (cases "is_coincident t gap")
      case True
      with eq gap False show ?thesis by (auto intro: backward_stop)
    next
      case open_chain: False
      with eq gap False obtain s m where s: "edge_start (hd chain) = Inr s" and m: "find_match unused s t = Inr m"
        by (auto simp: bindR_Inr_iff)
      show ?thesis
      proof (cases m)
        case None
        with eq gap s m False open_chain show ?thesis by (auto intro: backward_stop)
      next
        case (Some p)
        obtain i r where p: "p = (i, r)" by (cases p)
        from eq gap s m False open_chain Some p have i: "i < length unused" by (auto split: if_splits)
        with eq gap s m False open_chain Some p obtain q where q: "reverse_edge r = Inr q"
          and rec: "extend_backward t (q # chain) (remove_nth i unused) = Inr (c, rest)"
          by (auto simp: bindR_Inr_iff)
        from less.hyps [OF length_remove_nth [OF i] rec] s m Some p i q show ?thesis
          by (auto intro: backward_step)
      qed
    qed
  qed
qed

lemma forward_length: "forward t chain unused c rest \<Longrightarrow> length rest \<le> length unused"
  by (induction rule: forward.induct) (auto dest: length_remove_nth)

lemma backward_length: "backward t chain unused c rest \<Longrightarrow> length rest \<le> length unused"
  by (induction rule: backward.induct) (auto dest: length_remove_nth)

lemma extend_chain_length: "extend_chain t e unused = Inr (c, rest) \<Longrightarrow> length rest \<le> length unused"
  by (fastforce simp: extend_chain_def bindR_Inr_iff dest!: extend_forward_steps extend_backward_steps
      forward_length backward_length)

subsection \<open>The analysis\<close>

function assemble ::
  "tolerance_profile \<Rightarrow> edge_record list \<Rightarrow> (assembled_contour list \<times> open_contour_finding list) res" where
  "assemble t [] = Inr ([], [])"
| "assemble t (u # us) =
     bindR (extend_chain t u us) (\<lambda>p.
     bindR (classify_chain t (fst p)) (\<lambda>k.
     bindR (assemble t (snd p)) (\<lambda>q.
       Inr (case k of Inr a \<Rightarrow> (a # fst q, snd q) | Inl f \<Rightarrow> (fst q, f # snd q)))))"
  by pat_completeness auto
termination
proof (relation "measure (\<lambda>(t, unused). length unused)")
  fix t u us p k
  assume "extend_chain t u us = Inr p"
  then show "((t, snd p), t, u # us) \<in> measure (\<lambda>(t, unused). length unused)"
    by (cases p) (auto dest: extend_chain_length)
qed simp

definition analyze_contours :: "drawing_model \<Rightarrow> tolerance_profile \<Rightarrow> contour_analysis res" where
  "analyze_contours m t =
     bindR (entity_edges m) (\<lambda>(edges, circles).
     bindR (assemble t edges) (\<lambda>(closed_chains, open_findings).
     bindR (forest_build (map ac_contour (circles @ closed_chains)) t) (\<lambda>forest.
       Inr \<lparr>ca_contours = circles @ closed_chains, ca_forest = forest, ca_open_contours = open_findings\<rparr>)))"

subsection \<open>Contours are closed\<close>

text \<open>Every edge ends where the next begins, within the tolerance.\<close>

definition joined :: "tolerance_profile \<Rightarrow> edge_record \<Rightarrow> edge_record \<Rightarrow> bool" where
  "joined t a b \<longleftrightarrow> (\<exists>p q. edge_end a = Inr p \<and> edge_start b = Inr q \<and> is_coincident t (distance_to p q))"

lemma point_at_fraction_eq:
  assumes "0 \<le> x" "x \<le> 1" "0 \<le> y" "y \<le> 1"
    and "cu_center c = cu_center d" "cu_radius_mm c = cu_radius_mm d" "cu_semi_major_mm c = cu_semi_major_mm d"
      "cu_semi_minor_mm c = cu_semi_minor_mm d" "cu_rotation_deg c = cu_rotation_deg d"
    and "cu_start_angle_deg c + cu_sweep_deg c * x = cu_start_angle_deg d + cu_sweep_deg d * y"
  shows "point_at_fraction c x = point_at_fraction d y"
  unfolding point_at_fraction_def assms(5-10) using assms(1-4) by (simp only: if_False not_True_eq_False simp_thms)

lemma reverse_curve_ends:
  assumes "reverse_curve c = Inr d"
  shows "start_point d = end_point c" and "end_point d = start_point c"
proof -
  from assms have d: "d = c\<lparr>cu_start_angle_deg := end_angle_deg c, cu_sweep_deg := - cu_sweep_deg c\<rparr>"
    by (auto simp: reverse_curve_def mk_curve_def split: if_splits curve_kind.splits option.splits)
  show "start_point d = end_point c" unfolding start_point_def end_point_def
    by (rule point_at_fraction_eq) (simp_all add: d end_angle_deg_def)
  show "end_point d = start_point c" unfolding start_point_def end_point_def
    by (rule point_at_fraction_eq) (simp_all add: d end_angle_deg_def)
qed

lemma reverse_edge_ends:
  assumes "reverse_edge r = Inr q"
  shows "edge_start q = edge_end r \<and> edge_end q = edge_start r"
proof (cases "ec_edge r")
  case (CurveEdge c)
  with assms obtain d where d: "reverse_curve c = Inr d" and q: "q = r\<lparr>ec_edge := CurveEdge d\<rparr>"
    by (auto simp: reverse_edge_def bindR_Inr_iff)
  from q CurveEdge reverse_curve_ends [OF d] show ?thesis by (simp add: edge_start_def edge_end_def)
next
  case (LineEdge a b)
  have "q = r\<lparr>ec_edge := LineEdge b a\<rparr>"
    using assms unfolding reverse_edge_def LineEdge contour_edge.case by (rule Inr_inject [symmetric])
  then have "ec_edge q = LineEdge b a" by simp
  then show ?thesis unfolding edge_start_def edge_end_def LineEdge by simp
qed

lemma find_match_start:
  "find_match_from k unused p t = Inr (Some (i, r)) \<Longrightarrow>
     \<exists>q. edge_start r = Inr q \<and> is_coincident t (distance_to p q)"
proof (induction k unused p t rule: find_match_from.induct)
  case (2 k c cs p t)
  from 2(2) obtain a where a: "edge_start c = Inr a" by (auto simp: bindR_Inr_iff)
  show ?case
  proof (cases "is_coincident t (distance_to p a)")
    case True
    with 2(2) a show ?thesis by simp
  next
    case False
    with 2(2) a obtain b where b: "edge_end c = Inr b" by (auto simp: bindR_Inr_iff)
    show ?thesis
    proof (cases "is_coincident t (distance_to p b)")
      case True
      with 2(2) a b False have "reverse_edge c = Inr r" by (auto simp: bindR_Inr_iff)
      from reverse_edge_ends [OF this] b True show ?thesis by auto
    next
      case notb: False
      with 2(2) a b False 2(1) [OF a False b notb] show ?thesis by simp
    qed
  qed
qed simp

lemma match_joined:
  "edge_end a = Inr p \<Longrightarrow> find_match unused p t = Inr (Some (i, r)) \<Longrightarrow> joined t a r"
  unfolding find_match_def joined_def by (blast dest: find_match_start)

lemma match_reversed_joined:
  assumes "edge_start b = Inr s" and "find_match unused s t = Inr (Some (i, r))" and "reverse_edge r = Inr q"
  shows "joined t q b"
proof -
  from find_match_start [OF assms(2) [unfolded find_match_def]] obtain z where
    "edge_start r = Inr z" "is_coincident t (distance_to s z)" by blast
  with assms(1) reverse_edge_ends [OF assms(3)] show ?thesis
    unfolding joined_def by (auto simp: distance_to_sym)
qed

lemma forward_joined:
  "forward t chain unused c rest \<Longrightarrow> chain \<noteq> [] \<Longrightarrow> successively (joined t) chain \<Longrightarrow>
     c \<noteq> [] \<and> successively (joined t) c"
proof (induction rule: forward.induct)
  case (forward_step chain e unused i r c rest)
  from match_joined [OF forward_step.hyps(1,2)] forward_step.prems
  have "successively (joined t) (chain @ [r])" by (simp add: successively_append_iff)
  with forward_step.IH show ?case by simp
qed simp

lemma backward_joined:
  "backward t chain unused c rest \<Longrightarrow> chain \<noteq> [] \<Longrightarrow> successively (joined t) chain \<Longrightarrow>
     c \<noteq> [] \<and> successively (joined t) c"
proof (induction rule: backward.induct)
  case (backward_step chain s unused i r q c rest)
  from match_reversed_joined [OF backward_step.hyps(1,2,4)] backward_step.prems
  have "successively (joined t) (q # chain)" by (cases chain) auto
  with backward_step.IH show ?case by simp
qed simp

lemma extend_chain_joined:
  assumes "extend_chain t u us = Inr (c, rest)" shows "c \<noteq> [] \<and> successively (joined t) c"
proof -
  from assms obtain d ds where "extend_forward t [u] us = Inr (d, ds)" "extend_backward t d ds = Inr (c, rest)"
    by (auto simp: extend_chain_def bindR_Inr_iff)
  then have f: "forward t [u] us d ds" and b: "backward t d ds c rest"
    by (auto intro: extend_forward_steps extend_backward_steps)
  from backward_joined [OF b] forward_joined [OF f] show ?thesis by simp
qed

definition closed_loop :: "tolerance_profile \<Rightarrow> assembled_contour \<Rightarrow> bool" where
  "closed_loop t a \<longleftrightarrow> ac_edges a \<noteq> [] \<and> ac_contour a = CurveContour (map ec_edge (ac_edges a)) \<and>
     successively (joined t) (ac_edges a) \<and> joined t (last (ac_edges a)) (hd (ac_edges a))"

lemma classify_closed:
  assumes "classify_chain t chain = Inr (Inr a)" and "chain \<noteq> []" and "successively (joined t) chain"
  shows "closed_loop t a"
proof -
  from assms(1) obtain gap contour where gap: "closes t chain = Inr gap" "is_coincident t gap"
    and contour: "mk_curve_contour (map ec_edge chain) = Inr contour"
    and a: "a = \<lparr>ac_contour = contour, ac_entity_refs = unique_refs chain, ac_edges = chain, ac_is_circle = False\<rparr>"
    by (auto simp: classify_chain_def bindR_Inr_iff split: if_splits)
  from gap have "joined t (last chain) (hd chain)" by (auto simp: closes_def bindR_Inr_iff joined_def)
  moreover from contour have "contour = CurveContour (map ec_edge chain)"
    by (auto simp: mk_curve_contour_def split: if_splits)
  ultimately show ?thesis using a assms(2,3) by (simp add: closed_loop_def)
qed

lemma classify_open:
  "classify_chain t chain = Inr (Inl f) \<Longrightarrow> \<not> is_coincident t (oc_gap_mm f)"
  by (auto simp: classify_chain_def bindR_Inr_iff split: if_splits)

lemma assemble_sound:
  "assemble t unused = Inr (cs, fs) \<Longrightarrow>
     (\<forall>a \<in> set cs. closed_loop t a \<and> \<not> ac_is_circle a) \<and> (\<forall>f \<in> set fs. \<not> is_coincident t (oc_gap_mm f))"
proof (induction t unused arbitrary: cs fs rule: assemble.induct)
  case (2 t u us)
  from 2(2) obtain p k q where p: "extend_chain t u us = Inr p" and k: "classify_chain t (fst p) = Inr k"
    and q: "assemble t (snd p) = Inr q"
    and out: "(cs, fs) = (case k of Inr a \<Rightarrow> (a # fst q, snd q) | Inl f \<Rightarrow> (fst q, f # snd q))"
    by (auto simp: bindR_Inr_iff)
  from 2(1) [OF p k, of "fst q" "snd q"] q have rest:
    "\<forall>a \<in> set (fst q). closed_loop t a \<and> \<not> ac_is_circle a" "\<forall>f \<in> set (snd q). \<not> is_coincident t (oc_gap_mm f)" by simp_all
  from extend_chain_joined [of t u us "fst p" "snd p"] p have chain: "fst p \<noteq> []" "successively (joined t) (fst p)" by auto
  show ?case
  proof (cases k)
    case (Inl f)
    with out rest classify_open [of t "fst p" f] k show ?thesis by auto
  next
    case (Inr a)
    moreover from k Inr have "\<not> ac_is_circle a" by (auto simp: classify_chain_def bindR_Inr_iff split: if_splits)
    ultimately show ?thesis using out rest classify_closed [OF _ chain, of a] k by auto
  qed
qed simp

lemma forest_contours:
  assumes "forest_build xs t = Inr nodes" shows "map cn_contour nodes = xs"
proof -
  from assms obtain parents depths areas where
    "nodes = map (\<lambda>i. \<lparr>cn_contour = xs ! i, cn_parent_index = parents ! i, cn_depth = depths ! i, cn_area_mm2 = areas ! i\<rparr>)
      [0..<length xs]"
    unfolding forest_build_def bindR_Inr_iff Let_def by (auto simp: bindR_Inr_iff split: if_splits)
  then have "map cn_contour nodes = map ((!) xs) [0..<length xs]" by (simp add: comp_def)
  then show ?thesis by (simp add: map_nth)
qed


definition demo_drawing :: "entity_geometry \<Rightarrow> drawing_model" where
  "demo_drawing g =
     \<lparr>dm_schema_version = SCHEMA_VERSION, dm_document_id = ''doc_1'', dm_revision = ''r1'',
      dm_display_name = ''demo'', dm_source_unit_code = ''4'', dm_to_mm_factor = Some (Fin 1),
      dm_geometry_normalized = True,
      dm_scope = \<lparr>sc_kind = MODEL_SPACE, sc_layer_name = None, sc_layout_name = None, sc_entity_refs = []\<rparr>,
      dm_entities = [EntityRecord ''ref:1'' ''LWPOLYLINE'' ''0'' True ''model'' g ((Fin 0, Fin 0), (Fin 4, Fin 3)) False None],
      dm_layers = [], dm_dimension_styles = [], dm_text_styles = [], dm_unsupported = [],
      dm_coverage_complete = True, dm_arc_chord_tolerance_mm = Fin (1 / 100)\<rparr>"

definition demo_triangle :: entity_geometry where
  "demo_triangle = PolylineGeometry [\<lparr>pv_point_mm = (Fin 0, Fin 0), pv_bulge = Fin 0\<rparr>,
     \<lparr>pv_point_mm = (Fin 4, Fin 0), pv_bulge = Fin 0\<rparr>, \<lparr>pv_point_mm = (Fin 4, Fin 3), pv_bulge = Fin 0\<rparr>] True"

lemma point_of_Fin [simp]: "point_of_tuple (Fin a, Fin b) = Inr (Point2D a b)"
  by (simp add: point_of_tuple_def mk_point_def require_finite_def)

lemma demo_triangle_edges:
  "entity_edges (demo_drawing demo_triangle) = Inr
     ([\<lparr>ec_edge = LineEdge (Point2D 0 0) (Point2D 4 0), ec_entity_ref = ''ref:1''\<rparr>,
       \<lparr>ec_edge = LineEdge (Point2D 4 0) (Point2D 4 3), ec_entity_ref = ''ref:1''\<rparr>,
       \<lparr>ec_edge = LineEdge (Point2D 4 3) (Point2D 0 0), ec_entity_ref = ''ref:1''\<rparr>], [])"
  by (simp add: entity_edges_def demo_drawing_def demo_triangle_def entity_contribution_def polyline_edge_def
      Let_def)

lemma demo_triangle_analysis:
  "\<exists>a c. analyze_contours (demo_drawing demo_triangle) (default_tolerance ''t'' ''1'') = Inr a \<and>
     ca_contours a = [c] \<and> length (ac_edges c) = 3 \<and> \<not> ac_is_circle c"
proof -
  let ?t = "default_tolerance ''t'' ''1''"
  let ?e1 = "\<lparr>ec_edge = LineEdge (Point2D 0 0) (Point2D 4 0), ec_entity_ref = ''ref:1''\<rparr>"
    and ?e2 = "\<lparr>ec_edge = LineEdge (Point2D 4 0) (Point2D 4 3), ec_entity_ref = ''ref:1''\<rparr>"
    and ?e3 = "\<lparr>ec_edge = LineEdge (Point2D 4 3) (Point2D 0 0), ec_entity_ref = ''ref:1''\<rparr>"
  have "sqrt 25 = 5" using real_sqrt_abs [of 5] by simp
  then have d: "distance_to (Point2D 4 3) (Point2D 0 0) = 5" "distance_to (Point2D 4 0) (Point2D 4 0) = 0"
    "distance_to (Point2D 4 3) (Point2D 4 3) = 0" "distance_to (Point2D 0 0) (Point2D 0 0) = 0"
    by (simp_all add: distance_to_def)
  have chain: "extend_chain ?t ?e1 [?e2, ?e3] = Inr ([?e1, ?e2, ?e3], [])"
    by (simp add: extend_chain_def extend_forward.simps extend_backward.simps edge_end_def edge_start_def
        find_match_def closes_def d is_coincident_def default_tolerance_def remove_nth_def)
  let ?c = "\<lparr>ac_contour = CurveContour (map ec_edge [?e1, ?e2, ?e3]), ac_entity_refs = [''ref:1''],
    ac_edges = [?e1, ?e2, ?e3], ac_is_circle = False\<rparr>"
  have "classify_chain ?t [?e1, ?e2, ?e3] = Inr (Inr ?c)"
    by (simp add: classify_chain_def closes_def edge_end_def edge_start_def d is_coincident_def
        default_tolerance_def mk_curve_contour_def unique_refs_def)
  then have "assemble ?t [?e1, ?e2, ?e3] = Inr ([?c], [])" by (simp add: chain)
  moreover have "\<exists>f. forest_build [CurveContour (map ec_edge [?e1, ?e2, ?e3])] ?t = Inr f"
    by (simp add: forest_build_def is_open_polyline_def contour_area_def signed_contour_area_def edge_area_def
        as_polyline_def contour_vertices_def edge_points_def mk_polyline_def containers_def Let_def d
        default_tolerance_def)
  ultimately show ?thesis by (auto simp: analyze_contours_def demo_triangle_edges)
qed


text \<open>
  A drawing with an isolated line of no length cannot be analysed: the line closes on itself, and its
  one remaining vertex is not a polyline.
\<close>

lemma zero_length_line_fails:
  "analyze_contours (demo_drawing (LineGeometry (Fin 1, Fin 1) (Fin 1, Fin 1))) (default_tolerance ''t'' ''1'') =
     Inl (Err InvalidGeometryError ''A polyline needs at least two vertices'')"
proof -
  let ?t = "default_tolerance ''t'' ''1''"
  let ?e = "\<lparr>ec_edge = LineEdge (Point2D 1 1) (Point2D 1 1), ec_entity_ref = ''ref:1''\<rparr>"
  have d: "distance_to (Point2D 1 1) (Point2D 1 1) = 0" by (simp add: distance_to_def)
  have "entity_edges (demo_drawing (LineGeometry (Fin 1, Fin 1) (Fin 1, Fin 1))) = Inr ([?e], [])"
    by (simp add: entity_edges_def demo_drawing_def entity_contribution_def Let_def)
  moreover have "extend_chain ?t ?e [] = Inr ([?e], [])"
    by (simp add: extend_chain_def extend_forward.simps extend_backward.simps)
  moreover have "classify_chain ?t [?e] = Inr (Inr \<lparr>ac_contour = CurveContour [ec_edge ?e],
      ac_entity_refs = [''ref:1''], ac_edges = [?e], ac_is_circle = False\<rparr>)"
    by (simp add: classify_chain_def closes_def edge_end_def edge_start_def d is_coincident_def
        default_tolerance_def mk_curve_contour_def unique_refs_def)
  ultimately show ?thesis
    by (simp add: analyze_contours_def forest_build_def is_open_polyline_def contour_area_def
        signed_contour_area_def edge_area_def as_polyline_def contour_vertices_def edge_points_def
        mk_polyline_def Let_def d default_tolerance_def)
qed

end
