(* ===== verification/FeatureModel.thy ===== *)
theory FeatureModel
  imports StoreModel Cutouts Contours
begin

section \<open>The feature compiler contract\<close>

text \<open>
  Models \<open>feature_catalog/base.py\<close> and \<open>feature_catalog/parameters.py\<close>: what a compiler may rely
  on, its report of missing inputs, its output, and the strict reading of parameters. \<open>float\<close> of a
  string is the parameter \<open>pf\<close> (\<open>None\<close> where Python raises \<open>ValueError\<close>). The hole-pattern, slot, bracket and corner
  modules each repeat the body of \<open>number\<close>; the model has it once.
\<close>

subsection \<open>Contexts, reports and compiled features\<close>

record compile_context =
  cx_profile :: company_profile
  cx_tolerance :: tolerance_profile
  cx_datum :: "point2d option"
  cx_parent_feature_id :: "string option"
  cx_parent_box :: "bounding_box option"
  cx_parent_outline :: "polyline2d option"
  cx_source_model :: "drawing_model option"

definition cx_layer_for :: "compile_context \<Rightarrow> string \<Rightarrow> string res" where
  "cx_layer_for cx purpose = layer_for (cx_profile cx) purpose"

definition for_child ::
  "compile_context \<Rightarrow> string \<Rightarrow> bounding_box \<Rightarrow> polyline2d option \<Rightarrow> compile_context" where
  "for_child cx fid box outline =
     cx\<lparr>cx_parent_feature_id := Some fid, cx_parent_box := Some box, cx_parent_outline := outline\<rparr>"

record input_report =
  ir_missing :: "missing_input list"
  ir_defaults_applied :: "default_record list"
  ir_assumptions :: "assumption_record list"

definition empty_report :: input_report where
  "empty_report = \<lparr>ir_missing = [], ir_defaults_applied = [], ir_assumptions = []\<rparr>"

definition is_complete :: "input_report \<Rightarrow> bool" where
  "is_complete r \<longleftrightarrow> ir_missing r = []"

definition require_input :: "bool \<Rightarrow> string \<Rightarrow> string \<Rightarrow> string list \<Rightarrow> input_report \<Rightarrow> input_report" where
  "require_input present path reason formats r =
     (if present then r
      else r\<lparr>ir_missing := ir_missing r @ [\<lparr>mi_path = path, mi_reason = reason, mi_accepted_formats = formats\<rparr>]\<rparr>)"

definition merge_report :: "input_report \<Rightarrow> input_report \<Rightarrow> input_report" where
  "merge_report r other = \<lparr>ir_missing = ir_missing r @ ir_missing other,
     ir_defaults_applied = ir_defaults_applied r @ ir_defaults_applied other,
     ir_assumptions = ir_assumptions r @ ir_assumptions other\<rparr>"

record compiled_feature =
  cf_feature_id :: string
  cf_operations :: "operation list"
  cf_expectations :: "validation_expectation list"
  cf_defaults_applied :: "default_record list"
  cf_assumptions :: "assumption_record list"

definition merge_compiled :: "compiled_feature \<Rightarrow> compiled_feature \<Rightarrow> compiled_feature" where
  "merge_compiled c other =
     c\<lparr>cf_operations := cf_operations c @ cf_operations other,
       cf_expectations := cf_expectations c @ cf_expectations other,
       cf_defaults_applied := cf_defaults_applied c @ cf_defaults_applied other,
       cf_assumptions := cf_assumptions c @ cf_assumptions other\<rparr>"

definition operation_id :: "string \<Rightarrow> string \<Rightarrow> string" where
  "operation_id feature_id suffix = ''op:'' @ feature_id @ '':'' @ suffix"

subsection \<open>Parameters\<close>

text \<open>\<open>d.get(key)\<close>.\<close>

definition pget :: "pydict \<Rightarrow> string \<Rightarrow> pyval" where
  "pget d k = (case map_of d k of None \<Rightarrow> PNone | Some v \<Rightarrow> v)"

definition given :: "pydict \<Rightarrow> string \<Rightarrow> bool" where
  "given d k \<longleftrightarrow> pget d k \<noteq> PNone"

definition number :: "pydict \<Rightarrow> string \<Rightarrow> pyfloat option res" where
  "number d key =
     (case pget d key of
        PNone \<Rightarrow> Inr None
      | PInt i \<Rightarrow> Inr (Some (Fin (of_int i)))
      | PFloat f \<Rightarrow> Inr (Some f)
      | _ \<Rightarrow> Inl (Err InvalidFeatureParametersError (''Parameter '' @ quoted key @ '' must be numeric'')))"

definition integer :: "pydict \<Rightarrow> string \<Rightarrow> int option res" where
  "integer d key =
     (case pget d key of
        PNone \<Rightarrow> Inr None
      | PInt i \<Rightarrow> Inr (Some i)
      | _ \<Rightarrow> Inl (Err InvalidFeatureParametersError (''Parameter '' @ quoted key @ '' must be an integer'')))"

text \<open>Python's \<open>float(v)\<close>.\<close>

definition py_float :: "(string \<Rightarrow> pyfloat option) \<Rightarrow> pyval \<Rightarrow> pyfloat res" where
  "py_float pf v =
     (case v of
        PBool b \<Rightarrow> Inr (Fin (if b then 1 else 0))
      | PInt i \<Rightarrow> Inr (Fin (of_int i))
      | PFloat f \<Rightarrow> Inr f
      | PStr s \<Rightarrow> (case pf s of Some f \<Rightarrow> Inr f | None \<Rightarrow> Inl (ValueError ''could not convert string to float''))
      | _ \<Rightarrow> Inl (TypeError ''float() argument must be a string or a real number''))"

definition is_conversion_error :: "exc \<Rightarrow> bool" where
  "is_conversion_error e = (case e of ValueError _ \<Rightarrow> True | TypeError _ \<Rightarrow> True | _ \<Rightarrow> False)"

text \<open>
  A coordinate pair as the plate, hole-pattern, slot, bracket and flange modules read it
  (\<open>raw_point\<close>, a failed conversion escapes as it is) and as \<open>parameters.point\<close> reads it.
\<close>

definition raw_point :: "(string \<Rightarrow> pyfloat option) \<Rightarrow> pyval \<Rightarrow> string \<Rightarrow> point2d res" where
  "raw_point pf v key =
     (case v of
        PList [x, y] \<Rightarrow> bindR (py_float pf x) (\<lambda>a. bindR (py_float pf y) (\<lambda>b. mk_point a b))
      | _ \<Rightarrow> Inl (Err InvalidFeatureParametersError (key @ '' must be a two-element [x, y] pair'')))"

definition param_point :: "(string \<Rightarrow> pyfloat option) \<Rightarrow> pyval \<Rightarrow> string \<Rightarrow> point2d res" where
  "param_point pf v key =
     (case raw_point pf v key of
        Inr p \<Rightarrow> Inr p
      | Inl e \<Rightarrow> Inl (if is_conversion_error e
          then Err InvalidFeatureParametersError (key @ '' must contain numeric coordinates'') else e))"

definition missing_error :: "string \<Rightarrow> input_report \<Rightarrow> exc" where
  "missing_error message report = Err MissingRequiredInputsError message"

text \<open>Points and numbers as the JSON values of an operation.\<close>

definition num_val :: "real \<Rightarrow> pyval" where
  "num_val x = PFloat (Fin x)"

definition point_val :: "point2d \<Rightarrow> pyval" where
  "point_val p = PList [num_val (px p), num_val (py p)]"

definition points_val :: "point2d list \<Rightarrow> pyval" where
  "points_val ps = PList (map point_val ps)"

definition param_prefix :: "feature_spec \<Rightarrow> string" where
  "param_prefix f = ''features['' @ fs_feature_id f @ ''].parameters''"

text \<open>A required parameter, reported with the path of its key.\<close>

definition require_param ::
  "feature_spec \<Rightarrow> bool \<Rightarrow> string \<Rightarrow> string \<Rightarrow> string list \<Rightarrow> input_report \<Rightarrow> input_report" where
  "require_param f present key reason formats =
     require_input present (param_prefix f @ ''.'' @ key) reason formats"

definition require_number ::
  "feature_spec \<Rightarrow> string \<Rightarrow> string \<Rightarrow> string list \<Rightarrow> input_report \<Rightarrow> input_report res" where
  "require_number f key reason formats r =
     bindR (number (fs_parameters f) key) (\<lambda>v. Inr (require_param f (v \<noteq> None) key reason formats r))"

text \<open>A loop over keys that may raise.\<close>

fun fold_res :: "('a \<Rightarrow> 'b \<Rightarrow> 'b res) \<Rightarrow> 'a list \<Rightarrow> 'b \<Rightarrow> 'b res" where
  "fold_res f [] b = Inr b"
| "fold_res f (a # as) b = bindR (f a b) (fold_res f as)"

lemma fold_res_cong [fundef_cong]:
  "as = bs \<Longrightarrow> b = c \<Longrightarrow> (\<And>a x. a \<in> set bs \<Longrightarrow> f a x = g a x) \<Longrightarrow> fold_res f as b = fold_res g bs c"
proof (induction bs arbitrary: as b c)
  case (Cons a bs)
  have "fold_res f bs = fold_res g bs" by (rule ext) (rule Cons.IH, use Cons.prems in auto)
  with Cons.prems show ?case by simp
qed simp

text \<open>One operation and one expectation, as every compiler builds them.\<close>

definition mk_op :: "string \<Rightarrow> string \<Rightarrow> operation_type \<Rightarrow> string \<Rightarrow> pydict \<Rightarrow> pydict \<Rightarrow> operation" where
  "mk_op fid suffix ty layer geometry expected =
     \<lparr>op_id = operation_id fid suffix, op_feature_id = fid, op_type = ty, op_layer = layer,
      op_geometry = geometry, op_expected = expected, op_target_entity_ref = None\<rparr>"

definition mk_expectation :: "string \<Rightarrow> string \<Rightarrow> string option \<Rightarrow> pydict \<Rightarrow> validation_expectation" where
  "mk_expectation rule fid op expected =
     \<lparr>ve_rule_id = rule, ve_feature_id = Some fid, ve_operation_id = op, ve_expected = expected\<rparr>"

definition mk_compiled :: "string \<Rightarrow> operation list \<Rightarrow> validation_expectation list \<Rightarrow> compiled_feature" where
  "mk_compiled fid ops exps =
     \<lparr>cf_feature_id = fid, cf_operations = ops, cf_expectations = exps, cf_defaults_applied = [], cf_assumptions = []\<rparr>"

end
