(* ===== verification/HoleCompilers.thy ===== *)
theory HoleCompilers
  imports FeatureModel
begin

section \<open>Hole patterns and reference circles\<close>

text \<open>
  Models the compilers of \<open>feature_catalog/hole_pattern\<close>, \<open>linear_hole_pattern\<close> and
  \<open>reference_circle\<close>. Hole centres are always derived from the pattern; a diameter stays a float
  that may be infinite or NaN where the code does not check it.
\<close>

definition is_int :: "pyval \<Rightarrow> bool" where
  "is_int v = (case v of PInt _ \<Rightarrow> True | _ \<Rightarrow> False)"

definition int_of :: "pyval \<Rightarrow> int" where
  "int_of v = (case v of PInt i \<Rightarrow> i | _ \<Rightarrow> 0)"

definition centermark_operations :: "string \<Rightarrow> point2d list \<Rightarrow> string \<Rightarrow> operation list" where
  "centermark_operations fid centers layer =
     map (\<lambda>i. mk_op fid (''centermark-'' @ show_nat i) CREATE_CENTERMARK layer
           [(''center_mm'', point_val (centers ! i))] [(''center_mm'', point_val (centers ! i))])
       [0..<length centers]"

text \<open>The centermarks are appended when the parameter is truthy.\<close>

definition with_centermarks ::
  "compile_context \<Rightarrow> feature_spec \<Rightarrow> point2d list \<Rightarrow> operation list \<Rightarrow> operation list res" where
  "with_centermarks cx f centers ops =
     (if py_truthy (pget (fs_parameters f) ''add_centermarks'')
      then bindR (cx_layer_for cx ''centermark'') (\<lambda>layer.
        Inr (ops @ centermark_operations (fs_feature_id f) centers layer))
      else Inr ops)"

subsection \<open>The rectangular pattern\<close>

definition rectangular_validate :: "compile_context \<Rightarrow> feature_spec \<Rightarrow> input_report res" where
  "rectangular_validate cx f =
     (let d = fs_parameters f in
      bindR (require_number f ''hole_diameter_mm'' ''Hole diameter is a required engineering input''
        [''positive number in millimetres''] empty_report) (\<lambda>r0.
      let r1 = fold (\<lambda>key. require_param f (is_int (pget d key)) key
                 (key @ '' must be given as a positive integer hole count'') [''positive integer''])
                 [''count_x'', ''count_y''] r0 in
      bindR (number d ''edge_offset_x_mm'') (\<lambda>ox.
      bindR (if ox = None then Inr None else number d ''edge_offset_y_mm'') (\<lambda>oy.
      bindR (number d ''pitch_x_mm'') (\<lambda>qx.
      bindR (if qx = None then Inr None else number d ''pitch_y_mm'') (\<lambda>qy.
        let has_offsets = (ox \<noteq> None \<and> oy \<noteq> None); has_pitch = (qx \<noteq> None \<and> qy \<noteq> None);
            r2 = require_param f (has_offsets \<or> has_pitch) ''edge_offset_x_mm''
              ''Hole placement needs edge offsets (with a parent outline) or explicit pitch''
              [''edge_offset_x_mm + edge_offset_y_mm'', ''pitch_x_mm + pitch_y_mm''] r1
        in Inr (if has_offsets \<and> \<not> has_pitch
             then require_param f (cx_parent_box cx \<noteq> None) ''pitch_x_mm''
               ''Edge offsets require a parent outline; supply explicit pitch instead''
               [''pitch_x_mm + pitch_y_mm''] r2
             else r2)))))))"

definition or_zero :: "pyfloat option \<Rightarrow> pyfloat" where
  "or_zero x = (case x of None \<Rightarrow> Fin 0 | Some v \<Rightarrow> v)"

definition resolve_grid ::
  "compile_context \<Rightarrow> pydict \<Rightarrow> int \<Rightarrow> int \<Rightarrow> (point2d \<times> pyfloat \<times> pyfloat) res" where
  "resolve_grid cx d count_x count_y =
     bindR (number d ''pitch_x_mm'') (\<lambda>qx.
     bindR (number d ''pitch_y_mm'') (\<lambda>qy.
     bindR (number d ''edge_offset_x_mm'') (\<lambda>ox.
     bindR (number d ''edge_offset_y_mm'') (\<lambda>oy.
       case (cx_parent_box cx, ox, oy) of
         (Some box, Some offset_x, Some offset_y) \<Rightarrow>
           bindR (finite1 offset_x) (\<lambda>x. bindR (finite1 offset_y) (\<lambda>y.
             let span_x = box_width box - 2 * x; span_y = box_height box - 2 * y in
             if span_x < 0 \<or> span_y < 0
             then Inl (Err InvalidFeatureParametersError ''Edge offsets exceed the parent outline size'')
             else let derived_x = (if 1 < count_x then span_x / (of_int count_x - 1) else 0);
                      derived_y = (if 1 < count_y then span_y / (of_int count_y - 1) else 0)
                  in Inr (Point2D (bb_min_x box + x) (bb_min_y box + y),
                          (case qx of Some q \<Rightarrow> q | None \<Rightarrow> Fin derived_x),
                          (case qy of Some q \<Rightarrow> q | None \<Rightarrow> Fin derived_y))))
       | _ \<Rightarrow>
           (case (qx, qy) of
              (Some pitch_x, Some pitch_y) \<Rightarrow>
                let base = (case cx_datum cx of Some p \<Rightarrow> p | None \<Rightarrow> Point2D 0 0) in
                bindR (finite1 (or_zero ox)) (\<lambda>x. bindR (finite1 (or_zero oy)) (\<lambda>y.
                  Inr (Point2D (px base + x) (py base + y), pitch_x, pitch_y)))
            | _ \<Rightarrow> Inl AssertionError)))))"

definition opt_pyfloat :: "pyfloat option \<Rightarrow> pyval" where
  "opt_pyfloat x = (case x of None \<Rightarrow> PNone | Some f \<Rightarrow> PFloat f)"

definition rectangular_compile ::
  "(string \<Rightarrow> pyfloat option) \<Rightarrow> compile_context \<Rightarrow> feature_spec \<Rightarrow> compiled_feature res" where
  "rectangular_compile pf cx f =
     bindR (rectangular_validate cx f) (\<lambda>report.
       if \<not> is_complete report
       then Inl (Err InvalidFeatureParametersError
         ''Hole pattern cannot be compiled while required inputs are missing'')
       else let d = fs_parameters f; fid = fs_feature_id f; count_x = int_of (pget d ''count_x'');
                count_y = int_of (pget d ''count_y'') in
         bindR (py_float pf (pget d ''hole_diameter_mm'')) (\<lambda>diameter.
         bindR (resolve_grid cx d count_x count_y) (\<lambda>(origin, pitch_x, pitch_y).
         bindR (rectangular_grid origin count_x count_y pitch_x pitch_y) (\<lambda>centers.
         bindR (cx_layer_for cx ''hole'') (\<lambda>layer.
         bindR (with_centermarks cx f centers
             [mk_op fid ''holes'' CREATE_CIRCLES layer
                [(''centers_mm'', points_val centers), (''diameter_mm'', PFloat diameter)]
                [(''count'', PInt (int (length centers))), (''diameter_mm'', PFloat diameter)]]) (\<lambda>ops.
           Inr (mk_compiled fid ops
             [mk_expectation ''GEO-HOLE-PATTERN-GRID'' fid (Some (operation_id fid ''holes''))
                [(''count'', PInt (int (length centers))), (''diameter_mm'', PFloat diameter),
                 (''pitch_x_mm'', PFloat pitch_x), (''pitch_y_mm'', PFloat pitch_y),
                 (''centers_mm'', points_val centers),
                 (''parent_feature_id'', opt_str (cx_parent_feature_id cx))]])))))))"

subsection \<open>The bolt circle\<close>

definition bolt_validate :: "compile_context \<Rightarrow> feature_spec \<Rightarrow> input_report res" where
  "bolt_validate cx f =
     (let d = fs_parameters f in
      bindR (require_number f ''hole_diameter_mm'' ''Hole diameter is a required engineering input''
        [''positive number in millimetres''] empty_report) (\<lambda>r0.
      bindR (require_number f ''pcd_mm'' ''Pitch circle diameter is a required engineering input''
        [''positive number in millimetres''] r0) (\<lambda>r1.
      let r2 = require_param f (is_int (pget d ''count'')) ''count''
                 ''Hole count is required and must be a positive integer'' [''positive integer''] r1
      in Inr (require_param f (given d ''center_mm'' \<or> cx_datum cx \<noteq> None \<or> cx_parent_box cx \<noteq> None)
           ''center_mm'' ''Centre or datum is required to place the bolt circle''
           [''[x, y]'', ''selected_point'', ''named_datum''] r2))))"

definition bolt_center ::
  "(string \<Rightarrow> pyfloat option) \<Rightarrow> compile_context \<Rightarrow> pydict \<Rightarrow> point2d res" where
  "bolt_center pf cx d =
     (if given d ''center_mm'' then raw_point pf (pget d ''center_mm'') ''center_mm''
      else case cx_parent_box cx of
        Some box \<Rightarrow> Inr (Point2D ((bb_min_x box + bb_max_x box) / 2) ((bb_min_y box + bb_max_y box) / 2))
      | None \<Rightarrow> (case cx_datum cx of Some p \<Rightarrow> Inr p | None \<Rightarrow> Inl AssertionError))"

text \<open>\<open>float(parameters.get(key, 0.0))\<close>: an explicit null is not the default.\<close>

definition float_or_zero :: "(string \<Rightarrow> pyfloat option) \<Rightarrow> pydict \<Rightarrow> string \<Rightarrow> pyfloat res" where
  "float_or_zero pf d key = (case map_of d key of None \<Rightarrow> Inr (Fin 0) | Some v \<Rightarrow> py_float pf v)"

definition bolt_compile ::
  "(string \<Rightarrow> pyfloat option) \<Rightarrow> compile_context \<Rightarrow> feature_spec \<Rightarrow> compiled_feature res" where
  "bolt_compile pf cx f =
     bindR (bolt_validate cx f) (\<lambda>report.
       if \<not> is_complete report
       then Inl (Err InvalidFeatureParametersError
         ''Bolt circle cannot be compiled while required inputs are missing'')
       else let d = fs_parameters f; fid = fs_feature_id f; num = int_of (pget d ''count'') in
         bindR (py_float pf (pget d ''hole_diameter_mm'')) (\<lambda>diameter.
         bindR (py_float pf (pget d ''pcd_mm'')) (\<lambda>pcd.
         bindR (float_or_zero pf d ''start_angle_deg'') (\<lambda>start_angle.
         bindR (bolt_center pf cx d) (\<lambda>c.
         bindR (bolt_circle c pcd num start_angle (py_truthy (pget d ''clockwise''))) (\<lambda>centers.
         bindR (cx_layer_for cx ''hole'') (\<lambda>layer.
         bindR (with_centermarks cx f centers
             [mk_op fid ''holes'' CREATE_CIRCLES layer
                [(''centers_mm'', points_val centers), (''diameter_mm'', PFloat diameter)]
                [(''count'', PInt num), (''diameter_mm'', PFloat diameter)]]) (\<lambda>ops.
           Inr (mk_compiled fid ops
             [mk_expectation ''GEO-HOLE-PATTERN-BOLT-CIRCLE'' fid (Some (operation_id fid ''holes''))
                [(''count'', PInt num), (''diameter_mm'', PFloat diameter), (''pcd_mm'', PFloat pcd),
                 (''center_mm'', point_val c), (''angular_spacing_deg'', num_val (360 / of_int num)),
                 (''centers_mm'', points_val centers)]])))))))))"

subsection \<open>The linear pattern\<close>

definition pair_elements :: "pyval \<Rightarrow> (pyval \<times> pyval) option" where
  "pair_elements v = (case v of PList [x, y] \<Rightarrow> Some (x, y) | _ \<Rightarrow> None)"

definition check_direction :: "(string \<Rightarrow> pyfloat option) \<Rightarrow> pyval \<Rightarrow> (pyfloat \<times> pyfloat) res" where
  "check_direction pf v =
     (case pair_elements v of
        None \<Rightarrow> Inl (Err InvalidFeatureParametersError ''direction must be a two-element [dx, dy] pair'')
      | Some (x, y) \<Rightarrow>
          (case bindR (py_float pf x) (\<lambda>a. bindR (py_float pf y) (\<lambda>b. Inr (a, b))) of
             Inr p \<Rightarrow> Inr p
           | Inl e \<Rightarrow> Inl (if is_conversion_error e
               then Err InvalidFeatureParametersError ''direction must contain numeric values'' else e)))"

definition linear_validate ::
  "(string \<Rightarrow> pyfloat option) \<Rightarrow> feature_spec \<Rightarrow> input_report res" where
  "linear_validate pf f =
     (let d = fs_parameters f;
          r0 = require_param f (given d ''start_point'') ''start_point'' ''Pattern start point is required''
                 [''[x, y]''] empty_report;
          r1 = require_param f (given d ''direction'') ''direction'' ''Pattern direction is required''
                 [''[dx, dy]''] r0
      in bindR (require_number f ''pitch_mm'' ''Pattern pitch is required'' [''positive number in millimetres''] r1) (\<lambda>r2.
         bindR (integer d ''count'') (\<lambda>n.
         let r3 = require_param f (n \<noteq> None) ''count'' ''Hole count is required'' [''positive integer''] r2 in
         bindR (require_number f ''hole_diameter_mm'' ''Hole diameter is required''
           [''positive number in millimetres''] r3) (\<lambda>r4.
         bindR (if given d ''start_point'' then bindR (param_point pf (pget d ''start_point'') ''start_point'') (\<lambda>_. Inr ())
                else Inr ()) (\<lambda>_.
         bindR (if given d ''direction'' then bindR (check_direction pf (pget d ''direction'')) (\<lambda>_. Inr ())
                else Inr ()) (\<lambda>_. Inr r4))))))"

definition linear_compile ::
  "(string \<Rightarrow> pyfloat option) \<Rightarrow> compile_context \<Rightarrow> feature_spec \<Rightarrow> compiled_feature res" where
  "linear_compile pf cx f =
     bindR (linear_validate pf f) (\<lambda>report.
       if \<not> is_complete report then Inl (missing_error ''Linear hole pattern inputs are incomplete'' report)
       else let d = fs_parameters f; fid = fs_feature_id f; num = int_of (pget d ''count'');
                t = cx_tolerance cx in
         bindR (param_point pf (pget d ''start_point'') ''start_point'') (\<lambda>start.
         bindR (check_direction pf (pget d ''direction'')) (\<lambda>direction.
         bindR (py_float pf (pget d ''pitch_mm'')) (\<lambda>pitch.
         bindR (py_float pf (pget d ''hole_diameter_mm'')) (\<lambda>diameter.
         bindR (linear_pattern start direction pitch num) (\<lambda>centers.
         if float_le0 diameter then Inl (Err InvalidFeatureParametersError ''Hole diameter must be positive'')
         else bindR (case cx_parent_outline cx of
              None \<Rightarrow> Inr ()
            | Some outline \<Rightarrow>
                bindR (bindR (traverse (\<lambda>c. bindR (mk_circle c diameter) (\<lambda>k. circle_overflow_mm outline k t)) centers)
                    max_list_of) (\<lambda>overflow.
                  if \<not> is_zero_length t overflow
                  then Inl (Err InvalidGeometryError ''Linear hole pattern extends outside its parent outline'')
                  else Inr ())) (\<lambda>_.
         bindR (cx_layer_for cx ''hole'') (\<lambda>layer.
           Inr (mk_compiled fid
             [mk_op fid ''holes'' CREATE_CIRCLES layer
                [(''centers_mm'', points_val centers), (''diameter_mm'', PFloat diameter)]
                [(''count'', PInt num), (''diameter_mm'', PFloat diameter)]]
             [mk_expectation ''LINEAR_HOLE_PATTERN_GEOMETRY'' fid (Some (operation_id fid ''holes''))
                [(''count'', PInt num), (''pitch_mm'', PFloat pitch), (''centers_mm'', points_val centers),
                 (''parent_feature_id'', opt_str (cx_parent_feature_id cx))]]))))))))) "

subsection \<open>The reference circle\<close>

definition reference_circle_validate ::
  "(string \<Rightarrow> pyfloat option) \<Rightarrow> compile_context \<Rightarrow> feature_spec \<Rightarrow> input_report res" where
  "reference_circle_validate pf cx f =
     (let d = fs_parameters f in
      if \<not> set (map fst d) \<subseteq> {''radius_mm'', ''layer_name'', ''center_mm''}
      then Inl (Err InvalidFeatureParametersError ''reference_circle contains unsupported parameters'')
      else bindR (number d ''radius_mm'') (\<lambda>radius.
        let r0 = require_param f (radius \<noteq> None) ''radius_mm'' ''Reference-circle radius is required''
                   [''positive finite number in millimetres''] empty_report;
            r1 = require_param f (given d ''center_mm'' \<or> cx_datum cx \<noteq> None) ''center_mm''
                   ''A centre or resolved drawing datum is required to place the circle''
                   [''[x, y]'', ''drawing.datum''] r0;
            r2 = require_param f (given d ''layer_name'') ''layer_name''
                   ''An explicit declared layer is required for reference geometry''
                   [''layer name from the selected company profile''] r1
        in if (case radius of None \<Rightarrow> False | Some r \<Rightarrow> \<not> is_finite_float r \<or> float_le0 r)
           then Inl (Err InvalidFeatureParametersError ''radius_mm must be a positive finite number'')
           else bindR (if given d ''center_mm'' then bindR (param_point pf (pget d ''center_mm'') ''center_mm'') (\<lambda>_. Inr ())
                       else Inr ()) (\<lambda>_.
             bindR (case pget d ''layer_name'' of
                 PNone \<Rightarrow> Inr ()
               | PStr layer \<Rightarrow>
                   if layer = [] then Inl (Err InvalidFeatureParametersError ''layer_name must be a non-empty string'')
                   else if layer \<notin> set (layer_names (cx_profile cx))
                   then Inl (Err InvalidFeatureParametersError
                     (''Layer '' @ quoted layer @ '' is not declared by the selected company profile''))
                   else Inr ()
               | _ \<Rightarrow> Inl (Err InvalidFeatureParametersError ''layer_name must be a non-empty string'')) (\<lambda>_.
             if fs_modifiers f \<noteq> [] \<or> fs_children f \<noteq> []
             then Inl (Err InvalidFeatureParametersError
               ''reference_circle does not accept modifiers or child features'')
             else Inr r2))))"

definition str_of :: "pyval \<Rightarrow> string" where
  "str_of v = (case v of PStr s \<Rightarrow> s | _ \<Rightarrow> [])"

text \<open>The derived values are finite since the radius and the centre are.\<close>

definition reference_circle_compile ::
  "(string \<Rightarrow> pyfloat option) \<Rightarrow> compile_context \<Rightarrow> feature_spec \<Rightarrow> compiled_feature res" where
  "reference_circle_compile pf cx f =
     bindR (reference_circle_validate pf cx f) (\<lambda>report.
       if \<not> is_complete report then Inl (missing_error ''Reference-circle inputs are incomplete'' report)
       else let d = fs_parameters f; fid = fs_feature_id f; layer = str_of (pget d ''layer_name'') in
         bindR (if given d ''center_mm'' then param_point pf (pget d ''center_mm'') ''center_mm''
                else case cx_datum cx of Some p \<Rightarrow> Inr p | None \<Rightarrow> Inl AssertionError) (\<lambda>c.
         bindR (bindR (py_float pf (pget d ''radius_mm'')) finite1) (\<lambda>radius.
         bindR (normalize_circle c radius) (\<lambda>curve.
           let expected = [(''layer'', PStr layer), (''center_mm'', point_val (cu_center curve)),
                 (''radius_mm'', num_val radius), (''diameter_mm'', num_val (radius * 2)),
                 (''area_mm2'', num_val (pi * radius * radius))]
           in Inr (mk_compiled fid
             [mk_op fid ''circle'' CREATE_CIRCLE layer
                [(''center_mm'', point_val (cu_center curve)), (''diameter_mm'', num_val (radius * 2))] expected]
             [mk_expectation ''REFERENCE_CIRCLE_GEOMETRY'' fid (Some (operation_id fid ''circle''))
                (expected @ [(''circumference_mm'', num_val (2 * pi * radius))])])))))"

end
