(* ===== verification/OutlineCompilers.thy ===== *)
theory OutlineCompilers
  imports HoleCompilers
begin

section \<open>Slots, notches, cutouts, keyways, brackets and flanges\<close>

text \<open>
  Models the compilers of \<open>feature_catalog/slot\<close>, \<open>corner_notch\<close>, \<open>edge_cutout\<close>, \<open>keyway\<close>,
  \<open>bracket\<close> and \<open>flange\<close>.
\<close>

text \<open>The coordinate of a feature: its own parameter, else the datum of the drawing.\<close>

definition own_or_datum ::
  "(string \<Rightarrow> pyfloat option) \<Rightarrow> compile_context \<Rightarrow> pydict \<Rightarrow> string \<Rightarrow> point2d res" where
  "own_or_datum pf cx d key =
     (if given d key then raw_point pf (pget d key) key
      else case cx_datum cx of Some p \<Rightarrow> Inr p | None \<Rightarrow> Inl AssertionError)"

subsection \<open>Slots\<close>

definition slot_validate :: "compile_context \<Rightarrow> feature_spec \<Rightarrow> input_report res" where
  "slot_validate cx f =
     bindR (require_number f ''length_mm'' ''Length is a required slot size''
       [''positive number in millimetres''] empty_report) (\<lambda>r0.
     bindR (require_number f ''width_mm'' ''Width is a required slot size''
       [''positive number in millimetres''] r0) (\<lambda>r1.
       Inr (require_param f (given (fs_parameters f) ''center_mm'' \<or> cx_datum cx \<noteq> None) ''center_mm''
         ''Center or drawing datum is required to place the slot''
         [''[x, y]'', ''selected_point'', ''named_datum''] r1)))"

definition arc_geometry :: "curve_params \<Rightarrow> pydict res" where
  "arc_geometry c =
     (case cu_radius_mm c of
        None \<Rightarrow> Inl AssertionError
      | Some r \<Rightarrow> Inr [(''center_mm'', point_val (cu_center c)), (''radius_mm'', num_val r),
          (''start_angle_deg'', num_val (cu_start_angle_deg c)), (''end_angle_deg'', num_val (end_angle_deg c))])"

definition line_op :: "string \<Rightarrow> string \<Rightarrow> string \<Rightarrow> point2d \<Rightarrow> point2d \<Rightarrow> operation" where
  "line_op fid suffix layer a b =
     mk_op fid suffix CREATE_LINE layer [(''start_mm'', point_val a), (''end_mm'', point_val b)]
       [(''length_mm'', num_val (distance_to a b))]"

definition slot_compile ::
  "(string \<Rightarrow> pyfloat option) \<Rightarrow> compile_context \<Rightarrow> feature_spec \<Rightarrow> compiled_feature res" where
  "slot_compile pf cx f =
     bindR (slot_validate cx f) (\<lambda>report.
       if \<not> is_complete report
       then Inl (Err MissingRequiredInputsError ''Slot cannot be compiled while required inputs are missing'')
       else let d = fs_parameters f; fid = fs_feature_id f in
         bindR (py_float pf (pget d ''length_mm'')) (\<lambda>len.
         bindR (py_float pf (pget d ''width_mm'')) (\<lambda>wid.
         bindR (float_or_zero pf d ''angle_deg'') (\<lambda>angle.
         bindR (own_or_datum pf cx d ''center_mm'') (\<lambda>c.
         bindR (slot_outline c len wid angle) (\<lambda>tangents.
         bindR (finite1 wid) (\<lambda>w.
         bindR (slot_end_arcs tangents w) (\<lambda>(right_arc, left_arc).
         bindR (cx_layer_for cx ''outline'') (\<lambda>layer.
         bindR (arc_geometry right_arc) (\<lambda>right_geometry.
         bindR (arc_geometry left_arc) (\<lambda>left_geometry.
           let arc_expected = [(''radius_mm'', num_val (w / 2)), (''sweep_deg'', num_val 180)] in
           Inr (mk_compiled fid
             [line_op fid ''top-flank'' layer (tangents ! 0) (tangents ! 1),
              mk_op fid ''right-arc'' CREATE_ARC layer right_geometry arc_expected,
              line_op fid ''bottom-flank'' layer (tangents ! 2) (tangents ! 3),
              mk_op fid ''left-arc'' CREATE_ARC layer left_geometry arc_expected]
             [mk_expectation ''SLOT_ARC_TANGENCY'' fid None
                [(''line_operation_ids'', PList [PStr (operation_id fid ''top-flank''),
                    PStr (operation_id fid ''bottom-flank'')]),
                 (''arc_operation_ids'', PList [PStr (operation_id fid ''right-arc''),
                    PStr (operation_id fid ''left-arc'')]),
                 (''tangent_angle_deg'', num_val 90)]]))))))))))))"

subsection \<open>Corner notches and edge cutouts\<close>

definition require_parent :: "compile_context \<Rightarrow> feature_spec \<Rightarrow> string \<Rightarrow> input_report \<Rightarrow> input_report" where
  "require_parent cx f reason =
     require_input (cx_parent_outline cx \<noteq> None) (''features['' @ fs_feature_id f @ ''].parent_outline'')
       reason [''child feature'']"

definition corner_notch_validate :: "compile_context \<Rightarrow> feature_spec \<Rightarrow> input_report res" where
  "corner_notch_validate cx f =
     bindR (integer (fs_parameters f) ''corner_index'') (\<lambda>i.
     let r0 = require_param f (i \<noteq> None) ''corner_index'' ''Target corner index is required''
                [''zero-based integer''] empty_report in
     bindR (fold_res (\<lambda>key. require_number f key (key @ '' is required'') [''positive number in millimetres''])
         [''width_mm'', ''height_mm''] r0) (\<lambda>r1.
       Inr (require_parent cx f ''Corner notch must be declared as a child of an outline feature'' r1)))"

text \<open>Both boundary cutouts end in the same operation and expectation.\<close>

definition boundary_compiled ::
  "compile_context \<Rightarrow> feature_spec \<Rightarrow> polyline2d \<Rightarrow> string \<Rightarrow> boundary_cutout_result \<Rightarrow> compiled_feature res" where
  "boundary_compiled cx f parent message result =
     (let t = cx_tolerance cx; fid = fs_feature_id f in
      bindR (contour_overflow_mm parent (bc_outline result) t) (\<lambda>overflow.
      if \<not> is_zero_length t overflow then Inl (Err InvalidGeometryError message)
      else bindR (cx_layer_for cx ''outline'') (\<lambda>layer.
        Inr (mk_compiled fid
          [mk_op fid ''modified-outline'' CREATE_CLOSED_POLYLINE layer
             [(''vertices_mm'', points_val (vertices (bc_outline result)))]
             [(''closed'', PBool True), (''area_mm2'', num_val (area (bc_outline result))),
              (''parent_feature_id'', opt_str (cx_parent_feature_id cx))]]
          [mk_expectation ''BOUNDARY_CUTOUT_AREA'' fid (Some (operation_id fid ''modified-outline''))
             [(''removed_area_mm2'', num_val (bc_removed_area_mm2 result)),
              (''parent_area_mm2'', num_val (area parent)),
              (''result_area_mm2'', num_val (area (bc_outline result)))]]))))"

definition corner_notch_compile ::
  "(string \<Rightarrow> pyfloat option) \<Rightarrow> compile_context \<Rightarrow> feature_spec \<Rightarrow> compiled_feature res" where
  "corner_notch_compile pf cx f =
     bindR (corner_notch_validate cx f) (\<lambda>report.
       if \<not> is_complete report then Inl (missing_error ''Corner notch inputs are incomplete'' report)
       else let d = fs_parameters f in
         case cx_parent_outline cx of
           None \<Rightarrow> Inl AssertionError
         | Some parent \<Rightarrow>
             bindR (py_float pf (pget d ''width_mm'')) (\<lambda>w.
             bindR (py_float pf (pget d ''height_mm'')) (\<lambda>h.
             bindR (corner_notch parent (int_of (pget d ''corner_index'')) w h (cx_tolerance cx)) (\<lambda>result.
               boundary_compiled cx f parent ''Corner notch extends outside its parent outline'' result))))"

definition edge_cutout_validate :: "compile_context \<Rightarrow> feature_spec \<Rightarrow> input_report res" where
  "edge_cutout_validate cx f =
     bindR (integer (fs_parameters f) ''edge_index'') (\<lambda>i.
     let r0 = require_param f (i \<noteq> None) ''edge_index'' ''Target edge index is required''
                [''zero-based integer''] empty_report in
     bindR (fold_res (\<lambda>key. require_number f key (key @ '' is required'') [''number in millimetres''])
         [''offset_mm'', ''width_mm'', ''depth_mm''] r0) (\<lambda>r1.
       Inr (require_parent cx f ''Edge cutout must be declared as a child of an outline feature'' r1)))"

definition edge_cutout_compile ::
  "(string \<Rightarrow> pyfloat option) \<Rightarrow> compile_context \<Rightarrow> feature_spec \<Rightarrow> compiled_feature res" where
  "edge_cutout_compile pf cx f =
     bindR (edge_cutout_validate cx f) (\<lambda>report.
       if \<not> is_complete report then Inl (missing_error ''Edge cutout inputs are incomplete'' report)
       else let d = fs_parameters f in
         case cx_parent_outline cx of
           None \<Rightarrow> Inl AssertionError
         | Some parent \<Rightarrow>
             bindR (py_float pf (pget d ''offset_mm'')) (\<lambda>off.
             bindR (py_float pf (pget d ''width_mm'')) (\<lambda>w.
             bindR (py_float pf (pget d ''depth_mm'')) (\<lambda>depth.
             bindR (edge_cutout parent (int_of (pget d ''edge_index'')) off w depth (cx_tolerance cx)) (\<lambda>result.
               boundary_compiled cx f parent ''Edge cutout extends outside its parent outline'' result)))))"

subsection \<open>Keyways\<close>

definition keyway_validate :: "compile_context \<Rightarrow> feature_spec \<Rightarrow> input_report res" where
  "keyway_validate cx f =
     bindR (fold_res (\<lambda>key. require_number f key (key @ '' is required'') [''positive number in millimetres''])
         [''bore_diameter_mm'', ''key_width_mm'', ''key_depth_mm''] empty_report) (\<lambda>r0.
       Inr (require_param f (given (fs_parameters f) ''center_mm'' \<or> cx_datum cx \<noteq> None) ''center_mm''
         ''A center or drawing datum is required to place the keyway'' [''[x, y]'', ''named datum''] r0))"

definition keyway_compile ::
  "(string \<Rightarrow> pyfloat option) \<Rightarrow> compile_context \<Rightarrow> feature_spec \<Rightarrow> compiled_feature res" where
  "keyway_compile pf cx f =
     bindR (keyway_validate cx f) (\<lambda>report.
       if \<not> is_complete report then Inl (missing_error ''Keyway inputs are incomplete'' report)
       else let d = fs_parameters f; fid = fs_feature_id f; t = cx_tolerance cx in
         bindR (if given d ''center_mm'' then param_point pf (pget d ''center_mm'') ''center_mm''
                else case cx_datum cx of Some p \<Rightarrow> Inr p | None \<Rightarrow> Inl AssertionError) (\<lambda>c.
         bindR (py_float pf (pget d ''bore_diameter_mm'')) (\<lambda>bore.
         bindR (py_float pf (pget d ''key_width_mm'')) (\<lambda>w.
         bindR (py_float pf (pget d ''key_depth_mm'')) (\<lambda>depth.
         bindR (keyway_contour c bore w depth t) (\<lambda>result.
         bindR (case cx_parent_outline cx of
              None \<Rightarrow> Inr ()
            | Some parent \<Rightarrow>
                bindR (contour_overflow_mm parent (kw_preview_outline result) t) (\<lambda>overflow.
                  if \<not> is_zero_length t overflow
                  then Inl (Err InvalidGeometryError ''Keyway extends outside its parent outline'')
                  else Inr ())) (\<lambda>_.
         bindR (cx_layer_for cx ''hole'') (\<lambda>layer.
           Inr (mk_compiled fid
             [mk_op fid ''contour'' CREATE_CLOSED_POLYLINE layer
                [(''vertices_mm'', points_val (vertices (kw_preview_outline result)))]
                [(''closed'', PBool True), (''area_mm2'', num_val (area (kw_preview_outline result))),
                 (''parent_feature_id'', opt_str (cx_parent_feature_id cx))]]
             [mk_expectation ''KEYWAY_GEOMETRY'' fid (Some (operation_id fid ''contour''))
                [(''bore_diameter_mm'', num_val (kw_bore_radius_mm result * 2)),
                 (''key_width_mm'', num_val (kw_key_width_mm result)),
                 (''key_depth_mm'', num_val (kw_key_depth_mm result)),
                 (''removed_area_mm2'', num_val (kw_removed_area_mm2 result))]])))))))))"

subsection \<open>The L bracket\<close>

definition bracket_validate :: "compile_context \<Rightarrow> feature_spec \<Rightarrow> input_report res" where
  "bracket_validate cx f =
     bindR (fold_res (\<lambda>(key, label). require_number f key (label @ '' is a required bracket size'')
           [''positive number in millimetres''])
         [(''leg_a_mm'', ''Horizontal leg''), (''leg_b_mm'', ''Vertical leg''), (''thickness_mm'', ''Bracket thickness'')]
         empty_report) (\<lambda>r0.
       Inr (require_param f (given (fs_parameters f) ''origin_mm'' \<or> cx_datum cx \<noteq> None) ''origin_mm''
         ''Origin or drawing datum is required to place the bracket''
         [''[x, y]'', ''selected_point'', ''named_datum''] r0))"

definition bracket_compile ::
  "(string \<Rightarrow> pyfloat option) \<Rightarrow> compile_context \<Rightarrow> feature_spec \<Rightarrow> compiled_feature res" where
  "bracket_compile pf cx f =
     bindR (bracket_validate cx f) (\<lambda>report.
       if \<not> is_complete report
       then Inl (Err MissingRequiredInputsError ''L-bracket cannot be compiled while required inputs are missing'')
       else let d = fs_parameters f; fid = fs_feature_id f in
         bindR (own_or_datum pf cx d ''origin_mm'') (\<lambda>origin.
         bindR (py_float pf (pget d ''leg_a_mm'')) (\<lambda>leg_a.
         bindR (py_float pf (pget d ''leg_b_mm'')) (\<lambda>leg_b.
         bindR (py_float pf (pget d ''thickness_mm'')) (\<lambda>thickness.
         bindR (number d ''inner_fillet_radius_mm'') (\<lambda>fillet.
         bindR (l_bracket_outline origin leg_a leg_b thickness (cx_tolerance cx) fillet) (\<lambda>outline.
         bindR (cx_layer_for cx ''outline'') (\<lambda>layer.
           Inr (mk_compiled fid
             [mk_op fid ''outline'' CREATE_CLOSED_POLYLINE layer
                [(''vertices_mm'', points_val (vertices outline))]
                [(''closed'', PBool True), (''leg_a_mm'', PFloat leg_a), (''leg_b_mm'', PFloat leg_b),
                 (''thickness_mm'', PFloat thickness), (''area_mm2'', num_val (area outline))]]
             [mk_expectation ''LBRACKET_LEG_PERPENDICULARITY'' fid (Some (operation_id fid ''outline''))
                [(''leg_angle_deg'', num_val 90), (''closed'', PBool True)]])))))))))"

subsection \<open>Flanges\<close>

text \<open>\<open>_number\<close> of this module also wants a positive value; NaN passes the comparison.\<close>

definition flange_number :: "pydict \<Rightarrow> string \<Rightarrow> pyfloat option res" where
  "flange_number d key =
     bindR (number d key) (\<lambda>v.
       if (case v of None \<Rightarrow> False | Some x \<Rightarrow> float_le0 x)
       then Inl (Err InvalidFeatureParametersError (''Parameter '' @ quoted key @ '' must be greater than zero''))
       else Inr v)"

definition flange_validate :: "compile_context \<Rightarrow> feature_spec \<Rightarrow> input_report res" where
  "flange_validate cx f =
     (let d = fs_parameters f in
      bindR (fold_res (\<lambda>(key, label) r. bindR (flange_number d key) (\<lambda>v.
            Inr (require_param f (v \<noteq> None) key (label @ '' is a required flange input'')
              [''positive number in millimetres''] r)))
          [(''outer_diameter_mm'', ''Outer diameter''), (''bore_diameter_mm'', ''Bore diameter''),
           (''bolt_hole_diameter_mm'', ''Bolt-hole diameter''), (''pcd_mm'', ''Pitch circle diameter'')]
          empty_report) (\<lambda>r0.
      let num = pget d ''bolt_hole_count'';
          r1 = require_param f (given d ''bolt_hole_count'') ''bolt_hole_count''
                 ''Bolt-hole count is required and must be positive'' [''positive integer''] r0 in
      if given d ''bolt_hole_count'' \<and> (\<not> is_int num \<or> int_of num \<le> 0)
      then Inl (Err InvalidFeatureParametersError ''bolt_hole_count must be a positive integer'')
      else let r2 = require_param f (given d ''datum'' \<or> cx_datum cx \<noteq> None) ''datum''
                 ''Center/datum is required to place the flange''
                 [''[x, y]'', ''selected_point'', ''named_datum''] r1;
               has_width = given d ''keyway_width_mm''; has_depth = given d ''keyway_depth_mm'';
               r3 = (if has_width \<noteq> has_depth
                     then require_param f False (if has_width then ''keyway_depth_mm'' else ''keyway_width_mm'')
                       ''A keyed flange requires both keyway width and depth''
                       [''positive number in millimetres''] r2
                     else r2)
           in bindR (if has_width then flange_number d ''keyway_width_mm'' else Inr None) (\<lambda>_.
              bindR (if has_depth then flange_number d ''keyway_depth_mm'' else Inr None) (\<lambda>_. Inr r3))))"

text \<open>\<open>a >= b\<close> on floats: false when one of them is NaN.\<close>

fun float_ge :: "pyfloat \<Rightarrow> pyfloat \<Rightarrow> bool" where
  "float_ge (Fin a) (Fin b) \<longleftrightarrow> b \<le> a"
| "float_ge NotANumber b \<longleftrightarrow> False"
| "float_ge a NotANumber \<longleftrightarrow> False"
| "float_ge PosInf b \<longleftrightarrow> True"
| "float_ge a NegInf \<longleftrightarrow> True"
| "float_ge a b \<longleftrightarrow> False"

definition circle_geometry :: "curve_params \<Rightarrow> pydict res" where
  "circle_geometry c =
     (case cu_radius_mm c of
        None \<Rightarrow> Inl AssertionError
      | Some r \<Rightarrow> Inr [(''center_mm'', point_val (cu_center c)), (''diameter_mm'', num_val (r * 2))])"

text \<open>The bore: a keyed contour with its expectation, or a circle.\<close>

definition flange_bore ::
  "(string \<Rightarrow> pyfloat option) \<Rightarrow> compile_context \<Rightarrow> string \<Rightarrow> pydict \<Rightarrow> point2d \<Rightarrow> pyfloat \<Rightarrow>
   (operation \<times> validation_expectation list) res" where
  "flange_bore pf cx fid d c bore =
     (if given d ''keyway_width_mm'' \<and> given d ''keyway_depth_mm''
      then bindR (py_float pf (pget d ''keyway_width_mm'')) (\<lambda>w.
        bindR (py_float pf (pget d ''keyway_depth_mm'')) (\<lambda>depth.
        bindR (keyway_contour c bore w depth (cx_tolerance cx)) (\<lambda>k.
        bindR (cx_layer_for cx ''hole'') (\<lambda>layer.
          Inr (mk_op fid ''keyed-bore'' CREATE_CLOSED_POLYLINE layer
                [(''vertices_mm'', points_val (vertices (kw_preview_outline k)))]
                [(''closed'', PBool True), (''area_mm2'', num_val (area (kw_preview_outline k))),
                 (''bore_diameter_mm'', PFloat bore), (''keyway_width_mm'', num_val (kw_key_width_mm k)),
                 (''keyway_depth_mm'', num_val (kw_key_depth_mm k))],
               [mk_expectation ''KEYWAY_GEOMETRY'' fid (Some (operation_id fid ''keyed-bore''))
                  [(''bore_diameter_mm'', PFloat bore), (''key_width_mm'', num_val (kw_key_width_mm k)),
                   (''key_depth_mm'', num_val (kw_key_depth_mm k)),
                   (''removed_area_mm2'', num_val (kw_removed_area_mm2 k))]])))))
      else bindR (finite1 bore) (\<lambda>b.
        bindR (normalize_circle c (b / 2)) (\<lambda>curve.
        bindR (cx_layer_for cx ''hole'') (\<lambda>layer.
        bindR (circle_geometry curve) (\<lambda>g.
          Inr (mk_op fid ''bore'' CREATE_CIRCLE layer g
                [(''diameter_mm'', PFloat bore), (''center_mm'', point_val c)], []))))))"

definition flange_compile ::
  "(string \<Rightarrow> pyfloat option) \<Rightarrow> compile_context \<Rightarrow> feature_spec \<Rightarrow> compiled_feature res" where
  "flange_compile pf cx f =
     bindR (flange_validate cx f) (\<lambda>report.
       if \<not> is_complete report
       then Inl (Err MissingRequiredInputsError ''Flange cannot be compiled while required inputs are missing'')
       else let d = fs_parameters f; fid = fs_feature_id f; num = int_of (pget d ''bolt_hole_count'') in
         bindR (py_float pf (pget d ''outer_diameter_mm'')) (\<lambda>outer.
         bindR (py_float pf (pget d ''bore_diameter_mm'')) (\<lambda>bore.
         bindR (py_float pf (pget d ''bolt_hole_diameter_mm'')) (\<lambda>hole.
         bindR (py_float pf (pget d ''pcd_mm'')) (\<lambda>pcd.
         bindR (own_or_datum pf cx d ''datum'') (\<lambda>c.
         bindR (float_or_zero pf d ''start_angle_deg'') (\<lambda>start_angle.
         if float_ge bore outer
         then Inl (Err InvalidFeatureParametersError ''Flange bore must be smaller than its outer diameter'')
         else bindR (finite1 outer) (\<lambda>outer_mm.
         bindR (normalize_circle c (outer_mm / 2)) (\<lambda>outer_curve.
         bindR (bolt_circle c pcd num start_angle False) (\<lambda>centers.
         bindR (flange_bore pf cx fid d c bore) (\<lambda>(bore_op, bore_exps).
         bindR (cx_layer_for cx ''outline'') (\<lambda>outline_layer.
         bindR (circle_geometry outer_curve) (\<lambda>outer_geometry.
         bindR (cx_layer_for cx ''hole'') (\<lambda>hole_layer.
           Inr (mk_compiled fid
             [mk_op fid ''outer'' CREATE_CIRCLE outline_layer outer_geometry
                [(''diameter_mm'', PFloat outer), (''center_mm'', point_val c)],
              bore_op,
              mk_op fid ''bolt-holes'' CREATE_CIRCLES hole_layer
                [(''centers_mm'', points_val centers), (''diameter_mm'', PFloat hole)]
                [(''count'', PInt num), (''diameter_mm'', PFloat hole)]]
             ([mk_expectation ''FLANGE_OUTER_DIAMETER_CLEARANCE'' fid (Some (operation_id fid ''outer''))
                 [(''outer_diameter_mm'', PFloat outer), (''pcd_mm'', PFloat pcd),
                  (''bolt_hole_diameter_mm'', PFloat hole)],
               mk_expectation ''FLANGE_HOLES_ON_PCD'' fid (Some (operation_id fid ''bolt-holes''))
                 [(''center_mm'', point_val c), (''pcd_mm'', PFloat pcd), (''bolt_hole_count'', PInt num),
                  (''angular_spacing_deg'', num_val (360 / of_int num))]] @ bore_exps))))))))))))))))"

end
