(* ===== verification/RecognizedCompilers.thy ===== *)
theory RecognizedCompilers
  imports OutlineCompilers
begin

section \<open>Source-bound recompilers\<close>

text \<open>
  Models \<open>feature_catalog/recognized/compiler.py\<close>: the internal compilers that rebuild recognised
  geometry from the drawing it was read from. They need the trusted source model in their context,
  which an ordinary specification never gets.
\<close>

record source_selection =
  ss_refs :: "string list"
  ss_entities :: "entity_record list"
  ss_contour :: "assembled_contour option"
  ss_edge_index :: "int option"

definition string_items :: "pyval \<Rightarrow> string list option" where
  "string_items v =
     (case v of PList xs \<Rightarrow> if list_all (\<lambda>x. case x of PStr _ \<Rightarrow> True | _ \<Rightarrow> False) xs then Some (map str_of xs) else None
      | _ \<Rightarrow> None)"

definition recognized_validate :: "compile_context \<Rightarrow> feature_spec \<Rightarrow> input_report" where
  "recognized_validate cx f =
     (let d = fs_parameters f;
          r0 = require_param f (cx_source_model cx \<noteq> None) ''source_model''
            ''Internal recognition recompilation requires the trusted source DrawingModel''
            [''DrawingModel supplied by the read/remediation service''] empty_report;
          r1 = require_param f (case pget d ''source_revision'' of PStr _ \<Rightarrow> True | _ \<Rightarrow> False) ''source_revision''
            ''Source revision is required'' [''drawing revision fingerprint''] r0
      in require_param f (case string_items (pget d ''source_entity_refs'') of Some (_ # _) \<Rightarrow> True | _ \<Rightarrow> False)
           ''source_entity_refs'' ''At least one source entity reference is required''
           [''non-empty string list''] r1)"

text \<open>\<open>{e.entity_ref: e for e in entities}\<close>: the last entity of a reference wins.\<close>

definition entity_by_ref :: "drawing_model \<Rightarrow> string \<Rightarrow> entity_record option" where
  "entity_by_ref m ref = find (\<lambda>e. en_entity_ref e = ref) (rev (dm_entities m))"

definition contour_matches :: "string list \<Rightarrow> assembled_contour \<Rightarrow> bool" where
  "contour_matches refs c \<longleftrightarrow>
     set (ac_entity_refs c) = set refs \<or> set refs \<subseteq> set (ac_entity_refs c)"

text \<open>\<open>isinstance(v, int)\<close> also accepts a bool here.\<close>

definition index_of :: "pyval \<Rightarrow> int option" where
  "index_of v = (case v of PInt i \<Rightarrow> Some i | PBool b \<Rightarrow> Some (if b then 1 else 0) | _ \<Rightarrow> None)"

definition selection :: "compile_context \<Rightarrow> feature_spec \<Rightarrow> source_selection res" where
  "selection cx f =
     (let d = fs_parameters f in
      if \<not> is_complete (recognized_validate cx f)
      then Inl (Err MissingRequiredInputsError ''Recognition source binding is incomplete'')
      else case cx_source_model cx of
        None \<Rightarrow> Inl AssertionError
      | Some m \<Rightarrow>
          if str_of (pget d ''source_revision'') \<noteq> dm_revision m
          then Inl (Err InvalidFeatureParametersError ''Recognition source revision is stale'')
          else let refs = (case string_items (pget d ''source_entity_refs'') of Some xs \<Rightarrow> xs | None \<Rightarrow> []) in
            if list_ex (\<lambda>r. entity_by_ref m r = None) refs
            then Inl (Err InvalidFeatureParametersError ''Recognition source entities no longer exist'')
            else bindR (analyze_contours m (cx_tolerance cx)) (\<lambda>analysis.
              Inr \<lparr>ss_refs = refs, ss_entities = map (\<lambda>r. the (entity_by_ref m r)) refs,
                   ss_contour = find (contour_matches refs) (ca_contours analysis),
                   ss_edge_index = index_of (pget d ''source_edge_index'')\<rparr>))"

definition edge_operation :: "string \<Rightarrow> nat \<Rightarrow> edge_record \<Rightarrow> string \<Rightarrow> operation res" where
  "edge_operation fid i r layer =
     (let suffix = ''source-edge-'' @ show_nat i; ref = PStr (ec_entity_ref r) in
      case ec_edge r of
        LineEdge a b \<Rightarrow>
          Inr (mk_op fid suffix CREATE_LINE layer [(''start_mm'', point_val a), (''end_mm'', point_val b)]
            [(''source_entity_ref'', ref)])
      | CurveEdge c \<Rightarrow>
          (case cu_radius_mm c of
             None \<Rightarrow> Inl AssertionError
           | Some radius \<Rightarrow>
               Inr (mk_op fid suffix (if is_full c then CREATE_CIRCLE else CREATE_ARC) layer
                 ((''center_mm'', point_val (cu_center c)) #
                  (if is_full c then [(''diameter_mm'', num_val (radius * 2))]
                   else [(''radius_mm'', num_val radius), (''start_angle_deg'', num_val (cu_start_angle_deg c)),
                         (''end_angle_deg'', num_val (end_angle_deg c))]))
                 [(''source_entity_ref'', ref), (''radius_mm'', num_val radius)])))"

definition recognized_outline_compile :: "compile_context \<Rightarrow> feature_spec \<Rightarrow> compiled_feature res" where
  "recognized_outline_compile cx f =
     bindR (selection cx f) (\<lambda>s.
       case ss_contour s of
         None \<Rightarrow> Inl (Err InvalidFeatureParametersError ''Source entities do not form a part outline'')
       | Some c \<Rightarrow>
           if ac_is_circle c
           then Inl (Err InvalidFeatureParametersError ''Source entities do not form a part outline'')
           else bindR (traverse (\<lambda>i. bindR (cx_layer_for cx ''outline'')
                  (edge_operation (fs_feature_id f) i (ac_edges c ! i))) [0..<length (ac_edges c)]) (\<lambda>ops.
             Inr (mk_compiled (fs_feature_id f) ops [])))"

definition recognized_hole_compile :: "compile_context \<Rightarrow> feature_spec \<Rightarrow> compiled_feature res" where
  "recognized_hole_compile cx f =
     bindR (selection cx f) (\<lambda>s.
       case map en_geometry (ss_entities s) of
         [CircleGeometry c radius] \<Rightarrow>
           bindR (cx_layer_for cx ''hole'') (\<lambda>layer.
             let diameter = (case radius of Fin r \<Rightarrow> Fin (r * 2) | x \<Rightarrow> x) in
             Inr (mk_compiled (fs_feature_id f)
               [mk_op (fs_feature_id f) ''source-circle'' CREATE_CIRCLE layer
                  [(''center_mm'', PList [PFloat (fst c), PFloat (snd c)]), (''diameter_mm'', PFloat diameter)]
                  [(''diameter_mm'', PFloat diameter)]] []))
       | _ \<Rightarrow> Inl (Err InvalidFeatureParametersError ''Source selection is not one circular hole''))"

definition source_edge :: "compile_context \<Rightarrow> feature_spec \<Rightarrow> edge_record res" where
  "source_edge cx f =
     bindR (selection cx f) (\<lambda>s.
       case (ss_contour s, ss_edge_index s) of
         (Some c, Some i) \<Rightarrow>
           if 0 \<le> i \<and> i < int (length (ac_edges c)) then Inr (ac_edges c ! nat i)
           else Inl (Err InvalidFeatureParametersError ''Recognized corner source edge index is invalid'')
       | _ \<Rightarrow> Inl (Err InvalidFeatureParametersError ''Recognized corner lacks bound source edge topology''))"

definition one_edge_compiled ::
  "compile_context \<Rightarrow> feature_spec \<Rightarrow> (edge_record \<Rightarrow> bool) \<Rightarrow> string \<Rightarrow> compiled_feature res" where
  "one_edge_compiled cx f ok message =
     bindR (source_edge cx f) (\<lambda>e.
       if \<not> ok e then Inl (Err InvalidFeatureParametersError message)
       else bindR (cx_layer_for cx ''outline'') (\<lambda>layer.
         bindR (edge_operation (fs_feature_id f) 0 e layer) (\<lambda>op.
           Inr (mk_compiled (fs_feature_id f) [op] []))))"

definition is_partial_arc :: "edge_record \<Rightarrow> bool" where
  "is_partial_arc e = (case ec_edge e of CurveEdge c \<Rightarrow> \<not> is_full c | _ \<Rightarrow> False)"

definition is_line_edge :: "edge_record \<Rightarrow> bool" where
  "is_line_edge e = (case ec_edge e of LineEdge _ _ \<Rightarrow> True | _ \<Rightarrow> False)"

definition recognized_fillet_compile :: "compile_context \<Rightarrow> feature_spec \<Rightarrow> compiled_feature res" where
  "recognized_fillet_compile cx f =
     one_edge_compiled cx f is_partial_arc ''Recognized fillet source edge is not an arc''"

definition recognized_chamfer_compile :: "compile_context \<Rightarrow> feature_spec \<Rightarrow> compiled_feature res" where
  "recognized_chamfer_compile cx f =
     one_edge_compiled cx f is_line_edge ''Recognized chamfer source edge is not a line''"

end
