(* ===== verification/PlateCompiler.thy ===== *)
theory PlateCompiler
  imports RecognizedCompilers
begin

section \<open>Outline modifiers, the plate and the catalog\<close>

text \<open>
  Models \<open>feature_catalog/modifiers\<close>, \<open>feature_catalog/plate/compiler.py\<close> and
  \<open>feature_catalog/registry.py\<close>. The plate is the one compiler that compiles its children; a
  notch or cutout child replaces the outline, any other child adds its operations. The recursion
  goes through the registry, so \<open>compile_feature\<close> is recursive over the feature tree.
\<close>

subsection \<open>Corner modifiers\<close>

record replaced_corner =
  rp_vertex_index :: int
  rp_original_vertex :: point2d
  rp_replacement_points :: "point2d list"
  rp_curve :: "curve_params option"

record modified_outline =
  mo_feature_id :: string
  mo_outline :: polyline2d
  mo_replacements :: "replaced_corner list"
  mo_expectations :: "validation_expectation list"

definition modifier_feature_id :: "string \<Rightarrow> string \<Rightarrow> nat \<Rightarrow> string" where
  "modifier_feature_id parent mtype index =
     ''feature:'' @ parent @ '':mod:'' @ mtype @ '':'' @ show_nat index"

definition corner_indices :: "pydict \<Rightarrow> nat \<Rightarrow> int list option res" where
  "corner_indices d vertex_count =
     (case pget d ''vertex_indices'' of
        PNone \<Rightarrow> Inr None
      | PList (x # xs) \<Rightarrow>
          if \<not> list_all is_int (x # xs)
          then Inl (Err InvalidFeatureParametersError ''Every target vertex index must be an integer'')
          else let result = map int_of (x # xs) in
            if \<not> distinct result
            then Inl (Err InvalidFeatureParametersError ''Target vertex indices must be unique'')
            else if list_ex (\<lambda>i. i < 0 \<or> int vertex_count \<le> i) result
            then Inl (Err InvalidFeatureParametersError ''Target vertex index is outside the outline'')
            else Inr (Some result)
      | _ \<Rightarrow> Inl (Err InvalidFeatureParametersError ''vertex_indices must be a non-empty integer list''))"

definition modifier_path :: "modifier_spec \<Rightarrow> string \<Rightarrow> string" where
  "modifier_path s key = ''modifiers['' @ ms_type s @ ''].parameters.'' @ key"

definition fillet_validate :: "modifier_spec \<Rightarrow> polyline2d \<Rightarrow> input_report res" where
  "fillet_validate s outline =
     (let d = ms_parameters s in
      bindR (number d ''radius_mm'') (\<lambda>radius.
        let r0 = require_input (radius \<noteq> None) (modifier_path s ''radius_mm'') ''Fillet radius is required''
                   [''positive number in millimetres''] empty_report;
            r1 = require_input (given d ''vertex_indices'') (modifier_path s ''vertex_indices'')
                   ''At least one target corner is required'' [''non-empty integer list''] r0
        in bindR (corner_indices d (length (vertices outline))) (\<lambda>_. Inr r1)))"

text \<open>\<open>outline.vertices[(i - 1) % n]\<close> and its neighbours.\<close>

definition corner_of :: "polyline2d \<Rightarrow> int \<Rightarrow> point2d \<times> point2d \<times> point2d" where
  "corner_of outline i =
     (cyc_nth (vertices outline) (i - 1), vertices outline ! nat i, cyc_nth (vertices outline) (i + 1))"

definition replace_corners :: "polyline2d \<Rightarrow> replaced_corner list \<Rightarrow> polyline2d res" where
  "replace_corners outline rs =
     mk_polyline (concat (map (\<lambda>i.
         case find (\<lambda>r. rp_vertex_index r = int i) rs of
           Some r \<Rightarrow> rp_replacement_points r
         | None \<Rightarrow> [vertices outline ! i]) [0..<length (vertices outline)])) True"

definition fillet_corner ::
  "tolerance_profile \<Rightarrow> polyline2d \<Rightarrow> string \<Rightarrow> pyfloat \<Rightarrow> int \<Rightarrow> (replaced_corner \<times> validation_expectation) res" where
  "fillet_corner t outline mid radius i =
     (case corner_of outline i of (previous, vertex, following) \<Rightarrow>
        bindR (fillet_vertex previous vertex following radius t) (\<lambda>f.
        bindR (linearize_curve (fi_arc f) (tp_arc_chord_tolerance_mm t)) (\<lambda>points.
          Inr (\<lparr>rp_vertex_index = i, rp_original_vertex = vertex, rp_replacement_points = points,
                 rp_curve = Some (fi_arc f)\<rparr>,
               mk_expectation ''CORNER_FILLET_GEOMETRY'' mid None
                 [(''vertex_index'', PInt i), (''radius_mm'', PFloat radius),
                  (''actual_radius_mm'', (case cu_radius_mm (fi_arc f) of Some r \<Rightarrow> num_val r | None \<Rightarrow> PNone)),
                  (''maximum_allowed_mm'', num_val (fi_maximum_radius_mm f)),
                  (''tangent_in_mm'', point_val (fi_tangent_in f)),
                  (''tangent_out_mm'', point_val (fi_tangent_out f))]))))"

text \<open>The corners are replaced in the given order, then the outline is rebuilt.\<close>

definition modified ::
  "string \<Rightarrow> polyline2d \<Rightarrow> (replaced_corner \<times> validation_expectation) list \<Rightarrow> modified_outline res" where
  "modified mid outline ps =
     bindR (replace_corners outline (map fst ps)) (\<lambda>result.
       Inr \<lparr>mo_feature_id = mid, mo_outline = result, mo_replacements = map fst ps,
            mo_expectations = map snd ps\<rparr>)"

definition parent_or_unbound :: "compile_context \<Rightarrow> string" where
  "parent_or_unbound cx =
     (case cx_parent_feature_id cx of None \<Rightarrow> ''unbound'' | Some [] \<Rightarrow> ''unbound'' | Some p \<Rightarrow> p)"

definition fillet_apply ::
  "(string \<Rightarrow> pyfloat option) \<Rightarrow> modifier_spec \<Rightarrow> polyline2d \<Rightarrow> compile_context \<Rightarrow> nat \<Rightarrow> modified_outline res" where
  "fillet_apply pf s outline cx index =
     bindR (fillet_validate s outline) (\<lambda>report.
       if \<not> is_complete report then Inl (missing_error ''Corner fillet inputs are incomplete'' report)
       else let d = ms_parameters s; mid = modifier_feature_id (parent_or_unbound cx) ''corner_fillet'' index in
         bindR (py_float pf (pget d ''radius_mm'')) (\<lambda>radius.
         bindR (corner_indices d (length (vertices outline))) (\<lambda>indices.
           case indices of
             None \<Rightarrow> Inl AssertionError
           | Some is \<Rightarrow>
               bindR (traverse (fillet_corner (cx_tolerance cx) outline mid radius) is) (modified mid outline))))"

definition chamfer_validate :: "modifier_spec \<Rightarrow> polyline2d \<Rightarrow> input_report res" where
  "chamfer_validate s outline =
     (let d = ms_parameters s in
      bindR (number d ''distance_1_mm'') (\<lambda>first.
        let r0 = require_input (first \<noteq> None) (modifier_path s ''distance_1_mm'') ''First chamfer distance is required''
                   [''positive number in millimetres''] empty_report;
            r1 = require_input (given d ''vertex_indices'') (modifier_path s ''vertex_indices'')
                   ''At least one target corner is required'' [''non-empty integer list''] r0
        in bindR (number d ''distance_2_mm'') (\<lambda>second. bindR (number d ''angle_deg'') (\<lambda>angle.
             let r2 = require_input (second \<noteq> None \<or> angle \<noteq> None) (modifier_path s ''distance_2_mm'')
                        ''A second distance or angle is required'' [''distance_2_mm'', ''angle_deg''] r1
             in if second \<noteq> None \<and> angle \<noteq> None
                then Inl (Err InvalidFeatureParametersError ''Provide exactly one of distance_2_mm or angle_deg'')
                else bindR (corner_indices d (length (vertices outline))) (\<lambda>_. Inr r2)))))"

definition chamfer_corner ::
  "tolerance_profile \<Rightarrow> polyline2d \<Rightarrow> string \<Rightarrow> pyfloat \<Rightarrow> pyfloat option \<Rightarrow> pyfloat option \<Rightarrow> int \<Rightarrow>
   (replaced_corner \<times> validation_expectation) res" where
  "chamfer_corner t outline mid d1 d2 angle i =
     (case corner_of outline i of (previous, vertex, following) \<Rightarrow>
        bindR (chamfer_vertex previous vertex following d1 d2 angle t) (\<lambda>c.
          Inr (\<lparr>rp_vertex_index = i, rp_original_vertex = vertex,
                 rp_replacement_points = [ch_point_on_first c, ch_point_on_second c], rp_curve = None\<rparr>,
               mk_expectation ''CORNER_CHAMFER_GEOMETRY'' mid None
                 [(''vertex_index'', PInt i), (''distance_1_mm'', num_val (ch_distance_first_mm c)),
                  (''distance_2_mm'', num_val (ch_distance_second_mm c)),
                  (''angle_deg'', num_val (ch_angle_deg c)), (''actual_angle_deg'', num_val (ch_angle_deg c))])))"

definition chamfer_apply ::
  "(string \<Rightarrow> pyfloat option) \<Rightarrow> modifier_spec \<Rightarrow> polyline2d \<Rightarrow> compile_context \<Rightarrow> nat \<Rightarrow> modified_outline res" where
  "chamfer_apply pf s outline cx index =
     bindR (chamfer_validate s outline) (\<lambda>report.
       if \<not> is_complete report then Inl (missing_error ''Corner chamfer inputs are incomplete'' report)
       else let d = ms_parameters s; mid = modifier_feature_id (parent_or_unbound cx) ''corner_chamfer'' index in
         bindR (py_float pf (pget d ''distance_1_mm'')) (\<lambda>d1.
         bindR (number d ''distance_2_mm'') (\<lambda>d2.
         bindR (number d ''angle_deg'') (\<lambda>angle.
         bindR (corner_indices d (length (vertices outline))) (\<lambda>indices.
           case indices of
             None \<Rightarrow> Inl AssertionError
           | Some is \<Rightarrow>
               bindR (traverse (chamfer_corner (cx_tolerance cx) outline mid d1 d2 angle) is) (modified mid outline))))))"

text \<open>\<open>get_modifier(spec.type).apply(...)\<close>.\<close>

definition apply_modifier ::
  "(string \<Rightarrow> pyfloat option) \<Rightarrow> modifier_spec \<Rightarrow> polyline2d \<Rightarrow> compile_context \<Rightarrow> nat \<Rightarrow> modified_outline res" where
  "apply_modifier pf s outline cx index =
     (if ms_type s = ''corner_fillet'' then fillet_apply pf s outline cx index
      else if ms_type s = ''corner_chamfer'' then chamfer_apply pf s outline cx index
      else Inl (Err UnsupportedFeatureError
        (''Modifier type '' @ quoted (ms_type s) @ '' is not in the catalog'')))"

subsection \<open>The rectangular plate\<close>

definition plate_positive :: "pydict \<Rightarrow> string \<Rightarrow> pyfloat option res" where
  "plate_positive d key =
     bindR (number d key) (\<lambda>v.
       case v of
         None \<Rightarrow> Inr None
       | Some x \<Rightarrow>
           if float_le0 x
           then Inl (Err InvalidFeatureParametersError (''Parameter '' @ quoted key @ '' must be greater than zero''))
           else Inr (Some x))"

definition plate_validate :: "compile_context \<Rightarrow> feature_spec \<Rightarrow> input_report res" where
  "plate_validate cx f =
     bindR (fold_res (\<lambda>(key, label) r. bindR (plate_positive (fs_parameters f) key) (\<lambda>v.
           Inr (require_param f (v \<noteq> None) key (label @ '' is a required plate size'')
             [''positive number in millimetres''] r)))
         [(''width_mm'', ''Width''), (''height_mm'', ''Height''), (''thickness_mm'', ''Thickness'')]
         empty_report) (\<lambda>r0.
       Inr (require_param f (given (fs_parameters f) ''origin_mm'' \<or> cx_datum cx \<noteq> None) ''origin_mm''
         ''Origin or drawing datum is required to place the plate''
         [''[x, y]'', ''selected_point'', ''named_datum''] r0))"

text \<open>The modifiers of a plate, each applied to the outline the one before it left.\<close>

fun apply_modifiers ::
  "(string \<Rightarrow> pyfloat option) \<Rightarrow> compile_context \<Rightarrow> string \<Rightarrow> bounding_box \<Rightarrow> nat \<Rightarrow> modifier_spec list \<Rightarrow>
   polyline2d \<Rightarrow> validation_expectation list \<Rightarrow> (polyline2d \<times> validation_expectation list) res" where
  "apply_modifiers pf cx fid box i [] outline exps = Inr (outline, exps)"
| "apply_modifiers pf cx fid box i (s # ss) outline exps =
     bindR (apply_modifier pf s outline (for_child cx fid box (Some outline)) i) (\<lambda>m.
       apply_modifiers pf cx fid box (Suc i) ss (mo_outline m) (exps @ mo_expectations m))"

text \<open>The outline a notch or a cutout reports in its operation.\<close>

definition decode_vertex :: "(string \<Rightarrow> pyfloat option) \<Rightarrow> pyval \<Rightarrow> point2d res" where
  "decode_vertex pf v =
     (case v of
        PList (x # y # _) \<Rightarrow> bindR (py_float pf x) (\<lambda>a. bindR (py_float pf y) (\<lambda>b. mk_point a b))
      | PList _ \<Rightarrow> Inl (IndexError ''list index out of range'')
      | _ \<Rightarrow> Inl (TypeError ''object is not subscriptable''))"

definition decode_outline :: "(string \<Rightarrow> pyfloat option) \<Rightarrow> compiled_feature \<Rightarrow> polyline2d res" where
  "decode_outline pf c =
     (case cf_operations c of
        [] \<Rightarrow> Inl (IndexError ''list index out of range'')
      | op # _ \<Rightarrow>
          (case map_of (op_geometry op) ''vertices_mm'' of
             None \<Rightarrow> Inl (KeyError ''vertices_mm'')
           | Some (PList vs) \<Rightarrow> bindR (traverse (decode_vertex pf) vs) (\<lambda>ps. mk_polyline ps True)
           | Some _ \<Rightarrow> Inl (TypeError ''object is not iterable'')))"

text \<open>\<open>compiled.operations[0]\<close> with the new outline.\<close>

definition replace_outline :: "polyline2d \<Rightarrow> compiled_feature \<Rightarrow> compiled_feature" where
  "replace_outline outline c =
     (case cf_operations c of
        [] \<Rightarrow> c
      | op # ops \<Rightarrow>
          c\<lparr>cf_operations := op\<lparr>op_geometry := [(''vertices_mm'', points_val (vertices outline))],
              op_expected := dset (dset (op_expected op) ''vertex_count'' (PInt (int (length (vertices outline)))))
                ''area_mm2'' (num_val (area outline))\<rparr> # ops\<rparr>)"

definition outline_child :: "feature_spec \<Rightarrow> bool" where
  "outline_child f \<longleftrightarrow> fs_type f \<in> {''corner_notch'', ''edge_cutout''}"

text \<open>
  One round of the loop over the children; \<open>child\<close> is the compiler the registry gives. The context
  of the next child has the current outline.
\<close>

definition plate_child ::
  "(string \<Rightarrow> pyfloat option) \<Rightarrow> (compile_context \<Rightarrow> feature_spec \<Rightarrow> compiled_feature res) \<Rightarrow> compile_context \<Rightarrow>
   string \<Rightarrow> bounding_box \<Rightarrow> feature_spec \<Rightarrow> polyline2d \<times> compiled_feature \<Rightarrow> (polyline2d \<times> compiled_feature) res" where
  "plate_child pf child cx fid box c st =
     (case st of (outline, compiled) \<Rightarrow>
        bindR (child (for_child cx fid box (Some outline)) c) (\<lambda>child_compiled.
          if outline_child c
          then bindR (decode_outline pf child_compiled) (\<lambda>outline'.
            let replaced = replace_outline outline' compiled in
            Inr (outline', replaced\<lparr>cf_expectations := cf_expectations replaced @ cf_expectations child_compiled\<rparr>))
          else Inr (outline, merge_compiled compiled child_compiled)))"

definition plate_own ::
  "string \<Rightarrow> string \<Rightarrow> real \<Rightarrow> real \<Rightarrow> polyline2d \<Rightarrow> validation_expectation list \<Rightarrow> input_report \<Rightarrow> compiled_feature" where
  "plate_own fid layer w h outline modifier_exps report =
     (mk_compiled fid
       [mk_op fid ''outline'' CREATE_CLOSED_POLYLINE layer
          [(''vertices_mm'', points_val (vertices outline))]
          [(''closed'', PBool True), (''vertex_count'', PInt (int (length (vertices outline)))),
           (''width_mm'', num_val w), (''height_mm'', num_val h), (''area_mm2'', num_val (area outline))]]
       (mk_expectation ''GEO-PLATE-OUTLINE'' fid (Some (operation_id fid ''outline''))
          [(''orthogonal_rectangle'', PBool True), (''width_mm'', num_val w), (''height_mm'', num_val h),
           (''area_mm2'', num_val (area outline))] # modifier_exps))
     \<lparr>cf_defaults_applied := ir_defaults_applied report, cf_assumptions := ir_assumptions report\<rparr>"

definition plate_vertices :: "point2d \<Rightarrow> real \<Rightarrow> real \<Rightarrow> point2d list" where
  "plate_vertices o' w h =
     [o', Point2D (px o' + w) (py o'), Point2D (px o' + w) (py o' + h), Point2D (px o') (py o' + h)]"

definition plate_compile ::
  "(string \<Rightarrow> pyfloat option) \<Rightarrow> (compile_context \<Rightarrow> feature_spec \<Rightarrow> compiled_feature res) \<Rightarrow>
   compile_context \<Rightarrow> feature_spec \<Rightarrow> compiled_feature res" where
  "plate_compile pf child cx f =
     bindR (plate_validate cx f) (\<lambda>report.
       if \<not> is_complete report
       then Inl (Err InvalidFeatureParametersError ''Plate cannot be compiled while required inputs are missing'')
       else let d = fs_parameters f; fid = fs_feature_id f in
         bindR (py_float pf (pget d ''width_mm'')) (\<lambda>width.
         bindR (py_float pf (pget d ''height_mm'')) (\<lambda>height.
         bindR (own_or_datum pf cx d ''origin_mm'') (\<lambda>origin.
         bindR (finite1 width) (\<lambda>w.
         bindR (finite1 height) (\<lambda>h.
         bindR (box_from_points (plate_vertices origin w h)) (\<lambda>box.
         bindR (mk_polyline (plate_vertices origin w h) True) (\<lambda>rectangle.
         bindR (apply_modifiers pf cx fid box 0 (fs_modifiers f) rectangle []) (\<lambda>(outline, modifier_exps).
         bindR (cx_layer_for cx ''outline'') (\<lambda>layer.
         bindR (fold_res (plate_child pf child cx fid box) (fs_children f)
             (outline, plate_own fid layer w h outline modifier_exps report)) (\<lambda>(_, compiled).
           Inr compiled)))))))))))"

lemma plate_compile_cong [fundef_cong]:
  assumes "pf = pf'" "cx = cx'" "f = f'" "\<And>y c. c \<in> set (fs_children f') \<Longrightarrow> child y c = child' y c"
  shows "plate_compile pf child cx f = plate_compile pf' child' cx' f'"
proof -
  have step: "fold_res (plate_child pf' child cx' fid box) (fs_children f') st =
      fold_res (plate_child pf' child' cx' fid box) (fs_children f') st" for fid box st
    by (rule fold_res_cong) (auto simp: plate_child_def assms split: prod.splits)
  show ?thesis unfolding plate_compile_def assms(1-3) step by (rule refl)
qed

end
