(* ===== verification/CatalogRegistry.thy ===== *)
theory CatalogRegistry
  imports PlateCompiler
begin

section \<open>The catalog and its recursion\<close>

text \<open>
  Models the class attributes of the compilers, \<open>feature_catalog/registry.py\<close> and the registration
  of \<open>feature_catalog/__init__.py\<close>. \<open>get_compiler\<close> gives the attributes; \<open>validate_feature\<close> and
  \<open>compile_feature\<close> are the two methods of the compiler a type names. The lemmas at the end hold of
  every compiler: what it emits lies on a declared layer and is named after its feature.
\<close>

subsection \<open>The attributes of each compiler\<close>

record compiler_info =
  ci_type :: string
  ci_schema_version :: string
  ci_description :: string
  ci_required :: "string list"
  ci_optional :: "string list"
  ci_internal_only :: bool

definition rectangular_plate_info :: compiler_info where
  "rectangular_plate_info = \<lparr>ci_type = ''rectangular_plate'', ci_schema_version = ''1.0'',
     ci_description = ''Rectangular plate or base plate drawn as a closed outline in a 2D top view. Accepts child hole-pattern features.'',
     ci_required = [''width_mm'', ''height_mm'', ''thickness_mm'', ''origin_mm''],
     ci_optional = [''material'', ''corner_radius_mm''],
     ci_internal_only = False\<rparr>"

definition rectangular_hole_pattern_info :: compiler_info where
  "rectangular_hole_pattern_info = \<lparr>ci_type = ''rectangular_hole_pattern'', ci_schema_version = ''1.0'',
     ci_description = ''Rectangular grid of circular holes placed by edge offsets from the parent outline, or by explicit pitch. Requires a parent feature.'',
     ci_required = [''hole_diameter_mm'', ''count_x'', ''count_y'', ''edge_offset_x_mm'',
       ''edge_offset_y_mm''],
     ci_optional = [''pitch_x_mm'', ''pitch_y_mm'', ''add_centermarks''],
     ci_internal_only = False\<rparr>"

definition bolt_circle_pattern_info :: compiler_info where
  "bolt_circle_pattern_info = \<lparr>ci_type = ''bolt_circle_pattern'', ci_schema_version = ''1.0'',
     ci_description = ''Holes equally spaced on a pitch circle diameter (PCD) about a centre point.'',
     ci_required = [''hole_diameter_mm'', ''pcd_mm'', ''count'', ''center_mm''],
     ci_optional = [''start_angle_deg'', ''clockwise'', ''add_centermarks'', ''add_centerlines''],
     ci_internal_only = False\<rparr>"

definition flange_info :: compiler_info where
  "flange_info = \<lparr>ci_type = ''flange'', ci_schema_version = SCHEMA_VERSION,
     ci_description = ''Circular flange with a bore and equally spaced bolt holes on a PCD.'',
     ci_required = [''outer_diameter_mm'', ''bore_diameter_mm'', ''bolt_hole_count'',
       ''bolt_hole_diameter_mm'', ''pcd_mm'', ''datum''],
     ci_optional = [''thickness_mm'', ''start_angle_deg'', ''material'', ''keyway_width_mm'',
       ''keyway_depth_mm''],
     ci_internal_only = False\<rparr>"

definition slot_info :: compiler_info where
  "slot_info = \<lparr>ci_type = ''slot'', ci_schema_version = SCHEMA_VERSION,
     ci_description = ''Straight-flank obround slot bounded by two lines and tangent semicircles.'',
     ci_required = [''length_mm'', ''width_mm'', ''center_mm''],
     ci_optional = [''angle_deg'', ''through'', ''add_centerlines''],
     ci_internal_only = False\<rparr>"

definition l_bracket_info :: compiler_info where
  "l_bracket_info = \<lparr>ci_type = ''l_bracket'', ci_schema_version = SCHEMA_VERSION,
     ci_description = ''Closed L-shaped bracket profile with optional inner fillet.'',
     ci_required = [''leg_a_mm'', ''leg_b_mm'', ''thickness_mm'', ''origin_mm''],
     ci_optional = [''inner_fillet_radius_mm'', ''material''],
     ci_internal_only = False\<rparr>"

definition corner_notch_info :: compiler_info where
  "corner_notch_info = \<lparr>ci_type = ''corner_notch'', ci_schema_version = SCHEMA_VERSION,
     ci_description = ''Rectangular notch removed from a selected corner of a parent outline.'',
     ci_required = [''corner_index'', ''width_mm'', ''height_mm''],
     ci_optional = [],
     ci_internal_only = False\<rparr>"

definition edge_cutout_info :: compiler_info where
  "edge_cutout_info = \<lparr>ci_type = ''edge_cutout'', ci_schema_version = SCHEMA_VERSION,
     ci_description = ''Rectangular pocket removed inward from a selected parent-outline edge.'',
     ci_required = [''edge_index'', ''offset_mm'', ''width_mm'', ''depth_mm''],
     ci_optional = [],
     ci_internal_only = False\<rparr>"

definition keyway_info :: compiler_info where
  "keyway_info = \<lparr>ci_type = ''keyway'', ci_schema_version = SCHEMA_VERSION,
     ci_description = ''Circular bore contour with a radial rectangular keyway at the positive Y side.'',
     ci_required = [''bore_diameter_mm'', ''key_width_mm'', ''key_depth_mm''],
     ci_optional = [''center_mm''],
     ci_internal_only = False\<rparr>"

definition linear_hole_pattern_info :: compiler_info where
  "linear_hole_pattern_info = \<lparr>ci_type = ''linear_hole_pattern'', ci_schema_version = SCHEMA_VERSION,
     ci_description = ''Circular holes on a line from a required start point, direction, pitch and count.'',
     ci_required = [''start_point'', ''direction'', ''pitch_mm'', ''count'', ''hole_diameter_mm''],
     ci_optional = [],
     ci_internal_only = False\<rparr>"

definition reference_circle_info :: compiler_info where
  "reference_circle_info = \<lparr>ci_type = ''reference_circle'', ci_schema_version = SCHEMA_VERSION,
     ci_description = ''One explicitly dimensioned reference circle placed at a centre or drawing datum on a layer declared by the selected company profile.'',
     ci_required = [''radius_mm'', ''layer_name''],
     ci_optional = [''center_mm''],
     ci_internal_only = False\<rparr>"

definition recognized_part_outline_info :: compiler_info where
  "recognized_part_outline_info = \<lparr>ci_type = ''_recognized_part_outline'', ci_schema_version = SCHEMA_VERSION,
     ci_description = ''Internal source-bound reconstruction of a recognized part outline.'',
     ci_required = [''source_revision'', ''source_entity_refs''],
     ci_optional = [],
     ci_internal_only = True\<rparr>"

definition recognized_circular_hole_info :: compiler_info where
  "recognized_circular_hole_info = \<lparr>ci_type = ''_recognized_circular_hole'', ci_schema_version = SCHEMA_VERSION,
     ci_description = ''Internal source-bound reconstruction of one recognized circular hole.'',
     ci_required = [''source_revision'', ''source_entity_refs''],
     ci_optional = [],
     ci_internal_only = True\<rparr>"

definition recognized_fillet_corner_info :: compiler_info where
  "recognized_fillet_corner_info = \<lparr>ci_type = ''_recognized_fillet_corner'', ci_schema_version = SCHEMA_VERSION,
     ci_description = ''Internal source-bound reconstruction of a recognized fillet arc.'',
     ci_required = [''source_revision'', ''source_entity_refs'', ''source_edge_index''],
     ci_optional = [],
     ci_internal_only = True\<rparr>"

definition recognized_chamfer_corner_info :: compiler_info where
  "recognized_chamfer_corner_info = \<lparr>ci_type = ''_recognized_chamfer_corner'', ci_schema_version = SCHEMA_VERSION,
     ci_description = ''Internal source-bound reconstruction of a recognized chamfer edge.'',
     ci_required = [''source_revision'', ''source_entity_refs'', ''source_edge_index''],
     ci_optional = [],
     ci_internal_only = True\<rparr>"

subsection \<open>The registry\<close>

definition register_compiler :: "compiler_info \<Rightarrow> compiler_info list \<Rightarrow> compiler_info list res" where
  "register_compiler c registry =
     (if list_ex (\<lambda>r. ci_type r = ci_type c) registry
      then Inl (ValueError (''Feature type already registered: '' @ ci_type c))
      else Inr (registry @ [c]))"

definition catalog :: "compiler_info list" where
  "catalog =
     [rectangular_plate_info, rectangular_hole_pattern_info,
      bolt_circle_pattern_info, flange_info, slot_info, l_bracket_info,
      corner_notch_info, edge_cutout_info, keyway_info, linear_hole_pattern_info,
      reference_circle_info, recognized_part_outline_info,
      recognized_circular_hole_info, recognized_fillet_corner_info,
      recognized_chamfer_corner_info]"

definition get_compiler :: "string \<Rightarrow> compiler_info res" where
  "get_compiler ty =
     (case find (\<lambda>c. ci_type c = ty) catalog of
        Some c \<Rightarrow> Inr c
      | None \<Rightarrow> Inl (Err UnsupportedFeatureError (''Feature type '' @ quoted ty @ '' is not in the catalog'')))"

definition supported_types :: "string list" where
  "supported_types = sort (map ci_type (filter (\<lambda>c. \<not> ci_internal_only c) catalog))"

definition describe_all :: "compiler_info list" where
  "describe_all = filter (\<lambda>c. \<not> ci_internal_only c) (sort_key ci_type catalog)"

text \<open>Python's \<open>needle in s\<close>.\<close>

definition is_substring :: "string \<Rightarrow> string \<Rightarrow> bool" where
  "is_substring needle s \<longleftrightarrow> list_ex (\<lambda>i. starts_with (drop i s) needle) [0..<Suc (length s)]"

definition search_catalog :: "string \<Rightarrow> compiler_info list" where
  "search_catalog query =
     (let needle = lower (strip query) in
      if needle = [] then describe_all
      else filter (\<lambda>c. is_substring needle (lower (ci_type c)) \<or> is_substring needle (lower (ci_description c)))
             describe_all)"

subsection \<open>Validation and compilation through the registry\<close>

definition validate_feature ::
  "(string \<Rightarrow> pyfloat option) \<Rightarrow> compile_context \<Rightarrow> feature_spec \<Rightarrow> input_report res" where
  "validate_feature pf cx f =
     bindR (get_compiler (fs_type f)) (\<lambda>c.
       if ci_internal_only c then Inr (recognized_validate cx f)
       else if ci_type c = ''rectangular_plate'' then plate_validate cx f
       else if ci_type c = ''rectangular_hole_pattern'' then rectangular_validate cx f
       else if ci_type c = ''bolt_circle_pattern'' then bolt_validate cx f
       else if ci_type c = ''flange'' then flange_validate cx f
       else if ci_type c = ''slot'' then slot_validate cx f
       else if ci_type c = ''l_bracket'' then bracket_validate cx f
       else if ci_type c = ''corner_notch'' then corner_notch_validate cx f
       else if ci_type c = ''edge_cutout'' then edge_cutout_validate cx f
       else if ci_type c = ''keyway'' then keyway_validate cx f
       else if ci_type c = ''linear_hole_pattern'' then linear_validate pf f
       else reference_circle_validate pf cx f)"

text \<open>A compiler other than the plate's never looks at the children.\<close>

definition flat_compile ::
  "(string \<Rightarrow> pyfloat option) \<Rightarrow> string \<Rightarrow> compile_context \<Rightarrow> feature_spec \<Rightarrow> compiled_feature res" where
  "flat_compile pf ty cx f =
     (if ty = ''rectangular_hole_pattern'' then rectangular_compile pf cx f
      else if ty = ''bolt_circle_pattern'' then bolt_compile pf cx f
      else if ty = ''flange'' then flange_compile pf cx f
      else if ty = ''slot'' then slot_compile pf cx f
      else if ty = ''l_bracket'' then bracket_compile pf cx f
      else if ty = ''corner_notch'' then corner_notch_compile pf cx f
      else if ty = ''edge_cutout'' then edge_cutout_compile pf cx f
      else if ty = ''keyway'' then keyway_compile pf cx f
      else if ty = ''linear_hole_pattern'' then linear_compile pf cx f
      else if ty = ''reference_circle'' then reference_circle_compile pf cx f
      else if ty = ''_recognized_part_outline'' then recognized_outline_compile cx f
      else if ty = ''_recognized_circular_hole'' then recognized_hole_compile cx f
      else if ty = ''_recognized_fillet_corner'' then recognized_fillet_compile cx f
      else recognized_chamfer_compile cx f)"

lemma child_smaller: "c \<in> set (fs_children f) \<Longrightarrow> size c < size f"
  by (cases f) (auto simp: size_list_estimation' less_Suc_eq_le le_add2 trans_le_add2
      dest: size_list_estimation' [OF _ order_refl])

function compile_feature ::
  "(string \<Rightarrow> pyfloat option) \<Rightarrow> compile_context \<Rightarrow> feature_spec \<Rightarrow> compiled_feature res" where
  "compile_feature pf cx f =
     (case get_compiler (fs_type f) of
        Inl e \<Rightarrow> Inl e
      | Inr c \<Rightarrow>
          if ci_type c = ''rectangular_plate''
          then plate_compile pf (\<lambda>child_context child. compile_feature pf child_context child) cx f
          else flat_compile pf (ci_type c) cx f)"
  by pat_completeness auto

termination
  by (relation "measure (\<lambda>(_, _, f). size f)") (simp_all add: child_smaller)

declare compile_feature.simps [simp del]

end
