(* ===== verification/CatalogGuarantees.thy ===== *)
theory CatalogGuarantees
  imports CatalogRegistry
begin

section \<open>What a compiler may emit\<close>

text \<open>
  One lemma per compiler, and the recursion through the registry: a compiled operation creates
  geometry, on a declared layer, under an identifier made from its feature; it has no target entity.
\<close>

definition emitted_ok :: "company_profile \<Rightarrow> operation \<Rightarrow> bool" where
  "emitted_ok p op \<longleftrightarrow> op_layer op \<in> set (layer_names p) \<and>
     starts_with (op_id op) (''op:'' @ op_feature_id op @ '':'') \<and> op_target_entity_ref op = None \<and>
     op_type op \<in> {CREATE_LINE, CREATE_CLOSED_POLYLINE, CREATE_CIRCLE, CREATE_CIRCLES, CREATE_ARC, CREATE_CENTERMARK}"

lemma layer_for_declared: "cx_layer_for cx purpose = Inr layer \<Longrightarrow> layer \<in> set (layer_names (cx_profile cx))"
  by (auto simp: cx_layer_for_def layer_for_def split: option.splits if_splits)

lemma emitted_mk_op:
  "emitted_ok p (mk_op fid suffix ty layer g e) \<longleftrightarrow> layer \<in> set (layer_names p) \<and>
     ty \<in> {CREATE_LINE, CREATE_CLOSED_POLYLINE, CREATE_CIRCLE, CREATE_CIRCLES, CREATE_ARC, CREATE_CENTERMARK}"
  by (auto simp: emitted_ok_def mk_op_def operation_id_def starts_with_def)

lemma mk_compiled_ops [simp]: "cf_operations (mk_compiled fid ops exps) = ops"
  by (simp add: mk_compiled_def)

lemma emitted_centermarks:
  "layer \<in> set (layer_names p) \<Longrightarrow> list_all (emitted_ok p) (centermark_operations fid centers layer)"
  by (simp add: centermark_operations_def list_all_iff emitted_mk_op)

lemma with_centermarks_ok:
  assumes "with_centermarks cx f cs ops = Inr ops'" "list_all (emitted_ok (cx_profile cx)) ops"
  shows "list_all (emitted_ok (cx_profile cx)) ops'"
  using assms
  by (auto simp: with_centermarks_def bindR_Inr_iff split: if_splits dest!: layer_for_declared intro: emitted_centermarks)

lemma rectangular_ok:
  "rectangular_compile pf cx f = Inr c \<Longrightarrow> list_all (emitted_ok (cx_profile cx)) (cf_operations c)"
  unfolding rectangular_compile_def Let_def
  by (auto simp: bindR_Inr_iff emitted_mk_op split: if_splits elim!: with_centermarks_ok dest!: layer_for_declared)
lemma bolt_ok:
  "bolt_compile pf cx f = Inr c \<Longrightarrow> list_all (emitted_ok (cx_profile cx)) (cf_operations c)"
  unfolding bolt_compile_def Let_def
  by (auto simp: bindR_Inr_iff emitted_mk_op split: if_splits elim!: with_centermarks_ok dest!: layer_for_declared)
lemma linear_ok:
  "linear_compile pf cx f = Inr c \<Longrightarrow> list_all (emitted_ok (cx_profile cx)) (cf_operations c)"
  unfolding linear_compile_def Let_def
  by (auto simp: bindR_Inr_iff emitted_mk_op split: if_splits dest!: layer_for_declared)

lemma slot_ok:
  "slot_compile pf cx f = Inr c \<Longrightarrow> list_all (emitted_ok (cx_profile cx)) (cf_operations c)"
  unfolding slot_compile_def Let_def
  by (auto simp: bindR_Inr_iff emitted_mk_op line_op_def split: if_splits prod.splits dest!: layer_for_declared)

lemma keyway_ok:
  "keyway_compile pf cx f = Inr c \<Longrightarrow> list_all (emitted_ok (cx_profile cx)) (cf_operations c)"
  unfolding keyway_compile_def Let_def
  by (auto simp: bindR_Inr_iff emitted_mk_op split: if_splits dest!: layer_for_declared)

lemma bracket_ok:
  "bracket_compile pf cx f = Inr c \<Longrightarrow> list_all (emitted_ok (cx_profile cx)) (cf_operations c)"
  unfolding bracket_compile_def Let_def
  by (auto simp: bindR_Inr_iff emitted_mk_op split: if_splits dest!: layer_for_declared)

lemma boundary_ok:
  "boundary_compiled cx f parent message result = Inr c \<Longrightarrow> list_all (emitted_ok (cx_profile cx)) (cf_operations c)"
  unfolding boundary_compiled_def Let_def
  by (auto simp: bindR_Inr_iff emitted_mk_op split: if_splits dest!: layer_for_declared)

lemma notch_ok:
  "corner_notch_compile pf cx f = Inr c \<Longrightarrow> list_all (emitted_ok (cx_profile cx)) (cf_operations c)"
  unfolding corner_notch_compile_def Let_def
  by (auto simp: bindR_Inr_iff split: if_splits option.splits elim: boundary_ok)
lemma cutout_ok:
  "edge_cutout_compile pf cx f = Inr c \<Longrightarrow> list_all (emitted_ok (cx_profile cx)) (cf_operations c)"
  unfolding edge_cutout_compile_def Let_def
  by (auto simp: bindR_Inr_iff split: if_splits option.splits elim: boundary_ok)

lemma flange_bore_ok:
  "flange_bore pf cx fid d ce bore = Inr (op, exps) \<Longrightarrow> emitted_ok (cx_profile cx) op"
  unfolding flange_bore_def
  by (auto simp: bindR_Inr_iff emitted_mk_op split: if_splits dest!: layer_for_declared)

lemma flange_ok:
  "flange_compile pf cx f = Inr c \<Longrightarrow> list_all (emitted_ok (cx_profile cx)) (cf_operations c)"
  unfolding flange_compile_def Let_def
  by (auto simp: bindR_Inr_iff emitted_mk_op split: if_splits prod.splits dest!: layer_for_declared elim: flange_bore_ok)

lemma reference_circle_ok:
  "reference_circle_compile pf cx f = Inr c \<Longrightarrow> list_all (emitted_ok (cx_profile cx)) (cf_operations c)"
proof -
  assume c: "reference_circle_compile pf cx f = Inr c"
  have layer: "str_of (pget (fs_parameters f) ''layer_name'') \<in> set (layer_names (cx_profile cx))"
    if v: "reference_circle_validate pf cx f = Inr r" and r: "is_complete r" for r
    using v r unfolding reference_circle_validate_def Let_def
    by (auto simp: bindR_Inr_iff is_complete_def require_param_def require_input_def given_def str_of_def
        split: if_splits pyval.splits)
  from c show ?thesis unfolding reference_circle_compile_def Let_def
    by (auto simp: bindR_Inr_iff emitted_mk_op split: if_splits dest!: layer)
qed

lemma edge_operation_ok:
  "edge_operation fid i r layer = Inr op \<Longrightarrow> layer \<in> set (layer_names p) \<Longrightarrow> emitted_ok p op"
  by (auto simp: edge_operation_def Let_def emitted_mk_op split: contour_edge.splits option.splits)

lemma edge_operations_ok:
  "traverse (\<lambda>i. bindR (cx_layer_for cx purpose) (edge_operation fid i (es ! i))) [0..<n] = Inr ops \<Longrightarrow>
   list_all (emitted_ok (cx_profile cx)) ops"
  by (auto simp: traverse_Inr_iff list_all2_conv_all_nth list_all_length bindR_Inr_iff
      dest!: layer_for_declared intro: edge_operation_ok)

lemma recognized_outline_ok:
  assumes "recognized_outline_compile cx f = Inr c"
  shows "list_all (emitted_ok (cx_profile cx)) (cf_operations c)"
  using assms unfolding recognized_outline_compile_def bindR_Inr_iff
  by (elim exE conjE)
    (auto split: option.split_asm if_split_asm simp: bindR_Inr_iff dest!: edge_operations_ok)

lemma recognized_hole_ok:
  assumes "recognized_hole_compile cx f = Inr c"
  shows "list_all (emitted_ok (cx_profile cx)) (cf_operations c)"
proof -
  from assms obtain layer g e where "cx_layer_for cx ''hole'' = Inr layer"
    and "c = mk_compiled (fs_feature_id f) [mk_op (fs_feature_id f) ''source-circle'' CREATE_CIRCLE layer g e] []"
    unfolding recognized_hole_compile_def bindR_Inr_iff
    by (elim exE conjE) (auto split: list.split_asm entity_geometry.split_asm simp: bindR_Inr_iff Let_def)
  then show ?thesis by (auto simp: emitted_mk_op dest!: layer_for_declared)
qed

lemma one_edge_ok:
  "one_edge_compiled cx f ok message = Inr c \<Longrightarrow> list_all (emitted_ok (cx_profile cx)) (cf_operations c)"
  unfolding one_edge_compiled_def
  by (auto simp: bindR_Inr_iff split: if_splits dest!: layer_for_declared intro: edge_operation_ok)

lemma flat_ok:
  "flat_compile pf ty cx f = Inr c \<Longrightarrow> list_all (emitted_ok (cx_profile cx)) (cf_operations c)"
  unfolding flat_compile_def recognized_fillet_compile_def recognized_chamfer_compile_def
  by (auto split: if_splits intro: rectangular_ok bolt_ok flange_ok slot_ok bracket_ok notch_ok cutout_ok
      keyway_ok linear_ok reference_circle_ok recognized_outline_ok recognized_hole_ok one_edge_ok)

subsection \<open>The plate and its children\<close>

lemma fold_res_invariant:
  assumes "fold_res g as b = Inr c" "P b"
    and "\<And>a x y. a \<in> set as \<Longrightarrow> P x \<Longrightarrow> g a x = Inr y \<Longrightarrow> P y"
  shows "P c"
  using assms by (induction as arbitrary: b) (auto simp: bindR_Inr_iff)

lemma profile_for_child [simp]: "cx_profile (for_child cx fid box outline) = cx_profile cx"
  by (simp add: for_child_def)

lemma replace_outline_ok:
  "list_all (emitted_ok p) (cf_operations c) \<Longrightarrow> list_all (emitted_ok p) (cf_operations (replace_outline outline c))"
  by (cases "cf_operations c") (simp_all add: replace_outline_def emitted_ok_def)

lemma plate_child_ok:
  assumes step: "plate_child pf child cx fid box c st = Inr st'"
    and own: "list_all (emitted_ok (cx_profile cx)) (cf_operations (snd st))"
    and sub: "\<And>y d. child y c = Inr d \<Longrightarrow> list_all (emitted_ok (cx_profile y)) (cf_operations d)"
  shows "list_all (emitted_ok (cx_profile cx)) (cf_operations (snd st'))"
proof -
  obtain outline compiled where st: "st = (outline, compiled)" by (cases st)
  from step obtain d where d: "child (for_child cx fid box (Some outline)) c = Inr d"
    by (auto simp: plate_child_def st bindR_Inr_iff)
  from sub [OF d] have "list_all (emitted_ok (cx_profile cx)) (cf_operations d)" by simp
  with step own d show ?thesis
    by (auto simp: plate_child_def st bindR_Inr_iff Let_def merge_compiled_def replace_outline_ok split: if_splits)
qed

lemma plate_ok:
  assumes c: "plate_compile pf child cx f = Inr c"
    and sub: "\<And>y g d. g \<in> set (fs_children f) \<Longrightarrow> child y g = Inr d \<Longrightarrow>
      list_all (emitted_ok (cx_profile y)) (cf_operations d)"
  shows "list_all (emitted_ok (cx_profile cx)) (cf_operations c)"
proof -
  from c obtain fid box layer w h outline exps report st where
      layer: "layer \<in> set (layer_names (cx_profile cx))"
    and loop: "fold_res (plate_child pf child cx fid box) (fs_children f)
        (outline, plate_own fid layer w h outline exps report) = Inr st" and "c = snd st"
    unfolding plate_compile_def Let_def
    by (auto simp: bindR_Inr_iff split: if_splits prod.splits dest!: layer_for_declared)
  have "list_all (emitted_ok (cx_profile cx)) (cf_operations (snd st))"
  proof (rule fold_res_invariant [OF loop])
    fix a x y
    assume "a \<in> set (fs_children f)" "list_all (emitted_ok (cx_profile cx)) (cf_operations (snd x))"
      "plate_child pf child cx fid box a x = Inr y"
    then show "list_all (emitted_ok (cx_profile cx)) (cf_operations (snd y))"
      using plate_child_ok [of pf child cx fid box a x y] sub by blast
  qed (simp add: plate_own_def emitted_mk_op layer)
  then show ?thesis by (simp add: \<open>c = snd st\<close>)
qed

text \<open>
  Whatever feature tree the catalog compiles, every operation it emits creates new geometry, with no
  existing entity as its target, on a layer the company profile declares, and under an identifier
  derived from the feature it belongs to.
\<close>

lemma catalog_operations_ok:
  "compile_feature pf cx f = Inr c \<Longrightarrow> list_all (emitted_ok (cx_profile cx)) (cf_operations c)"
proof (induction pf cx f arbitrary: c rule: compile_feature.induct)
  case (1 pf cx f)
  obtain i where i: "get_compiler (fs_type f) = Inr i"
    using "1.prems" by (auto simp: compile_feature.simps [of pf cx f] split: sum.splits)
  show ?case
  proof (cases "ci_type i = ''rectangular_plate''")
    case True
    with "1.prems" i have "plate_compile pf (compile_feature pf) cx f = Inr c"
      by (simp add: compile_feature.simps [of pf cx f])
    then show ?thesis by (rule plate_ok) (rule "1.IH" [OF i True])
  next
    case False
    with "1.prems" i have "flat_compile pf (ci_type i) cx f = Inr c"
      by (simp add: compile_feature.simps [of pf cx f])
    then show ?thesis by (rule flat_ok)
  qed
qed

end
