(* ===== verification/Measure.thy ===== *)
theory Measure
  imports Contours
begin

section \<open>Measurements over kernel entities\<close>

text \<open>
  Models \<open>geometry/measure.py\<close> and \<open>angular_spacing_deg\<close> of \<open>geometry/intersections.py\<close>: distances, angles and bounding boxes of circles, polylines, lines,
  curves and curve contours. A curve is measured on its linearisation, except a full circle.
\<close>

datatype measurable =
    MCircle circle2d
  | MPolyline polyline2d
  | MCurve curve_params
  | MLine point2d point2d
  | MContour "contour_edge list"

definition point_point_distance :: "point2d \<Rightarrow> point2d \<Rightarrow> real" where
  "point_point_distance a b = distance_to a b"

definition pairwise :: "'a list \<Rightarrow> ('a \<times> 'a) list" where
  "pairwise xs = zip xs (tl xs)"

definition entity_segments :: "tolerance_profile \<Rightarrow> measurable \<Rightarrow> (point2d \<times> point2d) list res" where
  "entity_segments t e =
     (case e of
        MPolyline p \<Rightarrow> Inr (segments p)
      | MLine a b \<Rightarrow> Inr [(a, b)]
      | MCurve c \<Rightarrow> bindR (linearize_curve c (tp_arc_chord_tolerance_mm t)) (\<lambda>ps. Inr (pairwise ps))
      | MContour edges \<Rightarrow>
          bindR (contour_vertices edges (tp_arc_chord_tolerance_mm t)) (\<lambda>ps.
          bindR (mk_polyline ps True) (\<lambda>p. Inr (segments p)))
      | MCircle _ \<Rightarrow> Inl (Err InvalidFeatureParametersError ''A circle does not expose line segments''))"

definition point_entity_distance :: "tolerance_profile \<Rightarrow> point2d \<Rightarrow> measurable \<Rightarrow> real res" where
  "point_entity_distance t p e =
     (case e of
        MCircle c \<Rightarrow> Inr \<bar>distance_to p (center c) - radius_mm c\<bar>
      | _ \<Rightarrow> bindR (entity_segments t e) (\<lambda>ss.
          min_list_of (map (\<lambda>(a, b). point_to_segment_distance p a b) ss)))"

definition segment_distance ::
  "tolerance_profile \<Rightarrow> point2d \<times> point2d \<Rightarrow> point2d \<times> point2d \<Rightarrow> real" where
  "segment_distance t s1 s2 =
     (case (s1, s2) of ((a, b), (c, d)) \<Rightarrow>
        if segment_intersection a b c d t \<noteq> None then 0
        else let v = min (min (point_to_segment_distance a c d) (point_to_segment_distance b c d))
                       (min (point_to_segment_distance c a b) (point_to_segment_distance d a b))
             in if is_zero_length t v then 0 else v)"

definition clear_separation :: "tolerance_profile \<Rightarrow> real \<Rightarrow> real" where
  "clear_separation t separation = (if separation \<le> tp_absolute_length_mm t then 0 else separation)"

definition circle_entity_distance :: "tolerance_profile \<Rightarrow> circle2d \<Rightarrow> measurable \<Rightarrow> real res" where
  "circle_entity_distance t c e =
     bindR (point_entity_distance t (center c) e) (\<lambda>d. Inr (clear_separation t (d - radius_mm c)))"

definition entity_entity_distance :: "tolerance_profile \<Rightarrow> measurable \<Rightarrow> measurable \<Rightarrow> real res" where
  "entity_entity_distance t e1 e2 =
     (case (e1, e2) of
        (MCircle c1, MCircle c2) \<Rightarrow>
          Inr (clear_separation t (distance_to (center c1) (center c2) - radius_mm c1 - radius_mm c2))
      | (MCircle c1, _) \<Rightarrow> circle_entity_distance t c1 e2
      | (_, MCircle c2) \<Rightarrow> circle_entity_distance t c2 e1
      | _ \<Rightarrow>
          bindR (entity_segments t e1) (\<lambda>ss1. bindR (entity_segments t e2) (\<lambda>ss2.
            min_list_of (map (\<lambda>(a, b). segment_distance t a b) (List.product ss1 ss2)))))"

definition line_angle_deg ::
  "tolerance_profile \<Rightarrow> point2d \<Rightarrow> point2d \<Rightarrow> point2d \<Rightarrow> point2d \<Rightarrow> real res" where
  "line_angle_deg t a b c d =
     (let v = vector_to a b; w = vector_to c d in
      if is_zero_length t (vlength v) \<or> is_zero_length t (vlength w)
      then Inl (Err InvalidGeometryError ''Line angle is undefined for a zero-length line'')
      else let cosine = \<bar>dot v w / (vlength v * vlength w)\<bar>
           in Inr (arccos (max (-1) (min 1 cosine)) * 180 / pi))"

text \<open>The gaps between consecutive angles around the centre, closing the circle.\<close>

definition angular_spacing_deg :: "point2d \<Rightarrow> point2d list \<Rightarrow> real list" where
  "angular_spacing_deg c ps =
     (let angles = sort (map (\<lambda>p. fmod (degrees (atan2 (py p - py c) (px p - px c))) 360) ps) in
      if length angles < 2 then []
      else map (\<lambda>(a, b). b - a) (pairwise angles) @ [360 - last angles + hd angles])"

definition arc_length :: "curve_params \<Rightarrow> real res" where
  "arc_length c = curve_length c"

definition circle_box :: "point2d \<Rightarrow> real \<Rightarrow> bounding_box" where
  "circle_box c r = \<lparr>bb_min_x = px c - r, bb_min_y = py c - r, bb_max_x = px c + r, bb_max_y = py c + r\<rparr>"

definition curve_bbox :: "tolerance_profile \<Rightarrow> curve_params \<Rightarrow> bounding_box res" where
  "curve_bbox t c =
     (case (is_full c, cu_radius_mm c) of
        (True, Some r) \<Rightarrow> Inr (circle_box (cu_center c) r)
      | _ \<Rightarrow> bindR (linearize_curve c (tp_arc_chord_tolerance_mm t)) box_from_points)"

definition entity_bounding_box :: "tolerance_profile \<Rightarrow> measurable \<Rightarrow> bounding_box res" where
  "entity_bounding_box t e =
     (case e of
        MCircle c \<Rightarrow> Inr (circle_box (center c) (radius_mm c))
      | MPolyline p \<Rightarrow> polyline_box p
      | MLine a b \<Rightarrow> box_from_points [a, b]
      | MCurve c \<Rightarrow> curve_bbox t c
      | MContour edges \<Rightarrow> bindR (contour_vertices edges (tp_arc_chord_tolerance_mm t)) box_from_points)"

definition join_boxes :: "bounding_box \<Rightarrow> bounding_box list \<Rightarrow> bounding_box" where
  "join_boxes b bs =
     \<lparr>bb_min_x = fold min (map bb_min_x bs) (bb_min_x b), bb_min_y = fold min (map bb_min_y bs) (bb_min_y b),
      bb_max_x = fold max (map bb_max_x bs) (bb_max_x b), bb_max_y = fold max (map bb_max_y bs) (bb_max_y b)\<rparr>"

definition entity_set_bounding_box :: "tolerance_profile \<Rightarrow> measurable list \<Rightarrow> bounding_box res" where
  "entity_set_bounding_box t es =
     (if es = [] then Inl (Err InvalidGeometryError ''Cannot measure an empty entity set'')
      else bindR (traverse (entity_bounding_box t) es) (\<lambda>bs. Inr (join_boxes (hd bs) (tl bs))))"

definition hole_boundary_distance :: "tolerance_profile \<Rightarrow> circle2d \<Rightarrow> measurable \<Rightarrow> real res" where
  "hole_boundary_distance t hole boundary =
     bindR (point_entity_distance t (center hole) boundary) (\<lambda>d. Inr (d - radius_mm hole))"

definition center_center_distance :: "circle2d \<Rightarrow> circle2d \<Rightarrow> real" where
  "center_center_distance a b = distance_to (center a) (center b)"

definition contour_length :: "contour \<Rightarrow> real res" where
  "contour_length c = contour_perimeter c"

definition closed_contour_area :: "contour \<Rightarrow> real res" where
  "closed_contour_area c = contour_area c"

fun combinations2 :: "'a list \<Rightarrow> ('a \<times> 'a) list" where
  "combinations2 [] = []"
| "combinations2 (x # xs) = map (Pair x) xs @ combinations2 xs"

definition minimum_pair_distance :: "tolerance_profile \<Rightarrow> measurable list \<Rightarrow> real res" where
  "minimum_pair_distance t es =
     (if length es < 2 then Inl (Err InvalidFeatureParametersError ''At least two entities are required'')
      else bindR (traverse (\<lambda>(a, b). entity_entity_distance t a b) (combinations2 es)) min_list_of)"

subsection \<open>Laws of the measurements\<close>

lemma fold_min_le: "fold min xs (x::real) \<le> x \<and> (\<forall>y \<in> set xs. fold min xs x \<le> y)"
proof (induction xs arbitrary: x)
  case (Cons a xs)
  from Cons.IH [of "min a x"] show ?case by (auto simp: min.coboundedI1)
qed simp

lemma fold_max_ge: "(x::real) \<le> fold max xs x \<and> (\<forall>y \<in> set xs. y \<le> fold max xs x)"
proof (induction xs arbitrary: x)
  case (Cons a xs)
  from Cons.IH [of "max a x"] show ?case by auto
qed simp

lemma distance_sym: "distance_to a b = distance_to b a"
  by (simp add: distance_to_def power2_commute)

lemma min_list_mem:
  "min_list_of xs = Inr m \<Longrightarrow> m \<in> set xs \<and> (\<forall>x \<in> set xs. m \<le> x)"
proof -
  assume m: "min_list_of xs = Inr m"
  then obtain y ys where xs: "xs = y # ys" and "m = fold min ys y"
    by (cases xs) (auto simp: min_list_of_def)
  moreover have "fold min ys y \<in> insert y (set ys)"
    by (induction ys arbitrary: y) (auto simp: min_def)
  ultimately show ?thesis using fold_min_le [of ys y] by auto
qed

lemma min_list_cong: "set xs = set ys \<Longrightarrow> min_list_of xs = Inr m \<Longrightarrow> min_list_of ys = Inr m"
proof -
  assume s: "set xs = set ys" and m: "min_list_of xs = Inr m"
  from m have "ys \<noteq> []" using s by (cases xs) (auto simp: min_list_of_def)
  then obtain n where n: "min_list_of ys = Inr n" by (cases ys) (auto simp: min_list_of_def)
  with min_list_mem [OF m] min_list_mem [OF n] s show ?thesis by (auto intro: antisym)
qed

text \<open>
  The box around a set of entities contains the box of every one of them and touches one of
  them on each of its four sides, so it is the smallest such box.
\<close>

theorem set_box_is_hull:
  assumes "entity_set_bounding_box t es = Inr box"
  shows "\<exists>bs. traverse (entity_bounding_box t) es = Inr bs \<and>
    (\<forall>b \<in> set bs. bb_min_x box \<le> bb_min_x b \<and> bb_min_y box \<le> bb_min_y b \<and>
        bb_max_x b \<le> bb_max_x box \<and> bb_max_y b \<le> bb_max_y box) \<and>
    bb_min_x box \<in> bb_min_x ` set bs \<and> bb_min_y box \<in> bb_min_y ` set bs \<and>
    bb_max_x box \<in> bb_max_x ` set bs \<and> bb_max_y box \<in> bb_max_y ` set bs"
proof -
  from assms obtain bs where bs: "traverse (entity_bounding_box t) es = Inr bs"
    and box: "box = join_boxes (hd bs) (tl bs)" and "es \<noteq> []"
    by (auto simp: entity_set_bounding_box_def bindR_Inr_iff split: if_splits)
  then have "bs \<noteq> []" by (auto simp: traverse_Inr_iff)
  then obtain c cs where c: "bs = c # cs" by (cases bs) auto
  have min_in: "fold min (map f cs) (f c) \<in> f ` set bs" for f :: "bounding_box \<Rightarrow> real"
  proof -
    have "min_list_of (map f bs) = Inr (fold min (map f cs) (f c))" by (simp add: c min_list_of_def)
    from min_list_mem [OF this] show ?thesis by auto
  qed
  have max_in: "fold max (map f cs) (f c) \<in> f ` set bs" for f :: "bounding_box \<Rightarrow> real"
  proof -
    have "fold max xs x \<in> insert x (set xs)" for x :: real and xs
      by (induction xs arbitrary: x) (auto simp: max_def)
    from this [of "map f cs" "f c"] show ?thesis by (auto simp: c)
  qed
  have low: "fold min (map f cs) (f c) \<le> f b" if "b \<in> set bs" for f :: "bounding_box \<Rightarrow> real" and b
    using fold_min_le [of "map f cs" "f c"] that by (auto simp: c)
  have high: "f b \<le> fold max (map f cs) (f c)" if "b \<in> set bs" for f :: "bounding_box \<Rightarrow> real" and b
    using fold_max_ge [of "f c" "map f cs"] that by (auto simp: c)
  show ?thesis
    using low high min_in max_in by (intro exI [of _ bs]) (simp add: bs box join_boxes_def c)
qed

end
