(* ===== verification/AnnotationModel.thy ===== *)
theory AnnotationModel
  imports Measure CatalogRegistry "HOL-Library.Product_Lexorder"
begin

section \<open>Annotation: placement, measured geometry and title block\<close>

text \<open>
  Models \<open>annotation/placement.py\<close>, \<open>annotation/dimension_rules.py\<close> and \<open>annotation/title_block.py\<close>.
  The list \<open>occupied\<close> that \<open>place_text\<close> appends to is passed in and returned. The length of a text is
  its number of code points, the text being its UTF-8 bytes.
\<close>

subsection \<open>Text placement\<close>

record text_box =
  xb_min_x :: real
  xb_min_y :: real
  xb_max_x :: real
  xb_max_y :: real

definition box_area :: "text_box \<Rightarrow> real" where
  "box_area b = max 0 (xb_max_x b - xb_min_x b) * max 0 (xb_max_y b - xb_min_y b)"

definition box_translated :: "text_box \<Rightarrow> real \<Rightarrow> real \<Rightarrow> text_box" where
  "box_translated b dx dy =
     \<lparr>xb_min_x = xb_min_x b + dx, xb_min_y = xb_min_y b + dy, xb_max_x = xb_max_x b + dx, xb_max_y = xb_max_y b + dy\<rparr>"

definition box_list :: "text_box \<Rightarrow> pyval" where
  "box_list b = PList [num_val (xb_min_x b), num_val (xb_min_y b), num_val (xb_max_x b), num_val (xb_max_y b)]"

definition DEFAULT_OFFSETS_MM :: "(real \<times> real) list" where
  "DEFAULT_OFFSETS_MM = [(0, 0), (0, 5), (5, 0), (- 5, 0), (0, - 5), (10, 5), (- 10, 5)]"

text \<open>\<open>len(text)\<close>: the bytes that do not continue a code point.\<close>

definition code_points :: "string \<Rightarrow> nat" where
  "code_points s = length (filter (\<lambda>c. let n = (of_char c :: nat) in \<not> (128 \<le> n \<and> n < 192)) s)"

definition box_of_text :: "string \<Rightarrow> real \<times> real \<Rightarrow> real \<Rightarrow> text_box" where
  "box_of_text text anchor h =
     (let w = real (max 1 (code_points text)) * h * (6 / 10) in
      \<lparr>xb_min_x = fst anchor, xb_min_y = snd anchor, xb_max_x = fst anchor + w, xb_max_y = snd anchor + h\<rparr>)"

definition overlap_ratio :: "text_box \<Rightarrow> text_box \<Rightarrow> real" where
  "overlap_ratio a b =
     (let w = max 0 (min (xb_max_x a) (xb_max_x b) - max (xb_min_x a) (xb_min_x b));
          h = max 0 (min (xb_max_y a) (xb_max_y b) - max (xb_min_y a) (xb_min_y b));
          smaller = min (box_area a) (box_area b)
      in if smaller \<le> 0 then 0 else w * h / smaller)"

definition acceptable :: "real \<Rightarrow> text_box list \<Rightarrow> text_box \<Rightarrow> bool" where
  "acceptable limit occupied b \<longleftrightarrow> list_all (\<lambda>prior. overlap_ratio b prior \<le> limit) occupied"

text \<open>\<open>max(..., default=0.0)\<close>.\<close>

definition worst_overlap :: "text_box list \<Rightarrow> text_box \<Rightarrow> real" where
  "worst_overlap occupied b =
     (case map (overlap_ratio b) occupied of [] \<Rightarrow> 0 | r # rs \<Rightarrow> fold max rs r)"

text \<open>Python's \<open>min\<close> keeps the first of several minima.\<close>

fun first_min_on :: "('a \<Rightarrow> real) \<Rightarrow> 'a \<Rightarrow> 'a list \<Rightarrow> 'a" where
  "first_min_on key a [] = a"
| "first_min_on key a (b # bs) = first_min_on key (if key b < key a then b else a) bs"

record placed_text =
  pt_position :: "real \<times> real"
  pt_box :: text_box
  pt_warning :: "finding option"
  pt_occupied :: "text_box list"

definition overlap_warning :: "string \<Rightarrow> string \<Rightarrow> real \<Rightarrow> real \<Rightarrow> finding" where
  "overlap_warning fid oid limit worst =
     (finding_of ''ANNOTATION_OVERLAP'' WARNING ''No deterministic annotation position satisfies the overlap limit'')
     \<lparr>fi_feature_id := Some fid, fi_operation_id := Some oid,
      fi_expected := PDict [(''maximum_overlap_ratio'', num_val limit)],
      fi_actual := PDict [(''overlap_ratio'', num_val worst)], fi_tolerance := Some limit,
      fi_suggested_fix := Some ''Increase view spacing or edit annotation placement before release''\<rparr>"

text \<open>\<open>offsets\<close> is not empty: the caller falls back to the default offsets.\<close>

definition place_text ::
  "string \<Rightarrow> real \<times> real \<Rightarrow> real \<Rightarrow> text_box list \<Rightarrow> (real \<times> real) list \<Rightarrow> real \<Rightarrow> string \<Rightarrow> string \<Rightarrow> placed_text" where
  "place_text text anchor h occupied offsets limit fid oid =
     (let base = box_of_text text anchor h;
          candidates = map (\<lambda>(dx, dy). ((dx, dy), box_translated base dx dy)) offsets
      in case find (\<lambda>(_, b). acceptable limit occupied b) candidates of
           Some ((dx, dy), b) \<Rightarrow>
             \<lparr>pt_position = (fst anchor + dx, snd anchor + dy), pt_box = b, pt_warning = None,
              pt_occupied = occupied @ [b]\<rparr>
         | None \<Rightarrow>
             (case first_min_on (\<lambda>c. worst_overlap occupied (snd c)) (hd candidates) (tl candidates) of
                ((dx, dy), b) \<Rightarrow>
                  \<lparr>pt_position = (fst anchor + dx, snd anchor + dy), pt_box = b,
                   pt_warning = Some (overlap_warning fid oid limit (worst_overlap occupied b)),
                   pt_occupied = occupied\<rparr>))"

subsection \<open>Measured geometry\<close>

record hole =
  ho_feature_id :: string
  ho_source_operation_id :: string
  ho_center :: point2d
  ho_diameter_mm :: real

record hole_group =
  hg_diameter_mm :: real
  hg_holes :: "hole list"

record geometry_measurements =
  gm_min_x :: real
  gm_min_y :: real
  gm_max_x :: real
  gm_max_y :: real
  gm_hole_groups :: "hole_group list"

definition gm_width_mm :: "geometry_measurements \<Rightarrow> real" where
  "gm_width_mm m = gm_max_x m - gm_min_x m"

definition gm_height_mm :: "geometry_measurements \<Rightarrow> real" where
  "gm_height_mm m = gm_max_y m - gm_min_y m"

definition geometry_item :: "pydict \<Rightarrow> string \<Rightarrow> pyval res" where
  "geometry_item g key = (case map_of g key of Some v \<Rightarrow> Inr v | None \<Rightarrow> Inl (KeyError key))"

definition items_of :: "pyval \<Rightarrow> pyval list res" where
  "items_of v = (case v of PList xs \<Rightarrow> Inr xs | _ \<Rightarrow> Inl (TypeError ''object is not iterable''))"

text \<open>
  \<open>_entities\<close>. The second argument of \<open>Circle2D\<close> is a diameter; a single circle is measured
  with half of its own.
\<close>

definition operation_entities :: "(string \<Rightarrow> pyfloat option) \<Rightarrow> operation \<Rightarrow> measurable list res" where
  "operation_entities pf op =
     (let g = op_geometry op in
      if op_type op = CREATE_POLYLINE \<or> op_type op = CREATE_CLOSED_POLYLINE
      then bindR (bindR (geometry_item g ''vertices_mm'') items_of) (\<lambda>vs.
           bindR (traverse (decode_vertex pf) vs) (\<lambda>ps.
           bindR (mk_polyline ps (op_type op = CREATE_CLOSED_POLYLINE)) (\<lambda>p. Inr [MPolyline p])))
      else if op_type op = CREATE_CIRCLES
      then bindR (bindR (geometry_item g ''diameter_mm'') (py_float pf)) (\<lambda>d.
           bindR (bindR (geometry_item g ''centers_mm'') items_of) (\<lambda>cs.
             traverse (\<lambda>c. bindR (decode_vertex pf c) (\<lambda>p. bindR (mk_circle p d) (\<lambda>k. Inr (MCircle k)))) cs))
      else if op_type op = CREATE_CIRCLE
      then bindR (geometry_item g ''center_mm'') (\<lambda>c.
           bindR (decode_vertex pf c) (\<lambda>p.
           bindR (bindR (geometry_item g ''diameter_mm'') (py_float pf)) (\<lambda>d.
           bindR (mk_circle p (case d of Fin r \<Rightarrow> Fin (r / 2) | x \<Rightarrow> x)) (\<lambda>k. Inr [MCircle k]))))
      else Inr [])"

definition is_hole_geometry :: "string \<Rightarrow> operation \<Rightarrow> bool" where
  "is_hole_geometry hole_layer op \<longleftrightarrow>
     op_type op = CREATE_CIRCLES \<or>
     (op_type op = CREATE_CIRCLE \<and> \<not> ends_with (op_id op) '':outer'' \<and>
      (op_layer op = hole_layer \<or> is_substring ''hole'' (op_id op) \<or> is_substring ''bore'' (op_id op)))"

definition operation_holes :: "(string \<Rightarrow> pyfloat option) \<Rightarrow> string \<Rightarrow> operation \<Rightarrow> hole list res" where
  "operation_holes pf hole_layer op =
     (if \<not> is_hole_geometry hole_layer op then Inr []
      else bindR (operation_entities pf op) (\<lambda>es.
        Inr (concat (map (\<lambda>e. case e of
            MCircle k \<Rightarrow> [\<lparr>ho_feature_id = op_feature_id op, ho_source_operation_id = op_id op,
              ho_center = center k, ho_diameter_mm = radius_mm k * 2\<rparr>]
          | _ \<Rightarrow> []) es))))"

text \<open>A hole joins the first group whose first hole has its diameter.\<close>

fun add_hole :: "tolerance_profile \<Rightarrow> hole \<Rightarrow> hole list list \<Rightarrow> hole list list" where
  "add_hole t h [] = [[h]]"
| "add_hole t h (g # gs) =
     (if length_close t (Fin (ho_diameter_mm (hd g))) (Fin (ho_diameter_mm h)) then (g @ [h]) # gs
      else g # add_hole t h gs)"

definition group_holes :: "tolerance_profile \<Rightarrow> hole list \<Rightarrow> hole_group list" where
  "group_holes t hs =
     map (\<lambda>g. \<lparr>hg_diameter_mm = ho_diameter_mm (hd g), hg_holes = g\<rparr>)
       (fold (add_hole t)
         (sort_key (\<lambda>h. (ho_diameter_mm h, px (ho_center h), py (ho_center h), ho_feature_id h)) hs) [])"

definition measure_geometry ::
  "(string \<Rightarrow> pyfloat option) \<Rightarrow> tolerance_profile \<Rightarrow> string \<Rightarrow> operation list \<Rightarrow> geometry_measurements res" where
  "measure_geometry pf t hole_layer ops =
     bindR (traverse (operation_entities pf) ops) (\<lambda>ess.
     bindR (entity_set_bounding_box t (concat ess)) (\<lambda>box.
     bindR (traverse (operation_holes pf hole_layer) ops) (\<lambda>hss.
       Inr \<lparr>gm_min_x = bb_min_x box, gm_min_y = bb_min_y box, gm_max_x = bb_max_x box, gm_max_y = bb_max_y box,
            gm_hole_groups = group_holes t (concat hss)\<rparr>)))"

definition aligned_hole_pairs :: "tolerance_profile \<Rightarrow> hole list \<Rightarrow> (hole \<times> hole) list" where
  "aligned_hole_pairs t hs =
     filter (\<lambda>(a, b). is_coincident t \<bar>px (ho_center a) - px (ho_center b)\<bar> \<or>
                      is_coincident t \<bar>py (ho_center a) - py (ho_center b)\<bar>) (combinations2 hs)"

subsection \<open>The title block\<close>

record title_block_result =
  tr_values :: "(string \<times> default_record) list"
  tr_missing_inputs :: "missing_input list"

definition title_block_record ::
  "string \<Rightarrow> string \<Rightarrow> string \<Rightarrow> string \<Rightarrow> string \<Rightarrow> default_record" where
  "title_block_record name v source version reason =
     \<lparr>dr_path = ''annotations.title_block_values.'' @ name, dr_value = PStr v, dr_source = source,
      dr_source_version = version, dr_reason = reason, dr_impact = ''Released drawing identification'',
      dr_override_allowed = True\<rparr>"

definition resolve_field ::
  "drawing_spec \<Rightarrow> company_profile \<Rightarrow> title_block_field \<Rightarrow> title_block_result \<Rightarrow> title_block_result" where
  "resolve_field spec p rule r =
     (let name = tb_name rule;
          explicit = (case map_of (an_title_block_values (sp_annotations spec)) name of
              Some v \<Rightarrow> strip v | None \<Rightarrow> []);
          declared = (case tb_value rule of Some v \<Rightarrow> strip v | None \<Rightarrow> [])
      in if explicit \<noteq> []
         then r\<lparr>tr_values := dset (tr_values r) name (title_block_record name explicit ''drawing-spec''
                (sp_schema_version spec) ''Explicit title-block value supplied by the caller'')\<rparr>
         else if declared \<noteq> []
         then r\<lparr>tr_values := dset (tr_values r) name (title_block_record name declared (pf_profile_id p)
                (pf_version p) ''Title-block value declared by the selected company profile'')\<rparr>
         else if tb_required rule
         then r\<lparr>tr_missing_inputs := tr_missing_inputs r @
                [\<lparr>mi_path = ''annotations.title_block_values.'' @ name,
                  mi_reason = ''Required title-block field '' @ quoted name @ '' has no non-blank value'',
                  mi_accepted_formats = [''non-empty string'']\<rparr>]\<rparr>
         else r)"

definition resolve_title_block :: "drawing_spec \<Rightarrow> company_profile \<Rightarrow> title_block_result" where
  "resolve_title_block spec p =
     fold (resolve_field spec p) (pf_title_block_fields p) \<lparr>tr_values = [], tr_missing_inputs = []\<rparr>"

end
