(* ===== verification/AnnotationEngine.thy ===== *)
theory AnnotationEngine
  imports AnnotationModel
begin

section \<open>The annotation engine\<close>

text \<open>
  Models \<open>annotation/engine.py\<close>. The engine's result and its list of occupied boxes are the state
  \<open>annotation_state\<close>; a missing piece of configuration is an error. A GD&T position is read as a
  pair of finite numbers: any other one is rejected here with the error the canonical form of the
  plan gives for it.
\<close>

record annotation_result =
  nr_operations :: "operation list"
  nr_expectations :: "validation_expectation list"
  nr_defaults_applied :: "default_record list"
  nr_missing_inputs :: "missing_input list"
  nr_findings :: "finding list"

record annotation_state = annotation_result +
  nr_occupied :: "text_box list"

definition empty_annotation :: annotation_result where
  "empty_annotation = \<lparr>nr_operations = [], nr_expectations = [], nr_defaults_applied = [],
     nr_missing_inputs = [], nr_findings = []\<rparr>"

definition empty_annotation_state :: annotation_state where
  "empty_annotation_state = \<lparr>nr_operations = [], nr_expectations = [], nr_defaults_applied = [],
     nr_missing_inputs = [], nr_findings = [], nr_occupied = []\<rparr>"

definition annotation_result_of :: "annotation_state \<Rightarrow> annotation_result" where
  "annotation_result_of s = \<lparr>nr_operations = nr_operations s, nr_expectations = nr_expectations s,
     nr_defaults_applied = nr_defaults_applied s, nr_missing_inputs = nr_missing_inputs s,
     nr_findings = nr_findings s\<rparr>"

subsection \<open>Numbers and configuration\<close>

text \<open>\<open>f"{value:.6f}".rstrip("0").rstrip(".")\<close>.\<close>

definition number_text :: "real \<Rightarrow> string" where
  "number_text v =
     (let n = nat (round_half_even (\<bar>v\<bar> * 1000000));
          fraction = rev (dropWhile (\<lambda>c. c = CHR ''0'') (rev (pad 6 (int (n mod 1000000)))))
      in (if v < 0 then ''-'' else '''') @ show_nat (n div 1000000) @
         (if fraction = [] then [] else CHR ''.'' # fraction))"

text \<open>The diameter and times signs in UTF-8.\<close>

definition DIAMETER_SIGN :: string where
  "DIAMETER_SIGN = [CHR 0xC3, CHR 0x98]"

definition TIMES_SIGN :: string where
  "TIMES_SIGN = [CHR 0xC3, CHR 0x97]"

definition required_setting :: "string \<Rightarrow> ('a \<Rightarrow> bool) \<Rightarrow> 'a option \<Rightarrow> 'a res" where
  "required_setting key blank v =
     (case v of
        Some x \<Rightarrow> if blank x then Inl (Err StandardProfileNotFoundError
            (''Standard profile is missing required annotation configuration '' @ quoted key)) else Inr x
      | None \<Rightarrow> Inl (Err StandardProfileNotFoundError
            (''Standard profile is missing required annotation configuration '' @ quoted key)))"

definition has_non_dimension_annotations :: "drawing_spec \<Rightarrow> bool" where
  "has_non_dimension_annotations spec \<longleftrightarrow>
     (let an = sp_annotations spec in
      (case an_title_block an of None \<Rightarrow> False | Some b \<Rightarrow> b \<noteq> []) \<or> an_datum_symbols an \<noteq> [] \<or>
      an_feature_control_frames an \<noteq> [])"

text \<open>What every annotation of one drawing shares.\<close>

record annotation_styles =
  ns_profile :: company_profile
  ns_dimstyle :: string
  ns_textstyle :: string
  ns_text_height :: real

subsection \<open>Emitting one annotation\<close>

definition place ::
  "annotation_styles \<Rightarrow> string \<Rightarrow> real \<times> real \<Rightarrow> string \<Rightarrow> string \<Rightarrow> annotation_state \<Rightarrow> placed_text" where
  "place ns text anchor fid oid s =
     (let ar = pf_annotation_rules (ns_profile ns);
          offsets = (if ar_placement_offsets_mm ar = [] then DEFAULT_OFFSETS_MM else ar_placement_offsets_mm ar);
          limit = (case ar_maximum_text_overlap_ratio ar of None \<Rightarrow> 1 / 10 | Some r \<Rightarrow> r)
      in place_text text anchor (ns_text_height ns) (nr_occupied s) offsets limit fid oid)"

definition pair_val :: "real \<times> real \<Rightarrow> pyval" where
  "pair_val p = PList [num_val (fst p), num_val (snd p)]"

definition annotation_op ::
  "string \<Rightarrow> string \<Rightarrow> operation_type \<Rightarrow> string \<Rightarrow> pydict \<Rightarrow> pydict \<Rightarrow> operation" where
  "annotation_op suffix fid ty layer g e =
     \<lparr>op_id = ''op:annotation:'' @ suffix, op_feature_id = fid, op_type = ty, op_layer = layer,
      op_geometry = g, op_expected = e, op_target_entity_ref = None\<rparr>"

definition add_annotation ::
  "operation \<Rightarrow> validation_expectation list \<Rightarrow> placed_text \<Rightarrow> annotation_state \<Rightarrow> annotation_state" where
  "add_annotation op exps pt s =
     s\<lparr>nr_operations := nr_operations s @ [op], nr_expectations := nr_expectations s @ exps,
       nr_findings := nr_findings s @ (case pt_warning pt of None \<Rightarrow> [] | Some w \<Rightarrow> [w]),
       nr_occupied := pt_occupied pt\<rparr>"

definition text_expectation :: "string \<Rightarrow> string \<Rightarrow> real \<Rightarrow> validation_expectation" where
  "text_expectation fid oid v =
     mk_expectation ''DIMENSION_TEXT_MATCHES_GEOMETRY'' fid (Some oid)
       [(''measurement_mm'', num_val v), (''text_value_mm'', num_val v)]"

definition emit_dimension ::
  "annotation_styles \<Rightarrow> string \<Rightarrow> string \<Rightarrow> string \<Rightarrow> real \<Rightarrow> real \<times> real \<Rightarrow> real \<times> real \<Rightarrow> real \<times> real \<Rightarrow> string \<Rightarrow>
   annotation_state \<Rightarrow> annotation_state" where
  "emit_dimension ns layer suffix fid v start finish anchor kind s =
     (let oid = ''op:annotation:'' @ suffix; text = number_text v; pt = place ns text anchor fid oid s in
      add_annotation
        (annotation_op suffix fid CREATE_LINEAR_DIMENSION layer
          [(''start_mm'', pair_val start), (''end_mm'', pair_val finish),
           (''text_position_mm'', pair_val (pt_position pt)), (''measurement_mm'', num_val v),
           (''text_value'', PStr text), (''dimstyle'', PStr (ns_dimstyle ns)), (''textstyle'', PStr (ns_textstyle ns)),
           (''text_height_mm'', num_val (ns_text_height ns)), (''text_bbox_mm'', box_list (pt_box pt)),
           (''annotation_kind'', PStr kind)]
          [(''measurement_mm'', num_val v), (''text_value_mm'', num_val v)])
        [text_expectation fid oid v] pt s)"

definition emit_diameter ::
  "annotation_styles \<Rightarrow> string \<Rightarrow> nat \<Rightarrow> hole \<Rightarrow> real \<Rightarrow> annotation_state \<Rightarrow> annotation_state" where
  "emit_diameter ns layer index h v s =
     (let suffix = ''hole-diameter-'' @ show_nat index; oid = ''op:annotation:'' @ suffix;
          fid = ho_feature_id h; text = DIAMETER_SIGN @ number_text v; c = (px (ho_center h), py (ho_center h));
          pt = place ns text c fid oid s in
      add_annotation
        (annotation_op suffix fid CREATE_DIAMETER_DIMENSION layer
          [(''center_mm'', pair_val c), (''text_position_mm'', pair_val (pt_position pt)),
           (''measurement_mm'', num_val v), (''text_value'', PStr text), (''dimstyle'', PStr (ns_dimstyle ns)),
           (''textstyle'', PStr (ns_textstyle ns)), (''text_height_mm'', num_val (ns_text_height ns)),
           (''text_bbox_mm'', box_list (pt_box pt)), (''annotation_kind'', PStr ''hole_diameter'')]
          [(''measurement_mm'', num_val v), (''text_value_mm'', num_val v)])
        [text_expectation fid oid v] pt s)"

definition emit_text ::
  "annotation_styles \<Rightarrow> string \<Rightarrow> string \<Rightarrow> string \<Rightarrow> string \<Rightarrow> real \<times> real \<Rightarrow> string \<Rightarrow> pydict \<Rightarrow>
   annotation_state \<Rightarrow> annotation_state" where
  "emit_text ns layer suffix fid text anchor kind extra s =
     (let pt = place ns text anchor fid (''op:annotation:'' @ suffix) s in
      add_annotation
        (annotation_op suffix fid CREATE_TEXT layer
          ([(''position_mm'', pair_val (pt_position pt)), (''text'', PStr text), (''textstyle'', PStr (ns_textstyle ns)),
            (''text_height_mm'', num_val (ns_text_height ns)), (''text_bbox_mm'', box_list (pt_box pt)),
            (''annotation_kind'', PStr kind)] @ extra)
          [(''text'', PStr text)])
        [] pt s)"

subsection \<open>Dimensions\<close>

definition location_dimensions ::
  "annotation_styles \<Rightarrow> string \<Rightarrow> point2d \<Rightarrow> nat \<Rightarrow> nat \<Rightarrow> hole \<Rightarrow> annotation_state \<Rightarrow> annotation_state" where
  "location_dimensions ns layer datum gi hi h s =
     (let c = ho_center h; anchor = (px c, py c); prefix = ''hole-'' @ show_nat gi @ ''-'' @ show_nat hi in
      emit_dimension ns layer (prefix @ ''-y'') (ho_feature_id h) \<bar>py c - py datum\<bar> (px datum, py datum)
        (px datum, py c) anchor ''hole_location_y''
      (emit_dimension ns layer (prefix @ ''-x'') (ho_feature_id h) \<bar>px c - px datum\<bar> (px datum, py datum)
        (px c, py datum) anchor ''hole_location_x'' s))"

definition group_dimensions ::
  "annotation_styles \<Rightarrow> string \<Rightarrow> point2d option \<Rightarrow> int \<Rightarrow> nat \<Rightarrow> hole_group \<Rightarrow> annotation_state \<Rightarrow> annotation_state" where
  "group_dimensions ns layer datum threshold gi g s =
     (let first = hd (hg_holes g); num = length (hg_holes g); d = hg_diameter_mm g;
          s1 = (if threshold \<le> int num
            then emit_text ns layer (''hole-callout-'' @ show_nat gi) (ho_feature_id first)
              (show_nat num @ '' '' @ TIMES_SIGN @ '' '' @ DIAMETER_SIGN @ number_text d)
              (px (ho_center first), py (ho_center first)) ''hole_callout''
              [(''diameter_mm'', num_val d), (''count'', PInt (int num))] s
            else emit_diameter ns layer gi first d s)
      in case datum of
           None \<Rightarrow> s1\<lparr>nr_missing_inputs := nr_missing_inputs s1 @
             [\<lparr>mi_path = ''drawing.datum'', mi_reason = ''A datum is required for hole location dimensions'',
               mi_accepted_formats = [''point_mm'', ''resolved named datum'']\<rparr>]\<rparr>
         | Some p \<Rightarrow>
             fold (\<lambda>hi. location_dimensions ns layer p gi hi (hg_holes g ! hi)) [0..<num] s1)"

definition dimensions ::
  "annotation_styles \<Rightarrow> geometry_measurements \<Rightarrow> point2d option \<Rightarrow> annotation_state \<Rightarrow> annotation_state res" where
  "dimensions ns m datum s =
     bindR (layer_for (ns_profile ns) ''dimension'') (\<lambda>layer.
       let x0 = gm_min_x m; y0 = gm_min_y m;
           s1 = emit_dimension ns layer ''overall-width'' ''annotation:overall'' (gm_width_mm m) (x0, y0)
             (gm_max_x m, y0) (x0, y0 - 8) ''linear_dimension'' s;
           s2 = emit_dimension ns layer ''overall-height'' ''annotation:overall'' (gm_height_mm m) (x0, y0)
             (x0, gm_max_y m) (x0 - 8, y0) ''linear_dimension'' s1
       in bindR (required_setting ''annotation_rules.hole_callout_min_count'' (\<lambda>_. False)
            (ar_hole_callout_min_count (pf_annotation_rules (ns_profile ns)))) (\<lambda>threshold.
         Inr (fold (\<lambda>gi. group_dimensions ns layer datum threshold gi (gm_hole_groups m ! gi))
           [0..<length (gm_hole_groups m)] s2)))"

subsection \<open>Centres, hole table, title block and GD&T\<close>

definition add_operation :: "operation \<Rightarrow> annotation_state \<Rightarrow> annotation_state" where
  "add_operation op s = s\<lparr>nr_operations := nr_operations s @ [op]\<rparr>"

definition centermark_op :: "string \<Rightarrow> nat \<Rightarrow> hole \<Rightarrow> operation" where
  "centermark_op layer i h =
     annotation_op (''centermark-'' @ show_nat i) (ho_feature_id h) CREATE_CENTERMARK layer
       [(''center_mm'', point_val (ho_center h))] [(''center_mm'', point_val (ho_center h))]"

definition centerline_op :: "string \<Rightarrow> nat \<Rightarrow> hole \<times> hole \<Rightarrow> operation" where
  "centerline_op layer i p =
     annotation_op (''centerline-'' @ show_nat i) (''annotation:centerline:'' @ ho_feature_id (fst p))
       CREATE_CENTERLINE layer
       [(''start_mm'', point_val (ho_center (fst p))), (''end_mm'', point_val (ho_center (snd p)))]
       [(''coaxial'', PBool True)]"

definition centers ::
  "annotation_styles \<Rightarrow> tolerance_profile \<Rightarrow> geometry_measurements \<Rightarrow> annotation_state \<Rightarrow> annotation_state res" where
  "centers ns t m s =
     bindR (layer_for (ns_profile ns) ''centermark'') (\<lambda>center_layer.
     bindR (layer_for (ns_profile ns) ''centerline'') (\<lambda>line_layer.
       let hs = concat (map hg_holes (gm_hole_groups m)); ps = aligned_hole_pairs t hs;
           s1 = fold (\<lambda>i. add_operation (centermark_op center_layer i (hs ! i))) [0..<length hs] s
       in Inr (fold (\<lambda>i. add_operation (centerline_op line_layer i (ps ! i))) [0..<length ps] s1)))"

text \<open>\<open>chr(ord("A") + index)\<close> as UTF-8, for the code points below \<open>U+0800\<close>.\<close>

definition utf8_char :: "nat \<Rightarrow> string" where
  "utf8_char n = (if n < 128 then [char_of n] else [char_of (192 + n div 64), char_of (128 + n mod 64)])"

definition hole_table_row ::
  "annotation_styles \<Rightarrow> geometry_measurements \<Rightarrow> nat \<Rightarrow> annotation_state \<Rightarrow> annotation_state res" where
  "hole_table_row ns m i s =
     bindR (layer_for (ns_profile ns) ''text'') (\<lambda>layer.
       let g = gm_hole_groups m ! i; symbol = utf8_char (65 + i); num = length (hg_holes g); d = hg_diameter_mm g in
       Inr (emit_text ns layer (''hole-table-'' @ show_nat i) ''annotation:hole-table''
         (symbol @ '' | '' @ show_nat num @ '' | '' @ DIAMETER_SIGN @ number_text d)
         (gm_max_x m + 15, gm_max_y m - real i * ns_text_height ns * (3 / 2)) ''hole_table_row''
         [(''symbol'', PStr symbol), (''count'', PInt (int num)), (''diameter_mm'', num_val d)] s))"

definition hole_table ::
  "annotation_styles \<Rightarrow> geometry_measurements \<Rightarrow> annotation_state \<Rightarrow> annotation_state res" where
  "hole_table ns m s =
     (if ar_hole_table (pf_annotation_rules (ns_profile ns)) = Some True
      then fold_res (hole_table_row ns m) [0..<length (gm_hole_groups m)] s
      else Inr s)"

definition title_block_field_text ::
  "annotation_styles \<Rightarrow> (string \<times> default_record) list \<Rightarrow> nat \<Rightarrow> annotation_state \<Rightarrow> annotation_state res" where
  "title_block_field_text ns values i s =
     (case values ! i of (name, r) \<Rightarrow>
        bindR (layer_for (ns_profile ns) ''text'') (\<lambda>layer.
          Inr (emit_text ns layer (''title-block-'' @ name) ''annotation:title-block''
            (name @ '': '' @ str_of (dr_value r)) (0, - 30 - real i * ns_text_height ns * (3 / 2)) ''title_block_field''
            [(''field_name'', PStr name), (''source'', PStr (dr_source r)), (''source_version'', PStr (dr_source_version r))]
            (s\<lparr>nr_defaults_applied := nr_defaults_applied s @ [r]\<rparr>))))"

definition title_block :: "annotation_styles \<Rightarrow> drawing_spec \<Rightarrow> annotation_state \<Rightarrow> annotation_state res" where
  "title_block ns spec s =
     (if an_title_block (sp_annotations spec) = None then Inr s
      else let resolved = resolve_title_block spec (ns_profile ns);
               s1 = s\<lparr>nr_missing_inputs := nr_missing_inputs s @ tr_missing_inputs resolved\<rparr>
           in fold_res (title_block_field_text ns (tr_values resolved)) [0..<length (tr_values resolved)] s1)"

definition finite_anchor :: "pyfloat \<times> pyfloat \<Rightarrow> (real \<times> real) res" where
  "finite_anchor p =
     (case p of
        (Fin x, Fin y) \<Rightarrow> Inr (x, y)
      | _ \<Rightarrow> Inl (ValueError ''Non-finite float cannot be canonicalized''))"

definition gdt_symbol ::
  "annotation_styles \<Rightarrow> string \<Rightarrow> datum_feature_symbol \<Rightarrow> annotation_state \<Rightarrow> annotation_state res" where
  "gdt_symbol ns layer d s =
     bindR (finite_anchor (dfs_position_mm d)) (\<lambda>anchor.
       Inr (emit_text ns layer (''gdt-datum-'' @ dfs_identifier d) (dfs_feature_id d)
         (''['' @ dfs_identifier d @ '']'') anchor ''gdt_datum_symbol''
         [(''datum_identifier'', PStr (dfs_identifier d))] s))"

definition gdt_frame ::
  "annotation_styles \<Rightarrow> string \<Rightarrow> feature_control_frame \<Rightarrow> annotation_state \<Rightarrow> annotation_state res" where
  "gdt_frame ns layer f s =
     bindR (finite_anchor (fcf_position_mm f)) (\<lambda>anchor.
       Inr (emit_text ns layer (''gdt-frame-'' @ fcf_frame_id f) (fcf_feature_id f)
         (join '' | '' ([fcf_characteristic f, fcf_tolerance_text f] @ fcf_datum_references f)) anchor
         ''gdt_feature_control_frame''
         [(''frame_id'', PStr (fcf_frame_id f)),
          (''datum_references'', PList (map PStr (fcf_datum_references f))),
          (''certifies_tolerance_chain'', PBool False)] s))"

definition gdt :: "annotation_styles \<Rightarrow> drawing_spec \<Rightarrow> annotation_state \<Rightarrow> annotation_state res" where
  "gdt ns spec s =
     bindR (layer_for (ns_profile ns) ''text'') (\<lambda>layer.
     bindR (fold_res (gdt_symbol ns layer) (an_datum_symbols (sp_annotations spec)) s)
       (fold_res (gdt_frame ns layer) (an_feature_control_frames (sp_annotations spec))))"

subsection \<open>The engine\<close>

definition annotate_geometry ::
  "(string \<Rightarrow> pyfloat option) \<Rightarrow> tolerance_profile \<Rightarrow> annotation_styles \<Rightarrow> operation list \<Rightarrow> point2d option \<Rightarrow>
   annotation_state \<Rightarrow> annotation_state res" where
  "annotate_geometry pf t ns ops datum s =
     bindR (layer_for (ns_profile ns) ''hole'') (\<lambda>hole_layer.
     bindR (measure_geometry pf t hole_layer ops) (\<lambda>m.
     bindR (dimensions ns m datum s) (\<lambda>s1.
     bindR (centers ns t m s1) (\<lambda>s2.
       hole_table ns m s2))))"

definition annotate ::
  "(string \<Rightarrow> pyfloat option) \<Rightarrow> company_profile \<Rightarrow> tolerance_profile \<Rightarrow> operation list \<Rightarrow> drawing_spec \<Rightarrow>
   point2d option \<Rightarrow> annotation_result res" where
  "annotate pf p t ops spec datum =
     (let wanted = an_dimensions (sp_annotations spec) \<noteq> NO_DIMENSIONS in
      if \<not> wanted \<and> \<not> has_non_dimension_annotations spec then Inr empty_annotation
      else bindR (required_setting ''text_style'' (\<lambda>v. v = []) (pf_text_style p)) (\<lambda>text_style.
        bindR (required_setting ''annotation_rules.text_height_mm'' (\<lambda>_. False)
            (ar_text_height_mm (pf_annotation_rules p))) (\<lambda>height.
        bindR (if wanted \<and> ops \<noteq> []
            then bindR (required_setting ''dimension_style'' (\<lambda>v. v = []) (pf_dimension_style p)) (\<lambda>style.
              annotate_geometry pf t
                \<lparr>ns_profile = p, ns_dimstyle = style, ns_textstyle = text_style, ns_text_height = height\<rparr>
                ops datum empty_annotation_state)
            else Inr empty_annotation_state) (\<lambda>s.
        let ns = \<lparr>ns_profile = p, ns_dimstyle = [], ns_textstyle = text_style, ns_text_height = height\<rparr> in
        bindR (title_block ns spec s) (\<lambda>s1.
        bindR (gdt ns spec s1) (\<lambda>s2. Inr (annotation_result_of s2)))))))"

end
