(* ===== verification/PlanCompiler.thy ===== *)
theory PlanCompiler
  imports CatalogGuarantees AnnotationEngine AdapterModel
begin

section \<open>From a drawing specification to an operation plan\<close>

text \<open>
  Models \<open>feature_catalog/views.py\<close> and \<open>application/services/plan_compiler.py\<close>. The plan's fresh
  identifier, the hash function, the reading of a float from a string and the raster trace service
  (its two contract models and \<open>draft_operations\<close>) are the environment.
\<close>

subsection \<open>Linked views\<close>

definition SUPPORTED_VIEW_TYPES :: "string list" where
  "SUPPORTED_VIEW_TYPES = [''top'', ''front'', ''side'', ''section'']"

definition view_origin :: "string \<Rightarrow> real \<Rightarrow> real \<times> real" where
  "view_origin ty spacing =
     (if ty = ''top'' then (0, 0) else if ty = ''front'' then (0, - spacing)
      else if ty = ''side'' then (spacing, 0) else (spacing * 2, 0))"

definition float_plus :: "pyfloat \<Rightarrow> real \<Rightarrow> pyfloat" where
  "float_plus x d = (case x of Fin r \<Rightarrow> Fin (r + d) | _ \<Rightarrow> x)"

definition translate_point :: "(string \<Rightarrow> pyfloat option) \<Rightarrow> real \<Rightarrow> real \<Rightarrow> pyval \<Rightarrow> pyval res" where
  "translate_point pf dx dy v =
     (case v of
        PList (x # y # _) \<Rightarrow>
          bindR (py_float pf x) (\<lambda>a. bindR (py_float pf y) (\<lambda>b.
            Inr (PList [PFloat (float_plus a dx), PFloat (float_plus b dy)])))
      | PList _ \<Rightarrow> Inl (IndexError ''list index out of range'')
      | _ \<Rightarrow> Inl (TypeError ''object is not subscriptable''))"

definition translate_single ::
  "(string \<Rightarrow> pyfloat option) \<Rightarrow> real \<Rightarrow> real \<Rightarrow> string \<Rightarrow> pydict \<Rightarrow> pydict res" where
  "translate_single pf dx dy key d =
     (case map_of d key of
        Some (PList [x, y]) \<Rightarrow> bindR (translate_point pf dx dy (PList [x, y])) (\<lambda>v. Inr (dset d key v))
      | _ \<Rightarrow> Inr d)"

definition translate_many ::
  "(string \<Rightarrow> pyfloat option) \<Rightarrow> real \<Rightarrow> real \<Rightarrow> string \<Rightarrow> pydict \<Rightarrow> pydict res" where
  "translate_many pf dx dy key d =
     (case map_of d key of
        Some (PList vs) \<Rightarrow> bindR (traverse (translate_point pf dx dy) vs) (\<lambda>ws. Inr (dset d key (PList ws)))
      | _ \<Rightarrow> Inr d)"

definition translate_geometry ::
  "(string \<Rightarrow> pyfloat option) \<Rightarrow> pydict \<Rightarrow> real \<Rightarrow> real \<Rightarrow> pydict res" where
  "translate_geometry pf g dx dy =
     bindR (fold_res (translate_single pf dx dy)
         [''center_mm'', ''start_mm'', ''end_mm'', ''position_mm'', ''text_position_mm''] g)
       (fold_res (translate_many pf dx dy) [''centers_mm'', ''vertices_mm''])"

definition remove_prefix :: "string \<Rightarrow> string \<Rightarrow> string" where
  "remove_prefix s p = (if starts_with s p then drop (length p) s else s)"

definition view_feature_id :: "string \<Rightarrow> string \<Rightarrow> string" where
  "view_feature_id base_feature_id view_type =
     ''feature:'' @ takeWhile (\<lambda>c. c \<noteq> CHR ''@'') (remove_prefix base_feature_id ''feature:'') @ ''@'' @ view_type"

text \<open>\<open>operation_id.rsplit(":", 1)[-1]\<close>.\<close>

definition last_part :: "string \<Rightarrow> string" where
  "last_part s = rev (takeWhile (\<lambda>c. c \<noteq> CHR '':'') (rev s))"

definition place_operation ::
  "(string \<Rightarrow> pyfloat option) \<Rightarrow> string \<Rightarrow> real \<times> real \<Rightarrow> operation \<Rightarrow> operation res" where
  "place_operation pf view_type origin op =
     (case origin of (dx, dy) \<Rightarrow>
        let fid = view_feature_id (op_feature_id op) view_type in
        bindR (translate_geometry pf (op_geometry op) dx dy) (\<lambda>g.
          Inr (op\<lparr>op_id := operation_id fid (last_part (op_id op)), op_feature_id := fid,
            op_geometry := dset (dset (dset g ''view_type'' (PStr view_type))
              ''view_origin_mm'' (PList [num_val dx, num_val dy])) ''base_feature_id'' (PStr (op_feature_id op))\<rparr>)))"

definition place_views ::
  "(string \<Rightarrow> pyfloat option) \<Rightarrow> operation list \<Rightarrow> view_spec list \<Rightarrow> company_profile \<Rightarrow> operation list res" where
  "place_views pf ops views p =
     (case find (\<lambda>v. vw_type v \<notin> set SUPPORTED_VIEW_TYPES) views of
        Some v \<Rightarrow> Inl (Err UnsupportedFeatureError (''Unsupported drawing view type '' @ quoted (vw_type v)))
      | None \<Rightarrow>
          (case ly_view_spacing_mm (pf_layout_rules p) of
             None \<Rightarrow> Inl (Err StandardProfileNotFoundError ''Standard profile does not declare multi-view spacing'')
           | Some spacing \<Rightarrow>
               bindR (traverse (\<lambda>v. traverse (place_operation pf (vw_type v) (view_origin (vw_type v) spacing)) ops) views)
                 (\<lambda>placed. Inr (concat placed))))"

subsection \<open>The environment\<close>

record raster_service =
  ra_contracts_valid :: "pydict \<Rightarrow> pydict \<Rightarrow> bool"
  ra_draft_operations :: "pydict \<Rightarrow> pydict \<Rightarrow> string \<Rightarrow> string \<Rightarrow> operation list res"

record plan_compiler =
  pc_profile :: company_profile
  pc_tolerance :: tolerance_profile
  pc_supported :: "operation_type list option"
  pc_raster :: "raster_service option"
  pc_float :: "string \<Rightarrow> pyfloat option"
  pc_sha :: "string \<Rightarrow> string"

definition RASTER_FEATURE :: string where
  "RASTER_FEATURE = ''_accepted_raster_trace''"

subsection \<open>Checks before compilation\<close>

definition resolve_datum :: "drawing_spec \<Rightarrow> point2d option res" where
  "resolve_datum spec =
     (case di_datum (sp_drawing spec) of
        None \<Rightarrow> Inr None
      | Some d \<Rightarrow>
          (case dt_point_mm d of
             None \<Rightarrow> Inr None
           | Some (x, y) \<Rightarrow> bindR (mk_point x y) (\<lambda>p. Inr (Some p))))"

definition parameter_number :: "pyval \<Rightarrow> pyfloat option" where
  "parameter_number v = (case v of PInt i \<Rightarrow> Some (Fin (of_int i)) | PFloat f \<Rightarrow> Some f | _ \<Rightarrow> None)"

definition parameter_point :: "pyval \<Rightarrow> point2d option res" where
  "parameter_point v =
     (case v of
        PList [x, y] \<Rightarrow>
          (case (parameter_number x, parameter_number y) of
             (Some a, Some b) \<Rightarrow> bindR (mk_point a b) (\<lambda>p. Inr (Some p))
           | _ \<Rightarrow> Inr None)
      | _ \<Rightarrow> Inr None)"

definition redundant_keyway ::
  "tolerance_profile \<Rightarrow> point2d \<Rightarrow> pyfloat \<Rightarrow> feature_spec \<Rightarrow> unit \<Rightarrow> unit res" where
  "redundant_keyway t flange_center bore keyway _ =
     bindR (parameter_point (pget (fs_parameters keyway) ''center_mm'')) (\<lambda>c.
       case (c, parameter_number (pget (fs_parameters keyway) ''bore_diameter_mm'')) of
         (Some keyway_center, Some keyway_bore) \<Rightarrow>
           if \<not> length_close t bore keyway_bore then Inr ()
           else if \<not> is_coincident t (distance_to flange_center keyway_center) then Inr ()
           else Inl (Err InvalidFeatureParametersError ''A standalone keyway duplicates this flange bore contour'')
       | _ \<Rightarrow> Inr ())"

definition reject_redundant_standalone_keyways :: "tolerance_profile \<Rightarrow> feature_spec list \<Rightarrow> unit res" where
  "reject_redundant_standalone_keyways t fs =
     fold_res (\<lambda>flange _.
         bindR (parameter_point (pget (fs_parameters flange) ''datum'')) (\<lambda>c.
           case (c, parameter_number (pget (fs_parameters flange) ''bore_diameter_mm'')) of
             (Some flange_center, Some bore) \<Rightarrow>
               fold_res (redundant_keyway t flange_center bore) (filter (\<lambda>f. fs_type f = ''keyway'') fs) ()
           | _ \<Rightarrow> Inr ()))
       (filter (\<lambda>f. fs_type f = ''flange'') fs) ()"

subsection \<open>Accepted raster traces\<close>

definition is_dict :: "pyval \<Rightarrow> bool" where
  "is_dict v = (case v of PDict _ \<Rightarrow> True | _ \<Rightarrow> False)"

definition dict_of :: "pyval \<Rightarrow> pydict" where
  "dict_of v = (case v of PDict d \<Rightarrow> d | _ \<Rightarrow> [])"

definition is_str :: "pyval \<Rightarrow> bool" where
  "is_str v = (case v of PStr _ \<Rightarrow> True | _ \<Rightarrow> False)"

definition validate_accepted_raster :: "plan_compiler \<Rightarrow> feature_spec \<Rightarrow> input_report" where
  "validate_accepted_raster pc f =
     (let d = fs_parameters f;
          r0 = require_param f (pc_raster pc \<noteq> None) ''raster_trace_service''
            ''This harness instance has no local raster acceptance verifier''
            [''configured local RasterTraceService''] empty_report;
          r1 = require_param f (is_dict (pget d ''report'')) ''report''
            ''The source-bound RasterTraceReport is required'' [''RasterTraceReport object''] r0;
          r2 = require_param f (is_dict (pget d ''acceptance'')) ''acceptance''
            (''The engineer'' @ [CHR 0x27] @ ''s source-bound acceptance is required'')
            [''RasterTraceAcceptance object''] r1;
          r3 = require_param f (is_str (pget d ''acceptance_token'')) ''acceptance_token''
            ''The signed raster acceptance token is required''
            [''raster-v1 token from the Engineer Desktop or CLI''] r2;
          r4 = require_param f (is_str (pget d ''layer'') \<and> strip (str_of (pget d ''layer'')) \<noteq> []) ''layer''
            ''The engineer must explicitly choose the target layer'' [''non-empty AutoCAD layer name''] r3
      in require_input (fs_children f = [] \<and> fs_modifiers f = []) (''features['' @ fs_feature_id f @ '']'')
           ''Accepted raster geometry cannot carry child features or outline modifiers''
           [''one flat source-bound raster feature''] r4)"

definition raster_assumption :: "feature_spec \<Rightarrow> assumption_record" where
  "raster_assumption f =
     \<lparr>as_path = ''features['' @ fs_feature_id f @ '']'',
      as_statement = ''Geometry was reconstructed from a calibrated raster and remains unverified until CAD readback and validation succeed'',
      as_affects_geometry = True, as_requires_approval = True\<rparr>"

definition compile_accepted_raster :: "plan_compiler \<Rightarrow> feature_spec \<Rightarrow> compiled_feature res" where
  "compile_accepted_raster pc f =
     (let d = fs_parameters f; report = dict_of (pget d ''report''); acceptance = dict_of (pget d ''acceptance'') in
      case pc_raster pc of
        None \<Rightarrow> Inl (Err InvalidFeatureParametersError ''Accepted raster draft is incomplete'')
      | Some service \<Rightarrow>
          if \<not> is_complete (validate_accepted_raster pc f)
          then Inl (Err InvalidFeatureParametersError ''Accepted raster draft is incomplete'')
          else if \<not> ra_contracts_valid service report acceptance
          then Inl (Err InvalidFeatureParametersError ''Accepted raster draft contracts are invalid'')
          else bindR (ra_draft_operations service report acceptance (str_of (pget d ''acceptance_token''))
              (str_of (pget d ''layer''))) (\<lambda>ops.
            Inr \<lparr>cf_feature_id = fs_feature_id f, cf_operations = ops, cf_expectations = [],
                 cf_defaults_applied = [], cf_assumptions = [raster_assumption f]\<rparr>))"

subsection \<open>Missing inputs over the feature tree\<close>

definition placeholder_outline :: polyline2d where
  "placeholder_outline = Polyline2D [Point2D 0 0, Point2D 1 0, Point2D 1 1, Point2D 0 1] True"

definition placeholder_context :: "compile_context \<Rightarrow> string \<Rightarrow> compile_context" where
  "placeholder_context cx fid =
     for_child cx fid \<lparr>bb_min_x = 0, bb_min_y = 0, bb_max_x = 1, bb_max_y = 1\<rparr> (Some placeholder_outline)"

definition validate_any :: "plan_compiler \<Rightarrow> compile_context \<Rightarrow> feature_spec \<Rightarrow> input_report res" where
  "validate_any pc cx f =
     (if fs_type f = RASTER_FEATURE then Inr (validate_accepted_raster pc f)
      else validate_feature (pc_float pc) cx f)"

function collect_missing ::
  "plan_compiler \<Rightarrow> compile_context \<Rightarrow> feature_spec \<Rightarrow> missing_input list res" where
  "collect_missing pc cx f =
     bindR (validate_any pc cx f) (\<lambda>report.
     bindR (traverse (\<lambda>c. collect_missing pc (placeholder_context cx (fs_feature_id f)) c) (fs_children f)) (\<lambda>ms.
       Inr (ir_missing report @ concat ms)))"
  by pat_completeness auto

termination
  by (relation "measure (\<lambda>(_, _, f). size f)") (simp_all add: child_smaller)

declare collect_missing.simps [simp del]

subsection \<open>Compilation\<close>

definition compile_any ::
  "plan_compiler \<Rightarrow> compile_context \<Rightarrow> feature_spec \<Rightarrow> compiled_feature res" where
  "compile_any pc cx f =
     (if fs_type f = RASTER_FEATURE then compile_accepted_raster pc f
      else compile_feature (pc_float pc) cx f)"

text \<open>Phase one: the geometry of every feature, in order.\<close>

definition compile_geometry ::
  "plan_compiler \<Rightarrow> compile_context \<Rightarrow> drawing_spec \<Rightarrow> compiled_feature res" where
  "compile_geometry pc cx spec =
     fold_res (\<lambda>f c. bindR (compile_any pc cx f) (\<lambda>compiled. Inr (merge_compiled c compiled))) (sp_features spec)
       \<lparr>cf_feature_id = [], cf_operations = [], cf_expectations = [],
        cf_defaults_applied = sp_explicit_defaults spec, cf_assumptions = sp_assumptions spec\<rparr>"

definition is_center_operation :: "operation \<Rightarrow> bool" where
  "is_center_operation op \<longleftrightarrow> op_type op = CREATE_CENTERMARK \<or> op_type op = CREATE_CENTERLINE"

definition final_geometry :: "plan_compiler \<Rightarrow> drawing_spec \<Rightarrow> operation list \<Rightarrow> operation list res" where
  "final_geometry pc spec ops =
     bindR (if di_views (sp_drawing spec) = [] then Inr ops
            else place_views (pc_float pc) ops (di_views (sp_drawing spec)) (pc_profile pc)) (\<lambda>placed.
       Inr (filter (\<lambda>op. \<not> is_center_operation op) placed))"

definition compiler_preflight :: "plan_compiler \<Rightarrow> operation_plan \<Rightarrow> unit res" where
  "compiler_preflight pc plan =
     (case pc_supported pc of
        None \<Rightarrow> Inr ()
      | Some supported \<Rightarrow>
          if unsupported_operations supported plan = [] then Inr ()
          else Inl (Err AdapterCapabilityMissingError
            ''The configured adapter cannot map every operation in the compiled plan''))"

definition build_plan ::
  "plan_compiler \<Rightarrow> drawing_spec \<Rightarrow> string \<Rightarrow> string \<Rightarrow> string \<Rightarrow> operation list \<Rightarrow> validation_expectation list \<Rightarrow>
   operation_plan res" where
  "build_plan pc spec jid revision pid ops exps =
     with_hash (pc_sha pc)
       \<lparr>pl_schema_version = SCHEMA_VERSION, pl_plan_id = pid, pl_job_id = jid, pl_document_id = sp_document_id spec,
        pl_expected_revision = revision, pl_canonical_units = MM, pl_profile_ref = as_ref (pc_profile pc),
        pl_operations = ops, pl_validation_expectations = exps, pl_plan_hash = None\<rparr>"

definition root_context :: "plan_compiler \<Rightarrow> point2d option \<Rightarrow> compile_context" where
  "root_context pc datum =
     \<lparr>cx_profile = pc_profile pc, cx_tolerance = pc_tolerance pc, cx_datum = datum, cx_parent_feature_id = None,
      cx_parent_box = None, cx_parent_outline = None, cx_source_model = None\<rparr>"

definition needs :: "missing_input list \<Rightarrow> default_record list \<Rightarrow> assumption_record list \<Rightarrow> compilation_result" where
  "needs missing defaults assumptions =
     \<lparr>co_plan = None, co_missing_inputs = missing, co_defaults_applied = defaults, co_assumptions = assumptions\<rparr>"

definition compile_plan ::
  "plan_compiler \<Rightarrow> drawing_spec \<Rightarrow> string \<Rightarrow> string \<Rightarrow> string \<Rightarrow> compilation_result res" where
  "compile_plan pc spec jid revision pid =
     bindR (resolve_datum spec) (\<lambda>datum.
     let cx = root_context pc datum in
     bindR (reject_redundant_standalone_keyways (pc_tolerance pc) (sp_features spec)) (\<lambda>_.
     bindR (traverse (collect_missing pc cx) (sp_features spec)) (\<lambda>missing.
     if concat missing \<noteq> []
     then Inr (needs (concat missing) (sp_explicit_defaults spec) (sp_assumptions spec))
     else bindR (compile_geometry pc cx spec) (\<lambda>c.
       bindR (final_geometry pc spec (cf_operations c)) (\<lambda>geometry.
       bindR (annotate (pc_float pc) (pc_profile pc) (pc_tolerance pc) geometry spec datum) (\<lambda>annotation.
       if nr_missing_inputs annotation \<noteq> []
       then Inr (needs (nr_missing_inputs annotation) (cf_defaults_applied c @ nr_defaults_applied annotation)
              (cf_assumptions c))
       else bindR (build_plan pc spec jid revision pid (geometry @ nr_operations annotation)
              (cf_expectations c @ nr_expectations annotation)) (\<lambda>plan.
         bindR (compiler_preflight pc plan) (\<lambda>_.
           Inr \<lparr>co_plan = Some plan, co_missing_inputs = [],
                co_defaults_applied = cf_defaults_applied c @ nr_defaults_applied annotation,
                co_assumptions = cf_assumptions c\<rparr>))))))))"

end
