(* ===== verification/PlanRules.thy ===== *)
theory PlanRules
  imports PlanCompiler ValidationRules
begin

section \<open>Rules over the geometry of a plan\<close>

text \<open>
  Models \<open>validation/rules/geometry_rules.py\<close>: outlines, hole placement, spacing and pattern
  integrity, each run over the operations or the expectations of the plan, and the readers that the
  feature and annotation rules share with them. The lists of a plan are JSON lists. The numbers of a plan are finite: a plan with any other number cannot be hashed. Where the rules
  would go on with an infinity or a NaN, the model stops with \<open>InvalidGeometryError\<close>. \<open>pf\<close> reads a
  float from a string.
\<close>

subsection \<open>Reading a plan\<close>

definition PRE_STAGES :: "validation_stage list" where
  "PRE_STAGES = [STAGE_PLAN, STAGE_PREVIEW_GEOMETRY, PRE_COMMIT]"

definition finite_num :: "(string \<Rightarrow> pyfloat option) \<Rightarrow> pyval \<Rightarrow> real res" where
  "finite_num pf v = bindR (py_float pf v) finite1"

definition plan_points :: "(string \<Rightarrow> pyfloat option) \<Rightarrow> operation \<Rightarrow> string \<Rightarrow> point2d list res" where
  "plan_points pf op key =
     (case map_of (op_geometry op) key of
        None \<Rightarrow> Inr []
      | Some v \<Rightarrow> bindR (items_of v) (traverse (decode_vertex pf)))"

definition plan_point :: "(string \<Rightarrow> pyfloat option) \<Rightarrow> pydict \<Rightarrow> string \<Rightarrow> point2d res" where
  "plan_point pf d key = bindR (geometry_item d key) (decode_vertex pf)"

definition plan_num :: "(string \<Rightarrow> pyfloat option) \<Rightarrow> pydict \<Rightarrow> string \<Rightarrow> real res" where
  "plan_num pf d key = bindR (geometry_item d key) (finite_num pf)"

text \<open>A dictionary built by comprehension keeps the last operation of a key.\<close>

definition last_operation :: "(operation \<Rightarrow> bool) \<Rightarrow> operation_plan \<Rightarrow> operation option" where
  "last_operation P plan = find P (rev (pl_operations plan))"

definition outline_of :: "operation_plan \<Rightarrow> string \<Rightarrow> operation option" where
  "outline_of plan fid =
     last_operation (\<lambda>op. op_type op = CREATE_CLOSED_POLYLINE \<and> op_feature_id op = fid) plan"

definition operation_named :: "operation_plan \<Rightarrow> string \<Rightarrow> operation option" where
  "operation_named plan oid = last_operation (\<lambda>op. op_id op = oid) plan"

definition expected_operation :: "operation_plan \<Rightarrow> validation_expectation \<Rightarrow> operation option" where
  "expected_operation plan e =
     operation_named plan (case ve_operation_id e of None \<Rightarrow> [] | Some oid \<Rightarrow> oid)"

definition parent_of :: "operation_plan \<Rightarrow> string \<Rightarrow> string option" where
  "parent_of plan fid =
     (case find (\<lambda>e. ve_feature_id e = Some fid \<and> is_str (pget (ve_expected e) ''parent_feature_id''))
        (pl_validation_expectations plan) of
        Some e \<Rightarrow> Some (str_of (pget (ve_expected e) ''parent_feature_id''))
      | None \<Rightarrow> None)"

text \<open>\<open>float(v)\<close> under \<open>isinstance(v, int | float)\<close>, which a bool passes.\<close>

definition loose_number :: "pyval \<Rightarrow> pyfloat option" where
  "loose_number v =
     (case v of PInt i \<Rightarrow> Some (Fin (of_int i)) | PFloat f \<Rightarrow> Some f | PBool b \<Rightarrow> Some (Fin (if b then 1 else 0))
      | _ \<Rightarrow> None)"

text \<open>A rule that runs over the operations of the plan, and one over its expectations.\<close>

definition operations_rule ::
  "string \<Rightarrow> validation_stage list \<Rightarrow> (rule_context \<Rightarrow> operation_plan \<Rightarrow> operation \<Rightarrow> finding list res) \<Rightarrow> validation_rule" where
  "operations_rule rid stages f =
     \<lparr>ru_rule_id = rid, ru_stages = stages,
      ru_evaluate = (\<lambda>c. bindR (require_plan_of c) (\<lambda>plan.
        bindR (traverse (f c plan) (pl_operations plan)) (\<lambda>fss. Inr (concat fss))))\<rparr>"

definition expectations_rule ::
  "string \<Rightarrow> (rule_context \<Rightarrow> operation_plan \<Rightarrow> validation_expectation \<Rightarrow> finding list res) \<Rightarrow> validation_rule" where
  "expectations_rule rid f =
     \<lparr>ru_rule_id = rid, ru_stages = PRE_STAGES,
      ru_evaluate = (\<lambda>c. bindR (require_plan_of c) (\<lambda>plan.
        bindR (traverse (f c plan) (filter (\<lambda>e. ve_rule_id e = rid) (pl_validation_expectations plan)))
          (\<lambda>fss. Inr (concat fss))))\<rparr>"

subsection \<open>Closed outlines\<close>

definition outline_findings ::
  "tolerance_profile \<Rightarrow> operation \<Rightarrow> polyline2d \<Rightarrow> finding list" where
  "outline_findings t op p =
     (let rid = ''GEO-OUTLINE-CLOSED'' in
      (if has_zero_length_segment p t
       then [for_operation op ((finding_of rid BLOCKING ''Outline contains a zero-length segment'')
              \<lparr>fi_expected := PStr ''all segments longer than tolerance'', fi_actual := PStr ''zero-length segment present'',
               fi_tolerance := Some (tp_absolute_length_mm t)\<rparr>)] else []) @
      (if polyline_self_intersects p t
       then [for_operation op ((finding_of rid BLOCKING ''Outline is self-intersecting'')
              \<lparr>fi_expected := PStr ''simple closed polyline'', fi_actual := PStr ''self-intersecting'',
               fi_suggested_fix := Some ''Check vertex ordering in the feature compiler''\<rparr>)] else []) @
      (case loose_number (pget (op_expected op) ''area_mm2'') of
         None \<Rightarrow> []
       | Some a \<Rightarrow>
           if area_close t a (Fin (area p)) then []
           else [for_operation op ((finding_of rid ERROR ''Outline area does not match the compiled expectation'')
                  \<lparr>fi_expected := PFloat a, fi_actual := num_val (area p), fi_tolerance := Some (tp_area_mm2 t),
                   fi_measurement := [(''area_mm2'', num_val (area p))]\<rparr>)]) @
      (if py_eq (pget (op_expected op) ''vertex_count'') (PInt 4) \<and> \<not> is_orthogonal_rectangle p t
       then [for_operation op ((finding_of rid ERROR ''Outline was expected to be an axis-aligned rectangle'')
              \<lparr>fi_expected := PStr ''4 orthogonal edges'', fi_actual := PStr ''non-orthogonal edge present'',
               fi_tolerance := Some (tp_absolute_length_mm t)\<rparr>)] else []))"

definition ClosedOutlineRule :: "(string \<Rightarrow> pyfloat option) \<Rightarrow> validation_rule" where
  "ClosedOutlineRule pf = operations_rule ''GEO-OUTLINE-CLOSED'' PRE_STAGES (\<lambda>c plan op.
     if op_type op \<noteq> CREATE_CLOSED_POLYLINE then Inr []
     else bindR (plan_points pf op ''vertices_mm'') (\<lambda>vs.
       if length vs < 3
       then Inr [for_operation op ((finding_of ''GEO-OUTLINE-CLOSED'' BLOCKING
              ''A closed outline needs at least three vertices'')
            \<lparr>fi_expected := PStr ''>= 3 vertices'', fi_actual := PInt (int (length vs))\<rparr>)]
       else Inr (outline_findings (rc_tolerance c) op (Polyline2D vs True))))"

subsection \<open>Hole placement and spacing\<close>

definition hole_clearance_findings ::
  "rule_context \<Rightarrow> operation \<Rightarrow> bounding_box \<Rightarrow> real \<Rightarrow> nat \<Rightarrow> point2d \<Rightarrow> finding list" where
  "hole_clearance_findings c op box radius index p =
     (let clearance = distance_to_edge box p - radius; rid = ''GEO-HOLE-PLACEMENT'';
          tol = Some (tp_absolute_length_mm (rc_tolerance c)) in
      if clearance < 0
      then [for_operation op ((finding_of rid BLOCKING
             (''Hole '' @ show_nat index @ '' crosses or lies outside the part boundary''))
           \<lparr>fi_expected := PStr ''hole fully inside the outline'',
            fi_actual := PDict [(''clearance_mm'', num_val clearance)], fi_tolerance := tol,
            fi_measurement := [(''center_mm'', point_val p)]\<rparr>)]
      else case pf_minimum_hole_edge_distance_mm (rc_profile c) of
        None \<Rightarrow> []
      | Some m \<Rightarrow>
          if clearance < m
          then [for_operation op ((finding_of rid ERROR
                 (''Hole '' @ show_nat index @ '' is closer to the edge than the profile minimum''))
               \<lparr>fi_expected := PDict [(''minimum_edge_distance_mm'', num_val m)],
                fi_actual := PDict [(''edge_distance_mm'', num_val clearance)], fi_tolerance := tol,
                fi_suggested_fix := Some ''Increase the edge offset or reduce the hole diameter''\<rparr>)]
          else [])"

text \<open>\<open>float(operation.geometry.get("diameter_mm", 0.0))\<close>.\<close>

definition hole_diameter :: "(string \<Rightarrow> pyfloat option) \<Rightarrow> operation \<Rightarrow> real res" where
  "hole_diameter pf op =
     (case map_of (op_geometry op) ''diameter_mm'' of None \<Rightarrow> Inr 0 | Some v \<Rightarrow> finite_num pf v)"

definition hole_placement ::
  "(string \<Rightarrow> pyfloat option) \<Rightarrow> rule_context \<Rightarrow> operation_plan \<Rightarrow> operation \<Rightarrow> finding list res" where
  "hole_placement pf c plan op =
     (if op_type op \<noteq> CREATE_CIRCLES then Inr []
      else bindR (plan_points pf op ''centers_mm'') (\<lambda>cs.
        bindR (hole_diameter pf op) (\<lambda>d.
        let parent = parent_of plan (op_feature_id op) in
        case (case parent of None \<Rightarrow> None | Some fid \<Rightarrow> if fid = [] then None else outline_of plan fid) of
          None \<Rightarrow> Inr [for_operation op ((finding_of ''GEO-HOLE-PLACEMENT'' INFO
                 ''Hole pattern has no parent outline in this plan; containment not checked'')
               \<lparr>fi_expected := PStr ''parent outline present'', fi_actual := opt_str parent\<rparr>)]
        | Some outline \<Rightarrow>
            bindR (plan_points pf outline ''vertices_mm'') (\<lambda>vs.
            bindR (mk_polyline vs True) (\<lambda>p.
            bindR (polyline_box p) (\<lambda>box.
              Inr (concat (map (\<lambda>i. hole_clearance_findings c op box (d / 2) i (cs ! i)) [0..<length cs]))))))))"

definition HolePlacementRule :: "(string \<Rightarrow> pyfloat option) \<Rightarrow> validation_rule" where
  "HolePlacementRule pf = operations_rule ''GEO-HOLE-PLACEMENT'' PRE_STAGES (hole_placement pf)"

definition spacing_findings ::
  "rule_context \<Rightarrow> operation \<Rightarrow> real \<Rightarrow> real \<Rightarrow> nat \<times> point2d \<Rightarrow> nat \<times> point2d \<Rightarrow> finding list" where
  "spacing_findings c op d ligament a b =
     (if circles_overlap (snd a) d (snd b) d ligament
      then [for_operation op ((finding_of ''GEO-HOLE-LIGAMENT''
              (if distance_to (snd a) (snd b) < d then BLOCKING else ERROR)
              (''Holes '' @ show_nat (fst a) @ '' and '' @ show_nat (fst b) @ '' are too close together''))
            \<lparr>fi_expected := PDict [(''minimum_center_distance_mm'', num_val (d + ligament))],
             fi_actual := PDict [(''center_distance_mm'', num_val (distance_to (snd a) (snd b)))],
             fi_tolerance := Some (tp_absolute_length_mm (rc_tolerance c))\<rparr>)]
      else [])"

definition hole_spacing ::
  "(string \<Rightarrow> pyfloat option) \<Rightarrow> rule_context \<Rightarrow> operation_plan \<Rightarrow> operation \<Rightarrow> finding list res" where
  "hole_spacing pf c plan op =
     (let ligament = (case pf_minimum_hole_ligament_mm (rc_profile c) of None \<Rightarrow> 0 | Some m \<Rightarrow> m) in
      if op_type op \<noteq> CREATE_CIRCLES then Inr []
      else bindR (plan_points pf op ''centers_mm'') (\<lambda>cs.
        bindR (hole_diameter pf op) (\<lambda>d.
          Inr (concat (map (\<lambda>(a, b). spacing_findings c op d ligament a b)
            (combinations2 (zip [0..<length cs] cs)))))))"

definition HoleSpacingRule :: "(string \<Rightarrow> pyfloat option) \<Rightarrow> validation_rule" where
  "HoleSpacingRule pf = operations_rule ''GEO-HOLE-LIGAMENT'' PRE_STAGES (hole_spacing pf)"

subsection \<open>Pattern integrity\<close>

definition pitch_findings ::
  "rule_context \<Rightarrow> string \<Rightarrow> (operation \<times> string option) \<Rightarrow> string \<times> string \<Rightarrow> point2d \<Rightarrow> real \<Rightarrow> point2d list \<Rightarrow> finding list" where
  "pitch_findings c rid who msg p radius cs =
     concat (map (\<lambda>i.
       let actual = distance_to p (cs ! i) in
       if length_close (rc_tolerance c) (Fin radius) (Fin actual) then []
       else [(finding_of rid ERROR (fst msg @ show_nat i @ snd msg))
             \<lparr>fi_feature_id := snd who, fi_operation_id := Some (op_id (fst who)),
              fi_expected := PDict [(''radius_mm'', num_val radius)],
              fi_actual := PDict [(''radius_mm'', num_val actual)],
              fi_tolerance := Some (tp_absolute_length_mm (rc_tolerance c))\<rparr>]) [0..<length cs])"

definition pattern_integrity ::
  "(string \<Rightarrow> pyfloat option) \<Rightarrow> rule_context \<Rightarrow> operation_plan \<Rightarrow> validation_expectation \<Rightarrow> finding list res" where
  "pattern_integrity pf c plan e =
     (let rid = ''GEO-PATTERN-INTEGRITY''; d = ve_expected e in
      case expected_operation plan e of
        None \<Rightarrow> Inr []
      | Some op \<Rightarrow>
          if op_type op \<noteq> CREATE_CIRCLES then Inr []
          else bindR (plan_points pf op ''centers_mm'') (\<lambda>cs.
            let counted = (case index_of (pget d ''count'') of
                  None \<Rightarrow> []
                | Some n \<Rightarrow>
                    if int (length cs) = n then []
                    else [for_operation op ((finding_of rid BLOCKING
                           ''Pattern hole count does not match the specification'')
                         \<lparr>fi_expected := pget d ''count'', fi_actual := PInt (int (length cs))\<rparr>)])
            in if loose_number (pget d ''pcd_mm'') \<noteq> None \<and> is_list (pget d ''center_mm'')
               then bindR (decode_vertex pf (pget d ''center_mm'')) (\<lambda>p.
                    bindR (finite_num pf (pget d ''pcd_mm'')) (\<lambda>pcd.
                      Inr (counted @ pitch_findings c rid (op, Some (op_feature_id op))
                        (''Hole '', '' does not lie on the pitch circle'') p (pcd / 2) cs)))
               else Inr counted))"

definition PatternIntegrityRule :: "(string \<Rightarrow> pyfloat option) \<Rightarrow> validation_rule" where
  "PatternIntegrityRule pf =
     \<lparr>ru_rule_id = ''GEO-PATTERN-INTEGRITY'', ru_stages = PRE_STAGES,
      ru_evaluate = (\<lambda>c. bindR (require_plan_of c) (\<lambda>plan.
        bindR (traverse (pattern_integrity pf c plan) (pl_validation_expectations plan)) (\<lambda>fss. Inr (concat fss))))\<rparr>"

end
