(* ===== verification/FeatureRules.thy ===== *)
theory FeatureRules
  imports PlanRules
begin

section \<open>Feature rules\<close>

text \<open>
  Models \<open>validation/rules/feature_rules.py\<close>: each rule checks the operation an expectation names (reference circle,
  flange, slot, L bracket), the last one the crossings of all closed outlines of the plan.
\<close>

subsection \<open>The reference circle\<close>

text \<open>Python's \<open>and\<close> over tests that may raise.\<close>

fun all_tests :: "bool res list \<Rightarrow> bool res" where
  "all_tests [] = Inr True"
| "all_tests (t # ts) = bindR t (\<lambda>ok. if ok then all_tests ts else Inr False)"

definition expectation_finding :: "validation_expectation \<Rightarrow> string option \<Rightarrow> finding \<Rightarrow> finding" where
  "expectation_finding e oid f = f\<lparr>fi_feature_id := ve_feature_id e, fi_operation_id := oid\<rparr>"

definition circle_actual :: "operation \<Rightarrow> point2d \<Rightarrow> real \<Rightarrow> pydict" where
  "circle_actual op p d =
     [(''layer'', PStr (op_layer op)), (''center_mm'', point_val p), (''radius_mm'', num_val (d / 2)),
      (''diameter_mm'', num_val d), (''circumference_mm'', num_val (2 * pi * (d / 2))),
      (''area_mm2'', num_val (pi * (d / 2) * (d / 2)))]"

definition circle_matches ::
  "(string \<Rightarrow> pyfloat option) \<Rightarrow> tolerance_profile \<Rightarrow> operation \<Rightarrow> pydict \<Rightarrow> point2d \<Rightarrow> point2d \<Rightarrow> real \<Rightarrow> bool res" where
  "circle_matches pf t op e p target d =
     (let near = (\<lambda>v key. bindR (plan_num pf e key) (\<lambda>x. Inr (length_close t (Fin v) (Fin x)))) in
      all_tests
        [bindR (geometry_item e ''layer'') (\<lambda>v. Inr (py_eq (PStr (op_layer op)) v)),
         Inr (length_close t (Fin (distance_to p target)) (Fin 0)),
         near (d / 2) ''radius_mm'', near d ''diameter_mm'', near (2 * pi * (d / 2)) ''circumference_mm'',
         bindR (plan_num pf e ''area_mm2'') (\<lambda>x. Inr (area_close t (Fin (pi * (d / 2) * (d / 2))) (Fin x)))])"

definition ReferenceCircleGeometryRule :: "(string \<Rightarrow> pyfloat option) \<Rightarrow> validation_rule" where
  "ReferenceCircleGeometryRule pf = expectations_rule ''REFERENCE_CIRCLE_GEOMETRY'' (\<lambda>c plan e.
     let rid = ''REFERENCE_CIRCLE_GEOMETRY''; found = expected_operation plan e in
     case (case found of Some op \<Rightarrow> if op_type op = CREATE_CIRCLE then Some op else None | None \<Rightarrow> None) of
       None \<Rightarrow> Inr [expectation_finding e (ve_operation_id e) ((finding_of rid BLOCKING
             ''Reference-circle expectation has no matching circle operation'')
           \<lparr>fi_expected := PStr (operation_type_value CREATE_CIRCLE),
            fi_actual := (case found of None \<Rightarrow> PNone | Some op \<Rightarrow> PStr (operation_type_value (op_type op)))\<rparr>)]
     | Some op \<Rightarrow>
         bindR (geometry_item (ve_expected e) ''center_mm'') (\<lambda>target_value.
         bindR (plan_point pf (op_geometry op) ''center_mm'') (\<lambda>p.
         bindR (decode_vertex pf target_value) (\<lambda>target.
         bindR (plan_num pf (op_geometry op) ''diameter_mm'') (\<lambda>d.
         bindR (circle_matches pf (rc_tolerance c) op (ve_expected e) p target d) (\<lambda>ok.
           Inr (if ok then []
             else [expectation_finding e (Some (op_id op)) ((finding_of rid ERROR
                    ''Reference-circle geometry differs from its compiled expectation'')
                  \<lparr>fi_expected := PDict (ve_expected e), fi_actual := PDict (circle_actual op p d),
                   fi_tolerance := Some (tp_absolute_length_mm (rc_tolerance c))\<rparr>)])))))))"

subsection \<open>Flanges\<close>

definition FlangeOuterDiameterClearanceRule :: "(string \<Rightarrow> pyfloat option) \<Rightarrow> validation_rule" where
  "FlangeOuterDiameterClearanceRule pf = expectations_rule ''FLANGE_OUTER_DIAMETER_CLEARANCE'' (\<lambda>c plan e.
     let rid = ''FLANGE_OUTER_DIAMETER_CLEARANCE''; tol = tp_absolute_length_mm (rc_tolerance c); d = ve_expected e in
     bindR (plan_num pf d ''outer_diameter_mm'') (\<lambda>outer.
     bindR (plan_num pf d ''pcd_mm'') (\<lambda>pcd.
     bindR (plan_num pf d ''bolt_hole_diameter_mm'') (\<lambda>bolt.
       case pf_minimum_hole_ligament_mm (rc_profile c) of
         None \<Rightarrow> Inr [expectation_finding e (ve_operation_id e) ((finding_of rid BLOCKING
               ''The profile does not declare a minimum flange ligament'')
             \<lparr>fi_expected := PStr ''minimum_hole_ligament_mm declared'', fi_tolerance := Some tol\<rparr>)]
       | Some ligament \<Rightarrow>
           let minimum = pcd + bolt + 2 * ligament in
           Inr (if outer \<le> minimum + tol
             then [expectation_finding e (ve_operation_id e) ((finding_of rid ERROR
                    ''Flange outer diameter leaves insufficient material outside bolt holes'')
                  \<lparr>fi_expected := PDict [(''outer_diameter_mm'', PStr (''> '' @ float_repr minimum))],
                   fi_actual := PDict [(''outer_diameter_mm'', num_val outer)], fi_tolerance := Some tol,
                   fi_suggested_fix := Some ''Increase the outer diameter or reduce the PCD or hole diameter''\<rparr>)]
             else [])))))"

text \<open>\<open>int(v)\<close> of a number.\<close>

definition py_int :: "pyval \<Rightarrow> int res" where
  "py_int v =
     (case v of
        PInt i \<Rightarrow> Inr i
      | PBool b \<Rightarrow> Inr (if b then 1 else 0)
      | PFloat (Fin r) \<Rightarrow> Inr (if 0 \<le> r then \<lfloor>r\<rfloor> else \<lceil>r\<rceil>)
      | _ \<Rightarrow> Inl (TypeError ''int() argument must be a number''))"

definition spacing_mismatches ::
  "rule_context \<Rightarrow> validation_expectation \<Rightarrow> operation \<Rightarrow> point2d \<Rightarrow> real \<Rightarrow> point2d list \<Rightarrow> finding list" where
  "spacing_mismatches c e op p expected cs =
     (let gaps = angular_spacing_deg p cs in
      concat (map (\<lambda>i.
        if angle_close_deg (rc_tolerance c) (Fin (gaps ! i)) (Fin expected) then []
        else [expectation_finding e (Some (op_id op)) ((finding_of ''FLANGE_HOLES_ON_PCD'' ERROR
               (''Flange angular spacing '' @ show_nat i @ '' is non-uniform''))
             \<lparr>fi_expected := PDict [(''angular_spacing_deg'', num_val expected)],
              fi_actual := PDict [(''angular_spacing_deg'', num_val (gaps ! i))],
              fi_tolerance := Some (tp_angular_deg (rc_tolerance c))\<rparr>)]) [0..<length gaps]))"

definition FlangeHolesOnPcdRule :: "(string \<Rightarrow> pyfloat option) \<Rightarrow> validation_rule" where
  "FlangeHolesOnPcdRule pf = expectations_rule ''FLANGE_HOLES_ON_PCD'' (\<lambda>c plan e.
     let rid = ''FLANGE_HOLES_ON_PCD''; d = ve_expected e in
     case expected_operation plan e of
       None \<Rightarrow> Inr []
     | Some op \<Rightarrow>
         bindR (plan_points pf op ''centers_mm'') (\<lambda>cs.
         bindR (plan_point pf d ''center_mm'') (\<lambda>p.
         bindR (plan_num pf d ''pcd_mm'') (\<lambda>pcd.
         bindR (bindR (geometry_item d ''bolt_hole_count'') py_int) (\<lambda>n.
         bindR (if 1 < length cs then bindR (plan_num pf d ''angular_spacing_deg'') (\<lambda>s.
                  Inr (spacing_mismatches c e op p s cs)) else Inr []) (\<lambda>spacing.
           Inr (pitch_findings c rid (op, ve_feature_id e) (''Flange hole '', '' is not on the pitch circle'')
                  p (pcd / 2) cs @
                (if int (length cs) = n then []
                 else [expectation_finding e (Some (op_id op)) ((finding_of rid BLOCKING
                        ''Flange bolt-hole count differs from the specification'')
                      \<lparr>fi_expected := PInt n, fi_actual := PInt (int (length cs)),
                       fi_tolerance := Some (tp_absolute_length_mm (rc_tolerance c))\<rparr>)]) @ spacing)))))))"

subsection \<open>Slots\<close>

definition arc_endpoints :: "(string \<Rightarrow> pyfloat option) \<Rightarrow> operation \<Rightarrow> (point2d \<times> point2d \<times> point2d) res" where
  "arc_endpoints pf op =
     (let g = op_geometry op in
      bindR (plan_point pf g ''center_mm'') (\<lambda>c.
      bindR (plan_num pf g ''radius_mm'') (\<lambda>r.
      bindR (plan_num pf g ''start_angle_deg'') (\<lambda>a.
      bindR (plan_num pf g ''end_angle_deg'') (\<lambda>b.
      bindR (normalize_arc c r a (Some b) None) (\<lambda>curve.
      bindR (start_point curve) (\<lambda>s.
      bindR (end_point curve) (\<lambda>f. Inr (c, s, f)))))))))"

definition named_operations :: "operation_plan \<Rightarrow> pyval \<Rightarrow> operation list" where
  "named_operations plan v =
     (case v of
        PList xs \<Rightarrow> concat (map (\<lambda>x. case x of
            PStr oid \<Rightarrow> (case operation_named plan oid of Some op \<Rightarrow> [op] | None \<Rightarrow> [])
          | _ \<Rightarrow> []) xs)
      | _ \<Rightarrow> [])"

text \<open>The flank nearest to an end point of an arc and its angle with the radius there.\<close>

definition flank_ends :: "(string \<Rightarrow> pyfloat option) \<Rightarrow> operation \<Rightarrow> (point2d \<times> point2d) res" where
  "flank_ends pf op =
     bindR (plan_point pf (op_geometry op) ''start_mm'') (\<lambda>a.
     bindR (plan_point pf (op_geometry op) ''end_mm'') (\<lambda>b. Inr (a, b)))"

definition tangency_findings ::
  "(string \<Rightarrow> pyfloat option) \<Rightarrow> rule_context \<Rightarrow> validation_expectation \<Rightarrow> operation list \<Rightarrow> operation \<Rightarrow>
   point2d \<Rightarrow> nat \<Rightarrow> point2d \<Rightarrow> finding list res" where
  "tangency_findings pf c e lines arc centre i endpoint =
     bindR (traverse (flank_ends pf) lines) (\<lambda>flanks.
       if flanks = [] then Inr []
       else case first_min_on (\<lambda>(a, b). min (distance_to endpoint a) (distance_to endpoint b)) (hd flanks) (tl flanks) of
         (a, b) \<Rightarrow>
           bindR (line_angle_deg (rc_tolerance c) a b centre endpoint) (\<lambda>angle.
             Inr (if angle_close_deg (rc_tolerance c) (Fin angle) (Fin 90) then []
               else [expectation_finding e (Some (op_id arc)) ((finding_of ''SLOT_ARC_TANGENCY'' ERROR
                      (''Slot arc endpoint '' @ show_nat i @ '' is not tangent to its flank''))
                    \<lparr>fi_expected := PDict [(''tangent_angle_deg'', num_val 90)],
                     fi_actual := PDict [(''tangent_angle_deg'', num_val angle)],
                     fi_tolerance := Some (tp_angular_deg (rc_tolerance c))\<rparr>)])))"

definition SlotArcTangencyRule :: "(string \<Rightarrow> pyfloat option) \<Rightarrow> validation_rule" where
  "SlotArcTangencyRule pf = expectations_rule ''SLOT_ARC_TANGENCY'' (\<lambda>c plan e.
     let lines = named_operations plan (pget (ve_expected e) ''line_operation_ids'');
         arcs = named_operations plan (pget (ve_expected e) ''arc_operation_ids'') in
     bindR (traverse (\<lambda>arc.
         bindR (arc_endpoints pf arc) (\<lambda>(centre, s, f).
         bindR (tangency_findings pf c e lines arc centre 0 s) (\<lambda>f0.
         bindR (tangency_findings pf c e lines arc centre 1 f) (\<lambda>f1. Inr (f0 @ f1))))) arcs)
       (\<lambda>fss. Inr (concat fss)))"

subsection \<open>L brackets\<close>

definition LBracketLegPerpendicularityRule :: "(string \<Rightarrow> pyfloat option) \<Rightarrow> validation_rule" where
  "LBracketLegPerpendicularityRule pf = expectations_rule ''LBRACKET_LEG_PERPENDICULARITY'' (\<lambda>c plan e.
     let rid = ''LBRACKET_LEG_PERPENDICULARITY''; t = rc_tolerance c in
     case expected_operation plan e of
       None \<Rightarrow> Inr []
     | Some op \<Rightarrow>
         bindR (plan_points pf op ''vertices_mm'') (\<lambda>vs.
         let is_closed = (op_type op = CREATE_CLOSED_POLYLINE);
             f0 = (if is_closed then []
               else [expectation_finding e (Some (op_id op)) ((finding_of rid BLOCKING
                      ''L-bracket outline is not a closed polyline'')
                    \<lparr>fi_expected := PDict [(''closed'', PBool True)], fi_actual := PDict [(''closed'', PBool False)],
                     fi_tolerance := Some (tp_coincidence_mm t)\<rparr>)])
         in if length vs < 3 then Inr f0
            else bindR (line_angle_deg t (vs ! 0) (vs ! 1) (vs ! 0) (last vs)) (\<lambda>angle.
              Inr (f0 @ (if angle_close_deg t (Fin angle) (Fin 90) then []
                else [expectation_finding e (Some (op_id op)) ((finding_of rid ERROR
                       ''L-bracket legs are not perpendicular'')
                     \<lparr>fi_expected := PDict [(''leg_angle_deg'', num_val 90)],
                      fi_actual := PDict [(''leg_angle_deg'', num_val angle)],
                      fi_tolerance := Some (tp_angular_deg t)\<rparr>)])))))"

subsection \<open>Crossing contours\<close>

definition plan_contour :: "(string \<Rightarrow> pyfloat option) \<Rightarrow> operation \<Rightarrow> (operation \<times> polyline2d) list res" where
  "plan_contour pf op =
     (if op_type op \<noteq> CREATE_CLOSED_POLYLINE then Inr []
      else bindR (plan_points pf op ''vertices_mm'') (\<lambda>vs.
        Inr (if 3 \<le> length vs then [(op, Polyline2D vs True)] else [])))"

definition declared_pair :: "operation \<Rightarrow> operation \<Rightarrow> string \<Rightarrow> string \<Rightarrow> bool" where
  "declared_pair a b child parent \<longleftrightarrow>
     (child = op_feature_id a \<and> py_eq (pget (op_expected a) ''parent_feature_id'') (PStr parent)) \<or>
     (child = op_feature_id b \<and> py_eq (pget (op_expected b) ''parent_feature_id'') (PStr parent))"

definition related_contours :: "operation \<Rightarrow> operation \<Rightarrow> bool" where
  "related_contours a b \<longleftrightarrow> declared_pair a b (op_feature_id a) (op_feature_id b) \<or>
     declared_pair a b (op_feature_id b) (op_feature_id a)"

definition opt_index :: "nat option \<Rightarrow> pyval" where
  "opt_index i = (case i of None \<Rightarrow> PNone | Some n \<Rightarrow> PInt (int n))"

definition crossing_findings ::
  "tolerance_profile \<Rightarrow> contour_node list \<Rightarrow> nat \<times> operation \<times> polyline2d \<Rightarrow> nat \<times> operation \<times> polyline2d \<Rightarrow> finding list" where
  "crossing_findings t forest x y =
     (case (x, y) of ((i, a, p), (j, b, q)) \<Rightarrow>
        let crossings = contour_intersections p q t in
        if crossings = [] \<or> related_contours a b then []
        else [for_operation b ((finding_of ''NO_UNDECLARED_CONTOUR_INTERSECTION'' BLOCKING
               ''Contours intersect without a declared parent-child relationship'')
             \<lparr>fi_expected := PDict [(''intersection_count'', PInt 0), (''declared_relationship'', PBool True)],
              fi_actual := PDict [(''intersection_count'', PInt (int (length crossings))),
                (''declared_relationship'', PBool False), (''first_feature_id'', PStr (op_feature_id a)),
                (''derived_parent_indices'', PList [opt_index (cn_parent_index (forest ! i)),
                   opt_index (cn_parent_index (forest ! j))])],
              fi_tolerance := Some (tp_coincidence_mm t),
              fi_suggested_fix := Some ''Declare the parent-child relationship or separate the contours''\<rparr>)])"

definition NoUndeclaredContourIntersectionRule :: "(string \<Rightarrow> pyfloat option) \<Rightarrow> validation_rule" where
  "NoUndeclaredContourIntersectionRule pf =
     \<lparr>ru_rule_id = ''NO_UNDECLARED_CONTOUR_INTERSECTION'', ru_stages = PRE_STAGES,
      ru_evaluate = (\<lambda>c. bindR (require_plan_of c) (\<lambda>plan.
        bindR (traverse (plan_contour pf) (pl_operations plan)) (\<lambda>css.
        let cs = concat css in
        if length cs < 2 then Inr []
        else bindR (forest_build (map (\<lambda>(_, p). PolyContour p) cs) (rc_tolerance c)) (\<lambda>forest.
          Inr (concat (map (\<lambda>(a, b). crossing_findings (rc_tolerance c) forest a b)
            (combinations2 (zip [0..<length cs] cs))))))))\<rparr>"

end
