(* ===== verification/AnnotationRules.thy ===== *)
theory AnnotationRules
  imports FeatureRules
begin

section \<open>Rules over annotations\<close>

text \<open>
  Models \<open>validation/rules/annotation_rules.py\<close> for a context that has a plan: dimension text,
  overlap of the text boxes, layers and styles of the profile, and the datums of GD&T frames. The datum
  references of a frame are strings, as the annotation engine writes them.
\<close>

subsection \<open>Dimension text\<close>

definition dimension_types :: "operation_type list" where
  "dimension_types =
     [CREATE_LINEAR_DIMENSION, CREATE_ALIGNED_DIMENSION, CREATE_DIAMETER_DIMENSION, CREATE_RADIUS_DIMENSION,
      CREATE_ANGULAR_DIMENSION]"

type_synonym dimension_record = "string option \<times> string option \<times> pyfloat \<times> pyfloat"

definition operation_dimension :: "operation \<Rightarrow> dimension_record list" where
  "operation_dimension op =
     (if op_type op \<notin> set dimension_types then []
      else case (loose_number (pget (op_geometry op) ''measurement_mm''),
                 loose_number (pget (op_expected op) ''text_value_mm'')) of
        (Some e, Some a) \<Rightarrow> [(Some (op_feature_id op), Some (op_id op), e, a)]
      | _ \<Rightarrow> [])"

definition extra_dimensions :: "pydict \<Rightarrow> dimension_record list" where
  "extra_dimensions extras =
     (case pget extras ''dimensions'' of
        PList xs \<Rightarrow> concat (map (\<lambda>x. case x of
            PDict d \<Rightarrow>
              (case (loose_number (pget d ''measurement_mm''), loose_number (pget d ''text_value_mm'')) of
                 (Some e, Some a) \<Rightarrow> [(None, None, e, a)]
               | _ \<Rightarrow> [])
          | _ \<Rightarrow> []) xs)
      | _ \<Rightarrow> [])"

definition dimension_text_findings :: "rule_context \<Rightarrow> operation_plan \<Rightarrow> finding list" where
  "dimension_text_findings c plan =
     map (\<lambda>(fid, oid, e, a).
         (finding_of ''DIMENSION_TEXT_MATCHES_GEOMETRY'' ERROR ''Dimension text does not match measured geometry'')
         \<lparr>fi_feature_id := fid, fi_operation_id := oid, fi_expected := PFloat e, fi_actual := PFloat a,
          fi_tolerance := Some (tp_absolute_length_mm (rc_tolerance c)),
          fi_suggested_fix := Some ''Reset the override to the measured dimension value''\<rparr>)
       (filter (\<lambda>(_, _, e, a). \<not> length_close (rc_tolerance c) e a)
         (concat (map operation_dimension (pl_operations plan)) @ extra_dimensions (rc_extras c)))"

subsection \<open>Overlapping texts\<close>

definition overlap_box :: "(string \<Rightarrow> pyfloat option) \<Rightarrow> operation \<Rightarrow> (operation \<times> text_box) list res" where
  "overlap_box pf op =
     (case pget (op_geometry op) ''text_bbox_mm'' of
        PList [a, b, c, d] \<Rightarrow>
          bindR (traverse (finite_num pf) [a, b, c, d]) (\<lambda>xs.
            Inr [(op, \<lparr>xb_min_x = xs ! 0, xb_min_y = xs ! 1, xb_max_x = xs ! 2, xb_max_y = xs ! 3\<rparr>)])
      | _ \<Rightarrow> Inr [])"

definition overlap_findings :: "real \<Rightarrow> operation \<times> text_box \<Rightarrow> operation \<times> text_box \<Rightarrow> finding list" where
  "overlap_findings limit x y =
     (let ratio = overlap_ratio (snd x) (snd y) in
      if ratio \<le> limit then []
      else [for_operation (fst x) ((finding_of ''ANNOTATION_OVERLAP'' WARNING
             ''Annotation text bounding boxes exceed the allowed overlap'')
           \<lparr>fi_expected := PDict [(''maximum_overlap_ratio'', num_val limit)],
            fi_actual := PDict [(''overlap_ratio'', num_val ratio), (''other_operation_id'', PStr (op_id (fst y)))],
            fi_tolerance := Some limit\<rparr>)])"

definition ANNOTATION_STAGES :: "validation_stage list" where
  "ANNOTATION_STAGES = [STAGE_PLAN, PRE_COMMIT]"

definition AnnotationOverlapRule :: "(string \<Rightarrow> pyfloat option) \<Rightarrow> validation_rule" where
  "AnnotationOverlapRule pf =
     \<lparr>ru_rule_id = ''ANNOTATION_OVERLAP'', ru_stages = ANNOTATION_STAGES,
      ru_evaluate = (\<lambda>c. bindR (require_plan_of c) (\<lambda>plan.
        bindR (traverse (overlap_box pf) (pl_operations plan)) (\<lambda>bss.
        let limit = (case ar_maximum_text_overlap_ratio (pf_annotation_rules (rc_profile c)) of
              None \<Rightarrow> 1 / 10 | Some r \<Rightarrow> r) in
        Inr (concat (map (\<lambda>(x, y). overlap_findings limit x y) (combinations2 (concat bss)))))))\<rparr>"

subsection \<open>Layers and styles\<close>

definition expected_layer :: "company_profile \<Rightarrow> operation \<Rightarrow> string res" where
  "expected_layer p op =
     (if op_type op = CREATE_CENTERMARK then layer_for p ''centermark''
      else if op_type op = CREATE_CENTERLINE then layer_for p ''centerline''
      else if pget (op_geometry op) ''annotation_kind'' = PStr ''hole_callout'' \<or> op_type op \<in> set dimension_types
      then layer_for p ''dimension''
      else layer_for p ''text'')"

definition annotation_profile_findings ::
  "rule_context \<Rightarrow> operation_plan \<Rightarrow> operation \<Rightarrow> finding list res" where
  "annotation_profile_findings c plan op =
     (let g = op_geometry op; kind = pget g ''annotation_kind''; p = rc_profile c; rid = ''ANNOTATION_PROFILE_MATCH'' in
      if kind = PNone \<and> op_type op \<notin> {CREATE_CENTERMARK, CREATE_CENTERLINE} then Inr []
      else bindR (expected_layer p op) (\<lambda>layer.
        Inr ((if op_layer op = layer then []
              else [for_operation op ((finding_of rid ERROR ''Annotation is on the wrong profile layer'')
                     \<lparr>fi_expected := PStr layer, fi_actual := PStr (op_layer op)\<rparr>)]) @
             (if (is_substring ''dimension'' (str_of kind) \<or> kind = PStr ''hole_diameter'') \<and>
                 \<not> py_eq (pget g ''dimstyle'') (opt_str (pf_dimension_style p))
              then [(finding_of rid ERROR ''Dimension uses the wrong dimstyle'')
                    \<lparr>fi_operation_id := Some (op_id op), fi_expected := opt_str (pf_dimension_style p),
                     fi_actual := pget g ''dimstyle''\<rparr>] else []) @
             (if map_of g ''textstyle'' \<noteq> None \<and> \<not> py_eq (pget g ''textstyle'') (opt_str (pf_text_style p))
              then [(finding_of rid ERROR ''Annotation uses the wrong textstyle'')
                    \<lparr>fi_operation_id := Some (op_id op), fi_expected := opt_str (pf_text_style p),
                     fi_actual := pget g ''textstyle''\<rparr>] else []))))"

definition AnnotationProfileRule :: validation_rule where
  "AnnotationProfileRule = operations_rule ''ANNOTATION_PROFILE_MATCH'' ANNOTATION_STAGES annotation_profile_findings"

subsection \<open>GD&T datums\<close>

definition defined_datums :: "operation_plan \<Rightarrow> string list" where
  "defined_datums plan =
     remdups (concat (map (\<lambda>op.
       if pget (op_geometry op) ''annotation_kind'' = PStr ''gdt_datum_symbol''
       then (case pget (op_geometry op) ''datum_identifier'' of PStr s \<Rightarrow> [s] | _ \<Rightarrow> []) else [])
       (pl_operations plan)))"

definition frame_references :: "operation \<Rightarrow> string list res" where
  "frame_references op =
     (case map_of (op_geometry op) ''datum_references'' of
        None \<Rightarrow> Inr []
      | Some v \<Rightarrow> bindR (items_of v) (\<lambda>xs. Inr (map str_of xs)))"

definition GdtDatumExistsRule :: validation_rule where
  "GdtDatumExistsRule = operations_rule ''GDT_DATUM_EXISTS'' ANNOTATION_STAGES (\<lambda>c plan op.
     if pget (op_geometry op) ''annotation_kind'' \<noteq> PStr ''gdt_feature_control_frame'' then Inr []
     else bindR (frame_references op) (\<lambda>refs.
       let missing = filter (\<lambda>r. r \<notin> set (defined_datums plan)) refs in
       Inr (if missing = [] then []
         else [(finding_of ''GDT_DATUM_EXISTS'' ERROR ''Feature control frame references an undefined datum symbol'')
               \<lparr>fi_operation_id := Some (op_id op),
                fi_expected := PDict [(''defined_datums'', sorted_names (defined_datums plan))],
                fi_actual := PDict [(''missing_datums'', PList (map PStr missing))]\<rparr>])))"

end
