(* ===== verification/PlanGuarantees.thy ===== *)
theory PlanGuarantees
  imports PlanCompiler ValidationRules
begin

section \<open>What a compiled plan guarantees\<close>

text \<open>
  The contract of \<open>PlanCompilerService.compile\<close>: a plan or a list of missing inputs, a plan bound
  to its job and sealed by its hash, operations that only create geometry on declared layers, and no
  way from an ordinary specification to the source-bound compilers.
\<close>

subsection \<open>Inversion of a compilation\<close>

lemma compile_plan_Some:
  assumes "compile_plan pc spec jid revision pid = Inr r" "co_plan r = Some plan"
  obtains datum missing c geometry annotation where "resolve_datum spec = Inr datum"
    and "traverse (collect_missing pc (root_context pc datum)) (sp_features spec) = Inr missing"
    and "concat missing = []" and "compile_geometry pc (root_context pc datum) spec = Inr c"
    and "final_geometry pc spec (cf_operations c) = Inr geometry"
    and "annotate (pc_float pc) (pc_profile pc) (pc_tolerance pc) geometry spec datum = Inr annotation"
    and "build_plan pc spec jid revision pid (geometry @ nr_operations annotation)
      (cf_expectations c @ nr_expectations annotation) = Inr plan"
    and "co_missing_inputs r = []"
  using assms unfolding compile_plan_def Let_def
  by (auto simp: bindR_Inr_iff needs_def split: if_split_asm)

lemma compile_plan_None:
  assumes "compile_plan pc spec jid revision pid = Inr r" "co_plan r = None"
  shows "co_missing_inputs r \<noteq> []"
  using assms unfolding compile_plan_def Let_def
  by (auto simp: bindR_Inr_iff needs_def split: if_split_asm)

lemma plan_or_missing_inputs:
  assumes "compile_plan pc spec jid revision pid = Inr r"
  shows "needs_input r \<longleftrightarrow> co_missing_inputs r \<noteq> []"
  using assms compile_plan_None [OF assms]
  by (cases "co_plan r") (auto simp: needs_input_def elim: compile_plan_Some)

subsection \<open>Operations of a plan\<close>

definition plan_operation_ok :: "company_profile \<Rightarrow> operation \<Rightarrow> bool" where
  "plan_operation_ok p op \<longleftrightarrow> op_layer op \<in> set (layer_names p) \<and> starts_with (op_id op) ''op:'' \<and>
     op_target_entity_ref op = None \<and> op_type op \<notin> {UPDATE_ENTITY, DELETE_ENTITY}"

lemma starts_with_prefix: "starts_with s (p @ q) \<Longrightarrow> starts_with s p"
  unfolding starts_with_def by (metis append_eq_conv_conj append_take_drop_id append_assoc)

lemma emitted_plan_ok: "emitted_ok p op \<Longrightarrow> plan_operation_ok p op"
  by (auto simp: emitted_ok_def plan_operation_ok_def
      intro: starts_with_prefix [where q = "op_feature_id op @ '':''"])

lemma place_operation_ok:
  "place_operation pf ty origin op = Inr op' \<Longrightarrow> plan_operation_ok p op \<Longrightarrow> plan_operation_ok p op'"
  by (auto simp: place_operation_def plan_operation_ok_def operation_id_def starts_with_def Let_def bindR_Inr_iff
      split: prod.splits)

lemma traverse_all:
  "traverse f xs = Inr ys \<Longrightarrow> (\<And>x y. x \<in> set xs \<Longrightarrow> f x = Inr y \<Longrightarrow> P y) \<Longrightarrow> list_all P ys"
  by (simp add: traverse_Inr_iff list_all2_conv_all_nth list_all_length) (metis nth_mem)

lemma place_views_ok:
  assumes "place_views pf ops views p = Inr placed" "list_all (plan_operation_ok p) ops"
  shows "list_all (plan_operation_ok p) placed"
proof -
  from assms(1) obtain spacing pss where placed: "placed = concat pss"
    and t: "traverse (\<lambda>v. traverse (place_operation pf (vw_type v) (view_origin (vw_type v) spacing)) ops) views = Inr pss"
    by (auto simp: place_views_def bindR_Inr_iff split: option.splits)
  have "list_all (list_all (plan_operation_ok p)) pss"
    by (rule traverse_all [OF t], erule traverse_all) (use assms(2) place_operation_ok in \<open>auto simp: list_all_iff\<close>)
  then show ?thesis by (auto simp: placed list_all_iff)
qed

lemma final_geometry_ok:
  assumes "final_geometry pc spec ops = Inr geometry" "list_all (plan_operation_ok (pc_profile pc)) ops"
  shows "list_all (plan_operation_ok (pc_profile pc)) geometry"
  using assms place_views_ok [of "pc_float pc" ops "di_views (sp_drawing spec)" "pc_profile pc"]
  by (auto simp: final_geometry_def bindR_Inr_iff list_all_iff split: if_splits)

lemma compile_geometry_ok:
  assumes "compile_geometry pc cx spec = Inr c" "cx_profile cx = pc_profile pc"
    and "\<forall>f \<in> set (sp_features spec). fs_type f \<noteq> RASTER_FEATURE"
  shows "list_all (plan_operation_ok (pc_profile pc)) (cf_operations c)"
  by (rule fold_res_invariant [OF assms(1) [unfolded compile_geometry_def]])
    (use assms(2,3) catalog_operations_ok in
      \<open>fastforce simp: bindR_Inr_iff merge_compiled_def compile_any_def list_all_iff intro: emitted_plan_ok\<close>)+

subsection \<open>Operations of the annotation engine\<close>

definition annotated_ok :: "annotation_styles \<Rightarrow> annotation_state \<Rightarrow> bool" where
  "annotated_ok ns s \<longleftrightarrow> list_all (plan_operation_ok (ns_profile ns)) (nr_operations s)"

lemma annotation_op_ok:
  "plan_operation_ok p (annotation_op suffix fid ty layer g e) \<longleftrightarrow>
     layer \<in> set (layer_names p) \<and> ty \<notin> {UPDATE_ENTITY, DELETE_ENTITY}"
  by (auto simp: annotation_op_def plan_operation_ok_def starts_with_def)

lemma emit_ok [simp]:
  "layer \<in> set (layer_names (ns_profile ns)) \<Longrightarrow>
     annotated_ok ns (emit_dimension ns layer suffix fid v a b anchor kind s) = annotated_ok ns s"
  "layer \<in> set (layer_names (ns_profile ns)) \<Longrightarrow>
     annotated_ok ns (emit_diameter ns layer i h v s) = annotated_ok ns s"
  "layer \<in> set (layer_names (ns_profile ns)) \<Longrightarrow>
     annotated_ok ns (emit_text ns layer suffix fid text anchor kind extra s) = annotated_ok ns s"
  by (simp_all add: emit_dimension_def emit_diameter_def emit_text_def Let_def add_annotation_def annotated_ok_def
      annotation_op_ok)

lemma annotated_ok_fold:
  "(\<And>x s. annotated_ok ns s \<Longrightarrow> annotated_ok ns (f x s)) \<Longrightarrow> annotated_ok ns s \<Longrightarrow> annotated_ok ns (fold f xs s)"
  by (induction xs arbitrary: s) auto

lemma layer_declared: "layer_for p purpose = Inr layer \<Longrightarrow> layer \<in> set (layer_names p)"
  by (auto simp: layer_for_def split: option.splits if_splits)

lemma annotated_ok_update [simp]:
  "annotated_ok ns (s\<lparr>nr_missing_inputs := m\<rparr>) = annotated_ok ns s"
  "annotated_ok ns (s\<lparr>nr_defaults_applied := d\<rparr>) = annotated_ok ns s"
  by (simp_all add: annotated_ok_def)

lemma group_dimensions_ok:
  "layer \<in> set (layer_names (ns_profile ns)) \<Longrightarrow> annotated_ok ns s \<Longrightarrow>
   annotated_ok ns (group_dimensions ns layer datum threshold gi g s)"
  unfolding group_dimensions_def Let_def
  by (cases datum) (auto simp: location_dimensions_def Let_def intro!: annotated_ok_fold)

lemma dimensions_ok: "dimensions ns m datum s = Inr s' \<Longrightarrow> annotated_ok ns s \<Longrightarrow> annotated_ok ns s'"
  by (auto simp: dimensions_def bindR_Inr_iff Let_def dest!: layer_declared
      intro!: annotated_ok_fold group_dimensions_ok)

lemma add_operation_ok:
  "plan_operation_ok (ns_profile ns) op \<Longrightarrow> annotated_ok ns s \<Longrightarrow> annotated_ok ns (add_operation op s)"
  by (simp add: add_operation_def annotated_ok_def)

lemma centers_ok: "centers ns t m s = Inr s' \<Longrightarrow> annotated_ok ns s \<Longrightarrow> annotated_ok ns s'"
  by (auto simp: centers_def bindR_Inr_iff Let_def centermark_op_def centerline_op_def annotation_op_ok
      dest!: layer_declared intro!: annotated_ok_fold add_operation_ok)

lemma hole_table_ok: "hole_table ns m s = Inr s' \<Longrightarrow> annotated_ok ns s \<Longrightarrow> annotated_ok ns s'"
  by (auto simp: hole_table_def hole_table_row_def bindR_Inr_iff Let_def dest!: layer_declared
      elim!: fold_res_invariant [where P = "annotated_ok ns"] split: if_splits)

lemma title_block_ok: "title_block ns spec s = Inr s' \<Longrightarrow> annotated_ok ns s \<Longrightarrow> annotated_ok ns s'"
  by (auto simp: title_block_def title_block_field_text_def bindR_Inr_iff Let_def dest!: layer_declared elim!: fold_res_invariant [where P = "annotated_ok ns"] split: if_splits prod.splits)

lemma gdt_ok: "gdt ns spec s = Inr s' \<Longrightarrow> annotated_ok ns s \<Longrightarrow> annotated_ok ns s'"
  by (auto simp: gdt_def gdt_symbol_def gdt_frame_def bindR_Inr_iff dest!: layer_declared
      elim!: fold_res_invariant [where P = "annotated_ok ns"])

lemma annotated_ok_profile: "ns_profile ns = ns_profile ns' \<Longrightarrow> annotated_ok ns s = annotated_ok ns' s"
  by (simp add: annotated_ok_def)

lemma annotate_geometry_ok:
  "annotate_geometry pf t ns ops datum s = Inr s' \<Longrightarrow> annotated_ok ns s \<Longrightarrow> annotated_ok ns s'"
  unfolding annotate_geometry_def bindR_Inr_iff by (metis dimensions_ok centers_ok hole_table_ok)

lemma empty_ok [simp]: "annotated_ok ns empty_annotation_state"
  by (simp add: annotated_ok_def empty_annotation_state_def)

lemma start_ok:
  "annotate_geometry pf t ns' ops datum empty_annotation_state = Inr s \<Longrightarrow> ns_profile ns = ns_profile ns' \<Longrightarrow>
   annotated_ok ns s"
  using annotate_geometry_ok [of pf t ns' ops datum empty_annotation_state s] annotated_ok_profile [of ns ns']
  by simp

lemma finish_ok:
  "title_block ns spec s = Inr s1 \<Longrightarrow> gdt ns spec s1 = Inr s2 \<Longrightarrow> annotated_ok ns s \<Longrightarrow> ns_profile ns = p \<Longrightarrow>
   list_all (plan_operation_ok p) (nr_operations (annotation_result_of s2))"
  using title_block_ok [of ns spec s s1] gdt_ok [of ns spec s1 s2]
  by (simp add: annotated_ok_def annotation_result_of_def)

lemma annotate_ok:
  "annotate pf p t ops spec datum = Inr n \<Longrightarrow> list_all (plan_operation_ok p) (nr_operations n)"
  unfolding annotate_def Let_def
  by (auto simp: bindR_Inr_iff empty_annotation_def elim!: finish_ok start_ok split: if_split_asm)

lemma build_plan_sealed:
  assumes "build_plan pc spec jid revision pid ops exps = Inr plan"
  shows "pl_job_id plan = jid" "pl_plan_id plan = pid" "pl_document_id plan = sp_document_id spec"
    "pl_expected_revision plan = revision" "pl_profile_ref plan = as_ref (pc_profile pc)"
    "pl_canonical_units plan = MM" "pl_operations plan = ops"
    "\<exists>h. pl_plan_hash plan = Some h \<and> verify_hash (pc_sha pc) plan h = Inr True"
proof -
  from assms obtain p h where h: "compute_hash (pc_sha pc) p = Inr h" "plan = p\<lparr>pl_plan_hash := Some h\<rparr>"
    and p: "p = \<lparr>pl_schema_version = SCHEMA_VERSION, pl_plan_id = pid, pl_job_id = jid,
        pl_document_id = sp_document_id spec, pl_expected_revision = revision, pl_canonical_units = MM,
        pl_profile_ref = as_ref (pc_profile pc), pl_operations = ops, pl_validation_expectations = exps,
        pl_plan_hash = None\<rparr>"
    by (auto simp: build_plan_def with_hash_Inr simp del: compute_hash_identity)
  from h show "\<exists>h. pl_plan_hash plan = Some h \<and> verify_hash (pc_sha pc) plan h = Inr True"
    by (simp add: verify_hash_iff)
qed (use assms in \<open>auto simp: build_plan_def with_hash_Inr\<close>)


subsection \<open>Source-bound compilers are out of reach\<close>

definition internal_type :: "string \<Rightarrow> bool" where
  "internal_type ty \<longleftrightarrow> list_ex (\<lambda>c. ci_internal_only c \<and> ci_type c = ty) catalog"

fun mentions_internal :: "feature_spec \<Rightarrow> bool" where
  "mentions_internal (FeatureSpec fid ty d ms cs) \<longleftrightarrow> internal_type ty \<or> list_ex mentions_internal cs"

lemma internal_types: "internal_type ty \<longleftrightarrow>
  ty \<in> {''_recognized_part_outline'', ''_recognized_circular_hole'', ''_recognized_fillet_corner'',
    ''_recognized_chamfer_corner''}"
  by (auto simp: internal_type_def catalog_def rectangular_plate_info_def rectangular_hole_pattern_info_def
      bolt_circle_pattern_info_def flange_info_def slot_info_def l_bracket_info_def corner_notch_info_def
      edge_cutout_info_def keyway_info_def linear_hole_pattern_info_def reference_circle_info_def
      recognized_part_outline_info_def recognized_circular_hole_info_def recognized_fillet_corner_info_def
      recognized_chamfer_corner_info_def)

lemma validate_internal:
  assumes "internal_type (fs_type f)" "cx_source_model cx = None" "validate_any pc cx f = Inr r"
  shows "ir_missing r \<noteq> []"
proof -
  have "fs_type f \<noteq> RASTER_FEATURE"
    using assms(1) by (auto simp: internal_types RASTER_FEATURE_def)
  moreover from assms(1) have "get_compiler (fs_type f) = Inr c \<Longrightarrow> ci_internal_only c" for c
    unfolding internal_types
    by (auto simp: get_compiler_def catalog_def rectangular_plate_info_def rectangular_hole_pattern_info_def
      bolt_circle_pattern_info_def flange_info_def slot_info_def l_bracket_info_def corner_notch_info_def
      edge_cutout_info_def keyway_info_def linear_hole_pattern_info_def reference_circle_info_def
      recognized_part_outline_info_def recognized_circular_hole_info_def recognized_fillet_corner_info_def
      recognized_chamfer_corner_info_def)
  ultimately have "r = recognized_validate cx f"
    using assms(3) by (auto simp: validate_any_def validate_feature_def bindR_Inr_iff)
  then show ?thesis
    using assms(2) by (auto simp: recognized_validate_def Let_def require_param_def require_input_def)
qed

lemma source_model_for_child [simp]: "cx_source_model (placeholder_context cx fid) = cx_source_model cx"
  by (simp add: placeholder_context_def for_child_def)

lemma missing_for_internal:
  "mentions_internal f \<Longrightarrow> cx_source_model cx = None \<Longrightarrow> collect_missing pc cx f = Inr ms \<Longrightarrow> ms \<noteq> []"
proof (induction pc cx f arbitrary: ms rule: collect_missing.induct)
  case (1 pc cx f)
  from "1.prems"(3) obtain r mss where r: "validate_any pc cx f = Inr r"
    and t: "traverse (\<lambda>c. collect_missing pc (placeholder_context cx (fs_feature_id f)) c) (fs_children f) = Inr mss"
    and ms: "ms = ir_missing r @ concat mss"
    by (auto simp: collect_missing.simps [of pc cx f] bindR_Inr_iff)
  show ?case
  proof (cases "internal_type (fs_type f)")
    case True
    with validate_internal [OF True "1.prems"(2) r] ms show ?thesis by simp
  next
    case False
    with "1.prems"(1) obtain c where c: "c \<in> set (fs_children f)" "mentions_internal c"
      by (cases f) (auto simp: list_ex_iff)
    then obtain i where i: "i < length (fs_children f)" "fs_children f ! i = c" by (auto simp: in_set_conv_nth)
    with t have m: "collect_missing pc (placeholder_context cx (fs_feature_id f)) c = Inr (mss ! i)" "i < length mss"
      by (auto simp: traverse_Inr_iff list_all2_conv_all_nth)
    from "1.IH" [OF r c(1) c(2) _ m(1)] "1.prems"(2) have "mss ! i \<noteq> []" by simp
    with m(2) ms show ?thesis by (auto dest: nth_mem)
  qed
qed

text \<open>
  C17: A specification that names a source-bound compiler anywhere in its feature tree never becomes a
  plan: the compile context of an ordinary specification has no source model, and without one every
  such feature is an input still missing, whatever parameters it carries.
\<close>

theorem source_bound_unreachable:
  assumes "list_ex mentions_internal (sp_features spec)"
    and "compile_plan pc spec jid revision pid = Inr r"
  shows "needs_input r"
proof (rule ccontr)
  assume "\<not> needs_input r"
  then obtain plan where "co_plan r = Some plan" by (auto simp: needs_input_def)
  with assms(2) show False
  proof (rule compile_plan_Some)
    fix datum missing
    assume t: "traverse (collect_missing pc (root_context pc datum)) (sp_features spec) = Inr missing"
      and e: "concat missing = []"
    from assms(1) obtain i where i: "i < length (sp_features spec)" "mentions_internal (sp_features spec ! i)"
      by (auto simp: list_ex_length)
    with t have "collect_missing pc (root_context pc datum) (sp_features spec ! i) = Inr (missing ! i)" "i < length missing"
      by (auto simp: traverse_Inr_iff list_all2_conv_all_nth)
    with missing_for_internal [OF i(2) _ this(1)] e show False
      by (auto simp: root_context_def dest: nth_mem)
  qed
qed

subsection \<open>Concrete inputs\<close>

definition demo_circle :: feature_spec where
  "demo_circle = FeatureSpec ''c1'' ''reference_circle''
     [(''radius_mm'', PInt 5), (''layer_name'', PStr ''OBJECT''), (''center_mm'', PList [PInt 1, PInt 2])] [] []"

definition demo_sheet :: "feature_spec list \<Rightarrow> drawing_spec" where
  "demo_sheet fs =
     \<lparr>sp_schema_version = SCHEMA_VERSION, sp_spec_id = ''s1'', sp_document_id = ''d1'', sp_units = MM,
      sp_standard_profile = (''demo'', ''1''),
      sp_drawing = \<lparr>di_projection = ORTHOGRAPHIC, di_view = TOP_VIEW, di_views = [], di_datum = None\<rparr>,
      sp_features = fs,
      sp_annotations = \<lparr>an_general_tolerance = None, an_dimensions = NO_DIMENSIONS, an_title_block = None,
        an_title_block_values = [], an_dimension_style = None, an_datum_symbols = [], an_feature_control_frames = []\<rparr>,
      sp_assumptions = [], sp_explicit_defaults = []\<rparr>"

lemma demo_sheet_simps [simp]:
  "sp_features (demo_sheet fs) = fs" "sp_explicit_defaults (demo_sheet fs) = []"
  "sp_assumptions (demo_sheet fs) = []" "di_datum (sp_drawing (demo_sheet fs)) = None"
  "di_views (sp_drawing (demo_sheet fs)) = []" "sp_document_id (demo_sheet fs) = ''d1''"
  "an_dimensions (sp_annotations (demo_sheet fs)) = NO_DIMENSIONS"
  "\<not> has_non_dimension_annotations (demo_sheet fs)"
  by (simp_all add: demo_sheet_def has_non_dimension_annotations_def)

definition demo_compiler :: plan_compiler where
  "demo_compiler =
     \<lparr>pc_profile = demo_profile, pc_tolerance = default_tolerance ''t'' ''1'', pc_supported = None,
      pc_raster = None, pc_float = (\<lambda>_. None), pc_sha = (\<lambda>s. s)\<rparr>"

lemmas catalog_defs = catalog_def rectangular_plate_info_def rectangular_hole_pattern_info_def
  bolt_circle_pattern_info_def flange_info_def slot_info_def l_bracket_info_def corner_notch_info_def
  edge_cutout_info_def keyway_info_def linear_hole_pattern_info_def reference_circle_info_def
  recognized_part_outline_info_def recognized_circular_hole_info_def recognized_fillet_corner_info_def
  recognized_chamfer_corner_info_def

lemma reference_circle_info: "get_compiler ''reference_circle'' = Inr reference_circle_info"
  by (simp add: get_compiler_def catalog_defs)

lemma demo_validate: "reference_circle_validate pf cx demo_circle = Inr empty_report"
  if "cx_profile cx = demo_profile"
  using that
  by (simp add: reference_circle_validate_def demo_circle_def number_def pget_def given_def require_param_def
      require_input_def is_finite_float_def float_le0_def param_point_def raw_point_def py_float_def mk_point_def
      require_finite_def layer_names_def demo_profile_def Let_def)

definition demo_circle_compiled :: compiled_feature where
  "demo_circle_compiled =
     (let e = [(''layer'', PStr ''OBJECT''), (''center_mm'', point_val (Point2D 1 2)), (''radius_mm'', num_val 5),
           (''diameter_mm'', num_val 10), (''area_mm2'', num_val (25 * pi))] in
      mk_compiled ''c1''
        [mk_op ''c1'' ''circle'' CREATE_CIRCLE ''OBJECT''
          [(''center_mm'', point_val (Point2D 1 2)), (''diameter_mm'', num_val 10)] e]
        [mk_expectation ''REFERENCE_CIRCLE_GEOMETRY'' ''c1'' (Some (operation_id ''c1'' ''circle''))
          (e @ [(''circumference_mm'', num_val (10 * pi))])])"

lemma demo_compile:
  assumes "cx_profile cx = demo_profile"
  shows "compile_feature pf cx demo_circle = Inr demo_circle_compiled"
proof -
  have "compile_feature pf cx demo_circle = reference_circle_compile pf cx demo_circle"
    by (subst compile_feature.simps)
      (simp add: demo_circle_def reference_circle_info reference_circle_info_def flat_compile_def)
  also have "\<dots> = Inr demo_circle_compiled"
    by (simp add: reference_circle_compile_def demo_validate [OF assms] is_complete_def empty_report_def Let_def)
      (simp add: demo_circle_def param_point_def raw_point_def given_def pget_def py_float_def mk_point_def
        require_finite_def normalize_circle_def mk_curve_def demo_circle_compiled_def str_of_def Let_def)
  finally show ?thesis .
qed

definition demo_circle_plan :: operation_plan where
  "demo_circle_plan =
     \<lparr>pl_schema_version = SCHEMA_VERSION, pl_plan_id = ''p1'', pl_job_id = ''j1'', pl_document_id = ''d1'',
      pl_expected_revision = ''r1'', pl_canonical_units = MM, pl_profile_ref = as_ref demo_profile,
      pl_operations = cf_operations demo_circle_compiled,
      pl_validation_expectations = cf_expectations demo_circle_compiled, pl_plan_hash = None\<rparr>"

lemma demo_hash: "\<exists>h. compute_hash (\<lambda>s. s) demo_circle_plan = Inr h"
  by (simp add: compute_hash_def compute_plan_hash_def sha256_of_def canonical_json_def demo_circle_plan_def
      demo_circle_compiled_def mk_compiled_def mk_op_def mk_expectation_def operation_dump_def expectation_dump_def
      opt_str_def num_val_def point_val_def operation_id_def as_ref_def demo_profile_def Let_def
      plan_dump_def VOLATILE_FIELDS_def PLAN_IDENTITY_FIELDS_def less_eq_list_code less_list_code)

lemma demo_plan_compiled:
  "\<exists>r plan. compile_plan demo_compiler (demo_sheet [demo_circle]) ''j1'' ''r1'' ''p1'' = Inr r \<and> co_plan r = Some plan"
proof -
  have missing: "collect_missing demo_compiler (root_context demo_compiler None) demo_circle = Inr []"
    by (subst collect_missing.simps)
      (simp add: validate_any_def validate_feature_def demo_validate root_context_def demo_compiler_def empty_report_def
        demo_circle_def [THEN arg_cong [where f = fs_type]] demo_circle_def [THEN arg_cong [where f = fs_children]]
        RASTER_FEATURE_def reference_circle_info reference_circle_info_def)
  have geometry: "compile_geometry demo_compiler (root_context demo_compiler None) (demo_sheet [demo_circle]) =
      Inr (demo_circle_compiled\<lparr>cf_feature_id := []\<rparr>)"
    by (simp add: compile_geometry_def demo_sheet_def compile_any_def RASTER_FEATURE_def demo_compile
        root_context_def demo_compiler_def demo_circle_def [THEN arg_cong [where f = fs_type]] merge_compiled_def
        demo_circle_compiled_def mk_compiled_def Let_def)
  obtain h where "compute_hash (\<lambda>s. s) demo_circle_plan = Inr h" using demo_hash by blast
  then have "build_plan demo_compiler (demo_sheet [demo_circle]) ''j1'' ''r1'' ''p1''
      (cf_operations demo_circle_compiled) (cf_expectations demo_circle_compiled) =
      Inr (demo_circle_plan\<lparr>pl_plan_hash := Some h\<rparr>)"
    by (simp add: build_plan_def demo_compiler_def with_hash_def demo_circle_plan_def)
  moreover have "final_geometry demo_compiler (demo_sheet [demo_circle]) (cf_operations demo_circle_compiled) =
      Inr (cf_operations demo_circle_compiled)"
    by (simp add: final_geometry_def demo_circle_compiled_def Let_def is_center_operation_def mk_op_def)
  moreover have "compiler_preflight demo_compiler p = Inr ()" for p
    by (simp add: compiler_preflight_def demo_compiler_def)
  ultimately show ?thesis
    by (simp add: compile_plan_def Let_def resolve_datum_def missing geometry annotate_def empty_annotation_def
        reject_redundant_standalone_keyways_def demo_circle_def [THEN arg_cong [where f = fs_type]])
qed


definition demo_internal :: feature_spec where
  "demo_internal = FeatureSpec ''p1'' ''rectangular_plate''
     [(''width_mm'', PInt 10), (''height_mm'', PInt 10), (''thickness_mm'', PInt 2), (''origin_mm'', PList [PInt 0, PInt 0])]
     [] [FeatureSpec ''h1'' ''_recognized_circular_hole'' [] [] []]"

theorem source_bound_unreachable_witness:
  "\<exists>r. compile_plan demo_compiler (demo_sheet [demo_internal]) ''j1'' ''r1'' ''p1'' = Inr r \<and> needs_input r"
proof -
  have compilers: "get_compiler ''rectangular_plate'' = Inr rectangular_plate_info"
    "get_compiler ''_recognized_circular_hole'' = Inr recognized_circular_hole_info"
    by (simp_all add: get_compiler_def catalog_defs)
  have child: "collect_missing demo_compiler cx (FeatureSpec ''h1'' ''_recognized_circular_hole'' [] [] []) =
      Inr (ir_missing (recognized_validate cx (FeatureSpec ''h1'' ''_recognized_circular_hole'' [] [] [])))" for cx
    by (subst collect_missing.simps)
      (simp add: validate_any_def RASTER_FEATURE_def validate_feature_def compilers
        recognized_circular_hole_info_def)
  obtain ms where ms: "collect_missing demo_compiler (root_context demo_compiler None) demo_internal = Inr ms"
    by (subst (asm) collect_missing.simps)
      (simp add: demo_internal_def child validate_any_def RASTER_FEATURE_def validate_feature_def compilers
        rectangular_plate_info_def plate_validate_def plate_positive_def number_def pget_def float_le0_def)
  then have "ms \<noteq> []"
    by (rule missing_for_internal [rotated 2]) (simp_all add: demo_internal_def internal_types root_context_def)
  with ms obtain r where r: "compile_plan demo_compiler (demo_sheet [demo_internal]) ''j1'' ''r1'' ''p1'' = Inr r"
    by (auto simp: compile_plan_def Let_def resolve_datum_def reject_redundant_standalone_keyways_def
        demo_internal_def [THEN arg_cong [where f = fs_type]])
  from source_bound_unreachable [OF _ r] r show ?thesis by (auto simp: demo_internal_def internal_types)
qed

end
