(* ===== verification/AnnotationGuarantees.thy ===== *)
theory AnnotationGuarantees
  imports PlanGuarantees
begin

section \<open>Annotations and children\<close>

text \<open>
  What the placement of a text promises, and three places where a drawing says less than its
  specification: the diameter read back from a single circle, geometry made of lines and arcs only,
  and the children of a feature that is not a plate.
\<close>

subsection \<open>Placement\<close>

lemma first_min_on_in: "first_min_on key a bs \<in> insert a (set bs)"
  by (induction key a bs rule: first_min_on.induct) auto

lemma first_min_on_le: "x \<in> insert a (set bs) \<Longrightarrow> key (first_min_on key a bs) \<le> key x"
proof (induction key a bs arbitrary: x rule: first_min_on.induct)
  case (2 key a b bs)
  let ?m = "if key b < key a then b else a"
  have "key (first_min_on key ?m bs) \<le> key ?m" by (rule "2.IH") simp
  moreover have "key ?m \<le> key a" "key ?m \<le> key b" by auto
  moreover have "key (first_min_on key ?m bs) \<le> key y" if "y \<in> set bs" for y
    by (rule "2.IH") (use that in simp)
  ultimately show ?case using "2.prems" by auto
qed simp

definition candidate_boxes :: "string \<Rightarrow> real \<times> real \<Rightarrow> real \<Rightarrow> (real \<times> real) list \<Rightarrow> text_box list" where
  "candidate_boxes text anchor h offsets =
     map (\<lambda>(dx, dy). box_translated (box_of_text text anchor h) dx dy) offsets"

text \<open>
  C20: A text is placed without a warning only where it overlaps every text placed before it by no more
  than the limit, and its box is then remembered. A warning means that no candidate position is
  acceptable and that the chosen one has the least worst overlap of all of them; its box is not
  remembered, so a later text can cover it unnoticed.
\<close>

theorem place_text_sound:
  assumes "offsets \<noteq> []"
    and "place_text text anchor h occupied offsets limit fid oid = r"
  shows "pt_box r \<in> set (candidate_boxes text anchor h offsets) \<and>
    (pt_warning r = None \<longrightarrow> acceptable limit occupied (pt_box r) \<and> pt_occupied r = occupied @ [pt_box r]) \<and>
    (pt_warning r \<noteq> None \<longrightarrow> pt_occupied r = occupied \<and>
       (\<forall>b \<in> set (candidate_boxes text anchor h offsets).
          \<not> acceptable limit occupied b \<and> worst_overlap occupied (pt_box r) \<le> worst_overlap occupied b))"
proof -
  define cs where "cs = map (\<lambda>(dx, dy). ((dx, dy), box_translated (box_of_text text anchor h) dx dy)) offsets"
  have boxes: "set (candidate_boxes text anchor h offsets) = snd ` set cs"
    by (force simp: candidate_boxes_def cs_def)
  show ?thesis
  proof (cases "find (\<lambda>(_, b). acceptable limit occupied b) cs")
    case (Some k)
    obtain dx dy b where k: "k = ((dx, dy), b)" by (cases k) auto
    from Some have "k \<in> set cs" "acceptable limit occupied b"
      by (auto simp: find_Some_iff k in_set_conv_nth)
    then have b: "b \<in> snd ` set cs" by (force simp: k)
    from Some k assms(2) have "pt_box r = b" "pt_warning r = None" "pt_occupied r = occupied @ [b]"
      by (auto simp: place_text_def Let_def cs_def [symmetric])
    with b \<open>acceptable limit occupied b\<close> show ?thesis by (simp only: boxes) simp
  next
    case None
    then have none: "\<not> acceptable limit occupied (snd c)" if "c \<in> set cs" for c
      using that by (cases c) (auto simp: find_None_iff)
    have "cs \<noteq> []" using assms(1) by (simp add: cs_def)
    then have hd: "insert (hd cs) (set (tl cs)) = set cs" by (cases cs) auto
    obtain dx dy b where m: "first_min_on (\<lambda>c. worst_overlap occupied (snd c)) (hd cs) (tl cs) = ((dx, dy), b)"
      by (metis surj_pair)
    have "((dx, dy), b) \<in> set cs"
      using first_min_on_in [of "\<lambda>c. worst_overlap occupied (snd c)" "hd cs" "tl cs"] by (simp add: m hd)
    moreover have "worst_overlap occupied b \<le> worst_overlap occupied (snd c)" if "c \<in> set cs" for c
      using first_min_on_le [of c "hd cs" "tl cs" "\<lambda>c. worst_overlap occupied (snd c)"] that by (simp add: m hd)
    ultimately show ?thesis
      using None m none assms(2) by (force simp: place_text_def Let_def cs_def [symmetric] boxes)
  qed
qed

theorem place_text_sound_witness:
  "acceptable (1 / 10) [] (pt_box (place_text ''A'' (0, 0) 2 [] DEFAULT_OFFSETS_MM (1 / 10) ''f'' ''o''))"
  using place_text_sound [of DEFAULT_OFFSETS_MM "''A''" "(0, 0)" 2 "[]" "1 / 10" "''f''" "''o''"]
  by (simp add: DEFAULT_OFFSETS_MM_def acceptable_def)

subsection \<open>The diameter of a single circle\<close>

lemma is_substring_suffix: "is_substring p (s @ p)"
proof -
  have "length s \<in> set [0..<Suc (length (s @ p))]" by simp
  moreover have "starts_with (drop (length s) (s @ p)) p" by (simp add: starts_with_def)
  ultimately show ?thesis unfolding is_substring_def list_ex_iff by blast
qed

lemma ends_with_last: "ends_with s p \<Longrightarrow> p \<noteq> [] \<Longrightarrow> last s = last p"
  by (metis ends_with_def append_take_drop_id last_appendR)

lemma decode_point_val [simp]: "decode_vertex pf (point_val p) = Inr p"
  by (cases p) (simp add: decode_vertex_def point_val_def num_val_def py_float_def mk_point_def require_finite_def)

text \<open>
  C18: The bore of a flange without a keyway is drawn as one circle with the bore's diameter, and the
  annotation engine reads that circle back as a hole of half the diameter, so its dimension text is
  half of the true bore. A circle of a hole pattern keeps its diameter.
\<close>

theorem flange_bore_dimensioned_at_half:
  assumes "flange_bore pf cx fid d c bore = Inr (op, exps)"
    and "\<not> (given d ''keyway_width_mm'' \<and> given d ''keyway_depth_mm'')"
  shows "\<exists>b. bore = Fin b \<and> 0 < b \<and> map_of (op_geometry op) ''diameter_mm'' = Some (num_val b) \<and>
    operation_holes pf hole_layer op =
      Inr [\<lparr>ho_feature_id = fid, ho_source_operation_id = op_id op, ho_center = c, ho_diameter_mm = b / 2\<rparr>] \<and>
    operation_holes pf hole_layer (op\<lparr>op_type := CREATE_CIRCLES,
        op_geometry := [(''centers_mm'', points_val [c]), (''diameter_mm'', num_val b)]\<rparr>) =
      Inr [\<lparr>ho_feature_id = fid, ho_source_operation_id = op_id op, ho_center = c, ho_diameter_mm = b\<rparr>]"
proof -
  from assms obtain b layer e where b: "bore = Fin b" "0 < b"
    and op: "op = mk_op fid ''bore'' CREATE_CIRCLE layer
      [(''center_mm'', point_val c), (''diameter_mm'', num_val b)] e"
    unfolding flange_bore_def
    by (auto simp: bindR_Inr_iff normalize_circle_def mk_curve_def circle_geometry_def split: if_splits)
  have "is_substring ''bore'' (op_id op)"
    using is_substring_suffix [of "''bore''" "''op:'' @ fid @ '':''"] by (simp add: op mk_op_def operation_id_def)
  moreover have "\<not> ends_with (op_id op) '':outer''"
    using ends_with_last [of "op_id op" "'':outer''"] by (auto simp: op mk_op_def operation_id_def)
  ultimately have "is_hole_geometry hole_layer op" by (simp add: is_hole_geometry_def op mk_op_def)
  then show ?thesis
    using b by (simp add: operation_holes_def operation_entities_def op mk_op_def geometry_item_def num_val_def
        py_float_def mk_circle_def require_finite_def radius_mm_def is_hole_geometry_def points_val_def items_of_def)
qed

theorem flange_bore_dimensioned_at_half_witness:
  "\<exists>op exps. flange_bore (\<lambda>_. None) ((root_context demo_compiler None)\<lparr>cx_profile := demo_profile\<lparr>
       pf_layer_map := [(''hole'', ''OBJECT'')]\<rparr>\<rparr>) ''f1'' [] (Point2D 0 0) (Fin 40) = Inr (op, exps) \<and>
     operation_holes (\<lambda>_. None) ''OBJECT'' op =
       Inr [\<lparr>ho_feature_id = ''f1'', ho_source_operation_id = op_id op, ho_center = Point2D 0 0, ho_diameter_mm = 20\<rparr>]"
proof -
  obtain op exps where f: "flange_bore (\<lambda>_. None) ((root_context demo_compiler None)\<lparr>cx_profile := demo_profile\<lparr>
       pf_layer_map := [(''hole'', ''OBJECT'')]\<rparr>\<rparr>) ''f1'' [] (Point2D 0 0) (Fin 40) = Inr (op, exps)"
    by (simp add: flange_bore_def given_def pget_def normalize_circle_def mk_curve_def circle_geometry_def
        cx_layer_for_def layer_for_def layer_names_def demo_profile_def)
  from flange_bore_dimensioned_at_half [OF f, of "''OBJECT''"] f show ?thesis
    by (auto simp: given_def pget_def)
qed

subsection \<open>Lines and arcs have no extent\<close>

lemma unmeasured_entities:
  "op_type op \<notin> {CREATE_POLYLINE, CREATE_CLOSED_POLYLINE, CREATE_CIRCLES, CREATE_CIRCLE} \<Longrightarrow>
   operation_entities pf op = Inr []"
  by (simp add: operation_entities_def Let_def)

lemma lines_and_arcs_unmeasurable:
  assumes "\<forall>op \<in> set ops. op_type op \<in> {CREATE_LINE, CREATE_ARC}"
  shows "measure_geometry pf t hole_layer ops = Inl (Err InvalidGeometryError ''Cannot measure an empty entity set'')"
proof -
  have "traverse (operation_entities pf) ops = Inr (map (\<lambda>_. []) ops)"
    using assms by (induction ops) (auto simp: unmeasured_entities)
  then show ?thesis by (simp add: measure_geometry_def entity_set_bounding_box_def)
qed

subsection \<open>Children of a feature that is not a plate\<close>

lemma flat_ignores_children:
  assumes "ty \<noteq> ''reference_circle''"
  shows "flat_compile pf ty cx (FeatureSpec fid ty' d ms cs) = flat_compile pf ty cx (FeatureSpec fid ty' d ms' cs')"
proof -
  have rp: "require_param (FeatureSpec fid ty' d ms cs) = require_param (FeatureSpec fid ty' d ms' cs')"
    by (intro ext) (simp add: require_param_def param_prefix_def)
  have rn: "require_number (FeatureSpec fid ty' d ms cs) = require_number (FeatureSpec fid ty' d ms' cs')"
    by (intro ext) (simp add: require_number_def rp)
  have each:
    "rectangular_compile pf cx (FeatureSpec fid ty' d ms cs) =
      rectangular_compile pf cx (FeatureSpec fid ty' d ms' cs')"
    "bolt_compile pf cx (FeatureSpec fid ty' d ms cs) =
      bolt_compile pf cx (FeatureSpec fid ty' d ms' cs')"
    "flange_compile pf cx (FeatureSpec fid ty' d ms cs) =
      flange_compile pf cx (FeatureSpec fid ty' d ms' cs')"
    "slot_compile pf cx (FeatureSpec fid ty' d ms cs) =
      slot_compile pf cx (FeatureSpec fid ty' d ms' cs')"
    "bracket_compile pf cx (FeatureSpec fid ty' d ms cs) =
      bracket_compile pf cx (FeatureSpec fid ty' d ms' cs')"
    "corner_notch_compile pf cx (FeatureSpec fid ty' d ms cs) =
      corner_notch_compile pf cx (FeatureSpec fid ty' d ms' cs')"
    "edge_cutout_compile pf cx (FeatureSpec fid ty' d ms cs) =
      edge_cutout_compile pf cx (FeatureSpec fid ty' d ms' cs')"
    "keyway_compile pf cx (FeatureSpec fid ty' d ms cs) =
      keyway_compile pf cx (FeatureSpec fid ty' d ms' cs')"
    "linear_compile pf cx (FeatureSpec fid ty' d ms cs) =
      linear_compile pf cx (FeatureSpec fid ty' d ms' cs')"
    "recognized_outline_compile cx (FeatureSpec fid ty' d ms cs) =
      recognized_outline_compile cx (FeatureSpec fid ty' d ms' cs')"
    "recognized_hole_compile cx (FeatureSpec fid ty' d ms cs) =
      recognized_hole_compile cx (FeatureSpec fid ty' d ms' cs')"
    "recognized_fillet_compile cx (FeatureSpec fid ty' d ms cs) =
      recognized_fillet_compile cx (FeatureSpec fid ty' d ms' cs')"
    "recognized_chamfer_compile cx (FeatureSpec fid ty' d ms cs) =
      recognized_chamfer_compile cx (FeatureSpec fid ty' d ms' cs')"
    by (simp_all only: rectangular_compile_def rectangular_validate_def bolt_compile_def bolt_validate_def
      flange_compile_def flange_validate_def slot_compile_def slot_validate_def bracket_compile_def bracket_validate_def
      corner_notch_compile_def corner_notch_validate_def edge_cutout_compile_def edge_cutout_validate_def
      boundary_compiled_def keyway_compile_def keyway_validate_def linear_compile_def linear_validate_def
      recognized_outline_compile_def recognized_hole_compile_def recognized_fillet_compile_def
      recognized_chamfer_compile_def one_edge_compiled_def source_edge_def selection_def recognized_validate_def
      rp rn require_parent_def with_centermarks_def feature_spec.sel)
  show ?thesis unfolding flat_compile_def each using assms by simp
qed

text \<open>
  C19: Only the plate compiles its children. Any other feature of the catalog except the reference
  circle, which refuses them, compiles to the same result whatever children and modifiers it
  declares: they are checked for missing inputs and then left out of the plan.
\<close>

theorem children_left_out:
  assumes "get_compiler (fs_type f) = Inr i" "ci_type i \<notin> {''rectangular_plate'', ''reference_circle''}"
  shows "compile_feature pf cx f =
    compile_feature pf cx (FeatureSpec (fs_feature_id f) (fs_type f) (fs_parameters f) ms cs)"
  using assms flat_ignores_children [of "ci_type i" pf cx]
  by (cases f) (simp add: compile_feature.simps)

theorem children_left_out_witness:
  "\<forall>d. compile_feature (\<lambda>_. None) (root_context demo_compiler None)
      (FeatureSpec ''s1'' ''slot'' d [] [demo_circle]) =
    compile_feature (\<lambda>_. None) (root_context demo_compiler None) (FeatureSpec ''s1'' ''slot'' d [] [])"
proof
  fix d
  have "get_compiler ''slot'' = Inr slot_info" by (simp add: get_compiler_def catalog_defs)
  then show "compile_feature (\<lambda>_. None) (root_context demo_compiler None)
      (FeatureSpec ''s1'' ''slot'' d [] [demo_circle]) =
    compile_feature (\<lambda>_. None) (root_context demo_compiler None) (FeatureSpec ''s1'' ''slot'' d [] [])"
    using children_left_out [of "FeatureSpec ''s1'' ''slot'' d [] [demo_circle]" slot_info "\<lambda>_. None"
        "root_context demo_compiler None" "[]" "[]"]
    by (simp add: slot_info_def)
qed

end
