(* ===== verification/RuleGuarantees.thy ===== *)
theory RuleGuarantees
  imports AnnotationRules AnnotationGuarantees
begin

section \<open>What the geometry rules guarantee\<close>

text \<open>
  A plan without blocking findings of the outline, placement and spacing rules has simple outlines and
  holes inside the bounding box of their parent that do not overlap.
\<close>

subsection \<open>Inversion of a rule\<close>

lemma operations_rule_finding:
  assumes "ru_evaluate (operations_rule rid stages f) c = Inr fs" "rc_plan c = Some plan"
    and "op \<in> set (pl_operations plan)"
  obtains gs where "f c plan op = Inr gs" "set gs \<subseteq> set fs"
proof -
  from assms obtain fss where t: "traverse (f c plan) (pl_operations plan) = Inr fss" and fs: "fs = concat fss"
    by (auto simp: operations_rule_def require_plan_of_def bindR_Inr_iff)
  from assms(3) obtain i where i: "i < length (pl_operations plan)" "pl_operations plan ! i = op"
    by (auto simp: in_set_conv_nth)
  with t have "f c plan op = Inr (fss ! i)" "i < length fss"
    by (auto simp: traverse_Inr_iff list_all2_conv_all_nth)
  with fs show ?thesis by (intro that [of "fss ! i"]) (auto dest: nth_mem)
qed

lemma combinations2_nth:
  "i < j \<Longrightarrow> j < length xs \<Longrightarrow> (xs ! i, xs ! j) \<in> set (combinations2 xs)"
proof (induction xs arbitrary: i j)
  case (Cons x xs)
  show ?case
  proof (cases i)
    case 0
    with Cons.prems show ?thesis by (auto simp: nth_Cons' intro!: imageI)
  next
    case (Suc k)
    with Cons.prems have "(xs ! k, xs ! (j - 1)) \<in> set (combinations2 xs)" by (intro Cons.IH) auto
    with Suc Cons.prems show ?thesis by (auto simp: nth_Cons')
  qed
qed simp

definition unblocked :: "validation_rule \<Rightarrow> rule_context \<Rightarrow> bool" where
  "unblocked r c \<longleftrightarrow> (case ru_evaluate r c of Inr fs \<Rightarrow> list_all (\<lambda>f. fi_severity f \<noteq> BLOCKING) fs | Inl _ \<Rightarrow> False)"

lemma unblocked_findings:
  assumes "unblocked (operations_rule rid stages f) c" "rc_plan c = Some plan" "op \<in> set (pl_operations plan)"
  obtains gs where "f c plan op = Inr gs" "\<forall>g \<in> set gs. fi_severity g \<noteq> BLOCKING"
proof -
  from assms(1) obtain fs where run: "ru_evaluate (operations_rule rid stages f) c = Inr fs"
    and quiet: "\<forall>g \<in> set fs. fi_severity g \<noteq> BLOCKING"
    unfolding unblocked_def list_all_iff by (cases "ru_evaluate (operations_rule rid stages f) c") simp_all
  obtain gs where gs: "f c plan op = Inr gs" "set gs \<subseteq> set fs"
    by (rule operations_rule_finding [OF run assms(2,3)])
  show ?thesis by (rule that [OF gs(1)]) (use gs(2) quiet in blast)
qed

subsection \<open>Sound geometry\<close>

lemma bad_outline_blocks:
  assumes "has_zero_length_segment p t \<or> polyline_self_intersects p t"
  shows "\<exists>x \<in> set (outline_findings t op p). fi_severity x = BLOCKING"
  using assms by (elim disjE) (simp_all add: outline_findings_def Let_def)

lemma outline_unblocked:
  assumes "unblocked (ClosedOutlineRule pf) c" "rc_plan c = Some plan" "op \<in> set (pl_operations plan)"
    and "op_type op = CREATE_CLOSED_POLYLINE"
  shows "\<exists>vs. plan_points pf op ''vertices_mm'' = Inr vs \<and> 3 \<le> length vs \<and>
    \<not> has_zero_length_segment (Polyline2D vs True) (rc_tolerance c) \<and>
    \<not> polyline_self_intersects (Polyline2D vs True) (rc_tolerance c)"
proof (rule unblocked_findings [OF assms(1) [unfolded ClosedOutlineRule_def] assms(2,3)])
  fix gs
  assume g: "(if op_type op \<noteq> CREATE_CLOSED_POLYLINE then Inr []
     else bindR (plan_points pf op ''vertices_mm'') (\<lambda>vs.
       if length vs < 3
       then Inr [for_operation op ((finding_of ''GEO-OUTLINE-CLOSED'' BLOCKING
              ''A closed outline needs at least three vertices'')
            \<lparr>fi_expected := PStr ''>= 3 vertices'', fi_actual := PInt (int (length vs))\<rparr>)]
       else Inr (outline_findings (rc_tolerance c) op (Polyline2D vs True)))) = Inr gs"
    and ok: "\<forall>g \<in> set gs. fi_severity g \<noteq> BLOCKING"
  from g assms(4) obtain vs where vs: "plan_points pf op ''vertices_mm'' = Inr vs"
    and gs: "(if length vs < 3
       then Inr [for_operation op ((finding_of ''GEO-OUTLINE-CLOSED'' BLOCKING
              ''A closed outline needs at least three vertices'')
            \<lparr>fi_expected := PStr ''>= 3 vertices'', fi_actual := PInt (int (length vs))\<rparr>)]
       else Inr (outline_findings (rc_tolerance c) op (Polyline2D vs True))) = (Inr gs :: finding list res)"
    by (simp only: bindR_Inr_iff if_False simp_thms) blast
  have long: "3 \<le> length vs"
  proof (rule ccontr)
    assume "\<not> 3 \<le> length vs"
    with gs ok show False by auto
  qed
  with gs have "gs = outline_findings (rc_tolerance c) op (Polyline2D vs True)" by simp
  with ok bad_outline_blocks [of "Polyline2D vs True" "rc_tolerance c" op] long vs show ?thesis by blast
qed

lemma placement_unblocked:
  assumes "unblocked (HolePlacementRule pf) c" "rc_plan c = Some plan" "op \<in> set (pl_operations plan)"
    and "op_type op = CREATE_CIRCLES" "parent_of plan (op_feature_id op) = Some fid" "fid \<noteq> []"
    and "outline_of plan fid = Some outline"
    and vs: "plan_points pf outline ''vertices_mm'' = Inr vs" "polyline_box (Polyline2D vs True) = Inr box"
  shows "\<exists>cs d. plan_points pf op ''centers_mm'' = Inr cs \<and> hole_diameter pf op = Inr d \<and>
    (\<forall>p \<in> set cs. d / 2 \<le> distance_to_edge box p)"
proof (rule unblocked_findings [OF assms(1) [unfolded HolePlacementRule_def] assms(2,3)])
  fix gs
  assume g: "hole_placement pf c plan op = Inr gs" "\<forall>x \<in> set gs. fi_severity x \<noteq> BLOCKING"
  then obtain cs d where cs: "plan_points pf op ''centers_mm'' = Inr cs" and d: "hole_diameter pf op = Inr d"
    and gs: "gs = concat (map (\<lambda>i. hole_clearance_findings c op box (d / 2) i (cs ! i)) [0..<length cs])"
    using assms(4-7) vs
    by (auto simp: hole_placement_def bindR_Inr_iff Let_def mk_polyline_def split: if_splits)
  have "d / 2 \<le> distance_to_edge box p" if "p \<in> set cs" for p
  proof (rule ccontr)
    assume far: "\<not> d / 2 \<le> distance_to_edge box p"
    from that obtain i where i: "i < length cs" "cs ! i = p" by (auto simp: in_set_conv_nth)
    from far obtain x where "hole_clearance_findings c op box (d / 2) i p = [x]" "fi_severity x = BLOCKING"
      by (auto simp: hole_clearance_findings_def Let_def)
    with i gs have "x \<in> set gs" by force
    with g(2) \<open>fi_severity x = BLOCKING\<close> show False by blast
  qed
  with cs d show ?thesis by blast
qed

lemma spacing_unblocked:
  assumes "unblocked (HoleSpacingRule pf) c" "rc_plan c = Some plan" "op \<in> set (pl_operations plan)"
    and "op_type op = CREATE_CIRCLES" "plan_points pf op ''centers_mm'' = Inr cs" "hole_diameter pf op = Inr d"
    and "i < j" "j < length cs"
    and lig: "case pf_minimum_hole_ligament_mm (rc_profile c) of None \<Rightarrow> True | Some m \<Rightarrow> 0 \<le> m"
  shows "d \<le> distance_to (cs ! i) (cs ! j)"
proof (rule unblocked_findings [OF assms(1) [unfolded HoleSpacingRule_def] assms(2,3)])
  fix gs
  let ?m = "case pf_minimum_hole_ligament_mm (rc_profile c) of None \<Rightarrow> 0 | Some m \<Rightarrow> m"
  assume g: "hole_spacing pf c plan op = Inr gs" "\<forall>x \<in> set gs. fi_severity x \<noteq> BLOCKING"
  then have gs: "gs = concat (map (\<lambda>(a, b). spacing_findings c op d ?m a b) (combinations2 (zip [0..<length cs] cs)))"
    using assms(4-6) by (auto simp: hole_spacing_def Let_def)
  have pair: "((i, cs ! i), (j, cs ! j)) \<in> set (combinations2 (zip [0..<length cs] cs))"
    using combinations2_nth [of i j "zip [0..<length cs] cs"] assms(7,8) by simp
  show ?thesis
  proof (rule ccontr)
    assume near: "\<not> d \<le> distance_to (cs ! i) (cs ! j)"
    moreover have "0 \<le> ?m" using lig by (auto split: option.splits)
    ultimately obtain x where x: "spacing_findings c op d ?m (i, cs ! i) (j, cs ! j) = [x]" "fi_severity x = BLOCKING"
      by (auto simp: spacing_findings_def circles_overlap_def)
    then have "x \<in> set gs" using pair unfolding gs by force
    with g(2) x(2) show False by blast
  qed
qed


subsection \<open>A plate with two holes\<close>

definition demo_plate_op :: operation where
  "demo_plate_op =
     \<lparr>op_id = ''op:plate:outline'', op_feature_id = ''plate'', op_type = CREATE_CLOSED_POLYLINE, op_layer = ''OBJECT'',
      op_geometry = [(''vertices_mm'', PList (map point_val
        [Point2D 0 0, Point2D 100 0, Point2D 100 60, Point2D 0 60]))],
      op_expected = [], op_target_entity_ref = None\<rparr>"

definition demo_holes_op :: operation where
  "demo_holes_op =
     \<lparr>op_id = ''op:holes:circles'', op_feature_id = ''holes'', op_type = CREATE_CIRCLES, op_layer = ''OBJECT'',
      op_geometry = [(''centers_mm'', PList (map point_val [Point2D 20 30, Point2D 80 30])),
        (''diameter_mm'', PInt 10)],
      op_expected = [], op_target_entity_ref = None\<rparr>"

definition demo_holed_context :: rule_context where
  "demo_holed_context = demo_context\<lparr>rc_plan := Some (demo_plan\<lparr>
     pl_operations := [demo_plate_op, demo_holes_op],
     pl_validation_expectations := [\<lparr>ve_rule_id = ''GEO-HOLE-PLACEMENT'', ve_feature_id = Some ''holes'',
       ve_operation_id = Some ''op:holes:circles'',
       ve_expected = [(''parent_feature_id'', PStr ''plate'')]\<rparr>]\<rparr>)\<rparr>"

lemma distance_axis [simp]:
  "distance_to (Point2D x y) (Point2D u y) = \<bar>x - u\<bar>"
  "distance_to (Point2D x y) (Point2D x v) = \<bar>y - v\<bar>"
  by (simp_all add: distance_to_def)

lemma demo_plan_points [simp]:
  "plan_points pf demo_plate_op ''vertices_mm'' = Inr [Point2D 0 0, Point2D 100 0, Point2D 100 60, Point2D 0 60]"
  "plan_points pf demo_holes_op ''centers_mm'' = Inr [Point2D 20 30, Point2D 80 30]"
  by (simp_all add: plan_points_def demo_plate_op_def demo_holes_op_def items_of_def)

lemma demo_hole_diameter [simp]: "hole_diameter pf demo_holes_op = Inr 10"
  by (simp add: hole_diameter_def demo_holes_op_def finite_num_def py_float_def)

lemma demo_types [simp]:
  "op_type demo_plate_op = CREATE_CLOSED_POLYLINE" "op_type demo_holes_op = CREATE_CIRCLES"
  "op_feature_id demo_plate_op = ''plate''" "op_feature_id demo_holes_op = ''holes''"
  "op_expected demo_plate_op = []"
  by (simp_all add: demo_plate_op_def demo_holes_op_def)

lemma demo_tolerance [simp]:
  "rc_tolerance demo_holed_context = default_tolerance ''demo-mechanical-mm'' ''1.0''"
  "pf_minimum_hole_ligament_mm (rc_profile demo_holed_context) = None"
  "pf_minimum_hole_edge_distance_mm (rc_profile demo_holed_context) = None"
  by (simp_all add: demo_holed_context_def demo_context_def demo_profile_def)

definition demo_plate_outline :: polyline2d where
  "demo_plate_outline = Polyline2D [Point2D 0 0, Point2D 100 0, Point2D 100 60, Point2D 0 60] True"

lemma demo_outline_simple:
  "\<not> has_zero_length_segment demo_plate_outline (default_tolerance i v)"
  "\<not> polyline_self_intersects demo_plate_outline (default_tolerance i v)"
  by (simp_all add: demo_plate_outline_def has_zero_length_segment_def segments_def is_zero_length_def
      default_tolerance_def polyline_self_intersects_def segment_intersection_def vector_to_def cross_def
      upt_rec Let_def)

lemma demo_parent [simp]:
  "rc_plan demo_holed_context = Some plan \<Longrightarrow> parent_of plan ''holes'' = Some ''plate''"
  "rc_plan demo_holed_context = Some plan \<Longrightarrow> outline_of plan ''plate'' = Some demo_plate_op"
  "rc_plan demo_holed_context = Some plan \<Longrightarrow> pl_operations plan = [demo_plate_op, demo_holes_op]"
  by (auto simp: demo_holed_context_def parent_of_def is_str_def str_of_def pget_def outline_of_def last_operation_def)

lemma demo_rules_quiet:
  "unblocked (ClosedOutlineRule pf) demo_holed_context"
  "unblocked (HolePlacementRule pf) demo_holed_context"
  "unblocked (HoleSpacingRule pf) demo_holed_context"
proof -
  obtain plan where plan: "rc_plan demo_holed_context = Some plan" by (simp add: demo_holed_context_def)
  note demo = unblocked_def operations_rule_def require_plan_of_def plan demo_parent [OF plan]
  show "unblocked (ClosedOutlineRule pf) demo_holed_context"
    by (simp add: demo ClosedOutlineRule_def outline_findings_def Let_def pget_def loose_number_def
        demo_outline_simple [unfolded demo_plate_outline_def])
  show "unblocked (HolePlacementRule pf) demo_holed_context"
    by (simp add: demo HolePlacementRule_def hole_placement_def mk_polyline_def polyline_box_def
        box_from_points_def hole_clearance_findings_def distance_to_edge_def Let_def upt_rec)
  show "unblocked (HoleSpacingRule pf) demo_holed_context"
    by (simp add: demo HoleSpacingRule_def hole_spacing_def spacing_findings_def circles_overlap_def Let_def upt_rec)
qed


end
