(* ===== verification/Measurement.thy ===== *)
theory Measurement
  imports Measure RecognizedCompilers
begin

section \<open>The measurement service\<close>

text \<open>
  Models \<open>domain/models/measurement.py\<close> and \<open>MeasurementService.measure\<close> of
  \<open>application/services/measurement_service.py\<close>: which entities a request may name, how a drawn entity
  becomes a kernel entity, and the twelve measurements. The variant that runs in a separate process
  is not modelled.
\<close>

datatype measurement_kind =
    POINT_TO_POINT | POINT_TO_ENTITY | ENTITY_TO_ENTITY | ANGLE_BETWEEN_LINES | ARC_LENGTH
  | CONTOUR_PERIMETER | CONTOUR_AREA | DIAMETER | RADIUS | BOUNDING_BOX | HOLE_TO_EDGE
  | HOLE_CENTER_TO_CENTER

definition supported_entity_types :: "measurement_kind \<Rightarrow> string list" where
  "supported_entity_types k =
     (case k of
        POINT_TO_POINT \<Rightarrow> []
      | POINT_TO_ENTITY \<Rightarrow> [''line'', ''arc'', ''circle'', ''polyline'']
      | ENTITY_TO_ENTITY \<Rightarrow> [''line'', ''arc'', ''circle'', ''polyline'']
      | ANGLE_BETWEEN_LINES \<Rightarrow> [''line'']
      | ARC_LENGTH \<Rightarrow> [''arc'']
      | CONTOUR_PERIMETER \<Rightarrow> [''circle'', ''polyline'']
      | CONTOUR_AREA \<Rightarrow> [''circle'', ''polyline'']
      | DIAMETER \<Rightarrow> [''arc'', ''circle'']
      | RADIUS \<Rightarrow> [''arc'', ''circle'']
      | BOUNDING_BOX \<Rightarrow> [''line'', ''arc'', ''circle'', ''polyline'']
      | HOLE_TO_EDGE \<Rightarrow> [''circle'', ''polyline'']
      | HOLE_CENTER_TO_CENTER \<Rightarrow> [''circle''])"

record measurement_request =
  mq_kind :: measurement_kind
  mq_entity_refs :: "string list"
  mq_first_point_mm :: "point_tuple option"
  mq_second_point_mm :: "point_tuple option"

datatype measurement_value = Scalar real | BoxValue real real real real

record measurement_result =
  mr_schema_version :: string
  mr_kind :: measurement_kind
  mr_value :: measurement_value
  mr_unit :: measured_unit
  mr_tolerance_used :: real
  mr_document_id :: string
  mr_revision :: string
  mr_measurement_basis :: "string list"
  mr_entity_refs :: "string list"

definition is_box_value :: "measurement_value \<Rightarrow> bool" where
  "is_box_value v = (case v of BoxValue _ _ _ _ \<Rightarrow> True | Scalar _ \<Rightarrow> False)"

definition measurement_result_valid :: "measurement_result \<Rightarrow> measurement_result res" where
  "measurement_result_valid r =
     (if mr_kind r \<noteq> POINT_TO_POINT \<and> mr_entity_refs r = []
      then Inl (ValueError ''entity-based measurements require at least one entity_ref'')
      else if mr_kind r = BOUNDING_BOX \<and> \<not> is_box_value (mr_value r)
      then Inl (ValueError ''bounding_box value must contain min_x, min_y, max_x, max_y'')
      else if mr_kind r \<noteq> BOUNDING_BOX \<and> is_box_value (mr_value r)
      then Inl (ValueError ''only bounding_box measurements may return a tuple value'')
      else Inr r)"

subsection \<open>Entities\<close>

definition entity_kind :: "entity_geometry \<Rightarrow> string" where
  "entity_kind g =
     (case g of
        PointGeometry _ \<Rightarrow> ''point''
      | LineGeometry _ _ \<Rightarrow> ''line''
      | ArcGeometry _ _ _ _ \<Rightarrow> ''arc''
      | CircleGeometry _ _ \<Rightarrow> ''circle''
      | EllipseGeometry _ _ _ _ \<Rightarrow> ''ellipse''
      | PolylineGeometry _ _ \<Rightarrow> ''polyline''
      | TextGeometry _ _ _ _ \<Rightarrow> ''text''
      | DimensionGeometry _ _ _ _ _ \<Rightarrow> ''dimension''
      | HatchGeometry _ _ _ \<Rightarrow> ''hatch''
      | BlockReferenceGeometry _ _ _ _ _ _ _ _ \<Rightarrow> ''block_reference'')"

definition resolve_entity ::
  "drawing_model \<Rightarrow> measurement_kind \<Rightarrow> string \<Rightarrow> entity_record res" where
  "resolve_entity m k ref =
     (case entity_by_ref m ref of
        None \<Rightarrow> Inl (Err DocumentNotFoundError
          ''Measurement entity reference does not exist in the drawing revision'')
      | Some e \<Rightarrow>
          if entity_kind (en_geometry e) \<notin> set (supported_entity_types k)
          then Inl (Err InvalidFeatureParametersError ''Measurement is undefined for the supplied entity type'')
          else Inr e)"

definition resolve_entities ::
  "drawing_model \<Rightarrow> measurement_request \<Rightarrow> nat option \<Rightarrow> entity_record list res" where
  "resolve_entities m q expected_count =
     (if (case expected_count of Some n \<Rightarrow> length (mq_entity_refs q) \<noteq> n | None \<Rightarrow> False)
      then Inl (Err InvalidFeatureParametersError
        (''Measurement requires exactly '' @ show_nat (the expected_count) @ '' entity reference(s)''))
      else if expected_count = None \<and> mq_entity_refs q = []
      then Inl (Err InvalidFeatureParametersError ''Measurement requires at least one entity reference'')
      else traverse (resolve_entity m (mq_kind q)) (mq_entity_refs q))"

definition doubled :: "pyfloat \<Rightarrow> pyfloat" where
  "doubled x = (case x of Fin r \<Rightarrow> Fin (2 * r) | _ \<Rightarrow> x)"

text \<open>\<open>abs(bulge) > 1.0e-15\<close>: false for NaN.\<close>

definition is_bulged :: "polyline_vertex \<Rightarrow> bool" where
  "is_bulged v = (case pv_bulge v of Fin b \<Rightarrow> 1 / 10 ^ 15 < \<bar>b\<bar> | NotANumber \<Rightarrow> False | _ \<Rightarrow> True)"

definition segment_count :: "polyline_vertex list \<Rightarrow> bool \<Rightarrow> nat" where
  "segment_count vs cl = (if cl then length vs else length vs - 1)"

definition kernel_entity :: "entity_record \<Rightarrow> measurable res" where
  "kernel_entity e =
     (case en_geometry e of
        LineGeometry a b \<Rightarrow> bindR (point_of_tuple a) (\<lambda>p. bindR (point_of_tuple b) (\<lambda>q. Inr (MLine p q)))
      | ArcGeometry c radius a b \<Rightarrow>
          bindR (point_of_tuple c) (\<lambda>p. bindR (finite1 radius) (\<lambda>r. bindR (finite1 a) (\<lambda>s. bindR (finite1 b) (\<lambda>t.
          bindR (normalize_arc p r s (Some t) None) (\<lambda>arc. Inr (MCurve arc))))))
      | CircleGeometry c radius \<Rightarrow>
          bindR (point_of_tuple c) (\<lambda>p. bindR (mk_circle p (doubled radius)) (\<lambda>k. Inr (MCircle k)))
      | PolylineGeometry vs cl \<Rightarrow>
          if list_ex is_bulged (take (segment_count vs cl) vs)
          then bindR (traverse (polyline_edge vs []) [0..<segment_count vs cl]) (\<lambda>es.
            bindR (mk_curve_contour (map ec_edge es)) (\<lambda>_. Inr (MContour (map ec_edge es))))
          else bindR (traverse (\<lambda>v. point_of_tuple (pv_point_mm v)) vs) (\<lambda>ps.
            bindR (mk_polyline ps cl) (\<lambda>p. Inr (MPolyline p)))
      | _ \<Rightarrow> Inl (Err InvalidFeatureParametersError ''Entity geometry is not measurable''))"

definition request_point :: "point_tuple option \<Rightarrow> string \<Rightarrow> point2d res" where
  "request_point raw which =
     (case raw of
        None \<Rightarrow> Inl (Err InvalidFeatureParametersError (''Measurement requires '' @ which @ ''_point_mm''))
      | Some v \<Rightarrow> point_of_tuple v)"

definition is_open_geometry :: "entity_geometry \<Rightarrow> bool" where
  "is_open_geometry g = (case g of PolylineGeometry _ cl \<Rightarrow> \<not> cl | _ \<Rightarrow> False)"

definition contour_entity :: "entity_record \<Rightarrow> contour res" where
  "contour_entity e =
     (case en_geometry e of
        CircleGeometry c radius \<Rightarrow>
          bindR (point_of_tuple c) (\<lambda>p. bindR (finite1 radius) (\<lambda>r.
          bindR (normalize_circle p r) (\<lambda>k. mk_curve_contour [CurveEdge k])))
      | g \<Rightarrow>
          if is_open_geometry g
          then Inl (Err InvalidFeatureParametersError ''Contour measurement is undefined for an open contour'')
          else bindR (kernel_entity e) (\<lambda>k.
            case k of
              MPolyline p \<Rightarrow> Inr (PolyContour p)
            | MContour es \<Rightarrow> Inr (CurveContour es)
            | _ \<Rightarrow> Inl (Err InvalidFeatureParametersError ''Entity is not a contour'')))"

definition require_role_types :: "entity_record list \<Rightarrow> string list \<Rightarrow> unit res" where
  "require_role_types es kinds =
     (if list_all2 (\<lambda>e k. entity_kind (en_geometry e) = k) es kinds then Inr ()
      else Inl (Err InvalidFeatureParametersError
        ''Measurement entity references do not satisfy their required roles''))"

definition geometry_radius :: "entity_geometry \<Rightarrow> real res" where
  "geometry_radius g =
     (case g of ArcGeometry _ r _ _ \<Rightarrow> finite1 r | CircleGeometry _ r \<Rightarrow> finite1 r | _ \<Rightarrow> Inl AssertionError)"

subsection \<open>The twelve measurements\<close>

definition expected_count :: "measurement_kind \<Rightarrow> nat option" where
  "expected_count k =
     (if k = BOUNDING_BOX then None
      else Some (if k \<in> {ENTITY_TO_ENTITY, ANGLE_BETWEEN_LINES, HOLE_TO_EDGE, HOLE_CENTER_TO_CENTER} then 2 else 1))"

definition measure_value ::
  "tolerance_profile \<Rightarrow> measurement_request \<Rightarrow> entity_record list \<Rightarrow> measurable list \<Rightarrow> measurement_value res" where
  "measure_value t q es ks =
     (case (mq_kind q, ks) of
        (POINT_TO_ENTITY, k # _) \<Rightarrow>
          bindR (request_point (mq_first_point_mm q) ''first'') (\<lambda>p.
          bindR (point_entity_distance t p k) (\<lambda>v. Inr (Scalar v)))
      | (ENTITY_TO_ENTITY, [k, l]) \<Rightarrow> bindR (entity_entity_distance t k l) (\<lambda>v. Inr (Scalar v))
      | (ANGLE_BETWEEN_LINES, [MLine a b, MLine c d]) \<Rightarrow> bindR (line_angle_deg t a b c d) (\<lambda>v. Inr (Scalar v))
      | (ARC_LENGTH, MCurve c # _) \<Rightarrow> bindR (arc_length c) (\<lambda>v. Inr (Scalar v))
      | (CONTOUR_PERIMETER, _ # _) \<Rightarrow>
          bindR (contour_entity (hd es)) (\<lambda>c. bindR (contour_length c) (\<lambda>v. Inr (Scalar v)))
      | (CONTOUR_AREA, _ # _) \<Rightarrow>
          bindR (contour_entity (hd es)) (\<lambda>c. bindR (closed_contour_area c) (\<lambda>v. Inr (Scalar v)))
      | (DIAMETER, _ # _) \<Rightarrow> bindR (geometry_radius (en_geometry (hd es))) (\<lambda>r. Inr (Scalar (r * 2)))
      | (RADIUS, _ # _) \<Rightarrow> bindR (geometry_radius (en_geometry (hd es))) (\<lambda>r. Inr (Scalar r))
      | (BOUNDING_BOX, _) \<Rightarrow> bindR (entity_set_bounding_box t ks) (\<lambda>b.
          Inr (BoxValue (bb_min_x b) (bb_min_y b) (bb_max_x b) (bb_max_y b)))
      | (HOLE_TO_EDGE, [k, l]) \<Rightarrow>
          bindR (require_role_types es [''circle'', ''polyline'']) (\<lambda>_.
            case k of MCircle hole \<Rightarrow> bindR (hole_boundary_distance t hole l) (\<lambda>v. Inr (Scalar v))
            | _ \<Rightarrow> Inl AssertionError)
      | (HOLE_CENTER_TO_CENTER, [k, l]) \<Rightarrow>
          bindR (require_role_types es [''circle'', ''circle'']) (\<lambda>_.
            case (k, l) of (MCircle a, MCircle b) \<Rightarrow> Inr (Scalar (center_center_distance a b))
            | _ \<Rightarrow> Inl AssertionError)
      | _ \<Rightarrow> Inl AssertionError)"

definition measurement_unit :: "measurement_kind \<Rightarrow> measured_unit" where
  "measurement_unit k =
     (if k = ANGLE_BETWEEN_LINES then UNIT_DEG else if k = CONTOUR_AREA then UNIT_MM2 else UNIT_MM)"

definition measurement_basis :: "measurement_kind \<Rightarrow> string list" where
  "measurement_basis k =
     (case k of
        POINT_TO_POINT \<Rightarrow> [''explicit_point'', ''explicit_point'']
      | POINT_TO_ENTITY \<Rightarrow> [''explicit_point'', ''nearest_point'']
      | ENTITY_TO_ENTITY \<Rightarrow> [''nearest_point'', ''nearest_point'']
      | ANGLE_BETWEEN_LINES \<Rightarrow> [''line_direction'', ''line_direction'']
      | ARC_LENGTH \<Rightarrow> [''arc_parameterization'']
      | CONTOUR_PERIMETER \<Rightarrow> [''closed_boundary'']
      | CONTOUR_AREA \<Rightarrow> [''closed_boundary'']
      | DIAMETER \<Rightarrow> [''circle_or_arc_center'']
      | RADIUS \<Rightarrow> [''circle_or_arc_center'']
      | BOUNDING_BOX \<Rightarrow> [''entity_extents'']
      | HOLE_TO_EDGE \<Rightarrow> [''hole_boundary'', ''nearest_outline_point'']
      | HOLE_CENTER_TO_CENTER \<Rightarrow> [''center'', ''center''])"

definition measured_result ::
  "drawing_model \<Rightarrow> measurement_request \<Rightarrow> tolerance_profile \<Rightarrow> measurement_value \<Rightarrow> measurement_result res" where
  "measured_result m q t v =
     measurement_result_valid
       \<lparr>mr_schema_version = SCHEMA_VERSION, mr_kind = mq_kind q, mr_value = v,
        mr_unit = measurement_unit (mq_kind q),
        mr_tolerance_used = (case measurement_unit (mq_kind q) of
            UNIT_DEG \<Rightarrow> tp_angular_deg t | UNIT_MM2 \<Rightarrow> tp_area_mm2 t | _ \<Rightarrow> tp_absolute_length_mm t),
        mr_document_id = dm_document_id m, mr_revision = dm_revision m,
        mr_measurement_basis = measurement_basis (mq_kind q), mr_entity_refs = mq_entity_refs q\<rparr>"

definition measure_request ::
  "drawing_model \<Rightarrow> measurement_request \<Rightarrow> tolerance_profile \<Rightarrow> measurement_result res" where
  "measure_request m q t =
     (if \<not> dm_geometry_normalized m
      then Inl (Err InvalidFeatureParametersError
        ''Measurement requires a DrawingModel normalized to millimetres'')
      else if mq_kind q = POINT_TO_POINT
      then if mq_entity_refs q \<noteq> []
           then Inl (Err InvalidFeatureParametersError
             ''Point-to-point measurement does not accept entity_refs'')
           else bindR (request_point (mq_first_point_mm q) ''first'') (\<lambda>a.
             bindR (request_point (mq_second_point_mm q) ''second'') (\<lambda>b.
               measured_result m q t (Scalar (point_point_distance a b))))
      else bindR (resolve_entities m q (expected_count (mq_kind q))) (\<lambda>es.
        bindR (traverse kernel_entity es) (\<lambda>ks.
        bindR (measure_value t q es ks) (measured_result m q t))))"

subsection \<open>A measurement between two entities does not depend on their order\<close>

lemma segment_meets_sym:
  "segment_intersection a b c d t \<noteq> None \<longleftrightarrow> segment_intersection c d a b t \<noteq> None"
proof -
  let ?v = "vector_to a b" and ?w = "vector_to c d"
  have den: "cross ?w ?v = - cross ?v ?w" by (simp add: cross_def)
  have flip: "cross (vector_to c a) x = - cross (vector_to a c) x" for x
    by (simp add: cross_def vector_to_def algebra_simps)
  show ?thesis by (auto simp: segment_intersection_def Let_def den flip)
qed

lemma segment_distance_sym: "segment_distance t s r = segment_distance t r s"
proof -
  obtain a b c d where "s = (a, b)" "r = (c, d)" by (cases s; cases r)
  then show ?thesis using segment_meets_sym [of a b c d t]
    by (auto simp: segment_distance_def Let_def min.commute)
qed

lemma entity_distance_sym:
  assumes "entity_entity_distance t k l = Inr v"
  shows "entity_entity_distance t l k = Inr v"
proof -
  have pair: "entity_entity_distance t l k = Inr v"
    if s: "entity_segments t k = Inr ss" "entity_segments t l = Inr rs"
      and m: "min_list_of (map (\<lambda>(a, b). segment_distance t a b) (List.product ss rs)) = Inr v"
      and e: "entity_entity_distance t l k = bindR (entity_segments t l) (\<lambda>ss1. bindR (entity_segments t k) (\<lambda>ss2.
            min_list_of (map (\<lambda>(a, b). segment_distance t a b) (List.product ss1 ss2))))" for ss rs
  proof -
    have "set (map (\<lambda>(a, b). segment_distance t a b) (List.product ss rs)) =
        set (map (\<lambda>(a, b). segment_distance t a b) (List.product rs ss))"
      by (auto simp: segment_distance_sym image_iff) (metis segment_distance_sym)+
    from min_list_cong [OF this m] s e show ?thesis by simp
  qed
  show ?thesis
    using assms pair by (cases k; cases l) (auto simp: entity_entity_distance_def distance_to_sym
        bindR_Inr_iff algebra_simps)
qed

end
