(* ===== verification/Recognizer.thy ===== *)
theory Recognizer
  imports Measurement
begin

section \<open>Recognition of features in a drawing\<close>

text \<open>
  Models \<open>domain/models/recognition.py\<close> and \<open>comprehension/recognizer.py\<close>: outlines, holes, hole
  patterns, slots, fillets and chamfers found in the contours of a drawing, the candidates of an
  ambiguous finding, and the specification made from a recognised feature. The references of a feature
  are never empty, since a contour has an edge, so the constructors of measured values do not raise.
\<close>

subsection \<open>Recognised features\<close>

datatype recognized_feature_type =
    PART_OUTLINE | CIRCULAR_HOLE | RECTANGULAR_HOLE_PATTERN | BOLT_CIRCLE_PATTERN | SLOT
  | FILLET_CORNER | CHAMFER_CORNER

definition recognized_type_value :: "recognized_feature_type \<Rightarrow> string" where
  "recognized_type_value k =
     (case k of PART_OUTLINE \<Rightarrow> ''part_outline'' | CIRCULAR_HOLE \<Rightarrow> ''circular_hole''
      | RECTANGULAR_HOLE_PATTERN \<Rightarrow> ''rectangular_hole_pattern'' | BOLT_CIRCLE_PATTERN \<Rightarrow> ''bolt_circle_pattern''
      | SLOT \<Rightarrow> ''slot'' | FILLET_CORNER \<Rightarrow> ''fillet_corner'' | CHAMFER_CORNER \<Rightarrow> ''chamfer_corner'')"

definition SOURCE_BOUND_TYPES :: "recognized_feature_type list" where
  "SOURCE_BOUND_TYPES = [PART_OUTLINE, CIRCULAR_HOLE, FILLET_CORNER, CHAMFER_CORNER]"

record recognized_feature =
  rf_feature_type :: recognized_feature_type
  rf_source_revision :: string
  rf_entity_refs :: "string list"
  rf_parameters :: "(string \<times> measured_value) list"
  rf_evidence :: "(string \<times> real) list"

definition feature_value :: "recognized_feature \<Rightarrow> string \<Rightarrow> pyfloat res" where
  "feature_value f name =
     (case map_of (rf_parameters f) name of
        Some v \<Rightarrow> Inr (mv_value v)
      | None \<Rightarrow> Inl (Err InvalidFeatureParametersError
          (''Recognized feature lacks measured parameter '' @ quoted name)))"

text \<open>\<open>round(x)\<close> of a float; an infinity or a NaN raises.\<close>

definition py_round :: "pyfloat \<Rightarrow> int res" where
  "py_round x = (case x of Fin r \<Rightarrow> Inr (round_half_even r)
     | _ \<Rightarrow> Inl (ValueError ''cannot convert float to integer''))"

text \<open>A parameter copied from a measured value, and one rounded to a count.\<close>

definition value_parameter :: "recognized_feature \<Rightarrow> string \<times> string \<Rightarrow> (string \<times> pyval) res" where
  "value_parameter f p = bindR (feature_value f (snd p)) (\<lambda>v. Inr (fst p, PFloat v))"

definition count_parameter :: "recognized_feature \<Rightarrow> string \<Rightarrow> (string \<times> pyval) res" where
  "count_parameter f name = bindR (feature_value f name) (\<lambda>v. bindR (py_round v) (\<lambda>n. Inr (name, PInt n)))"

definition center_parameter :: "recognized_feature \<Rightarrow> (string \<times> pyval) res" where
  "center_parameter f =
     bindR (feature_value f ''center_x_mm'') (\<lambda>x. bindR (feature_value f ''center_y_mm'') (\<lambda>y.
       Inr (''center_mm'', PList [PFloat x, PFloat y])))"

definition mapped_parameters :: "recognized_feature \<Rightarrow> (string \<times> pydict) res" where
  "mapped_parameters f =
     (let k = rf_feature_type f; val = (\<lambda>n. value_parameter f (n, n)) in
      if k \<in> set SOURCE_BOUND_TYPES
      then Inr (''_recognized_'' @ recognized_type_value k,
        [(''source_revision'', PStr (rf_source_revision f)),
         (''source_entity_refs'', PList (map PStr (rf_entity_refs f)))] @
        (case map_of (rf_evidence f) ''source_edge_index'' of
           None \<Rightarrow> [] | Some i \<Rightarrow> [(''source_edge_index'', PInt (round_half_even i))]))
      else if k = RECTANGULAR_HOLE_PATTERN
      then bindR (val ''hole_diameter_mm'') (\<lambda>a. bindR (count_parameter f ''count_x'') (\<lambda>b.
        bindR (count_parameter f ''count_y'') (\<lambda>c. bindR (val ''pitch_x_mm'') (\<lambda>d. bindR (val ''pitch_y_mm'') (\<lambda>e.
        bindR (value_parameter f (''edge_offset_x_mm'', ''origin_x_mm'')) (\<lambda>g.
        bindR (value_parameter f (''edge_offset_y_mm'', ''origin_y_mm'')) (\<lambda>h.
          Inr (recognized_type_value k, [a, b, c, d, e, g, h]))))))))
      else if k = BOLT_CIRCLE_PATTERN
      then bindR (val ''hole_diameter_mm'') (\<lambda>a. bindR (val ''pcd_mm'') (\<lambda>b. bindR (count_parameter f ''count'') (\<lambda>c.
        bindR (center_parameter f) (\<lambda>d. bindR (val ''start_angle_deg'') (\<lambda>e.
          Inr (recognized_type_value k, [a, b, c, d, e]))))))
      else bindR (val ''length_mm'') (\<lambda>a. bindR (val ''width_mm'') (\<lambda>b. bindR (center_parameter f) (\<lambda>c.
        bindR (val ''angle_deg'') (\<lambda>d. Inr (recognized_type_value k, [a, b, c, d])))))) "

definition to_feature_spec :: "recognized_feature \<Rightarrow> string \<Rightarrow> pydict \<Rightarrow> feature_spec res" where
  "to_feature_spec f fid supplied =
     (if rf_feature_type f \<in> set SOURCE_BOUND_TYPES \<and> supplied \<noteq> []
      then Inl (Err InvalidFeatureParametersError
        ''Source-bound recognition specs cannot accept caller-supplied parameters'')
      else if set (map fst (rf_parameters f)) \<inter> set (map fst supplied) \<noteq> {}
      then Inl (Err InvalidFeatureParametersError
        ''User-supplied values cannot override measured recognition parameters'')
      else bindR (mapped_parameters f) (\<lambda>(ty, ps).
        Inr (FeatureSpec fid ty (fold (\<lambda>(k, v) d. dset d k v) supplied ps) [] [])))"

record candidate_explanation =
  ce_candidate_id :: string
  ce_feature :: recognized_feature
  ce_rationale :: string

record recognition_report =
  rr_schema_version :: string
  rr_document_id :: string
  rr_revision :: string
  rr_features :: "recognized_feature list"
  rr_ambiguous_groups :: "candidate_explanation list list"
  rr_open_contours :: "open_contour_finding list"

definition mk_feature ::
  "recognized_feature_type \<Rightarrow> string list \<Rightarrow> (string \<times> real \<times> measured_unit) list \<Rightarrow> (string \<times> real) list \<Rightarrow>
   recognized_feature" where
  "mk_feature k refs values evidence =
     \<lparr>rf_feature_type = k, rf_source_revision = [], rf_entity_refs = refs,
      rf_parameters = map (\<lambda>(name, v, u). (name, \<lparr>mv_value = Fin v, mv_unit = u, mv_provenance = MEASURED,
        mv_entity_refs = refs\<rparr>)) values,
      rf_evidence = evidence\<rparr>"

subsection \<open>Outlines\<close>

definition assembled_vertices :: "tolerance_profile \<Rightarrow> assembled_contour \<Rightarrow> point2d list res" where
  "assembled_vertices t c =
     (case ac_contour c of
        CurveContour es \<Rightarrow> contour_vertices es (tp_arc_chord_tolerance_mm t)
      | PolyContour p \<Rightarrow> Inr (vertices p))"

definition point_on_contour :: "tolerance_profile \<Rightarrow> point2d \<Rightarrow> assembled_contour \<Rightarrow> bool res" where
  "point_on_contour t p c =
     bindR (assembled_vertices t c) (\<lambda>vs. Inr (list_ex (\<lambda>v. distance_to p v \<le> 1 / 10 ^ 9) vs))"

definition axis_aligned_edge :: "tolerance_profile \<Rightarrow> edge_record \<Rightarrow> bool" where
  "axis_aligned_edge t r =
     (case ec_edge r of
        LineEdge a b \<Rightarrow> is_zero_length t \<bar>vdx (vector_to a b)\<bar> \<or> is_zero_length t \<bar>vdy (vector_to a b)\<bar>
      | CurveEdge _ \<Rightarrow> False)"

definition axis_aligned_rectangle :: "tolerance_profile \<Rightarrow> assembled_contour \<Rightarrow> bool" where
  "axis_aligned_rectangle t c \<longleftrightarrow> length (ac_edges c) = 4 \<and> list_all (axis_aligned_edge t) (ac_edges c)"

definition outline_feature :: "tolerance_profile \<Rightarrow> assembled_contour \<Rightarrow> recognized_feature res" where
  "outline_feature t c =
     bindR (assembled_vertices t c) (\<lambda>vs.
     bindR (max_list_of (map px vs)) (\<lambda>x1. bindR (min_list_of (map px vs)) (\<lambda>x0.
     bindR (max_list_of (map py vs)) (\<lambda>y1. bindR (min_list_of (map py vs)) (\<lambda>y0.
     bindR (contour_area (ac_contour c)) (\<lambda>a.
       Inr (mk_feature PART_OUTLINE (ac_entity_refs c)
         [(''width_mm'', x1 - x0, UNIT_MM), (''height_mm'', y1 - y0, UNIT_MM), (''area_mm2'', a, UNIT_MM2),
          (''origin_x_mm'', x0, UNIT_MM), (''origin_y_mm'', y0, UNIT_MM)]
         [(''axis_aligned_rectangle'', if axis_aligned_rectangle t c then 1 else 0)])))))))"

subsection \<open>Circles and patterns of circles\<close>

type_synonym circle_datum = "string \<times> point2d \<times> real"

definition circle_datum_of :: "entity_record \<Rightarrow> circle_datum list res" where
  "circle_datum_of e =
     (case en_geometry e of
        CircleGeometry c radius \<Rightarrow>
          bindR (point_of_tuple c) (\<lambda>p. bindR (finite1 radius) (\<lambda>r. Inr [(en_entity_ref e, p, r)]))
      | _ \<Rightarrow> Inr [])"

definition circle_data :: "drawing_model \<Rightarrow> circle_datum list res" where
  "circle_data m = bindR (traverse circle_datum_of (dm_entities m)) (\<lambda>xs. Inr (concat xs))"

fun add_to_group :: "tolerance_profile \<Rightarrow> circle_datum \<Rightarrow> circle_datum list list \<Rightarrow> circle_datum list list" where
  "add_to_group t c [] = [[c]]"
| "add_to_group t c (g # gs) =
     (if length_close t (Fin (snd (snd c))) (Fin (snd (snd (hd g)))) then (g @ [c]) # gs
      else g # add_to_group t c gs)"

definition same_radius_groups :: "tolerance_profile \<Rightarrow> circle_datum list \<Rightarrow> circle_datum list list" where
  "same_radius_groups t cs = fold (add_to_group t) cs []"

definition mean :: "real list \<Rightarrow> real" where
  "mean xs = sum_list xs / real (length xs)"

definition add_level :: "tolerance_profile \<Rightarrow> real \<Rightarrow> real list list \<Rightarrow> real list list" where
  "add_level t v ls =
     (if ls \<noteq> [] \<and> is_coincident t \<bar>v - last (last ls)\<bar> then butlast ls @ [last ls @ [v]] else ls @ [[v]])"

definition axis_levels :: "tolerance_profile \<Rightarrow> real list \<Rightarrow> real list" where
  "axis_levels t values = map mean (fold (add_level t) (sort values) [])"

definition mean_pitch :: "real list \<Rightarrow> real" where
  "mean_pitch xs = sum_list (map (\<lambda>(a, b). b - a) (pairwise xs)) / real (length xs - 1)"

definition rectangular_pattern :: "tolerance_profile \<Rightarrow> circle_datum list \<Rightarrow> recognized_feature option" where
  "rectangular_pattern t g =
     (let xs = axis_levels t (map (\<lambda>c. px (fst (snd c))) g); ys = axis_levels t (map (\<lambda>c. py (fst (snd c))) g) in
      if length g < 4 then None
      else if length xs < 2 \<or> length ys < 2 \<or> length xs * length ys \<noteq> length g then None
      else if \<not> list_all (\<lambda>x. list_all (\<lambda>y.
          list_ex (\<lambda>c. is_coincident t (distance_to (fst (snd c)) (Point2D x y))) g) ys) xs then None
      else Some (mk_feature RECTANGULAR_HOLE_PATTERN (map fst g)
        [(''hole_diameter_mm'', 2 * snd (snd (hd g)), UNIT_MM),
         (''count_x'', real (length xs), UNIT_COUNT), (''count_y'', real (length ys), UNIT_COUNT),
         (''pitch_x_mm'', mean_pitch xs, UNIT_MM), (''pitch_y_mm'', mean_pitch ys, UNIT_MM),
         (''origin_x_mm'', hd xs, UNIT_MM), (''origin_y_mm'', hd ys, UNIT_MM)]
        [(''maximum_grid_deviation_mm'', 0)]))"

definition bolt_pattern :: "tolerance_profile \<Rightarrow> circle_datum list \<Rightarrow> recognized_feature option" where
  "bolt_pattern t g =
     (let ps = map (\<lambda>c. fst (snd c)) g; c = Point2D (mean (map px ps)) (mean (map py ps));
          radii = map (distance_to c) ps; mean_radius = mean radii;
          deviation = fold max (map (\<lambda>r. \<bar>r - mean_radius\<bar>) radii) 0 in
      if length g < 3 then None
      else if tp_coincidence_mm t < deviation then None
      else if list_ex (\<lambda>gap. \<not> angle_close_deg t (Fin gap) (Fin (360 / real (length g)))) (angular_spacing_deg c ps)
      then None
      else Some (mk_feature BOLT_CIRCLE_PATTERN (map fst g)
        [(''hole_diameter_mm'', 2 * snd (snd (hd g)), UNIT_MM), (''pcd_mm'', 2 * mean_radius, UNIT_MM),
         (''count'', real (length g), UNIT_COUNT), (''center_x_mm'', px c, UNIT_MM), (''center_y_mm'', py c, UNIT_MM),
         (''start_angle_deg'', fmod (degrees (atan2 (py (hd ps) - py c) (px (hd ps) - px c))) 360, UNIT_DEG),
         (''max_center_deviation_mm'', deviation, UNIT_MM)]
        [(''max_center_deviation_mm'', deviation)]))"

subsection \<open>Slots, fillets and chamfers\<close>

definition neighbour :: "edge_record list \<Rightarrow> nat \<Rightarrow> nat \<Rightarrow> edge_record" where
  "neighbour es i step = es ! ((i + step) mod length es)"

definition edge_before :: "edge_record list \<Rightarrow> nat \<Rightarrow> edge_record" where
  "edge_before es i = neighbour es i (length es - 1)"

definition edge_after :: "edge_record list \<Rightarrow> nat \<Rightarrow> edge_record" where
  "edge_after es i = neighbour es i 1"

definition is_tangent :: "tolerance_profile \<Rightarrow> point2d \<Rightarrow> point2d \<Rightarrow> curve_params \<Rightarrow> point2d \<Rightarrow> bool" where
  "is_tangent t a b arc p =
     (let v = vector_to a b; w = vector_to (cu_center arc) p; scale = vlength v * vlength w in
      if scale \<le> 0 then False
      else \<bar>dot v w\<bar> / scale \<le> sin (radians (max (tp_angular_deg t) (1 / 10 ^ 6))))"

text \<open>Both neighbours of an arc are lines tangent to it.\<close>

definition tangent_joins :: "tolerance_profile \<Rightarrow> edge_record list \<Rightarrow> nat \<Rightarrow> curve_params \<Rightarrow> bool res" where
  "tangent_joins t es i arc =
     (case (ec_edge (edge_before es i), ec_edge (edge_after es i)) of
        (LineEdge a b, LineEdge c d) \<Rightarrow>
          bindR (start_point arc) (\<lambda>p. bindR (end_point arc) (\<lambda>q.
            Inr (is_tangent t a b arc p \<and> is_tangent t c d arc q)))
      | _ \<Rightarrow> Inr False)"

definition arc_of :: "edge_record \<Rightarrow> curve_params option" where
  "arc_of r = (case ec_edge r of CurveEdge c \<Rightarrow> if cu_kind c = ARC then Some c else None | _ \<Rightarrow> None)"

definition position_of :: "edge_record list \<Rightarrow> edge_record \<Rightarrow> nat" where
  "position_of es r = length (takeWhile (\<lambda>e. e \<noteq> r) es)"

definition semicircles :: "tolerance_profile \<Rightarrow> curve_params \<Rightarrow> curve_params \<Rightarrow> (real \<times> real) option" where
  "semicircles t a b =
     (case (cu_radius_mm a, cu_radius_mm b) of
        (Some r, Some s) \<Rightarrow>
          if length_close t (Fin r) (Fin s) \<and> angle_close_deg t (Fin \<bar>cu_sweep_deg a\<bar>) (Fin 180) \<and>
             angle_close_deg t (Fin \<bar>cu_sweep_deg b\<bar>) (Fin 180)
          then Some (r, s) else None
      | _ \<Rightarrow> None)"

definition slot_of_arcs :: "string list \<Rightarrow> curve_params \<Rightarrow> curve_params \<Rightarrow> real \<Rightarrow> real \<Rightarrow> recognized_feature" where
  "slot_of_arcs refs a b r s =
     (let p = cu_center a; q = cu_center b in
      mk_feature SLOT refs
        [(''length_mm'', distance_to p q + 2 * r, UNIT_MM), (''width_mm'', 2 * r, UNIT_MM),
         (''center_x_mm'', (px p + px q) / 2, UNIT_MM), (''center_y_mm'', (py p + py q) / 2, UNIT_MM),
         (''angle_deg'', degrees (atan2 (py q - py p) (px q - px p)), UNIT_DEG)]
        [(''arc_radius_difference_mm'', \<bar>r - s\<bar>)])"

definition slot_feature :: "tolerance_profile \<Rightarrow> assembled_contour \<Rightarrow> recognized_feature option res" where
  "slot_feature t c =
     (let es = ac_edges c; arcs = filter (\<lambda>r. arc_of r \<noteq> None) es in
      if length es \<noteq> 4 \<or> length (filter is_line_edge es) \<noteq> 2 then Inr None
      else case arcs of
        [x, y] \<Rightarrow>
          (let a = the (arc_of x); b = the (arc_of y) in
           case semicircles t a b of
             None \<Rightarrow> Inr None
           | Some (r, s) \<Rightarrow>
               bindR (tangent_joins t es (position_of es x) a) (\<lambda>j.
               bindR (if j then tangent_joins t es (position_of es y) b else Inr False) (\<lambda>k.
                 Inr (if k then Some (slot_of_arcs (ac_entity_refs c) a b r s) else None))))
      | _ \<Rightarrow> Inr None)"

definition corner_refs :: "edge_record list \<Rightarrow> nat \<Rightarrow> string list" where
  "corner_refs es i = unique_refs [edge_before es i, es ! i, edge_after es i]"

definition fillet_feature :: "tolerance_profile \<Rightarrow> edge_record list \<Rightarrow> nat \<Rightarrow> recognized_feature list res" where
  "fillet_feature t es i =
     (case arc_of (es ! i) of
        None \<Rightarrow> Inr []
      | Some arc \<Rightarrow>
          (case cu_radius_mm arc of
             None \<Rightarrow> Inr []
           | Some r \<Rightarrow>
               if angle_close_deg t (Fin \<bar>cu_sweep_deg arc\<bar>) (Fin 180) then Inr []
               else bindR (tangent_joins t es i arc) (\<lambda>ok.
                 Inr (if \<not> ok then []
                   else [mk_feature FILLET_CORNER (corner_refs es i)
                     [(''radius_mm'', r, UNIT_MM), (''center_x_mm'', px (cu_center arc), UNIT_MM),
                      (''center_y_mm'', py (cu_center arc), UNIT_MM),
                      (''start_angle_deg'', cu_start_angle_deg arc, UNIT_DEG),
                      (''sweep_deg'', cu_sweep_deg arc, UNIT_DEG)]
                     [(''tangent'', 1), (''source_edge_index'', real i)]]))))"

definition infinite_intersection :: "point2d \<Rightarrow> point2d \<Rightarrow> point2d \<Rightarrow> point2d \<Rightarrow> point2d option" where
  "infinite_intersection a b c d =
     (let v = vector_to a b; w = vector_to c d; denominator = cross v w in
      if \<bar>denominator\<bar> \<le> 1 / 10 ^ 12 then None
      else let factor = cross (vector_to a c) w / denominator
           in Some (Point2D (px a + factor * vdx v) (py a + factor * vdy v)))"

definition chamfer_at ::
  "tolerance_profile \<Rightarrow> assembled_contour \<Rightarrow> nat \<Rightarrow> point2d \<Rightarrow> point2d \<Rightarrow> point2d \<Rightarrow> recognized_feature list res" where
  "chamfer_at t c i a b vertex =
     (let first = distance_to vertex a; second = distance_to vertex b in
      bindR (point_on_contour t vertex c) (\<lambda>on.
        if on then Inr []
        else if is_zero_length t first \<or> is_zero_length t second then Inr []
        else bindR (normalized (vector_to a vertex)) (\<lambda>u. bindR (normalized (vector_to a b)) (\<lambda>w.
          Inr [mk_feature CHAMFER_CORNER (corner_refs (ac_edges c) i)
            [(''distance_1_mm'', first, UNIT_MM), (''distance_2_mm'', second, UNIT_MM),
             (''angle_deg'', degrees (arccos (max (- 1) (min 1 (dot u w)))), UNIT_DEG)]
            [(''inferred_vertex_x_mm'', px vertex), (''inferred_vertex_y_mm'', py vertex),
             (''source_edge_index'', real i)]]))))"

definition chamfer_feature :: "tolerance_profile \<Rightarrow> assembled_contour \<Rightarrow> nat \<Rightarrow> recognized_feature list res" where
  "chamfer_feature t c i =
     (let es = ac_edges c in
      case (ec_edge (edge_before es i), ec_edge (es ! i), ec_edge (edge_after es i)) of
        (LineEdge p q, LineEdge a b, LineEdge r s) \<Rightarrow>
          if 3 / 4 * min (distance_to p q) (distance_to r s) \<le> distance_to a b then Inr []
          else (case infinite_intersection p q r s of
                  None \<Rightarrow> Inr []
                | Some vertex \<Rightarrow> chamfer_at t c i a b vertex)
      | _ \<Rightarrow> Inr [])"

definition corner_features :: "tolerance_profile \<Rightarrow> assembled_contour \<Rightarrow> recognized_feature list res" where
  "corner_features t c =
     (if ac_is_circle c then Inr []
      else bindR (traverse (fillet_feature t (ac_edges c)) [0..<length (ac_edges c)]) (\<lambda>fs.
        bindR (traverse (chamfer_feature t c) [0..<length (ac_edges c)]) (\<lambda>cs.
          Inr (concat fs @ concat cs))))"

subsection \<open>The whole drawing\<close>

definition candidate :: "nat \<Rightarrow> nat \<Rightarrow> string \<Rightarrow> recognized_feature \<Rightarrow> candidate_explanation" where
  "candidate g i why f =
     \<lparr>ce_candidate_id = ''candidate:'' @ show_nat g @ '':'' @ show_nat i @ '':'' @
        recognized_type_value (rf_feature_type f),
      ce_feature = f, ce_rationale = why\<rparr>"

text \<open>Features and ambiguous groups found so far.\<close>

type_synonym findings_so_far = "recognized_feature list \<times> candidate_explanation list list"

definition add_outline ::
  "contour_analysis \<Rightarrow> recognized_feature option list \<Rightarrow> tolerance_profile \<Rightarrow> nat \<Rightarrow> findings_so_far \<Rightarrow>
   findings_so_far res" where
  "add_outline an slots t i acc =
     (let c = ca_contours an ! i in
      if cn_depth (ca_forest an ! i) \<noteq> 0 \<or> ac_is_circle c then Inr acc
      else bindR (outline_feature t c) (\<lambda>f.
        Inr (case slots ! i of
               None \<Rightarrow> (fst acc @ [f], snd acc)
             | Some s \<Rightarrow> (fst acc, snd acc @
                 [[candidate (length (snd acc)) 0 ''Closed root contour may be a part outline'' f,
                   candidate (length (snd acc)) 1 ''Two tangent semicircles and two flanks form a slot'' s]]))))"

text \<open>Walking up to the root of a contour; the depth of a node bounds the number of steps.\<close>

fun climb :: "contour_node list \<Rightarrow> nat \<Rightarrow> nat \<Rightarrow> nat" where
  "climb nodes 0 i = i"
| "climb nodes (Suc n) i = (case cn_parent_index (nodes ! i) of None \<Rightarrow> i | Some p \<Rightarrow> climb nodes n p)"

definition root_index :: "contour_node list \<Rightarrow> nat \<Rightarrow> nat" where
  "root_index nodes i = climb nodes (cn_depth (nodes ! i)) i"

definition circle_by_ref :: "circle_datum list \<Rightarrow> string \<Rightarrow> circle_datum option" where
  "circle_by_ref cs ref = find (\<lambda>c. fst c = ref) (rev cs)"

definition collect_hole ::
  "contour_analysis \<Rightarrow> circle_datum list \<Rightarrow> nat \<Rightarrow> (nat \<times> circle_datum list) list \<Rightarrow> (nat \<times> circle_datum list) list" where
  "collect_hole an cs i d =
     (let c = ca_contours an ! i; root = root_index (ca_forest an) i in
      if \<not> ac_is_circle c \<or> cn_depth (ca_forest an ! i) mod 2 \<noteq> 1 then d
      else case circle_by_ref cs (hd (ac_entity_refs c)) of
        None \<Rightarrow> d
      | Some k \<Rightarrow> dset d root ((case map_of d root of Some l \<Rightarrow> l | None \<Rightarrow> []) @ [k]))"

definition hole_feature :: "circle_datum \<Rightarrow> recognized_feature" where
  "hole_feature c =
     mk_feature CIRCULAR_HOLE [fst c]
       [(''diameter_mm'', 2 * snd (snd c), UNIT_MM), (''center_x_mm'', px (fst (snd c)), UNIT_MM),
        (''center_y_mm'', py (fst (snd c)), UNIT_MM)] []"

definition add_patterns :: "tolerance_profile \<Rightarrow> circle_datum list \<Rightarrow> findings_so_far \<Rightarrow> findings_so_far" where
  "add_patterns t g acc =
     (case (rectangular_pattern t g, bolt_pattern t g) of
        (Some r, Some b) \<Rightarrow>
          (let why = ''The same hole centers satisfy this pattern within tolerance''; n = length (snd acc)
           in (fst acc, snd acc @ [[candidate n 0 why r, candidate n 1 why b]]))
      | (Some r, None) \<Rightarrow> (fst acc @ [r], snd acc)
      | (None, Some b) \<Rightarrow> (fst acc @ [b], snd acc)
      | (None, None) \<Rightarrow> acc)"

definition bind_revision :: "string \<Rightarrow> recognized_feature \<Rightarrow> recognized_feature" where
  "bind_revision r f = f\<lparr>rf_source_revision := r\<rparr>"

definition recognize :: "drawing_model \<Rightarrow> tolerance_profile \<Rightarrow> recognition_report res" where
  "recognize m t =
     bindR (analyze_contours m t) (\<lambda>an.
     let cs = ca_contours an; is = [0..<length cs] in
     bindR (traverse (\<lambda>c. if ac_is_circle c then Inr None else slot_feature t c) cs) (\<lambda>slots.
     bindR (fold_res (add_outline an slots t) is ([], [])) (\<lambda>outlines.
     bindR (circle_data m) (\<lambda>data.
     let by_root = fold (collect_hole an data) is [];
         holes = concat (map snd by_root);
         found = fold (add_patterns t) (concat (map (same_radius_groups t \<circ> snd) by_root))
           (fst outlines @ map hole_feature holes, snd outlines)
     in bindR (traverse (corner_features t) cs) (\<lambda>corners.
       Inr \<lparr>rr_schema_version = SCHEMA_VERSION, rr_document_id = dm_document_id m, rr_revision = dm_revision m,
         rr_features = map (bind_revision (dm_revision m)) (fst found @ concat corners),
         rr_ambiguous_groups = map (map (\<lambda>c. c\<lparr>ce_feature := bind_revision (dm_revision m) (ce_feature c)\<rparr>)) (snd found),
         rr_open_contours = ca_open_contours an\<rparr>)))))"

end
