(* ===== verification/RecognitionGuarantees.thy ===== *)
theory RecognitionGuarantees
  imports Recognizer ValidationRules
begin

section \<open>What a recognised feature and a measurement are worth\<close>

text \<open>
  Where the recognised holes and fillets come from, and the round trip: a specification made from a
  recognised feature recompiles, against the drawing it was found in, to the geometry it was found as.
  For measurements: what a result is bound to, and that the order of the two entities does not matter.
\<close>

subsection \<open>Where features come from\<close>

lemma fold_res_inv:
  assumes "fold_res f xs b = Inr c" and "I b" and "\<And>x b c. x \<in> set xs \<Longrightarrow> I b \<Longrightarrow> f x b = Inr c \<Longrightarrow> I c"
  shows "I c"
  using assms by (induction xs arbitrary: b) (auto simp: bindR_Inr_iff)

lemma fold_inv:
  assumes "I b" and "\<And>x b. x \<in> set xs \<Longrightarrow> I b \<Longrightarrow> I (f x b)"
  shows "I (fold f xs b)"
  using assms by (induction xs arbitrary: b) auto

lemma outline_features_type:
  assumes "fold_res (add_outline an slots t) is ([], []) = Inr acc"
  shows "\<forall>f \<in> set (fst acc). rf_feature_type f = PART_OUTLINE"
  by (rule fold_res_inv [OF assms])
    (auto simp: add_outline_def Let_def bindR_Inr_iff outline_feature_def mk_feature_def
      split: if_splits option.splits)

lemma pattern_features_type:
  "\<forall>f \<in> set (fst (fold (add_patterns t) gs acc)). f \<in> set (fst acc) \<or>
     rf_feature_type f \<in> {RECTANGULAR_HOLE_PATTERN, BOLT_CIRCLE_PATTERN}"
proof (rule fold_inv)
  fix g and acc' :: findings_so_far
  assume inv: "\<forall>f \<in> set (fst acc'). f \<in> set (fst acc) \<or> rf_feature_type f \<in> {RECTANGULAR_HOLE_PATTERN, BOLT_CIRCLE_PATTERN}"
  have "set (fst (add_patterns t g acc')) \<subseteq>
      set (fst acc') \<union> set_option (rectangular_pattern t g) \<union> set_option (bolt_pattern t g)"
    by (cases "rectangular_pattern t g"; cases "bolt_pattern t g") (auto simp: add_patterns_def Let_def)
  moreover have "rf_feature_type f = RECTANGULAR_HOLE_PATTERN" if "rectangular_pattern t g = Some f" for f
    using that by (auto simp: rectangular_pattern_def Let_def mk_feature_def split: if_splits)
  moreover have "rf_feature_type f = BOLT_CIRCLE_PATTERN" if "bolt_pattern t g = Some f" for f
    using that by (auto simp: bolt_pattern_def Let_def mk_feature_def split: if_splits)
  ultimately show "\<forall>f \<in> set (fst (add_patterns t g acc')). f \<in> set (fst acc) \<or>
      rf_feature_type f \<in> {RECTANGULAR_HOLE_PATTERN, BOLT_CIRCLE_PATTERN}"
    using inv by (auto simp: subset_iff)
qed simp

lemma find_mem: "find P xs = Some x \<Longrightarrow> x \<in> set xs \<and> P x"
  by (induction xs) (auto split: if_splits)

lemma dset_values: "(k, v) \<in> set (dset d j w) \<Longrightarrow> v = w \<or> (k, v) \<in> set d"
  by (induction d j w rule: dset.induct) (auto split: if_splits)

lemma holes_are_circles:
  "\<forall>(r, l) \<in> set (fold (collect_hole an data) is []). set l \<subseteq> set data"
proof (rule fold_inv)
  fix i and d :: "(nat \<times> circle_datum list) list"
  assume inv: "\<forall>(r, l) \<in> set d. set l \<subseteq> set data"
  have found: "k \<in> set data" if "circle_by_ref data ref = Some k" for ref k
    using find_mem [OF that [unfolded circle_by_ref_def]] by simp
  have old: "set l \<subseteq> set data" if "map_of d r = Some l" for r l
    using inv map_of_SomeD [OF that] by blast
  show "\<forall>(r, l) \<in> set (collect_hole an data i d). set l \<subseteq> set data"
  proof (intro ballI, clarify)
    fix r l k
    assume rl: "(r, l) \<in> set (collect_hole an data i d)" and k: "k \<in> set l"
    show "k \<in> set data"
    proof (cases "(r, l) \<in> set d")
      case True
      with inv k show ?thesis by blast
    next
      case False
      with rl obtain c where c: "circle_by_ref data (hd (ac_entity_refs (ca_contours an ! i))) = Some c"
        and l: "l = (case map_of d (root_index (ca_forest an) i) of Some l \<Rightarrow> l | None \<Rightarrow> []) @ [c]"
        by (auto simp: collect_hole_def Let_def dest: dset_values split: if_splits option.splits)
      with k found [OF c] old show ?thesis by (auto split: option.splits)
    qed
  qed
qed simp

lemma corner_feature_of:
  assumes "corner_features t c = Inr fs" "f \<in> set fs"
  shows "\<not> ac_is_circle c \<and> (\<exists>i gs. i < length (ac_edges c) \<and> f \<in> set gs \<and>
    (fillet_feature t (ac_edges c) i = Inr gs \<or> chamfer_feature t c i = Inr gs))"
proof -
  from assms obtain xs ys where circle: "\<not> ac_is_circle c" and
    xs: "traverse (fillet_feature t (ac_edges c)) [0..<length (ac_edges c)] = Inr xs" and
    ys: "traverse (chamfer_feature t c) [0..<length (ac_edges c)] = Inr ys" and "fs = concat xs @ concat ys"
    by (auto simp: corner_features_def bindR_Inr_iff split: if_splits)
  with assms(2) have "f \<in> set (concat xs) \<or> f \<in> set (concat ys)" by simp
  with circle show ?thesis unfolding traverse_concat_set [OF xs] traverse_concat_set [OF ys] by auto
qed

lemma fillet_feature_mem:
  assumes "fillet_feature t es i = Inr gs" "g \<in> set gs"
  shows "\<exists>arc r. arc_of (es ! i) = Some arc \<and> cu_radius_mm arc = Some r \<and> tangent_joins t es i arc = Inr True \<and>
    g = mk_feature FILLET_CORNER (corner_refs es i)
      [(''radius_mm'', r, UNIT_MM), (''center_x_mm'', px (cu_center arc), UNIT_MM),
       (''center_y_mm'', py (cu_center arc), UNIT_MM), (''start_angle_deg'', cu_start_angle_deg arc, UNIT_DEG),
       (''sweep_deg'', cu_sweep_deg arc, UNIT_DEG)]
      [(''tangent'', 1), (''source_edge_index'', real i)]"
proof (cases "arc_of (es ! i)")
  case None
  with assms show ?thesis by (simp add: fillet_feature_def)
next
  case (Some arc)
  show ?thesis
  proof (cases "cu_radius_mm arc")
    case None
    with assms Some show ?thesis by (simp add: fillet_feature_def)
  next
    case radius: (Some r)
    show ?thesis
    proof (cases "angle_close_deg t (Fin \<bar>cu_sweep_deg arc\<bar>) (Fin 180)")
      case True
      with assms Some radius show ?thesis by (simp add: fillet_feature_def)
    next
      case False
      with assms Some radius obtain ok where "tangent_joins t es i arc = Inr ok"
        by (cases "tangent_joins t es i arc") (simp_all add: fillet_feature_def)
      with assms Some radius False show ?thesis by (cases ok) (auto simp: fillet_feature_def)
    qed
  qed
qed

lemma chamfer_feature_mem:
  assumes "chamfer_feature t c i = Inr gs" "g \<in> set gs"
  shows "rf_feature_type g = CHAMFER_CORNER"
  using assms
  by (auto simp: chamfer_feature_def chamfer_at_def bindR_Inr_iff mk_feature_def Let_def
      split: if_splits option.splits contour_edge.splits)

lemma recognized_from:
  assumes "recognize m t = Inr rep" and "f \<in> set (rr_features rep)"
  obtains an data g where "analyze_contours m t = Inr an" "circle_data m = Inr data"
    "f = bind_revision (dm_revision m) g"
    "rf_feature_type g \<in> {PART_OUTLINE, RECTANGULAR_HOLE_PATTERN, BOLT_CIRCLE_PATTERN} \<or>
     (\<exists>k \<in> set data. g = hole_feature k) \<or>
     (\<exists>c \<in> set (ca_contours an). \<exists>fs. corner_features t c = Inr fs \<and> g \<in> set fs)"
proof -
  from assms(1) obtain an slots outlines data corners where an: "analyze_contours m t = Inr an"
    and outlines: "fold_res (add_outline an slots t) [0..<length (ca_contours an)] ([], []) = Inr outlines"
    and data: "circle_data m = Inr data"
    and corners: "traverse (corner_features t) (ca_contours an) = Inr corners"
    and rep: "rr_features rep = map (bind_revision (dm_revision m))
      (fst (fold (add_patterns t)
        (concat (map (same_radius_groups t \<circ> snd) (fold (collect_hole an data) [0..<length (ca_contours an)] [])))
        (fst outlines @ map hole_feature (concat (map snd (fold (collect_hole an data) [0..<length (ca_contours an)] []))),
         snd outlines)) @ concat corners)"
    unfolding recognize_def Let_def bindR_Inr_iff by (elim exE conjE) auto
  from assms(2) rep obtain g where f: "f = bind_revision (dm_revision m) g"
    and "g \<in> set (fst (fold (add_patterns t)
        (concat (map (same_radius_groups t \<circ> snd) (fold (collect_hole an data) [0..<length (ca_contours an)] [])))
        (fst outlines @ map hole_feature (concat (map snd (fold (collect_hole an data) [0..<length (ca_contours an)] []))),
         snd outlines))) \<or> g \<in> set (concat corners)"
    by auto
  then consider "g \<in> set (fst outlines)"
    | "g \<in> hole_feature ` set (concat (map snd (fold (collect_hole an data) [0..<length (ca_contours an)] [])))"
    | "rf_feature_type g \<in> {RECTANGULAR_HOLE_PATTERN, BOLT_CIRCLE_PATTERN}"
    | "g \<in> set (concat corners)"
    by (elim disjE) (drule bspec [OF pattern_features_type], auto)
  then show thesis
  proof cases
    case 1
    with outline_features_type [OF outlines] that [OF an data f] show ?thesis by simp
  next
    case 2
    with holes_are_circles [of an data "[0..<length (ca_contours an)]"] have "\<exists>k \<in> set data. g = hole_feature k"
      by fastforce
    with that [OF an data f] show ?thesis by blast
  next
    case 3
    with that [OF an data f] show ?thesis by blast
  next
    case 4
    with traverse_concat_set [OF corners] have
      "\<exists>c \<in> set (ca_contours an). \<exists>fs. corner_features t c = Inr fs \<and> g \<in> set fs" by blast
    with that [OF an data f] show ?thesis by blast
  qed
qed

subsection \<open>The round trip of a hole\<close>

lemma circle_datum_entity:
  assumes "circle_data m = Inr data" "k \<in> set data"
  shows "\<exists>e \<in> set (dm_entities m). en_entity_ref e = fst k \<and>
    en_geometry e = CircleGeometry (Fin (px (fst (snd k))), Fin (py (fst (snd k)))) (Fin (snd (snd k)))"
proof -
  from assms obtain xs where xs: "traverse circle_datum_of (dm_entities m) = Inr xs" and "data = concat xs"
    by (auto simp: circle_data_def bindR_Inr_iff)
  with assms(2) have "k \<in> set (concat xs)" by simp
  then obtain e ys where e: "e \<in> set (dm_entities m)" and ys: "circle_datum_of e = Inr ys" "k \<in> set ys"
    unfolding traverse_concat_set [OF xs] by blast
  then obtain c radius p r where g: "en_geometry e = CircleGeometry c radius" and p: "point_of_tuple c = Inr p"
    and r: "radius = Fin r" and k: "k = (en_entity_ref e, p, r)"
    by (auto simp: circle_datum_of_def bindR_Inr_iff split: entity_geometry.splits)
  from p have "c = (Fin (px p), Fin (py p))"
    by (cases c) (auto simp: point_of_tuple_def mk_point_def require_finite_def bindR_Inr_iff
        split: if_splits pyfloat.splits)
  with e g r k show ?thesis by auto
qed

lemma entity_by_ref_unique:
  assumes "distinct (map en_entity_ref (dm_entities m))" "e \<in> set (dm_entities m)"
  shows "entity_by_ref m (en_entity_ref e) = Some e"
proof -
  have "find (\<lambda>x. en_entity_ref x = en_entity_ref e) xs = Some e"
    if "distinct (map en_entity_ref xs)" "e \<in> set xs" for xs
    using that by (induction xs) auto
  from this [of "rev (dm_entities m)"] assms show ?thesis
    by (simp add: entity_by_ref_def rev_map flip: distinct_rev [of "map en_entity_ref (dm_entities m)"])
qed

text \<open>The parameters that a source-bound specification carries.\<close>

lemma source_bound_spec:
  assumes "to_feature_spec f fid [] = Inr spec" "rf_feature_type f \<in> set SOURCE_BOUND_TYPES"
  shows "fs_feature_id spec = fid \<and>
    pget (fs_parameters spec) ''source_revision'' = PStr (rf_source_revision f) \<and>
    pget (fs_parameters spec) ''source_entity_refs'' = PList (map PStr (rf_entity_refs f)) \<and>
    pget (fs_parameters spec) ''source_edge_index'' =
      (case map_of (rf_evidence f) ''source_edge_index'' of None \<Rightarrow> PNone | Some i \<Rightarrow> PInt (round_half_even i))"
  using assms
  by (auto simp: to_feature_spec_def bindR_Inr_iff mapped_parameters_def Let_def pget_def split: option.splits)

lemma string_items_refs [simp]: "string_items (PList (map PStr refs)) = Some refs"
  by (simp add: string_items_def list_all_iff str_of_def comp_def)

lemma source_selection_of:
  assumes spec: "to_feature_spec f fid [] = Inr spec" "rf_feature_type f \<in> set SOURCE_BOUND_TYPES"
    and "rf_source_revision f = dm_revision m" "rf_entity_refs f \<noteq> []"
    and "\<forall>r \<in> set (rf_entity_refs f). entity_by_ref m r \<noteq> None"
    and an: "analyze_contours m t = Inr an" and cx: "cx_source_model cx = Some m" "cx_tolerance cx = t"
  shows "selection cx spec = Inr \<lparr>ss_refs = rf_entity_refs f,
      ss_entities = map (\<lambda>r. the (entity_by_ref m r)) (rf_entity_refs f),
      ss_contour = find (contour_matches (rf_entity_refs f)) (ca_contours an),
      ss_edge_index = map_option round_half_even (map_of (rf_evidence f) ''source_edge_index'')\<rparr>"
proof -
  note p = source_bound_spec [OF spec]
  have complete: "is_complete (recognized_validate cx spec)"
    using assms(4) by (simp add: recognized_validate_def Let_def require_param_def require_input_def
        is_complete_def empty_report_def cx p split: list.splits)
  have present: "\<not> list_ex (\<lambda>r. entity_by_ref m r = None) (rf_entity_refs f)"
    using assms(5) by (auto simp: list_ex_iff)
  show ?thesis unfolding selection_def Let_def
    by (simp add: complete cx p assms(3) str_of_def an present index_of_def split: option.splits)
qed

lemma hole_recompiles:
  assumes rep: "recognize m t = Inr rep" "f \<in> set (rr_features rep)" "rf_feature_type f = CIRCULAR_HOLE"
    and refs: "distinct (map en_entity_ref (dm_entities m))"
    and spec: "to_feature_spec f fid [] = Inr spec"
    and cx: "cx_source_model cx = Some m" "cx_tolerance cx = t" "cx_layer_for cx ''hole'' = Inr layer"
  shows "\<exists>x y d. feature_value f ''center_x_mm'' = Inr x \<and> feature_value f ''center_y_mm'' = Inr y \<and>
    feature_value f ''diameter_mm'' = Inr d \<and>
    recognized_hole_compile cx spec = Inr (mk_compiled fid [mk_op fid ''source-circle'' CREATE_CIRCLE layer
      [(''center_mm'', PList [PFloat x, PFloat y]), (''diameter_mm'', PFloat d)] [(''diameter_mm'', PFloat d)]] [])"
proof -
  obtain an data g where an: "analyze_contours m t = Inr an" and data: "circle_data m = Inr data"
    and f: "f = bind_revision (dm_revision m) g"
    and g: "rf_feature_type g \<in> {PART_OUTLINE, RECTANGULAR_HOLE_PATTERN, BOLT_CIRCLE_PATTERN} \<or>
     (\<exists>k \<in> set data. g = hole_feature k) \<or>
     (\<exists>c \<in> set (ca_contours an). \<exists>fs. corner_features t c = Inr fs \<and> g \<in> set fs)"
    by (rule recognized_from [OF rep(1,2)])
  have "rf_feature_type g = CIRCULAR_HOLE" using rep(3) f by (simp add: bind_revision_def)
  moreover have "rf_feature_type g \<in> {FILLET_CORNER, CHAMFER_CORNER}"
    if "corner_features t c = Inr fs" "g \<in> set fs" for c fs
    using corner_feature_of [OF that]
    by (elim exE conjE disjE) (auto dest: fillet_feature_mem chamfer_feature_mem simp: mk_feature_def)
  ultimately obtain k where k: "k \<in> set data" "g = hole_feature k" using g by fastforce
  from circle_datum_entity [OF data k(1)] obtain e where e: "e \<in> set (dm_entities m)" "en_entity_ref e = fst k"
    and geo: "en_geometry e = CircleGeometry (Fin (px (fst (snd k))), Fin (py (fst (snd k)))) (Fin (snd (snd k)))"
    by blast
  from entity_by_ref_unique [OF refs e(1)] e(2) have found: "entity_by_ref m (fst k) = Some e" by simp
  have sel: "selection cx spec = Inr \<lparr>ss_refs = [fst k], ss_entities = [e],
      ss_contour = find (contour_matches [fst k]) (ca_contours an), ss_edge_index = None\<rparr>"
    using source_selection_of [OF spec _ _ _ _ an cx(1,2)] found f k(2)
    by (simp add: bind_revision_def hole_feature_def mk_feature_def SOURCE_BOUND_TYPES_def)
  have fid: "fs_feature_id spec = fid"
    using source_bound_spec [OF spec] rep(3) by (simp add: SOURCE_BOUND_TYPES_def)
  show ?thesis
    by (simp add: recognized_hole_compile_def sel geo cx fid f k(2) feature_value_def bind_revision_def
        hole_feature_def mk_feature_def Let_def mult.commute)
qed

subsection \<open>Edges keep the reference of their entity\<close>

definition edge_refs :: "edge_record list \<Rightarrow> string set" where
  "edge_refs es = ec_entity_ref ` set es"

lemma edge_refs_simps [simp]:
  "edge_refs [] = {}" "edge_refs (e # es) = insert (ec_entity_ref e) (edge_refs es)"
  "edge_refs (es @ fs) = edge_refs es \<union> edge_refs fs"
  by (simp_all add: edge_refs_def image_Un)

lemma reverse_edge_ref: "reverse_edge r = Inr q \<Longrightarrow> ec_entity_ref q = ec_entity_ref r"
  by (auto simp: reverse_edge_def bindR_Inr_iff split: contour_edge.splits)

lemma find_match_ref:
  "find_match_from k us p t = Inr (Some (i, r)) \<Longrightarrow> ec_entity_ref r \<in> edge_refs us"
  by (induction k us p t rule: find_match_from.induct)
    (auto simp: bindR_Inr_iff dest: reverse_edge_ref split: if_splits)

lemma remove_nth_refs: "edge_refs (remove_nth i us) \<subseteq> edge_refs us"
  by (auto simp: edge_refs_def remove_nth_def dest: in_set_takeD in_set_dropD)

lemma forward_refs:
  "forward t chain us c rest \<Longrightarrow> edge_refs c \<union> edge_refs rest \<subseteq> edge_refs chain \<union> edge_refs us"
proof (induction rule: forward.induct)
  case (forward_step chain e us i r c rest)
  from find_match_ref [OF forward_step.hyps(2) [unfolded find_match_def]] forward_step.IH
    remove_nth_refs [of i us]
  show ?case by auto
qed simp

lemma backward_refs:
  "backward t chain us c rest \<Longrightarrow> edge_refs c \<union> edge_refs rest \<subseteq> edge_refs chain \<union> edge_refs us"
proof (induction rule: backward.induct)
  case (backward_step chain s us i r q c rest)
  from find_match_ref [OF backward_step.hyps(2) [unfolded find_match_def]] backward_step.IH
    remove_nth_refs [of i us] reverse_edge_ref [OF backward_step.hyps(4)]
  show ?case by auto
qed simp

lemma unique_refs_set [simp]: "set (unique_refs es) = edge_refs es"
  by (auto simp: unique_refs_def edge_refs_def)

lemma assemble_refs:
  "assemble t us = Inr (cs, fs) \<Longrightarrow>
     \<forall>c \<in> set cs. set (ac_entity_refs c) = edge_refs (ac_edges c) \<and> edge_refs (ac_edges c) \<subseteq> edge_refs us"
proof (induction t us arbitrary: cs fs rule: assemble.induct)
  case (2 t u us)
  from 2(2) obtain p k q where p: "extend_chain t u us = Inr p" and k: "classify_chain t (fst p) = Inr k"
    and q: "assemble t (snd p) = Inr q"
    and out: "(cs, fs) = (case k of Inr a \<Rightarrow> (a # fst q, snd q) | Inl f \<Rightarrow> (fst q, f # snd q))"
    by (auto simp: bindR_Inr_iff)
  from p obtain d ds where "extend_forward t [u] us = Inr (d, ds)" "extend_backward t d ds = Inr p"
    by (auto simp: extend_chain_def bindR_Inr_iff)
  then have "forward t [u] us d ds" "backward t d ds (fst p) (snd p)"
    by (cases p, auto intro: extend_forward_steps extend_backward_steps)+
  from forward_refs [OF this(1)] backward_refs [OF this(2)]
  have refs: "edge_refs (fst p) \<union> edge_refs (snd p) \<subseteq> edge_refs (u # us)" by auto
  from 2(1) [OF p k, of "fst q" "snd q"] q have rest:
    "\<forall>c \<in> set (fst q). set (ac_entity_refs c) = edge_refs (ac_edges c) \<and> edge_refs (ac_edges c) \<subseteq> edge_refs (u # us)"
    using refs by (simp del: edge_refs_simps) blast
  show ?case
  proof (cases k)
    case (Inl f)
    with out rest refs show ?thesis by auto
  next
    case (Inr a)
    with k have "ac_edges a = fst p" "ac_entity_refs a = unique_refs (fst p)"
      by (auto simp: classify_chain_def bindR_Inr_iff split: if_splits)
    with Inr out rest refs show ?thesis by auto
  qed
qed simp

lemma contribution_refs:
  assumes "entity_contribution e = Inr (es, cs)"
  shows "edge_refs es \<subseteq> {en_entity_ref e}" and "\<forall>c \<in> set cs. ac_is_circle c \<and> ac_entity_refs c = [en_entity_ref e]"
proof -
  have poly: "edge_refs xs \<subseteq> {ref}" if "traverse (polyline_edge vs ref) is = Inr xs" for vs ref xs "is"
    using traverse_origin [OF that]
    by (fastforce simp: edge_refs_def polyline_edge_def bindR_Inr_iff split: if_splits)
  show "edge_refs es \<subseteq> {en_entity_ref e}"
    using assms poly
    by (auto simp: entity_contribution_def Let_def bindR_Inr_iff split: entity_geometry.splits) blast+
  show "\<forall>c \<in> set cs. ac_is_circle c \<and> ac_entity_refs c = [en_entity_ref e]"
    using assms by (auto simp: entity_contribution_def Let_def bindR_Inr_iff split: entity_geometry.splits)
qed

lemma contour_refs:
  assumes "analyze_contours m t = Inr an" "c \<in> set (ca_contours an)"
  shows "set (ac_entity_refs c) \<subseteq> en_entity_ref ` set (dm_entities m)"
    and "\<not> ac_is_circle c \<Longrightarrow> set (ac_entity_refs c) = edge_refs (ac_edges c)"
proof -
  from assms(1) obtain es circles cs fs where e: "entity_edges m = Inr (es, circles)"
    and as: "assemble t es = Inr (cs, fs)" and an: "ca_contours an = circles @ cs"
    by (auto simp: analyze_contours_def bindR_Inr_iff)
  from e obtain xs where xs: "traverse entity_contribution (dm_entities m) = Inr xs"
    and parts: "es = concat (map fst xs)" "circles = concat (map snd xs)"
    by (auto simp: entity_edges_def bindR_Inr_iff)
  have es: "edge_refs es \<subseteq> en_entity_ref ` set (dm_entities m)"
  proof -
    have "ec_entity_ref r \<in> en_entity_ref ` set (dm_entities m)" if "r \<in> set es" for r
    proof -
      from that parts obtain x where x: "x \<in> set xs" "r \<in> set (fst x)" by auto
      from traverse_origin [OF xs x(1)] obtain n where "n \<in> set (dm_entities m)" "entity_contribution n = Inr x" by blast
      with contribution_refs(1) [of n "fst x" "snd x"] x(2) show ?thesis by (auto simp: edge_refs_def)
    qed
    then show ?thesis by (auto simp: edge_refs_def)
  qed
  have circle: "ac_is_circle c \<and> set (ac_entity_refs c) \<subseteq> en_entity_ref ` set (dm_entities m)" if "c \<in> set circles"
  proof -
    from that parts obtain x where x: "x \<in> set xs" "c \<in> set (snd x)" by auto
    from traverse_origin [OF xs x(1)] obtain n where "n \<in> set (dm_entities m)" "entity_contribution n = Inr x" by blast
    with contribution_refs(2) [of n "fst x" "snd x"] x(2) show ?thesis by auto
  qed
  from assms(2) an have "c \<in> set circles \<or> c \<in> set cs" by auto
  with circle es assemble_refs [OF as] show "set (ac_entity_refs c) \<subseteq> en_entity_ref ` set (dm_entities m)" by blast
  assume "\<not> ac_is_circle c"
  with assms(2) an circle assemble_refs [OF as] show "set (ac_entity_refs c) = edge_refs (ac_edges c)" by auto
qed

subsection \<open>The round trip of a fillet\<close>

definition contours_disjoint :: "contour_analysis \<Rightarrow> bool" where
  "contours_disjoint an \<longleftrightarrow>
     (\<forall>c \<in> set (ca_contours an). \<forall>d \<in> set (ca_contours an).
        c = d \<or> set (ac_entity_refs c) \<inter> set (ac_entity_refs d) = {})"

lemma show_nat_zero: "show_nat 0 = ''0''"
  by (simp add: show_nat_def show_pos.simps char_of_def)

lemma corner_refs_part:
  assumes "i < length es"
  shows "set (corner_refs es i) \<subseteq> edge_refs es" "corner_refs es i \<noteq> []"
proof -
  have "edge_before es i \<in> set es" "edge_after es i \<in> set es" "es ! i \<in> set es"
    using assms by (auto simp: edge_before_def edge_after_def neighbour_def intro!: nth_mem mod_less_divisor)
  then show "set (corner_refs es i) \<subseteq> edge_refs es" by (auto simp: corner_refs_def edge_refs_def)
  have "set (corner_refs es i) \<noteq> {}" by (simp add: corner_refs_def)
  then show "corner_refs es i \<noteq> []" by auto
qed

lemma source_contour_found:
  assumes "contours_disjoint an" "c \<in> set (ca_contours an)" "set refs \<subseteq> set (ac_entity_refs c)" "refs \<noteq> []"
  shows "find (contour_matches refs) (ca_contours an) = Some c"
proof -
  have c: "contour_matches refs c" using assms(3) by (simp add: contour_matches_def)
  have unique: "d = c" if "d \<in> set (ca_contours an)" "contour_matches refs d" for d
  proof -
    from that(2) have "set refs \<subseteq> set (ac_entity_refs d)" by (auto simp: contour_matches_def)
    with assms(3,4) have "set (ac_entity_refs c) \<inter> set (ac_entity_refs d) \<noteq> {}" by (cases refs) auto
    with assms(1,2) that(1) show ?thesis by (auto simp: contours_disjoint_def)
  qed
  show ?thesis
  proof (cases "find (contour_matches refs) (ca_contours an)")
    case None
    with c assms(2) show ?thesis by (auto simp: find_None_iff)
  next
    case (Some d)
    with unique find_mem [OF Some] show ?thesis by blast
  qed
qed

lemma fillet_recompiles:
  assumes rep: "recognize m t = Inr rep" "f \<in> set (rr_features rep)" "rf_feature_type f = FILLET_CORNER"
    and refs: "distinct (map en_entity_ref (dm_entities m))"
    and an: "analyze_contours m t = Inr an" "contours_disjoint an"
    and spec: "to_feature_spec f fid [] = Inr spec"
    and cx: "cx_source_model cx = Some m" "cx_tolerance cx = t" "cx_layer_for cx ''outline'' = Inr layer"
    and partial: "feature_value f ''sweep_deg'' = Inr (Fin s)" "\<bar>s\<bar> \<le> 359"
  shows "\<exists>x y r a ref. feature_value f ''center_x_mm'' = Inr (Fin x) \<and> feature_value f ''center_y_mm'' = Inr (Fin y) \<and>
    feature_value f ''radius_mm'' = Inr (Fin r) \<and> feature_value f ''start_angle_deg'' = Inr (Fin a) \<and>
    recognized_fillet_compile cx spec = Inr (mk_compiled fid [mk_op fid ''source-edge-0'' CREATE_ARC layer
      [(''center_mm'', point_val (Point2D x y)), (''radius_mm'', num_val r), (''start_angle_deg'', num_val a),
       (''end_angle_deg'', num_val (a + s))]
      [(''source_entity_ref'', PStr ref), (''radius_mm'', num_val r)]] [])"
proof -
  obtain an' data g where an': "analyze_contours m t = Inr an'"
    and f: "f = bind_revision (dm_revision m) g"
    and g: "rf_feature_type g \<in> {PART_OUTLINE, RECTANGULAR_HOLE_PATTERN, BOLT_CIRCLE_PATTERN} \<or>
     (\<exists>k \<in> set data. g = hole_feature k) \<or>
     (\<exists>c \<in> set (ca_contours an'). \<exists>fs. corner_features t c = Inr fs \<and> g \<in> set fs)"
    by (rule recognized_from [OF rep(1,2)])
  have ty: "rf_feature_type g = FILLET_CORNER" using rep(3) f by (simp add: bind_revision_def)
  with g an an' obtain c fs where c: "c \<in> set (ca_contours an)" and "corner_features t c = Inr fs" "g \<in> set fs"
    by (auto simp: hole_feature_def mk_feature_def)
  from corner_feature_of [OF this(2,3)] obtain i gs where circle: "\<not> ac_is_circle c" and i: "i < length (ac_edges c)"
    and gs: "g \<in> set gs" "fillet_feature t (ac_edges c) i = Inr gs \<or> chamfer_feature t c i = Inr gs"
    by blast
  with ty chamfer_feature_mem [of t c i gs g] have "fillet_feature t (ac_edges c) i = Inr gs" by auto
  from fillet_feature_mem [OF this gs(1)] obtain arc r where arc: "arc_of (ac_edges c ! i) = Some arc"
    and r: "cu_radius_mm arc = Some r"
    and gdef: "g = mk_feature FILLET_CORNER (corner_refs (ac_edges c) i)
      [(''radius_mm'', r, UNIT_MM), (''center_x_mm'', px (cu_center arc), UNIT_MM),
       (''center_y_mm'', py (cu_center arc), UNIT_MM), (''start_angle_deg'', cu_start_angle_deg arc, UNIT_DEG),
       (''sweep_deg'', cu_sweep_deg arc, UNIT_DEG)]
      [(''tangent'', 1), (''source_edge_index'', real i)]"
    by blast
  from arc have edge: "ec_edge (ac_edges c ! i) = CurveEdge arc"
    by (auto simp: arc_of_def split: contour_edge.splits if_splits)
  note crefs = contour_refs [OF an(1) c]
  have inside: "set (corner_refs (ac_edges c) i) \<subseteq> set (ac_entity_refs c)"
    using corner_refs_part(1) [OF i] crefs(2) [OF circle] by simp
  have fields: "rf_entity_refs f = corner_refs (ac_edges c) i" "rf_source_revision f = dm_revision m"
    "map_of (rf_evidence f) ''source_edge_index'' = Some (real i)"
    by (simp_all add: f gdef bind_revision_def mk_feature_def)
  have known: "\<forall>ref \<in> set (rf_entity_refs f). entity_by_ref m ref \<noteq> None"
  proof
    fix ref assume "ref \<in> set (rf_entity_refs f)"
    with fields inside crefs(1) obtain e where "e \<in> set (dm_entities m)" "ref = en_entity_ref e" by auto
    with entity_by_ref_unique [OF refs, of e] show "entity_by_ref m ref \<noteq> None" by simp
  qed
  have bound: "rf_feature_type f \<in> set SOURCE_BOUND_TYPES" using rep(3) by (simp add: SOURCE_BOUND_TYPES_def)
  have nonempty: "rf_entity_refs f \<noteq> []" using corner_refs_part(2) [OF i] fields(1) by simp
  note sel = source_selection_of [OF spec bound fields(2) nonempty known an(1) cx(1,2)]
  have found: "find (contour_matches (rf_entity_refs f)) (ca_contours an) = Some c"
    using source_contour_found [OF an(2) c] inside fields(1) nonempty by simp
  have index: "round_half_even (real i) = int i" by (simp add: round_half_even_def)
  have src: "source_edge cx spec = Inr (ac_edges c ! i)"
    by (simp add: source_edge_def sel found fields(3) index i)
  have sweep: "cu_sweep_deg arc = s"
    using partial(1) by (simp add: f gdef feature_value_def bind_revision_def mk_feature_def)
  have "\<not> is_full arc" using partial(2) by (simp add: is_full_def isclose_def sweep abs_if split: if_splits)
  moreover have "fs_feature_id spec = fid" using source_bound_spec [OF spec bound] by simp
  ultimately have "recognized_fillet_compile cx spec = Inr (mk_compiled fid [mk_op fid ''source-edge-0'' CREATE_ARC layer
      [(''center_mm'', point_val (Point2D (px (cu_center arc)) (py (cu_center arc)))), (''radius_mm'', num_val r),
       (''start_angle_deg'', num_val (cu_start_angle_deg arc)), (''end_angle_deg'', num_val (cu_start_angle_deg arc + s))]
      [(''source_entity_ref'', PStr (ec_entity_ref (ac_edges c ! i))), (''radius_mm'', num_val r)]] [])"
    by (simp add: recognized_fillet_compile_def one_edge_compiled_def src is_partial_arc_def edge cx
        edge_operation_def r Let_def end_angle_deg_def sweep show_nat_zero)
  then show ?thesis
    by (intro exI [of _ "px (cu_center arc)"] exI [of _ "py (cu_center arc)"] exI [of _ r]
        exI [of _ "cu_start_angle_deg arc"] exI [of _ "ec_entity_ref (ac_edges c ! i)"])
      (simp add: f gdef feature_value_def bind_revision_def mk_feature_def)
qed


subsection \<open>A plate with one rounded corner\<close>

definition demo_vertex :: "real \<Rightarrow> real \<Rightarrow> polyline_vertex" where
  "demo_vertex x y = \<lparr>pv_point_mm = (Fin x, Fin y), pv_bulge = Fin 0\<rparr>"

definition demo_rounded :: drawing_model where
  "demo_rounded = (demo_drawing demo_triangle)\<lparr>dm_entities :=
     [EntityRecord ''ref:1'' ''ARC'' ''0'' True ''model'' (ArcGeometry (Fin 1, Fin 1) (Fin 1) (Fin 180) (Fin 270))
        ((Fin 0, Fin 0), (Fin 1, Fin 1)) False None,
      EntityRecord ''ref:2'' ''LWPOLYLINE'' ''0'' True ''model''
        (PolylineGeometry [demo_vertex 1 0, demo_vertex 3 0, demo_vertex 3 3, demo_vertex 0 3, demo_vertex 0 1] False)
        ((Fin 0, Fin 0), (Fin 3, Fin 3)) False None]\<rparr>"

definition demo_arc :: curve_params where
  "demo_arc = \<lparr>cu_kind = ARC, cu_center = Point2D 1 1, cu_start_angle_deg = 180, cu_sweep_deg = 90,
     cu_radius_mm = Some 1, cu_semi_major_mm = None, cu_semi_minor_mm = None, cu_rotation_deg = 0\<rparr>"

definition demo_side :: "real \<Rightarrow> real \<Rightarrow> real \<Rightarrow> real \<Rightarrow> edge_record" where
  "demo_side a b c d = \<lparr>ec_edge = LineEdge (Point2D a b) (Point2D c d), ec_entity_ref = ''ref:2''\<rparr>"

definition demo_edges :: "edge_record list" where
  "demo_edges = [\<lparr>ec_edge = CurveEdge demo_arc, ec_entity_ref = ''ref:1''\<rparr>,
     demo_side 1 0 3 0, demo_side 3 0 3 3, demo_side 3 3 0 3, demo_side 0 3 0 1]"

definition demo_contour :: assembled_contour where
  "demo_contour = \<lparr>ac_contour = CurveContour (map ec_edge demo_edges), ac_entity_refs = [''ref:1'', ''ref:2''],
     ac_edges = demo_edges, ac_is_circle = False\<rparr>"

abbreviation demo_tol :: tolerance_profile where
  "demo_tol \<equiv> default_tolerance ''t'' ''1''"

lemma demo_arc_ends [simp]:
  "start_point demo_arc = Inr (Point2D 0 1)" "end_point demo_arc = Inr (Point2D 1 0)"
proof -
  have a: "radians (180 + 90 * 0) = pi" by (simp add: radians_def)
  have "radians 270 = 3 / 2 * pi" by (simp add: radians_def)
  then have b: "cos (radians 270) = 0" "sin (radians 270) = - 1"
    by (simp_all only: cos_3over2_pi sin_3over2_pi)
  show "start_point demo_arc = Inr (Point2D 0 1)"
    unfolding start_point_def point_at_fraction_def demo_arc_def by (simp add: Let_def a [simplified])
  show "end_point demo_arc = Inr (Point2D 1 0)"
    unfolding end_point_def point_at_fraction_def demo_arc_def by (simp add: Let_def b)
qed

lemma axis_distance:
  "distance_to (Point2D x y) (Point2D u y) = \<bar>x - u\<bar>" "distance_to (Point2D x y) (Point2D x v) = \<bar>y - v\<bar>"
  by (simp_all add: distance_to_def)

lemma fmod_quarter: "fmod 90 360 = 90"
  by (rule fmod_unique [of _ _ _ 0]) simp_all

lemma demo_rounded_edges: "entity_edges demo_rounded = Inr (demo_edges, [])"
proof -
  have "normalize_arc (Point2D 1 1) 1 180 (Some 270) None = Inr demo_arc"
    by (simp add: fmod_quarter normalize_arc_def mk_curve_def isclose_def demo_arc_def Let_def)
  then show ?thesis
    by (simp add: entity_edges_def demo_rounded_def entity_contribution_def polyline_edge_def demo_vertex_def
        demo_edges_def demo_side_def Let_def upt_rec)
qed

lemma demo_rounded_chain:
  "assemble demo_tol demo_edges = Inr ([demo_contour], [])"
proof -
  have "1 < sqrt 10" "1 < sqrt 13" by simp_all
  then have far: "\<not> sqrt 10 * 1000 \<le> 1" "\<not> sqrt 13 * 1000 \<le> 1" by linarith+
  have d: "distance_to (Point2D 3 0) (Point2D 0 1) = sqrt 10" "distance_to (Point2D 3 3) (Point2D 0 1) = sqrt 13"
    by (simp_all add: distance_to_def)
  have chain: "extend_chain demo_tol (hd demo_edges) (tl demo_edges) = Inr (demo_edges, [])"
    by (simp add: extend_chain_def extend_forward.simps extend_backward.simps edge_end_def edge_start_def
        find_match_def closes_def d far axis_distance is_coincident_def default_tolerance_def remove_nth_def
        demo_edges_def demo_side_def)
  have "unique_refs demo_edges = [''ref:1'', ''ref:2'']"
    by (simp add: unique_refs_def demo_edges_def demo_side_def)
  then have "classify_chain demo_tol demo_edges = Inr (Inr demo_contour)"
    by (simp add: classify_chain_def closes_def edge_end_def edge_start_def axis_distance is_coincident_def
        default_tolerance_def mk_curve_contour_def demo_contour_def) (simp add: demo_edges_def demo_side_def axis_distance mk_curve_contour_def)
  with chain show ?thesis by (simp add: demo_edges_def)
qed

lemma linearize_circular:
  assumes "cu_radius_mm c = Some r" "0 < tol"
  shows "\<exists>p q ps. linearize_curve c tol = Inr (p # q # ps)"
proof -
  obtain n where n: "chord_segment_count c tol = Inr n" and pos: "1 \<le> n"
    using assms by (simp add: chord_segment_count_def maximum_radius_mm_def)
  have "traverse (\<lambda>i. point_at_fraction c (real i / real n)) [0..<n + 1] =
      Inr (map (\<lambda>i. circle_point (cu_center c) r (radians (cu_start_angle_deg c + cu_sweep_deg c * (real i / real n)))) [0..<n + 1])"
    by (intro traverse_all_Inr point_at_circle [OF assms(1)]) (auto simp: divide_le_eq)
  moreover from pos obtain k where "n = Suc k" by (cases n) auto
  then have "[0..<n + 1] = 0 # 1 # [2..<n + 1]" by (simp add: upt_conv_Cons numeral_2_eq_2)
  ultimately show ?thesis unfolding linearize_curve_def n bindR_simps by (simp only: list.map) blast
qed

lemma demo_rounded_vertices:
  "\<exists>p q ps. contour_vertices (map ec_edge demo_edges) (1 / 100) = Inr (p # q # ps)"
proof -
  obtain a b as where arc: "linearize_curve demo_arc (1 / 100) = Inr (a # b # as)"
    using linearize_circular [of demo_arc 1 "1 / 100"] by (auto simp: demo_arc_def)
  have "\<exists>p q ps. butlast (a # b # as @ [x, y, z, w]) = p # q # ps" for x y z w :: point2d
    by (cases as) (simp_all add: butlast_append)
  then show ?thesis
    by (simp add: contour_vertices_def demo_edges_def demo_side_def edge_points_def arc Let_def)
qed

lemma demo_rounded_analysis:
  "\<exists>an n. analyze_contours demo_rounded demo_tol = Inr an \<and> ca_contours an = [demo_contour] \<and>
     ca_forest an = [n] \<and> cn_depth n = 0 \<and> cn_parent_index n = None"
proof -
  obtain p q ps where vs: "contour_vertices (map ec_edge demo_edges) (1 / 100) = Inr (p # q # ps)"
    using demo_rounded_vertices by blast
  have "\<exists>x. contour_area (CurveContour (map ec_edge demo_edges)) = Inr x"
    by (simp add: contour_area_def signed_contour_area_def demo_edges_def demo_side_def edge_area_def
        axis_product_def) (simp add: demo_arc_def edge_area_def)
  then obtain x where "contour_area (CurveContour (map ec_edge demo_edges)) = Inr x" by blast
  then have "forest_build [ac_contour demo_contour] demo_tol =
      Inr [\<lparr>cn_contour = ac_contour demo_contour, cn_parent_index = None, cn_depth = 0, cn_area_mm2 = x\<rparr>]"
    by (simp add: forest_build_def demo_contour_def is_open_polyline_def as_polyline_def vs mk_polyline_def
        containers_def Let_def default_tolerance_def)
  then show ?thesis
    by (simp add: analyze_contours_def demo_rounded_edges demo_rounded_chain)
qed

lemma demo_edge_cases [simp]:
  "ec_edge (demo_edges ! 0) = CurveEdge demo_arc" "demo_edges ! Suc 0 = demo_side 1 0 3 0"
  "demo_edges ! Suc (Suc 0) = demo_side 3 0 3 3" "demo_edges ! 2 = demo_side 3 0 3 3" "demo_edges ! 3 = demo_side 3 3 0 3" "demo_edges ! 4 = demo_side 0 3 0 1"
  "ec_edge (demo_side a b c d) = LineEdge (Point2D a b) (Point2D c d)" "length demo_edges = 5"
  "ec_entity_ref (demo_edges ! 0) = ''ref:1''" "ec_entity_ref (demo_side a b c d) = ''ref:2''"
  by (simp_all add: demo_edges_def demo_side_def)

lemma demo_neighbours [simp]:
  "edge_before demo_edges 0 = demo_side 0 3 0 1" "edge_after demo_edges 0 = demo_side 1 0 3 0"
  "edge_before demo_edges (Suc 0) = demo_edges ! 0" "edge_after demo_edges (Suc 0) = demo_side 3 0 3 3"
  "edge_before demo_edges 2 = demo_side 1 0 3 0" "edge_after demo_edges 2 = demo_side 3 3 0 3"
  "edge_before demo_edges 3 = demo_side 3 0 3 3" "edge_after demo_edges 3 = demo_side 0 3 0 1"
  "edge_before demo_edges 4 = demo_side 3 3 0 3" "edge_after demo_edges 4 = demo_edges ! 0"
  by (simp_all add: edge_before_def edge_after_def neighbour_def)

definition demo_fillet :: recognized_feature where
  "demo_fillet = mk_feature FILLET_CORNER [''ref:2'', ''ref:1'']
     [(''radius_mm'', 1, UNIT_MM), (''center_x_mm'', 1, UNIT_MM), (''center_y_mm'', 1, UNIT_MM),
      (''start_angle_deg'', 180, UNIT_DEG), (''sweep_deg'', 90, UNIT_DEG)]
     [(''tangent'', 1), (''source_edge_index'', 0)]"

lemma demo_arc_fields [simp]:
  "cu_kind demo_arc = ARC" "cu_center demo_arc = Point2D 1 1" "cu_start_angle_deg demo_arc = 180"
  "cu_sweep_deg demo_arc = 90" "cu_radius_mm demo_arc = Some 1"
  by (simp_all add: demo_arc_def)

lemma demo_corner: "fillet_feature demo_tol demo_edges 0 = Inr [demo_fillet]"
proof -
  have "0 \<le> sin (radians (max (1 / 10000) (1 / 1000000)))"
    by (rule sin_ge_zero) (simp_all add: radians_def pi_gt_zero less_imp_le)
  then have joins: "tangent_joins demo_tol demo_edges 0 demo_arc = Inr True"
    by (simp add: tangent_joins_def is_tangent_def vector_to_def dot_def vlength_def default_tolerance_def Let_def)
  have "\<not> angle_close_deg demo_tol (Fin 90) (Fin 180)"
    by (simp add: angle_close_deg_def fmod_quarter default_tolerance_def)
  moreover have "corner_refs demo_edges 0 = [''ref:2'', ''ref:1'']"
    by (simp add: corner_refs_def unique_refs_def)
  ultimately show ?thesis by (simp add: fillet_feature_def arc_of_def joins demo_fillet_def)
qed

lemma demo_straight:
  "fillet_feature demo_tol demo_edges (Suc 0) = Inr []" "fillet_feature demo_tol demo_edges 2 = Inr []"
  "fillet_feature demo_tol demo_edges 3 = Inr []" "fillet_feature demo_tol demo_edges 4 = Inr []"
  by (simp_all add: fillet_feature_def arc_of_def)

lemma demo_no_chamfer:
  "chamfer_feature demo_tol demo_contour 0 = Inr []" "chamfer_feature demo_tol demo_contour (Suc 0) = Inr []"
  "chamfer_feature demo_tol demo_contour 2 = Inr []" "chamfer_feature demo_tol demo_contour 3 = Inr []"
  "chamfer_feature demo_tol demo_contour 4 = Inr []"
  by (simp_all add: chamfer_feature_def demo_contour_def axis_distance Let_def)

lemma demo_corners: "corner_features demo_tol demo_contour = Inr [demo_fillet]"
proof -
  have "[0..<5] = [0, Suc 0, 2, 3, 4]" by (simp add: upt_rec)
  moreover have "ac_edges demo_contour = demo_edges" "\<not> ac_is_circle demo_contour" by (simp_all add: demo_contour_def)
  ultimately show ?thesis by (simp add: corner_features_def demo_corner demo_straight demo_no_chamfer)
qed

lemma demo_recognized: "\<exists>rep. recognize demo_rounded demo_tol = Inr rep \<and> bind_revision ''r1'' demo_fillet \<in> set (rr_features rep)"
proof -
  obtain an n where an: "analyze_contours demo_rounded demo_tol = Inr an" "ca_contours an = [demo_contour]"
    "ca_forest an = [n]" "cn_depth n = 0" "cn_parent_index n = None"
    using demo_rounded_analysis by blast
  obtain p q ps where vs: "contour_vertices (map ec_edge demo_edges) (1 / 100) = Inr (p # q # ps)"
    using demo_rounded_vertices by blast
  have "\<exists>x. contour_area (ac_contour demo_contour) = Inr x"
    by (simp add: demo_contour_def contour_area_def signed_contour_area_def demo_edges_def demo_side_def edge_area_def
        axis_product_def)
  then obtain f where outline: "outline_feature demo_tol demo_contour = Inr f"
    by (auto simp: outline_feature_def assembled_vertices_def demo_contour_def vs max_list_of_def min_list_of_def
        default_tolerance_def)
  have flat: "\<not> ac_is_circle demo_contour" "length (ac_edges demo_contour) = 5" by (simp_all add: demo_contour_def)
  have slot: "slot_feature demo_tol demo_contour = Inr None" by (simp add: slot_feature_def Let_def flat)
  have "circle_data demo_rounded = Inr []" by (simp add: circle_data_def circle_datum_of_def demo_rounded_def)
  then show ?thesis
    by (simp add: recognize_def an flat slot Let_def add_outline_def outline collect_hole_def demo_corners)
      (simp add: demo_rounded_def demo_drawing_def)
qed

definition demo_source_context :: compile_context where
  "demo_source_context =
     \<lparr>cx_profile = demo_profile\<lparr>pf_layer_map := [(''outline'', ''OBJECT''), (''hole'', ''OBJECT'')]\<rparr>,
      cx_tolerance = demo_tol, cx_datum = None, cx_parent_feature_id = None, cx_parent_box = None,
      cx_parent_outline = None, cx_source_model = Some demo_rounded\<rparr>"


subsection \<open>Measurements\<close>

lemma line_angle_sym: "line_angle_deg t a b c d = line_angle_deg t c d a b"
  by (simp add: line_angle_deg_def Let_def dot_def mult.commute disj_commute)

lemma traverse_pair: "traverse f [x, y] = Inr zs \<longleftrightarrow> (\<exists>a b. f x = Inr a \<and> f y = Inr b \<and> zs = [a, b])"
  by (auto split: sum.splits)

lemma measure_value_swap:
  assumes "measure_value t q [e, e'] [k, l] = Inr v"
    and "mq_kind q \<in> {ENTITY_TO_ENTITY, ANGLE_BETWEEN_LINES, HOLE_CENTER_TO_CENTER}"
    and "mq_kind q' = mq_kind q"
  shows "measure_value t q' [e', e] [l, k] = Inr v"
  using assms
  by (auto simp: measure_value_def bindR_Inr_iff require_role_types_def center_center_distance_def distance_to_sym
      split: measurable.splits if_splits) (auto simp: line_angle_sym intro: entity_distance_sym)

lemma measured_shape:
  "measured_result m q t v = Inr r \<Longrightarrow> mr_kind r = mq_kind q \<and> mr_document_id r = dm_document_id m \<and>
     mr_revision r = dm_revision m \<and> mr_entity_refs r = mq_entity_refs q \<and> mr_value r = v \<and>
     (is_box_value v \<longleftrightarrow> mq_kind q = BOUNDING_BOX)"
  by (auto simp: measured_result_def measurement_result_valid_def split: if_splits)

text \<open>
  C39: A measurement is bound to what it was taken from: the result names the request's kind and
  entities and the document and revision of the drawing; every named entity exists in that drawing
  and has a type the kind of measurement supports; a box is the answer to a bounding-box request only;
  and a distance or an angle between two entities is the same in either order.
\<close>

theorem measurement_bound_and_symmetric:
  assumes r: "measure_request m q t = Inr r"
  shows "mr_kind r = mq_kind q \<and> mr_document_id r = dm_document_id m \<and> mr_revision r = dm_revision m \<and>
    mr_entity_refs r = mq_entity_refs q \<and> (is_box_value (mr_value r) \<longleftrightarrow> mq_kind q = BOUNDING_BOX) \<and>
    (\<forall>ref \<in> set (mq_entity_refs q). \<exists>e. entity_by_ref m ref = Some e \<and>
       entity_kind (en_geometry e) \<in> set (supported_entity_types (mq_kind q))) \<and>
    (\<forall>a b. mq_entity_refs q = [a, b] \<longrightarrow> mq_kind q \<in> {ENTITY_TO_ENTITY, ANGLE_BETWEEN_LINES, HOLE_CENTER_TO_CENTER} \<longrightarrow>
       (\<exists>r'. measure_request m (q\<lparr>mq_entity_refs := [b, a]\<rparr>) t = Inr r' \<and> mr_value r' = mr_value r))"
proof (cases "mq_kind q = POINT_TO_POINT")
  case True
  with r obtain v where "measured_result m q t v = Inr r" "mq_entity_refs q = []"
    by (auto simp: measure_request_def bindR_Inr_iff split: if_splits)
  with measured_shape [OF this(1)] show ?thesis by simp
next
  case False
  with r obtain es ks v where norm: "dm_geometry_normalized m"
    and es: "resolve_entities m q (expected_count (mq_kind q)) = Inr es"
    and ks: "traverse kernel_entity es = Inr ks" and v: "measure_value t q es ks = Inr v"
    and res: "measured_result m q t v = Inr r"
    by (auto simp: measure_request_def bindR_Inr_iff split: if_splits)
  from es have resolved: "traverse (resolve_entity m (mq_kind q)) (mq_entity_refs q) = Inr es"
    by (simp add: resolve_entities_def split: if_splits)
  have known: "\<exists>e. entity_by_ref m ref = Some e \<and> entity_kind (en_geometry e) \<in> set (supported_entity_types (mq_kind q))"
    if "ref \<in> set (mq_entity_refs q)" for ref
  proof -
    from resolved that obtain e where "resolve_entity m (mq_kind q) ref = Inr e"
      by (auto simp: traverse_Inr_iff list_all2_conv_all_nth in_set_conv_nth)
    then show ?thesis by (auto simp: resolve_entity_def split: option.splits if_splits)
  qed
  have swap: "\<exists>r'. measure_request m (q\<lparr>mq_entity_refs := [b, a]\<rparr>) t = Inr r' \<and> mr_value r' = mr_value r"
    if refs: "mq_entity_refs q = [a, b]"
      and kind: "mq_kind q \<in> {ENTITY_TO_ENTITY, ANGLE_BETWEEN_LINES, HOLE_CENTER_TO_CENTER}" for a b
  proof -
    let ?q = "q\<lparr>mq_entity_refs := [b, a]\<rparr>"
    from resolved refs obtain e e' where e: "es = [e, e']" "resolve_entity m (mq_kind q) a = Inr e"
      "resolve_entity m (mq_kind q) b = Inr e'" by (auto simp: traverse_pair simp del: traverse.simps)
    with ks obtain k l where k: "ks = [k, l]" "kernel_entity e = Inr k" "kernel_entity e' = Inr l"
      by (auto simp: traverse_pair simp del: traverse.simps)
    have "resolve_entities m ?q (expected_count (mq_kind ?q)) = Inr [e', e]"
      using kind e by (auto simp: resolve_entities_def expected_count_def)
    moreover have "traverse kernel_entity [e', e] = Inr [l, k]" using k by simp
    moreover have "measure_value t ?q [e', e] [l, k] = Inr v"
      using measure_value_swap [of t q e e' k l v ?q] v e k kind by simp
    moreover have "\<exists>r'. measured_result m ?q t v = Inr r' \<and> mr_value r' = v"
      using measured_shape [OF res] kind by (auto simp: measured_result_def measurement_result_valid_def)
    ultimately show ?thesis using norm False measured_shape [OF res] by (auto simp: measure_request_def)
  qed
  show ?thesis using measured_shape [OF res] known swap by simp
qed

definition demo_holes :: drawing_model where
  "demo_holes = (demo_drawing demo_triangle)\<lparr>dm_entities :=
     [EntityRecord ''ref:1'' ''CIRCLE'' ''0'' True ''model'' (CircleGeometry (Fin 0, Fin 0) (Fin 1))
        ((Fin (- 1), Fin (- 1)), (Fin 1, Fin 1)) False None,
      EntityRecord ''ref:2'' ''CIRCLE'' ''0'' True ''model'' (CircleGeometry (Fin 3, Fin 4) (Fin 2))
        ((Fin 1, Fin 2), (Fin 5, Fin 6)) False None]\<rparr>"

definition demo_hole_request :: measurement_request where
  "demo_hole_request = \<lparr>mq_kind = HOLE_CENTER_TO_CENTER, mq_entity_refs = [''ref:1'', ''ref:2''],
     mq_first_point_mm = None, mq_second_point_mm = None\<rparr>"

lemma kernel_circle:
  "0 < r \<Longrightarrow> kernel_entity (EntityRecord ref raw layer vis space (CircleGeometry (Fin x, Fin y) (Fin r)) box u n) =
     Inr (MCircle (Circle2D (Point2D x y) (2 * r)))"
  by (simp add: kernel_entity_def doubled_def mk_circle_def require_finite_def)

lemma demo_hole_distance:
  "\<exists>r. measure_request demo_holes demo_hole_request demo_tol = Inr r \<and> mr_value r = Scalar 5"
proof -
  let ?a = "EntityRecord ''ref:1'' ''CIRCLE'' ''0'' True ''model'' (CircleGeometry (Fin 0, Fin 0) (Fin 1))
        ((Fin (- 1), Fin (- 1)), (Fin 1, Fin 1)) False None"
  let ?b = "EntityRecord ''ref:2'' ''CIRCLE'' ''0'' True ''model'' (CircleGeometry (Fin 3, Fin 4) (Fin 2))
        ((Fin 1, Fin 2), (Fin 5, Fin 6)) False None"
  have "sqrt 25 = 5" by (rule real_sqrt_unique) simp_all
  then have "distance_to (Point2D 0 0) (Point2D 3 4) = 5" by (simp add: distance_to_def)
  then have dist: "measure_value demo_tol demo_hole_request [?a, ?b]
      [MCircle (Circle2D (Point2D 0 0) 2), MCircle (Circle2D (Point2D 3 4) 4)] = Inr (Scalar 5)"
    by (simp add: measure_value_def demo_hole_request_def require_role_types_def entity_kind_def
        center_center_distance_def)
  have "resolve_entities demo_holes demo_hole_request (expected_count (mq_kind demo_hole_request)) = Inr [?a, ?b]"
    by (simp add: demo_holes_def demo_hole_request_def resolve_entities_def expected_count_def resolve_entity_def
        entity_by_ref_def entity_kind_def supported_entity_types_def)
  moreover have "traverse kernel_entity [?a, ?b] =
      Inr [MCircle (Circle2D (Point2D 0 0) 2), MCircle (Circle2D (Point2D 3 4) 4)]"
    by (simp add: kernel_circle)
  moreover have "dm_geometry_normalized demo_holes" "mq_kind demo_hole_request \<noteq> POINT_TO_POINT"
    by (simp_all add: demo_holes_def demo_drawing_def demo_hole_request_def)
  moreover have "\<exists>r. measured_result demo_holes demo_hole_request demo_tol (Scalar 5) = Inr r \<and> mr_value r = Scalar 5"
    by (simp add: measured_result_def measurement_result_valid_def demo_hole_request_def is_box_value_def)
  ultimately show ?thesis using dist by (simp add: measure_request_def)
qed

lemma measurement_bound_and_symmetric_witness:
  "\<exists>r r'. measure_request demo_holes demo_hole_request demo_tol = Inr r \<and> mr_value r = Scalar 5 \<and>
     mr_revision r = ''r1'' \<and>
     measure_request demo_holes (demo_hole_request\<lparr>mq_entity_refs := [''ref:2'', ''ref:1'']\<rparr>) demo_tol = Inr r' \<and>
     mr_value r' = Scalar 5"
proof -
  obtain r where r: "measure_request demo_holes demo_hole_request demo_tol = Inr r" "mr_value r = Scalar 5"
    using demo_hole_distance by blast
  have "mq_entity_refs demo_hole_request = [''ref:1'', ''ref:2'']" "mq_kind demo_hole_request = HOLE_CENTER_TO_CENTER"
    "dm_revision demo_holes = ''r1''"
    by (simp_all add: demo_hole_request_def demo_holes_def demo_drawing_def)
  with measurement_bound_and_symmetric [OF r(1)] r show ?thesis by auto
qed

end
