(* ===== verification/Reconciliation.thy ===== *)
theory Reconciliation
  imports FakeAdapter StoreModel
begin

section \<open>Reconciliation of an unknown commit\<close>

text \<open>
  Models \<open>application/services/reconciliation_service.py\<close>, the selection snapshot of
  \<open>domain/models/document.py\<close> and \<open>inspect_selection\<close> of \<open>adapters/fake.py\<close>: the stored entity mappings
  of a document are compared with one read of the drawing. The read is a program over the adapter's
  state. What a report can tell about a commit of unknown outcome is shown for the in-memory adapter.
\<close>

subsection \<open>Reading a selection\<close>

record entity_summary =
  es_entity_ref :: string
  es_entity_type :: string
  es_layer :: string
  es_feature_id :: "string option"
  es_measurements :: pydict

record selection_snapshot =
  ss_schema_version :: string
  ss_document_id :: string
  ss_revision :: string
  ss_entities :: "entity_summary list"
  ss_truncated :: bool

record selection_request =
  sq_document_id :: string
  sq_max_entities :: int

text \<open>\<open>xs[:n]\<close>, where a negative bound counts from the end.\<close>

definition slice_to :: "int \<Rightarrow> 'a list \<Rightarrow> 'a list" where
  "slice_to n xs = (if 0 \<le> n then take (nat n) xs else take (length xs - nat (- n)) xs)"

text \<open>A kept measurement is a truth value, a float or a text; an integer is read as a float.\<close>

definition summary_measurement :: "string \<times> pyval \<Rightarrow> (string \<times> pyval) list" where
  "summary_measurement p =
     (case snd p of
        PBool b \<Rightarrow> [(fst p, PBool b)]
      | PFloat x \<Rightarrow> [(fst p, PFloat x)]
      | PInt i \<Rightarrow> [(fst p, PFloat (Fin (of_int i)))]
      | PStr s \<Rightarrow> [(fst p, PStr s)]
      | _ \<Rightarrow> [])"

definition entity_summary_of :: "fake_entity \<Rightarrow> entity_summary" where
  "entity_summary_of e =
     \<lparr>es_entity_ref = fe_entity_ref e, es_entity_type = fe_entity_type e, es_layer = fe_layer e,
      es_feature_id = Some (fe_feature_id e),
      es_measurements = concat (map summary_measurement (fe_measurements e))\<rparr>"

definition fake_inspect_selection ::
  "(string \<Rightarrow> string) \<Rightarrow> selection_request \<Rightarrow> (exc, fake_adapter, selection_snapshot) prog" where
  "fake_inspect_selection sha rq s =
     (let doc = fk_document s; all = map snd (fd_entities doc); selected = slice_to (sq_max_entities rq) all in
      (bindR (document_revision sha doc) (\<lambda>r.
        Inr \<lparr>ss_schema_version = SCHEMA_VERSION, ss_document_id = fd_document_id doc, ss_revision = r,
             ss_entities = map entity_summary_of selected, ss_truncated = length selected < length all\<rparr>), s))"

subsection \<open>The service\<close>

record reconciliation_difference =
  rd_operation_id :: string
  rd_missing_entity_refs :: "string list"
  rd_mismatched_entity_refs :: "string list"
  rd_unexpected_entity_refs :: "string list"
  rd_unresolved :: bool

record reconciliation_report =
  rn_job_id :: string
  rn_document_id :: string
  rn_observed_revision :: string
  rn_differences :: "(string \<times> reconciliation_difference) list"
  rn_truncated :: bool

text \<open>\<open>actual.get(ref)\<close>: of two entities with one reference the later one.\<close>

definition actual_entity :: "selection_snapshot \<Rightarrow> string \<Rightarrow> entity_summary option" where
  "actual_entity snap ref = find (\<lambda>e. es_entity_ref e = ref) (rev (ss_entities snap))"

definition mapped_missing :: "selection_snapshot \<Rightarrow> entity_mapping \<Rightarrow> bool" where
  "mapped_missing snap m \<longleftrightarrow> actual_entity snap (em_entity_ref m) = None"

definition mapped_mismatched :: "selection_snapshot \<Rightarrow> entity_mapping \<Rightarrow> bool" where
  "mapped_mismatched snap m \<longleftrightarrow>
     (case actual_entity snap (em_entity_ref m) of
        None \<Rightarrow> False
      | Some e \<Rightarrow> es_feature_id e \<noteq> None \<and> es_feature_id e \<noteq> Some (em_feature_id m))"

definition feature_operations :: "entity_mapping list \<Rightarrow> string \<Rightarrow> string list" where
  "feature_operations ms f = remdups (map em_operation_id (filter (\<lambda>m. em_feature_id m = f) ms))"

definition by_operation :: "entity_mapping list \<Rightarrow> string \<Rightarrow> entity_mapping list" where
  "by_operation ms op' = filter (\<lambda>m. em_operation_id m = op') ms"

definition is_unexpected :: "entity_mapping list \<Rightarrow> string \<Rightarrow> entity_summary \<Rightarrow> bool" where
  "is_unexpected ms op' e \<longleftrightarrow>
     es_entity_ref e \<notin> set (map em_entity_ref ms) \<and>
     (case es_feature_id e of
        None \<Rightarrow> False
      | Some f \<Rightarrow> f \<in> set (map em_feature_id (by_operation ms op')) \<and> length (feature_operations ms f) = 1)"

definition operation_difference ::
  "entity_mapping list \<Rightarrow> selection_snapshot \<Rightarrow> string \<Rightarrow> reconciliation_difference" where
  "operation_difference ms snap op' =
     \<lparr>rd_operation_id = op',
      rd_missing_entity_refs = sort (map em_entity_ref (filter (mapped_missing snap) (by_operation ms op'))),
      rd_mismatched_entity_refs = sort (map em_entity_ref (filter (mapped_mismatched snap) (by_operation ms op'))),
      rd_unexpected_entity_refs = sort (map es_entity_ref (filter (is_unexpected ms op') (ss_entities snap))),
      rd_unresolved = ss_truncated snap\<rparr>"

definition is_difference :: "reconciliation_difference \<Rightarrow> bool" where
  "is_difference d \<longleftrightarrow> rd_missing_entity_refs d \<noteq> [] \<or> rd_mismatched_entity_refs d \<noteq> [] \<or>
     rd_unexpected_entity_refs d \<noteq> [] \<or> rd_unresolved d"

definition differences ::
  "entity_mapping list \<Rightarrow> selection_snapshot \<Rightarrow> (string \<times> reconciliation_difference) list" where
  "differences ms snap =
     filter (\<lambda>p. is_difference (snd p))
       (map (\<lambda>op'. (op', operation_difference ms snap op')) (sort (remdups (map em_operation_id ms))))"

definition reconcile ::
  "(selection_request \<Rightarrow> (exc, 'a, selection_snapshot) prog) \<Rightarrow> job_store \<Rightarrow> string \<Rightarrow>
   (exc, 'a, reconciliation_report) prog" where
  "reconcile inspect st jid =
     (let refusal = raiseP (Err UnknownCommitStateError ''Only an UNKNOWN_COMMIT_STATE job can be reconciled'') in
      case get_job st jid of
        None \<Rightarrow> refusal
      | Some job \<Rightarrow>
          if cj_state job \<noteq> UNKNOWN_COMMIT_STATE then refusal
          else let ms = entity_mappings_for st (cj_document_id job) in
            bindP (inspect \<lparr>sq_document_id = cj_document_id job,
                sq_max_entities = max 200 (int (length ms) * 2)\<rparr>) (\<lambda>snap.
              retP \<lparr>rn_job_id = jid, rn_document_id = cj_document_id job, rn_observed_revision = ss_revision snap,
                rn_differences = differences ms snap, rn_truncated = ss_truncated snap\<rparr>))"

subsection \<open>Facts about reports\<close>

lemma differences_iff:
  "map_of (differences ms snap) op' = Some d \<longleftrightarrow>
     op' \<in> em_operation_id ` set ms \<and> d = operation_difference ms snap op' \<and> is_difference d"
proof -
  have "map_of (filter (\<lambda>p. is_difference (snd p)) (map (\<lambda>x. (x, operation_difference ms snap x)) xs)) op' = Some d
      \<longleftrightarrow> op' \<in> set xs \<and> d = operation_difference ms snap op' \<and> is_difference d" for xs
    by (induction xs) auto
  then show ?thesis by (simp add: differences_def)
qed

lemma actual_entity_mem:
  "actual_entity snap r = Some e \<Longrightarrow> e \<in> set (ss_entities snap) \<and> es_entity_ref e = r"
  unfolding actual_entity_def find_Some_iff by (metis nth_mem set_rev)

lemma actual_entity_None:
  "actual_entity snap r = None \<longleftrightarrow> r \<notin> es_entity_ref ` set (ss_entities snap)"
  by (auto simp: actual_entity_def find_None_iff)

lemma actual_entity_cong:
  assumes "ss_entities t = ss_entities s @ new" and "r \<notin> es_entity_ref ` set new"
  shows "actual_entity t r = actual_entity s r"
proof -
  have "find (\<lambda>e. es_entity_ref e = r) (xs @ ys) = find (\<lambda>e. es_entity_ref e = r) ys"
    if "r \<notin> es_entity_ref ` set xs" for xs ys
    using that by (induction xs) auto
  from this [of "rev new"] assms show ?thesis by (simp add: actual_entity_def)
qed

text \<open>A mapped reference that is not in the drawing is reported; one that is there as mapped is not.\<close>

lemma reported_missing:
  assumes "m \<in> set ms" and "em_entity_ref m \<notin> es_entity_ref ` set (ss_entities snap)"
  shows "\<exists>d. map_of (differences ms snap) (em_operation_id m) = Some d \<and>
    em_entity_ref m \<in> set (rd_missing_entity_refs d)"
proof -
  from assms have "em_entity_ref m \<in> set (rd_missing_entity_refs (operation_difference ms snap (em_operation_id m)))"
    by (auto simp: operation_difference_def by_operation_def mapped_missing_def actual_entity_None)
  with assms(1) show ?thesis unfolding differences_iff by (auto simp: is_difference_def)
qed

lemma not_reported:
  assumes "map_of (differences ms snap) op' = Some d" and "ref \<in> es_entity_ref ` set (ss_entities snap)"
    and "\<And>e. e \<in> set (ss_entities snap) \<Longrightarrow> es_entity_ref e = ref \<Longrightarrow> es_feature_id e = Some f"
    and "\<And>m. m \<in> set ms \<Longrightarrow> em_entity_ref m = ref \<Longrightarrow> em_feature_id m = f"
  shows "ref \<notin> set (rd_missing_entity_refs d) \<union> set (rd_mismatched_entity_refs d)"
proof -
  from assms(2) obtain x where "actual_entity snap ref = Some x"
    using actual_entity_None [of snap ref] by (cases "actual_entity snap ref") auto
  with actual_entity_mem assms(3) have "actual_entity snap ref = Some x \<and> es_feature_id x = Some f" by blast
  with assms(1,4) show ?thesis unfolding differences_iff
    by (auto simp: operation_difference_def by_operation_def mapped_missing_def mapped_mismatched_def)
qed

text \<open>Entities of features that no mapping names are not seen.\<close>

lemma differences_blind:
  assumes "ss_entities t = ss_entities s @ new" and "ss_truncated t = ss_truncated s"
    and "\<And>e m. e \<in> set new \<Longrightarrow> m \<in> set ms \<Longrightarrow>
      es_entity_ref e \<noteq> em_entity_ref m \<and> es_feature_id e \<noteq> Some (em_feature_id m)"
  shows "differences ms t = differences ms s"
proof -
  have same: "actual_entity t (em_entity_ref m) = actual_entity s (em_entity_ref m)" if "m \<in> set ms" for m
    using that assms(3) by (intro actual_entity_cong [OF assms(1)]) fastforce
  have "filter (mapped_missing t) (by_operation ms op') = filter (mapped_missing s) (by_operation ms op')"
    "filter (mapped_mismatched t) (by_operation ms op') = filter (mapped_mismatched s) (by_operation ms op')" for op'
    using same by (auto simp: mapped_missing_def mapped_mismatched_def by_operation_def intro!: filter_cong)
  moreover have "filter (is_unexpected ms op') new = []" for op'
    using assms(3) by (fastforce simp: filter_empty_conv is_unexpected_def by_operation_def split: option.splits)
  ultimately have "operation_difference ms t op' = operation_difference ms s op'" for op'
    by (simp add: operation_difference_def assms(1,2))
  then show ?thesis by (simp add: differences_def)
qed

subsection \<open>What a commit adds to the in-memory drawing\<close>

definition creates_only :: "operation list \<Rightarrow> bool" where
  "creates_only ops \<longleftrightarrow> list_all (\<lambda>o'. op_type o' \<notin> {UPDATE_ENTITY, DELETE_ENTITY}) ops"

abbreviation entry_of :: "fake_entity \<Rightarrow> string \<times> fake_entity" where
  "entry_of e \<equiv> (fe_entity_ref e, e)"

abbreviation entity_key :: "fake_entity \<Rightarrow> string \<times> string \<times> string" where
  "entity_key e \<equiv> (fe_entity_ref e, fe_feature_id e, fe_operation_id e)"

abbreviation result_key :: "entity_result \<Rightarrow> string \<times> string \<times> string" where
  "result_key r \<equiv> (er_entity_ref r, er_feature_id r, er_operation_id r)"

lemma dset_fresh: "k \<notin> fst ` set d \<Longrightarrow> dset d k v = d @ [(k, v)]"
  by (induction d k v rule: dset.induct) auto

lemma dset_same: "map_of d k = Some v \<Longrightarrow> dset d k v = d"
  by (induction d k v rule: dset.induct) (auto split: if_splits)

lemma fold_dset_fresh:
  "distinct (map fe_entity_ref es) \<Longrightarrow> fe_entity_ref ` set es \<inter> fst ` set d = {} \<Longrightarrow>
   fold (\<lambda>e d. dset d (fe_entity_ref e) e) es d = d @ map entry_of es"
proof (induction es arbitrary: d)
  case (Cons e es)
  then have "dset d (fe_entity_ref e) e = d @ [entry_of e]" by (intro dset_fresh) auto
  moreover have "fold (\<lambda>e d. dset d (fe_entity_ref e) e) es (d @ [entry_of e]) = (d @ [entry_of e]) @ map entry_of es"
    using Cons.prems by (intro Cons.IH) auto
  ultimately show ?case by simp
qed simp

lemma build_circles_keys:
  "p \<in> set (build_circles o' cnt d cs n) \<Longrightarrow> entity_key (fst p) = result_key (snd p)"
  by (induction cs arbitrary: n) (auto simp: result_for_def Let_def)

lemma build_entities_keys:
  "build_entities o' n = Inr (b, m) \<Longrightarrow> map (entity_key \<circ> fst) b = map (result_key \<circ> snd) b"
  by (auto simp: build_entities_def bindR_Inr_iff Let_def result_for_def dest!: build_circles_keys split: if_splits)

lemma own_refs_keys: "own_refs n ws \<Longrightarrow> fst ` set ws \<subseteq> handle_ref ` {0<..n}"
  unfolding own_refs_def by fastforce

lemma fresh_handles:
  "own_refs n ws \<Longrightarrow> map fe_entity_ref es = map handle_ref [Suc n..<Suc m] \<Longrightarrow>
   distinct (map fe_entity_ref es) \<and> fe_entity_ref ` set es \<inter> fst ` set ws = {}"
proof -
  assume own: "own_refs n ws" and refs: "map fe_entity_ref es = map handle_ref [Suc n..<Suc m]"
  have "fe_entity_ref ` set es = handle_ref ` {Suc n..<Suc m}"
    using arg_cong [OF refs, of set] by (simp only: set_map set_upt)
  moreover have "handle_ref ` {Suc n..<Suc m} \<inter> handle_ref ` {0<..n} = {}" by (auto simp: handle_ref_inj)
  ultimately have "fe_entity_ref ` set es \<inter> fst ` set ws = {}" using own_refs_keys [OF own] by blast
  moreover have "inj_on handle_ref A" for A by (simp add: inj_on_def handle_ref_inj)
  then have "distinct (map fe_entity_ref es)" unfolding refs by (simp only: distinct_map distinct_upt simp_thms)
  ultimately show ?thesis by blast
qed

lemma stage_appends:
  "stage_operations ops ws n = Inr (rs, ws', m) \<Longrightarrow> creates_only ops \<Longrightarrow> own_refs n ws \<Longrightarrow>
   \<exists>es. ws' = ws @ map entry_of es \<and> map entity_key es = map result_key rs"
proof (induction ops arbitrary: ws n rs)
  case (Cons o' ops)
  let ?ws2 = "\<lambda>b. fold (\<lambda>(e, _) d. dset d (fe_entity_ref e) e) b ws"
  from Cons.prems(1,2) obtain b n1 rs1 where b: "build_entities o' n = Inr (b, n1)" and
    st: "stage_operations ops (?ws2 b) n1 = Inr (rs1, ws', m)" and rs: "rs = map snd b @ rs1"
    by (auto simp: execute_operation_def creates_only_def bindR_Inr_iff Let_def)
  from build_entities_refs(2) [OF b] have refs: "map fe_entity_ref (map fst b) = map handle_ref [Suc n..<Suc n1]"
    by simp
  have "?ws2 b = fold (\<lambda>e d. dset d (fe_entity_ref e) e) (map fst b) ws"
    by (simp add: fold_map comp_def case_prod_unfold)
  also have "\<dots> = ws @ map entry_of (map fst b)"
    using fresh_handles [OF Cons.prems(3) refs] by (intro fold_dset_fresh) auto
  finally have ws2: "?ws2 b = ws @ map entry_of (map fst b)" .
  have "fe_entity_ref ` fst ` set b \<subseteq> handle_ref ` {0<..n1}"
    using arg_cong [OF refs, of set] by (auto simp: image_image)
  then have "own_refs n1 (?ws2 b)"
    using own_refs_mono [OF Cons.prems(3)] build_entities_refs(1) [OF b] by (intro own_refs_fold_dset) auto
  from Cons.IH [OF st _ this] Cons.prems(2) obtain es where
    "ws' = ?ws2 b @ map entry_of es" "map entity_key es = map result_key rs1" by (auto simp: creates_only_def)
  moreover from build_entities_keys [OF b] have "map entity_key (map fst b) = map result_key (map snd b)" by simp
  ultimately show ?case unfolding ws2 rs by (intro exI [of _ "map fst b @ es"]) simp
qed simp

lemma apply_appends:
  assumes "distinct (map fst doc)" and "distinct (map fe_entity_ref es)"
    and "fe_entity_ref ` set es \<inter> fst ` set doc = {}" and "\<forall>(r, e) \<in> set doc. fe_entity_ref e = r"
  shows "apply_entities doc (doc @ map entry_of es) = doc @ map entry_of es"
proof -
  let ?f = "\<lambda>(ref, staged) d. case map_of d ref of None \<Rightarrow> dset d ref staged
    | Some existing \<Rightarrow> dset d ref (staged\<lparr>fe_entity_ref := fe_entity_ref existing\<rparr>)"
  have keep: "filter (\<lambda>(ref, _). map_of (doc @ map entry_of es) ref \<noteq> None) doc = doc"
    by (rule filter_True) (auto simp: map_of_eq_None_iff rev_image_eqI)
  have "fold ?f xs doc = doc" if "set xs \<subseteq> set doc" for xs
    using that
  proof (induction xs)
    case (Cons p xs)
    then obtain r e where p: "p = (r, e)" "(r, e) \<in> set doc" by (cases p) auto
    then have "map_of doc r = Some e" "fe_entity_ref e = r" using assms(1,4) by auto
    then have "?f p doc = doc" using p(1) by (simp add: dset_same)
    with Cons show ?case by simp
  qed simp
  moreover have "fold ?f (map entry_of xs) d = d @ map entry_of xs"
    if "distinct (map fe_entity_ref xs)" "fe_entity_ref ` set xs \<inter> fst ` set d = {}" for xs d
    using that
  proof (induction xs arbitrary: d)
    case (Cons e xs)
    then have fresh: "fe_entity_ref e \<notin> fst ` set d" by auto
    then have "map_of d (fe_entity_ref e) = None" by (simp add: map_of_eq_None_iff)
    then have "?f (entry_of e) d = d @ [entry_of e]" by (simp add: dset_fresh [OF fresh])
    moreover have "fold ?f (map entry_of xs) (d @ [entry_of e]) = (d @ [entry_of e]) @ map entry_of xs"
      using Cons.prems by (intro Cons.IH) auto
    ultimately show ?case by simp
  qed simp
  ultimately show ?thesis unfolding apply_entities_def keep using assms(2,3) by simp
qed

text \<open>The entities of a document and of its checkpoints are dictionaries: their keys are distinct.\<close>

definition keys_distinct :: "fake_adapter \<Rightarrow> bool" where
  "keys_distinct s \<longleftrightarrow> distinct (map fst (fd_entities (fk_document s))) \<and>
     (\<forall>(c, es) \<in> set (fd_snapshots (fk_document s)). distinct (map fst es))"

lemma apply_distinct:
  assumes "distinct (map fst doc)"
  shows "distinct (map fst (apply_entities doc ws))"
proof -
  let ?f = "\<lambda>(ref, staged) d. case map_of d ref of None \<Rightarrow> dset d ref staged
    | Some existing \<Rightarrow> dset d ref (staged\<lparr>fe_entity_ref := fe_entity_ref existing\<rparr>)"
  have "distinct (map fst d) \<Longrightarrow> distinct (map fst (fold ?f xs d))" for xs and d :: entities
    by (induction xs arbitrary: d) (auto simp: distinct_dset split: option.splits)
  moreover have "distinct (map fst (filter P doc))" for P using assms by (induction doc) auto
  ultimately show ?thesis unfolding apply_entities_def by blast
qed

lemma keys_distinct_checkpoint: "keys_distinct s \<Longrightarrow> keys_distinct (commit_checkpoint ids rq s)"
  using dset_subset [of "fd_snapshots (fk_document s)" "ids (fk_next_id s)" "fd_entities (fk_document s)"]
  by (auto simp: keys_distinct_def commit_checkpoint_def)

lemma keys_distinct_applied:
  "keys_distinct s \<Longrightarrow> keys_distinct (commit_applied ids rq ws m s)"
  using keys_distinct_checkpoint [of s ids rq]
  by (auto simp: keys_distinct_def commit_applied_def Let_def apply_distinct)

lemma keys_distinct_step:
  assumes "keys_distinct s"
  shows "keys_distinct (adapter_call_step sha ids c s)"
proof (cases c)
  case (CallCommit rq)
  have "fake_commit sha ids rq s = (fst (fake_commit sha ids rq s), snd (fake_commit sha ids rq s))" by simp
  then have "keys_distinct (snd (fake_commit sha ids rq s))"
  proof (cases rule: fake_commit_cases)
    case (refused e)
    from keys_distinct_checkpoint [OF assms, of ids rq] refused show ?thesis
      by (auto simp: keys_distinct_def Let_def dpop_def)
  next
    case (unrecorded e rs ws m)
    with keys_distinct_applied [OF assms] show ?thesis by simp
  next
    case (committed rs ws m h r)
    with keys_distinct_applied [OF assms] show ?thesis by (simp add: keys_distinct_def)
  qed (simp_all add: assms)
  with CallCommit show ?thesis by (simp add: adapter_call_step_def)
next
  case (CallRollback rq)
  from assms have "distinct (map fst saved)"
    if "map_of (fd_snapshots (fk_document s)) k = Some saved" for k saved
    using map_of_SomeD [OF that] by (auto simp: keys_distinct_def)
  then show ?thesis using assms CallRollback
    by (cases rule: fake_rollback_cases [of sha rq s]) (auto simp: adapter_call_step_def keys_distinct_def)
qed

lemma keys_distinct_run: "keys_distinct (adapter_run sha ids cs (fake_start doc))"
proof (rule adapter_run_induct [where P = keys_distinct])
  show "keys_distinct (fake_start doc)" by (simp add: keys_distinct_def fake_start_def)
qed (rule keys_distinct_step)

text \<open>A commit that only creates appends one entity per result.\<close>

lemma commit_staged:
  assumes "fake_commit sha ids rq s = (Inr r, t)" "\<not> already_recorded rq s"
  shows "\<exists>ws m. stage_operations (pl_operations (cq_plan rq)) (fd_entities (fk_document s)) (fk_entity_counter s) =
      Inr (cr_entity_results r, ws, m) \<and> fd_entities (fk_document t) = apply_entities (fd_entities (fk_document s)) ws \<and>
    document_revision sha (fk_document s) = Inr (cq_expected_revision rq)"
  using assms by (cases rule: fake_commit_cases) (auto simp: already_recorded_def commit_applied_def Let_def)

lemma commit_appends:
  assumes s: "own_refs (fk_entity_counter s) (fd_entities (fk_document s))" "keys_distinct s"
    and commit: "fake_commit sha ids rq s = (Inr r, t)" "\<not> already_recorded rq s"
    and ops: "creates_only (pl_operations (cq_plan rq))"
  shows "\<exists>es. fd_entities (fk_document t) = fd_entities (fk_document s) @ map entry_of es \<and>
    map entity_key es = map result_key (cr_entity_results r) \<and>
    distinct (map fe_entity_ref es) \<and> fe_entity_ref ` set es \<inter> fst ` set (fd_entities (fk_document s)) = {} \<and>
    document_revision sha (fk_document s) = Inr (cq_expected_revision rq) \<and>
    document_revision sha (fk_document t) = Inr (cr_new_revision r)"
proof -
  let ?d = "fd_entities (fk_document s)" and ?n = "fk_entity_counter s"
  from commit_staged [OF commit] obtain ws m where
    st: "stage_operations (pl_operations (cq_plan rq)) ?d ?n = Inr (cr_entity_results r, ws, m)"
    and t: "fd_entities (fk_document t) = apply_entities ?d ws"
    and rev: "document_revision sha (fk_document s) = Inr (cq_expected_revision rq)" by blast
  from stage_appends [OF st ops s(1)] obtain es where es: "ws = ?d @ map entry_of es"
    "map entity_key es = map result_key (cr_entity_results r)" by blast
  have "map fe_entity_ref es = map er_entity_ref (cr_entity_results r)"
    using arg_cong [OF es(2), of "map fst"] by (simp add: comp_def)
  also have "\<dots> = map handle_ref [Suc ?n..<Suc m]"
    using stage_creates [OF st] ops by (simp add: creates_only_def del: upt_Suc)
  finally have fresh: "distinct (map fe_entity_ref es)" "fe_entity_ref ` set es \<inter> fst ` set ?d = {}"
    using fresh_handles [OF s(1)] by blast+
  have "\<forall>(x, e) \<in> set ?d. fe_entity_ref e = x" using s(1) by (auto simp: own_refs_def)
  with apply_appends [of ?d es] fresh s(2) es(1) t
  have "fd_entities (fk_document t) = ?d @ map entry_of es" by (simp add: keys_distinct_def)
  with es(2) fresh rev commit_facts(1) [OF commit] show ?thesis by blast
qed

subsection \<open>What reconciliation can tell\<close>

definition mappings_stored :: "entity_mapping list \<Rightarrow> entity_result list \<Rightarrow> bool" where
  "mappings_stored ms rs \<longleftrightarrow> (\<forall>r \<in> set rs.
     (\<exists>m \<in> set ms. em_operation_id m = er_operation_id r \<and> em_entity_ref m = er_entity_ref r) \<and>
     (\<forall>m \<in> set ms. em_entity_ref m = er_entity_ref r \<longrightarrow> em_feature_id m = er_feature_id r))"

definition mappings_absent :: "entity_mapping list \<Rightarrow> entity_result list \<Rightarrow> bool" where
  "mappings_absent ms rs \<longleftrightarrow> (\<forall>r \<in> set rs. \<forall>m \<in> set ms.
     em_entity_ref m \<noteq> er_entity_ref r \<and> em_feature_id m \<noteq> er_feature_id r)"

lemma summary_fields [simp]:
  "es_entity_ref (entity_summary_of e) = fe_entity_ref e" "es_feature_id (entity_summary_of e) = Some (fe_feature_id e)"
  by (simp_all add: entity_summary_of_def)

lemma fake_snapshot:
  assumes "document_revision sha (fk_document s) = Inr v" and "length (fd_entities (fk_document s)) \<le> 200"
    and "200 \<le> sq_max_entities rq"
  shows "\<exists>snap. fake_inspect_selection sha rq s = (Inr snap, s) \<and> \<not> ss_truncated snap \<and>
    ss_entities snap = map (entity_summary_of \<circ> snd) (fd_entities (fk_document s))"
proof -
  have "slice_to (sq_max_entities rq) (map snd (fd_entities (fk_document s))) = map snd (fd_entities (fk_document s))"
    using assms(2,3) by (simp add: slice_to_def)
  with assms(1) show ?thesis by (simp add: fake_inspect_selection_def Let_def)
qed

lemma reconcile_small:
  assumes "document_revision sha (fk_document s) = Inr v" and "length (fd_entities (fk_document s)) \<le> 200"
    and "get_job st jid = Some job" and "cj_state job = UNKNOWN_COMMIT_STATE"
  shows "\<exists>snap rep. reconcile (fake_inspect_selection sha) st jid s = (Inr rep, s) \<and> \<not> ss_truncated snap \<and>
    ss_entities snap = map (entity_summary_of \<circ> snd) (fd_entities (fk_document s)) \<and>
    rn_differences rep = differences (entity_mappings_for st (cj_document_id job)) snap"
proof -
  let ?rq = "\<lparr>sq_document_id = cj_document_id job,
    sq_max_entities = max 200 (int (length (entity_mappings_for st (cj_document_id job))) * 2)\<rparr>"
  from fake_snapshot [OF assms(1,2), of ?rq] obtain snap where
    snap: "fake_inspect_selection sha ?rq s = (Inr snap, s)" "\<not> ss_truncated snap"
    "ss_entities snap = map (entity_summary_of \<circ> snd) (fd_entities (fk_document s))" by auto
  then show ?thesis using assms(3,4) by (auto simp: reconcile_def Let_def bindP_def retP_def)
qed


definition demo_unknown_store :: "entity_mapping list \<Rightarrow> job_store" where
  "demo_unknown_store ms = empty_store\<lparr>
     st_jobs := [(''job_1'', (new_job ''job_1'' ''doc_1'' ''r0'' 0)\<lparr>cj_state := UNKNOWN_COMMIT_STATE\<rparr>)],
     st_entity_mappings := ms\<rparr>"

definition demo_mapping :: entity_mapping where
  "demo_mapping = \<lparr>em_document_id = ''doc_1'', em_feature_id = ''f1'', em_operation_id = ''op_1'',
     em_entity_ref = handle_ref 1, em_last_revision = ''r1'', em_expected_layer = Some ''TEXT''\<rparr>"

lemma demo_results:
  "fake_commit demo_sha demo_ids (demo_request ''k'') (fake_start ''doc_1'') = (Inr r, t) \<Longrightarrow>
   cr_entity_results r = [result_for demo_text (handle_ref 1) ''AcDbText'' [(''text'', PStr ''A'')]] \<and>
   fd_entities (fk_document t) = [(handle_ref 1, demo_entity)]"
  using commit_staged [OF _ demo_not_recorded]
  by (fastforce simp: fake_start_def demo_request_def demo_stage demo_apply simp del: stage_operations.simps One_nat_def)


end
