(* ===== verification/Spec2Isabelle.thy ===== *)
theory Spec2Isabelle
  imports RollbackGuarantees ValidationRules SqlStoreRefinement RuleGuarantees RecognitionGuarantees Reconciliation
begin

text \<open>
  A verification library for the AutoCAD mechanical harness (\<open>src/src/cad_harness\<close>). The program
  lets a language-model client describe a drawing, compiles the description to a plan of CAD
  operations, has an engineer approve exactly that plan for exactly one document revision, commits it
  once under a writer lease and can roll it back. It also reads drawings: it assembles their contours,
  recognises features and measures. The theories follow the program's own modules; paths below are
  relative to \<open>src/src/cad_harness\<close>.

  Foundations. Prelude has results (\<open>bindR\<close>, \<open>traverse\<close>, \<open>fold_res\<close>), programs over a state that may
  raise, ordered dictionaries and strings. PyValue has Python values as JSON sees them. Errors is
  \<open>domain/errors.py\<close>. Canonical is \<open>domain/canonical.py\<close>: canonical JSON and the plan hash.

  Workflow data. JobModel (\<open>domain/models/job.py\<close>: states and transition table). PlanModel
  (\<open>operation_plan.py\<close>, \<open>result.py\<close> and the requests of the adapter port). StoreModel
  (\<open>drawing_spec.py\<close> and \<open>persistence/memory_store.py\<close>). ValidationModel and ValidationRules (findings,
  reports, engine, company profile; standard, layout and post-commit rules).

  Safety machinery. LeaseModel and LeaseService (one writer per document, heartbeats over an explicit
  list of wake-up times). TokenCodec and Approval (approval, rollback and recovery tokens). AuditTrail
  (redaction and both hash chains).

  CAD side. Geometry, Curves, Areas and Cutouts (\<open>geometry/\<close>: primitives, intersections, curves,
  patterns, contours and their containment forest, outline constructions). AdapterModel (the port, its
  base class and the writer compatibility gate). FakeAdapter (\<open>adapters/fake.py\<close>: staging, atomic
  apply, replay, rollback). SemanticDiff (\<open>diff/semantic_diff.py\<close>).

  Harness service (\<open>application/services/harness_service.py\<close>). HarnessModel has the world a call acts on
  (adapter state, store, leases, audit trail, clock, fresh identifiers) and the helpers; HarnessWorkflow
  has job creation, specification, remediation entry, preview, validation, diff and approval;
  HarnessCommit has the whole of \<open>_commit\<close> in its own stages; HarnessRollback has rollback with its
  recovery journal, and export. HarnessLogic gives the triples for programs that raise, HarnessDemo the
  small configuration of the witnesses. CommitGuarantees and CommitReplay show what authorises a
  commit and that a repeated commit replays; ServiceSteps and ServiceHistory turn every public
  operation into a step of one transition relation and lift job life cycle and authorisation to whole
  histories of calls; RollbackGuarantees does the same for rollback. Reconciliation is
  \<open>application/services/reconciliation_service.py\<close> over one read of the drawing, and what its report
  can tell about a commit of unknown outcome.

  Persistence. RetryModel (\<open>persistence/retry.py\<close> and the transaction wrapper: the retry loop with its
  clock, sleep and the locks of other connections), SqlLeaseStore and SqlJobStore (each method as a
  transaction over tables with their constraints), StorePort (the abstract store a client can observe
  through its queries) and SqlStoreRefinement (the SQL store answers like the in-memory one).

  Drawings. DrawingModel (\<open>domain/models/drawing_model.py\<close>), Contours (\<open>comprehension/contours.py\<close>),
  Measure (\<open>geometry/measure.py\<close>), Measurement (\<open>application/services/measurement_service.py\<close>),
  Recognizer (\<open>comprehension/recognizer.py\<close> and \<open>domain/models/recognition.py\<close>),
  RecognitionGuarantees (a recognised hole or fillet recompiles to the geometry it was found as; what a
  measurement is bound to, and its symmetry).

  Compilation. FeatureModel (the compilers' contract and parameters), HoleCompilers, OutlineCompilers,
  RecognizedCompilers, PlateCompiler and CatalogRegistry (every compiler of \<open>feature_catalog/\<close> and the
  recursion through the registry), CatalogGuarantees (one lemma per compiler), AnnotationModel and
  AnnotationEngine (\<open>annotation/\<close>), PlanCompiler (\<open>feature_catalog/views.py\<close> and
  \<open>application/services/plan_compiler.py\<close>), PlanGuarantees and AnnotationGuarantees (the contract of a
  compiled plan; what is placed and what is left out). PlanRules, FeatureRules and AnnotationRules are the
  geometry, feature and annotation rules; RuleGuarantees shows what their silence means.

  How the parts interact. A specification goes through PlanCompiler to a plan; the harness stores it
  with its hash, validates it with the rules, shows the diff, records an approval whose token is
  bound to the hash and the revision, takes the lease of the document, checks everything again and
  calls the adapter. The outcome is measured by the post-commit rules and stored, so the same request
  replays. In HarnessModel the compiler, the drawing reader, the validation and the remediation compiler
  are parameters of the environment (\<open>hs_compile\<close> has the shape of \<open>PlanCompiler.compile_plan\<close>), so its
  theorems hold for every choice of them.

  How the model is built. A Python call that can raise is a value of \<open>exc + 'a\<close>; a method that
  changes its object is a program that returns its result and the new state, so a change made before
  an exception stays. Records carry the fields of the source classes with a prefix per class. Python
  dictionaries are association lists in insertion order. Strings are byte strings. Floats are real
  numbers with the three special values; rounding errors of binary64 are not modelled. Clocks, fresh
  identifiers, SHA-256, HMAC, the parsing of floats and time stamps, the raster trace service and the
  CAD adapters are parameters. A theorem that needs collision freedom of the digest states it as
  injectivity.

  Interfaces. \<open>lease_store\<close> (LeaseService) is what the lease service relies on, interpreted on the
  in-memory store (\<open>mem_lease\<close>) and on the SQL store (\<open>sql_lease\<close>). \<open>job_store_port\<close> (StorePort) is the
  contract of the job store, interpreted on both stores (\<open>mem_store\<close>, \<open>sql_store\<close>). \<open>versioned_writer\<close>
  (FakeAdapter) is optimistic concurrency, interpreted on the in-memory adapter (\<open>fake_writer\<close>).
  \<open>reading_port\<close> (CommitGuarantees) says that inspection does not change the drawing, interpreted on the
  in-memory adapter (\<open>fake_reads\<close>).

  Termination and bounds. Every loop of the code is a total function. The retry loop recurses on the
  attempts left; a theorem of RetryModel shows when the default policy is enough. Contour assembly
  decreases the number of unused edges. The depth of a contour node is computed with the list of nodes
  already seen, and the forest theorem shows that the cycle error does not occur; the recogniser's
  climb to the root takes the depth of the node as its number of steps. Compilers recurse on the feature
  tree, the canonical form on the size of the value. Heartbeats run over a finite list of wake-up times.

  Not modelled: the COM and named-pipe adapters and the drawing readers (input and output with an
  external program or file), the audit of finished drawings with its rules, the bill-of-material
  takeoff, raster tracing and the compilation of a remediation plan, YAML loading, preview and export
  writers, schema migrations, metrics and report tables, the retention service,
  isolated worker processes, operation time limits, client configuration and path policies, evidence
  attestation, the threads behind heartbeats, the MCP server, the command line, the desktop program and
  the scripts.
\<close>

end
